(* ===== verification/Prelude.thy ===== *)
theory Prelude
  imports Complex_Main "HOL-Library.Sublist" "HOL-Library.List_Lexorder" "HOL-Library.Char_ord"
begin

text \<open>
  Shared vocabulary of the development: the collections of simplification facts the component
  theories use, Python values (floats with their non-finite members, strings, time stamps, JSON),
  the number rendering of Python's \<^verbatim>\<open>:g\<close> format, results with errors, stable sorting by an
  arbitrary comparison (SQL's \<^verbatim>\<open>ORDER BY\<close>) and row updates by key.
\<close>

named_theorems row_simps
named_theorems status_simps

section \<open>Results\<close>

text \<open>A fallible operation returns \<open>Inl\<close> for the exception it raises and \<open>Inr\<close> for its value.\<close>

definition bindE :: "'e + 'a \<Rightarrow> ('a \<Rightarrow> 'e + 'b) \<Rightarrow> 'e + 'b" where
  "bindE m f = (case m of Inl e \<Rightarrow> Inl e | Inr x \<Rightarrow> f x)"

lemma bindE_simps [simp]:
  "bindE (Inl e) f = Inl e"
  "bindE (Inr x) f = f x"
  by (simp_all add: bindE_def)

lemma bindE_Inr_iff: "bindE m f = Inr y \<longleftrightarrow> (\<exists>x. m = Inr x \<and> f x = Inr y)"
  by (cases m) auto

lemma bindE_Inl_iff: "bindE m f = Inl e \<longleftrightarrow> m = Inl e \<or> (\<exists>x. m = Inr x \<and> f x = Inl e)"
  by (cases m) auto

definition guardE :: "bool \<Rightarrow> 'e \<Rightarrow> 'e + unit" where
  "guardE b e = (if b then Inr () else Inl e)"

lemma guardE_simps [simp]:
  "guardE True e = Inr ()"
  "guardE False e = Inl e"
  "guardE b e = Inr u \<longleftrightarrow> b"
  "guardE b e = Inl e' \<longleftrightarrow> \<not> b \<and> e' = e"
  by (auto simp: guardE_def)

fun mapE :: "('a \<Rightarrow> 'e + 'b) \<Rightarrow> 'a list \<Rightarrow> 'e + 'b list" where
  "mapE f [] = Inr []"
| "mapE f (x # xs) = bindE (f x) (\<lambda>y. bindE (mapE f xs) (\<lambda>ys. Inr (y # ys)))"

text \<open>A loop that threads a state through fallible calls and stops at the first exception.\<close>

fun foldE :: "('s \<Rightarrow> 'a \<Rightarrow> 'e + 's) \<Rightarrow> 's \<Rightarrow> 'a list \<Rightarrow> 'e + 's" where
  "foldE f s [] = Inr s"
| "foldE f s (x # xs) = bindE (f s x) (\<lambda>s'. foldE f s' xs)"

lemma foldE_append: "foldE f s (xs @ ys) = bindE (foldE f s xs) (\<lambda>s'. foldE f s' ys)"
  by (induction xs arbitrary: s) (auto simp: bindE_def split: sum.splits)

lemma foldE_invariant:
  assumes "foldE f s xs = Inr s'" and "P s"
    and "\<And>t x t'. P t \<Longrightarrow> x \<in> set xs \<Longrightarrow> f t x = Inr t' \<Longrightarrow> P t'"
  shows "P s'"
  using assms
proof (induction xs arbitrary: s)
  case Nil
  then show ?case by simp
next
  case (Cons x xs)
  from Cons.prems(1) obtain t where t: "f s x = Inr t" "foldE f t xs = Inr s'"
    by (auto simp: bindE_Inr_iff)
  have "P t" by (rule Cons.prems(3) [OF Cons.prems(2) _ t(1)]) simp
  with t(2) show ?case by (rule Cons.IH) (rule Cons.prems(3), simp_all)
qed

section \<open>Python values\<close>

text \<open>
  A Python float is not-a-number, an infinity or a finite double, whose exact value is rational.
  Comparisons follow IEEE 754: every comparison with a NaN is false except \<^verbatim>\<open>!=\<close>. The sign of
  zero, which no comparison of the program sees, is not kept.
\<close>

datatype pyfloat = FNaN | FNegInf | Fin rat | FPosInf

fun float_less :: "pyfloat \<Rightarrow> pyfloat \<Rightarrow> bool" where
  "float_less FNaN _ = False"
| "float_less _ FNaN = False"
| "float_less (Fin a) (Fin b) = (a < b)"
| "float_less FNegInf b = (b \<noteq> FNegInf)"
| "float_less (Fin _) b = (b = FPosInf)"
| "float_less FPosInf _ = False"

fun float_eq :: "pyfloat \<Rightarrow> pyfloat \<Rightarrow> bool" where
  "float_eq FNaN _ = False"
| "float_eq a b = (a = b)"

definition float_le :: "pyfloat \<Rightarrow> pyfloat \<Rightarrow> bool" where
  "float_le a b \<longleftrightarrow> float_less a b \<or> float_eq a b"

fun float_isfinite :: "pyfloat \<Rightarrow> bool" where
  "float_isfinite (Fin _) = True"
| "float_isfinite _ = False"

lemma float_isfinite_iff: "float_isfinite x \<longleftrightarrow> (\<exists>q. x = Fin q)"
  by (cases x) auto

lemma float_le_Fin [simp]: "float_le (Fin a) (Fin b) \<longleftrightarrow> a \<le> b"
  by (auto simp: float_le_def)

text \<open>Instants are microseconds since the epoch. A \<^verbatim>\<open>datetime\<close> is naive or aware of its zone.\<close>

type_synonym instant = int

datatype pydatetime = Naive int | Aware instant

definition seconds :: "int \<Rightarrow> int" where
  "seconds n = n * 1000000"

datatype json =
    JNull
  | JBool bool
  | JInt int
  | JNum pyfloat
  | JStr string
  | JTime pydatetime
  | JList "json list"
  | JObj "(string \<times> json) list"

type_synonym details = "(string \<times> json) list"

definition json_opt_str :: "string option \<Rightarrow> json" where
  "json_opt_str x = (case x of None \<Rightarrow> JNull | Some s \<Rightarrow> JStr s)"

text \<open>
  A \<^verbatim>\<open>uuid\<close> is its canonical lower-case text, so \<^verbatim>\<open>str\<close> is the identity and the byte order of the
  \<^verbatim>\<open>uuid\<close> column is the lexicographic order. Strings hold code points below 256.
\<close>

type_synonym uuid = string

definition py_isspace :: "char \<Rightarrow> bool" where
  "py_isspace c \<longleftrightarrow> of_char c \<in> {9, 10, 11, 12, 13, 28, 29, 30, 31, 32, 133, 160 :: nat}"

definition py_strip :: "string \<Rightarrow> string" where
  "py_strip s = rev (dropWhile py_isspace (rev (dropWhile py_isspace s)))"

lemma dropWhile_rev_Nil_iff: "dropWhile P (rev xs) = [] \<longleftrightarrow> (\<forall>x\<in>set xs. P x)"
  by (simp add: dropWhile_eq_Nil_conv)

lemma py_strip_Nil_iff: "py_strip s = [] \<longleftrightarrow> (\<forall>c\<in>set s. py_isspace c)"
proof
  assume "py_strip s = []"
  then have "\<forall>c\<in>set (dropWhile py_isspace s). py_isspace c"
    by (simp add: py_strip_def dropWhile_rev_Nil_iff)
  then have "dropWhile py_isspace s = []"
    by (metis hd_dropWhile hd_in_set)
  then show "\<forall>c\<in>set s. py_isspace c" by (simp add: dropWhile_eq_Nil_conv)
next
  assume "\<forall>c\<in>set s. py_isspace c"
  then have "dropWhile py_isspace s = []" by (metis dropWhile_eq_Nil_conv)
  then show "py_strip s = []" by (simp only: py_strip_def rev.simps dropWhile.simps)
qed

fun py_split_aux :: "char \<Rightarrow> string \<Rightarrow> string \<Rightarrow> string list" where
  "py_split_aux d acc [] = [rev acc]"
| "py_split_aux d acc (c # cs) =
     (if c = d then rev acc # py_split_aux d [] cs else py_split_aux d (c # acc) cs)"

definition py_split :: "char \<Rightarrow> string \<Rightarrow> string list" where
  "py_split d s = py_split_aux d [] s"

fun py_join :: "string \<Rightarrow> string list \<Rightarrow> string" where
  "py_join d [] = []"
| "py_join d [x] = x"
| "py_join d (x # y # ys) = x @ d @ py_join d (y # ys)"

section \<open>Numbers as text\<close>

fun nat_digits :: "nat \<Rightarrow> string" where
  "nat_digits n =
     (if n < 10 then [char_of (48 + n)] else nat_digits (n div 10) @ [char_of (48 + n mod 10)])"

declare nat_digits.simps [simp del]

definition int_str :: "int \<Rightarrow> string" where
  "int_str i = (if i < 0 then ''-'' @ nat_digits (nat (- i)) else nat_digits (nat i))"

lemma nat_digits_nonempty: "nat_digits n \<noteq> []"
  by (subst nat_digits.simps) simp

text \<open>
  Python's \<^verbatim>\<open>f"{x:g}"\<close>: six significant digits, rounded half to even from the exact value, in
  fixed notation for a decimal exponent from -4 to 5 and in scientific notation otherwise, with
  trailing zeros and a trailing point removed.
\<close>

definition round_half_even :: "rat \<Rightarrow> int" where
  "round_half_even q =
     (let f = \<lfloor>q\<rfloor>; d = q - of_int f in
      if d < 1/2 then f else if d > 1/2 then f + 1 else if even f then f else f + 1)"

definition floor_log10_ge1 :: "rat \<Rightarrow> int" where
  "floor_log10_ge1 a = int (length (nat_digits (nat \<lfloor>a\<rfloor>))) - 1"

definition floor_log10 :: "rat \<Rightarrow> int" where
  "floor_log10 a =
     (if a \<ge> 1 then floor_log10_ge1 a
      else let b = 1 / a; k = floor_log10_ge1 b in
        if b = 10 ^ nat k then - k else - k - 1)"

definition scale10 :: "rat \<Rightarrow> int \<Rightarrow> rat" where
  "scale10 a k = (if k \<ge> 0 then a * 10 ^ nat k else a / 10 ^ nat (- k))"

definition zero_pad :: "nat \<Rightarrow> string \<Rightarrow> string" where
  "zero_pad n s = replicate (n - length s) (CHR ''0'') @ s"

definition strip_zeros :: "string \<Rightarrow> string" where
  "strip_zeros s = rev (dropWhile (\<lambda>c. c = CHR ''0'') (rev s))"

definition with_fraction :: "string \<Rightarrow> string \<Rightarrow> string" where
  "with_fraction whole fr =
     (let f = strip_zeros fr in if f = [] then whole else whole @ ''.'' @ f)"

definition format_g_pos :: "rat \<Rightarrow> string" where
  "format_g_pos a =
     (let e0 = floor_log10 a;
          m0 = round_half_even (scale10 a (5 - e0));
          e = (if m0 = 1000000 then e0 + 1 else e0);
          m = (if m0 = 1000000 then 100000 else m0)
      in if - 4 \<le> e \<and> e < 6 then
           let k = nat (5 - e);
               ds = zero_pad (k + 1) (nat_digits (nat m));
               n = length ds - k
           in with_fraction (take n ds) (drop n ds)
         else
           let ds = nat_digits (nat m)
           in with_fraction (take 1 ds) (drop 1 ds)
              @ (if e < 0 then ''e-'' else ''e+'') @ zero_pad 2 (nat_digits (nat \<bar>e\<bar>)))"

fun format_g :: "pyfloat \<Rightarrow> string" where
  "format_g FNaN = ''nan''"
| "format_g FPosInf = ''inf''"
| "format_g FNegInf = ''-inf''"
| "format_g (Fin q) =
     (if q = 0 then ''0'' else if q < 0 then ''-'' @ format_g_pos (- q) else format_g_pos q)"

section \<open>Stable sorting by a comparison\<close>

text \<open>\<open>le x y\<close> says that \<open>x\<close> may stand before \<open>y\<close>. Equal rows keep their order.\<close>

fun insert_by :: "('a \<Rightarrow> 'a \<Rightarrow> bool) \<Rightarrow> 'a \<Rightarrow> 'a list \<Rightarrow> 'a list" where
  "insert_by le x [] = [x]"
| "insert_by le x (y # ys) = (if le x y then x # y # ys else y # insert_by le x ys)"

definition sort_by :: "('a \<Rightarrow> 'a \<Rightarrow> bool) \<Rightarrow> 'a list \<Rightarrow> 'a list" where
  "sort_by le xs = foldr (insert_by le) xs []"

lemma sort_by_simps [simp]:
  "sort_by le [] = []"
  "sort_by le (x # xs) = insert_by le x (sort_by le xs)"
  by (simp_all add: sort_by_def)

lemma set_insert_by [simp]: "set (insert_by le x xs) = insert x (set xs)"
  by (induction xs) auto

lemma set_sort_by [simp]: "set (sort_by le xs) = set xs"
  by (induction xs) auto

lemma length_insert_by [simp]: "length (insert_by le x xs) = Suc (length xs)"
  by (induction xs) auto

lemma length_sort_by [simp]: "length (sort_by le xs) = length xs"
  by (induction xs) auto

lemma distinct_insert_by [simp]: "distinct (insert_by le x xs) \<longleftrightarrow> x \<notin> set xs \<and> distinct xs"
  by (induction xs) auto

lemma distinct_sort_by [simp]: "distinct (sort_by le xs) \<longleftrightarrow> distinct xs"
  by (induction xs) auto

lemma sort_by_Nil_iff [simp]: "sort_by le xs = [] \<longleftrightarrow> xs = []"
  by (metis set_sort_by set_empty)

text \<open>
  The contract of an \<^verbatim>\<open>ORDER BY\<close> clause: its comparison is total and transitive, so that the
  sorted rows are pairwise ordered, the first row is a least one, and two row lists with the same
  members sort alike when the comparison is antisymmetric on them.
\<close>

locale row_order =
  fixes le :: "'a \<Rightarrow> 'a \<Rightarrow> bool"
  assumes le_total: "le x y \<or> le y x"
    and le_trans: "le x y \<Longrightarrow> le y z \<Longrightarrow> le x z"
begin

lemma sorted_insert_by: "sorted_wrt le xs \<Longrightarrow> sorted_wrt le (insert_by le x xs)"
proof (induction xs)
  case Nil
  then show ?case by simp
next
  case (Cons y ys)
  show ?case
  proof (cases "le x y")
    case True
    with Cons.prems show ?thesis by (auto intro: le_trans)
  next
    case False
    then have "le y x" using le_total by blast
    with Cons False show ?thesis by auto
  qed
qed

lemma sorted_sort_by: "sorted_wrt le (sort_by le xs)"
  by (induction xs) (auto intro: sorted_insert_by)

lemma sort_by_first_least:
  assumes "sort_by le xs = y # ys" and "x \<in> set xs"
  shows "le y x"
proof -
  have "x \<in> set (y # ys)" using assms by (metis set_sort_by)
  moreover have "sorted_wrt le (y # ys)" using assms(1) sorted_sort_by by metis
  moreover have "le y y" using le_total by blast
  ultimately show ?thesis by auto
qed

lemma insert_by_first: "\<forall>y \<in> set ys. le x y \<Longrightarrow> insert_by le x ys = x # ys"
  by (cases ys) simp_all

lemma filter_insert_by:
  "sorted_wrt le ys \<Longrightarrow>
     filter P (insert_by le x ys) = (if P x then insert_by le x (filter P ys) else filter P ys)"
proof (induction ys)
  case Nil
  then show ?case by simp
next
  case (Cons y ys)
  show ?case
  proof (cases "le x y")
    case True
    with Cons.prems have "\<forall>z \<in> set (filter P (y # ys)). le x z" by (auto intro: le_trans)
    from insert_by_first [OF this] True show ?thesis by simp
  next
    case False
    with Cons show ?thesis by auto
  qed
qed

text \<open>Selecting rows before or after sorting gives the same rows in the same order.\<close>

lemma filter_sort_by: "filter P (sort_by le xs) = sort_by le (filter P xs)"
  by (induction xs) (simp_all add: filter_insert_by sorted_sort_by)

lemma sort_by_first_member:
  assumes "sort_by le xs = y # ys"
  shows "y \<in> set xs"
  using assms set_sort_by [of le xs] by auto

end

section \<open>Row updates by key\<close>

text \<open>
  An ORM object that was read from the session is the row itself, so assigning its attributes
  updates the row with its primary key. \<open>update_rows key k f rows\<close> applies \<open>f\<close> to that row.
\<close>

definition update_rows :: "('r \<Rightarrow> 'k) \<Rightarrow> 'k \<Rightarrow> ('r \<Rightarrow> 'r) \<Rightarrow> 'r list \<Rightarrow> 'r list" where
  "update_rows key k f rows = map (\<lambda>r. if key r = k then f r else r) rows"

definition find_row :: "('r \<Rightarrow> 'k) \<Rightarrow> 'k \<Rightarrow> 'r list \<Rightarrow> 'r option" where
  "find_row key k rows = find (\<lambda>r. key r = k) rows"

lemma find_row_Some: "find_row key k rows = Some r \<Longrightarrow> r \<in> set rows \<and> key r = k"
  by (auto simp: find_row_def find_Some_iff)

lemma find_row_None [row_simps]: "find_row key k rows = None \<longleftrightarrow> k \<notin> key ` set rows"
  by (auto simp: find_row_def find_None_iff)

lemma find_row_Nil [row_simps]: "find_row key k [] = None"
  by (simp add: find_row_def)

lemma find_row_Cons [row_simps]:
  "find_row key k (r # rows) = (if key r = k then Some r else find_row key k rows)"
  by (simp add: find_row_def)

lemma find_row_unique:
  "distinct (map key rows) \<Longrightarrow> r \<in> set rows \<Longrightarrow> find_row key (key r) rows = Some r"
  by (induction rows) (auto simp: find_row_def)

lemma length_update_rows [row_simps]: "length (update_rows key k f rows) = length rows"
  by (simp add: update_rows_def)

lemma update_rows_Nil [row_simps]: "update_rows key k f [] = []"
  by (simp add: update_rows_def)

lemma update_rows_append [row_simps]:
  "update_rows key k f (xs @ ys) = update_rows key k f xs @ update_rows key k f ys"
  by (simp add: update_rows_def)

lemma map_key_update_rows [row_simps]:
  assumes "\<And>r. key r = k \<Longrightarrow> key (f r) = k"
  shows "map key (update_rows key k f rows) = map key rows"
  using assms by (auto simp: update_rows_def)

lemma map_update_rows_same [row_simps]:
  assumes "\<And>r. key r = k \<Longrightarrow> g (f r) = g r"
  shows "map g (update_rows key k f rows) = map g rows"
  using assms by (auto simp: update_rows_def)

lemma in_update_rowsE:
  assumes "r \<in> set (update_rows key k f rows)"
  obtains r0 where "r0 \<in> set rows" "key r0 = k" "r = f r0"
    | "r \<in> set rows" "key r \<noteq> k"
  using assms by (auto simp: update_rows_def split: if_splits)

lemma find_row_update_same [row_simps]:
  assumes "\<And>r. key r = k \<Longrightarrow> key (f r) = k"
  shows "find_row key k (update_rows key k f rows) = map_option f (find_row key k rows)"
  using assms by (induction rows) (auto simp: update_rows_def find_row_def)

lemma find_row_update_other [row_simps]:
  assumes "\<And>r. key r = k \<Longrightarrow> key (f r) = k" and "k' \<noteq> k"
  shows "find_row key k' (update_rows key k f rows) = find_row key k' rows"
  using assms by (induction rows) (auto simp: update_rows_def find_row_def)

section \<open>Event systems\<close>

text \<open>
  A component driven by requests: an initial state predicate and a step relation labelled by the
  request. An invariant that holds initially and that every step keeps holds in every reachable
  state.
\<close>

inductive reachable :: "('s \<Rightarrow> bool) \<Rightarrow> ('s \<Rightarrow> 'e \<Rightarrow> 's \<Rightarrow> bool) \<Rightarrow> 's \<Rightarrow> bool"
  for init :: "'s \<Rightarrow> bool" and step :: "'s \<Rightarrow> 'e \<Rightarrow> 's \<Rightarrow> bool" where
  reach_init: "init s \<Longrightarrow> reachable init step s"
| reach_step: "reachable init step s \<Longrightarrow> step s e t \<Longrightarrow> reachable init step t"

text \<open>Requests handled in order, a refused one changing nothing, stay inside the reachable states.\<close>

lemma reachable_foldl:
  assumes "reachable init step s" and "\<And>s x. f s x \<noteq> s \<Longrightarrow> step s (label x) (f s x)"
  shows "reachable init step (foldl f s xs)"
  using assms(1)
proof (induction xs arbitrary: s)
  case (Cons x xs)
  then have "reachable init step (f s x)" using reach_step [OF Cons.prems assms(2) [of s x]] by (cases "f s x = s") auto
  with Cons.IH show ?case by simp
qed simp

locale event_system =
  fixes init :: "'s \<Rightarrow> bool" and step :: "'s \<Rightarrow> 'e \<Rightarrow> 's \<Rightarrow> bool" and inv :: "'s \<Rightarrow> bool"
  assumes inv_init: "init s \<Longrightarrow> inv s"
    and inv_step: "inv s \<Longrightarrow> step s e t \<Longrightarrow> inv t"
begin

lemma inv_reachable: "reachable init step s \<Longrightarrow> inv s"
  by (induction rule: reachable.induct) (auto intro: inv_init inv_step)

end

end
