(* ===== verification/States.thy ===== *)
theory States
  imports Prelude
begin

text \<open>
  The status vocabularies of \<^verbatim>\<open>backend/app/incidents/states.py\<close>: alarm status, severity, priority
  and incident status as enumerations with their stored strings, the two guarded transition tables
  and the helpers over them. The tables are two instances of one interface, \<open>status_table\<close>: an
  enumeration with a stored text, its parser, and a declared set of next statuses.
\<close>

section \<open>Enumerations and their stored values\<close>

datatype AlarmStatus = ALARM_ACTIVE | ALARM_ACKNOWLEDGED | ALARM_CLEARED

fun alarm_status_value :: "AlarmStatus \<Rightarrow> string" where
  "alarm_status_value ALARM_ACTIVE = ''ACTIVE''"
| "alarm_status_value ALARM_ACKNOWLEDGED = ''ACKNOWLEDGED''"
| "alarm_status_value ALARM_CLEARED = ''CLEARED''"

definition alarm_statuses :: "AlarmStatus list" where
  "alarm_statuses = [ALARM_ACTIVE, ALARM_ACKNOWLEDGED, ALARM_CLEARED]"

datatype AlarmSeverity = SEV_INFO | SEV_MINOR | SEV_WARNING | SEV_MAJOR | SEV_CRITICAL

fun severity_value :: "AlarmSeverity \<Rightarrow> string" where
  "severity_value SEV_INFO = ''INFO''"
| "severity_value SEV_MINOR = ''MINOR''"
| "severity_value SEV_WARNING = ''WARNING''"
| "severity_value SEV_MAJOR = ''MAJOR''"
| "severity_value SEV_CRITICAL = ''CRITICAL''"

definition severities :: "AlarmSeverity list" where
  "severities = [SEV_INFO, SEV_MINOR, SEV_WARNING, SEV_MAJOR, SEV_CRITICAL]"

datatype AlarmPriority = PRI_LOW | PRI_MEDIUM | PRI_HIGH | PRI_URGENT

fun priority_value :: "AlarmPriority \<Rightarrow> string" where
  "priority_value PRI_LOW = ''LOW''"
| "priority_value PRI_MEDIUM = ''MEDIUM''"
| "priority_value PRI_HIGH = ''HIGH''"
| "priority_value PRI_URGENT = ''URGENT''"

definition priorities :: "AlarmPriority list" where
  "priorities = [PRI_LOW, PRI_MEDIUM, PRI_HIGH, PRI_URGENT]"

fun SEVERITY_ORDER :: "AlarmSeverity \<Rightarrow> int" where
  "SEVERITY_ORDER SEV_INFO = 0"
| "SEVERITY_ORDER SEV_MINOR = 1"
| "SEVERITY_ORDER SEV_WARNING = 2"
| "SEVERITY_ORDER SEV_MAJOR = 3"
| "SEVERITY_ORDER SEV_CRITICAL = 4"

fun PRIORITY_ORDER :: "AlarmPriority \<Rightarrow> int" where
  "PRIORITY_ORDER PRI_LOW = 0"
| "PRIORITY_ORDER PRI_MEDIUM = 1"
| "PRIORITY_ORDER PRI_HIGH = 2"
| "PRIORITY_ORDER PRI_URGENT = 3"

datatype IncidentStatus =
    INC_OPEN | INC_ACKNOWLEDGED | INC_INVESTIGATING | INC_UNDER_ANALYSIS | INC_ACTION_PENDING
  | INC_WORK_ORDER_CREATED | INC_MITIGATED | INC_RESOLVED | INC_CLOSED | INC_REOPENED
  | INC_CANCELLED

fun incident_status_value :: "IncidentStatus \<Rightarrow> string" where
  "incident_status_value INC_OPEN = ''OPEN''"
| "incident_status_value INC_ACKNOWLEDGED = ''ACKNOWLEDGED''"
| "incident_status_value INC_INVESTIGATING = ''INVESTIGATING''"
| "incident_status_value INC_UNDER_ANALYSIS = ''UNDER_ANALYSIS''"
| "incident_status_value INC_ACTION_PENDING = ''ACTION_PENDING''"
| "incident_status_value INC_WORK_ORDER_CREATED = ''WORK_ORDER_CREATED''"
| "incident_status_value INC_MITIGATED = ''MITIGATED''"
| "incident_status_value INC_RESOLVED = ''RESOLVED''"
| "incident_status_value INC_CLOSED = ''CLOSED''"
| "incident_status_value INC_REOPENED = ''REOPENED''"
| "incident_status_value INC_CANCELLED = ''CANCELLED''"

definition incident_statuses :: "IncidentStatus list" where
  "incident_statuses =
     [INC_OPEN, INC_ACKNOWLEDGED, INC_INVESTIGATING, INC_UNDER_ANALYSIS, INC_ACTION_PENDING,
      INC_WORK_ORDER_CREATED, INC_MITIGATED, INC_RESOLVED, INC_CLOSED, INC_REOPENED,
      INC_CANCELLED]"

text \<open>
  Calling an enumeration class on a string, \<^verbatim>\<open>AlarmStatus(value)\<close>, finds the member with that value
  and raises \<^verbatim>\<open>ValueError\<close> when there is none.
\<close>

definition parse_enum :: "('s \<Rightarrow> string) \<Rightarrow> 's list \<Rightarrow> string \<Rightarrow> 's option" where
  "parse_enum val members s = find (\<lambda>x. val x = s) members"

definition as_alarm_status :: "string \<Rightarrow> AlarmStatus option" where
  "as_alarm_status s = parse_enum alarm_status_value alarm_statuses s"

definition as_severity :: "string \<Rightarrow> AlarmSeverity option" where
  "as_severity s = parse_enum severity_value severities s"

definition as_incident_status :: "string \<Rightarrow> IncidentStatus option" where
  "as_incident_status s = parse_enum incident_status_value incident_statuses s"

section \<open>Transition tables\<close>

fun ALARM_TRANSITIONS :: "AlarmStatus \<Rightarrow> AlarmStatus list" where
  "ALARM_TRANSITIONS ALARM_ACTIVE = [ALARM_ACKNOWLEDGED, ALARM_CLEARED]"
| "ALARM_TRANSITIONS ALARM_ACKNOWLEDGED = [ALARM_CLEARED, ALARM_ACTIVE]"
| "ALARM_TRANSITIONS ALARM_CLEARED = []"

definition OPEN_ALARM_STATUSES :: "AlarmStatus list" where
  "OPEN_ALARM_STATUSES = [ALARM_ACTIVE, ALARM_ACKNOWLEDGED]"

definition is_alarm_transition_allowed :: "AlarmStatus \<Rightarrow> AlarmStatus \<Rightarrow> bool" where
  "is_alarm_transition_allowed current target \<longleftrightarrow> target \<in> set (ALARM_TRANSITIONS current)"

definition describe_alarm_transitions :: "AlarmStatus \<Rightarrow> string list" where
  "describe_alarm_transitions current = sort (map alarm_status_value (ALARM_TRANSITIONS current))"

definition open_alarm_status_values :: "string list" where
  "open_alarm_status_values = sort (map alarm_status_value OPEN_ALARM_STATUSES)"

definition severity_at_least :: "string option \<Rightarrow> AlarmSeverity \<Rightarrow> bool" where
  "severity_at_least candidate flr =
     (case candidate of None \<Rightarrow> False
      | Some c \<Rightarrow>
          (case as_severity c of None \<Rightarrow> False
           | Some parsed \<Rightarrow> SEVERITY_ORDER parsed \<ge> SEVERITY_ORDER flr))"

definition OPEN_INCIDENT_STATUSES :: "IncidentStatus list" where
  "OPEN_INCIDENT_STATUSES =
     [INC_OPEN, INC_ACKNOWLEDGED, INC_INVESTIGATING, INC_UNDER_ANALYSIS, INC_ACTION_PENDING,
      INC_WORK_ORDER_CREATED, INC_MITIGATED, INC_REOPENED]"

definition TERMINAL_INCIDENT_STATUSES :: "IncidentStatus list" where
  "TERMINAL_INCIDENT_STATUSES = [INC_CLOSED, INC_CANCELLED]"

fun INCIDENT_TRANSITIONS :: "IncidentStatus \<Rightarrow> IncidentStatus list" where
  "INCIDENT_TRANSITIONS INC_OPEN = [INC_ACKNOWLEDGED, INC_CANCELLED, INC_UNDER_ANALYSIS]"
| "INCIDENT_TRANSITIONS INC_ACKNOWLEDGED = [INC_INVESTIGATING, INC_CANCELLED, INC_UNDER_ANALYSIS]"
| "INCIDENT_TRANSITIONS INC_INVESTIGATING = [INC_MITIGATED, INC_UNDER_ANALYSIS]"
| "INCIDENT_TRANSITIONS INC_UNDER_ANALYSIS = [INC_ACTION_PENDING, INC_MITIGATED]"
| "INCIDENT_TRANSITIONS INC_ACTION_PENDING = [INC_WORK_ORDER_CREATED]"
| "INCIDENT_TRANSITIONS INC_WORK_ORDER_CREATED = [INC_MITIGATED]"
| "INCIDENT_TRANSITIONS INC_MITIGATED = [INC_RESOLVED]"
| "INCIDENT_TRANSITIONS INC_RESOLVED = [INC_CLOSED]"
| "INCIDENT_TRANSITIONS INC_CLOSED = [INC_REOPENED]"
| "INCIDENT_TRANSITIONS INC_REOPENED = [INC_INVESTIGATING]"
| "INCIDENT_TRANSITIONS INC_CANCELLED = []"

definition is_incident_transition_allowed :: "IncidentStatus \<Rightarrow> IncidentStatus \<Rightarrow> bool" where
  "is_incident_transition_allowed current target \<longleftrightarrow> target \<in> set (INCIDENT_TRANSITIONS current)"

definition describe_incident_transitions :: "IncidentStatus \<Rightarrow> string list" where
  "describe_incident_transitions current =
     sort (map incident_status_value (INCIDENT_TRANSITIONS current))"

definition open_incident_status_values :: "string list" where
  "open_incident_status_values = sort (map incident_status_value OPEN_INCIDENT_STATUSES)"

section \<open>The status table interface\<close>

text \<open>
  What the lifecycle services rely on: the stored text of a status determines it, every member is
  listed, and the statuses with no way out are exactly the given ones. The client lemmas say what a
  check of a stored status against the table means.
\<close>

definition check_move ::
  "(string \<Rightarrow> 's option) \<Rightarrow> ('s \<Rightarrow> 's list) \<Rightarrow> string \<Rightarrow> 's \<Rightarrow> bool" where
  "check_move parse nxt stored target =
     (case parse stored of None \<Rightarrow> False | Some current \<Rightarrow> target \<in> set (nxt current))"

locale status_table =
  fixes val :: "'s \<Rightarrow> string" and members :: "'s list" and parse :: "string \<Rightarrow> 's option"
    and nxt :: "'s \<Rightarrow> 's list" and live :: "'s list"
  assumes parse_is: "parse = parse_enum val members"
    and all_members: "x \<in> set members"
    and val_inj: "val x = val y \<Longrightarrow> x = y"
    and dead_no_exit: "nxt x = [] \<Longrightarrow> x \<notin> set live"
begin

lemma parse_val: "parse (val x) = Some x"
proof (cases "parse (val x)")
  case None
  then show ?thesis using all_members [of x] by (auto simp: parse_is parse_enum_def find_None_iff)
next
  case (Some y)
  then have "val y = val x" by (auto simp: parse_is parse_enum_def find_Some_iff)
  with Some show ?thesis by (simp add: val_inj)
qed

lemma parse_Some_iff: "parse s = Some x \<longleftrightarrow> s = val x"
proof
  assume "parse s = Some x"
  then show "s = val x" by (auto simp: parse_is parse_enum_def find_Some_iff)
next
  assume "s = val x"
  then show "parse s = Some x" by (simp add: parse_val)
qed

lemma check_move_val [simp]: "check_move parse nxt (val x) target \<longleftrightarrow> target \<in> set (nxt x)"
  by (simp add: check_move_def parse_val)

lemma check_move_iff:
  "check_move parse nxt stored target \<longleftrightarrow> (\<exists>x. stored = val x \<and> target \<in> set (nxt x))"
  by (cases "parse stored") (auto simp: check_move_def parse_Some_iff parse_val dest: val_inj)

lemma dead_is_final: "nxt x = [] \<Longrightarrow> \<not> check_move parse nxt (val x) target"
  by simp

end

interpretation alarm_table:
  status_table alarm_status_value alarm_statuses as_alarm_status ALARM_TRANSITIONS
    OPEN_ALARM_STATUSES
proof
  show "as_alarm_status = parse_enum alarm_status_value alarm_statuses"
    by (simp add: as_alarm_status_def fun_eq_iff)
  show "x \<in> set alarm_statuses" for x
    by (cases x) (simp_all add: alarm_statuses_def)
  show "alarm_status_value x = alarm_status_value y \<Longrightarrow> x = y" for x y
    by (cases x; cases y) simp_all
  show "ALARM_TRANSITIONS x = [] \<Longrightarrow> x \<notin> set OPEN_ALARM_STATUSES" for x
    by (cases x) (simp_all add: OPEN_ALARM_STATUSES_def)
qed

interpretation incident_table:
  status_table incident_status_value incident_statuses as_incident_status INCIDENT_TRANSITIONS
    OPEN_INCIDENT_STATUSES
proof
  show "as_incident_status = parse_enum incident_status_value incident_statuses"
    by (simp add: as_incident_status_def fun_eq_iff)
  show "x \<in> set incident_statuses" for x
    by (cases x) (simp_all add: incident_statuses_def)
  show "incident_status_value x = incident_status_value y \<Longrightarrow> x = y" for x y
    by (cases x; cases y) simp_all
  show "INCIDENT_TRANSITIONS x = [] \<Longrightarrow> x \<notin> set OPEN_INCIDENT_STATUSES" for x
    by (cases x) (simp_all add: OPEN_INCIDENT_STATUSES_def)
qed

lemmas as_alarm_status_value [simp] = alarm_table.parse_val
lemmas as_incident_status_value [simp] = incident_table.parse_val

lemma alarm_value_ACTIVE: "''ACTIVE'' = alarm_status_value s \<Longrightarrow> s = ALARM_ACTIVE"
  by (cases s) simp_all

lemma as_severity_value [simp]: "as_severity (severity_value x) = Some x"
  by (cases x) (simp_all add: as_severity_def parse_enum_def severities_def)

lemma as_severity_Some_iff: "as_severity s = Some x \<longleftrightarrow> s = severity_value x"
proof
  assume "as_severity s = Some x"
  then show "s = severity_value x"
    by (auto simp: as_severity_def parse_enum_def find_Some_iff)
qed simp

lemma SEVERITY_ORDER_inj: "SEVERITY_ORDER x = SEVERITY_ORDER y \<longleftrightarrow> x = y"
  by (cases x; cases y) simp_all

lemma SEVERITY_ORDER_range: "0 \<le> SEVERITY_ORDER x \<and> SEVERITY_ORDER x \<le> 4"
  by (cases x) simp_all

lemma open_incident_status_values_iff:
  "incident_status_value x \<in> set open_incident_status_values \<longleftrightarrow>
     x \<notin> {INC_RESOLVED, INC_CLOSED, INC_CANCELLED}"
  by (cases x) (simp_all add: open_incident_status_values_def OPEN_INCIDENT_STATUSES_def)

end
