(* ===== verification/WorkflowContracts.thy ===== *)
theory WorkflowContracts
  imports States
begin

text \<open>
  The typed contracts of \<^verbatim>\<open>backend/app/workflow/contracts.py\<close> and the query contracts of
  \<^verbatim>\<open>backend/app/knowledge/contracts.py\<close>: enumerations with their stored text, the state the agent
  graph carries, and the length constraints the schemas put on an agent's output. The creation and
  update stamps inside the state are not kept.
\<close>

section \<open>Enumerations\<close>

datatype WorkflowStatus =
    WF_CREATED | WF_TRIAGING | WF_TRIAGED | WF_PLANNING | WF_PLAN_READY | WF_SAFETY_REVIEW
  | WF_BLOCKED | WF_REQUIRES_APPROVAL | WF_WAITING_APPROVAL | WF_APPROVED | WF_REJECTED
  | WF_AUTO_ALLOWED | WF_WORK_ORDER_CREATED | WF_CANCELLED | WF_FAILED

datatype PolicyDecisionType = PD_BLOCKED | PD_REQUIRES_APPROVAL | PD_AUTO_ALLOWED

datatype ActionType =
    ACT_OBSERVE | ACT_INSPECT | ACT_MEASURE | ACT_TEST | ACT_ADJUST | ACT_STOP | ACT_ISOLATE
  | ACT_LOCKOUT_TAGOUT | ACT_DISASSEMBLE | ACT_REPLACE | ACT_RESTART | ACT_ESCALATE

fun workflow_status_value :: "WorkflowStatus \<Rightarrow> string" where
  "workflow_status_value WF_CREATED = ''CREATED''"
| "workflow_status_value WF_TRIAGING = ''TRIAGING''"
| "workflow_status_value WF_TRIAGED = ''TRIAGED''"
| "workflow_status_value WF_PLANNING = ''PLANNING''"
| "workflow_status_value WF_PLAN_READY = ''PLAN_READY''"
| "workflow_status_value WF_SAFETY_REVIEW = ''SAFETY_REVIEW''"
| "workflow_status_value WF_BLOCKED = ''BLOCKED''"
| "workflow_status_value WF_REQUIRES_APPROVAL = ''REQUIRES_APPROVAL''"
| "workflow_status_value WF_WAITING_APPROVAL = ''WAITING_APPROVAL''"
| "workflow_status_value WF_APPROVED = ''APPROVED''"
| "workflow_status_value WF_REJECTED = ''REJECTED''"
| "workflow_status_value WF_AUTO_ALLOWED = ''AUTO_ALLOWED''"
| "workflow_status_value WF_WORK_ORDER_CREATED = ''WORK_ORDER_CREATED''"
| "workflow_status_value WF_CANCELLED = ''CANCELLED''"
| "workflow_status_value WF_FAILED = ''FAILED''"

fun action_value :: "ActionType \<Rightarrow> string" where
  "action_value ACT_OBSERVE = ''OBSERVE''"
| "action_value ACT_INSPECT = ''INSPECT''"
| "action_value ACT_MEASURE = ''MEASURE''"
| "action_value ACT_TEST = ''TEST''"
| "action_value ACT_ADJUST = ''ADJUST''"
| "action_value ACT_STOP = ''STOP''"
| "action_value ACT_ISOLATE = ''ISOLATE''"
| "action_value ACT_LOCKOUT_TAGOUT = ''LOCKOUT_TAGOUT''"
| "action_value ACT_DISASSEMBLE = ''DISASSEMBLE''"
| "action_value ACT_REPLACE = ''REPLACE''"
| "action_value ACT_RESTART = ''RESTART''"
| "action_value ACT_ESCALATE = ''ESCALATE''"

text \<open>\<^verbatim>\<open>WorkflowStatus(decision.decision)\<close>: the status with the same text as the decision.\<close>

fun status_of_decision :: "PolicyDecisionType \<Rightarrow> WorkflowStatus" where
  "status_of_decision PD_BLOCKED = WF_BLOCKED"
| "status_of_decision PD_REQUIRES_APPROVAL = WF_REQUIRES_APPROVAL"
| "status_of_decision PD_AUTO_ALLOWED = WF_AUTO_ALLOWED"

section \<open>Graph state\<close>

record diagnosis_snapshot =
  ds_id :: uuid
  ds_status :: string
  ds_fault_type :: "string option"
  ds_confidence :: "pyfloat option"
  ds_severity :: "string option"
  ds_model_version :: "string option"

record sensor_evidence =
  se_signal :: string
  se_observation :: pyfloat
  se_normal_baseline :: pyfloat
  se_deviation :: pyfloat
  se_trend :: string

record knowledge_evidence =
  ke_evidence_id :: string
  ke_document_id :: string
  ke_chunk_id :: string
  ke_text :: string
  ke_source :: string
  ke_page :: "int option"
  ke_section :: "string option"

record knowledge_context =
  kc_retrieval_run_id :: "uuid option"
  kc_sufficiency :: string
  kc_evidence :: "knowledge_evidence list"

record triage_result =
  tr_problem_summary :: string

record maintenance_step =
  ms_action :: string
  ms_action_type :: ActionType
  ms_evidence_ids :: "string list"

record maintenance_plan_output =
  mp_objective :: string
  mp_steps :: "maintenance_step list"

record safety_review =
  sr_hazards :: "string list"
  sr_violations :: "string list"

record policy_decision =
  pd_decision :: PolicyDecisionType
  pd_policy_version :: string
  pd_reasons :: "string list"

record approval_snapshot =
  as_approval_id :: uuid
  as_status :: string
  as_actor :: "string option"
  as_reason :: "string option"
  as_plan_version :: int
  as_plan_hash :: string
  as_decided_at :: "instant option"

record workflow_error =
  we_stage :: string
  we_code :: string
  we_message :: string
  we_retryable :: bool

record workflow_state =
  ws_workflow_run_id :: uuid
  ws_trace_id :: string
  ws_device_id :: string
  ws_incident_id :: uuid
  ws_diagnosis_id :: uuid
  ws_diagnosis :: diagnosis_snapshot
  ws_sensor_evidence :: "sensor_evidence list"
  ws_knowledge_context :: knowledge_context
  ws_triage_result :: "triage_result option"
  ws_maintenance_plan :: "maintenance_plan_output option"
  ws_safety_review :: "safety_review option"
  ws_policy_decision :: "policy_decision option"
  ws_approval :: "approval_snapshot option"
  ws_work_order_id :: "uuid option"
  ws_current_stage :: string
  ws_status :: WorkflowStatus
  ws_attempt_count :: int
  ws_errors :: "workflow_error list"
  ws_provider :: string
  ws_model :: string
  ws_policy_version :: string
  ws_workflow_version :: string
  ws_plan_version :: int

record agent_invocation =
  inv_diagnosis :: diagnosis_snapshot
  inv_sensor_evidence :: "sensor_evidence list"
  inv_knowledge_context :: knowledge_context
  inv_triage_result :: "triage_result option"
  inv_maintenance_plan :: "maintenance_plan_output option"

section \<open>Schema constraints\<close>

definition text_between :: "nat \<Rightarrow> nat \<Rightarrow> string \<Rightarrow> bool" where
  "text_between lo hi s \<longleftrightarrow> lo \<le> length s \<and> length s \<le> hi"

definition triage_ok :: "triage_result \<Rightarrow> bool" where
  "triage_ok t \<longleftrightarrow> text_between 3 1000 (tr_problem_summary t)"

definition step_ok :: "maintenance_step \<Rightarrow> bool" where
  "step_ok s \<longleftrightarrow> text_between 3 1000 (ms_action s) \<and> ms_evidence_ids s \<noteq> []"

definition plan_ok :: "maintenance_plan_output \<Rightarrow> bool" where
  "plan_ok p \<longleftrightarrow>
     text_between 3 1000 (mp_objective p) \<and> 1 \<le> length (mp_steps p) \<and> length (mp_steps p) \<le> 5 \<and>
     list_all step_ok (mp_steps p)"

definition review_ok :: "safety_review \<Rightarrow> bool" where
  "review_ok r \<longleftrightarrow> length (sr_hazards r) \<le> 10 \<and> length (sr_violations r) \<le> 10"

section \<open>Knowledge queries\<close>

record knowledge_filters =
  kf_equipment_type :: "string option"
  kf_document_type :: "string option"
  kf_model :: "string option"
  kf_revision :: "string option"

record knowledge_query =
  kq_device_type :: string
  kq_fault_type :: string
  kq_severity :: "string option"
  kq_symptoms :: "string list"
  kq_objective :: string
  kq_device_model :: "string option"

record built_query =
  bq_search_terms :: "string list"
  bq_exact_terms :: "string list"
  bq_semantic_query :: string
  bq_filters :: knowledge_filters
  bq_supported_fault :: bool

end
