(* ===== verification/Entities.thy ===== *)
theory Entities
  imports WorkflowContracts
begin

text \<open>
  The rows of \<^verbatim>\<open>backend/app/models/entities.py\<close> and \<^verbatim>\<open>backend/app/incidents/models.py\<close>, the
  application errors, and the world the services act on: the tables of one database session, the
  Prometheus counters and the positions in the two external streams a request draws from,
  \<^verbatim>\<open>uuid4\<close> and the wall clock. A database constraint is a predicate that an insert checks; a violated
  constraint is the exception \<open>IntegrityError\<close>. Rows are kept in insertion order.
\<close>

section \<open>Rows\<close>

record device =
  dev_id :: uuid
  dev_device_id :: string
  dev_device_type :: string
  dev_name :: string
  dev_status :: string
  dev_asset_node_id :: "uuid option"

record telemetry_in =
  t_schema_version :: string
  t_timestamp :: instant
  t_device_id :: string
  t_temperature_c :: pyfloat
  t_bearing_temperature_c :: pyfloat
  t_vibration_mm_s :: pyfloat
  t_current_a :: pyfloat
  t_voltage_v :: pyfloat
  t_rpm :: int
  t_load_pct :: pyfloat
  t_power_kw :: pyfloat
  t_operating_state :: string
  t_fault_state :: string

record telemetry = telemetry_in +
  t_id :: uuid
  t_ingested_at :: instant

record alarm =
  a_id :: uuid
  a_device_id :: string
  a_telemetry_id :: "uuid option"
  a_rule_id :: string
  a_severity :: string
  a_status :: string
  a_message :: string
  a_started_at :: instant
  a_cleared_at :: "instant option"
  a_acknowledged_at :: "instant option"
  a_acknowledged_by :: "string option"
  a_clear_reason :: "string option"
  a_occurrence_count :: int
  a_last_triggered_at :: "instant option"

record incident =
  i_id :: uuid
  i_device_id :: "string option"
  i_title :: string
  i_description :: string
  i_status :: string
  i_priority :: string
  i_severity :: "string option"
  i_acknowledged_at :: "instant option"
  i_acknowledged_by :: "string option"
  i_resolved_at :: "instant option"
  i_closed_at :: "instant option"
  i_last_alarm_at :: "instant option"
  i_created_at :: instant

record diagnosis =
  dg_id :: uuid
  dg_incident_id :: "uuid option"
  dg_device_id :: "string option"
  dg_status :: string
  dg_fault_type :: "string option"
  dg_confidence :: "pyfloat option"
  dg_severity :: "string option"
  dg_evidence :: "sensor_evidence list"
  dg_model_version :: "string option"
  dg_created_at :: instant

record audit_event =
  ae_id :: uuid
  ae_trace_id :: string
  ae_actor :: string
  ae_actor_user_id :: "uuid option"
  ae_action :: string
  ae_resource :: string
  ae_resource_id :: "string option"
  ae_status :: string
  ae_ip_address :: "string option"
  ae_user_agent :: "string option"
  ae_details :: details
  ae_timestamp :: instant

record alarm_rule =
  r_id :: string
  r_name :: string
  r_description :: string
  r_device_type :: "string option"
  r_signal_name :: string
  r_operator :: string
  r_threshold :: pyfloat
  r_severity :: string
  r_priority :: string
  r_enabled :: bool
  r_created_at :: instant
  r_updated_at :: instant

record incident_alarm =
  l_id :: uuid
  l_incident_id :: uuid
  l_alarm_id :: uuid
  l_created_at :: instant

record asset_node =
  n_id :: uuid
  n_name :: string
  n_asset_type :: string
  n_parent_id :: "uuid option"

text \<open>
  The rows of the decision workflow. \<^verbatim>\<open>WorkflowRun.state\<close> is the dumped graph state; validating the
  dump returns the state that was dumped. A work order's \<^verbatim>\<open>payload\<close> is its one field
  \<^verbatim>\<open>execution_authorized\<close>, a plan's is the plan itself, an approval's is the list of policy reasons.
\<close>

record workflow_run =
  wr_id :: uuid
  wr_incident_id :: uuid
  wr_diagnosis_id :: uuid
  wr_device_id :: string
  wr_trace_id :: string
  wr_idempotency_key :: string
  wr_workflow_version :: string
  wr_policy_version :: string
  wr_provider :: string
  wr_model :: string
  wr_status :: WorkflowStatus
  wr_current_stage :: string
  wr_state :: workflow_state
  wr_attempt_count :: int
  wr_errors :: "workflow_error list"
  wr_plan_version :: int
  wr_created_at :: instant

record maintenance_plan =
  p_id :: uuid
  p_workflow_run_id :: uuid
  p_diagnosis_id :: uuid
  p_version :: int
  p_plan_hash :: string
  p_objective :: string
  p_estimated_risk :: "string option"
  p_status :: string
  p_payload :: maintenance_plan_output

record approval =
  ap_id :: uuid
  ap_maintenance_plan_id :: uuid
  ap_workflow_run_id :: "uuid option"
  ap_decision :: string
  ap_actor :: "string option"
  ap_reason :: "string option"
  ap_plan_version :: int
  ap_plan_hash :: string
  ap_decided_at :: "instant option"
  ap_policy_reasons :: "string list"
  ap_created_at :: instant

record work_order =
  wo_id :: uuid
  wo_workflow_run_id :: uuid
  wo_maintenance_plan_id :: uuid
  wo_approval_id :: "uuid option"
  wo_device_id :: string
  wo_incident_id :: uuid
  wo_diagnosis_id :: uuid
  wo_title :: string
  wo_priority :: string
  wo_plan :: maintenance_plan_output
  wo_evidence_refs :: "string list"
  wo_safety_requirements :: "string list"
  wo_status :: string
  wo_execution_authorized :: bool

record agent_run =
  ar_id :: uuid
  ar_workflow_run_id :: uuid
  ar_trace_id :: string
  ar_agent_name :: string
  ar_status :: string
  ar_prompt_version :: string
  ar_input_ref :: string
  ar_output_ref :: string
  ar_error :: "string option"
  ar_timestamp :: instant

record retrieval_run =
  rr_id :: uuid
  rr_query :: built_query
  rr_pipeline_version :: string
  rr_evidence :: "knowledge_evidence list"
  rr_sufficiency :: string

text \<open>
  What the checkpointer keeps of a graph thread: a thread interrupted in its approval node, or one
  that ran to the end.
\<close>

datatype checkpoint = AtApproval workflow_state | Finished workflow_state

section \<open>Errors\<close>

type_synonym issue = "string \<times> string \<times> string"

datatype app_error =
    AlarmNotFoundError uuid
  | AlarmStatusUnknownError uuid string
  | AlarmStateError uuid AlarmStatus AlarmStatus "string list"
  | AlarmRuleNotFoundError string
  | AlarmRuleConflictError string
  | AlarmRuleValidationError "issue list"
  | CorrelationWindowError
  | IncidentStatusUnknownError uuid string
  | IncidentStateError uuid IncidentStatus IncidentStatus "string list"
  | IncidentNotFoundError uuid
  | AlarmIncidentMismatchError string "string option"
  | IncidentNotReadyError uuid string
  | AppError string nat
  | IntegrityError
  | DataError
  | PyAssertionError
  | PyValueError
  | PyKeyError
  | PyTypeError

fun error_code :: "app_error \<Rightarrow> string" where
  "error_code (AlarmNotFoundError _) = ''ALARM_NOT_FOUND''"
| "error_code (AlarmStatusUnknownError _ _) = ''ALARM_STATE_INVALID''"
| "error_code (AlarmStateError _ _ _ _) = ''ALARM_STATE_INVALID''"
| "error_code (AlarmRuleNotFoundError _) = ''ALARM_RULE_NOT_FOUND''"
| "error_code (AlarmRuleConflictError _) = ''ALARM_RULE_CONFLICT''"
| "error_code (AlarmRuleValidationError _) = ''ALARM_RULE_INVALID''"
| "error_code CorrelationWindowError = ''CORRELATION_WINDOW_INVALID''"
| "error_code (IncidentStatusUnknownError _ _) = ''INCIDENT_STATE_INVALID''"
| "error_code (IncidentStateError _ _ _ _) = ''INCIDENT_STATE_INVALID''"
| "error_code (IncidentNotFoundError _) = ''INCIDENT_NOT_FOUND''"
| "error_code (AlarmIncidentMismatchError _ _) = ''ALARM_INCIDENT_DEVICE_MISMATCH''"
| "error_code (IncidentNotReadyError _ _) = ''INCIDENT_NOT_READY''"
| "error_code (AppError code _) = code"
| "error_code _ = ''INTERNAL_ERROR''"

fun error_status_code :: "app_error \<Rightarrow> nat" where
  "error_status_code (AlarmNotFoundError _) = 404"
| "error_status_code (AlarmStatusUnknownError _ _) = 409"
| "error_status_code (AlarmStateError _ _ _ _) = 409"
| "error_status_code (AlarmRuleNotFoundError _) = 404"
| "error_status_code (AlarmRuleConflictError _) = 409"
| "error_status_code (AlarmRuleValidationError _) = 422"
| "error_status_code CorrelationWindowError = 422"
| "error_status_code (IncidentStatusUnknownError _ _) = 409"
| "error_status_code (IncidentStateError _ _ _ _) = 409"
| "error_status_code (IncidentNotFoundError _) = 404"
| "error_status_code (AlarmIncidentMismatchError _ _) = 409"
| "error_status_code (IncidentNotReadyError _ _) = 409"
| "error_status_code (AppError _ status) = status"
| "error_status_code _ = 500"

section \<open>Request context and world\<close>

record security_context =
  sc_actor :: string
  sc_actor_user_id :: "uuid option"
  sc_ip_address :: "string option"
  sc_user_agent :: "string option"
  sc_legacy_actor :: "string option"

text \<open>
  What a request reads from outside: its trace id and security context, the stream of \<^verbatim>\<open>uuid4\<close> values
  and of clock readings, the sort key of the database's text collation, and the parsers
  \<^verbatim>\<open>datetime.fromisoformat\<close> and \<^verbatim>\<open>float(str)\<close>, where \<open>None\<close> is \<^verbatim>\<open>ValueError\<close>.
\<close>

record ctx =
  c_trace_id :: string
  c_security :: "security_context option"
  c_uuid4 :: "nat \<Rightarrow> uuid"
  c_clock :: "nat \<Rightarrow> instant"
  c_collate :: "string \<Rightarrow> string"
  c_fromisoformat :: "string \<Rightarrow> pydatetime option"
  c_float_of_str :: "string \<Rightarrow> pyfloat option"

record world =
  w_devices :: "device list"
  w_telemetry :: "telemetry list"
  w_rules :: "alarm_rule list"
  w_alarms :: "alarm list"
  w_incidents :: "incident list"
  w_links :: "incident_alarm list"
  w_diagnoses :: "diagnosis list"
  w_audit :: "audit_event list"
  w_assets :: "asset_node list"
  w_runs :: "workflow_run list"
  w_plans :: "maintenance_plan list"
  w_approvals :: "approval list"
  w_orders :: "work_order list"
  w_agent_runs :: "agent_run list"
  w_retrievals :: "retrieval_run list"
  w_checkpoints :: "(uuid \<times> checkpoint) list"
  w_metrics :: "(string \<times> string list) list"
  w_uuids :: nat
  w_ticks :: nat

definition empty_world :: world where
  "empty_world =
     \<lparr>w_devices = [], w_telemetry = [], w_rules = [], w_alarms = [], w_incidents = [], w_links = [],
      w_diagnoses = [], w_audit = [], w_assets = [], w_runs = [], w_plans = [], w_approvals = [],
      w_orders = [], w_agent_runs = [], w_retrievals = [], w_checkpoints = [], w_metrics = [],
      w_uuids = 0, w_ticks = 0\<rparr>"

lemma empty_world_tables [simp]:
  "w_alarms empty_world = []" "w_incidents empty_world = []" "w_links empty_world = []"
  "w_runs empty_world = []" "w_plans empty_world = []" "w_approvals empty_world = []"
  "w_orders empty_world = []" "w_checkpoints empty_world = []" "w_audit empty_world = []"
  by (simp_all add: empty_world_def)

text \<open>\<^verbatim>\<open>uuid4()\<close> and \<^verbatim>\<open>utc_now()\<close> return the next element of their stream.\<close>

definition uuid4 :: "ctx \<Rightarrow> world \<Rightarrow> uuid \<times> world" where
  "uuid4 c w = (c_uuid4 c (w_uuids w), w\<lparr>w_uuids := Suc (w_uuids w)\<rparr>)"

definition utc_now :: "ctx \<Rightarrow> world \<Rightarrow> instant \<times> world" where
  "utc_now c w = (c_clock c (w_ticks w), w\<lparr>w_ticks := Suc (w_ticks w)\<rparr>)"

definition inc_metric :: "string \<Rightarrow> string list \<Rightarrow> world \<Rightarrow> world" where
  "inc_metric name labels w = w\<lparr>w_metrics := w_metrics w @ [(name, labels)]\<rparr>"

text \<open>
  Rolling back to a savepoint restores the tables. Counters already incremented and stream elements
  already drawn are not given back.
\<close>

definition rollback_to :: "world \<Rightarrow> world \<Rightarrow> world" where
  "rollback_to saved w =
     saved\<lparr>w_metrics := w_metrics w, w_uuids := w_uuids w, w_ticks := w_ticks w\<rparr>"

text \<open>
  The tables of two worlds agree. Drawing from a stream and counting a metric change no table.
\<close>

definition same_tables :: "world \<Rightarrow> world \<Rightarrow> bool" where
  "same_tables w w' \<longleftrightarrow> rollback_to w w' = w'"

lemma rollback_to_self: "rollback_to w w = w"
  by (simp add: rollback_to_def)

lemma same_tables_refl: "same_tables w w"
  by (simp add: same_tables_def rollback_to_self)

lemma same_tables_rollback: "same_tables w (rollback_to w w')"
  by (simp add: same_tables_def rollback_to_def)

lemma same_tables_iff:
  "same_tables w w' \<longleftrightarrow>
     w_devices w' = w_devices w \<and> w_telemetry w' = w_telemetry w \<and> w_rules w' = w_rules w \<and>
     w_alarms w' = w_alarms w \<and> w_incidents w' = w_incidents w \<and> w_links w' = w_links w \<and>
     w_diagnoses w' = w_diagnoses w \<and> w_audit w' = w_audit w \<and> w_assets w' = w_assets w \<and>
     w_runs w' = w_runs w \<and> w_plans w' = w_plans w \<and> w_approvals w' = w_approvals w \<and>
     w_orders w' = w_orders w \<and> w_agent_runs w' = w_agent_runs w \<and>
     w_retrievals w' = w_retrievals w \<and> w_checkpoints w' = w_checkpoints w"
  by (cases w; cases w') (auto simp: same_tables_def rollback_to_def)

end
