(* ===== verification/Policy.thy ===== *)
theory Policy
  imports Entities
begin

text \<open>
  The deterministic parts of the decision workflow: the safety policy of \<^verbatim>\<open>workflow/policy.py\<close> and
  the retrieval query built from a diagnosis in \<^verbatim>\<open>knowledge/query.py\<close>.
\<close>

section \<open>Text\<close>

text \<open>
  Python's case mapping on code points below 256. The sharp s (223) has the two-letter upper case;
  the micro sign (181) and the y with diaeresis (255), whose upper case lies above 255, are kept.
\<close>

definition py_upper :: "string \<Rightarrow> string" where
  "py_upper s = concat (map (\<lambda>ch. let n = of_char ch :: nat in
     if 97 \<le> n \<and> n \<le> 122 \<or> 224 \<le> n \<and> n \<le> 254 \<and> n \<noteq> 247 then [char_of (n - 32)]
     else if n = 223 then ''SS'' else [ch]) s)"

definition py_lower :: "string \<Rightarrow> string" where
  "py_lower s = map (\<lambda>ch. let n = of_char ch :: nat in
     if 65 \<le> n \<and> n \<le> 90 \<or> 192 \<le> n \<and> n \<le> 222 \<and> n \<noteq> 215 then char_of (n + 32) else ch) s"

definition py_replace_char :: "char \<Rightarrow> char \<Rightarrow> string \<Rightarrow> string" where
  "py_replace_char a b s = map (\<lambda>ch. if ch = a then b else ch) s"

text \<open>\<^verbatim>\<open>list(dict.fromkeys(xs))\<close> keeps the first occurrence of every element.\<close>

definition dict_fromkeys :: "'a list \<Rightarrow> 'a list" where
  "dict_fromkeys xs = rev (remdups (rev xs))"

lemma dict_fromkeys_simps [simp]:
  "set (dict_fromkeys xs) = set xs" "distinct (dict_fromkeys xs)"
  by (simp_all add: dict_fromkeys_def)

lemma dict_fromkeys_Nil_iff [simp]: "dict_fromkeys xs = [] \<longleftrightarrow> xs = []"
  by (simp add: dict_fromkeys_def)

section \<open>Safety policy\<close>

definition POLICY_VERSION :: string where
  "POLICY_VERSION = ''safety-policy-v1''"

definition APPROVAL_ACTIONS :: "ActionType list" where
  "APPROVAL_ACTIONS =
     [ACT_STOP, ACT_ISOLATE, ACT_LOCKOUT_TAGOUT, ACT_DISASSEMBLE, ACT_REPLACE, ACT_RESTART]"

definition step_grounded :: "string set \<Rightarrow> maintenance_step \<Rightarrow> bool" where
  "step_grounded valid s \<longleftrightarrow> ms_evidence_ids s \<noteq> [] \<and> set (ms_evidence_ids s) \<subseteq> valid"

definition validate_grounding :: "maintenance_plan_output \<Rightarrow> string set \<Rightarrow> string list" where
  "validate_grounding plan valid =
     concat (map (\<lambda>(index, s).
         if \<not> step_grounded valid s then [''UNSUPPORTED_PLAN_STEP:'' @ nat_digits index] else [])
       (List.enumerate 1 (mp_steps plan)))"

definition blocking_reasons ::
  "maintenance_plan_output \<Rightarrow> safety_review \<Rightarrow> string set \<Rightarrow> string \<Rightarrow> string \<Rightarrow> string list" where
  "blocking_reasons plan review valid diagnosis_status sufficiency =
     validate_grounding plan valid
     @ (if diagnosis_status \<noteq> ''FAULT'' then [''NEEDS_MORE_DIAGNOSTIC_EVIDENCE''] else [])
     @ (if sufficiency = ''INSUFFICIENT_EVIDENCE'' then [''INSUFFICIENT_EVIDENCE''] else [])
     @ map (\<lambda>item. ''SAFETY_VIOLATION:'' @ item) (sr_violations review)"

definition effective_severity :: "string option \<Rightarrow> string" where
  "effective_severity severity =
     py_upper (case severity of None \<Rightarrow> ''MEDIUM'' | Some s \<Rightarrow> if s = [] then ''MEDIUM'' else s)"

definition approval_reasons :: "maintenance_plan_output \<Rightarrow> string option \<Rightarrow> string list" where
  "approval_reasons plan severity =
     (let sev = effective_severity severity in
      (if sev \<in> {''HIGH'', ''CRITICAL''} then [sev @ ''_SEVERITY''] else [])
      @ sort (map action_value
          (filter (\<lambda>t. t \<in> ms_action_type ` set (mp_steps plan)) APPROVAL_ACTIONS)))"

definition decide ::
  "maintenance_plan_output \<Rightarrow> safety_review \<Rightarrow> string set \<Rightarrow> string \<Rightarrow> string option \<Rightarrow> string
    \<Rightarrow> policy_decision" where
  "decide plan review valid diagnosis_status severity sufficiency =
     (let reasons = blocking_reasons plan review valid diagnosis_status sufficiency in
      if reasons \<noteq> []
      then \<lparr>pd_decision = PD_BLOCKED, pd_policy_version = POLICY_VERSION,
            pd_reasons = dict_fromkeys reasons\<rparr>
      else
        (let reasons = approval_reasons plan severity in
         if reasons \<noteq> []
         then \<lparr>pd_decision = PD_REQUIRES_APPROVAL, pd_policy_version = POLICY_VERSION,
               pd_reasons = dict_fromkeys reasons\<rparr>
         else \<lparr>pd_decision = PD_AUTO_ALLOWED, pd_policy_version = POLICY_VERSION,
               pd_reasons = [''LOW_RISK_GROUNDED_PLAN'']\<rparr>))"

lemma validate_grounding_Nil_iff:
  "validate_grounding plan valid = [] \<longleftrightarrow> (\<forall>s \<in> set (mp_steps plan). step_grounded valid s)"
proof -
  have "(\<forall>p \<in> set (List.enumerate 1 (mp_steps plan)). step_grounded valid (snd p)) \<longleftrightarrow>
      (\<forall>s \<in> snd ` set (List.enumerate 1 (mp_steps plan)). step_grounded valid s)" by simp
  also have "snd ` set (List.enumerate 1 (mp_steps plan)) = set (mp_steps plan)"
    by (metis list.set_map map_snd_enumerate)
  finally show ?thesis
    by (auto simp: validate_grounding_def split: if_splits)
qed

lemma blocking_reasons_Nil_iff:
  "blocking_reasons plan review valid diagnosis_status sufficiency = [] \<longleftrightarrow>
     (\<forall>s \<in> set (mp_steps plan). step_grounded valid s) \<and> diagnosis_status = ''FAULT'' \<and>
     sufficiency \<noteq> ''INSUFFICIENT_EVIDENCE'' \<and> sr_violations review = []"
  by (auto simp: blocking_reasons_def validate_grounding_Nil_iff)

lemma approval_reasons_Nil_iff:
  "approval_reasons plan severity = [] \<longleftrightarrow>
     effective_severity severity \<notin> {''HIGH'', ''CRITICAL''} \<and>
     set APPROVAL_ACTIONS \<inter> ms_action_type ` set (mp_steps plan) = {}"
proof -
  have "sort xs = [] \<longleftrightarrow> xs = []" for xs :: "string list"
    by (metis length_0_conv length_sort)
  then show ?thesis by (auto simp: approval_reasons_def Let_def filter_empty_conv)
qed

section \<open>Retrieval query\<close>

definition FAULT_TERMS :: "(string \<times> string list) list" where
  "FAULT_TERMS =
     [(''BEARING_WEAR'', [''bearing wear'', ''bearing damage'', ''lubrication'', ''vibration'',
        ''bearing temperature'']),
      (''OVERLOAD'', [''motor overload'', ''excess current'', ''load'', ''overheating'', ''trip'']),
      (''OVERHEATING'', [''motor overheating'', ''temperature rise'', ''ventilation'',
        ''voltage unbalance'', ''lubrication'']),
      (''MISALIGNMENT'', [''shaft misalignment'', ''alignment'', ''vibration'', ''coupling'',
        ''bearing temperature'']),
      (''SENSOR_FAILURE'', [''sensor failure'', ''instrumentation'', ''measurement verification'',
        ''wiring'', ''calibration''])]"

definition build_query :: "knowledge_query \<Rightarrow> built_query" where
  "build_query q =
     (let fault_type = py_upper (kq_fault_type q);
          terms = (case map_of FAULT_TERMS fault_type of None \<Rightarrow> [] | Some ts \<Rightarrow> ts)
            @ map (\<lambda>item. py_lower (py_strip item))
                (filter (\<lambda>item. py_strip item \<noteq> []) (kq_symptoms q));
          exact = py_lower (py_replace_char (CHR ''_'') (CHR '' '') fault_type)
            # (case kq_device_model q of None \<Rightarrow> []
               | Some m \<Rightarrow> if m = [] then [] else [py_lower m])
      in \<lparr>bq_search_terms = dict_fromkeys terms, bq_exact_terms = exact,
          bq_semantic_query = py_join '' ''
            (py_replace_char (CHR ''_'') (CHR '' '') (kq_device_type q) # kq_objective q # terms),
          bq_filters = \<lparr>kf_equipment_type = Some (kq_device_type q), kf_document_type = None,
                        kf_model = kq_device_model q, kf_revision = None\<rparr>,
          bq_supported_fault = (fault_type \<in> fst ` set FAULT_TERMS)\<rparr>)"

end
