(* ===== verification/Graph.thy ===== *)
theory Graph
  imports Policy
begin

text \<open>
  The agent graph of \<^verbatim>\<open>workflow/graph.py\<close>: its nodes, its edges and a run from the start node to an
  end or to the approval interrupt. The language model is a parameter: for every call made so far it
  gives the answer or the exception of the next call. The retry policy runs a node again while its
  exception is transient and attempts are left.
\<close>

section \<open>Environment\<close>

text \<open>
  What the workflow relies on outside this code: the knowledge index (absent when it is not loaded),
  the three agents, the two uses of SHA-256, the configured number of attempts, and what the graph
  library returns when a thread that does not wait at the approval node is resumed, from the
  thread's last state if it has one.
\<close>

datatype provider_exc =
    TimeoutException string
  | NetworkError string
  | HTTPStatusError nat string
  | OtherException string

record retrieval =
  rt_evidence :: "knowledge_evidence list"
  rt_sufficiency :: string

record wf_env =
  e_index :: "(built_query \<Rightarrow> retrieval) option"
  e_triage :: "nat \<Rightarrow> agent_invocation \<Rightarrow> provider_exc + triage_result"
  e_planning :: "nat \<Rightarrow> agent_invocation \<Rightarrow> provider_exc + maintenance_plan_output"
  e_safety :: "nat \<Rightarrow> agent_invocation \<Rightarrow> provider_exc + safety_review"
  e_provider :: string
  e_model :: string
  e_max_attempts :: nat
  e_key_hash :: "uuid \<Rightarrow> uuid \<Rightarrow> string \<Rightarrow> string"
  e_plan_hash :: "maintenance_plan_output \<Rightarrow> string"
  e_resume_other :: "workflow_state option \<Rightarrow> approval_snapshot \<Rightarrow> workflow_state option"

definition is_transient_provider_error :: "provider_exc \<Rightarrow> bool" where
  "is_transient_provider_error e =
     (case e of TimeoutException _ \<Rightarrow> True | NetworkError _ \<Rightarrow> True
      | HTTPStatusError status _ \<Rightarrow> status \<ge> 500 | OtherException _ \<Rightarrow> False)"

definition exc_text :: "provider_exc \<Rightarrow> string" where
  "exc_text e =
     (case e of TimeoutException m \<Rightarrow> ''TimeoutException: '' @ m
      | NetworkError m \<Rightarrow> ''NetworkError: '' @ m
      | HTTPStatusError _ m \<Rightarrow> ''HTTPStatusError: '' @ m
      | OtherException m \<Rightarrow> m)"

definition PROMPT_VERSIONS :: "string \<Rightarrow> string" where
  "PROMPT_VERSIONS agent =
     (if agent = ''triage'' then ''triage-prompt-v3''
      else if agent = ''planning'' then ''planning-prompt-v3'' else ''safety-review-prompt-v3'')"

section \<open>Agent calls\<close>

definition invocation :: "workflow_state \<Rightarrow> agent_invocation" where
  "invocation st =
     \<lparr>inv_diagnosis = ws_diagnosis st, inv_sensor_evidence = ws_sensor_evidence st,
      inv_knowledge_context = ws_knowledge_context st, inv_triage_result = ws_triage_result st,
      inv_maintenance_plan = ws_maintenance_plan st\<rparr>"

definition agent_audit ::
  "ctx \<Rightarrow> workflow_state \<Rightarrow> string \<Rightarrow> provider_exc option \<Rightarrow> world \<Rightarrow> world" where
  "agent_audit c st agent err w =
     (let (fresh, w1) = uuid4 c w; (ts, w2) = utc_now c w1;
          row = \<lparr>ar_id = fresh, ar_workflow_run_id = ws_workflow_run_id st,
                 ar_trace_id = ws_trace_id st, ar_agent_name = agent,
                 ar_status = (if err = None then ''SUCCESS'' else ''FAILURE''),
                 ar_prompt_version = PROMPT_VERSIONS agent, ar_input_ref = ws_diagnosis_id st,
                 ar_output_ref = ''workflow:'' @ ws_workflow_run_id st @ '':'' @ agent,
                 ar_error = map_option exc_text err, ar_timestamp = ts\<rparr>
      in w2\<lparr>w_agent_runs := w_agent_runs w2 @ [row]\<rparr>)"

definition invoke_agent ::
  "ctx \<Rightarrow> string \<Rightarrow> (nat \<Rightarrow> agent_invocation \<Rightarrow> provider_exc + 'a) \<Rightarrow> workflow_state \<Rightarrow> world
    \<Rightarrow> (provider_exc + 'a) \<times> world" where
  "invoke_agent c agent generate st w =
     (case generate (length (w_agent_runs w)) (invocation st) of
        Inl e \<Rightarrow> (Inl e, agent_audit c st agent (Some e) w)
      | Inr out \<Rightarrow> (Inr out, agent_audit c st agent None w))"

fun with_retry ::
  "nat \<Rightarrow> (world \<Rightarrow> (provider_exc + 'a) \<times> world) \<Rightarrow> world \<Rightarrow> (provider_exc + 'a) \<times> world" where
  "with_retry 0 node w = node w"
| "with_retry (Suc n) node w =
     (case node w of
        (Inl e, w') \<Rightarrow>
          if n = 0 \<or> \<not> is_transient_provider_error e then (Inl e, w') else with_retry n node w'
      | (Inr x, w') \<Rightarrow> (Inr x, w'))"

section \<open>Nodes\<close>

definition at_stage :: "WorkflowStatus \<Rightarrow> workflow_state \<Rightarrow> workflow_state" where
  "at_stage s st = st\<lparr>ws_status := s, ws_current_stage := workflow_status_value s\<rparr>"

definition agent_node ::
  "ctx \<Rightarrow> string \<Rightarrow> (nat \<Rightarrow> agent_invocation \<Rightarrow> provider_exc + 'a) \<Rightarrow> WorkflowStatus
    \<Rightarrow> ('a \<Rightarrow> workflow_state \<Rightarrow> workflow_state) \<Rightarrow> workflow_state \<Rightarrow> world
    \<Rightarrow> (provider_exc + workflow_state) \<times> world" where
  "agent_node c agent generate stage store st w =
     (case invoke_agent c agent generate st w of
        (Inl e, w') \<Rightarrow> (Inl e, w')
      | (Inr out, w') \<Rightarrow>
          (Inr (at_stage stage (store out (st\<lparr>ws_attempt_count := ws_attempt_count st + 1\<rparr>))), w'))"

definition triage_node ::
  "ctx \<Rightarrow> wf_env \<Rightarrow> workflow_state \<Rightarrow> world \<Rightarrow> (provider_exc + workflow_state) \<times> world" where
  "triage_node c env =
     agent_node c ''triage'' (e_triage env) WF_TRIAGED (\<lambda>out st. st\<lparr>ws_triage_result := Some out\<rparr>)"

definition planning_node ::
  "ctx \<Rightarrow> wf_env \<Rightarrow> workflow_state \<Rightarrow> world \<Rightarrow> (provider_exc + workflow_state) \<times> world" where
  "planning_node c env =
     agent_node c ''planning'' (e_planning env) WF_PLAN_READY
       (\<lambda>out st. st\<lparr>ws_maintenance_plan := Some out\<rparr>)"

definition safety_node ::
  "ctx \<Rightarrow> wf_env \<Rightarrow> workflow_state \<Rightarrow> world \<Rightarrow> (provider_exc + workflow_state) \<times> world" where
  "safety_node c env =
     agent_node c ''safety_review'' (e_safety env) WF_SAFETY_REVIEW
       (\<lambda>out st. st\<lparr>ws_safety_review := Some out\<rparr>)"

definition precondition_block :: "workflow_state \<Rightarrow> workflow_state" where
  "precondition_block st =
     at_stage WF_BLOCKED (st\<lparr>ws_policy_decision := Some
       \<lparr>pd_decision = PD_BLOCKED, pd_policy_version = POLICY_VERSION,
        pd_reasons =
          (if kc_sufficiency (ws_knowledge_context st) = ''INSUFFICIENT_EVIDENCE''
           then [''INSUFFICIENT_EVIDENCE''] else [])
          @ (if ds_status (ws_diagnosis st) \<noteq> ''FAULT''
             then [''NEEDS_MORE_DIAGNOSTIC_EVIDENCE''] else [])\<rparr>\<rparr>)"

definition valid_evidence_ids :: "workflow_state \<Rightarrow> string set" where
  "valid_evidence_ids st = ke_evidence_id ` set (kc_evidence (ws_knowledge_context st))"

definition policy_node :: "workflow_state \<Rightarrow> provider_exc + workflow_state" where
  "policy_node st =
     (case (ws_triage_result st, ws_maintenance_plan st, ws_safety_review st) of
        (Some _, Some plan, Some review) \<Rightarrow>
          (let d = decide plan review (valid_evidence_ids st) (ds_status (ws_diagnosis st))
                 (ds_severity (ws_diagnosis st)) (kc_sufficiency (ws_knowledge_context st))
           in Inr (at_stage (status_of_decision (pd_decision d)) (st\<lparr>ws_policy_decision := Some d\<rparr>)))
      | _ \<Rightarrow> Inl (OtherException ''AssertionError''))"

section \<open>Edges and runs\<close>

datatype graph_node =
    N_precondition_gate | N_triage | N_precondition_block | N_planning | N_safety | N_policy
  | N_blocked | N_approval | N_auto_allowed | N_approved | N_rejected | N_END

definition route_precondition :: "workflow_state \<Rightarrow> graph_node" where
  "route_precondition st =
     (if kc_sufficiency (ws_knowledge_context st) = ''INSUFFICIENT_EVIDENCE'' then N_precondition_block
      else if ds_status (ws_diagnosis st) \<noteq> ''FAULT'' then N_precondition_block
      else N_triage)"

text \<open>The policy node, the only one before this edge, has stored a decision.\<close>

definition route_policy :: "workflow_state \<Rightarrow> graph_node" where
  "route_policy st =
     (case map_option pd_decision (ws_policy_decision st) of
        Some PD_BLOCKED \<Rightarrow> N_blocked
      | Some PD_REQUIRES_APPROVAL \<Rightarrow> N_approval
      | _ \<Rightarrow> N_auto_allowed)"

fun run_node ::
  "ctx \<Rightarrow> wf_env \<Rightarrow> graph_node \<Rightarrow> workflow_state \<Rightarrow> world \<Rightarrow> (provider_exc + workflow_state) \<times> world" where
  "run_node c env N_triage st w = with_retry (e_max_attempts env) (triage_node c env st) w"
| "run_node c env N_planning st w = with_retry (e_max_attempts env) (planning_node c env st) w"
| "run_node c env N_safety st w = with_retry (e_max_attempts env) (safety_node c env st) w"
| "run_node c env N_policy st w = (policy_node st, w)"
| "run_node c env N_precondition_block st w = (Inr (precondition_block st), w)"
| "run_node c env N_blocked st w = (Inr (at_stage WF_BLOCKED st), w)"
| "run_node c env N_auto_allowed st w = (Inr (at_stage WF_AUTO_ALLOWED st), w)"
| "run_node c env N_approved st w = (Inr (at_stage WF_APPROVED st), w)"
| "run_node c env N_rejected st w = (Inr (at_stage WF_REJECTED st), w)"
| "run_node c env _ st w = (Inr st, w)"

fun next_node :: "graph_node \<Rightarrow> workflow_state \<Rightarrow> graph_node" where
  "next_node N_precondition_gate st = route_precondition st"
| "next_node N_triage st = N_planning"
| "next_node N_planning st = N_safety"
| "next_node N_safety st = N_policy"
| "next_node N_policy st = route_policy st"
| "next_node _ st = N_END"

text \<open>Every edge leads to a node of smaller rank, so every run ends.\<close>

fun node_rank :: "graph_node \<Rightarrow> nat" where
  "node_rank N_precondition_gate = 6"
| "node_rank N_triage = 5"
| "node_rank N_planning = 4"
| "node_rank N_safety = 3"
| "node_rank N_policy = 2"
| "node_rank N_END = 0"
| "node_rank _ = 1"

lemma next_node_rank: "node \<noteq> N_END \<Longrightarrow> node_rank (next_node node st) < node_rank node"
  by (cases node)
     (auto simp: route_precondition_def route_policy_def split: option.splits PolicyDecisionType.splits)

datatype graph_result =
    Raised provider_exc
  | Interrupted workflow_state
  | Completed workflow_state

function graph_loop ::
  "ctx \<Rightarrow> wf_env \<Rightarrow> graph_node \<Rightarrow> workflow_state \<Rightarrow> world \<Rightarrow> graph_result \<times> world" where
  "graph_loop c env node st w =
     (if node = N_END then (Completed st, w)
      else if node = N_approval then (Interrupted st, w)
      else case run_node c env node st w of
          (Inl e, w') \<Rightarrow> (Raised e, w')
        | (Inr st', w') \<Rightarrow> graph_loop c env (next_node node st') st' w')"
  by pat_completeness auto
termination
  by (relation "measure (\<lambda>(c, env, node, st, w). node_rank node)") (auto intro: next_node_rank)

declare graph_loop.simps [simp del]

definition run_graph :: "ctx \<Rightarrow> wf_env \<Rightarrow> workflow_state \<Rightarrow> world \<Rightarrow> graph_result \<times> world" where
  "run_graph c env st w = graph_loop c env N_precondition_gate st w"

text \<open>Resuming an interrupted thread runs the approval node with the human decision.\<close>

definition approval_node :: "approval_snapshot \<Rightarrow> workflow_state \<Rightarrow> workflow_state \<times> graph_node" where
  "approval_node snap st =
     (st\<lparr>ws_approval := Some snap\<rparr>, if as_status snap = ''APPROVED'' then N_approved else N_rejected)"

definition resume_graph ::
  "ctx \<Rightarrow> wf_env \<Rightarrow> workflow_state \<Rightarrow> approval_snapshot \<Rightarrow> world \<Rightarrow> graph_result \<times> world" where
  "resume_graph c env st snap w =
     (let (st', node) = approval_node snap st in graph_loop c env node st' w)"

end
