(* ===== verification/AuditTrail.thy ===== *)
theory AuditTrail
  imports Entities
begin

text \<open>
  The audit trail of \<^verbatim>\<open>backend/app/repositories/audit.py\<close>: the single writer \<open>audit_add\<close>, which
  resolves the actor from the call, the request's security context or the system default, and the
  reader with its filters, page query and summary. The trail is append-only; the locale
  \<open>audited\<close> is the contract of an operation that only appends to it.
\<close>

section \<open>Writer\<close>

definition SYSTEM_ACTOR :: string where
  "SYSTEM_ACTOR = ''backend''"

definition MAX_QUERY_LIMIT :: nat where
  "MAX_QUERY_LIMIT = 200"

record audit_entry =
  en_action :: string
  en_resource :: string
  en_status :: string
  en_details :: details
  en_actor :: "string option"
  en_resource_id :: "string option"
  en_actor_user_id :: "uuid option"
  en_ip_address :: "string option"
  en_user_agent :: "string option"

definition entry :: "string \<Rightarrow> string \<Rightarrow> string \<Rightarrow> details \<Rightarrow> string option \<Rightarrow> audit_entry" where
  "entry action resource status details actor =
     \<lparr>en_action = action, en_resource = resource, en_status = status, en_details = details,
      en_actor = actor, en_resource_id = None, en_actor_user_id = None, en_ip_address = None,
      en_user_agent = None\<rparr>"

definition or_else :: "'a option \<Rightarrow> 'a option \<Rightarrow> 'a option" where
  "or_else x y = (case x of None \<Rightarrow> y | Some v \<Rightarrow> Some v)"

definition resolved_details :: "ctx \<Rightarrow> details \<Rightarrow> details" where
  "resolved_details c ds =
     (case c_security c of None \<Rightarrow> ds
      | Some sc \<Rightarrow>
          (case sc_legacy_actor sc of None \<Rightarrow> ds
           | Some legacy \<Rightarrow>
               if ''legacy_x_actor'' \<in> fst ` set ds then ds
               else ds @ [(''legacy_x_actor'', JStr legacy)]))"

text \<open>\<^verbatim>\<open>resolved_actor or SYSTEM_ACTOR\<close>: an absent or empty actor becomes the system actor.\<close>

definition resolved_actor :: "ctx \<Rightarrow> string option \<Rightarrow> string" where
  "resolved_actor c actor =
     (case or_else actor (map_option sc_actor (c_security c)) of
        None \<Rightarrow> SYSTEM_ACTOR
      | Some a \<Rightarrow> if a = [] then SYSTEM_ACTOR else a)"

definition audit_event_of :: "ctx \<Rightarrow> audit_entry \<Rightarrow> uuid \<Rightarrow> instant \<Rightarrow> audit_event" where
  "audit_event_of c en fresh ts =
     \<lparr>ae_id = fresh,
      ae_trace_id = c_trace_id c,
      ae_actor = resolved_actor c (en_actor en),
      ae_actor_user_id = or_else (en_actor_user_id en)
        (Option.bind (c_security c) sc_actor_user_id),
      ae_action = en_action en,
      ae_resource = en_resource en,
      ae_resource_id = en_resource_id en,
      ae_status = en_status en,
      ae_ip_address = or_else (en_ip_address en) (Option.bind (c_security c) sc_ip_address),
      ae_user_agent = or_else (en_user_agent en) (Option.bind (c_security c) sc_user_agent),
      ae_details = resolved_details c (en_details en),
      ae_timestamp = ts\<rparr>"

definition audit_add :: "ctx \<Rightarrow> audit_entry \<Rightarrow> world \<Rightarrow> world" where
  "audit_add c en w =
     (let (fresh, w1) = uuid4 c w; (ts, w2) = utc_now c w1
      in w2\<lparr>w_audit := w_audit w2 @ [audit_event_of c en fresh ts]\<rparr>)"

section \<open>Reader\<close>

record audit_filters =
  f_actor :: "string option"
  f_action :: "string option"
  f_actions :: "string list option"
  f_resource :: "string option"
  f_resource_id :: "string option"
  f_status :: "string option"
  f_trace_id :: "string option"
  f_since :: "instant option"
  f_until :: "instant option"

definition opt_eq :: "'a option \<Rightarrow> 'a \<Rightarrow> bool" where
  "opt_eq f v = (case f of None \<Rightarrow> True | Some x \<Rightarrow> v = x)"

definition filter_matches :: "audit_filters \<Rightarrow> audit_event \<Rightarrow> bool" where
  "filter_matches f e \<longleftrightarrow>
     opt_eq (f_actor f) (ae_actor e) \<and>
     (case f_action f of Some a \<Rightarrow> ae_action e = a
      | None \<Rightarrow> (case f_actions f of None \<Rightarrow> True | Some as \<Rightarrow> ae_action e \<in> set as)) \<and>
     opt_eq (f_resource f) (ae_resource e) \<and>
     (case f_resource_id f of None \<Rightarrow> True | Some r \<Rightarrow> ae_resource_id e = Some r) \<and>
     opt_eq (f_status f) (ae_status e) \<and>
     opt_eq (f_trace_id f) (ae_trace_id e) \<and>
     (case f_since f of None \<Rightarrow> True | Some t \<Rightarrow> t \<le> ae_timestamp e) \<and>
     (case f_until f of None \<Rightarrow> True | Some t \<Rightarrow> ae_timestamp e < t)"

definition newest_first :: "audit_event \<Rightarrow> audit_event \<Rightarrow> bool" where
  "newest_first e e' \<longleftrightarrow> ae_timestamp e' \<le> ae_timestamp e"

definition audit_query :: "audit_filters \<Rightarrow> nat \<Rightarrow> nat \<Rightarrow> world \<Rightarrow> audit_event list \<times> nat" where
  "audit_query f limit offset w =
     (let base = filter (filter_matches f) (w_audit w)
      in (take limit (drop offset (sort_by newest_first base)), length base))"

text \<open>\<^verbatim>\<open>GROUP BY action, status\<close> with a count, read back as nested dictionaries.\<close>

definition audit_summary :: "audit_filters \<Rightarrow> world \<Rightarrow> string \<Rightarrow> string \<Rightarrow> nat option" where
  "audit_summary f w action status =
     (let n = length (filter (\<lambda>e. filter_matches f e \<and> ae_action e = action \<and> ae_status e = status)
                        (w_audit w))
      in if n = 0 then None else Some n)"

section \<open>The append-only contract\<close>

locale audited =
  fixes op :: "world \<Rightarrow> world"
  assumes appends: "prefix (w_audit w) (w_audit (op w))"
begin

lemma audit_kept: "e \<in> set (w_audit w) \<Longrightarrow> e \<in> set (w_audit (op w))"
  using appends [of w] by (auto simp: prefix_def)

lemma audit_power_kept: "prefix (w_audit w) (w_audit ((op ^^ n) w))"
proof (induction n)
  case 0
  then show ?case by simp
next
  case (Suc n)
  then show ?case using appends [of "(op ^^ n) w"] by (auto intro: prefix_order.trans)
qed

lemma count_monotone:
  "length (filter P (w_audit w)) \<le> length (filter P (w_audit (op w)))"
  using appends [of w] by (auto simp: prefix_def)

end

lemma audit_add_audit:
  "w_audit (audit_add c en w) =
     w_audit w @ [audit_event_of c en (c_uuid4 c (w_uuids w)) (c_clock c (w_ticks w))]"
  by (simp add: audit_add_def uuid4_def utc_now_def)

lemma audit_add_frame [simp]:
  "w_devices (audit_add c en w) = w_devices w"
  "w_telemetry (audit_add c en w) = w_telemetry w"
  "w_rules (audit_add c en w) = w_rules w"
  "w_alarms (audit_add c en w) = w_alarms w"
  "w_incidents (audit_add c en w) = w_incidents w"
  "w_links (audit_add c en w) = w_links w"
  "w_diagnoses (audit_add c en w) = w_diagnoses w"
  "w_assets (audit_add c en w) = w_assets w"
  "w_runs (audit_add c en w) = w_runs w"
  "w_plans (audit_add c en w) = w_plans w"
  "w_approvals (audit_add c en w) = w_approvals w"
  "w_orders (audit_add c en w) = w_orders w"
  "w_agent_runs (audit_add c en w) = w_agent_runs w"
  "w_retrievals (audit_add c en w) = w_retrievals w"
  "w_checkpoints (audit_add c en w) = w_checkpoints w"
  "w_metrics (audit_add c en w) = w_metrics w"
  "w_uuids (audit_add c en w) = Suc (w_uuids w)"
  "w_ticks (audit_add c en w) = Suc (w_ticks w)"
  by (simp_all add: audit_add_def uuid4_def utc_now_def)

interpretation audit_add: audited "audit_add c en" for c en
  by unfold_locales (simp add: audit_add_audit)

interpretation audit_order: row_order newest_first
  by unfold_locales (auto simp: newest_first_def)

lemma resolved_actor_nonempty: "resolved_actor c actor \<noteq> []"
  by (auto simp: resolved_actor_def SYSTEM_ACTOR_def split: option.splits)

lemma resolved_actor_explicit: "a \<noteq> [] \<Longrightarrow> resolved_actor c (Some a) = a"
  by (simp add: resolved_actor_def or_else_def)

text \<open>
  A caller that names itself decides the actor of the row: the security context, and with it the
  legacy header it carries, only fills in what the caller left out.
\<close>

lemma resolved_details_keeps: "kv \<in> set ds \<Longrightarrow> kv \<in> set (resolved_details c ds)"
  by (auto simp: resolved_details_def split: option.splits)

lemma audit_query_page:
  "length (fst (audit_query f limit offset w)) \<le> limit"
  by (simp add: audit_query_def Let_def)

lemma audit_query_total: "snd (audit_query f limit offset w) = length (filter (filter_matches f) (w_audit w))"
  by (simp add: audit_query_def Let_def)

lemma audit_query_sorted: "sorted_wrt newest_first (fst (audit_query f limit offset w))"
  unfolding audit_query_def Let_def fst_conv
  by (intro sorted_wrt_take sorted_wrt_drop audit_order.sorted_sort_by)

end
