(* ===== verification/Rules.thy ===== *)
theory Rules
  imports Entities
begin

text \<open>
  The alarm rule engine of \<^verbatim>\<open>backend/app/incidents/rules.py\<close>: the signal catalogue, the comparison
  operators, the projection of a telemetry payload onto canonical signals, rule evaluation and the
  validation of a rule definition.
\<close>

section \<open>Vocabulary\<close>

definition RULE_OPERATORS :: "string list" where
  "RULE_OPERATORS = [''GT'', ''GTE'', ''LT'', ''LTE'', ''EQ'', ''NE'']"

definition RULE_SIGNAL_NAMES :: "string list" where
  "RULE_SIGNAL_NAMES =
     [''temperature'', ''bearing_temperature'', ''vibration'', ''current'', ''voltage'', ''rpm'',
      ''load'', ''power'']"

definition RULE_SEVERITIES :: "string list" where
  "RULE_SEVERITIES = [''INFO'', ''MINOR'', ''WARNING'', ''MAJOR'', ''CRITICAL'']"

definition RULE_PRIORITIES :: "string list" where
  "RULE_PRIORITIES = [''LOW'', ''MEDIUM'', ''HIGH'', ''URGENT'']"

record signal_spec =
  s_canonical :: string
  s_field :: string
  s_low :: pyfloat
  s_high :: pyfloat
  s_unit :: string

definition SignalSpec :: "string \<Rightarrow> string \<Rightarrow> rat \<Rightarrow> rat \<Rightarrow> string \<Rightarrow> signal_spec" where
  "SignalSpec canonical field lo hi unit =
     \<lparr>s_canonical = canonical, s_field = field, s_low = Fin lo, s_high = Fin hi, s_unit = unit\<rparr>"

definition degrees_c :: string where
  "degrees_c = [CHR 0xB0, CHR ''C'']"

definition SIGNAL_SPECS :: "(string \<times> signal_spec) list" where
  "SIGNAL_SPECS =
     [(''temperature'', SignalSpec ''temperature'' ''temperature_c'' (- 50) 250 degrees_c),
      (''bearing_temperature'',
         SignalSpec ''bearing_temperature'' ''bearing_temperature_c'' (- 50) 250 degrees_c),
      (''vibration'', SignalSpec ''vibration'' ''vibration_mm_s'' 0 200 ''mm/s''),
      (''current'', SignalSpec ''current'' ''current_a'' 0 10000 ''A''),
      (''voltage'', SignalSpec ''voltage'' ''voltage_v'' 0 10000 ''V''),
      (''rpm'', SignalSpec ''rpm'' ''rpm'' 0 100000 ''rpm''),
      (''load'', SignalSpec ''load'' ''load_pct'' 0 120 ''%''),
      (''power'', SignalSpec ''power'' ''power_kw'' 0 100000 ''kW'')]"

definition OPERATOR_SYMBOLS :: "(string \<times> string) list" where
  "OPERATOR_SYMBOLS =
     [(''GT'', ''>''), (''GTE'', ''>=''), (''LT'', ''<''), (''LTE'', ''<=''), (''EQ'', ''==''),
      (''NE'', ''!='')]"

definition MAX_RULE_ID :: nat where
  "MAX_RULE_ID = 100"

definition MAX_NAME :: nat where
  "MAX_NAME = 200"

definition RULE_ID_ALLOWED :: string where
  "RULE_ID_ALLOWED = ''abcdefghijklmnopqrstuvwxyzABCDEFGHIJKLMNOPQRSTUVWXYZ0123456789._-''"

section \<open>Evaluation\<close>

definition compare :: "string \<Rightarrow> pyfloat \<Rightarrow> pyfloat \<Rightarrow> app_error + bool" where
  "compare operator val threshold =
     (if operator = ''GT'' then Inr (float_less threshold val)
      else if operator = ''GTE'' then Inr (float_le threshold val)
      else if operator = ''LT'' then Inr (float_less val threshold)
      else if operator = ''LTE'' then Inr (float_le val threshold)
      else if operator = ''EQ'' then Inr (float_eq val threshold)
      else if operator = ''NE'' then Inr (\<not> float_eq val threshold)
      else Inl PyValueError)"

text \<open>
  The value of a payload key: a number, a text or a time stamp, or Python's \<^verbatim>\<open>None\<close>. \<^verbatim>\<open>float\<close> converts
  numbers, parses text and refuses the rest.
\<close>

datatype pyval = VNone | VInt int | VFloat pyfloat | VStr string | VTime pydatetime

type_synonym payload = "string \<rightharpoonup> pyval"

fun py_float :: "ctx \<Rightarrow> pyval \<Rightarrow> app_error + pyfloat" where
  "py_float c (VInt i) = Inr (Fin (of_int i))"
| "py_float c (VFloat x) = Inr x"
| "py_float c (VStr s) = (case c_float_of_str c s of None \<Rightarrow> Inl PyValueError | Some x \<Rightarrow> Inr x)"
| "py_float c VNone = Inl PyTypeError"
| "py_float c (VTime _) = Inl PyTypeError"

fun readings_loop ::
  "ctx \<Rightarrow> payload \<Rightarrow> signal_spec list \<Rightarrow> (string \<times> pyfloat) list
    \<Rightarrow> app_error + (string \<times> pyfloat) list" where
  "readings_loop c payload [] readings = Inr readings"
| "readings_loop c payload (spec # specs) readings =
     (case payload (s_field spec) of
        None \<Rightarrow> readings_loop c payload specs readings
      | Some VNone \<Rightarrow> readings_loop c payload specs readings
      | Some raw \<Rightarrow>
          bindE (py_float c raw)
            (\<lambda>x. readings_loop c payload specs (readings @ [(s_canonical spec, x)])))"

definition canonical_readings :: "ctx \<Rightarrow> payload \<Rightarrow> app_error + (string \<times> pyfloat) list" where
  "canonical_readings c payload = readings_loop c payload (map snd SIGNAL_SPECS) []"

definition render_message ::
  "signal_spec \<Rightarrow> string \<Rightarrow> pyfloat \<Rightarrow> pyfloat \<Rightarrow> app_error + string" where
  "render_message spec operator threshold val =
     (case map_of OPERATOR_SYMBOLS operator of None \<Rightarrow> Inl PyKeyError
      | Some symbol \<Rightarrow>
          Inr (format_g val @ '' '' @ s_unit spec @ '' '' @ symbol @ '' '' @ format_g threshold
               @ '' '' @ s_unit spec))"

record rule_breach =
  b_rule_id :: string
  b_rule_name :: string
  b_signal_name :: string
  b_operator :: string
  b_threshold :: pyfloat
  b_observed :: pyfloat
  b_severity :: string
  b_priority :: string
  b_message :: string

definition rule_skipped :: "alarm_rule \<Rightarrow> string option \<Rightarrow> bool" where
  "rule_skipped rule device_type \<longleftrightarrow>
     \<not> r_enabled rule \<or> (r_device_type rule \<noteq> None \<and> r_device_type rule \<noteq> device_type)"

definition breach_of :: "alarm_rule \<Rightarrow> pyfloat \<Rightarrow> string \<Rightarrow> rule_breach" where
  "breach_of rule observed message =
     \<lparr>b_rule_id = r_id rule, b_rule_name = r_name rule, b_signal_name = r_signal_name rule,
      b_operator = r_operator rule, b_threshold = r_threshold rule, b_observed = observed,
      b_severity = r_severity rule, b_priority = r_priority rule, b_message = message\<rparr>"

definition evaluate_rule ::
  "alarm_rule \<Rightarrow> (string \<times> pyfloat) list \<Rightarrow> string option \<Rightarrow> app_error + rule_breach list" where
  "evaluate_rule rule readings device_type =
     (if rule_skipped rule device_type then Inr []
      else case map_of SIGNAL_SPECS (r_signal_name rule) of None \<Rightarrow> Inr []
        | Some spec \<Rightarrow>
            (case map_of readings (r_signal_name rule) of None \<Rightarrow> Inr []
             | Some observed \<Rightarrow>
                 bindE (compare (r_operator rule) observed (r_threshold rule)) (\<lambda>hit.
                   if \<not> hit then Inr []
                   else bindE (render_message spec (r_operator rule) (r_threshold rule) observed)
                          (\<lambda>message. Inr [breach_of rule observed message]))))"

definition evaluate_rules ::
  "alarm_rule list \<Rightarrow> (string \<times> pyfloat) list \<Rightarrow> string option \<Rightarrow> app_error + rule_breach list" where
  "evaluate_rules rules readings device_type =
     foldE (\<lambda>breaches rule.
              bindE (evaluate_rule rule readings device_type) (\<lambda>bs. Inr (breaches @ bs)))
       [] rules"

section \<open>Validation of a definition\<close>

record rule_def =
  rd_id :: "string option"
  rd_name :: "string option"
  rd_signal_name :: "string option"
  rd_operator :: "string option"
  rd_threshold :: "pyfloat option"
  rd_severity :: "string option"
  rd_priority :: "string option"
  rd_device_type :: "string option"

definition in_vocabulary :: "string option \<Rightarrow> string list \<Rightarrow> bool" where
  "in_vocabulary x vocabulary = (case x of None \<Rightarrow> False | Some s \<Rightarrow> s \<in> set vocabulary)"

definition rule_id_ok :: "string option \<Rightarrow> bool" where
  "rule_id_ok x =
     (case x of None \<Rightarrow> False
      | Some s \<Rightarrow> s \<noteq> [] \<and> length s \<le> MAX_RULE_ID \<and> set s \<subseteq> set RULE_ID_ALLOWED)"

definition rule_name_ok :: "string option \<Rightarrow> bool" where
  "rule_name_ok x =
     (case x of None \<Rightarrow> False
      | Some s \<Rightarrow> s \<noteq> [] \<and> py_strip s \<noteq> [] \<and> length s \<le> MAX_NAME)"

definition threshold_issues :: "rule_def \<Rightarrow> issue list" where
  "threshold_issues d =
     (let spec = Option.bind (rd_signal_name d) (map_of SIGNAL_SPECS) in
      case rd_threshold d of
        None \<Rightarrow> [(''threshold'', ''THRESHOLD_NOT_FINITE'', ''threshold must be a finite number'')]
      | Some t \<Rightarrow>
          if \<not> float_isfinite t
          then [(''threshold'', ''THRESHOLD_NOT_FINITE'', ''threshold must be a finite number'')]
          else case spec of None \<Rightarrow> []
            | Some sp \<Rightarrow>
                if float_le (s_low sp) t \<and> float_le t (s_high sp) then []
                else [(''threshold'', ''THRESHOLD_OUT_OF_RANGE'',
                       ''threshold for signal ''
                         @ [CHR 0x27] @ the (rd_signal_name d) @ [CHR 0x27]
                         @ '' must lie within '' @ format_g (s_low sp) @ '' to ''
                         @ format_g (s_high sp) @ '' '' @ s_unit sp)])"

definition validate_rule_definition :: "rule_def \<Rightarrow> issue list" where
  "validate_rule_definition d =
     (if rule_id_ok (rd_id d) then []
      else [(''id'', ''RULE_ID_INVALID'',
             ''rule id must be 1 to 100 characters drawn from letters, ''
               @ ''digits, dot, underscore, or hyphen'')])
     @ (if rule_name_ok (rd_name d) then []
        else [(''name'', ''NAME_REQUIRED'', ''name must be 1 to 200 characters'')])
     @ (if in_vocabulary (rd_signal_name d) RULE_SIGNAL_NAMES then []
        else [(''signal_name'', ''SIGNAL_UNKNOWN'',
               ''signal must be one of '' @ py_join '', '' RULE_SIGNAL_NAMES)])
     @ (if in_vocabulary (rd_operator d) RULE_OPERATORS then []
        else [(''operator'', ''OPERATOR_UNKNOWN'',
               ''operator must be one of '' @ py_join '', '' RULE_OPERATORS)])
     @ (if in_vocabulary (rd_severity d) RULE_SEVERITIES then []
        else [(''severity'', ''SEVERITY_UNKNOWN'',
               ''severity must be one of '' @ py_join '', '' RULE_SEVERITIES)])
     @ (if in_vocabulary (rd_priority d) RULE_PRIORITIES then []
        else [(''priority'', ''PRIORITY_UNKNOWN'',
               ''priority must be one of '' @ py_join '', '' RULE_PRIORITIES)])
     @ threshold_issues d
     @ (case rd_device_type d of None \<Rightarrow> []
        | Some s \<Rightarrow>
            if py_strip s = []
            then [(''device_type'', ''DEVICE_TYPE_INVALID'', ''device_type must not be blank'')]
            else [])"

definition def_of_rule :: "alarm_rule \<Rightarrow> rule_def" where
  "def_of_rule r =
     \<lparr>rd_id = Some (r_id r), rd_name = Some (r_name r), rd_signal_name = Some (r_signal_name r),
      rd_operator = Some (r_operator r), rd_threshold = Some (r_threshold r),
      rd_severity = Some (r_severity r), rd_priority = Some (r_priority r),
      rd_device_type = r_device_type r\<rparr>"

text \<open>The table constraints of \<^verbatim>\<open>alarm_rules\<close>.\<close>

definition rule_row_ok :: "alarm_rule \<Rightarrow> bool" where
  "rule_row_ok r \<longleftrightarrow>
     r_signal_name r \<in> set RULE_SIGNAL_NAMES \<and> r_operator r \<in> set RULE_OPERATORS \<and>
     r_severity r \<in> set RULE_SEVERITIES \<and> r_priority r \<in> set RULE_PRIORITIES"

section \<open>Lemmas\<close>

lemma compare_known: "operator \<in> set RULE_OPERATORS \<Longrightarrow> \<exists>b. compare operator x t = Inr b"
  by (auto simp: compare_def RULE_OPERATORS_def)

lemma compare_error_iff: "compare operator x t = Inl e \<longleftrightarrow> operator \<notin> set RULE_OPERATORS \<and> e = PyValueError"
  by (auto simp: compare_def RULE_OPERATORS_def)

lemma compare_Inr_known: "compare operator x t = Inr b \<Longrightarrow> operator \<in> set RULE_OPERATORS"
  by (auto simp: compare_def RULE_OPERATORS_def split: if_splits)

lemma OPERATOR_SYMBOLS_known:
  "operator \<in> set RULE_OPERATORS \<Longrightarrow> \<exists>s. map_of OPERATOR_SYMBOLS operator = Some s"
  by (auto simp: OPERATOR_SYMBOLS_def RULE_OPERATORS_def)

lemma render_message_known:
  "operator \<in> set RULE_OPERATORS \<Longrightarrow> \<exists>m. render_message spec operator t x = Inr m"
  using OPERATOR_SYMBOLS_known [of operator] by (auto simp: render_message_def)

lemma SIGNAL_SPECS_keys: "map fst SIGNAL_SPECS = RULE_SIGNAL_NAMES"
  by (simp add: SIGNAL_SPECS_def RULE_SIGNAL_NAMES_def)

lemma SIGNAL_SPECS_canonical: "(k, spec) \<in> set SIGNAL_SPECS \<Longrightarrow> s_canonical spec = k"
  by (auto simp: SIGNAL_SPECS_def SignalSpec_def)

lemma SIGNAL_SPECS_fields_distinct: "distinct (map (s_field \<circ> snd) SIGNAL_SPECS)"
  by (simp add: SIGNAL_SPECS_def SignalSpec_def)

lemma SIGNAL_SPECS_known:
  "name \<in> set RULE_SIGNAL_NAMES \<longleftrightarrow> (\<exists>spec. map_of SIGNAL_SPECS name = Some spec)"
proof -
  have "name \<in> fst ` set SIGNAL_SPECS \<longleftrightarrow> name \<in> set RULE_SIGNAL_NAMES"
    by (metis SIGNAL_SPECS_keys set_map)
  then show ?thesis by (metis map_of_eq_None_iff not_None_eq)
qed

text \<open>A rule evaluates to at most one breach, carrying the rule's own fields.\<close>

lemma evaluate_rule_total:
  assumes "r_operator rule \<in> set RULE_OPERATORS"
  shows "\<exists>bs. evaluate_rule rule readings dt = Inr bs \<and> length bs \<le> 1"
proof -
  obtain f where cmp: "\<And>x t. compare (r_operator rule) x t = Inr (f x t)"
    using compare_known [OF assms] by metis
  obtain g where rend: "\<And>s t x. render_message s (r_operator rule) t x = Inr (g s t x)"
    using render_message_known [OF assms] by metis
  show ?thesis
    by (simp add: evaluate_rule_def cmp rend split: option.splits)
qed

lemma evaluate_rule_breach:
  assumes "evaluate_rule rule readings dt = Inr bs" and "b \<in> set bs"
  shows "\<not> rule_skipped rule dt \<and> map_of readings (r_signal_name rule) = Some (b_observed b) \<and>
    compare (r_operator rule) (b_observed b) (r_threshold rule) = Inr True \<and>
    b = breach_of rule (b_observed b) (b_message b)"
  using assms
  by (auto simp: evaluate_rule_def bindE_Inr_iff breach_of_def split: if_splits option.splits)

lemma evaluate_rule_fires:
  assumes "\<not> rule_skipped rule dt" and "r_signal_name rule \<in> set RULE_SIGNAL_NAMES"
    and "map_of readings (r_signal_name rule) = Some x"
    and "compare (r_operator rule) x (r_threshold rule) = Inr True"
  shows "\<exists>m. evaluate_rule rule readings dt = Inr [breach_of rule x m]"
proof -
  obtain spec where spec: "map_of SIGNAL_SPECS (r_signal_name rule) = Some spec"
    using assms(2) SIGNAL_SPECS_known by blast
  obtain m where m: "render_message spec (r_operator rule) (r_threshold rule) x = Inr m"
    using render_message_known compare_Inr_known [OF assms(4)] by blast
  show ?thesis using assms spec m by (auto simp: evaluate_rule_def)
qed

lemma evaluate_rules_step:
  "foldE (\<lambda>bs rule. bindE (evaluate_rule rule readings dt) (\<lambda>cs. Inr (bs @ cs))) acc rules =
     bindE (mapE (\<lambda>rule. evaluate_rule rule readings dt) rules) (\<lambda>css. Inr (acc @ concat css))"
  by (induction rules arbitrary: acc) (auto simp: bindE_def split: sum.splits)

lemma evaluate_rules_mapE:
  "evaluate_rules rules readings dt =
     bindE (mapE (\<lambda>rule. evaluate_rule rule readings dt) rules) (\<lambda>css. Inr (concat css))"
  by (simp add: evaluate_rules_def evaluate_rules_step)

lemma mapE_total:
  assumes "\<And>x. x \<in> set xs \<Longrightarrow> \<exists>y. f x = Inr y"
  shows "\<exists>ys. mapE f xs = Inr ys"
  using assms by (induction xs) (auto simp: bindE_def, metis (no_types, lifting) sum.case(2))

lemma mapE_Inr_map:
  assumes "\<And>x. x \<in> set xs \<Longrightarrow> f x = Inr (g x)"
  shows "mapE f xs = Inr (map g xs)"
  using assms by (induction xs) auto

lemma mapE_Inr_list_all2: "mapE f xs = Inr ys \<Longrightarrow> list_all2 (\<lambda>x y. f x = Inr y) xs ys"
  by (induction xs arbitrary: ys) (auto simp: bindE_Inr_iff)

lemma in_vocabulary_Some [simp]: "in_vocabulary (Some s) vs \<longleftrightarrow> s \<in> set vs"
  by (simp add: in_vocabulary_def)

lemma threshold_issues_Nil_iff:
  "threshold_issues d = [] \<longleftrightarrow>
     (\<exists>q. rd_threshold d = Some (Fin q) \<and>
       (\<forall>spec. Option.bind (rd_signal_name d) (map_of SIGNAL_SPECS) = Some spec \<longrightarrow>
          float_le (s_low spec) (Fin q) \<and> float_le (Fin q) (s_high spec)))"
  by (auto simp: threshold_issues_def Let_def float_isfinite_iff split: option.splits)

lemma validate_rule_definition_Nil_iff:
  "validate_rule_definition d = [] \<longleftrightarrow>
     rule_id_ok (rd_id d) \<and> rule_name_ok (rd_name d) \<and>
     in_vocabulary (rd_signal_name d) RULE_SIGNAL_NAMES \<and>
     in_vocabulary (rd_operator d) RULE_OPERATORS \<and>
     in_vocabulary (rd_severity d) RULE_SEVERITIES \<and>
     in_vocabulary (rd_priority d) RULE_PRIORITIES \<and>
     threshold_issues d = [] \<and>
     (\<forall>s. rd_device_type d = Some s \<longrightarrow> py_strip s \<noteq> [])"
  by (auto simp: validate_rule_definition_def split: option.splits)

end
