(* ===== verification/Alarms.thy ===== *)
theory Alarms
  imports AuditTrail Rules
begin

text \<open>
  The alarm subsystem: \<^verbatim>\<open>repositories/alarm.py\<close>, \<^verbatim>\<open>repositories/alarm_rule.py\<close>,
  \<^verbatim>\<open>incidents/service.py\<close> (rule registry and alarm lifecycle) and \<^verbatim>\<open>incidents/correlation.py\<close>
  (related-alarm lookup). A handler returns the exception it raises or its value with the new world.
\<close>

section \<open>Alarm repository\<close>

definition OPEN_INSTANCE_PREDICATE :: "alarm \<Rightarrow> bool" where
  "OPEN_INSTANCE_PREDICATE a \<longleftrightarrow> a_status a \<noteq> ''CLEARED''"

definition ACTIVITY_AT :: "alarm \<Rightarrow> instant" where
  "ACTIVITY_AT a = (case a_last_triggered_at a of None \<Rightarrow> a_started_at a | Some t \<Rightarrow> t)"

text \<open>
  The constraints of the \<^verbatim>\<open>alarms\<close> table a new row must meet: primary key, one alarm per sample and
  rule (a null sample conflicts with nothing), one open alarm per device and rule, the status
  vocabulary, a positive count and the two foreign keys.
\<close>

definition alarm_row_ok :: "world \<Rightarrow> alarm \<Rightarrow> bool" where
  "alarm_row_ok w a \<longleftrightarrow>
     a_id a \<notin> a_id ` set (w_alarms w) \<and>
     (a_telemetry_id a \<noteq> None \<longrightarrow>
        (a_telemetry_id a, a_rule_id a) \<notin> (\<lambda>b. (a_telemetry_id b, a_rule_id b)) ` set (w_alarms w)) \<and>
     (OPEN_INSTANCE_PREDICATE a \<longrightarrow>
        (a_device_id a, a_rule_id a) \<notin>
          (\<lambda>b. (a_device_id b, a_rule_id b)) ` set (filter OPEN_INSTANCE_PREDICATE (w_alarms w))) \<and>
     a_status a \<in> {''ACTIVE'', ''ACKNOWLEDGED'', ''CLEARED''} \<and>
     1 \<le> a_occurrence_count a \<and>
     a_device_id a \<in> dev_device_id ` set (w_devices w) \<and>
     (\<forall>t. a_telemetry_id a = Some t \<longrightarrow> t \<in> t_id ` set (w_telemetry w))"

definition alarm_create ::
  "ctx \<Rightarrow> string \<Rightarrow> uuid option \<Rightarrow> string \<Rightarrow> string \<Rightarrow> string \<Rightarrow> instant option \<Rightarrow> int \<Rightarrow> world
    \<Rightarrow> app_error + alarm \<times> world" where
  "alarm_create c device_id telemetry_id rule_id severity message started_at occurrence_count w =
     (let (fresh, w1) = uuid4 c w;
          (start, w2) = (case started_at of Some t \<Rightarrow> (t, w1) | None \<Rightarrow> utc_now c w1);
          a = \<lparr>a_id = fresh, a_device_id = device_id, a_telemetry_id = telemetry_id,
               a_rule_id = rule_id, a_severity = severity, a_status = ''ACTIVE'',
               a_message = message, a_started_at = start, a_cleared_at = None,
               a_acknowledged_at = None, a_acknowledged_by = None, a_clear_reason = None,
               a_occurrence_count = occurrence_count, a_last_triggered_at = started_at\<rparr>
      in if alarm_row_ok w2 a then Inr (a, w2\<lparr>w_alarms := w_alarms w2 @ [a]\<rparr>)
         else Inl IntegrityError)"

definition alarm_get :: "uuid \<Rightarrow> world \<Rightarrow> alarm option" where
  "alarm_get alarm_id w = find_row a_id alarm_id (w_alarms w)"

definition by_started_asc :: "alarm \<Rightarrow> alarm \<Rightarrow> bool" where
  "by_started_asc a b \<longleftrightarrow> a_started_at a \<le> a_started_at b"

definition first_of :: "'a list \<Rightarrow> 'a option" where
  "first_of xs = (case xs of [] \<Rightarrow> None | x # _ \<Rightarrow> Some x)"

definition find_open :: "string \<Rightarrow> string \<Rightarrow> world \<Rightarrow> alarm option" where
  "find_open device_id rule_id w =
     first_of (sort_by by_started_asc
       (filter (\<lambda>a. a_device_id a = device_id \<and> a_rule_id a = rule_id \<and> OPEN_INSTANCE_PREDICATE a)
          (w_alarms w)))"

definition by_started_desc :: "alarm \<Rightarrow> alarm \<Rightarrow> bool" where
  "by_started_desc a b \<longleftrightarrow>
     a_started_at b < a_started_at a \<or> (a_started_at a = a_started_at b \<and> a_id b \<le> a_id a)"

definition alarm_list_instances ::
  "string option \<Rightarrow> nat \<Rightarrow> string option \<Rightarrow> string option \<Rightarrow> string option \<Rightarrow> instant option \<Rightarrow> bool
    \<Rightarrow> string list option \<Rightarrow> world \<Rightarrow> alarm list" where
  "alarm_list_instances device_id limit status severity rule_id since open_only device_ids w =
     take limit (sort_by by_started_desc (filter (\<lambda>a.
       (case device_id of Some d \<Rightarrow> a_device_id a = d
        | None \<Rightarrow> (case device_ids of None \<Rightarrow> True | Some ds \<Rightarrow> a_device_id a \<in> set ds)) \<and>
       (case status of Some s \<Rightarrow> a_status a = s
        | None \<Rightarrow> (open_only \<longrightarrow> OPEN_INSTANCE_PREDICATE a)) \<and>
       opt_eq severity (a_severity a) \<and>
       opt_eq rule_id (a_rule_id a) \<and>
       (case since of None \<Rightarrow> True | Some t \<Rightarrow> t \<le> ACTIVITY_AT a)) (w_alarms w)))"

definition by_activity_desc :: "alarm \<Rightarrow> alarm \<Rightarrow> bool" where
  "by_activity_desc a b \<longleftrightarrow>
     ACTIVITY_AT b < ACTIVITY_AT a \<or> (ACTIVITY_AT a = ACTIVITY_AT b \<and> a_id b \<le> a_id a)"

definition alarm_related ::
  "string \<Rightarrow> instant \<Rightarrow> string option \<Rightarrow> bool \<Rightarrow> nat \<Rightarrow> world \<Rightarrow> alarm list" where
  "alarm_related device_id window_start rule_id include_open limit w =
     take limit (sort_by by_activity_desc (filter (\<lambda>a.
       a_device_id a = device_id \<and>
       (window_start \<le> ACTIVITY_AT a \<or> (include_open \<and> OPEN_INSTANCE_PREDICATE a)) \<and>
       opt_eq rule_id (a_rule_id a)) (w_alarms w)))"

section \<open>Rule repository and registry\<close>

definition RULE_ORDER :: "ctx \<Rightarrow> alarm_rule \<Rightarrow> alarm_rule \<Rightarrow> bool" where
  "RULE_ORDER c r r' \<longleftrightarrow>
     c_collate c (r_severity r') < c_collate c (r_severity r) \<or>
     (c_collate c (r_severity r) = c_collate c (r_severity r') \<and>
      c_collate c (r_id r) \<le> c_collate c (r_id r'))"

definition rule_get :: "string \<Rightarrow> world \<Rightarrow> alarm_rule option" where
  "rule_get rule_id w = find_row r_id rule_id (w_rules w)"

definition list_rules :: "ctx \<Rightarrow> bool \<Rightarrow> world \<Rightarrow> alarm_rule list" where
  "list_rules c enabled_only w =
     sort_by (RULE_ORDER c) (filter (\<lambda>r. enabled_only \<longrightarrow> r_enabled r) (w_rules w))"

definition list_applicable :: "ctx \<Rightarrow> string option \<Rightarrow> world \<Rightarrow> alarm_rule list" where
  "list_applicable c device_type w =
     sort_by (RULE_ORDER c) (filter (\<lambda>r. r_enabled r \<and>
       (case device_type of None \<Rightarrow> r_device_type r = None
        | Some t \<Rightarrow> r_device_type r = None \<or> r_device_type r = Some t)) (w_rules w))"

definition get_rule :: "string \<Rightarrow> world \<Rightarrow> app_error + alarm_rule" where
  "get_rule rule_id w =
     (case rule_get rule_id w of None \<Rightarrow> Inl (AlarmRuleNotFoundError rule_id) | Some r \<Rightarrow> Inr r)"

record rule_create =
  rc_id :: string
  rc_name :: string
  rc_description :: string
  rc_device_type :: "string option"
  rc_signal_name :: string
  rc_operator :: string
  rc_threshold :: pyfloat
  rc_severity :: string
  rc_priority :: string
  rc_enabled :: bool

definition def_of_create :: "rule_create \<Rightarrow> rule_def" where
  "def_of_create p =
     \<lparr>rd_id = Some (rc_id p), rd_name = Some (rc_name p), rd_signal_name = Some (rc_signal_name p),
      rd_operator = Some (rc_operator p), rd_threshold = Some (rc_threshold p),
      rd_severity = Some (rc_severity p), rd_priority = Some (rc_priority p),
      rd_device_type = rc_device_type p\<rparr>"

definition rule_row_of_create :: "rule_create \<Rightarrow> instant \<Rightarrow> instant \<Rightarrow> alarm_rule" where
  "rule_row_of_create p created updated =
     \<lparr>r_id = rc_id p, r_name = rc_name p, r_description = rc_description p,
      r_device_type = rc_device_type p, r_signal_name = rc_signal_name p,
      r_operator = rc_operator p, r_threshold = rc_threshold p, r_severity = rc_severity p,
      r_priority = rc_priority p, r_enabled = rc_enabled p, r_created_at = created,
      r_updated_at = updated\<rparr>"

definition rule_insert :: "ctx \<Rightarrow> rule_create \<Rightarrow> world \<Rightarrow> app_error + alarm_rule \<times> world" where
  "rule_insert c p w =
     (let (created, w1) = utc_now c w; (updated, w2) = utc_now c w1;
          r = rule_row_of_create p created updated
      in if rule_row_ok r \<and> r_id r \<notin> r_id ` set (w_rules w2)
         then Inr (r, w2\<lparr>w_rules := w_rules w2 @ [r]\<rparr>) else Inl IntegrityError)"

definition create_rule ::
  "ctx \<Rightarrow> rule_create \<Rightarrow> string \<Rightarrow> world \<Rightarrow> app_error + alarm_rule \<times> world" where
  "create_rule c p actor w =
     (let issues = validate_rule_definition (def_of_create p) in
      if issues \<noteq> [] then Inl (AlarmRuleValidationError issues)
      else if rule_get (rc_id p) w \<noteq> None then Inl (AlarmRuleConflictError (rc_id p))
      else bindE (rule_insert c p w) (\<lambda>(r, w1).
        Inr (r, audit_add c (entry ''ALARM_RULE_CREATED'' (r_id r) ''SUCCESS''
          [(''signal_name'', JStr (r_signal_name r)), (''operator'', JStr (r_operator r)),
           (''threshold'', JNum (r_threshold r)), (''severity'', JStr (r_severity r)),
           (''priority'', JStr (r_priority r)), (''enabled'', JBool (r_enabled r)),
           (''device_type'', json_opt_str (r_device_type r))] (Some actor)) w1)))"

text \<open>
  A patch: the fields the client set, each possibly to null. A column that does not accept null
  refuses it when the session flushes.
\<close>

record rule_update =
  ru_name :: "string option option"
  ru_description :: "string option option"
  ru_device_type :: "string option option"
  ru_signal_name :: "string option option"
  ru_operator :: "string option option"
  ru_threshold :: "pyfloat option option"
  ru_severity :: "string option option"
  ru_priority :: "string option option"
  ru_enabled :: "bool option option"

definition changed_fields :: "rule_update \<Rightarrow> string list" where
  "changed_fields p =
     map fst (filter snd
       [(''description'', ru_description p \<noteq> None), (''device_type'', ru_device_type p \<noteq> None),
        (''enabled'', ru_enabled p \<noteq> None), (''name'', ru_name p \<noteq> None),
        (''operator'', ru_operator p \<noteq> None), (''priority'', ru_priority p \<noteq> None),
        (''severity'', ru_severity p \<noteq> None), (''signal_name'', ru_signal_name p \<noteq> None),
        (''threshold'', ru_threshold p \<noteq> None)])"

definition merged :: "'a option option \<Rightarrow> 'a option \<Rightarrow> 'a option" where
  "merged change current = (case change of None \<Rightarrow> current | Some v \<Rightarrow> v)"

definition merged_def :: "rule_update \<Rightarrow> alarm_rule \<Rightarrow> rule_def" where
  "merged_def p r =
     \<lparr>rd_id = Some (r_id r), rd_name = merged (ru_name p) (Some (r_name r)),
      rd_signal_name = merged (ru_signal_name p) (Some (r_signal_name r)),
      rd_operator = merged (ru_operator p) (Some (r_operator r)),
      rd_threshold = merged (ru_threshold p) (Some (r_threshold r)),
      rd_severity = merged (ru_severity p) (Some (r_severity r)),
      rd_priority = merged (ru_priority p) (Some (r_priority r)),
      rd_device_type = merged (ru_device_type p) (r_device_type r)\<rparr>"

definition patched :: "rule_update \<Rightarrow> alarm_rule \<Rightarrow> alarm_rule option" where
  "patched p r =
     Option.bind (merged (ru_name p) (Some (r_name r))) (\<lambda>nm.
     Option.bind (merged (ru_description p) (Some (r_description r))) (\<lambda>desc.
     Option.bind (merged (ru_signal_name p) (Some (r_signal_name r))) (\<lambda>sig.
     Option.bind (merged (ru_operator p) (Some (r_operator r))) (\<lambda>oper.
     Option.bind (merged (ru_threshold p) (Some (r_threshold r))) (\<lambda>th.
     Option.bind (merged (ru_severity p) (Some (r_severity r))) (\<lambda>sev.
     Option.bind (merged (ru_priority p) (Some (r_priority r))) (\<lambda>pri.
     Option.bind (merged (ru_enabled p) (Some (r_enabled r))) (\<lambda>en.
     Some (r\<lparr>r_name := nm, r_description := desc,
             r_device_type := merged (ru_device_type p) (r_device_type r),
             r_signal_name := sig, r_operator := oper, r_threshold := th, r_severity := sev,
             r_priority := pri, r_enabled := en\<rparr>)))))))))"

definition rule_apply_update ::
  "ctx \<Rightarrow> alarm_rule \<Rightarrow> rule_update \<Rightarrow> world \<Rightarrow> app_error + alarm_rule \<times> world" where
  "rule_apply_update c r p w =
     (case patched p r of None \<Rightarrow> Inl IntegrityError
      | Some r1 \<Rightarrow>
          (let (ts, w1) = utc_now c w; r2 = r1\<lparr>r_updated_at := ts\<rparr>
           in if rule_row_ok r2
              then Inr (r2, w1\<lparr>w_rules := update_rows r_id (r_id r) (\<lambda>_. r2) (w_rules w1)\<rparr>)
              else Inl IntegrityError))"

definition update_rule ::
  "ctx \<Rightarrow> string \<Rightarrow> rule_update \<Rightarrow> string \<Rightarrow> world \<Rightarrow> app_error + alarm_rule \<times> world" where
  "update_rule c rule_id p actor w =
     bindE (get_rule rule_id w) (\<lambda>r.
       if changed_fields p = []
       then Inl (AlarmRuleValidationError [(''<root>'', ''NO_FIELDS'', ''patch body was empty'')])
       else
         (let issues = validate_rule_definition (merged_def p r) in
          if issues \<noteq> [] then Inl (AlarmRuleValidationError issues)
          else bindE (rule_apply_update c r p w) (\<lambda>(r', w1).
            Inr (r', audit_add c (entry ''ALARM_RULE_UPDATED'' (r_id r') ''SUCCESS''
              [(''changed_fields'', JList (map JStr (changed_fields p)))] (Some actor)) w1))))"

section \<open>Alarm lifecycle\<close>

definition instant_from_payload :: "ctx \<Rightarrow> payload \<Rightarrow> world \<Rightarrow> instant \<times> world" where
  "instant_from_payload c payload w =
     (case payload ''timestamp'' of
        Some (VTime (Aware t)) \<Rightarrow> (t, w)
      | Some (VTime (Naive _)) \<Rightarrow> utc_now c w
      | Some (VStr s) \<Rightarrow>
          (case c_fromisoformat c s of
             Some (Aware t) \<Rightarrow> (t, w)
           | Some (Naive _) \<Rightarrow> utc_now c w
           | None \<Rightarrow> utc_now c w)
      | _ \<Rightarrow> utc_now c w)"

definition instant_or_now :: "ctx \<Rightarrow> instant option \<Rightarrow> world \<Rightarrow> instant \<times> world" where
  "instant_or_now c t w = (case t of Some i \<Rightarrow> (i, w) | None \<Rightarrow> utc_now c w)"

definition apply_breach :: "rule_breach \<Rightarrow> instant \<Rightarrow> alarm \<Rightarrow> alarm" where
  "apply_breach breach instant a =
     a\<lparr>a_occurrence_count := a_occurrence_count a + 1,
       a_last_triggered_at :=
         (case a_last_triggered_at a of None \<Rightarrow> Some instant
          | Some t \<Rightarrow> if instant > t then Some instant else Some t),
       a_message := b_message breach,
       a_severity := b_severity breach\<rparr>"

definition fold_breach :: "alarm \<Rightarrow> rule_breach \<Rightarrow> instant \<Rightarrow> world \<Rightarrow> (alarm \<times> bool) \<times> world" where
  "fold_breach a breach instant w =
     ((apply_breach breach instant a, False),
      w\<lparr>w_alarms := update_rows a_id (a_id a) (apply_breach breach instant) (w_alarms w)\<rparr>)"

text \<open>
  \<open>others\<close> is what concurrent sessions commit between this session's lookup and its insert. When one
  of them opened the same condition, the partial unique index refuses the insert, the savepoint is
  rolled back and the second lookup finds the winner's row.
\<close>

definition create_or_update_alarm ::
  "ctx \<Rightarrow> (world \<Rightarrow> world) \<Rightarrow> string \<Rightarrow> rule_breach \<Rightarrow> uuid option \<Rightarrow> instant option \<Rightarrow> string \<Rightarrow> world
    \<Rightarrow> app_error + (alarm \<times> bool) \<times> world" where
  "create_or_update_alarm c others device_id breach telemetry_id triggered_at actor w =
     (let (instant, w1) = instant_or_now c triggered_at w in
      case find_open device_id (b_rule_id breach) w1 of
        Some a \<Rightarrow> Inr (fold_breach a breach instant w1)
      | None \<Rightarrow>
          (let w2 = others w1 in
           case alarm_create c device_id telemetry_id (b_rule_id breach) (b_severity breach)
                  (b_message breach) (Some instant) 1 w2 of
             Inl _ \<Rightarrow>
               (case find_open device_id (b_rule_id breach) w2 of
                  None \<Rightarrow> Inl IntegrityError
                | Some a \<Rightarrow> Inr (fold_breach a breach instant (snd (uuid4 c w2))))
           | Inr (a, w3) \<Rightarrow>
               (let w4 = inc_metric ''alarm_created_total'' [b_rule_id breach, b_severity breach] w3;
                    w5 = audit_add c (entry ''ALARM_CREATED'' device_id ''SUCCESS''
                      [(''rule_id'', JStr (b_rule_id breach)),
                       (''severity'', JStr (b_severity breach)),
                       (''priority'', JStr (b_priority breach)),
                       (''alarm_id'', JStr (a_id a)),
                       (''observed'', JNum (b_observed breach)),
                       (''threshold'', JNum (b_threshold breach))] (Some actor)) w4
                in Inr ((a, True), w5))))"

definition record_breaches ::
  "ctx \<Rightarrow> (world \<Rightarrow> world) \<Rightarrow> string \<Rightarrow> string option \<Rightarrow> uuid option \<Rightarrow> payload \<Rightarrow> instant option
    \<Rightarrow> string \<Rightarrow> world \<Rightarrow> app_error + alarm list \<times> world" where
  "record_breaches c others device_id device_type telemetry_id payload triggered_at actor w =
     (let rules = list_applicable c device_type w in
      if rules = [] then Inr ([], w)
      else bindE (canonical_readings c payload) (\<lambda>readings.
        bindE (evaluate_rules rules readings device_type) (\<lambda>breaches.
          if breaches = [] then Inr ([], w)
          else
            (let (instant, w1) =
                   (case triggered_at of Some t \<Rightarrow> (t, w) | None \<Rightarrow> instant_from_payload c payload w)
             in foldE (\<lambda>(touched, w) breach.
                  bindE (create_or_update_alarm c others device_id breach telemetry_id
                           (Some instant) actor w)
                    (\<lambda>((a, _), w'). Inr (touched @ [a], w')))
                  ([], w1) breaches))))"

definition require_alarm :: "uuid \<Rightarrow> world \<Rightarrow> app_error + alarm" where
  "require_alarm alarm_id w =
     (case alarm_get alarm_id w of None \<Rightarrow> Inl (AlarmNotFoundError alarm_id) | Some a \<Rightarrow> Inr a)"

definition alarm_status_of :: "alarm \<Rightarrow> app_error + AlarmStatus" where
  "alarm_status_of a =
     (case as_alarm_status (a_status a) of
        None \<Rightarrow> Inl (AlarmStatusUnknownError (a_id a) (a_status a))
      | Some s \<Rightarrow> Inr s)"

definition alarm_require_transition ::
  "alarm \<Rightarrow> AlarmStatus \<Rightarrow> AlarmStatus \<Rightarrow> app_error + unit" where
  "alarm_require_transition a current target =
     guardE (is_alarm_transition_allowed current target)
       (AlarmStateError (a_id a) current target (describe_alarm_transitions current))"

definition set_alarm :: "uuid \<Rightarrow> (alarm \<Rightarrow> alarm) \<Rightarrow> world \<Rightarrow> world" where
  "set_alarm alarm_id f w = w\<lparr>w_alarms := update_rows a_id alarm_id f (w_alarms w)\<rparr>"

definition acknowledge_alarm ::
  "ctx \<Rightarrow> uuid \<Rightarrow> string \<Rightarrow> string option \<Rightarrow> world \<Rightarrow> app_error + alarm \<times> world" where
  "acknowledge_alarm c alarm_id actor note w =
     bindE (require_alarm alarm_id w) (\<lambda>a.
     bindE (alarm_status_of a) (\<lambda>current.
     bindE (alarm_require_transition a current ALARM_ACKNOWLEDGED) (\<lambda>_.
       (let (ts, w1) = utc_now c w;
            f = (\<lambda>r. r\<lparr>a_status := ''ACKNOWLEDGED'', a_acknowledged_at := Some ts,
                       a_acknowledged_by := Some actor\<rparr>);
            w2 = set_alarm alarm_id f w1;
            w3 = audit_add c (entry ''ALARM_ACKNOWLEDGED'' (a_device_id a) ''SUCCESS''
              [(''alarm_id'', JStr (a_id a)), (''rule_id'', JStr (a_rule_id a)),
               (''note'', json_opt_str note),
               (''occurrence_count'', JInt (a_occurrence_count a))] (Some actor)) w2
        in Inr (f a, w3)))))"

definition clear_alarm ::
  "ctx \<Rightarrow> uuid \<Rightarrow> string \<Rightarrow> string \<Rightarrow> world \<Rightarrow> app_error + alarm \<times> world" where
  "clear_alarm c alarm_id actor reason w =
     bindE (require_alarm alarm_id w) (\<lambda>a.
     bindE (alarm_status_of a) (\<lambda>current.
     bindE (alarm_require_transition a current ALARM_CLEARED) (\<lambda>_.
       (let (ts, w1) = utc_now c w;
            f = (\<lambda>r. r\<lparr>a_status := ''CLEARED'', a_cleared_at := Some ts,
                       a_clear_reason := Some reason\<rparr>);
            w2 = set_alarm alarm_id f w1;
            w3 = inc_metric ''alarm_cleared_total'' [a_rule_id a, a_severity a] w2;
            w4 = audit_add c (entry ''ALARM_CLEARED'' (a_device_id a) ''SUCCESS''
              [(''alarm_id'', JStr (a_id a)), (''rule_id'', JStr (a_rule_id a)),
               (''reason'', JStr reason), (''previous_status'', JStr (alarm_status_value current)),
               (''occurrence_count'', JInt (a_occurrence_count a))] (Some actor)) w3
        in Inr (f a, w4)))))"

section \<open>Related-alarm lookup\<close>

definition DEFAULT_WINDOW_SECONDS :: int where
  "DEFAULT_WINDOW_SECONDS = 300"

definition MAX_WINDOW_SECONDS :: int where
  "MAX_WINDOW_SECONDS = 86400"

definition resolve_reference ::
  "ctx \<Rightarrow> pydatetime option \<Rightarrow> world \<Rightarrow> app_error + instant \<times> world" where
  "resolve_reference c reference w =
     (case reference of None \<Rightarrow> Inr (utc_now c w)
      | Some (Naive _) \<Rightarrow> Inl CorrelationWindowError
      | Some (Aware t) \<Rightarrow> Inr (t, w))"

definition window_start ::
  "ctx \<Rightarrow> pydatetime option \<Rightarrow> int \<Rightarrow> world \<Rightarrow> app_error + instant \<times> world" where
  "window_start c reference window_seconds w =
     (if window_seconds < 1 \<or> window_seconds > MAX_WINDOW_SECONDS then Inl CorrelationWindowError
      else bindE (resolve_reference c reference w)
             (\<lambda>(t, w1). Inr (t - seconds window_seconds, w1)))"

definition find_related_alarms ::
  "ctx \<Rightarrow> string \<Rightarrow> int \<Rightarrow> pydatetime option \<Rightarrow> string option \<Rightarrow> bool \<Rightarrow> nat \<Rightarrow> world
    \<Rightarrow> app_error + alarm list \<times> world" where
  "find_related_alarms c device_id window_seconds reference rule_id include_open limit w =
     bindE (window_start c reference window_seconds w) (\<lambda>(start, w1).
       Inr (alarm_related device_id start rule_id include_open limit w1, w1))"

definition find_related_alarm ::
  "ctx \<Rightarrow> string \<Rightarrow> string \<Rightarrow> int \<Rightarrow> pydatetime option \<Rightarrow> world
    \<Rightarrow> app_error + alarm option \<times> world" where
  "find_related_alarm c device_id rule_id window_seconds reference w =
     (case find_open device_id rule_id w of
        Some a \<Rightarrow> Inr (Some a, w)
      | None \<Rightarrow>
          bindE (window_start c reference window_seconds w) (\<lambda>(start, w1).
            Inr (first_of (alarm_related device_id start (Some rule_id) False 1 w1), w1)))"

end
