(* ===== verification/AlarmLemmas.thy ===== *)
theory AlarmLemmas
  imports Alarms
begin

text \<open>
  The alarm table's invariant and the facts about the alarm operations that the properties rest on:
  what each operation leaves alone, what it writes, and that it keeps the invariant. The open
  instances are abstracted to a map from device and rule to the number of breaches seen.
\<close>

section \<open>Invariant and abstraction\<close>

definition alarm_key :: "alarm \<Rightarrow> string \<times> string" where
  "alarm_key a = (a_device_id a, a_rule_id a)"

definition open_alarms :: "world \<Rightarrow> alarm list" where
  "open_alarms w = filter OPEN_INSTANCE_PREDICATE (w_alarms w)"

definition alarm_wf :: "alarm \<Rightarrow> bool" where
  "alarm_wf a \<longleftrightarrow>
     a_status a \<in> alarm_status_value ` set alarm_statuses \<and>
     1 \<le> a_occurrence_count a \<and>
     (case a_last_triggered_at a of None \<Rightarrow> False | Some t \<Rightarrow> a_started_at a \<le> t) \<and>
     (a_status a = ''CLEARED'' \<longleftrightarrow> a_cleared_at a \<noteq> None) \<and>
     (a_status a = ''CLEARED'' \<longleftrightarrow> a_clear_reason a \<noteq> None) \<and>
     (a_status a = ''ACTIVE'' \<longrightarrow> a_acknowledged_at a = None \<and> a_acknowledged_by a = None) \<and>
     (a_status a = ''ACKNOWLEDGED'' \<longrightarrow> a_acknowledged_at a \<noteq> None \<and> a_acknowledged_by a \<noteq> None)"

definition alarm_inv :: "world \<Rightarrow> bool" where
  "alarm_inv w \<longleftrightarrow>
     distinct (map a_id (w_alarms w)) \<and>
     distinct (map alarm_key (open_alarms w)) \<and>
     (\<forall>a \<in> set (w_alarms w). alarm_wf a)"

definition alarm_abs :: "world \<Rightarrow> string \<times> string \<rightharpoonup> int" where
  "alarm_abs w = map_of (map (\<lambda>a. (alarm_key a, a_occurrence_count a)) (open_alarms w))"

definition spec_breach :: "string \<times> string \<Rightarrow> (string \<times> string \<rightharpoonup> int) \<Rightarrow> (string \<times> string \<rightharpoonup> int)" where
  "spec_breach k m = m(k \<mapsto> (case m k of None \<Rightarrow> 1 | Some n \<Rightarrow> n + 1))"

definition spec_clear :: "string \<times> string \<Rightarrow> (string \<times> string \<rightharpoonup> int) \<Rightarrow> (string \<times> string \<rightharpoonup> int)" where
  "spec_clear k m = m(k := None)"

section \<open>Open instances\<close>

interpretation started_order: row_order by_started_asc
  by unfold_locales (auto simp: by_started_asc_def)

interpretation started_desc_order: row_order by_started_desc
  by unfold_locales (auto simp: by_started_desc_def)

interpretation activity_order: row_order by_activity_desc
  by unfold_locales (auto simp: by_activity_desc_def)

interpretation rule_order: row_order "RULE_ORDER c" for c
  by unfold_locales (auto simp: RULE_ORDER_def)

lemma first_of_simps [simp]: "first_of [] = None" "first_of (x # xs) = Some x"
  by (simp_all add: first_of_def)

lemma first_of_None [simp]: "first_of xs = None \<longleftrightarrow> xs = []"
  by (cases xs) simp_all

lemma first_of_Some: "first_of xs = Some x \<Longrightarrow> x \<in> set xs"
  by (cases xs) simp_all

definition key_matches :: "string \<Rightarrow> string \<Rightarrow> alarm \<Rightarrow> bool" where
  "key_matches d r a \<longleftrightarrow> a_device_id a = d \<and> a_rule_id a = r \<and> OPEN_INSTANCE_PREDICATE a"

lemma find_open_key: "find_open d r w = first_of (sort_by by_started_asc (filter (key_matches d r) (w_alarms w)))"
  by (simp add: find_open_def key_matches_def [abs_def])

lemma find_open_None: "find_open d r w = None \<longleftrightarrow> (d, r) \<notin> alarm_key ` set (open_alarms w)"
  by (auto simp: find_open_key filter_empty_conv key_matches_def alarm_key_def open_alarms_def)

lemma find_open_Some:
  assumes "find_open d r w = Some a"
  shows "a \<in> set (open_alarms w)" and "alarm_key a = (d, r)"
proof -
  have "a \<in> set (filter (key_matches d r) (w_alarms w))"
    using first_of_Some [OF assms [unfolded find_open_key]] by simp
  then show "a \<in> set (open_alarms w)" and "alarm_key a = (d, r)"
    by (auto simp: key_matches_def alarm_key_def open_alarms_def)
qed

lemma distinct_map_eq: "distinct (map f xs) \<Longrightarrow> x \<in> set xs \<Longrightarrow> y \<in> set xs \<Longrightarrow> f x = f y \<Longrightarrow> x = y"
  by (auto simp: distinct_map inj_on_def)

lemma find_open_iff:
  assumes "alarm_inv w"
  shows "find_open d r w = Some a \<longleftrightarrow> a \<in> set (open_alarms w) \<and> alarm_key a = (d, r)"
proof
  assume "find_open d r w = Some a"
  then show "a \<in> set (open_alarms w) \<and> alarm_key a = (d, r)" by (auto dest: find_open_Some)
next
  assume a: "a \<in> set (open_alarms w) \<and> alarm_key a = (d, r)"
  then obtain b where b: "find_open d r w = Some b"
    using find_open_None [of d r w] by (cases "find_open d r w") (auto simp: image_iff)
  have "b = a"
    using find_open_Some [OF b] a assms by (auto simp: alarm_inv_def dest: distinct_map_eq)
  with b show "find_open d r w = Some a" by simp
qed

lemma alarm_abs_find_open:
  assumes "alarm_inv w"
  shows "alarm_abs w (d, r) = map_option a_occurrence_count (find_open d r w)"
proof (cases "find_open d r w")
  case None
  then have "(d, r) \<notin> fst ` set (map (\<lambda>a. (alarm_key a, a_occurrence_count a)) (open_alarms w))"
    using find_open_None [of d r w] by (auto simp: image_iff)
  then have "alarm_abs w (d, r) = None"
    by (simp only: alarm_abs_def map_of_eq_None_iff not_False_eq_True)
  with None show ?thesis by simp
next
  case (Some a)
  from find_open_Some [OF Some] have
    "((d, r), a_occurrence_count a) \<in> set (map (\<lambda>a. (alarm_key a, a_occurrence_count a)) (open_alarms w))"
    by (auto simp: image_iff intro!: bexI [of _ a])
  moreover have "distinct (map fst (map (\<lambda>a. (alarm_key a, a_occurrence_count a)) (open_alarms w)))"
    using assms by (simp add: alarm_inv_def comp_def)
  ultimately have "alarm_abs w (d, r) = Some (a_occurrence_count a)"
    by (simp only: alarm_abs_def map_of_is_SomeI)
  with Some show ?thesis by simp
qed

section \<open>Updating one row\<close>

lemma open_update_same:
  assumes "\<And>a. a_id a = i \<Longrightarrow> OPEN_INSTANCE_PREDICATE (f a) = OPEN_INSTANCE_PREDICATE a"
    and "\<And>a. a_id a = i \<Longrightarrow> alarm_key (f a) = alarm_key a"
  shows "map alarm_key (filter OPEN_INSTANCE_PREDICATE (update_rows a_id i f as)) =
         map alarm_key (filter OPEN_INSTANCE_PREDICATE as)"
  using assms by (induction as) (auto simp: update_rows_def)

lemma open_update_subseq:
  assumes "\<And>a. a_id a = i \<Longrightarrow> a \<in> set as \<Longrightarrow> OPEN_INSTANCE_PREDICATE (f a) \<Longrightarrow> OPEN_INSTANCE_PREDICATE a"
    and "\<And>a. a_id a = i \<Longrightarrow> alarm_key (f a) = alarm_key a"
  shows "subseq (map alarm_key (filter OPEN_INSTANCE_PREDICATE (update_rows a_id i f as)))
           (map alarm_key (filter OPEN_INSTANCE_PREDICATE as))"
  using assms by (induction as) (auto simp: update_rows_def)

lemma distinct_subseq: "subseq xs ys \<Longrightarrow> distinct ys \<Longrightarrow> distinct xs"
  by (metis subseq_conv_nths distinct_nthsI)

lemma alarm_inv_update:
  assumes inv: "alarm_inv w"
    and open_f: "\<And>a. a_id a = i \<Longrightarrow> a \<in> set (w_alarms w) \<Longrightarrow> OPEN_INSTANCE_PREDICATE (f a) \<Longrightarrow> OPEN_INSTANCE_PREDICATE a"
    and keys: "\<And>a. a_id a = i \<Longrightarrow> alarm_key (f a) = alarm_key a \<and> a_id (f a) = i"
    and wf: "\<And>a. a_id a = i \<Longrightarrow> a \<in> set (w_alarms w) \<Longrightarrow> alarm_wf a \<Longrightarrow> alarm_wf (f a)"
  shows "alarm_inv (w\<lparr>w_alarms := update_rows a_id i f (w_alarms w)\<rparr>)"
proof -
  have "subseq (map alarm_key (filter OPEN_INSTANCE_PREDICATE (update_rows a_id i f (w_alarms w))))
          (map alarm_key (filter OPEN_INSTANCE_PREDICATE (w_alarms w)))"
    using open_f keys by (intro open_update_subseq) auto
  moreover have "\<forall>a \<in> set (update_rows a_id i f (w_alarms w)). alarm_wf a"
    using inv wf by (auto simp: alarm_inv_def elim!: in_update_rowsE)
  ultimately show ?thesis
    using inv keys by (auto simp: alarm_inv_def open_alarms_def map_key_update_rows
        intro: distinct_subseq)
qed

lemma alarm_inv_cong: "w_alarms w' = w_alarms w \<Longrightarrow> alarm_inv w' \<longleftrightarrow> alarm_inv w"
  by (simp add: alarm_inv_def open_alarms_def)

lemma apply_breach_simps [simp]:
  "a_id (apply_breach b t a) = a_id a"
  "a_device_id (apply_breach b t a) = a_device_id a"
  "a_rule_id (apply_breach b t a) = a_rule_id a"
  "a_telemetry_id (apply_breach b t a) = a_telemetry_id a"
  "a_status (apply_breach b t a) = a_status a"
  "a_started_at (apply_breach b t a) = a_started_at a"
  "a_acknowledged_at (apply_breach b t a) = a_acknowledged_at a"
  "a_acknowledged_by (apply_breach b t a) = a_acknowledged_by a"
  "a_cleared_at (apply_breach b t a) = a_cleared_at a"
  "a_clear_reason (apply_breach b t a) = a_clear_reason a"
  "a_occurrence_count (apply_breach b t a) = a_occurrence_count a + 1"
  "alarm_key (apply_breach b t a) = alarm_key a"
  "OPEN_INSTANCE_PREDICATE (apply_breach b t a) = OPEN_INSTANCE_PREDICATE a"
  by (simp_all add: apply_breach_def alarm_key_def OPEN_INSTANCE_PREDICATE_def)

lemma apply_breach_last:
  "a_last_triggered_at (apply_breach b t a) =
     Some (case a_last_triggered_at a of None \<Rightarrow> t | Some t' \<Rightarrow> max t' t)"
  by (auto simp: apply_breach_def max_def split: option.splits)

lemma alarm_wf_apply_breach: "alarm_wf a \<Longrightarrow> alarm_wf (apply_breach b t a)"
  unfolding alarm_wf_def by (auto simp: apply_breach_last split: option.splits)

lemma alarm_inv_fold_breach:
  "alarm_inv w \<Longrightarrow> fold_breach a b t w = (r, w') \<Longrightarrow> alarm_inv w'"
  by (auto simp: fold_breach_def intro!: alarm_inv_update alarm_wf_apply_breach)

section \<open>Opening an instance\<close>

lemma instant_or_now_alarms [simp]: "w_alarms (snd (instant_or_now c t w)) = w_alarms w"
  by (simp add: instant_or_now_def utc_now_def split: option.splits)

lemma alarm_create_Inr:
  assumes "alarm_create c d tid r sev msg st n w = Inr (a, w')"
  shows "w_alarms w' = w_alarms w @ [a]" and "alarm_key a = (d, r)" and "a_status a = ''ACTIVE''"
    and "a_occurrence_count a = n" and "a_last_triggered_at a = st" and "a_telemetry_id a = tid"
    and "alarm_row_ok (w'\<lparr>w_alarms := w_alarms w\<rparr>) a" and "w_audit w' = w_audit w"
    and "st = Some t \<Longrightarrow> a_started_at a = t"
    and "a_acknowledged_at a = None" "a_acknowledged_by a = None" "a_cleared_at a = None"
    "a_clear_reason a = None" "w_metrics w' = w_metrics w"
  using assms
  by (auto simp: alarm_create_def uuid4_def utc_now_def alarm_key_def Let_def alarm_row_ok_def
      split: if_splits option.splits)

lemma alarm_row_ok_fresh:
  assumes "alarm_row_ok w a"
  shows "a_id a \<notin> a_id ` set (w_alarms w)"
    and "OPEN_INSTANCE_PREDICATE a \<Longrightarrow> alarm_key a \<notin> alarm_key ` set (open_alarms w)"
  using assms by (auto simp: alarm_row_ok_def alarm_key_def open_alarms_def)

lemma alarm_inv_create:
  assumes inv: "alarm_inv w" and cr: "alarm_create c d tid r sev msg (Some t) 1 w = Inr (a, w')"
  shows "alarm_inv w'"
proof -
  note f = alarm_create_Inr [OF cr]
  have op: "OPEN_INSTANCE_PREDICATE a" using f(3) by (simp add: OPEN_INSTANCE_PREDICATE_def)
  have "alarm_wf a"
    using f by (simp add: alarm_wf_def alarm_statuses_def)
  moreover have "a_id a \<notin> a_id ` set (w_alarms w)"
    using alarm_row_ok_fresh(1) [OF f(7)] by simp
  moreover have "alarm_key a \<notin> alarm_key ` set (open_alarms w)"
    using alarm_row_ok_fresh(2) [OF f(7) op] by (simp add: open_alarms_def)
  ultimately show ?thesis
    using inv op f(1) by (auto simp: alarm_inv_def open_alarms_def)
qed

lemma inc_metric_frame [simp]:
  "w_alarms (inc_metric n ls w) = w_alarms w" "w_audit (inc_metric n ls w) = w_audit w"
  "w_incidents (inc_metric n ls w) = w_incidents w" "w_links (inc_metric n ls w) = w_links w"
  "w_devices (inc_metric n ls w) = w_devices w" "w_rules (inc_metric n ls w) = w_rules w"
  "w_telemetry (inc_metric n ls w) = w_telemetry w"
  "w_diagnoses (inc_metric n ls w) = w_diagnoses w"
  "w_assets (inc_metric n ls w) = w_assets w" "w_runs (inc_metric n ls w) = w_runs w"
  "w_plans (inc_metric n ls w) = w_plans w" "w_approvals (inc_metric n ls w) = w_approvals w"
  "w_orders (inc_metric n ls w) = w_orders w" "w_agent_runs (inc_metric n ls w) = w_agent_runs w"
  "w_retrievals (inc_metric n ls w) = w_retrievals w"
  "w_checkpoints (inc_metric n ls w) = w_checkpoints w"
  "w_metrics (inc_metric n ls w) = w_metrics w @ [(n, ls)]"
  "w_uuids (inc_metric n ls w) = w_uuids w" "w_ticks (inc_metric n ls w) = w_ticks w"
  by (simp_all add: inc_metric_def)

text \<open>
  The three ways \<open>create_or_update_alarm\<close> returns: it folds the breach into the open instance, it
  opens one, or it loses the race and folds the breach into the winner's instance.
\<close>

lemma create_or_update_cases:
  assumes "create_or_update_alarm c others d b tid trig actor w = Inr ((a, created), w')"
  obtains
    (fold) t w1 a0 where "instant_or_now c trig w = (t, w1)"
      "find_open d (b_rule_id b) w1 = Some a0" "fold_breach a0 b t w1 = ((a, created), w')"
      "\<not> created"
  | (create) t w1 w3 where "instant_or_now c trig w = (t, w1)"
      "find_open d (b_rule_id b) w1 = None"
      "alarm_create c d tid (b_rule_id b) (b_severity b) (b_message b) (Some t) 1 (others w1) = Inr (a, w3)"
      "w_alarms w' = w_alarms w3" "created"
  | (race) t w1 a0 where "instant_or_now c trig w = (t, w1)"
      "find_open d (b_rule_id b) w1 = None" "find_open d (b_rule_id b) (others w1) = Some a0"
      "fold_breach a0 b t (snd (uuid4 c (others w1))) = ((a, created), w')" "\<not> created"
proof -
  obtain t w1 where t: "instant_or_now c trig w = (t, w1)" by (cases "instant_or_now c trig w") auto
  show thesis
  proof (cases "find_open d (b_rule_id b) w1")
    case (Some a0)
    with assms t have "fold_breach a0 b t w1 = ((a, created), w')"
      by (simp add: create_or_update_alarm_def)
    moreover from this have "\<not> created" by (simp add: fold_breach_def)
    ultimately show thesis using fold t Some by blast
  next
    case None
    show thesis
    proof (cases "alarm_create c d tid (b_rule_id b) (b_severity b) (b_message b) (Some t) 1 (others w1)")
      case (Inl e)
      with assms t None obtain a0 where a0: "find_open d (b_rule_id b) (others w1) = Some a0"
        and fb: "fold_breach a0 b t (snd (uuid4 c (others w1))) = ((a, created), w')"
        by (auto simp: create_or_update_alarm_def Let_def split: option.splits)
      then have "\<not> created" by (simp add: fold_breach_def)
      with race t None a0 fb show thesis by blast
    next
      case (Inr p)
      obtain a1 w3 where p: "p = (a1, w3)" by (cases p)
      with assms t None Inr have "a = a1" "created" "w_alarms w' = w_alarms w3"
        by (auto simp: create_or_update_alarm_def Let_def)
      with create t None Inr p show thesis by blast
    qed
  qed
qed

lemma instant_or_now_split: "instant_or_now c trig w = (t, w1) \<Longrightarrow> w_alarms w1 = w_alarms w"
  by (metis instant_or_now_alarms snd_conv)

lemma uuid4_alarms [simp]: "w_alarms (snd (uuid4 c w)) = w_alarms w"
  by (simp add: uuid4_def)

lemma alarm_inv_create_or_update:
  assumes inv: "alarm_inv w" and others: "\<And>v. alarm_inv v \<Longrightarrow> alarm_inv (others v)"
    and run: "create_or_update_alarm c others d b tid trig actor w = Inr ((a, created), w')"
  shows "alarm_inv w'"
  using run
proof (cases rule: create_or_update_cases)
  case (fold t w1 a0)
  have "alarm_inv w1" using inv alarm_inv_cong [OF instant_or_now_split [OF fold(1)]] by simp
  with fold(3) show ?thesis by (blast intro: alarm_inv_fold_breach)
next
  case (create t w1 w3)
  have "alarm_inv w1" using inv alarm_inv_cong [OF instant_or_now_split [OF create(1)]] by simp
  then have "alarm_inv w3" using alarm_inv_create [OF others create(3)] by simp
  with alarm_inv_cong [OF create(4)] show ?thesis by simp
next
  case (race t w1 a0)
  have "alarm_inv w1" using inv alarm_inv_cong [OF instant_or_now_split [OF race(1)]] by simp
  then have "alarm_inv (snd (uuid4 c (others w1)))"
    using alarm_inv_cong [OF uuid4_alarms] others by blast
  with race(4) show ?thesis by (blast intro: alarm_inv_fold_breach)
qed

end
