(* ===== verification/Incidents.thy ===== *)
theory Incidents
  imports AlarmLemmas
begin

text \<open>
  The incident subsystem: \<^verbatim>\<open>incidents/incident_service.py\<close> (lifecycle commands, correlation of alarms
  into incidents, the read-only context), \<^verbatim>\<open>repositories/incident.py\<close>,
  \<^verbatim>\<open>repositories/incident_alarm.py\<close> and the manual creation endpoint of \<^verbatim>\<open>api/workflows.py\<close>.
  A correlation mutates the incident object it was given, which is the row with its id.
\<close>

section \<open>Repositories\<close>

definition OPEN_INCIDENT_PREDICATE :: "incident \<Rightarrow> bool" where
  "OPEN_INCIDENT_PREDICATE i \<longleftrightarrow> i_status i \<in> set open_incident_status_values"

definition INCIDENT_ACTIVITY_AT :: "incident \<Rightarrow> instant" where
  "INCIDENT_ACTIVITY_AT i = (case i_last_alarm_at i of None \<Rightarrow> i_created_at i | Some t \<Rightarrow> t)"

definition incident_get :: "uuid \<Rightarrow> world \<Rightarrow> incident option" where
  "incident_get incident_id w = find_row i_id incident_id (w_incidents w)"

definition by_incident_activity_desc :: "incident \<Rightarrow> incident \<Rightarrow> bool" where
  "by_incident_activity_desc i j \<longleftrightarrow>
     INCIDENT_ACTIVITY_AT j < INCIDENT_ACTIVITY_AT i \<or>
     (INCIDENT_ACTIVITY_AT i = INCIDENT_ACTIVITY_AT j \<and> i_id j \<le> i_id i)"

definition find_open_for_device :: "string \<Rightarrow> world \<Rightarrow> incident option" where
  "find_open_for_device device_id w =
     first_of (sort_by by_incident_activity_desc
       (filter (\<lambda>i. i_device_id i = Some device_id \<and> OPEN_INCIDENT_PREDICATE i) (w_incidents w)))"

definition by_created_desc :: "incident \<Rightarrow> incident \<Rightarrow> bool" where
  "by_created_desc i j \<longleftrightarrow>
     i_created_at j < i_created_at i \<or> (i_created_at i = i_created_at j \<and> i_id j \<le> i_id i)"

definition incident_matches ::
  "string option \<Rightarrow> string option \<Rightarrow> string option \<Rightarrow> incident \<Rightarrow> bool" where
  "incident_matches status severity device_id i \<longleftrightarrow>
     opt_eq status (i_status i) \<and>
     (case severity of None \<Rightarrow> True | Some s \<Rightarrow> i_severity i = Some s) \<and>
     (case device_id of None \<Rightarrow> True | Some d \<Rightarrow> i_device_id i = Some d)"

definition incident_list_instances ::
  "nat \<Rightarrow> string option \<Rightarrow> string option \<Rightarrow> string option \<Rightarrow> world \<Rightarrow> incident list" where
  "incident_list_instances limit status severity device_id w =
     take limit (sort_by by_created_desc
       (filter (incident_matches status severity device_id) (w_incidents w)))"

text \<open>
  \<^verbatim>\<open>INSERT ... ON CONFLICT ON CONSTRAINT uq_incident_alarms_pair DO NOTHING\<close>: a present pair inserts
  nothing, any other violated constraint raises.
\<close>

definition link :: "ctx \<Rightarrow> uuid \<Rightarrow> uuid \<Rightarrow> world \<Rightarrow> app_error + incident_alarm option \<times> world" where
  "link c incident_id alarm_id w =
     (let (fresh, w1) = uuid4 c w; (ts, w2) = utc_now c w1;
          l = \<lparr>l_id = fresh, l_incident_id = incident_id, l_alarm_id = alarm_id, l_created_at = ts\<rparr>
      in if (incident_id, alarm_id) \<in> (\<lambda>l. (l_incident_id l, l_alarm_id l)) ` set (w_links w2)
         then Inr (None, w2)
         else if fresh \<in> l_id ` set (w_links w2) \<or> incident_id \<notin> i_id ` set (w_incidents w2) \<or>
           alarm_id \<notin> a_id ` set (w_alarms w2)
         then Inl IntegrityError
         else Inr (Some l, w2\<lparr>w_links := w_links w2 @ [l]\<rparr>))"

definition by_link_created :: "incident_alarm \<Rightarrow> incident_alarm \<Rightarrow> bool" where
  "by_link_created l m \<longleftrightarrow>
     l_created_at l < l_created_at m \<or> (l_created_at l = l_created_at m \<and> l_id l \<le> l_id m)"

definition incident_ids_for_alarm :: "uuid \<Rightarrow> world \<Rightarrow> uuid list" where
  "incident_ids_for_alarm alarm_id w =
     map l_incident_id (sort_by by_link_created (filter (\<lambda>l. l_alarm_id l = alarm_id) (w_links w)))"

definition alarm_ids_for_incident :: "uuid \<Rightarrow> world \<Rightarrow> uuid list" where
  "alarm_ids_for_incident incident_id w =
     map l_alarm_id (sort_by by_link_created (filter (\<lambda>l. l_incident_id l = incident_id) (w_links w)))"

section \<open>Lifecycle commands\<close>

definition DEFAULT_ACTOR :: string where
  "DEFAULT_ACTOR = ''backend''"

definition require_incident :: "uuid \<Rightarrow> world \<Rightarrow> app_error + incident" where
  "require_incident incident_id w =
     (case incident_get incident_id w of None \<Rightarrow> Inl (IncidentNotFoundError incident_id)
      | Some i \<Rightarrow> Inr i)"

definition incident_status_of :: "incident \<Rightarrow> app_error + IncidentStatus" where
  "incident_status_of i =
     (case as_incident_status (i_status i) of
        None \<Rightarrow> Inl (IncidentStatusUnknownError (i_id i) (i_status i))
      | Some s \<Rightarrow> Inr s)"

definition incident_require_transition :: "incident \<Rightarrow> IncidentStatus \<Rightarrow> app_error + unit" where
  "incident_require_transition i target =
     bindE (incident_status_of i) (\<lambda>current.
       guardE (is_incident_transition_allowed current target)
         (IncidentStateError (i_id i) current target (describe_incident_transitions current)))"

definition set_incident :: "uuid \<Rightarrow> (incident \<Rightarrow> incident) \<Rightarrow> world \<Rightarrow> world" where
  "set_incident incident_id f w =
     w\<lparr>w_incidents := update_rows i_id incident_id f (w_incidents w)\<rparr>"

definition incident_audit ::
  "ctx \<Rightarrow> string \<Rightarrow> uuid \<Rightarrow> string \<Rightarrow> details \<Rightarrow> world \<Rightarrow> world" where
  "incident_audit c action incident_id actor details w =
     audit_add c (entry action incident_id ''SUCCESS'' details (Some actor)) w"

definition acknowledge_incident ::
  "ctx \<Rightarrow> uuid \<Rightarrow> string \<Rightarrow> string option \<Rightarrow> world \<Rightarrow> app_error + incident \<times> world" where
  "acknowledge_incident c incident_id actor note w =
     bindE (require_incident incident_id w) (\<lambda>i.
     bindE (incident_require_transition i INC_ACKNOWLEDGED) (\<lambda>_.
       (let (ts, w1) = utc_now c w;
            f = (\<lambda>r. r\<lparr>i_status := incident_status_value INC_ACKNOWLEDGED,
                       i_acknowledged_at := Some ts, i_acknowledged_by := Some actor\<rparr>);
            w2 = set_incident incident_id f w1
        in Inr (f i, incident_audit c ''INCIDENT_ACKNOWLEDGED'' (i_id i) actor
             [(''previous_status'', JStr (incident_status_value INC_OPEN)),
              (''note'', json_opt_str note)] w2))))"

definition start_investigation ::
  "ctx \<Rightarrow> uuid \<Rightarrow> string \<Rightarrow> world \<Rightarrow> app_error + incident \<times> world" where
  "start_investigation c incident_id actor w =
     bindE (require_incident incident_id w) (\<lambda>i.
     bindE (incident_require_transition i INC_INVESTIGATING) (\<lambda>_.
     bindE (incident_status_of i) (\<lambda>previous.
       (let f = (\<lambda>r. r\<lparr>i_status := incident_status_value INC_INVESTIGATING\<rparr>);
            w1 = set_incident incident_id f w
        in Inr (f i, incident_audit c ''INCIDENT_INVESTIGATION_STARTED'' (i_id i) actor
             [(''previous_status'', JStr (incident_status_value previous))] w1)))))"

definition resolve_incident ::
  "ctx \<Rightarrow> uuid \<Rightarrow> string \<Rightarrow> world \<Rightarrow> app_error + incident \<times> world" where
  "resolve_incident c incident_id actor w =
     bindE (require_incident incident_id w) (\<lambda>i.
     bindE (incident_require_transition i INC_RESOLVED) (\<lambda>_.
       (let (ts, w1) = utc_now c w;
            f = (\<lambda>r. r\<lparr>i_status := incident_status_value INC_RESOLVED, i_resolved_at := Some ts\<rparr>);
            w2 = inc_metric ''incident_resolved_total'' [] (set_incident incident_id f w1)
        in Inr (f i, incident_audit c ''INCIDENT_RESOLVED'' (i_id i) actor [] w2))))"

definition close_incident ::
  "ctx \<Rightarrow> uuid \<Rightarrow> string \<Rightarrow> world \<Rightarrow> app_error + incident \<times> world" where
  "close_incident c incident_id actor w =
     bindE (require_incident incident_id w) (\<lambda>i.
     bindE (incident_require_transition i INC_CLOSED) (\<lambda>_.
       (let (ts, w1) = utc_now c w;
            f = (\<lambda>r. r\<lparr>i_status := incident_status_value INC_CLOSED, i_closed_at := Some ts\<rparr>);
            w2 = set_incident incident_id f w1
        in Inr (f i, incident_audit c ''INCIDENT_CLOSED'' (i_id i) actor [] w2))))"

definition reopen_incident ::
  "ctx \<Rightarrow> uuid \<Rightarrow> string \<Rightarrow> world \<Rightarrow> app_error + incident \<times> world" where
  "reopen_incident c incident_id actor w =
     bindE (require_incident incident_id w) (\<lambda>i.
     bindE (incident_require_transition i INC_REOPENED) (\<lambda>_.
       (let f = (\<lambda>r. r\<lparr>i_status := incident_status_value INC_REOPENED, i_closed_at := None,
                       i_resolved_at := None\<rparr>);
            w1 = set_incident incident_id f w
        in Inr (f i, incident_audit c ''INCIDENT_REOPENED'' (i_id i) actor
             [(''previous_status'', JStr (incident_status_value INC_CLOSED))] w1))))"

section \<open>Correlation\<close>

definition DEFAULT_CORRELATION_WINDOW_SECONDS :: int where
  "DEFAULT_CORRELATION_WINDOW_SECONDS = 600"

definition SEVERITY_PRIORITY :: "(string \<times> string) list" where
  "SEVERITY_PRIORITY =
     [(''CRITICAL'', ''URGENT''), (''MAJOR'', ''HIGH''), (''WARNING'', ''MEDIUM''),
      (''MINOR'', ''LOW''), (''INFO'', ''LOW'')]"

definition severity_to_priority :: "string option \<Rightarrow> string" where
  "severity_to_priority severity =
     (case map_of SEVERITY_PRIORITY (case severity of None \<Rightarrow> [] | Some s \<Rightarrow> s) of
        None \<Rightarrow> ''MEDIUM'' | Some p \<Rightarrow> p)"

definition alarm_activity_at :: "alarm \<Rightarrow> instant" where
  "alarm_activity_at a = (case a_last_triggered_at a of None \<Rightarrow> a_started_at a | Some t \<Rightarrow> t)"

definition severity_rank :: "string option \<Rightarrow> int" where
  "severity_rank severity =
     (case severity of None \<Rightarrow> - 1
      | Some s \<Rightarrow> (case as_severity s of None \<Rightarrow> - 1 | Some sev \<Rightarrow> SEVERITY_ORDER sev))"

definition within_window :: "incident \<Rightarrow> alarm \<Rightarrow> int \<Rightarrow> bool" where
  "within_window i a window_seconds \<longleftrightarrow>
     (let anchor = (case i_last_alarm_at i of None \<Rightarrow> i_created_at i | Some t \<Rightarrow> t)
      in anchor \<le> alarm_activity_at a \<and> alarm_activity_at a \<le> anchor + seconds window_seconds)"

definition absorb_alarm :: "alarm \<Rightarrow> incident \<Rightarrow> incident" where
  "absorb_alarm a i =
     (let activity = alarm_activity_at a;
          i1 = (case i_last_alarm_at i of
                  None \<Rightarrow> i\<lparr>i_last_alarm_at := Some activity\<rparr>
                | Some t \<Rightarrow> if activity > t then i\<lparr>i_last_alarm_at := Some activity\<rparr> else i)
      in if severity_rank (Some (a_severity a)) > severity_rank (i_severity i1)
         then i1\<lparr>i_severity := Some (a_severity a),
                 i_priority := severity_to_priority (Some (a_severity a))\<rparr>
         else i1)"

definition attach_alarm_to_incident ::
  "ctx \<Rightarrow> incident \<Rightarrow> alarm \<Rightarrow> string \<Rightarrow> world \<Rightarrow> app_error + (bool \<times> incident) \<times> world" where
  "attach_alarm_to_incident c i a actor w =
     (if i_device_id i \<noteq> None \<and> Some (a_device_id a) \<noteq> i_device_id i
      then Inl (AlarmIncidentMismatchError (a_device_id a) (i_device_id i))
      else bindE (link c (i_id i) (a_id a) w) (\<lambda>(l, w1).
        (let w2 = set_incident (i_id i) (absorb_alarm a) w1
         in if l = None then Inr ((False, absorb_alarm a i), w2)
            else Inr ((True, absorb_alarm a i),
              audit_add c (entry ''INCIDENT_ALARM_ATTACHED'' (i_id i) ''SUCCESS''
                [(''alarm_id'', JStr (a_id a)), (''rule_id'', JStr (a_rule_id a)),
                 (''severity'', JStr (a_severity a))] (Some actor)) w2))))"

definition incident_description :: string where
  "incident_description =
     ''Opened by deterministic correlation strategy v1 (device plus '' @
     int_str DEFAULT_CORRELATION_WINDOW_SECONDS @
     ''-second window): alarms on this device inside the window attach to this incident.''"

definition incident_insert :: "incident \<Rightarrow> world \<Rightarrow> app_error + world" where
  "incident_insert i w =
     (if i_id i \<in> i_id ` set (w_incidents w) \<or>
        (case i_device_id i of None \<Rightarrow> False | Some d \<Rightarrow> d \<notin> dev_device_id ` set (w_devices w))
      then Inl IntegrityError else Inr (w\<lparr>w_incidents := w_incidents w @ [i]\<rparr>))"

definition create_incident_for ::
  "ctx \<Rightarrow> alarm \<Rightarrow> string \<Rightarrow> world \<Rightarrow> app_error + incident \<times> world" where
  "create_incident_for c a actor w =
     (let (fresh, w1) = uuid4 c w; (ts, w2) = utc_now c w1;
          i = \<lparr>i_id = fresh, i_device_id = Some (a_device_id a),
               i_title = a_device_id a @ '' correlated alarm condition'',
               i_description = incident_description,
               i_status = incident_status_value INC_OPEN,
               i_priority = severity_to_priority (Some (a_severity a)),
               i_severity = Some (a_severity a), i_acknowledged_at = None,
               i_acknowledged_by = None, i_resolved_at = None, i_closed_at = None,
               i_last_alarm_at = Some (alarm_activity_at a), i_created_at = ts\<rparr>
      in bindE (incident_insert i w2) (\<lambda>w3.
           Inr (i, audit_add c (entry ''INCIDENT_CREATED'' (i_id i) ''SUCCESS''
             [(''strategy'', JStr ''device_window_v1''), (''origin_alarm_id'', JStr (a_id a)),
              (''origin_rule_id'', JStr (a_rule_id a)), (''severity'', JStr (a_severity a))]
             (Some actor)) (inc_metric ''incident_created_total'' [] w3))))"

definition correlate_alarm ::
  "ctx \<Rightarrow> alarm \<Rightarrow> int \<Rightarrow> string \<Rightarrow> world \<Rightarrow> app_error + (incident \<times> bool) \<times> world" where
  "correlate_alarm c a window_seconds actor w =
     (case find_open_for_device (a_device_id a) w of
        Some i \<Rightarrow>
          if within_window i a window_seconds
          then bindE (attach_alarm_to_incident c i a actor w)
                 (\<lambda>((_, i'), w1). Inr ((i', False), w1))
          else bindE (create_incident_for c a actor w) (\<lambda>(j, w1).
               bindE (attach_alarm_to_incident c j a actor w1) (\<lambda>((_, j'), w2).
                 Inr ((j', True), w2)))
      | None \<Rightarrow>
          bindE (create_incident_for c a actor w) (\<lambda>(j, w1).
          bindE (attach_alarm_to_incident c j a actor w1) (\<lambda>((_, j'), w2).
            Inr ((j', True), w2))))"

section \<open>Manual creation\<close>

record incident_create =
  ic_device_id :: string
  ic_diagnosis_id :: uuid
  ic_title :: string
  ic_description :: string
  ic_priority :: string

definition incident_create_ok :: "incident_create \<Rightarrow> bool" where
  "incident_create_ok p \<longleftrightarrow>
     text_between 3 200 (ic_title p) \<and> length (ic_description p) \<le> 2000"

definition create_incident ::
  "ctx \<Rightarrow> incident_create \<Rightarrow> world \<Rightarrow> app_error + incident \<times> world" where
  "create_incident c p w =
     (case find_row dg_id (ic_diagnosis_id p) (w_diagnoses w) of
        None \<Rightarrow> Inl (AppError ''INVALID_INCIDENT_INPUT'' 422)
      | Some d \<Rightarrow>
          if dg_device_id d \<noteq> Some (ic_device_id p) then Inl (AppError ''INVALID_INCIDENT_INPUT'' 422)
          else
            (case dg_incident_id d of
               Some iid \<Rightarrow>
                 (case incident_get iid w of None \<Rightarrow> Inl PyAssertionError | Some i \<Rightarrow> Inr (i, w))
             | None \<Rightarrow>
                 (let (fresh, w1) = uuid4 c w; (ts, w2) = utc_now c w1;
                      i = \<lparr>i_id = fresh, i_device_id = Some (ic_device_id p), i_title = ic_title p,
                           i_description = ic_description p, i_status = ''OPEN'',
                           i_priority = ic_priority p, i_severity = None, i_acknowledged_at = None,
                           i_acknowledged_by = None, i_resolved_at = None, i_closed_at = None,
                           i_last_alarm_at = None, i_created_at = ts\<rparr>
                  in bindE (incident_insert i w2) (\<lambda>w3.
                    (let w4 = inc_metric ''incident_created_total'' [] w3 in
                     Inr (i, w4\<lparr>w_diagnoses := update_rows dg_id (dg_id d)
                       (\<lambda>r. r\<lparr>dg_incident_id := Some (i_id i)\<rparr>) (w_diagnoses w4)\<rparr>))))))"

section \<open>Context bundle\<close>

definition linked_alarms :: "uuid \<Rightarrow> world \<Rightarrow> alarm list" where
  "linked_alarms incident_id w =
     sort_by by_started_desc
       (concat (map (\<lambda>l. filter (\<lambda>a. a_id a = l_alarm_id l) (w_alarms w))
         (filter (\<lambda>l. l_incident_id l = incident_id) (w_links w))))"

definition by_diagnosis_created_desc :: "diagnosis \<Rightarrow> diagnosis \<Rightarrow> bool" where
  "by_diagnosis_created_desc d e \<longleftrightarrow> dg_created_at e \<le> dg_created_at d"

definition latest_diagnosis :: "uuid \<Rightarrow> world \<Rightarrow> diagnosis option" where
  "latest_diagnosis incident_id w =
     first_of (sort_by by_diagnosis_created_desc
       (filter (\<lambda>d. dg_incident_id d = Some incident_id) (w_diagnoses w)))"

definition device_with_asset :: "incident \<Rightarrow> world \<Rightarrow> device option \<times> asset_node option" where
  "device_with_asset i w =
     (case i_device_id i of None \<Rightarrow> (None, None)
      | Some d \<Rightarrow>
          (case find_row dev_device_id d (w_devices w) of
             None \<Rightarrow> (None, None)
           | Some dev \<Rightarrow>
               (case dev_asset_node_id dev of None \<Rightarrow> (Some dev, None)
                | Some n \<Rightarrow> (Some dev, find_row n_id n (w_assets w)))))"

definition oldest_first :: "audit_event \<Rightarrow> audit_event \<Rightarrow> bool" where
  "oldest_first e f \<longleftrightarrow>
     ae_timestamp e < ae_timestamp f \<or> (ae_timestamp e = ae_timestamp f \<and> ae_id e \<le> ae_id f)"

definition audit_timeline :: "uuid \<Rightarrow> world \<Rightarrow> audit_event list" where
  "audit_timeline incident_id w =
     sort_by oldest_first (filter (\<lambda>e. ae_resource e = incident_id) (w_audit w))"

record incident_context =
  ix_incident :: incident
  ix_open :: bool
  ix_alarms :: "alarm list"
  ix_device :: "device option"
  ix_asset :: "asset_node option"
  ix_diagnosis :: "diagnosis option"
  ix_audit :: "audit_event list"

definition build_context :: "uuid \<Rightarrow> world \<Rightarrow> app_error + incident_context" where
  "build_context incident_id w =
     bindE (require_incident incident_id w) (\<lambda>i.
       (let (dev, asset) = device_with_asset i w in
        Inr \<lparr>ix_incident = i,
             ix_open = (i_status i \<notin> {''RESOLVED'', ''CLOSED'', ''CANCELLED''}),
             ix_alarms = linked_alarms incident_id w, ix_device = dev, ix_asset = asset,
             ix_diagnosis = latest_diagnosis incident_id w,
             ix_audit = audit_timeline incident_id w\<rparr>))"

end
