(* ===== verification/Operations.thy ===== *)
theory Operations
  imports Incidents
begin

text \<open>
  The incident operations centre of \<^verbatim>\<open>incidents/operations.py\<close>: dashboard counters and rows, the
  workflow bridge, the operational metrics and the gate in front of workflow creation. Averages are
  the exact rational values the database computes before they are rounded to a float.
\<close>

section \<open>Dashboard\<close>

definition WORKFLOW_ENTRY_STATUSES :: "IncidentStatus list" where
  "WORKFLOW_ENTRY_STATUSES =
     filter (\<lambda>s. is_incident_transition_allowed s INC_UNDER_ANALYSIS) incident_statuses"

definition WORKFLOW_READY_DIAGNOSIS_STATUSES :: "string list" where
  "WORKFLOW_READY_DIAGNOSIS_STATUSES = [''FAULT'', ''UNCERTAIN'']"

definition CRITICAL_SEVERITY :: string where
  "CRITICAL_SEVERITY = ''CRITICAL''"

definition count_incidents :: "(incident \<Rightarrow> bool) \<Rightarrow> world \<Rightarrow> nat" where
  "count_incidents P w = length (filter P (w_incidents w))"

record dashboard_summary =
  sum_active :: nat
  sum_critical :: nat
  sum_unacknowledged :: nat

definition summary :: "world \<Rightarrow> dashboard_summary" where
  "summary w =
     \<lparr>sum_active = count_incidents OPEN_INCIDENT_PREDICATE w,
      sum_critical = count_incidents
        (\<lambda>i. OPEN_INCIDENT_PREDICATE i \<and> i_severity i = Some CRITICAL_SEVERITY) w,
      sum_unacknowledged = count_incidents
        (\<lambda>i. OPEN_INCIDENT_PREDICATE i \<and> i_acknowledged_at i = None) w\<rparr>"

definition device_asset_names ::
  "string list \<Rightarrow> world \<Rightarrow> (string \<times> string option \<times> string option) list" where
  "device_asset_names device_ids w =
     (if device_ids = [] then []
      else
        (let devices = filter (\<lambda>d. dev_device_id d \<in> set device_ids) (w_devices w);
             asset_ids = List.map_filter dev_asset_node_id devices;
             assets = map (\<lambda>n. (n_id n, n_name n))
               (filter (\<lambda>n. n_id n \<in> set asset_ids) (w_assets w))
         in map (\<lambda>d. (dev_device_id d,
                Option.bind (dev_asset_node_id d) (map_of assets), Some (dev_device_id d))) devices))"

definition by_run_created_desc :: "workflow_run \<Rightarrow> workflow_run \<Rightarrow> bool" where
  "by_run_created_desc r s \<longleftrightarrow> wr_created_at s \<le> wr_created_at r"

text \<open>\<^verbatim>\<open>latest.setdefault(run.incident_id, run.status)\<close> keeps the first status it sees.\<close>

definition setdefault :: "'k \<Rightarrow> 'v \<Rightarrow> ('k \<times> 'v) list \<Rightarrow> ('k \<times> 'v) list" where
  "setdefault k v m = (if k \<in> fst ` set m then m else m @ [(k, v)])"

definition latest_workflow_statuses :: "uuid list \<Rightarrow> world \<Rightarrow> (uuid \<times> WorkflowStatus) list" where
  "latest_workflow_statuses incident_ids w =
     (if incident_ids = [] then []
      else
        (let runs = sort_by by_run_created_desc
               (filter (\<lambda>r. wr_incident_id r \<in> set incident_ids) (w_runs w))
         in fold (\<lambda>r m. setdefault (wr_incident_id r) (wr_status r) m) runs []))"

record dashboard_row =
  dr_incident_id :: uuid
  dr_title :: string
  dr_status :: string
  dr_severity :: "string option"
  dr_priority :: string
  dr_device_id :: "string option"
  dr_asset_name :: "string option"
  dr_workflow_status :: "WorkflowStatus option"
  dr_created_at :: instant
  dr_last_alarm_at :: "instant option"
  dr_resolved_at :: "instant option"

definition dashboard_row_of ::
  "(string \<times> string option \<times> string option) list \<Rightarrow> (uuid \<times> WorkflowStatus) list
    \<Rightarrow> incident \<Rightarrow> dashboard_row" where
  "dashboard_row_of device_names workflow_statuses i =
     (let (asset_name, device_label) =
            (case map_of device_names (case i_device_id i of None \<Rightarrow> [] | Some d \<Rightarrow> d) of
               None \<Rightarrow> (None, None) | Some p \<Rightarrow> p)
      in \<lparr>dr_incident_id = i_id i, dr_title = i_title i, dr_status = i_status i,
          dr_severity = i_severity i, dr_priority = i_priority i, dr_device_id = device_label,
          dr_asset_name = asset_name, dr_workflow_status = map_of workflow_statuses (i_id i),
          dr_created_at = i_created_at i, dr_last_alarm_at = i_last_alarm_at i,
          dr_resolved_at = i_resolved_at i\<rparr>)"

definition rows ::
  "nat \<Rightarrow> string option \<Rightarrow> string option \<Rightarrow> string option \<Rightarrow> world \<Rightarrow> dashboard_row list" where
  "rows limit status severity device_id w =
     (let incidents = take limit (sort_by by_created_desc
            (filter (incident_matches status severity device_id) (w_incidents w)))
      in if incidents = [] then []
         else
           (let device_names = device_asset_names (List.map_filter i_device_id incidents) w;
                workflow_statuses = latest_workflow_statuses (map i_id incidents) w
            in map (dashboard_row_of device_names workflow_statuses) incidents))"

definition dashboard ::
  "nat \<Rightarrow> string option \<Rightarrow> string option \<Rightarrow> string option \<Rightarrow> world
    \<Rightarrow> dashboard_summary \<times> dashboard_row list" where
  "dashboard limit status severity device_id w =
     (summary w, rows limit status severity device_id w)"

section \<open>Workflow bridge and metrics\<close>

definition latest_workflow :: "uuid \<Rightarrow> world \<Rightarrow> workflow_run option" where
  "latest_workflow incident_id w =
     first_of (sort_by by_run_created_desc
       (filter (\<lambda>r. wr_incident_id r = incident_id) (w_runs w)))"

record workflow_bridge =
  br_incident_id :: uuid
  br_workflow_exists :: bool
  br_workflow_run_id :: "uuid option"
  br_workflow_status :: "WorkflowStatus option"
  br_approval_required :: bool

definition workflow_context :: "uuid \<Rightarrow> world \<Rightarrow> app_error + workflow_bridge" where
  "workflow_context incident_id w =
     bindE (require_incident incident_id w) (\<lambda>i.
       (let run = latest_workflow (i_id i) w;
            approval_required =
              (case run of None \<Rightarrow> False
               | Some r \<Rightarrow>
                   (case find (\<lambda>a. ap_workflow_run_id a = Some (wr_id r)) (w_approvals w) of
                      None \<Rightarrow> False
                    | Some a \<Rightarrow> wr_status r = WF_WAITING_APPROVAL \<and> ap_decision a = ''PENDING''))
        in Inr \<lparr>br_incident_id = i_id i, br_workflow_exists = (run \<noteq> None),
                br_workflow_run_id = map_option wr_id run,
                br_workflow_status = map_option wr_status run,
                br_approval_required = approval_required\<rparr>))"

text \<open>\<^verbatim>\<open>avg\<close> over no rows is null, which \<^verbatim>\<open>or 0.0\<close> turns into zero.\<close>

definition avg_seconds :: "int list \<Rightarrow> rat" where
  "avg_seconds ds =
     (if ds = [] then 0 else of_int (sum_list ds) / (1000000 * of_nat (length ds)))"

record operational_metrics =
  om_mtta_seconds :: rat
  om_mttr_seconds :: rat
  om_alarm_compression :: rat

definition metrics :: "world \<Rightarrow> operational_metrics" where
  "metrics w =
     (let incident_total = count_incidents (\<lambda>_. True) w; link_total = length (w_links w)
      in \<lparr>om_mtta_seconds = avg_seconds (List.map_filter
            (\<lambda>i. map_option (\<lambda>t. t - i_created_at i) (i_acknowledged_at i)) (w_incidents w)),
          om_mttr_seconds = avg_seconds (List.map_filter
            (\<lambda>i. map_option (\<lambda>t. t - i_created_at i) (i_resolved_at i)) (w_incidents w)),
          om_alarm_compression =
            (if incident_total = 0 then 0 else of_nat link_total / of_nat incident_total)\<rparr>)"

section \<open>Workflow gate\<close>

definition ensure_ready :: "uuid \<Rightarrow> world \<Rightarrow> app_error + incident \<times> diagnosis" where
  "ensure_ready incident_id w =
     bindE (require_incident incident_id w) (\<lambda>i.
       case as_incident_status (i_status i) of
         None \<Rightarrow> Inl (IncidentNotReadyError (i_id i) ''INCIDENT_STATUS'')
       | Some current \<Rightarrow>
           if current \<notin> set WORKFLOW_ENTRY_STATUSES
           then Inl (IncidentNotReadyError (i_id i) ''INCIDENT_STATUS'')
           else
             (case latest_diagnosis (i_id i) w of
                None \<Rightarrow> Inl (IncidentNotReadyError (i_id i) ''DIAGNOSIS'')
              | Some d \<Rightarrow>
                  if dg_device_id d = None \<or> dg_device_id d = Some [] \<or>
                     dg_status d \<notin> set WORKFLOW_READY_DIAGNOSIS_STATUSES
                  then Inl (IncidentNotReadyError (i_id i) ''DIAGNOSIS'')
                  else Inr (i, d)))"

definition record_gate_pass :: "ctx \<Rightarrow> incident \<Rightarrow> diagnosis \<Rightarrow> world \<Rightarrow> world" where
  "record_gate_pass c i d w =
     audit_add c (entry ''INCIDENT_WORKFLOW_REQUESTED'' (i_id i) ''SUCCESS''
       [(''diagnosis_id'', JStr (dg_id d))] (Some ''incident-center'')) w"

end
