(* ===== verification/Workflow.thy ===== *)
theory Workflow
  imports Graph Operations
begin

text \<open>
  The workflow service of \<^verbatim>\<open>workflow/service.py\<close> and the two endpoints that start a workflow.
  \<^verbatim>\<open>start\<close> is two transactions with the graph run between them: \<open>start_begin\<close> commits the run and
  returns the state the graph starts from, \<open>start_finish\<close> runs the graph and persists its result.
  Other requests may run in between. A request that raises leaves the tables as its last commit left
  them. The constraints a row read in the same transaction already meets are not checked again.
\<close>

definition WORKFLOW_VERSION :: string where
  "WORKFLOW_VERSION = ''maintenance-decision-workflow-v1''"

section \<open>Rows\<close>

definition run_get :: "uuid \<Rightarrow> world \<Rightarrow> workflow_run option" where
  "run_get k w = find_row wr_id k (w_runs w)"

definition run_by_key :: "string \<Rightarrow> world \<Rightarrow> workflow_run option" where
  "run_by_key key w = find_row wr_idempotency_key key (w_runs w)"

definition plan_of_run :: "uuid \<Rightarrow> world \<Rightarrow> maintenance_plan option" where
  "plan_of_run k w = find_row p_workflow_run_id k (w_plans w)"

definition approval_of_run :: "uuid \<Rightarrow> world \<Rightarrow> approval option" where
  "approval_of_run k w = find_row ap_workflow_run_id (Some k) (w_approvals w)"

definition order_of_run :: "uuid \<Rightarrow> world \<Rightarrow> work_order option" where
  "order_of_run k w = find_row wo_workflow_run_id k (w_orders w)"

definition set_run :: "uuid \<Rightarrow> (workflow_run \<Rightarrow> workflow_run) \<Rightarrow> world \<Rightarrow> world" where
  "set_run k f w = w\<lparr>w_runs := update_rows wr_id k f (w_runs w)\<rparr>"

definition set_incident_status :: "uuid \<Rightarrow> string \<Rightarrow> world \<Rightarrow> world" where
  "set_incident_status k s w = set_incident k (\<lambda>i. i\<lparr>i_status := s\<rparr>) w"

definition save_checkpoint :: "uuid \<Rightarrow> checkpoint \<Rightarrow> world \<Rightarrow> world" where
  "save_checkpoint k cp w =
     w\<lparr>w_checkpoints := (k, cp) # filter (\<lambda>p. fst p \<noteq> k) (w_checkpoints w)\<rparr>"

fun checkpoint_state :: "checkpoint \<Rightarrow> workflow_state option" where
  "checkpoint_state (AtApproval st) = Some st"
| "checkpoint_state (Finished st) = Some st"

section \<open>Starting\<close>

definition snapshot_of :: "diagnosis \<Rightarrow> diagnosis_snapshot" where
  "snapshot_of d =
     \<lparr>ds_id = dg_id d, ds_status = dg_status d, ds_fault_type = dg_fault_type d,
      ds_confidence = dg_confidence d, ds_severity = dg_severity d,
      ds_model_version = dg_model_version d\<rparr>"

definition query_of :: "diagnosis \<Rightarrow> knowledge_query" where
  "query_of d =
     \<lparr>kq_device_type = ''industrial_motor'',
      kq_fault_type = (case dg_fault_type d of None \<Rightarrow> ''UNSUPPORTED''
        | Some f \<Rightarrow> if f = [] then ''UNSUPPORTED'' else f),
      kq_severity = dg_severity d, kq_symptoms = map se_signal (dg_evidence d),
      kq_objective = ''troubleshooting'', kq_device_model = None\<rparr>"

definition initial_state ::
  "ctx \<Rightarrow> wf_env \<Rightarrow> uuid \<Rightarrow> uuid \<Rightarrow> uuid \<Rightarrow> string \<Rightarrow> diagnosis \<Rightarrow> retrieval \<Rightarrow> workflow_state" where
  "initial_state c env workflow_id incident_id retrieval_id device_id d rt =
     \<lparr>ws_workflow_run_id = workflow_id, ws_trace_id = c_trace_id c, ws_device_id = device_id,
      ws_incident_id = incident_id, ws_diagnosis_id = dg_id d, ws_diagnosis = snapshot_of d,
      ws_sensor_evidence = dg_evidence d,
      ws_knowledge_context = \<lparr>kc_retrieval_run_id = Some retrieval_id,
        kc_sufficiency = rt_sufficiency rt, kc_evidence = rt_evidence rt\<rparr>,
      ws_triage_result = None, ws_maintenance_plan = None, ws_safety_review = None,
      ws_policy_decision = None, ws_approval = None, ws_work_order_id = None,
      ws_current_stage = workflow_status_value WF_CREATED, ws_status = WF_CREATED,
      ws_attempt_count = 0, ws_errors = [], ws_provider = e_provider env, ws_model = e_model env,
      ws_policy_version = POLICY_VERSION, ws_workflow_version = WORKFLOW_VERSION,
      ws_plan_version = 1\<rparr>"

definition run_of_state :: "string \<Rightarrow> instant \<Rightarrow> workflow_state \<Rightarrow> workflow_run" where
  "run_of_state key ts st =
     \<lparr>wr_id = ws_workflow_run_id st, wr_incident_id = ws_incident_id st,
      wr_diagnosis_id = ws_diagnosis_id st, wr_device_id = ws_device_id st,
      wr_trace_id = ws_trace_id st, wr_idempotency_key = key,
      wr_workflow_version = WORKFLOW_VERSION, wr_policy_version = POLICY_VERSION,
      wr_provider = ws_provider st, wr_model = ws_model st, wr_status = ws_status st,
      wr_current_stage = ws_current_stage st, wr_state = st, wr_attempt_count = 0, wr_errors = [],
      wr_plan_version = 1, wr_created_at = ts\<rparr>"

text \<open>
  \<open>begun\<close> tells an existing run, which \<^verbatim>\<open>start\<close> returns at once, from a new one, whose graph has yet
  to run. \<open>begin_run\<close> is the part of the transaction after its checks.
\<close>

datatype begun = ExistingRun workflow_run | NewRun workflow_state

definition begin_run ::
  "ctx \<Rightarrow> wf_env \<Rightarrow> (built_query \<Rightarrow> retrieval) \<Rightarrow> uuid \<Rightarrow> uuid \<Rightarrow> string \<Rightarrow> diagnosis \<Rightarrow> string \<Rightarrow> world
    \<Rightarrow> app_error + begun \<times> world" where
  "begin_run c env search workflow_id incident_id device_id d key w1 =
     (let built = build_query (query_of d);
          (retrieval_id, w2) = uuid4 c w1;
          rt = search built;
          (ts, w3) = utc_now c w2;
          st = initial_state c env workflow_id incident_id retrieval_id device_id d rt;
          retrieval_row = \<lparr>rr_id = retrieval_id, rr_query = built,
            rr_pipeline_version = ''hybrid-rrf-v1'', rr_evidence = rt_evidence rt,
            rr_sufficiency = rt_sufficiency rt\<rparr>;
          w4 = w3\<lparr>w_retrievals := w_retrievals w3 @ [retrieval_row],
                  w_runs := w_runs w3 @ [run_of_state key ts st]\<rparr>;
          w5 = audit_add c (entry ''WORKFLOW_STARTED'' incident_id ''SUCCESS''
            [(''workflow_run_id'', JStr workflow_id), (''diagnosis_id'', JStr (dg_id d)),
             (''workflow_version'', JStr WORKFLOW_VERSION)] (Some ''workflow-engine'')) w4;
          w6 = inc_metric ''workflow_started_total'' [] w5
      in if workflow_id \<in> wr_id ` set (w_runs w1) \<or> retrieval_id \<in> rr_id ` set (w_retrievals w1)
         then Inl IntegrityError
         else Inr (NewRun st, set_incident_status incident_id ''UNDER_ANALYSIS'' w6))"

definition start_begin ::
  "ctx \<Rightarrow> wf_env \<Rightarrow> uuid \<Rightarrow> uuid \<Rightarrow> world \<Rightarrow> app_error + begun \<times> world" where
  "start_begin c env incident_id diagnosis_id w =
     (case e_index env of
        None \<Rightarrow> Inl (AppError ''INDEX_NOT_AVAILABLE'' 503)
      | Some search \<Rightarrow>
          (let key = e_key_hash env incident_id diagnosis_id WORKFLOW_VERSION;
               (workflow_id, w1) = uuid4 c w in
           case run_by_key key w1 of
             Some r \<Rightarrow> Inr (ExistingRun r, w1)
           | None \<Rightarrow>
               (case incident_get incident_id w1 of
                  None \<Rightarrow> Inl (AppError ''INCIDENT_NOT_FOUND'' 404)
                | Some i \<Rightarrow>
                    (case find_row dg_id diagnosis_id (w_diagnoses w1) of
                       None \<Rightarrow> Inl (AppError ''INVALID_WORKFLOW_INPUT'' 422)
                     | Some d \<Rightarrow>
                         (case dg_device_id d of
                            None \<Rightarrow> Inl (AppError ''INVALID_WORKFLOW_INPUT'' 422)
                          | Some device_id \<Rightarrow>
                              if dg_incident_id d \<noteq> Some incident_id \<or> device_id = []
                              then Inl (AppError ''INVALID_WORKFLOW_INPUT'' 422)
                              else if dg_status d \<notin> {''FAULT'', ''UNCERTAIN''}
                              then Inl (AppError ''INVALID_WORKFLOW_INPUT'' 422)
                              else
                                begin_run c env search workflow_id incident_id device_id d key w1)))))"

section \<open>Persisting the graph's result\<close>

definition create_work_order ::
  "ctx \<Rightarrow> workflow_state \<Rightarrow> maintenance_plan option \<Rightarrow> approval option \<Rightarrow> world
    \<Rightarrow> app_error + work_order \<times> world" where
  "create_work_order c st plan approval w =
     (case order_of_run (ws_workflow_run_id st) w of
        Some wo \<Rightarrow> Inr (wo, w)
      | None \<Rightarrow>
          (case (plan, ws_maintenance_plan st) of
             (Some p, Some mp) \<Rightarrow>
               (let (fresh, w1) = uuid4 c w;
                    wo = \<lparr>wo_id = fresh, wo_workflow_run_id = ws_workflow_run_id st,
                          wo_maintenance_plan_id = p_id p, wo_approval_id = map_option ap_id approval,
                          wo_device_id = ws_device_id st, wo_incident_id = ws_incident_id st,
                          wo_diagnosis_id = ws_diagnosis_id st,
                          wo_title = ''Inspect '' @
                            (case ds_fault_type (ws_diagnosis st) of
                               None \<Rightarrow> ''equipment condition''
                             | Some f \<Rightarrow> if f = [] then ''equipment condition'' else f),
                          wo_priority =
                            (case ds_severity (ws_diagnosis st) of None \<Rightarrow> ''MEDIUM''
                             | Some s \<Rightarrow> if s = [] then ''MEDIUM'' else s),
                          wo_plan = mp,
                          wo_evidence_refs =
                            sort (remdups (concat (map ms_evidence_ids (mp_steps mp)))),
                          wo_safety_requirements =
                            (case ws_policy_decision st of None \<Rightarrow> [] | Some d \<Rightarrow> pd_reasons d),
                          wo_status = ''DRAFT'', wo_execution_authorized = False\<rparr>
                in if fresh \<in> wo_id ` set (w_orders w1) then Inl IntegrityError
                   else Inr (wo, w1\<lparr>w_orders := w_orders w1 @ [wo]\<rparr>))
           | _ \<Rightarrow> Inl (AppError ''PLAN_NOT_AVAILABLE'' 409)))"

definition persist_plan ::
  "ctx \<Rightarrow> wf_env \<Rightarrow> workflow_state \<Rightarrow> world \<Rightarrow> app_error + maintenance_plan option \<times> world" where
  "persist_plan c env st w =
     (case ws_maintenance_plan st of
        None \<Rightarrow> Inr (None, w)
      | Some mp \<Rightarrow>
          (case plan_of_run (ws_workflow_run_id st) w of
             Some p \<Rightarrow> Inr (Some p, w)
           | None \<Rightarrow>
               (let (fresh, w1) = uuid4 c w;
                    p = \<lparr>p_id = fresh, p_workflow_run_id = ws_workflow_run_id st,
                         p_diagnosis_id = ws_diagnosis_id st, p_version = ws_plan_version st,
                         p_plan_hash = e_plan_hash env mp, p_objective = mp_objective mp,
                         p_estimated_risk = ds_severity (ws_diagnosis st), p_status = ''READY'',
                         p_payload = mp\<rparr>
                in if fresh \<in> p_id ` set (w_plans w1) then Inl IntegrityError
                   else Inr (Some p, w1\<lparr>w_plans := w_plans w1 @ [p]\<rparr>))))"

definition persist_approval ::
  "ctx \<Rightarrow> workflow_state \<Rightarrow> maintenance_plan option \<Rightarrow> bool \<Rightarrow> world \<Rightarrow> app_error + world" where
  "persist_approval c st plan interrupted w =
     (case plan of
        None \<Rightarrow> Inr w
      | Some p \<Rightarrow>
          if \<not> interrupted then Inr w
          else
            (case ws_policy_decision st of
               None \<Rightarrow> Inl PyAssertionError
             | Some d \<Rightarrow>
                 (case approval_of_run (ws_workflow_run_id st) w of
                    Some _ \<Rightarrow> Inr w
                  | None \<Rightarrow>
                      (let (fresh, w1) = uuid4 c w; (ts, w2) = utc_now c w1;
                           a = \<lparr>ap_id = fresh, ap_maintenance_plan_id = p_id p,
                                ap_workflow_run_id = Some (ws_workflow_run_id st),
                                ap_decision = ''PENDING'', ap_actor = None, ap_reason = None,
                                ap_plan_version = p_version p, ap_plan_hash = p_plan_hash p,
                                ap_decided_at = None, ap_policy_reasons = pd_reasons d,
                                ap_created_at = ts\<rparr>
                       in if fresh \<in> ap_id ` set (w_approvals w2) then Inl IntegrityError
                          else Inr (w2\<lparr>w_approvals := w_approvals w2 @ [a]\<rparr>)))))"

definition record_state :: "workflow_state \<Rightarrow> workflow_run \<Rightarrow> workflow_run" where
  "record_state st r =
     r\<lparr>wr_status := ws_status st, wr_current_stage := ws_current_stage st, wr_state := st\<rparr>"

definition persist_incident :: "workflow_state \<Rightarrow> world \<Rightarrow> world" where
  "persist_incident st w =
     (if ws_status st = WF_WAITING_APPROVAL
      then set_incident_status (ws_incident_id st) ''ACTION_PENDING'' w
      else if ws_status st = WF_WORK_ORDER_CREATED
      then set_incident_status (ws_incident_id st) ''WORK_ORDER_CREATED'' w
      else w)"

definition persist_result ::
  "ctx \<Rightarrow> wf_env \<Rightarrow> workflow_state \<Rightarrow> bool \<Rightarrow> world \<Rightarrow> app_error + workflow_run \<times> world" where
  "persist_result c env st interrupted w =
     (case run_get (ws_workflow_run_id st) w of
        None \<Rightarrow> Inl PyAssertionError
      | Some row \<Rightarrow>
          bindE (persist_plan c env st w) (\<lambda>(plan, w1).
          bindE (persist_approval c st plan interrupted w1) (\<lambda>w2.
          bindE (if ws_status st = WF_AUTO_ALLOWED
                 then bindE (create_work_order c st plan None w2) (\<lambda>(wo, w3).
                   Inr (at_stage WF_WORK_ORDER_CREATED (st\<lparr>ws_work_order_id := Some (wo_id wo)\<rparr>), w3))
                 else Inr (st, w2)) (\<lambda>(st', w4).
            (let f = (\<lambda>r. (record_state st' r)\<lparr>wr_attempt_count := ws_attempt_count st',
                            wr_errors := ws_errors st'\<rparr>)
             in Inr (f row, persist_incident st' (set_run (ws_workflow_run_id st) f w4)))))))"

definition mark_failed :: "uuid \<Rightarrow> string \<Rightarrow> string \<Rightarrow> world \<Rightarrow> world" where
  "mark_failed workflow_id code message w =
     (case run_get workflow_id w of
        None \<Rightarrow> w
      | Some row \<Rightarrow>
          (let st = at_stage WF_FAILED ((wr_state row)\<lparr>ws_errors := ws_errors (wr_state row) @
                 [\<lparr>we_stage = wr_current_stage row, we_code = code, we_message = message,
                   we_retryable = False\<rparr>]\<rparr>)
           in inc_metric ''workflow_failed_total'' []
                (set_run workflow_id (\<lambda>r. (record_state st r)\<lparr>wr_errors := ws_errors st\<rparr>) w)))"

definition start_finish ::
  "ctx \<Rightarrow> wf_env \<Rightarrow> workflow_state \<Rightarrow> world \<Rightarrow> (app_error + workflow_run) \<times> world" where
  "start_finish c env st w =
     (case run_graph c env st w of
        (Raised e, w1) \<Rightarrow>
          (Inl (AppError ''WORKFLOW_FAILED'' 500),
           mark_failed (ws_workflow_run_id st) ''AGENT_FAILURE'' (exc_text e) w1)
      | (Interrupted st1, w1) \<Rightarrow>
          (let w2 = inc_metric ''workflow_waiting_approval_total'' []
                 (save_checkpoint (ws_workflow_run_id st) (AtApproval st1) w1) in
           case persist_result c env (at_stage WF_WAITING_APPROVAL st1) True w2 of
             Inl e \<Rightarrow> (Inl e, w2)
           | Inr (r, w3) \<Rightarrow> (Inr r, w3))
      | (Completed st1, w1) \<Rightarrow>
          (let w2 = save_checkpoint (ws_workflow_run_id st) (Finished st1) w1 in
           case persist_result c env st1 False w2 of
             Inl e \<Rightarrow> (Inl e, w2)
           | Inr (r, w3) \<Rightarrow> (Inr r, w3)))"

text \<open>\<open>others\<close> is what other requests commit between the two transactions.\<close>

definition start ::
  "ctx \<Rightarrow> wf_env \<Rightarrow> (world \<Rightarrow> world) \<Rightarrow> uuid \<Rightarrow> uuid \<Rightarrow> world \<Rightarrow> (app_error + workflow_run) \<times> world" where
  "start c env others incident_id diagnosis_id w =
     (case start_begin c env incident_id diagnosis_id w of
        Inl e \<Rightarrow> (Inl e, w)
      | Inr (ExistingRun r, w1) \<Rightarrow> (Inr r, w1)
      | Inr (NewRun st, w1) \<Rightarrow> start_finish c env st (others w1))"

definition start_incident_workflow ::
  "ctx \<Rightarrow> wf_env \<Rightarrow> (world \<Rightarrow> world) \<Rightarrow> uuid \<Rightarrow> world \<Rightarrow> (app_error + workflow_run) \<times> world" where
  "start_incident_workflow c env others incident_id w =
     (case ensure_ready incident_id w of
        Inl e \<Rightarrow> (Inl e, w)
      | Inr (i, d) \<Rightarrow> start c env others incident_id (dg_id d) (record_gate_pass c i d w))"

section \<open>Human decision and cancellation\<close>

definition decide_approval ::
  "ctx \<Rightarrow> wf_env \<Rightarrow> uuid \<Rightarrow> string \<Rightarrow> string \<Rightarrow> string \<Rightarrow> world \<Rightarrow> app_error + workflow_run \<times> world" where
  "decide_approval c env approval_id decision actor reason w =
     (if decision \<notin> {''APPROVED'', ''REJECTED''} then Inl PyValueError
      else case find_row ap_id approval_id (w_approvals w) of
          None \<Rightarrow> Inl (AppError ''APPROVAL_NOT_FOUND'' 404)
        | Some a \<Rightarrow>
          (case ap_workflow_run_id a of
             None \<Rightarrow> Inl (AppError ''APPROVAL_NOT_FOUND'' 404)
           | Some run_id \<Rightarrow>
             (case run_get run_id w of
                None \<Rightarrow> Inl PyAssertionError
              | Some row \<Rightarrow>
                if wr_status row = WF_CANCELLED then Inl (AppError ''WORKFLOW_CANCELLED'' 409)
                else case find_row p_id (ap_maintenance_plan_id a) (w_plans w) of
                    None \<Rightarrow> Inl (AppError ''STALE_APPROVAL'' 409)
                  | Some plan \<Rightarrow>
                    if p_version plan \<noteq> ap_plan_version a \<or> p_plan_hash plan \<noteq> ap_plan_hash a
                    then Inl (AppError ''STALE_APPROVAL'' 409)
                    else if ap_decision a \<notin> {''PENDING'', decision}
                    then Inl (AppError ''APPROVAL_ALREADY_DECIDED'' 409)
                    else if ap_decision a = decision \<and>
                        wr_status row \<in> {WF_WORK_ORDER_CREATED, WF_REJECTED}
                    then Inr (row, w)
                    else
                      (let (ts, w1) = utc_now c w;
                           f = (\<lambda>x. x\<lparr>ap_decision := decision, ap_actor := Some actor,
                                      ap_reason := Some reason, ap_decided_at := Some ts\<rparr>);
                           a' = f a;
                           w2 = w1\<lparr>w_approvals := update_rows ap_id approval_id f (w_approvals w1)\<rparr>;
                           snap = \<lparr>as_approval_id = ap_id a', as_status = decision,
                                   as_actor = Some actor, as_reason = Some reason,
                                   as_plan_version = ap_plan_version a',
                                   as_plan_hash = ap_plan_hash a', as_decided_at = Some ts\<rparr>
                       in bindE (case map_of (w_checkpoints w2) run_id of
                              Some (AtApproval st) \<Rightarrow>
                                (case resume_graph c env st snap w2 of
                                   (Completed st', w3) \<Rightarrow>
                                     Inr (st', save_checkpoint run_id (Finished st') w3)
                                 | _ \<Rightarrow> Inl PyValueError)
                            | other \<Rightarrow>
                                (case e_resume_other env (Option.bind other checkpoint_state) snap of
                                   None \<Rightarrow> Inl PyValueError | Some st' \<Rightarrow> Inr (st', w2)))
                          (\<lambda>(st', w3).
                            (let st1 = st'\<lparr>ws_approval := Some snap\<rparr> in
                             if decision = ''APPROVED''
                             then bindE (create_work_order c st1 (Some plan) (Some a') w3) (\<lambda>(wo, w4).
                               (let st2 = at_stage WF_WORK_ORDER_CREATED
                                      (st1\<lparr>ws_work_order_id := Some (wo_id wo)\<rparr>);
                                    w5 = set_incident_status (ws_incident_id st2)
                                           ''WORK_ORDER_CREATED'' w4
                                in Inr (record_state st2 row, set_run run_id (record_state st2) w5)))
                             else
                               (let st2 = at_stage WF_REJECTED st1
                                in Inr (record_state st2 row,
                                     set_run run_id (record_state st2) w3))))))))"

definition cancel :: "uuid \<Rightarrow> world \<Rightarrow> app_error + workflow_run \<times> world" where
  "cancel workflow_id w =
     (case run_get workflow_id w of
        None \<Rightarrow> Inl (AppError ''WORKFLOW_NOT_FOUND'' 404)
      | Some row \<Rightarrow>
          if wr_status row \<notin> {WF_CREATED, WF_TRIAGING, WF_PLANNING, WF_WAITING_APPROVAL}
          then Inl (AppError ''WORKFLOW_NOT_CANCELLABLE'' 409)
          else
            (let st = at_stage WF_CANCELLED (wr_state row)
             in Inr (record_state st row, set_run workflow_id (record_state st) w)))"

section \<open>Queries\<close>

definition get_workflow :: "uuid \<Rightarrow> world \<Rightarrow> app_error + workflow_run" where
  "get_workflow workflow_id w =
     (case run_get workflow_id w of None \<Rightarrow> Inl (AppError ''WORKFLOW_NOT_FOUND'' 404) | Some r \<Rightarrow> Inr r)"

definition by_agent_time :: "agent_run \<Rightarrow> agent_run \<Rightarrow> bool" where
  "by_agent_time a b \<longleftrightarrow> ar_timestamp a \<le> ar_timestamp b"

definition trace :: "uuid \<Rightarrow> world \<Rightarrow> app_error + workflow_run \<times> agent_run list" where
  "trace workflow_id w =
     bindE (get_workflow workflow_id w) (\<lambda>r.
       Inr (r, sort_by by_agent_time (filter (\<lambda>a. ar_workflow_run_id a = workflow_id) (w_agent_runs w))))"

definition by_approval_created :: "approval \<Rightarrow> approval \<Rightarrow> bool" where
  "by_approval_created a b \<longleftrightarrow> ap_created_at a \<le> ap_created_at b"

definition pending_approvals :: "world \<Rightarrow> approval list" where
  "pending_approvals w =
     sort_by by_approval_created (concat (map (\<lambda>a.
       map (\<lambda>_. a) (filter (\<lambda>r. ap_workflow_run_id a = Some (wr_id r) \<and> ap_decision a = ''PENDING'' \<and>
         wr_status r = WF_WAITING_APPROVAL) (w_runs w))) (w_approvals w)))"

definition get_approval :: "uuid \<Rightarrow> world \<Rightarrow> app_error + approval" where
  "get_approval approval_id w =
     (case find_row ap_id approval_id (w_approvals w) of
        None \<Rightarrow> Inl (AppError ''APPROVAL_NOT_FOUND'' 404) | Some a \<Rightarrow> Inr a)"

end
