(* ===== verification/IncidentLemmas.thy ===== *)
theory IncidentLemmas
  imports Operations
begin

text \<open>
  The incident tables' invariant, what each incident operation writes, and that it keeps the
  invariant. The five lifecycle commands share the contract \<open>lifecycle_command\<close>; its client lemmas
  are proved once and every command interprets it.
\<close>

section \<open>Invariant\<close>

definition link_pair :: "incident_alarm \<Rightarrow> uuid \<times> uuid" where
  "link_pair l = (l_incident_id l, l_alarm_id l)"

definition incident_wf :: "incident \<Rightarrow> bool" where
  "incident_wf i \<longleftrightarrow>
     i_status i \<in> incident_status_value ` set incident_statuses \<and>
     (i_acknowledged_at i = None \<longleftrightarrow> i_acknowledged_by i = None)"

definition incident_inv :: "world \<Rightarrow> bool" where
  "incident_inv w \<longleftrightarrow>
     distinct (map i_id (w_incidents w)) \<and>
     distinct (map link_pair (w_links w)) \<and>
     l_incident_id ` set (w_links w) \<subseteq> i_id ` set (w_incidents w) \<and>
     (\<forall>i \<in> set (w_incidents w). incident_wf i)"

text \<open>What an operation may do to one incident.\<close>

definition incident_evolves :: "incident \<Rightarrow> incident \<Rightarrow> bool" where
  "incident_evolves i i' \<longleftrightarrow>
     i_id i' = i_id i \<and> i_device_id i' = i_device_id i \<and> i_created_at i' = i_created_at i \<and>
     (severity_rank (i_severity i) < severity_rank (i_severity i') \<or>
      i_severity i' = i_severity i \<and> i_priority i' = i_priority i) \<and>
     (case i_last_alarm_at i of None \<Rightarrow> True
      | Some t \<Rightarrow> (case i_last_alarm_at i' of None \<Rightarrow> False | Some t' \<Rightarrow> t \<le> t')) \<and>
     (i_acknowledged_at i \<noteq> None \<longrightarrow> i_acknowledged_at i' \<noteq> None)"

text \<open>The tables of the decision workflow, which no incident operation writes.\<close>

definition workflow_tables ::
  "world \<Rightarrow> workflow_run list \<times> maintenance_plan list \<times> approval list \<times> work_order list
    \<times> (uuid \<times> checkpoint) list" where
  "workflow_tables w = (w_runs w, w_plans w, w_approvals w, w_orders w, w_checkpoints w)"

interpretation incident_activity_order: row_order by_incident_activity_desc
  by unfold_locales (auto simp: by_incident_activity_desc_def)

interpretation incident_created_order: row_order by_created_desc
  by unfold_locales (auto simp: by_created_desc_def)

interpretation link_order: row_order by_link_created
  by unfold_locales (auto simp: by_link_created_def)

interpretation diagnosis_order: row_order by_diagnosis_created_desc
  by unfold_locales (auto simp: by_diagnosis_created_desc_def)

interpretation timeline_order: row_order oldest_first
  by unfold_locales (auto simp: oldest_first_def)

interpretation run_order: row_order by_run_created_desc
  by unfold_locales (auto simp: by_run_created_desc_def)

lemma incident_get_row: "incident_get k w = Some i \<Longrightarrow> i \<in> set (w_incidents w) \<and> i_id i = k"
  unfolding incident_get_def by (rule find_row_Some)

lemma incident_get_member:
  "incident_inv w \<Longrightarrow> i \<in> set (w_incidents w) \<Longrightarrow> incident_get (i_id i) w = Some i"
  by (simp add: incident_get_def incident_inv_def find_row_unique)

lemma incident_unique:
  "incident_inv w \<Longrightarrow> i \<in> set (w_incidents w) \<Longrightarrow> j \<in> set (w_incidents w) \<Longrightarrow> i_id i = i_id j \<Longrightarrow> i = j"
  by (auto simp: incident_inv_def dest: distinct_map_eq)

lemma incident_evolves_refl: "incident_evolves i i"
  by (simp add: incident_evolves_def split: option.splits)

lemma incident_evolves_trans: "incident_evolves i j \<Longrightarrow> incident_evolves j k \<Longrightarrow> incident_evolves i k"
  by (auto simp: incident_evolves_def split: option.splits)

lemma incident_inv_cong:
  "w_incidents w' = w_incidents w \<Longrightarrow> w_links w' = w_links w \<Longrightarrow> incident_inv w' \<longleftrightarrow> incident_inv w"
  by (simp add: incident_inv_def)

lemma incident_inv_update:
  assumes "incident_inv w" and "\<And>i. i_id (f i) = i_id i"
    and "\<And>i. i \<in> set (w_incidents w) \<Longrightarrow> i_id i = k \<Longrightarrow> incident_wf i \<Longrightarrow> incident_wf (f i)"
    and "w_incidents w' = update_rows i_id k f (w_incidents w)" and "w_links w' = w_links w"
  shows "incident_inv w'"
proof -
  have ids: "map i_id (w_incidents w') = map i_id (w_incidents w)"
    using assms(2,4) by (simp add: map_key_update_rows)
  then have "i_id ` set (w_incidents w') = i_id ` set (w_incidents w)" by (metis set_map)
  moreover have "\<forall>i \<in> set (w_incidents w'). incident_wf i"
    using assms(1,3,4) by (auto simp: incident_inv_def elim!: in_update_rowsE)
  ultimately show ?thesis using assms(1,5) ids by (simp add: incident_inv_def)
qed

lemma incident_evolves_update:
  assumes "incident_inv w" and "i \<in> set (w_incidents w)"
    and "w_incidents w' = update_rows i_id k f (w_incidents w)"
    and "\<And>j. j \<in> set (w_incidents w) \<Longrightarrow> i_id j = k \<Longrightarrow> incident_evolves j (f j)"
  shows "\<exists>i' \<in> set (w_incidents w'). incident_evolves i i'"
proof (cases "i_id i = k")
  case True
  then have "f i \<in> set (w_incidents w')" using assms(2,3) by (force simp: update_rows_def)
  with True assms(2,4) show ?thesis by blast
next
  case False
  then have "i \<in> set (w_incidents w')" using assms(2,3) by (force simp: update_rows_def)
  then show ?thesis using incident_evolves_refl by blast
qed

section \<open>The lifecycle command contract\<close>

locale lifecycle_command =
  fixes cmd :: "ctx \<Rightarrow> uuid \<Rightarrow> string \<Rightarrow> world \<Rightarrow> app_error + incident \<times> world"
    and target :: IncidentStatus
    and effect :: "instant \<Rightarrow> string \<Rightarrow> incident \<Rightarrow> incident"
    and action :: string
  assumes refuses: "bindE (require_incident k w) (\<lambda>i. incident_require_transition i target) = Inl e
      \<Longrightarrow> cmd c k actor w = Inl e"
    and performs: "incident_get k w = Some i \<Longrightarrow> incident_require_transition i target = Inr () \<Longrightarrow>
      \<exists>w' e. cmd c k actor w = Inr (effect (c_clock c (w_ticks w)) actor i, w') \<and>
        w_incidents w' = update_rows i_id k (effect (c_clock c (w_ticks w)) actor) (w_incidents w) \<and>
        w_links w' = w_links w \<and> w_alarms w' = w_alarms w \<and>
        workflow_tables w' = workflow_tables w \<and> w_diagnoses w' = w_diagnoses w \<and>
        w_audit w' = w_audit w @ [e] \<and> ae_action e = action \<and> ae_resource e = i_id i"
    and effect_status: "i_status (effect t actor i) = incident_status_value target"
    and effect_keeps: "i_id (effect t actor i) = i_id i" "i_device_id (effect t actor i) = i_device_id i"
      "i_severity (effect t actor i) = i_severity i" "i_priority (effect t actor i) = i_priority i"
      "i_last_alarm_at (effect t actor i) = i_last_alarm_at i"
      "i_created_at (effect t actor i) = i_created_at i"
      "i_acknowledged_at (effect t actor i) = i_acknowledged_at i \<and>
         i_acknowledged_by (effect t actor i) = i_acknowledged_by i \<or>
       i_acknowledged_at (effect t actor i) \<noteq> None \<and> i_acknowledged_by (effect t actor i) \<noteq> None"
begin

lemma cmd_Inr:
  assumes "cmd c k actor w = Inr (i', w')"
  obtains i s e where "incident_get k w = Some i" "i_status i = incident_status_value s"
    "target \<in> set (INCIDENT_TRANSITIONS s)" "i' = effect (c_clock c (w_ticks w)) actor i"
    "w_incidents w' = update_rows i_id k (effect (c_clock c (w_ticks w)) actor) (w_incidents w)"
    "w_links w' = w_links w" "w_alarms w' = w_alarms w"
    "workflow_tables w' = workflow_tables w" "w_diagnoses w' = w_diagnoses w"
    "w_audit w' = w_audit w @ [e]" "ae_action e = action" "ae_resource e = k"
proof -
  have "\<nexists>e. bindE (require_incident k w) (\<lambda>i. incident_require_transition i target) = Inl e"
    using assms refuses by fastforce
  then obtain i where i: "incident_get k w = Some i" "incident_require_transition i target = Inr ()"
    by (cases "bindE (require_incident k w) (\<lambda>i. incident_require_transition i target)")
       (auto simp: require_incident_def bindE_Inr_iff split: option.splits)
  then obtain s where "i_status i = incident_status_value s" "target \<in> set (INCIDENT_TRANSITIONS s)"
    by (auto simp: incident_require_transition_def incident_status_of_def bindE_Inr_iff
        is_incident_transition_allowed_def incident_table.parse_Some_iff split: option.splits)
  moreover have "i_id i = k" using incident_get_row [OF i(1)] by simp
  ultimately show thesis
    using performs [OF i, of c actor] assms i(1) that by auto
qed

lemma cmd_outcome:
  "case incident_get k w of None \<Rightarrow> cmd c k actor w = Inl (IncidentNotFoundError k)
   | Some i \<Rightarrow>
       (case as_incident_status (i_status i) of
          None \<Rightarrow> cmd c k actor w = Inl (IncidentStatusUnknownError k (i_status i))
        | Some s \<Rightarrow>
            if target \<in> set (INCIDENT_TRANSITIONS s)
            then \<exists>w' e. cmd c k actor w = Inr (effect (c_clock c (w_ticks w)) actor i, w') \<and>
              w_incidents w' = update_rows i_id k (effect (c_clock c (w_ticks w)) actor) (w_incidents w) \<and>
              w_audit w' = w_audit w @ [e] \<and> ae_action e = action \<and> ae_resource e = k \<and>
              w_links w' = w_links w \<and> w_alarms w' = w_alarms w \<and>
              workflow_tables w' = workflow_tables w
            else cmd c k actor w =
              Inl (IncidentStateError k s target (describe_incident_transitions s)))"
proof (cases "incident_get k w")
  case None
  with refuses [of k w "IncidentNotFoundError k"] show ?thesis by (simp add: require_incident_def)
next
  case (Some i)
  then have id: "i_id i = k" using incident_get_row by blast
  show ?thesis
  proof (cases "incident_require_transition i target")
    case (Inl e)
    with refuses [of k w e] Some id show ?thesis
      by (auto simp: require_incident_def incident_require_transition_def incident_status_of_def
          is_incident_transition_allowed_def split: option.splits)
  next
    case (Inr u)
    with performs [OF Some, of c actor] Some id show ?thesis
      by (auto simp: incident_require_transition_def incident_status_of_def
          is_incident_transition_allowed_def split: option.splits)
  qed
qed

lemma cmd_inv: "incident_inv w \<Longrightarrow> cmd c k actor w = Inr (i', w') \<Longrightarrow> incident_inv w'"
proof -
  assume inv: "incident_inv w" and run: "cmd c k actor w = Inr (i', w')"
  have wf: "incident_wf (effect t actor i)" if "incident_wf i" for t i
    using that effect_status [of t actor i] effect_keeps(7) [of t actor i] incident_table.all_members
    by (auto simp: incident_wf_def)
  from run show "incident_inv w'"
    by (rule cmd_Inr) (rule incident_inv_update [OF inv effect_keeps(1) wf])
qed

lemma cmd_evolves:
  assumes inv: "incident_inv w" and run: "cmd c k actor w = Inr (i', w')" and i: "i \<in> set (w_incidents w)"
  shows "\<exists>j \<in> set (w_incidents w'). incident_evolves i j"
proof -
  have ev: "incident_evolves j (effect t actor j)" for t j
    using effect_keeps [where i = j and t = t and actor = actor]
    by (auto simp: incident_evolves_def split: option.splits)
  from run show ?thesis
    by (rule cmd_Inr) (rule incident_evolves_update [OF inv i _ ev])
qed

end

definition ack_incident_fields :: "instant \<Rightarrow> string \<Rightarrow> incident \<Rightarrow> incident" where
  "ack_incident_fields ts actor r =
     r\<lparr>i_status := incident_status_value INC_ACKNOWLEDGED, i_acknowledged_at := Some ts,
       i_acknowledged_by := Some actor\<rparr>"

definition investigate_fields :: "instant \<Rightarrow> string \<Rightarrow> incident \<Rightarrow> incident" where
  "investigate_fields ts actor r = r\<lparr>i_status := incident_status_value INC_INVESTIGATING\<rparr>"

definition resolve_fields :: "instant \<Rightarrow> string \<Rightarrow> incident \<Rightarrow> incident" where
  "resolve_fields ts actor r =
     r\<lparr>i_status := incident_status_value INC_RESOLVED, i_resolved_at := Some ts\<rparr>"

definition close_fields :: "instant \<Rightarrow> string \<Rightarrow> incident \<Rightarrow> incident" where
  "close_fields ts actor r =
     r\<lparr>i_status := incident_status_value INC_CLOSED, i_closed_at := Some ts\<rparr>"

definition reopen_fields :: "instant \<Rightarrow> string \<Rightarrow> incident \<Rightarrow> incident" where
  "reopen_fields ts actor r =
     r\<lparr>i_status := incident_status_value INC_REOPENED, i_closed_at := None, i_resolved_at := None\<rparr>"

lemmas command_defs = workflow_tables_def require_incident_def set_incident_def incident_audit_def utc_now_def Let_def
  audit_add_audit audit_event_of_def entry_def

interpretation ack_incident: lifecycle_command
  "\<lambda>c k actor. acknowledge_incident c k actor nt" INC_ACKNOWLEDGED ack_incident_fields
  "''INCIDENT_ACKNOWLEDGED''" for nt
  by unfold_locales
     (auto simp: acknowledge_incident_def command_defs ack_incident_fields_def [abs_def]
       bindE_Inl_iff bindE_Inr_iff split: option.splits)

interpretation investigate: lifecycle_command start_investigation INC_INVESTIGATING
  investigate_fields "''INCIDENT_INVESTIGATION_STARTED''"
  by unfold_locales
     (auto simp: start_investigation_def command_defs investigate_fields_def [abs_def]
       incident_require_transition_def bindE_Inl_iff bindE_Inr_iff split: option.splits)

interpretation resolve: lifecycle_command resolve_incident INC_RESOLVED resolve_fields
  "''INCIDENT_RESOLVED''"
  by unfold_locales
     (auto simp: resolve_incident_def command_defs resolve_fields_def [abs_def]
       bindE_Inl_iff bindE_Inr_iff split: option.splits)

interpretation close: lifecycle_command close_incident INC_CLOSED close_fields "''INCIDENT_CLOSED''"
  by unfold_locales
     (auto simp: close_incident_def command_defs close_fields_def [abs_def]
       bindE_Inl_iff bindE_Inr_iff split: option.splits)

interpretation reopen: lifecycle_command reopen_incident INC_REOPENED reopen_fields
  "''INCIDENT_REOPENED''"
  by unfold_locales
     (auto simp: reopen_incident_def command_defs reopen_fields_def [abs_def]
       bindE_Inl_iff bindE_Inr_iff split: option.splits)

section \<open>Absorbing an alarm\<close>

lemma absorb_alarm_simps [simp]:
  "i_id (absorb_alarm a i) = i_id i"
  "i_device_id (absorb_alarm a i) = i_device_id i"
  "i_status (absorb_alarm a i) = i_status i"
  "i_created_at (absorb_alarm a i) = i_created_at i"
  "i_acknowledged_at (absorb_alarm a i) = i_acknowledged_at i"
  "i_acknowledged_by (absorb_alarm a i) = i_acknowledged_by i"
  by (auto simp: absorb_alarm_def Let_def split: option.splits)

lemma absorb_alarm_anchor:
  "i_last_alarm_at (absorb_alarm a i) =
     Some (case i_last_alarm_at i of None \<Rightarrow> alarm_activity_at a
           | Some t \<Rightarrow> max t (alarm_activity_at a))"
  by (auto simp: absorb_alarm_def Let_def max_def split: option.splits)

lemma absorb_alarm_rank:
  "severity_rank (i_severity (absorb_alarm a i)) =
     max (severity_rank (i_severity i)) (severity_rank (Some (a_severity a)))"
  by (auto simp: absorb_alarm_def Let_def max_def split: option.splits)

lemma absorb_alarm_priority:
  "i_priority (absorb_alarm a i) =
     (if severity_rank (i_severity i) < severity_rank (Some (a_severity a))
      then severity_to_priority (Some (a_severity a)) else i_priority i)"
  "i_severity (absorb_alarm a i) =
     (if severity_rank (i_severity i) < severity_rank (Some (a_severity a))
      then Some (a_severity a) else i_severity i)"
  by (auto simp: absorb_alarm_def Let_def split: option.splits)

lemma absorb_alarm_evolves: "incident_evolves i (absorb_alarm a i)"
  unfolding incident_evolves_def absorb_alarm_anchor absorb_alarm_rank
  by (auto simp: absorb_alarm_priority split: option.splits)

lemma incident_wf_absorb: "incident_wf i \<Longrightarrow> incident_wf (absorb_alarm a i)"
  by (simp add: incident_wf_def)

section \<open>Linking and attaching\<close>

definition link_row :: "ctx \<Rightarrow> uuid \<Rightarrow> uuid \<Rightarrow> world \<Rightarrow> incident_alarm" where
  "link_row c k n w =
     \<lparr>l_id = c_uuid4 c (w_uuids w), l_incident_id = k, l_alarm_id = n,
      l_created_at = c_clock c (w_ticks w)\<rparr>"

lemma link_eq:
  "link c k n w =
     (let w2 = w\<lparr>w_uuids := Suc (w_uuids w), w_ticks := Suc (w_ticks w)\<rparr> in
      if (k, n) \<in> link_pair ` set (w_links w) then Inr (None, w2)
      else if c_uuid4 c (w_uuids w) \<in> l_id ` set (w_links w) \<or> k \<notin> i_id ` set (w_incidents w) \<or>
        n \<notin> a_id ` set (w_alarms w) then Inl IntegrityError
      else Inr (Some (link_row c k n w), w2\<lparr>w_links := w_links w @ [link_row c k n w]\<rparr>))"
  by (simp add: link_def uuid4_def utc_now_def Let_def link_row_def link_pair_def [abs_def])

lemma link_Inr:
  assumes "link c k n w = Inr (r, w')"
  obtains (present) "r = None" "(k, n) \<in> link_pair ` set (w_links w)" "w_links w' = w_links w"
      "w_incidents w' = w_incidents w" "w_audit w' = w_audit w" "w_alarms w' = w_alarms w"
      "workflow_tables w' = workflow_tables w"
  | (added) l where "r = Some l" "(k, n) \<notin> link_pair ` set (w_links w)" "link_pair l = (k, n)"
      "w_links w' = w_links w @ [l]" "k \<in> i_id ` set (w_incidents w)"
      "n \<in> a_id ` set (w_alarms w)"
      "w_incidents w' = w_incidents w" "w_audit w' = w_audit w" "w_alarms w' = w_alarms w"
      "workflow_tables w' = workflow_tables w"
proof (cases "(k, n) \<in> link_pair ` set (w_links w)")
  case True
  with assms show thesis by (intro present) (auto simp: link_eq Let_def workflow_tables_def)
next
  case False
  from assms False show thesis
    by (intro added [of "link_row c k n w"])
       (auto simp: link_eq Let_def workflow_tables_def link_pair_def link_row_def split: if_splits)
qed

lemma attach_Inr:
  assumes "attach_alarm_to_incident c i a actor w = Inr ((attached, i'), w')"
  obtains ls es where
    "i_device_id i = None \<or> i_device_id i = Some (a_device_id a)" "i' = absorb_alarm a i"
    "w_incidents w' = update_rows i_id (i_id i) (absorb_alarm a) (w_incidents w)"
    "w_links w' = w_links w @ ls" "w_audit w' = w_audit w @ es"
    "attached \<longleftrightarrow> (i_id i, a_id a) \<notin> link_pair ` set (w_links w)"
    "map link_pair ls = (if attached then [(i_id i, a_id a)] else [])"
    "map ae_action es = (if attached then [''INCIDENT_ALARM_ATTACHED''] else [])"
    "\<forall>e \<in> set es. ae_resource e = i_id i"
    "attached \<longrightarrow> i_id i \<in> i_id ` set (w_incidents w)"
    "w_alarms w' = w_alarms w" "workflow_tables w' = workflow_tables w"
proof -
  from assms have dev: "i_device_id i = None \<or> i_device_id i = Some (a_device_id a)"
    by (auto simp: attach_alarm_to_incident_def split: if_splits)
  with assms obtain r w1 where lk: "link c (i_id i) (a_id a) w = Inr (r, w1)"
    and rest: "(let w2 = set_incident (i_id i) (absorb_alarm a) w1
         in if r = None then Inr ((False, absorb_alarm a i), w2)
            else Inr ((True, absorb_alarm a i),
              audit_add c (entry ''INCIDENT_ALARM_ATTACHED'' (i_id i) ''SUCCESS''
                [(''alarm_id'', JStr (a_id a)), (''rule_id'', JStr (a_rule_id a)),
                 (''severity'', JStr (a_severity a))] (Some actor)) w2)) = (Inr ((attached, i'), w') :: app_error + _)"
    by (auto simp: attach_alarm_to_incident_def bindE_Inr_iff)
  from lk show thesis
  proof (cases rule: link_Inr)
    case present
    with rest dev show thesis
      by (intro that [of "[]" "[]"]) (auto simp: Let_def set_incident_def workflow_tables_def)
  next
    case (added l)
    with rest dev show thesis
      by (intro that [of "[l]" "[audit_event_of c (entry ''INCIDENT_ALARM_ATTACHED'' (i_id i) ''SUCCESS''
                [(''alarm_id'', JStr (a_id a)), (''rule_id'', JStr (a_rule_id a)),
                 (''severity'', JStr (a_severity a))] (Some actor)) (c_uuid4 c (w_uuids w1)) (c_clock c (w_ticks w1))]"])
         (auto simp: Let_def set_incident_def workflow_tables_def audit_add_audit
           audit_event_of_def entry_def)
  qed
qed

lemma incident_inv_attach:
  assumes inv: "incident_inv w" and run: "attach_alarm_to_incident c i a actor w = Inr ((attached, i'), w')"
  shows "incident_inv w'"
  using run
proof (rule attach_Inr)
  fix ls es
  assume rows: "w_incidents w' = update_rows i_id (i_id i) (absorb_alarm a) (w_incidents w)"
    and links: "w_links w' = w_links w @ ls"
    and new: "attached \<longleftrightarrow> (i_id i, a_id a) \<notin> link_pair ` set (w_links w)"
    and ls: "map link_pair ls = (if attached then [(i_id i, a_id a)] else [])"
    and ex: "attached \<longrightarrow> i_id i \<in> i_id ` set (w_incidents w)"
  have "incident_inv (w\<lparr>w_incidents := w_incidents w'\<rparr>)"
    by (rule incident_inv_update [OF inv, of "absorb_alarm a" "i_id i"])
       (simp_all add: rows incident_wf_absorb)
  moreover have "distinct (map link_pair (w_links w'))"
    using inv new ls by (auto simp: incident_inv_def links split: if_splits)
  moreover have "l_incident_id ` set ls \<subseteq> i_id ` set (w_incidents w)"
  proof
    fix x assume "x \<in> l_incident_id ` set ls"
    then obtain l where "l \<in> set ls" "x = l_incident_id l" by blast
    then have "(x, l_alarm_id l) \<in> set (map link_pair ls)" by (auto simp: link_pair_def)
    then show "x \<in> i_id ` set (w_incidents w)" using ls ex by (auto split: if_splits)
  qed
  moreover have "i_id ` set (w_incidents w') = i_id ` set (w_incidents w)"
    unfolding rows set_map [symmetric] by (simp add: map_key_update_rows)
  ultimately show "incident_inv w'"
    by (auto simp: incident_inv_def links)
qed

section \<open>Opening an incident\<close>

lemma create_incident_for_Inr:
  assumes "create_incident_for c a actor w = Inr (i, w')"
  obtains e where "w_incidents w' = w_incidents w @ [i]" "i_id i \<notin> i_id ` set (w_incidents w)"
    "w_links w' = w_links w" "w_alarms w' = w_alarms w" "workflow_tables w' = workflow_tables w"
    "w_audit w' = w_audit w @ [e]" "ae_action e = ''INCIDENT_CREATED''" "ae_resource e = i_id i"
    "i_device_id i = Some (a_device_id a)" "i_status i = ''OPEN''" "i_severity i = Some (a_severity a)"
    "i_priority i = severity_to_priority (Some (a_severity a))"
    "i_last_alarm_at i = Some (alarm_activity_at a)" "incident_wf i"
  using assms
  by (auto simp: create_incident_for_def uuid4_def utc_now_def Let_def incident_insert_def
      workflow_tables_def audit_add_audit audit_event_of_def entry_def incident_wf_def
      incident_statuses_def split: if_splits)

lemma incident_inv_append:
  assumes "incident_inv w" and "w_incidents w' = w_incidents w @ [i]" and "w_links w' = w_links w"
    and "i_id i \<notin> i_id ` set (w_incidents w)" and "incident_wf i"
  shows "incident_inv w'"
  using assms by (auto simp: incident_inv_def)

lemma incident_inv_create_for:
  assumes inv: "incident_inv w" and run: "create_incident_for c a actor w = Inr (i, w')"
  shows "incident_inv w'"
  using run by (rule create_incident_for_Inr) (rule incident_inv_append [OF inv])

lemma create_incident_Inr:
  assumes "create_incident c p w = Inr (i, w')"
  obtains (existing) "w' = w" "i \<in> set (w_incidents w)"
  | (opened) "w_incidents w' = w_incidents w @ [i]" "i_id i \<notin> i_id ` set (w_incidents w)"
      "w_links w' = w_links w" "w_alarms w' = w_alarms w" "workflow_tables w' = workflow_tables w"
      "w_audit w' = w_audit w" "incident_wf i" "i_status i = ''OPEN''"
      "i_device_id i = Some (ic_device_id p)"
proof -
  from assms obtain d where d: "find_row dg_id (ic_diagnosis_id p) (w_diagnoses w) = Some d"
    "dg_device_id d = Some (ic_device_id p)"
    by (auto simp: create_incident_def split: option.splits if_splits)
  show thesis
  proof (cases "dg_incident_id d")
    case (Some k)
    with assms d show thesis
      by (auto simp: create_incident_def split: option.splits if_splits
          dest: incident_get_row intro!: existing)
  next
    case None
    with assms d show thesis
      by (intro opened)
         (auto simp: create_incident_def uuid4_def utc_now_def Let_def incident_insert_def
          workflow_tables_def incident_wf_def incident_statuses_def bindE_Inr_iff split: if_splits)
  qed
qed

section \<open>Correlating an alarm\<close>

definition joins :: "alarm \<Rightarrow> int \<Rightarrow> world \<Rightarrow> incident option" where
  "joins a window w =
     (case find_open_for_device (a_device_id a) w of None \<Rightarrow> None
      | Some i \<Rightarrow> if within_window i a window then Some i else None)"

lemma correlate_alarm_joins:
  "correlate_alarm c a window actor w =
     (case joins a window w of
        Some i \<Rightarrow> bindE (attach_alarm_to_incident c i a actor w) (\<lambda>((_, i'), w1). Inr ((i', False), w1))
      | None \<Rightarrow> bindE (create_incident_for c a actor w) (\<lambda>(j, w1).
          bindE (attach_alarm_to_incident c j a actor w1) (\<lambda>((_, j'), w2). Inr ((j', True), w2))))"
  by (simp add: correlate_alarm_def joins_def split: option.splits)

lemma correlate_Inr:
  assumes "correlate_alarm c a window actor w = Inr ((i', created), w')"
  obtains (joined) i att where "joins a window w = Some i" "\<not> created"
      "attach_alarm_to_incident c i a actor w = Inr ((att, i'), w')"
  | (opened) j w1 att where "joins a window w = None" "created"
      "create_incident_for c a actor w = Inr (j, w1)"
      "attach_alarm_to_incident c j a actor w1 = Inr ((att, i'), w')"
proof (cases "joins a window w")
  case None
  with assms obtain j w1 att where "create_incident_for c a actor w = Inr (j, w1)"
    "attach_alarm_to_incident c j a actor w1 = Inr ((att, i'), w')" created
    by (auto simp: correlate_alarm_joins bindE_Inr_iff)
  with opened None show thesis by blast
next
  case (Some i)
  with assms obtain att where "attach_alarm_to_incident c i a actor w = Inr ((att, i'), w')" "\<not> created"
    by (auto simp: correlate_alarm_joins bindE_Inr_iff)
  with joined Some show thesis by blast
qed

lemma find_open_for_device_Some:
  assumes "find_open_for_device d w = Some i"
  shows "i \<in> set (w_incidents w)" and "i_device_id i = Some d" and "OPEN_INCIDENT_PREDICATE i"
    and "\<And>j. j \<in> set (w_incidents w) \<Longrightarrow> i_device_id j = Some d \<Longrightarrow> OPEN_INCIDENT_PREDICATE j \<Longrightarrow>
      INCIDENT_ACTIVITY_AT j \<le> INCIDENT_ACTIVITY_AT i"
proof -
  let ?rows = "filter (\<lambda>i. i_device_id i = Some d \<and> OPEN_INCIDENT_PREDICATE i) (w_incidents w)"
  from assms obtain rest where srt: "sort_by by_incident_activity_desc ?rows = i # rest"
    by (auto simp: find_open_for_device_def first_of_def split: list.splits)
  have "i \<in> set ?rows" using incident_activity_order.sort_by_first_member [OF srt] .
  then show "i \<in> set (w_incidents w)" "i_device_id i = Some d" "OPEN_INCIDENT_PREDICATE i" by auto
  fix j assume "j \<in> set (w_incidents w)" "i_device_id j = Some d" "OPEN_INCIDENT_PREDICATE j"
  then show "INCIDENT_ACTIVITY_AT j \<le> INCIDENT_ACTIVITY_AT i"
    using incident_activity_order.sort_by_first_least [OF srt, of j]
    by (auto simp: by_incident_activity_desc_def)
qed

lemma joins_Some:
  assumes "joins a window w = Some i"
  shows "i \<in> set (w_incidents w)" "i_device_id i = Some (a_device_id a)" "OPEN_INCIDENT_PREDICATE i"
    "within_window i a window"
  using assms find_open_for_device_Some [of "a_device_id a" w i]
  by (auto simp: joins_def split: option.splits if_splits)

lemma incident_inv_correlate:
  assumes inv: "incident_inv w" and run: "correlate_alarm c a window actor w = Inr ((i', created), w')"
  shows "incident_inv w'"
  using run
proof (cases rule: correlate_Inr)
  case (joined i att)
  then show ?thesis by (blast intro: incident_inv_attach [OF inv])
next
  case (opened j w1 att)
  then show ?thesis by (blast intro: incident_inv_attach incident_inv_create_for [OF inv])
qed

lemma attach_evolves:
  assumes inv: "incident_inv w" and run: "attach_alarm_to_incident c i a actor w = Inr ((att, i'), w')"
    and j: "j \<in> set (w_incidents w)"
  shows "\<exists>j' \<in> set (w_incidents w'). incident_evolves j j' \<and> i_status j' = i_status j"
proof -
  have rows: "w_incidents w' = update_rows i_id (i_id i) (absorb_alarm a) (w_incidents w)"
    using run by (rule attach_Inr)
  show ?thesis
  proof (cases "i_id j = i_id i")
    case True
    then have "absorb_alarm a j \<in> set (w_incidents w')" using j rows by (force simp: update_rows_def)
    then show ?thesis using absorb_alarm_evolves [of j a] by force
  next
    case False
    then have "j \<in> set (w_incidents w')" using j rows by (force simp: update_rows_def)
    then show ?thesis using incident_evolves_refl by blast
  qed
qed

lemma correlate_evolves:
  assumes inv: "incident_inv w" and run: "correlate_alarm c a window actor w = Inr ((i', created), w')"
    and j: "j \<in> set (w_incidents w)"
  shows "\<exists>j' \<in> set (w_incidents w'). incident_evolves j j' \<and> i_status j' = i_status j"
  using run
proof (cases rule: correlate_Inr)
  case (joined i att)
  then show ?thesis using attach_evolves [OF inv _ j] by blast
next
  case (opened k w1 att)
  have "j \<in> set (w_incidents w1)" using opened(3) by (rule create_incident_for_Inr) (use j in auto)
  then show ?thesis using attach_evolves [OF incident_inv_create_for [OF inv opened(3)] opened(4)] by blast
qed

text \<open>When the identifiers a request draws are new, linking and opening raise nothing.\<close>

definition fresh_uuids :: "ctx \<Rightarrow> world \<Rightarrow> bool" where
  "fresh_uuids c w \<longleftrightarrow>
     (\<forall>n \<ge> w_uuids w. c_uuid4 c n \<notin> i_id ` set (w_incidents w) \<and> c_uuid4 c n \<notin> l_id ` set (w_links w))"

lemma link_total:
  assumes "fresh_uuids c w" and "k \<in> i_id ` set (w_incidents w)" and "n \<in> a_id ` set (w_alarms w)"
  shows "\<exists>r w'. link c k n w = Inr (r, w')"
  using assms by (auto simp: link_eq Let_def fresh_uuids_def)

lemma attach_total:
  assumes fr: "fresh_uuids c w" and "i \<in> set (w_incidents w)" and "a \<in> set (w_alarms w)"
    and dev: "i_device_id i = Some (a_device_id a)"
  shows "\<exists>att w'. attach_alarm_to_incident c i a actor w = Inr ((att, absorb_alarm a i), w')"
proof -
  obtain r w1 where "link c (i_id i) (a_id a) w = Inr (r, w1)"
    using link_total [OF fr, of "i_id i" "a_id a"] assms(2,3) by blast
  then show ?thesis using dev by (auto simp: attach_alarm_to_incident_def Let_def)
qed

lemma create_incident_for_total:
  assumes "fresh_uuids c w" and "a_device_id a \<in> dev_device_id ` set (w_devices w)"
    and inj: "\<forall>m n. c_uuid4 c m = c_uuid4 c n \<longrightarrow> m = n"
  shows "\<exists>i w'. create_incident_for c a actor w = Inr (i, w') \<and> fresh_uuids c w'"
proof -
  have "c_uuid4 c n \<noteq> c_uuid4 c (w_uuids w)" if "n \<ge> Suc (Suc (w_uuids w))" for n
    using inj that by fastforce
  then show ?thesis using assms(1,2)
    by (auto simp: create_incident_for_def uuid4_def utc_now_def Let_def incident_insert_def
        fresh_uuids_def)
qed

end
