(* ===== verification/GraphLemmas.thy ===== *)
theory GraphLemmas
  imports Workflow IncidentLemmas
begin

text \<open>
  What a run of the agent graph does: it only appends agent runs to the database, it keeps the
  identity of the state it was given, and at every node the state holds what the node relies on, so
  that a run that completes was blocked or automatically allowed, and a run that is interrupted
  carries a policy decision that asks for approval.
\<close>

section \<open>Frame\<close>

definition agent_frame :: "world \<Rightarrow> world \<Rightarrow> bool" where
  "agent_frame w w' \<longleftrightarrow>
     w' = w\<lparr>w_agent_runs := w_agent_runs w', w_uuids := w_uuids w', w_ticks := w_ticks w'\<rparr>"

lemma agent_frame_refl: "agent_frame w w"
  by (simp add: agent_frame_def)

lemma agent_frame_trans: "agent_frame w v \<Longrightarrow> agent_frame v u \<Longrightarrow> agent_frame w u"
  by (cases w; cases v; cases u) (simp add: agent_frame_def)

lemma agent_frame_tables:
  assumes "agent_frame w w'"
  shows "workflow_tables w' = workflow_tables w" "w_incidents w' = w_incidents w"
    "w_links w' = w_links w" "w_alarms w' = w_alarms w" "w_audit w' = w_audit w"
    "w_runs w' = w_runs w" "w_orders w' = w_orders w" "w_plans w' = w_plans w"
    "w_approvals w' = w_approvals w" "w_checkpoints w' = w_checkpoints w"
    "w_diagnoses w' = w_diagnoses w"
  using assms by (cases w; cases w'; simp add: agent_frame_def workflow_tables_def)+

lemma agent_audit_frame: "agent_frame w (agent_audit c st agent err w)"
  by (cases w) (simp add: agent_frame_def agent_audit_def uuid4_def utc_now_def Let_def)

lemma agent_audit_length:
  "length (w_agent_runs (agent_audit c st agent err w)) = Suc (length (w_agent_runs w))"
  by (simp add: agent_audit_def uuid4_def utc_now_def Let_def)

lemma agent_node_frame:
  "agent_node c agent gen stage store st w = (r, w') \<Longrightarrow>
     agent_frame w w' \<and> length (w_agent_runs w') = Suc (length (w_agent_runs w))"
  by (auto simp: agent_node_def invoke_agent_def agent_audit_frame agent_audit_length split: sum.splits)

lemma with_retry_frame:
  assumes "\<And>v r v'. node v = (r, v') \<Longrightarrow>
      agent_frame v v' \<and> length (w_agent_runs v') = Suc (length (w_agent_runs v))"
    and "with_retry n node w = (r, w')"
  shows "agent_frame w w' \<and> length (w_agent_runs w') \<le> length (w_agent_runs w) + max 1 n"
  using assms(2)
proof (induction n arbitrary: w)
  case 0
  then show ?case using assms(1) by force
next
  case (Suc n)
  obtain r1 w1 where one: "node w = (r1, w1)" by (cases "node w")
  note f = assms(1) [OF one]
  show ?case
  proof (cases "with_retry (Suc n) node w = (r1, w1)")
    case True
    with Suc.prems f show ?thesis by auto
  next
    case False
    then obtain e where "r1 = Inl e" "n \<noteq> 0" "with_retry n node w1 = (r, w')"
      using Suc.prems one by (auto split: sum.splits if_splits)
    with Suc.IH [of w1] f show ?thesis by (auto intro: agent_frame_trans)
  qed
qed

lemma retried_agent_frame:
  "with_retry n (agent_node c agent gen stage store st) w = (r, w') \<Longrightarrow>
     agent_frame w w' \<and> length (w_agent_runs w') \<le> length (w_agent_runs w) + max 1 n"
  by (rule with_retry_frame [OF agent_node_frame])

lemma with_retry_Inr: "with_retry n node w = (Inr x, w') \<Longrightarrow> \<exists>v. node v = (Inr x, w')"
  by (induction n arbitrary: w) (auto split: sum.splits if_splits prod.splits)

section \<open>What a run keeps and what its nodes rely on\<close>

definition same_identity :: "workflow_state \<Rightarrow> workflow_state \<Rightarrow> bool" where
  "same_identity st st' \<longleftrightarrow>
     ws_workflow_run_id st' = ws_workflow_run_id st \<and> ws_incident_id st' = ws_incident_id st \<and>
     ws_diagnosis_id st' = ws_diagnosis_id st \<and> ws_device_id st' = ws_device_id st \<and>
     ws_diagnosis st' = ws_diagnosis st \<and> ws_knowledge_context st' = ws_knowledge_context st \<and>
     ws_plan_version st' = ws_plan_version st"

definition policy_applied :: "PolicyDecisionType \<Rightarrow> workflow_state \<Rightarrow> bool" where
  "policy_applied t st \<longleftrightarrow>
     (\<exists>plan review. ws_maintenance_plan st = Some plan \<and> ws_safety_review st = Some review \<and>
       (let d = decide plan review (valid_evidence_ids st) (ds_status (ws_diagnosis st))
              (ds_severity (ws_diagnosis st)) (kc_sufficiency (ws_knowledge_context st))
        in ws_policy_decision st = Some d \<and> pd_decision d = t))"

definition node_pre :: "graph_node \<Rightarrow> workflow_state \<Rightarrow> bool" where
  "node_pre node st \<longleftrightarrow>
     (case node of
        N_planning \<Rightarrow> ws_triage_result st \<noteq> None
      | N_safety \<Rightarrow> ws_triage_result st \<noteq> None \<and> ws_maintenance_plan st \<noteq> None
      | N_policy \<Rightarrow> ws_triage_result st \<noteq> None \<and> ws_maintenance_plan st \<noteq> None \<and>
          ws_safety_review st \<noteq> None
      | N_approval \<Rightarrow> policy_applied PD_REQUIRES_APPROVAL st
      | N_auto_allowed \<Rightarrow> policy_applied PD_AUTO_ALLOWED st
      | N_approved \<Rightarrow> False
      | N_rejected \<Rightarrow> False
      | N_END \<Rightarrow> ws_status st = WF_BLOCKED \<or>
          ws_status st = WF_AUTO_ALLOWED \<and> policy_applied PD_AUTO_ALLOWED st
      | _ \<Rightarrow> True)"

lemma at_stage_simps [simp]:
  "ws_status (at_stage s st) = s" "ws_current_stage (at_stage s st) = workflow_status_value s"
  "ws_workflow_run_id (at_stage s st) = ws_workflow_run_id st"
  "ws_incident_id (at_stage s st) = ws_incident_id st"
  "ws_diagnosis_id (at_stage s st) = ws_diagnosis_id st"
  "ws_device_id (at_stage s st) = ws_device_id st"
  "ws_diagnosis (at_stage s st) = ws_diagnosis st"
  "ws_knowledge_context (at_stage s st) = ws_knowledge_context st"
  "ws_plan_version (at_stage s st) = ws_plan_version st"
  "ws_triage_result (at_stage s st) = ws_triage_result st"
  "ws_maintenance_plan (at_stage s st) = ws_maintenance_plan st"
  "ws_safety_review (at_stage s st) = ws_safety_review st"
  "ws_policy_decision (at_stage s st) = ws_policy_decision st"
  "ws_work_order_id (at_stage s st) = ws_work_order_id st"
  "ws_errors (at_stage s st) = ws_errors st"
  "ws_attempt_count (at_stage s st) = ws_attempt_count st"
  by (simp_all add: at_stage_def)

lemma policy_applied_cong:
  "ws_maintenance_plan st' = ws_maintenance_plan st \<Longrightarrow> ws_safety_review st' = ws_safety_review st \<Longrightarrow>
   ws_policy_decision st' = ws_policy_decision st \<Longrightarrow> ws_diagnosis st' = ws_diagnosis st \<Longrightarrow>
   ws_knowledge_context st' = ws_knowledge_context st \<Longrightarrow> policy_applied t st' = policy_applied t st"
  by (simp add: policy_applied_def valid_evidence_ids_def)

lemma policy_applied_at_stage [simp]: "policy_applied t (at_stage s st) = policy_applied t st"
  by (rule policy_applied_cong) simp_all

lemma same_identity_refl: "same_identity st st"
  by (simp add: same_identity_def)

lemma same_identity_trans: "same_identity a b \<Longrightarrow> same_identity b d \<Longrightarrow> same_identity a d"
  by (simp add: same_identity_def)

lemma agent_node_Inr:
  assumes "with_retry n (agent_node c agent gen stage store st) w = (Inr st', w')"
  shows "\<exists>out. st' = at_stage stage (store out (st\<lparr>ws_attempt_count := ws_attempt_count st + 1\<rparr>))"
proof -
  obtain v where v: "agent_node c agent gen stage store st v = (Inr st', w')"
    using with_retry_Inr [OF assms] by blast
  obtain r v' where iv: "invoke_agent c agent gen st v = (r, v')" by (cases "invoke_agent c agent gen st v")
  show ?thesis using v iv by (cases r) (auto simp: agent_node_def)
qed

lemma policy_node_Inr:
  assumes "policy_node st = Inr st'"
  obtains t where "policy_applied t st'" "map_option pd_decision (ws_policy_decision st') = Some t"
    "same_identity st st'"
proof -
  from assms obtain plan review where
    pr: "ws_maintenance_plan st = Some plan" "ws_safety_review st = Some review"
    by (auto simp: policy_node_def split: option.splits)
  let ?d = "decide plan review (valid_evidence_ids st) (ds_status (ws_diagnosis st))
              (ds_severity (ws_diagnosis st)) (kc_sufficiency (ws_knowledge_context st))"
  have st': "st' = at_stage (status_of_decision (pd_decision ?d)) (st\<lparr>ws_policy_decision := Some ?d\<rparr>)"
    using assms pr by (simp add: policy_node_def Let_def split: option.splits)
  have "policy_applied (pd_decision ?d) st'"
    unfolding policy_applied_def valid_evidence_ids_def st' Let_def
    using pr by (simp add: valid_evidence_ids_def)
  moreover have "same_identity st st'" by (simp add: same_identity_def st')
  ultimately show thesis using that [of "pd_decision ?d"] by (simp add: st')
qed

lemma agent_node_keeps:
  assumes run: "with_retry n (agent_node c agent gen stage store st) w = (Inr st', w')"
    and store: "\<And>out s. same_identity s (store out s)"
  shows "same_identity st st'"
proof -
  obtain out where st': "st' = at_stage stage (store out (st\<lparr>ws_attempt_count := ws_attempt_count st + 1\<rparr>))"
    using agent_node_Inr [OF run] by blast
  have "same_identity st (st\<lparr>ws_attempt_count := ws_attempt_count st + 1\<rparr>)" by (simp add: same_identity_def)
  also have "same_identity \<dots> (store out (st\<lparr>ws_attempt_count := ws_attempt_count st + 1\<rparr>))" by (rule store)
  finally (same_identity_trans) show ?thesis by (simp add: same_identity_def st')
qed

lemma run_node_step:
  assumes pre: "node_pre node st" and live: "node \<noteq> N_END" "node \<noteq> N_approval"
    and run: "run_node c env node st w = (Inr st', w')"
  shows "node_pre (next_node node st') st' \<and> same_identity st st'"
proof (cases node)
  case N_triage
  then have r: "with_retry (e_max_attempts env) (triage_node c env st) w = (Inr st', w')" using run by simp
  show ?thesis
    using agent_node_Inr [OF r [unfolded triage_node_def]] agent_node_keeps [OF r [unfolded triage_node_def]] N_triage
    by (auto simp: node_pre_def same_identity_def)
next
  case N_planning
  then have r: "with_retry (e_max_attempts env) (planning_node c env st) w = (Inr st', w')" using run by simp
  show ?thesis
    using agent_node_Inr [OF r [unfolded planning_node_def]] agent_node_keeps [OF r [unfolded planning_node_def]]
      pre N_planning
    by (auto simp: node_pre_def same_identity_def)
next
  case N_safety
  then have r: "with_retry (e_max_attempts env) (safety_node c env st) w = (Inr st', w')" using run by simp
  show ?thesis
    using agent_node_Inr [OF r [unfolded safety_node_def]] agent_node_keeps [OF r [unfolded safety_node_def]]
      pre N_safety
    by (auto simp: node_pre_def same_identity_def)
next
  case N_policy
  then have "policy_node st = Inr st'" using run by simp
  then obtain t where "policy_applied t st'" "map_option pd_decision (ws_policy_decision st') = Some t"
    "same_identity st st'" by (rule policy_node_Inr)
  with N_policy show ?thesis by (cases t) (auto simp: node_pre_def route_policy_def)
next
  case N_precondition_gate
  then show ?thesis using run by (auto simp: node_pre_def route_precondition_def same_identity_refl)
qed (use assms in \<open>auto simp: node_pre_def same_identity_def precondition_block_def\<close>)

section \<open>Runs\<close>

lemma run_node_frame:
  assumes "run_node c env node st w = (r, w')"
  shows "agent_frame w w' \<and> length (w_agent_runs w') \<le> length (w_agent_runs w) +
    (if node \<in> {N_triage, N_planning, N_safety} then max 1 (e_max_attempts env) else 0)"
proof (cases "node \<in> {N_triage, N_planning, N_safety}")
  case True
  then show ?thesis
    using assms
    by (auto simp: triage_node_def planning_node_def safety_node_def dest!: retried_agent_frame)
next
  case False
  then show ?thesis using assms by (cases node) (auto simp: agent_frame_refl)
qed

fun agent_calls_left :: "graph_node \<Rightarrow> nat" where
  "agent_calls_left N_precondition_gate = 3"
| "agent_calls_left N_triage = 3"
| "agent_calls_left N_planning = 2"
| "agent_calls_left N_safety = 1"
| "agent_calls_left _ = 0"

lemma next_node_calls:
  "agent_calls_left (next_node node st) + (if node \<in> {N_triage, N_planning, N_safety} then 1 else 0)
     \<le> agent_calls_left node"
  by (cases node)
     (auto simp: route_precondition_def route_policy_def split: option.splits PolicyDecisionType.splits)

lemma graph_loop_frame:
  "graph_loop c env node st w = (g, w') \<Longrightarrow>
     agent_frame w w' \<and> length (w_agent_runs w') \<le>
       length (w_agent_runs w) + agent_calls_left node * max 1 (e_max_attempts env)"
proof (induction c env node st w arbitrary: g w' rule: graph_loop.induct)
  case (1 c env node st w)
  let ?m = "max 1 (e_max_attempts env)"
  show ?case
  proof (cases "node = N_END \<or> node = N_approval")
    case True
    then show ?thesis using 1(2) by (auto simp: graph_loop.simps [of _ _ node] agent_frame_refl)
  next
    case False
    obtain r v where rn: "run_node c env node st w = (r, v)" by (cases "run_node c env node st w")
    let ?used = "if node \<in> {N_triage, N_planning, N_safety} then 1 else 0 :: nat"
    have v: "agent_frame w v" "length (w_agent_runs v) \<le> length (w_agent_runs w) + ?used * ?m"
      using run_node_frame [OF rn] by (auto split: if_splits)
    show ?thesis
    proof (cases r)
      case (Inl e)
      have "?used * ?m \<le> agent_calls_left node * ?m"
        using next_node_calls [of node st] by (intro mult_le_mono1) linarith
      then have "length (w_agent_runs v) \<le> length (w_agent_runs w) + agent_calls_left node * ?m"
        using v(2) by (rule le_trans [OF _ add_left_mono, rotated])
      moreover have "v = w'" using 1(2) False rn Inl by (simp add: graph_loop.simps [of _ _ node])
      ultimately show ?thesis using v(1) by simp
    next
      case (Inr st')
      then have rest: "graph_loop c env (next_node node st') st' v = (g, w')"
        using 1(2) False rn by (simp add: graph_loop.simps [of _ _ node])
      have ih: "agent_frame v w'" "length (w_agent_runs w') \<le>
          length (w_agent_runs v) + agent_calls_left (next_node node st') * ?m"
        using 1(1) [of r v st'] rest False rn Inr by auto
      have "agent_calls_left (next_node node st') * ?m + ?used * ?m \<le> agent_calls_left node * ?m"
        using mult_le_mono1 [OF next_node_calls [of node st'], of ?m] by (simp add: add_mult_distrib)
      with ih v show ?thesis by (auto intro: agent_frame_trans)
    qed
  qed
qed

lemma graph_loop_post:
  "graph_loop c env node st w = (g, w') \<Longrightarrow> node_pre node st \<Longrightarrow>
     (case g of Raised _ \<Rightarrow> True
      | Interrupted st' \<Rightarrow> policy_applied PD_REQUIRES_APPROVAL st' \<and> same_identity st st'
      | Completed st' \<Rightarrow> node_pre N_END st' \<and> same_identity st st')"
proof (induction c env node st w arbitrary: g w' rule: graph_loop.induct)
  case (1 c env node st w)
  show ?case
  proof (cases "node = N_END \<or> node = N_approval")
    case True
    then show ?thesis using 1(2,3)
      by (auto simp: graph_loop.simps [of _ _ node] same_identity_refl node_pre_def)
  next
    case False
    obtain r v where rn: "run_node c env node st w = (r, v)" by (cases "run_node c env node st w")
    show ?thesis
    proof (cases r)
      case (Inl e)
      with 1(2) False rn show ?thesis by (auto simp: graph_loop.simps [of _ _ node])
    next
      case (Inr st')
      have st': "node_pre (next_node node st') st'" "same_identity st st'"
        using run_node_step [OF 1(3)] False rn Inr by auto
      have rest: "graph_loop c env (next_node node st') st' v = (g, w')"
        using 1(2) False rn Inr by (simp add: graph_loop.simps [of _ _ node])
      have "case g of Raised _ \<Rightarrow> True
          | Interrupted st'' \<Rightarrow> policy_applied PD_REQUIRES_APPROVAL st'' \<and> same_identity st' st''
          | Completed st'' \<Rightarrow> node_pre N_END st'' \<and> same_identity st' st''"
        using 1(1) [of r v st'] rest st'(1) False rn Inr by auto
      then show ?thesis using same_identity_trans [OF st'(2)] by (auto split: graph_result.splits)
    qed
  qed
qed

lemma run_graph_post:
  assumes "run_graph c env st w = (g, w')"
  shows "case g of Raised _ \<Rightarrow> True
      | Interrupted st' \<Rightarrow> policy_applied PD_REQUIRES_APPROVAL st' \<and> same_identity st st'
      | Completed st' \<Rightarrow> node_pre N_END st' \<and> same_identity st st'"
  using graph_loop_post [OF assms [unfolded run_graph_def]] by (simp add: node_pre_def)

text \<open>A resumed thread ends at once, approved or rejected as the decision says.\<close>

lemma resume_graph_result:
  "resume_graph c env st snap w =
     (Completed (at_stage (if as_status snap = ''APPROVED'' then WF_APPROVED else WF_REJECTED)
        (st\<lparr>ws_approval := Some snap\<rparr>)), w)"
  by (simp add: resume_graph_def approval_node_def graph_loop.simps)

end
