(* ===== verification/WorkflowLemmas.thy ===== *)
theory WorkflowLemmas
  imports GraphLemmas
begin

text \<open>
  The invariant of the workflow tables, with the runs whose graph is still executing, and that every
  workflow request keeps it. An operation touches the rows of one run; the rows of the others carry
  over.
\<close>

section \<open>Invariant\<close>

definition runs_ok :: "world \<Rightarrow> bool" where
  "runs_ok w \<longleftrightarrow> distinct (map wr_id (w_runs w)) \<and> distinct (map wr_idempotency_key (w_runs w))"

definition plans_ok :: "wf_env \<Rightarrow> world \<Rightarrow> bool" where
  "plans_ok env w \<longleftrightarrow>
     distinct (map p_id (w_plans w)) \<and> distinct (map p_workflow_run_id (w_plans w)) \<and>
     p_workflow_run_id ` set (w_plans w) \<subseteq> wr_id ` set (w_runs w) \<and>
     (\<forall>p \<in> set (w_plans w). p_plan_hash p = e_plan_hash env (p_payload p))"

text \<open>
  An approval belongs to a run and to the unchanged plan of that run. While it is pending the run
  waits or was cancelled and its graph thread waits with that plan; once decided the run is where the
  decision put it.
\<close>

definition approval_state :: "world \<Rightarrow> approval \<Rightarrow> workflow_run \<Rightarrow> maintenance_plan \<Rightarrow> bool" where
  "approval_state w a r p \<longleftrightarrow>
     (if ap_decision a = ''PENDING''
      then wr_status r \<in> {WF_WAITING_APPROVAL, WF_CANCELLED} \<and>
        (\<exists>st. map_of (w_checkpoints w) (wr_id r) = Some (AtApproval st) \<and>
          ws_workflow_run_id st = wr_id r \<and> ws_maintenance_plan st = Some (p_payload p) \<and>
          policy_applied PD_REQUIRES_APPROVAL st)
      else if ap_decision a = ''APPROVED'' then wr_status r = WF_WORK_ORDER_CREATED
      else ap_decision a = ''REJECTED'' \<and> wr_status r = WF_REJECTED)"

definition approval_ok :: "world \<Rightarrow> approval \<Rightarrow> bool" where
  "approval_ok w a \<longleftrightarrow>
     (\<exists>r p. ap_workflow_run_id a = Some (wr_id r) \<and> r \<in> set (w_runs w) \<and> p \<in> set (w_plans w) \<and>
       p_id p = ap_maintenance_plan_id a \<and> p_workflow_run_id p = wr_id r \<and>
       p_version p = ap_plan_version a \<and> p_plan_hash p = ap_plan_hash a \<and>
       approval_state w a r p)"

definition approvals_ok :: "world \<Rightarrow> bool" where
  "approvals_ok w \<longleftrightarrow>
     distinct (map ap_id (w_approvals w)) \<and> distinct (map ap_workflow_run_id (w_approvals w)) \<and>
     (\<forall>a \<in> set (w_approvals w). approval_ok w a)"

text \<open>
  A work order belongs to a completed run, carries that run's plan, authorises nothing by itself, and
  was let through either by the policy or by an approved approval of that very plan.
\<close>

definition order_ok :: "world \<Rightarrow> work_order \<Rightarrow> bool" where
  "order_ok w wo \<longleftrightarrow>
     \<not> wo_execution_authorized wo \<and> wo_status wo = ''DRAFT'' \<and>
     (\<exists>r p. r \<in> set (w_runs w) \<and> wr_id r = wo_workflow_run_id wo \<and>
       wr_status r = WF_WORK_ORDER_CREATED \<and> p \<in> set (w_plans w) \<and>
       p_id p = wo_maintenance_plan_id wo \<and> p_workflow_run_id p = wo_workflow_run_id wo \<and>
       p_payload p = wo_plan wo \<and>
       (case wo_approval_id wo of
          None \<Rightarrow> policy_applied PD_AUTO_ALLOWED (wr_state r) \<and>
            ws_maintenance_plan (wr_state r) = Some (wo_plan wo)
        | Some x \<Rightarrow> (\<exists>a \<in> set (w_approvals w). ap_id a = x \<and>
            ap_workflow_run_id a = Some (wo_workflow_run_id wo) \<and> ap_decision a = ''APPROVED'' \<and>
            ap_maintenance_plan_id a = p_id p \<and> ap_plan_hash a = p_plan_hash p)))"

definition orders_ok :: "world \<Rightarrow> bool" where
  "orders_ok w \<longleftrightarrow>
     distinct (map wo_workflow_run_id (w_orders w)) \<and> (\<forall>wo \<in> set (w_orders w). order_ok w wo)"

definition no_rows_of :: "uuid \<Rightarrow> world \<Rightarrow> bool" where
  "no_rows_of k w \<longleftrightarrow>
     k \<notin> p_workflow_run_id ` set (w_plans w) \<and> Some k \<notin> ap_workflow_run_id ` set (w_approvals w) \<and>
     k \<notin> wo_workflow_run_id ` set (w_orders w)"

definition flight_ok :: "world \<Rightarrow> workflow_state list \<Rightarrow> bool" where
  "flight_ok w F \<longleftrightarrow>
     distinct (map ws_workflow_run_id F) \<and>
     (\<forall>st \<in> set F. ws_workflow_run_id st \<in> wr_id ` set (w_runs w) \<and> no_rows_of (ws_workflow_run_id st) w)"

definition wf_inv :: "wf_env \<Rightarrow> world \<Rightarrow> workflow_state list \<Rightarrow> bool" where
  "wf_inv env w F \<longleftrightarrow>
     runs_ok w \<and> plans_ok env w \<and> approvals_ok w \<and> orders_ok w \<and> flight_ok w F"

section \<open>Rows of the other runs\<close>

definition touches_only :: "uuid \<Rightarrow> world \<Rightarrow> world \<Rightarrow> bool" where
  "touches_only k w w' \<longleftrightarrow>
     (\<forall>r \<in> set (w_runs w). wr_id r \<noteq> k \<longrightarrow> r \<in> set (w_runs w')) \<and>
     set (w_plans w) \<subseteq> set (w_plans w') \<and>
     (\<forall>a \<in> set (w_approvals w). ap_workflow_run_id a \<noteq> Some k \<longrightarrow> a \<in> set (w_approvals w')) \<and>
     (\<forall>a \<in> set (w_approvals w'). ap_workflow_run_id a \<noteq> Some k \<longrightarrow> a \<in> set (w_approvals w)) \<and>
     (\<forall>wo \<in> set (w_orders w'). wo_workflow_run_id wo \<noteq> k \<longrightarrow> wo \<in> set (w_orders w)) \<and>
     (\<forall>j. j \<noteq> k \<longrightarrow> map_of (w_checkpoints w') j = map_of (w_checkpoints w) j)"

lemma approval_state_cong:
  "map_of (w_checkpoints w') (wr_id r) = map_of (w_checkpoints w) (wr_id r) \<Longrightarrow>
     approval_state w' a r p = approval_state w a r p"
  by (simp only: approval_state_def)

lemma approval_ok_other:
  assumes "approval_ok w a" and "ap_workflow_run_id a \<noteq> Some k" and "touches_only k w w'"
  shows "approval_ok w' a"
proof -
  from assms(1) obtain r p where rp: "ap_workflow_run_id a = Some (wr_id r)" "r \<in> set (w_runs w)"
    "p \<in> set (w_plans w)" "p_id p = ap_maintenance_plan_id a" "p_workflow_run_id p = wr_id r"
    "p_version p = ap_plan_version a" "p_plan_hash p = ap_plan_hash a"
    "approval_state w a r p"
    unfolding approval_ok_def by blast
  with assms(2,3) have "wr_id r \<noteq> k" "r \<in> set (w_runs w')" "p \<in> set (w_plans w')"
    "map_of (w_checkpoints w') (wr_id r) = map_of (w_checkpoints w) (wr_id r)"
    by (auto simp: touches_only_def)
  with rp show ?thesis unfolding approval_ok_def
    by (intro exI [of _ r] exI [of _ p]) (simp add: approval_state_cong [of w' r w])
qed

lemma order_ok_other:
  assumes "order_ok w wo" and "wo_workflow_run_id wo \<noteq> k" and "touches_only k w w'"
  shows "order_ok w' wo"
proof -
  have runs: "r \<in> set (w_runs w')" if "r \<in> set (w_runs w)" "wr_id r = wo_workflow_run_id wo" for r
    using that assms(2,3) by (auto simp: touches_only_def)
  have plans: "p \<in> set (w_plans w')" if "p \<in> set (w_plans w)" for p
    using that assms(3) by (auto simp: touches_only_def)
  have approvals: "a \<in> set (w_approvals w')"
    if "a \<in> set (w_approvals w)" "ap_workflow_run_id a = Some (wo_workflow_run_id wo)" for a
    using that assms(2,3) by (auto simp: touches_only_def)
  show ?thesis
    using assms(1) runs plans approvals unfolding order_ok_def
    by (cases "wo_approval_id wo") fastforce+
qed

lemma wf_inv_touch:
  assumes inv: "wf_inv env w F" and touch: "touches_only k w w'"
    and "runs_ok w'" and "plans_ok env w'"
    and "distinct (map ap_id (w_approvals w'))" and "distinct (map ap_workflow_run_id (w_approvals w'))"
    and "distinct (map wo_workflow_run_id (w_orders w'))"
    and approvals: "\<And>a. a \<in> set (w_approvals w') \<Longrightarrow> ap_workflow_run_id a = Some k \<Longrightarrow> approval_ok w' a"
    and orders: "\<And>wo. wo \<in> set (w_orders w') \<Longrightarrow> wo_workflow_run_id wo = k \<Longrightarrow> order_ok w' wo"
    and "flight_ok w' F'"
  shows "wf_inv env w' F'"
proof -
  have "approval_ok w' a" if "a \<in> set (w_approvals w')" for a
  proof (cases "ap_workflow_run_id a = Some k")
    case False
    then have "a \<in> set (w_approvals w)" using that touch by (auto simp: touches_only_def)
    then show ?thesis using False inv touch
      by (auto simp: wf_inv_def approvals_ok_def intro: approval_ok_other)
  qed (use that approvals in blast)
  moreover have "order_ok w' wo" if "wo \<in> set (w_orders w')" for wo
  proof (cases "wo_workflow_run_id wo = k")
    case False
    then have "wo \<in> set (w_orders w)" using that touch by (auto simp: touches_only_def)
    then show ?thesis using False inv touch
      by (auto simp: wf_inv_def orders_ok_def intro: order_ok_other)
  qed (use that orders in blast)
  ultimately show ?thesis using assms by (simp add: wf_inv_def approvals_ok_def orders_ok_def)
qed

lemma wf_inv_cong:
  assumes "workflow_tables w' = workflow_tables w"
  shows "wf_inv env w' F = wf_inv env w F"
proof -
  have eqs: "w_runs w' = w_runs w" "w_plans w' = w_plans w" "w_approvals w' = w_approvals w"
    "w_orders w' = w_orders w" "w_checkpoints w' = w_checkpoints w"
    using assms by (simp_all add: workflow_tables_def)
  show ?thesis
    unfolding wf_inv_def runs_ok_def plans_ok_def approvals_ok_def orders_ok_def flight_ok_def
      approval_ok_def approval_state_def order_ok_def no_rows_of_def eqs ..
qed

lemma run_unique:
  "runs_ok w \<Longrightarrow> r \<in> set (w_runs w) \<Longrightarrow> s \<in> set (w_runs w) \<Longrightarrow> wr_id r = wr_id s \<Longrightarrow> r = s"
  by (auto simp: runs_ok_def dest: distinct_map_eq)

lemma run_get_row: "run_get k w = Some r \<Longrightarrow> r \<in> set (w_runs w) \<and> wr_id r = k"
  unfolding run_get_def by (rule find_row_Some)

lemma run_get_member: "runs_ok w \<Longrightarrow> r \<in> set (w_runs w) \<Longrightarrow> run_get (wr_id r) w = Some r"
  by (simp add: runs_ok_def run_get_def find_row_unique)

lemma set_run_ok:
  assumes "runs_ok w" and "\<And>r. wr_id (f r) = wr_id r \<and> wr_idempotency_key (f r) = wr_idempotency_key r"
  shows "runs_ok (w\<lparr>w_runs := update_rows wr_id k f (w_runs w)\<rparr>)"
  using assms by (simp add: runs_ok_def map_update_rows_same)

lemma map_of_filter_key: "j \<noteq> k \<Longrightarrow> map_of (filter (\<lambda>p. fst p \<noteq> k) xs) j = map_of xs j"
  by (induction xs) auto

lemma order_run_status:
  "wf_inv env w F \<Longrightarrow> wo \<in> set (w_orders w) \<Longrightarrow> r \<in> set (w_runs w) \<Longrightarrow>
     wo_workflow_run_id wo = wr_id r \<Longrightarrow> wr_status r = WF_WORK_ORDER_CREATED"
proof -
  assume inv: "wf_inv env w F" and wo: "wo \<in> set (w_orders w)" and r: "r \<in> set (w_runs w)"
    and id: "wo_workflow_run_id wo = wr_id r"
  from inv wo obtain s where "s \<in> set (w_runs w)" "wr_id s = wr_id r" "wr_status s = WF_WORK_ORDER_CREATED"
    using id by (auto simp: wf_inv_def orders_ok_def order_ok_def)
  moreover from inv have "runs_ok w" by (simp add: wf_inv_def)
  ultimately show "wr_status r = WF_WORK_ORDER_CREATED" using run_unique r by blast
qed

lemma no_order_unless_created:
  assumes "wf_inv env w F" and "r \<in> set (w_runs w)" and "wr_status r \<noteq> WF_WORK_ORDER_CREATED"
  shows "wr_id r \<notin> wo_workflow_run_id ` set (w_orders w)"
proof
  assume "wr_id r \<in> wo_workflow_run_id ` set (w_orders w)"
  then obtain wo where "wo \<in> set (w_orders w)" "wo_workflow_run_id wo = wr_id r" by force
  from order_run_status [OF assms(1) this(1) assms(2) this(2)] assms(3) show False by simp
qed

section \<open>Starting a run\<close>

lemma set_incident_status_rows [simp]:
  "w_incidents (set_incident_status k s w) =
     update_rows i_id k (\<lambda>i. i\<lparr>i_status := s\<rparr>) (w_incidents w)"
  "workflow_tables (set_incident_status k s w) = workflow_tables w"
  "w_links (set_incident_status k s w) = w_links w" "w_alarms (set_incident_status k s w) = w_alarms w"
  "w_runs (set_incident_status k s w) = w_runs w" "w_plans (set_incident_status k s w) = w_plans w"
  "w_approvals (set_incident_status k s w) = w_approvals w"
  "w_orders (set_incident_status k s w) = w_orders w"
  "w_checkpoints (set_incident_status k s w) = w_checkpoints w"
  "w_audit (set_incident_status k s w) = w_audit w"
  by (simp_all add: set_incident_status_def set_incident_def workflow_tables_def)

lemma run_of_state_simps [simp]:
  "wr_id (run_of_state key ts st) = ws_workflow_run_id st"
  "wr_idempotency_key (run_of_state key ts st) = key"
  "wr_status (run_of_state key ts st) = ws_status st" "wr_state (run_of_state key ts st) = st"
  "wr_incident_id (run_of_state key ts st) = ws_incident_id st"
  by (simp_all add: run_of_state_def)

lemma initial_state_simps [simp]:
  "ws_workflow_run_id (initial_state c env k i rid dev d rt) = k"
  "ws_incident_id (initial_state c env k i rid dev d rt) = i"
  "ws_status (initial_state c env k i rid dev d rt) = WF_CREATED"
  by (simp_all add: initial_state_def)

lemma start_begin_new:
  assumes "start_begin c env i d w = Inr (NewRun st, w')"
  obtains r where "w_runs w' = w_runs w @ [r]" "wr_id r = ws_workflow_run_id st"
    "ws_workflow_run_id st \<notin> wr_id ` set (w_runs w)"
    "wr_idempotency_key r = e_key_hash env i d WORKFLOW_VERSION"
    "wr_idempotency_key r \<notin> wr_idempotency_key ` set (w_runs w)"
    "wr_status r = WF_CREATED" "wr_state r = st" "ws_incident_id st = i" "wr_incident_id r = i"
    "w_plans w' = w_plans w" "w_approvals w' = w_approvals w" "w_orders w' = w_orders w"
    "w_checkpoints w' = w_checkpoints w" "w_links w' = w_links w" "w_alarms w' = w_alarms w"
    "w_incidents w' = update_rows i_id i (\<lambda>x. x\<lparr>i_status := ''UNDER_ANALYSIS''\<rparr>) (w_incidents w)"
proof -
  from assms obtain search where s: "e_index env = Some search"
    by (auto simp: start_begin_def split: option.splits)
  let ?key = "e_key_hash env i d WORKFLOW_VERSION"
  from assms s have key: "run_by_key ?key w = None"
    by (auto simp: start_begin_def uuid4_def run_by_key_def Let_def split: option.splits)
  then have fresh: "?key \<notin> wr_idempotency_key ` set (w_runs w)"
    by (simp add: run_by_key_def find_row_None)
  from assms s key obtain dg dev where
    "begin_run c env search (c_uuid4 c (w_uuids w)) i dev dg ?key (w\<lparr>w_uuids := Suc (w_uuids w)\<rparr>) =
       Inr (NewRun st, w')"
    by (auto simp: start_begin_def uuid4_def run_by_key_def Let_def split: option.splits if_splits)
  with fresh show thesis
    by (intro that) (auto simp: begin_run_def uuid4_def utc_now_def Let_def split: if_splits)
qed

lemma begin_run_new: "begin_run c env search k i dev dg key w \<noteq> Inr (ExistingRun r, w')"
  by (simp add: begin_run_def uuid4_def utc_now_def Let_def)

lemma start_begin_existing:
  assumes "start_begin c env i d w = Inr (ExistingRun r, w')"
  shows "w' = w\<lparr>w_uuids := Suc (w_uuids w)\<rparr>" "r \<in> set (w_runs w)"
    "wr_idempotency_key r = e_key_hash env i d WORKFLOW_VERSION"
proof -
  from assms obtain search where s: "e_index env = Some search"
    by (auto simp: start_begin_def split: option.splits)
  let ?key = "e_key_hash env i d WORKFLOW_VERSION"
  show "w' = w\<lparr>w_uuids := Suc (w_uuids w)\<rparr>" "r \<in> set (w_runs w)" "wr_idempotency_key r = ?key"
    using assms s find_row_Some [of wr_idempotency_key ?key "w_runs w"]
    by (auto simp: start_begin_def uuid4_def run_by_key_def begin_run_new Let_def
        split: option.splits if_splits)
qed

lemma no_rows_outside:
  assumes "wf_inv env w F" and "k \<notin> wr_id ` set (w_runs w)"
  shows "no_rows_of k w"
proof -
  have "Some k \<notin> ap_workflow_run_id ` set (w_approvals w)"
    using assms by (auto simp: wf_inv_def approvals_ok_def approval_ok_def)
  moreover have "k \<notin> wo_workflow_run_id ` set (w_orders w)"
    using assms by (force simp: wf_inv_def orders_ok_def order_ok_def)
  ultimately show ?thesis using assms by (auto simp: wf_inv_def no_rows_of_def plans_ok_def)
qed

lemma wf_inv_begin:
  assumes inv: "wf_inv env w F" and run: "start_begin c env i d w = Inr (NewRun st, w')"
  shows "wf_inv env w' (st # F)"
proof -
  let ?k = "ws_workflow_run_id st"
  obtain r where r: "w_runs w' = w_runs w @ [r]" "wr_id r = ?k" "?k \<notin> wr_id ` set (w_runs w)"
    "wr_idempotency_key r \<notin> wr_idempotency_key ` set (w_runs w)"
    and same: "w_plans w' = w_plans w" "w_approvals w' = w_approvals w" "w_orders w' = w_orders w"
      "w_checkpoints w' = w_checkpoints w"
    using run by (rule start_begin_new)
  have none: "no_rows_of ?k w" using no_rows_outside [OF inv r(3)] .
  have inF: "ws_workflow_run_id s \<in> wr_id ` set (w_runs w)" if "s \<in> set F" for s
    using inv that by (auto simp: wf_inv_def flight_ok_def)
  show ?thesis
  proof (rule wf_inv_touch [OF inv, of ?k])
    show "touches_only ?k w w'" by (auto simp: touches_only_def r same)
    show "runs_ok w'" using inv r by (auto simp: wf_inv_def runs_ok_def)
    show "plans_ok env w'" using inv r same by (auto simp: wf_inv_def plans_ok_def)
    have "?k \<notin> ws_workflow_run_id ` set F" using inF r(3) by fastforce
    moreover have "no_rows_of j w' = no_rows_of j w" for j by (simp add: no_rows_of_def same)
    ultimately show "flight_ok w' (st # F)"
      using inv r none by (simp add: wf_inv_def flight_ok_def)
  qed (use inv none in \<open>auto simp: wf_inv_def approvals_ok_def orders_ok_def no_rows_of_def same image_iff\<close>)
qed

lemma wf_inv_run_update:
  assumes inv: "wf_inv env w F"
    and f: "\<And>r. wr_id (f r) = wr_id r \<and> wr_idempotency_key (f r) = wr_idempotency_key r"
    and tables: "w_runs w' = update_rows wr_id k f (w_runs w)" "w_plans w' = w_plans w"
      "w_approvals w' = w_approvals w" "w_orders w' = w_orders w" "w_checkpoints w' = w_checkpoints w"
    and approvals: "\<And>a. a \<in> set (w_approvals w) \<Longrightarrow> ap_workflow_run_id a = Some k \<Longrightarrow> approval_ok w' a"
    and orders: "\<And>wo. wo \<in> set (w_orders w) \<Longrightarrow> wo_workflow_run_id wo = k \<Longrightarrow> order_ok w' wo"
  shows "wf_inv env w' F"
proof (rule wf_inv_touch [OF inv, of k])
  have ids: "wr_id ` set (w_runs w') = wr_id ` set (w_runs w)"
    unfolding tables set_map [symmetric] using f by (simp add: map_update_rows_same)
  show "touches_only k w w'" by (force simp: touches_only_def tables update_rows_def)
  show "runs_ok w'" using inv f by (simp add: wf_inv_def runs_ok_def tables map_update_rows_same)
  show "plans_ok env w'" using inv by (simp add: wf_inv_def plans_ok_def tables(2) ids)
  show "flight_ok w' F" using inv by (simp add: wf_inv_def flight_ok_def no_rows_of_def tables(2-4) ids)
qed (use inv approvals orders in \<open>auto simp: wf_inv_def approvals_ok_def orders_ok_def tables\<close>)

section \<open>Persisting a result\<close>

lemma no_rows_approval: "no_rows_of k w \<Longrightarrow> a \<in> set (w_approvals w) \<Longrightarrow> ap_workflow_run_id a \<noteq> Some k"
  unfolding no_rows_of_def by (metis imageI)

lemma no_rows_order: "no_rows_of k w \<Longrightarrow> wo \<in> set (w_orders w) \<Longrightarrow> wo_workflow_run_id wo \<noteq> k"
  by (auto simp: no_rows_of_def)

lemma no_rows_lookup:
  assumes "no_rows_of k w"
  shows "plan_of_run k w = None" "approval_of_run k w = None" "order_of_run k w = None"
  using assms
  by (simp_all add: no_rows_of_def plan_of_run_def approval_of_run_def order_of_run_def find_row_None)

definition plan_made :: "wf_env \<Rightarrow> workflow_state \<Rightarrow> maintenance_plan_output \<Rightarrow> maintenance_plan \<Rightarrow> bool" where
  "plan_made env st mp p \<longleftrightarrow>
     p_workflow_run_id p = ws_workflow_run_id st \<and> p_payload p = mp \<and> p_plan_hash p = e_plan_hash env mp"

lemma persist_plan_Inr:
  assumes "persist_plan c env st w = Inr (plan, w')" and "no_rows_of (ws_workflow_run_id st) w"
  shows "case ws_maintenance_plan st of
      None \<Rightarrow> plan = None \<and> w' = w
    | Some mp \<Rightarrow> \<exists>p n. plan = Some p \<and> plan_made env st mp p \<and> p_id p \<notin> p_id ` set (w_plans w) \<and>
        w' = w\<lparr>w_uuids := n, w_plans := w_plans w @ [p]\<rparr>"
  using assms(1)
  by (auto simp: persist_plan_def no_rows_lookup [OF assms(2)] uuid4_def Let_def plan_made_def
      split: option.splits if_splits)

definition approval_made :: "workflow_state \<Rightarrow> maintenance_plan \<Rightarrow> approval \<Rightarrow> bool" where
  "approval_made st p a \<longleftrightarrow>
     ap_workflow_run_id a = Some (ws_workflow_run_id st) \<and> ap_maintenance_plan_id a = p_id p \<and>
     ap_plan_version a = p_version p \<and> ap_plan_hash a = p_plan_hash p \<and> ap_decision a = ''PENDING''"

lemma persist_approval_Inr:
  assumes "persist_approval c st plan interrupted w = Inr w'"
    and "approval_of_run (ws_workflow_run_id st) w = None"
  shows "(plan = None \<or> \<not> interrupted) \<and> w' = w \<or>
    (\<exists>p a n m. plan = Some p \<and> interrupted \<and> approval_made st p a \<and>
      ap_id a \<notin> ap_id ` set (w_approvals w) \<and>
      w' = w\<lparr>w_uuids := n, w_ticks := m, w_approvals := w_approvals w @ [a]\<rparr>)"
proof (cases plan)
  case None
  then show ?thesis using assms(1) by (simp add: persist_approval_def)
next
  case (Some p)
  show ?thesis
  proof (cases interrupted)
    case True
    with assms Some obtain d where "ws_policy_decision st = Some d"
      by (auto simp: persist_approval_def split: option.splits)
    with assms Some True show ?thesis
      by (intro disjI2 exI [of _ p] exI [of _ "last (w_approvals w')"] exI [of _ "Suc (w_uuids w)"]
            exI [of _ "Suc (w_ticks w)"])
         (auto simp: persist_approval_def uuid4_def utc_now_def Let_def approval_made_def
          split: if_splits)
  next
    case False
    then show ?thesis using assms(1) Some by (simp add: persist_approval_def)
  qed
qed

definition order_made ::
  "workflow_state \<Rightarrow> maintenance_plan \<Rightarrow> approval option \<Rightarrow> work_order \<Rightarrow> bool" where
  "order_made st p appr wo \<longleftrightarrow>
     wo_workflow_run_id wo = ws_workflow_run_id st \<and> wo_maintenance_plan_id wo = p_id p \<and>
     wo_approval_id wo = map_option ap_id appr \<and> ws_maintenance_plan st = Some (wo_plan wo) \<and>
     \<not> wo_execution_authorized wo \<and> wo_status wo = ''DRAFT''"

lemma create_work_order_Inr:
  assumes "create_work_order c st plan appr w = Inr (wo, w')"
    and "order_of_run (ws_workflow_run_id st) w = None"
  shows "\<exists>p n. plan = Some p \<and> order_made st p appr wo \<and>
    w' = w\<lparr>w_uuids := n, w_orders := w_orders w @ [wo]\<rparr>"
proof -
  from assms obtain p mp where "plan = Some p" "ws_maintenance_plan st = Some mp"
    by (auto simp: create_work_order_def split: option.splits)
  with assms show ?thesis
    by (auto simp: create_work_order_def uuid4_def Let_def order_made_def split: if_splits)
qed

text \<open>What a persisted result adds to the tables of its run.\<close>

definition recorded :: "workflow_state \<Rightarrow> workflow_run \<Rightarrow> workflow_run" where
  "recorded st r = (record_state st r)\<lparr>wr_attempt_count := ws_attempt_count st, wr_errors := ws_errors st\<rparr>"

lemma recorded_simps [simp]:
  "wr_id (recorded st r) = wr_id r" "wr_idempotency_key (recorded st r) = wr_idempotency_key r"
  "wr_status (recorded st r) = ws_status st" "wr_state (recorded st r) = st"
  "wr_id (record_state st r) = wr_id r" "wr_idempotency_key (record_state st r) = wr_idempotency_key r"
  "wr_status (record_state st r) = ws_status st" "wr_state (record_state st r) = st"
  by (simp_all add: recorded_def record_state_def)

lemma persist_incident_rows [simp]:
  "workflow_tables (persist_incident st w) = workflow_tables w"
  "w_links (persist_incident st w) = w_links w" "w_alarms (persist_incident st w) = w_alarms w"
  "w_audit (persist_incident st w) = w_audit w"
  by (simp_all add: persist_incident_def)

lemma set_run_rows [simp]:
  "w_runs (set_run k f w) = update_rows wr_id k f (w_runs w)"
  "w_plans (set_run k f w) = w_plans w" "w_approvals (set_run k f w) = w_approvals w"
  "w_orders (set_run k f w) = w_orders w" "w_checkpoints (set_run k f w) = w_checkpoints w"
  "w_incidents (set_run k f w) = w_incidents w" "w_links (set_run k f w) = w_links w"
  "w_alarms (set_run k f w) = w_alarms w" "w_audit (set_run k f w) = w_audit w"
  by (simp_all add: set_run_def)

lemma persist_result_Inr:
  assumes run: "persist_result c env st interrupted w = Inr (r', w')"
    and none: "no_rows_of (ws_workflow_run_id st) w"
  obtains (quiet) "ws_maintenance_plan st = None" "ws_status st \<noteq> WF_AUTO_ALLOWED"
      "workflow_tables w' =
        (update_rows wr_id (ws_workflow_run_id st) (recorded st) (w_runs w), w_plans w, w_approvals w,
         w_orders w, w_checkpoints w)"
  | (planned) mp p as where "ws_maintenance_plan st = Some mp" "plan_made env st mp p"
      "p_id p \<notin> p_id ` set (w_plans w)" "ws_status st \<noteq> WF_AUTO_ALLOWED"
      "as = [] \<and> \<not> interrupted \<or>
       interrupted \<and> (\<exists>a. as = [a] \<and> approval_made st p a \<and> ap_id a \<notin> ap_id ` set (w_approvals w))"
      "workflow_tables w' =
        (update_rows wr_id (ws_workflow_run_id st) (recorded st) (w_runs w), w_plans w @ [p],
         w_approvals w @ as, w_orders w, w_checkpoints w)"
  | (ordered) mp p wo st' where "ws_maintenance_plan st = Some mp" "plan_made env st mp p"
      "p_id p \<notin> p_id ` set (w_plans w)" "ws_status st = WF_AUTO_ALLOWED" "order_made st p None wo"
      "st' = at_stage WF_WORK_ORDER_CREATED (st\<lparr>ws_work_order_id := Some (wo_id wo)\<rparr>)"
      "\<not> interrupted \<Longrightarrow> workflow_tables w' =
        (update_rows wr_id (ws_workflow_run_id st) (recorded st') (w_runs w), w_plans w @ [p],
         w_approvals w, w_orders w @ [wo], w_checkpoints w)"
proof -
  let ?k = "ws_workflow_run_id st"
  from run obtain plan w1 w2 st' w4 where
    pl: "persist_plan c env st w = Inr (plan, w1)"
    and ap: "persist_approval c st plan interrupted w1 = Inr w2"
    and od: "(if ws_status st = WF_AUTO_ALLOWED
        then bindE (create_work_order c st plan None w2) (\<lambda>(wo, w3).
          Inr (at_stage WF_WORK_ORDER_CREATED (st\<lparr>ws_work_order_id := Some (wo_id wo)\<rparr>), w3))
        else Inr (st, w2)) = (Inr (st', w4) :: app_error + _)"
    and w': "w' = persist_incident st' (set_run ?k (recorded st') w4)"
    by (auto simp: persist_result_def bindE_Inr_iff recorded_def [abs_def] Let_def split: option.splits)
  have tables: "workflow_tables w' =
      (update_rows wr_id ?k (recorded st') (w_runs w4), w_plans w4, w_approvals w4, w_orders w4,
       w_checkpoints w4)"
    by (simp add: w') (simp add: workflow_tables_def)
  show thesis
  proof (cases "ws_maintenance_plan st")
    case None
    with persist_plan_Inr [OF pl none] have "plan = None" "w1 = w" by auto
    with ap have w2: "w2 = w" by (simp add: persist_approval_def)
    with od \<open>plan = None\<close> no_rows_lookup(3) [OF none] have "ws_status st \<noteq> WF_AUTO_ALLOWED" "st' = st" "w4 = w"
      by (auto simp: create_work_order_def split: if_splits)
    with None tables show thesis by (intro quiet) simp_all
  next
    case (Some mp)
    with persist_plan_Inr [OF pl none] obtain p n where p: "plan = Some p" "plan_made env st mp p"
      "p_id p \<notin> p_id ` set (w_plans w)" "w1 = w\<lparr>w_uuids := n, w_plans := w_plans w @ [p]\<rparr>" by auto
    have "approval_of_run ?k w1 = None"
      using no_rows_lookup(2) [OF none] by (simp add: p(4) approval_of_run_def)
    note w2 = persist_approval_Inr [OF ap this]
    show thesis
    proof (cases "ws_status st = WF_AUTO_ALLOWED")
      case False
      with od have "st' = st" "w4 = w2" by simp_all
      with w2 p Some False tables show thesis
        by (intro planned [of mp p "drop (length (w_approvals w)) (w_approvals w2)"]) auto
    next
      case True
      then obtain wo where cw: "create_work_order c st plan None w2 = Inr (wo, w4)"
        and st': "st' = at_stage WF_WORK_ORDER_CREATED (st\<lparr>ws_work_order_id := Some (wo_id wo)\<rparr>)"
        using od by (auto simp: bindE_Inr_iff)
      have "order_of_run ?k w2 = None"
        using no_rows_lookup(3) [OF none] w2 by (auto simp: order_of_run_def p(4))
      from create_work_order_Inr [OF cw this] p obtain m where
        wo: "order_made st p None wo" "w4 = w2\<lparr>w_uuids := m, w_orders := w_orders w2 @ [wo]\<rparr>" by auto
      show thesis
        using w2 by (intro ordered [OF Some p(2,3) True wo(1) st']) (simp add: tables wo(2) p(4))
    qed
  qed
qed

lemma wf_inv_subflight:
  "wf_inv env w F \<Longrightarrow> set F' \<subseteq> set F \<Longrightarrow> distinct (map ws_workflow_run_id F') \<Longrightarrow> wf_inv env w F'"
  by (auto simp: wf_inv_def flight_ok_def)

lemma wf_inv_checkpoint:
  assumes inv: "wf_inv env w F" and none: "no_rows_of k w"
  shows "wf_inv env (save_checkpoint k cp w) F"
proof (rule wf_inv_touch [OF inv, of k])
  show "touches_only k w (save_checkpoint k cp w)"
    by (auto simp: touches_only_def save_checkpoint_def map_of_filter_key)
  have same: "w_runs (save_checkpoint k cp w) = w_runs w" "w_plans (save_checkpoint k cp w) = w_plans w"
    "w_approvals (save_checkpoint k cp w) = w_approvals w" "w_orders (save_checkpoint k cp w) = w_orders w"
    by (simp_all add: save_checkpoint_def)
  show "runs_ok (save_checkpoint k cp w)" "plans_ok env (save_checkpoint k cp w)"
    "distinct (map ap_id (w_approvals (save_checkpoint k cp w)))"
    "distinct (map ap_workflow_run_id (w_approvals (save_checkpoint k cp w)))"
    "distinct (map wo_workflow_run_id (w_orders (save_checkpoint k cp w)))"
    "flight_ok (save_checkpoint k cp w) F"
    using inv by (simp_all add: wf_inv_def runs_ok_def plans_ok_def approvals_ok_def orders_ok_def
        flight_ok_def no_rows_of_def same)
  show "approval_ok (save_checkpoint k cp w) a"
    if "a \<in> set (w_approvals (save_checkpoint k cp w))" "ap_workflow_run_id a = Some k" for a
    using that no_rows_approval [OF none] by (simp add: same)
  show "order_ok (save_checkpoint k cp w) wo"
    if "wo \<in> set (w_orders (save_checkpoint k cp w))" "wo_workflow_run_id wo = k" for wo
    using that no_rows_order [OF none] by (simp add: same)
qed

lemma run_updated_member:
  assumes "r \<in> set (w_runs w)" and "\<And>x. wr_id (f x) = wr_id x"
    and "w_runs w' = update_rows wr_id (wr_id r) f (w_runs w)"
  shows "f r \<in> set (w_runs w')"
  using assms by (force simp: update_rows_def)

lemma wf_inv_planned:
  assumes inv: "wf_inv env w F" and kin: "r \<in> set (w_runs w)" and none: "no_rows_of (wr_id r) w"
    and out: "wr_id r \<notin> ws_workflow_run_id ` set F"
    and f: "\<And>x. wr_id (f x) = wr_id x \<and> wr_idempotency_key (f x) = wr_idempotency_key x"
    and p: "p_workflow_run_id p = wr_id r" "p_plan_hash p = e_plan_hash env (p_payload p)"
      "p_id p \<notin> p_id ` set (w_plans w)"
    and tables: "w_runs w' = update_rows wr_id (wr_id r) f (w_runs w)" "w_plans w' = w_plans w @ [p]"
      "w_approvals w' = w_approvals w @ as" "w_orders w' = w_orders w @ os"
      "w_checkpoints w' = w_checkpoints w"
    and as: "as = [] \<or> (\<exists>a. as = [a] \<and> ap_workflow_run_id a = Some (wr_id r) \<and>
      ap_id a \<notin> ap_id ` set (w_approvals w) \<and> approval_ok w' a)"
    and os: "os = [] \<or> (\<exists>wo. os = [wo] \<and> wo_workflow_run_id wo = wr_id r \<and> order_ok w' wo)"
  shows "wf_inv env w' F"
proof (rule wf_inv_touch [OF inv, of "wr_id r"])
  have ids: "wr_id ` set (w_runs w') = wr_id ` set (w_runs w)"
    unfolding tables(1) set_map [symmetric] using f by (simp add: map_update_rows_same)
  show "touches_only (wr_id r) w w'"
    using as os by (auto simp: touches_only_def tables update_rows_def)
  show "runs_ok w'" using inv f by (simp add: wf_inv_def runs_ok_def tables(1) map_update_rows_same)
  show "plans_ok env w'"
    using inv p none kin by (auto simp: wf_inv_def plans_ok_def tables(2) ids no_rows_of_def)
  show "distinct (map ap_id (w_approvals w'))"
    using inv as by (fastforce simp: wf_inv_def approvals_ok_def tables(3))
  show "distinct (map ap_workflow_run_id (w_approvals w'))"
    using inv as no_rows_approval [OF none] by (auto simp: wf_inv_def approvals_ok_def tables(3))
  show "distinct (map wo_workflow_run_id (w_orders w'))"
    using inv os no_rows_order [OF none] by (auto simp: wf_inv_def orders_ok_def tables(4))
  show "approval_ok w' a" if "a \<in> set (w_approvals w')" "ap_workflow_run_id a = Some (wr_id r)" for a
    using that as no_rows_approval [OF none] by (auto simp: tables(3))
  show "order_ok w' wo" if "wo \<in> set (w_orders w')" "wo_workflow_run_id wo = wr_id r" for wo
    using that os no_rows_order [OF none] by (auto simp: tables(4))
  show "flight_ok w' F"
  proof -
    have "no_rows_of j w'" if "no_rows_of j w" "j \<noteq> wr_id r" for j
      using that as os p(1) by (auto simp: no_rows_of_def tables)
    moreover have "ws_workflow_run_id s \<noteq> wr_id r" if "s \<in> set F" for s using that out by (metis imageI)
    ultimately show ?thesis using inv by (simp add: wf_inv_def flight_ok_def ids)
  qed
qed

lemma wf_inv_persist:
  assumes inv: "wf_inv env w F" and kin: "ws_workflow_run_id st \<in> wr_id ` set (w_runs w)"
    and none: "no_rows_of (ws_workflow_run_id st) w"
    and out: "ws_workflow_run_id st \<notin> ws_workflow_run_id ` set F"
    and waits: "interrupted \<Longrightarrow> ws_status st = WF_WAITING_APPROVAL \<and>
      (\<exists>st0. map_of (w_checkpoints w) (ws_workflow_run_id st) = Some (AtApproval st0) \<and>
        ws_workflow_run_id st0 = ws_workflow_run_id st \<and>
        ws_maintenance_plan st0 = ws_maintenance_plan st \<and> policy_applied PD_REQUIRES_APPROVAL st0)"
    and ends: "\<not> interrupted \<Longrightarrow> node_pre N_END st"
    and run: "persist_result c env st interrupted w = Inr (r', w')"
  shows "wf_inv env w' F"
proof -
  obtain r where r: "r \<in> set (w_runs w)" "wr_id r = ws_workflow_run_id st" using kin by auto
  from run none show ?thesis
  proof (cases rule: persist_result_Inr)
    case quiet
    show ?thesis
      by (rule wf_inv_run_update [OF inv, of "recorded st" w' "ws_workflow_run_id st"])
         (use quiet no_rows_approval [OF none] no_rows_order [OF none] in
           \<open>auto simp: workflow_tables_def\<close>)
  next
    case (planned mp p as)
    then have t: "w_runs w' = update_rows wr_id (wr_id r) (recorded st) (w_runs w)"
      "w_plans w' = w_plans w @ [p]" "w_approvals w' = w_approvals w @ as"
      "w_orders w' = w_orders w @ []" "w_checkpoints w' = w_checkpoints w"
      by (simp_all add: workflow_tables_def r(2))
    have new: "recorded st r \<in> set (w_runs w')" using run_updated_member [OF r(1) _ t(1)] by simp
    have ok: "approval_ok w' a" if "interrupted" "approval_made st p a" for a
      unfolding approval_ok_def
      using waits [OF that(1)] that(2) new planned(1,2) t r(2)
      by (intro exI [of _ "recorded st r"] exI [of _ p])
         (auto simp: approval_made_def plan_made_def approval_state_def)
    show ?thesis
    proof (rule wf_inv_planned [OF inv r(1) _ _ _ _ _ _ t])
      show "as = [] \<or> (\<exists>a. as = [a] \<and> ap_workflow_run_id a = Some (wr_id r) \<and>
          ap_id a \<notin> ap_id ` set (w_approvals w) \<and> approval_ok w' a)"
        using planned(5) ok r(2) by (auto simp: approval_made_def)
    qed (use planned none out r(2) in \<open>auto simp: plan_made_def\<close>)
  next
    case (ordered mp p wo st')
    have quiet: "\<not> interrupted" using waits ordered(4) by auto
    then have t: "w_runs w' = update_rows wr_id (wr_id r) (recorded st') (w_runs w)"
      "w_plans w' = w_plans w @ [p]" "w_approvals w' = w_approvals w @ []"
      "w_orders w' = w_orders w @ [wo]" "w_checkpoints w' = w_checkpoints w"
      using ordered(7) by (simp_all add: workflow_tables_def r(2))
    have new: "recorded st' r \<in> set (w_runs w')" using run_updated_member [OF r(1) _ t(1)] by simp
    have pol: "policy_applied PD_AUTO_ALLOWED st"
      using ends [OF quiet] ordered(4) by (simp add: node_pre_def)
    then have pol': "policy_applied PD_AUTO_ALLOWED st'"
      unfolding ordered(6) policy_applied_at_stage by (subst policy_applied_cong [of _ st]) simp_all
    have "order_ok w' wo"
      unfolding order_ok_def
      using ordered new pol' t r(2)
      by (intro conjI exI [of _ "recorded st' r"] exI [of _ p]) (auto simp: order_made_def plan_made_def)
    then show ?thesis
      by (intro wf_inv_planned [OF inv r(1) _ _ _ _ _ _ t])
         (use ordered none out r(2) in \<open>auto simp: plan_made_def order_made_def\<close>)
  qed
qed

section \<open>Finishing, deciding, cancelling\<close>

lemma mark_failed_tables:
  assumes "runs_ok w"
  shows "\<exists>f. (\<forall>r. wr_id (f r) = wr_id r \<and> wr_idempotency_key (f r) = wr_idempotency_key r) \<and>
    w_runs (mark_failed k code msg w) = update_rows wr_id k f (w_runs w) \<and>
    w_plans (mark_failed k code msg w) = w_plans w \<and>
    w_approvals (mark_failed k code msg w) = w_approvals w \<and>
    w_orders (mark_failed k code msg w) = w_orders w \<and>
    w_checkpoints (mark_failed k code msg w) = w_checkpoints w \<and>
    w_incidents (mark_failed k code msg w) = w_incidents w \<and>
    w_links (mark_failed k code msg w) = w_links w"
proof (cases "run_get k w")
  case None
  have "update_rows wr_id k (\<lambda>r. r) (w_runs w) = w_runs w" by (simp add: update_rows_def)
  with None show ?thesis by (intro exI [of _ "\<lambda>r. r"]) (simp add: mark_failed_def)
next
  case (Some row)
  let ?st = "at_stage WF_FAILED ((wr_state row)\<lparr>ws_errors := ws_errors (wr_state row) @
                 [\<lparr>we_stage = wr_current_stage row, we_code = code, we_message = msg,
                   we_retryable = False\<rparr>]\<rparr>)"
  from Some show ?thesis
    by (intro exI [of _ "\<lambda>r. (record_state ?st r)\<lparr>wr_errors := ws_errors ?st\<rparr>"])
       (simp add: mark_failed_def Let_def record_state_def)
qed

lemma wf_inv_finish:
  assumes inv: "wf_inv env w F" and st: "st \<in> set F" and run: "start_finish c env st w = (res, w')"
  shows "wf_inv env w' (remove1 st F)"
proof -
  let ?k = "ws_workflow_run_id st" and ?F = "remove1 st F"
  obtain g w1 where g: "run_graph c env st w = (g, w1)" by (cases "run_graph c env st w")
  have fr: "agent_frame w w1" using graph_loop_frame [OF g [unfolded run_graph_def]] by blast
  note post = run_graph_post [OF g]
  have flight: "distinct (map ws_workflow_run_id F)" "?k \<in> wr_id ` set (w_runs w)" "no_rows_of ?k w"
    using inv st by (auto simp: wf_inv_def flight_ok_def)
  have sub: "distinct (map ws_workflow_run_id ?F)" "set ?F \<subseteq> set F"
    using flight(1) by (simp_all add: distinct_map distinct_remove1 inj_on_def set_remove1_subset)
  have out: "?k \<notin> ws_workflow_run_id ` set ?F"
    using flight(1) st by (auto simp: distinct_map inj_on_def)
  have inv1: "wf_inv env w1 ?F"
    using wf_inv_cong [OF agent_frame_tables(1) [OF fr]] wf_inv_subflight [OF inv sub(2,1)] by simp
  have k1: "?k \<in> wr_id ` set (w_runs w1)" "no_rows_of ?k w1"
    using flight(2,3) by (simp_all add: agent_frame_tables [OF fr] no_rows_of_def)
  have inv2: "wf_inv env (save_checkpoint ?k cp w1) ?F" for cp
    by (rule wf_inv_checkpoint [OF inv1 k1(2)])
  have k2: "?k \<in> wr_id ` set (w_runs (save_checkpoint ?k cp w1))"
    "no_rows_of ?k (save_checkpoint ?k cp w1)" for cp
    using k1 by (simp_all add: save_checkpoint_def no_rows_of_def)
  show ?thesis
  proof (cases g)
    case (Raised e)
    then have w': "w' = mark_failed ?k ''AGENT_FAILURE'' (exc_text e) w1"
      using run g by (simp add: start_finish_def)
    have "runs_ok w1" using inv1 by (simp add: wf_inv_def)
    from mark_failed_tables [OF this, of ?k] show ?thesis
      using wf_inv_run_update [OF inv1] no_rows_approval [OF k1(2)] no_rows_order [OF k1(2)]
      unfolding w' by blast
  next
    case (Interrupted st1)
    let ?w2 = "inc_metric ''workflow_waiting_approval_total'' [] (save_checkpoint ?k (AtApproval st1) w1)"
    let ?st2 = "at_stage WF_WAITING_APPROVAL st1"
    have st1: "policy_applied PD_REQUIRES_APPROVAL st1" "ws_workflow_run_id st1 = ?k"
      using post Interrupted by (simp_all add: same_identity_def)
    have w2: "wf_inv env ?w2 ?F"
      using wf_inv_cong [of ?w2 "save_checkpoint ?k (AtApproval st1) w1"] inv2 by (simp add: workflow_tables_def)
    show ?thesis
    proof (cases "persist_result c env ?st2 True ?w2")
      case (Inl e)
      then show ?thesis using run g Interrupted w2 by (simp add: start_finish_def Let_def)
    next
      case (Inr rw)
      then obtain r w3 where rw: "rw = (r, w3)" by (cases rw)
      have "wf_inv env w3 ?F"
      proof (rule wf_inv_persist [OF w2 _ _ _ _ _ Inr [unfolded rw]])
        show "ws_workflow_run_id ?st2 \<in> wr_id ` set (w_runs ?w2)" "no_rows_of (ws_workflow_run_id ?st2) ?w2"
          using k2 [of "AtApproval st1"] st1(2) by (simp_all add: no_rows_of_def)
        show "ws_workflow_run_id ?st2 \<notin> ws_workflow_run_id ` set ?F" using out st1(2) by simp
      qed (use st1 in \<open>auto simp: save_checkpoint_def\<close>)
      then show ?thesis using run g Interrupted Inr rw by (simp add: start_finish_def Let_def)
    qed
  next
    case (Completed st1)
    let ?w2 = "save_checkpoint ?k (Finished st1) w1"
    have st1: "node_pre N_END st1" "ws_workflow_run_id st1 = ?k"
      using post Completed by (simp_all add: same_identity_def)
    show ?thesis
    proof (cases "persist_result c env st1 False ?w2")
      case (Inl e)
      then show ?thesis using run g Completed inv2 [of "Finished st1"] by (auto simp: start_finish_def Let_def)
    next
      case (Inr rw)
      then obtain r w3 where rw: "rw = (r, w3)" by (cases rw)
      have "wf_inv env w3 ?F"
        by (rule wf_inv_persist [OF inv2 _ _ _ _ _ Inr [unfolded rw]])
           (use st1 k2 [of "Finished st1"] out in simp_all)
      then show ?thesis using run g Completed Inr rw by (simp add: start_finish_def Let_def)
    qed
  qed
qed

lemma wf_inv_cancel:
  assumes inv: "wf_inv env w F" and run: "cancel k w = Inr (r', w')"
  shows "wf_inv env w' F"
proof -
  from run obtain row where row: "run_get k w = Some row"
    "wr_status row \<in> {WF_CREATED, WF_TRIAGING, WF_PLANNING, WF_WAITING_APPROVAL}"
    and w': "w' = set_run k (record_state (at_stage WF_CANCELLED (wr_state row))) w"
    by (auto simp: cancel_def Let_def split: option.splits if_splits)
  let ?f = "record_state (at_stage WF_CANCELLED (wr_state row))"
  note r = run_get_row [OF row(1)]
  have ok: "runs_ok w" using inv by (simp add: wf_inv_def)
  have new: "?f row \<in> set (w_runs w')" using run_updated_member [of row w ?f w'] r by (simp add: w')
  show ?thesis
  proof (rule wf_inv_run_update [OF inv, of ?f w' k])
    show "approval_ok w' a" if a: "a \<in> set (w_approvals w)" "ap_workflow_run_id a = Some k" for a
    proof -
      from inv a(1) have "approval_ok w a" by (simp add: wf_inv_def approvals_ok_def)
      then obtain s p where s: "ap_workflow_run_id a = Some (wr_id s)" "s \<in> set (w_runs w)"
        "p \<in> set (w_plans w)" "p_id p = ap_maintenance_plan_id a" "p_workflow_run_id p = wr_id s"
        "p_version p = ap_plan_version a" "p_plan_hash p = ap_plan_hash a" "approval_state w a s p"
        by (auto simp: approval_ok_def)
      have "s = row" using run_unique [OF ok s(2)] r s(1) a(2) by auto
      then have "approval_state w' a (?f row) p"
        using s(8) row(2) by (auto simp: approval_state_def w' split: if_splits)
      then show ?thesis
        unfolding approval_ok_def using s new \<open>s = row\<close>
        by (intro exI [of _ "?f row"] exI [of _ p]) (simp add: w')
    qed
    show "order_ok w' wo" if "wo \<in> set (w_orders w)" "wo_workflow_run_id wo = k" for wo
      using order_run_status [OF inv that(1), of row] r that(2) row(2) by auto
  qed (simp_all add: w')
qed

definition decided :: "string \<Rightarrow> string \<Rightarrow> string \<Rightarrow> instant \<Rightarrow> approval \<Rightarrow> approval" where
  "decided decision actor reason ts x =
     x\<lparr>ap_decision := decision, ap_actor := Some actor, ap_reason := Some reason,
       ap_decided_at := Some ts\<rparr>"

lemma decided_simps [simp]:
  "ap_id (decided d actor reason ts a) = ap_id a"
  "ap_workflow_run_id (decided d actor reason ts a) = ap_workflow_run_id a"
  "ap_maintenance_plan_id (decided d actor reason ts a) = ap_maintenance_plan_id a"
  "ap_plan_version (decided d actor reason ts a) = ap_plan_version a"
  "ap_plan_hash (decided d actor reason ts a) = ap_plan_hash a"
  "ap_decision (decided d actor reason ts a) = d"
  by (simp_all add: decided_def)

text \<open>
  On tables that meet the invariant a decision is a repetition that changes nothing, or it decides a
  pending approval of a waiting run, with the plan the graph thread waits with.
\<close>

lemma decide_approval_Inr:
  assumes inv: "wf_inv env w F"
    and run: "decide_approval c env x decision actor reason w = Inr (r', w')"
  obtains (again) a where "w' = w" "r' \<in> set (w_runs w)"
      "wr_status r' \<in> {WF_WORK_ORDER_CREATED, WF_REJECTED}" "a \<in> set (w_approvals w)" "ap_id a = x"
      "ap_decision a = decision" "decision \<noteq> ''PENDING''"
  | (approved) a row p st2 wo m cp n where "decision = ''APPROVED''" "a \<in> set (w_approvals w)"
      "ap_id a = x" "ap_workflow_run_id a = Some (wr_id row)" "row \<in> set (w_runs w)"
      "wr_status row = WF_WAITING_APPROVAL" "p \<in> set (w_plans w)" "p_id p = ap_maintenance_plan_id a"
      "p_workflow_run_id p = wr_id row" "p_version p = ap_plan_version a" "p_plan_hash p = ap_plan_hash a"
      "ws_maintenance_plan st2 = Some (p_payload p)" "ws_status st2 = WF_WORK_ORDER_CREATED"
      "order_made st2 p (Some (decided decision actor reason (c_clock c (w_ticks w)) a)) wo"
      "ws_workflow_run_id st2 = wr_id row" "r' = record_state st2 row"
      "w' = set_run (wr_id row) (record_state st2)
        (set_incident_status (ws_incident_id st2) ''WORK_ORDER_CREATED''
          (w\<lparr>w_ticks := m, w_approvals := update_rows ap_id x
              (decided decision actor reason (c_clock c (w_ticks w))) (w_approvals w),
            w_checkpoints := cp, w_uuids := n, w_orders := w_orders w @ [wo]\<rparr>))"
      "\<And>j. j \<noteq> wr_id row \<Longrightarrow> map_of cp j = map_of (w_checkpoints w) j"
  | (rejected) a row p st2 m cp where "decision = ''REJECTED''" "a \<in> set (w_approvals w)"
      "ap_id a = x" "ap_workflow_run_id a = Some (wr_id row)" "row \<in> set (w_runs w)"
      "wr_status row = WF_WAITING_APPROVAL" "p \<in> set (w_plans w)" "p_id p = ap_maintenance_plan_id a"
      "p_workflow_run_id p = wr_id row" "p_version p = ap_plan_version a" "p_plan_hash p = ap_plan_hash a"
      "ws_status st2 = WF_REJECTED" "r' = record_state st2 row"
      "w' = set_run (wr_id row) (record_state st2)
          (w\<lparr>w_ticks := m, w_approvals := update_rows ap_id x
              (decided decision actor reason (c_clock c (w_ticks w))) (w_approvals w),
            w_checkpoints := cp\<rparr>)"
      "\<And>j. j \<noteq> wr_id row \<Longrightarrow> map_of cp j = map_of (w_checkpoints w) j"
proof -
  have dec: "decision = ''APPROVED'' \<or> decision = ''REJECTED''"
    using run by (auto simp: decide_approval_def split: if_splits)
  from run obtain a where fa: "find_row ap_id x (w_approvals w) = Some a"
    by (auto simp: decide_approval_def split: if_splits option.splits)
  then have a: "a \<in> set (w_approvals w)" "ap_id a = x" using find_row_Some by fastforce+
  with inv have "approval_ok w a" by (simp add: wf_inv_def approvals_ok_def)
  then obtain row p where rp: "ap_workflow_run_id a = Some (wr_id row)" "row \<in> set (w_runs w)"
    "p \<in> set (w_plans w)" "p_id p = ap_maintenance_plan_id a" "p_workflow_run_id p = wr_id row"
    "p_version p = ap_plan_version a" "p_plan_hash p = ap_plan_hash a" and state: "approval_state w a row p"
    by (auto simp: approval_ok_def)
  have frow: "run_get (wr_id row) w = Some row"
    using inv rp(2) by (simp add: wf_inv_def run_get_member)
  have fp: "find_row p_id (ap_maintenance_plan_id a) (w_plans w) = Some p"
    using inv rp(3,4) find_row_unique [of p_id "w_plans w" p] by (simp add: wf_inv_def plans_ok_def)
  note guards = fa rp(1) frow fp rp(6,7)
  from run have nc: "wr_status row \<noteq> WF_CANCELLED" and same: "ap_decision a \<in> {''PENDING'', decision}"
    by (auto simp: decide_approval_def guards split: if_splits)
  show thesis
  proof (cases "ap_decision a = ''PENDING''")
    case False
    then have eq: "ap_decision a = decision" "wr_status row \<in> {WF_WORK_ORDER_CREATED, WF_REJECTED}"
      using same state by (auto simp: approval_state_def split: if_splits)
    with run dec nc have "w' = w" "r' = row" by (auto simp: decide_approval_def guards split: if_splits)
    with again [of a] rp(2) eq a False show thesis by blast
  next
    case True
    then obtain st where st: "wr_status row = WF_WAITING_APPROVAL"
      "map_of (w_checkpoints w) (wr_id row) = Some (AtApproval st)" "ws_workflow_run_id st = wr_id row"
      "ws_maintenance_plan st = Some (p_payload p)"
      using state nc by (auto simp: approval_state_def)
    let ?ts = "c_clock c (w_ticks w)"
    let ?a = "decided decision actor reason ?ts a"
    let ?snap = "\<lparr>as_approval_id = ap_id a, as_status = decision, as_actor = Some actor,
      as_reason = Some reason, as_plan_version = ap_plan_version a, as_plan_hash = ap_plan_hash a,
      as_decided_at = Some ?ts\<rparr>"
    let ?w2 = "w\<lparr>w_ticks := Suc (w_ticks w), w_approvals := update_rows ap_id x
      (decided decision actor reason ?ts) (w_approvals w)\<rparr>"
    let ?st' = "at_stage (if decision = ''APPROVED'' then WF_APPROVED else WF_REJECTED)
      (st\<lparr>ws_approval := Some ?snap\<rparr>)"
    let ?w3 = "save_checkpoint (wr_id row) (Finished ?st') ?w2"
    let ?st1 = "?st'\<lparr>ws_approval := Some ?snap\<rparr>"
    have dd: "(\<lambda>x. x\<lparr>ap_decision := decision, ap_actor := Some actor, ap_reason := Some reason,
        ap_decided_at := Some ?ts\<rparr>) = decided decision actor reason ?ts"
      by (simp add: decided_def [abs_def])
    have cp: "map_of (w_checkpoints ?w3) j = map_of (w_checkpoints w) j" if "j \<noteq> wr_id row" for j
      using that by (simp add: save_checkpoint_def map_of_filter_key)
    have res: "(if decision = ''APPROVED''
        then bindE (create_work_order c ?st1 (Some p) (Some ?a) ?w3) (\<lambda>(wo, w4).
          (let st2 = at_stage WF_WORK_ORDER_CREATED (?st1\<lparr>ws_work_order_id := Some (wo_id wo)\<rparr>);
               w5 = set_incident_status (ws_incident_id st2) ''WORK_ORDER_CREATED'' w4
           in Inr (record_state st2 row, set_run (wr_id row) (record_state st2) w5)))
        else (let st2 = at_stage WF_REJECTED ?st1
           in Inr (record_state st2 row, set_run (wr_id row) (record_state st2) ?w3))) =
      (Inr (r', w') :: app_error + _)"
      using run dec st nc True
      unfolding decide_approval_def
      by (simp add: guards utc_now_def Let_def dd resume_graph_result decided_def [symmetric]
          cong: if_cong split: if_splits)
    show thesis
    proof (cases "decision = ''APPROVED''")
      case True
      with res obtain wo w4 where cw: "create_work_order c ?st1 (Some p) (Some ?a) ?w3 = Inr (wo, w4)"
        and out: "let st2 = at_stage WF_WORK_ORDER_CREATED (?st1\<lparr>ws_work_order_id := Some (wo_id wo)\<rparr>);
               w5 = set_incident_status (ws_incident_id st2) ''WORK_ORDER_CREATED'' w4
           in r' = record_state st2 row \<and> w' = set_run (wr_id row) (record_state st2) w5"
        by (auto simp: bindE_Inr_iff Let_def)
      have "wr_id row \<notin> wo_workflow_run_id ` set (w_orders w)"
        using no_order_unless_created [OF inv rp(2)] st(1) by simp
      then have "order_of_run (ws_workflow_run_id ?st1) ?w3 = None"
        using st(3) by (simp add: order_of_run_def find_row_None save_checkpoint_def)
      from create_work_order_Inr [OF cw this] obtain n where
        wo: "order_made ?st1 p (Some ?a) wo" "w4 = ?w3\<lparr>w_uuids := n, w_orders := w_orders ?w3 @ [wo]\<rparr>"
        by auto
      let ?st2 = "at_stage WF_WORK_ORDER_CREATED (?st1\<lparr>ws_work_order_id := Some (wo_id wo)\<rparr>)"
      have "order_made ?st2 p (Some ?a) wo" using wo(1) by (simp add: order_made_def)
      then show thesis
        using out True a rp st wo(2) cp
        by (intro approved [of a row p ?st2 wo n "w_checkpoints ?w3" "Suc (w_ticks w)"])
           (simp_all add: Let_def save_checkpoint_def)
    next
      case False
      with dec have "decision = ''REJECTED''" by simp
      with res a rp st cp False show thesis
        by (intro rejected [of a row p "at_stage WF_REJECTED ?st1" "w_checkpoints ?w3" "Suc (w_ticks w)"])
           (simp_all add: Let_def save_checkpoint_def)
    qed
  qed
qed

lemma wf_inv_decided:
  assumes inv: "wf_inv env w F" and a: "a \<in> set (w_approvals w)" "ap_workflow_run_id a = Some (wr_id row)"
    and row: "row \<in> set (w_runs w)" "wr_status row = WF_WAITING_APPROVAL"
    and p: "p \<in> set (w_plans w)" "p_id p = ap_maintenance_plan_id a" "p_workflow_run_id p = wr_id row"
      "p_version p = ap_plan_version a" "p_plan_hash p = ap_plan_hash a"
    and tables: "w_runs w' = update_rows wr_id (wr_id row) (record_state st) (w_runs w)"
      "w_plans w' = w_plans w"
      "w_approvals w' = update_rows ap_id (ap_id a) (decided d actor reason ts) (w_approvals w)"
      "w_orders w' = w_orders w @ os"
    and cps: "\<And>j. j \<noteq> wr_id row \<Longrightarrow> map_of (w_checkpoints w') j = map_of (w_checkpoints w) j"
    and d: "d = ''APPROVED'' \<and> ws_status st = WF_WORK_ORDER_CREATED \<and>
        (\<exists>wo. os = [wo] \<and> wo_workflow_run_id wo = wr_id row \<and>
           order_made st p (Some (decided d actor reason ts a)) wo \<and> wo_plan wo = p_payload p) \<or>
      d = ''REJECTED'' \<and> ws_status st = WF_REJECTED \<and> os = []"
  shows "wf_inv env w' F"
proof -
  let ?k = "wr_id row" and ?a = "decided d actor reason ts a"
  have ok: "runs_ok w" using inv by (simp add: wf_inv_def)
  have byrun: "b = a" if "b \<in> set (w_approvals w)" "ap_workflow_run_id b = Some ?k" for b
    using inv a that by (auto simp: wf_inv_def approvals_ok_def dest: distinct_map_eq)
  have byid: "b = a" if "b \<in> set (w_approvals w)" "ap_id b = ap_id a" for b
    using inv a that by (auto simp: wf_inv_def approvals_ok_def dest: distinct_map_eq)
  have other: "ap_id b \<noteq> ap_id a" if "b \<in> set (w_approvals w)" "ap_workflow_run_id b \<noteq> Some ?k" for b
    using byid that a(2) by auto
  have new: "record_state st row \<in> set (w_runs w')"
    using run_updated_member [OF row(1) _ tables(1)] by simp
  have newa: "?a \<in> set (w_approvals w')" using a(1) by (force simp: tables(3) update_rows_def)
  have noorder: "?k \<notin> wo_workflow_run_id ` set (w_orders w)"
    using no_order_unless_created [OF inv row(1)] row(2) by simp
  have ids: "wr_id ` set (w_runs w') = wr_id ` set (w_runs w)"
    unfolding tables(1) set_map [symmetric] by (simp add: map_update_rows_same)
  have apruns: "map ap_workflow_run_id (w_approvals w') = map ap_workflow_run_id (w_approvals w)"
    "map ap_id (w_approvals w') = map ap_id (w_approvals w)"
    by (simp_all add: tables(3) map_update_rows_same)
  show ?thesis
  proof (rule wf_inv_touch [OF inv, of ?k])
    show "touches_only ?k w w'"
      using d other by (auto simp: touches_only_def tables update_rows_def cps)
    show "runs_ok w'" using ok by (simp add: runs_ok_def tables(1) map_update_rows_same)
    show "plans_ok env w'" using inv by (simp add: wf_inv_def plans_ok_def tables(2) ids)
    show "distinct (map ap_id (w_approvals w'))" "distinct (map ap_workflow_run_id (w_approvals w'))"
      using inv by (simp_all only: apruns wf_inv_def approvals_ok_def)
    show "distinct (map wo_workflow_run_id (w_orders w'))"
    proof -
      have "\<forall>x \<in> set (w_orders w). wo_workflow_run_id x \<noteq> ?k" using noorder by (metis imageI)
      then show ?thesis using inv d by (auto simp: wf_inv_def orders_ok_def tables(4))
    qed
    show "approval_ok w' b" if "b \<in> set (w_approvals w')" "ap_workflow_run_id b = Some ?k" for b
    proof -
      from that(1) [unfolded tables(3)] have "b = ?a"
      proof (cases rule: in_update_rowsE)
        case (1 r0)
        then show ?thesis using byid [of r0] by simp
      next
        case 2
        then show ?thesis using byrun [OF 2(1) that(2)] by simp
      qed
      then show ?thesis
        unfolding approval_ok_def using a p new d
        by (intro exI [of _ "record_state st row"] exI [of _ p]) (auto simp: tables(2) approval_state_def)
    qed
    show "order_ok w' wo" if "wo \<in> set (w_orders w')" "wo_workflow_run_id wo = ?k" for wo
    proof -
      have "wo \<notin> set (w_orders w)" using that(2) noorder by (metis imageI)
      with that(1) d have "order_made st p (Some ?a) wo" "wo_plan wo = p_payload p"
        "d = ''APPROVED''" "ws_status st = WF_WORK_ORDER_CREATED"
        by (auto simp: tables(4))
      then show ?thesis
        unfolding order_ok_def using new newa p a that(2)
        by (intro conjI exI [of _ "record_state st row"] exI [of _ p])
           (auto simp: order_made_def tables(2) intro!: bexI [of _ ?a])
    qed
    show "flight_ok w' F"
    proof -
      have "no_rows_of j w'" if "no_rows_of j w" for j
      proof -
        have "j \<noteq> ?k" using no_rows_approval [OF that a(1)] a(2) by auto
        moreover have "ap_workflow_run_id ` set (w_approvals w') = ap_workflow_run_id ` set (w_approvals w)"
          using apruns(1) by (metis set_map)
        ultimately show ?thesis using that d by (auto simp: no_rows_of_def tables(2,4))
      qed
      then show ?thesis using inv by (simp add: wf_inv_def flight_ok_def ids)
    qed
  qed
qed

lemma wf_inv_decide:
  assumes inv: "wf_inv env w F"
    and run: "decide_approval c env x decision actor reason w = Inr (r', w')"
  shows "wf_inv env w' F"
  using inv run
proof (cases rule: decide_approval_Inr)
  case again
  with inv show ?thesis by simp
next
  case (approved a row p st2 wo m cp n)
  show ?thesis
    by (rule wf_inv_decided [OF inv approved(2,4,5,6,7,8,9,10,11), where os = "[wo]" and st = st2
          and d = decision and actor = actor and reason = reason and ts = "c_clock c (w_ticks w)"])
       (use approved in \<open>auto simp: order_made_def\<close>)
next
  case (rejected a row p st2 m cp)
  show ?thesis
    by (rule wf_inv_decided [OF inv rejected(2,4,5,6,7,8,9,10,11), where os = "[]" and st = st2
          and d = decision and actor = actor and reason = reason and ts = "c_clock c (w_ticks w)"])
       (use rejected in \<open>auto simp: order_made_def\<close>)
qed

end
