(* ===== verification/AlarmSystem.thy ===== *)
theory AlarmSystem
  imports AlarmLemmas
begin

text \<open>
  The alarm subsystem as a state machine: breaches, the two operator commands and changes by other
  components, in any order. Invariants hold in every reachable world; the properties say what one
  command does on every branch and what no sequence of commands can do.
\<close>

section \<open>Operator commands\<close>

definition ack_fields :: "instant \<Rightarrow> string \<Rightarrow> alarm \<Rightarrow> alarm" where
  "ack_fields ts actor a =
     a\<lparr>a_status := ''ACKNOWLEDGED'', a_acknowledged_at := Some ts, a_acknowledged_by := Some actor\<rparr>"

definition clear_fields :: "instant \<Rightarrow> string \<Rightarrow> alarm \<Rightarrow> alarm" where
  "clear_fields ts reason a =
     a\<lparr>a_status := ''CLEARED'', a_cleared_at := Some ts, a_clear_reason := Some reason\<rparr>"

lemma alarm_status_of_cases:
  "alarm_status_of a =
     (if a_status a = ''ACTIVE'' then Inr ALARM_ACTIVE
      else if a_status a = ''ACKNOWLEDGED'' then Inr ALARM_ACKNOWLEDGED
      else if a_status a = ''CLEARED'' then Inr ALARM_CLEARED
      else Inl (AlarmStatusUnknownError (a_id a) (a_status a)))"
  by (auto simp: alarm_status_of_def as_alarm_status_def parse_enum_def alarm_statuses_def)

lemma acknowledge_alarm_missing:
  "alarm_get i w = None \<Longrightarrow> acknowledge_alarm c i actor note w = Inl (AlarmNotFoundError i)"
  by (simp add: acknowledge_alarm_def require_alarm_def)

lemma clear_alarm_missing:
  "alarm_get i w = None \<Longrightarrow> clear_alarm c i actor reason w = Inl (AlarmNotFoundError i)"
  by (simp add: clear_alarm_def require_alarm_def)

lemma acknowledge_alarm_Inr:
  assumes "acknowledge_alarm c i actor note w = Inr (a', w')"
  obtains a where "alarm_get i w = Some a" "a_status a = ''ACTIVE''"
    "a' = ack_fields (c_clock c (w_ticks w)) actor a"
    "w_alarms w' = update_rows a_id i (ack_fields (c_clock c (w_ticks w)) actor) (w_alarms w)"
    "\<exists>e. w_audit w' = w_audit w @ [e] \<and> ae_action e = ''ALARM_ACKNOWLEDGED''
       \<and> ae_resource e = a_device_id a"
  using assms
  by (auto simp: acknowledge_alarm_def require_alarm_def bindE_Inr_iff alarm_status_of_cases
      alarm_require_transition_def is_alarm_transition_allowed_def utc_now_def Let_def set_alarm_def
      ack_fields_def [abs_def] audit_add_audit audit_event_of_def entry_def
      split: option.splits if_splits)

lemma clear_alarm_Inr:
  assumes "clear_alarm c i actor reason w = Inr (a', w')"
  obtains a where "alarm_get i w = Some a" "a_status a = ''ACTIVE'' \<or> a_status a = ''ACKNOWLEDGED''"
    "a' = clear_fields (c_clock c (w_ticks w)) reason a"
    "w_alarms w' = update_rows a_id i (clear_fields (c_clock c (w_ticks w)) reason) (w_alarms w)"
    "\<exists>e. w_audit w' = w_audit w @ [e] \<and> ae_action e = ''ALARM_CLEARED''
       \<and> ae_resource e = a_device_id a"
  using assms
  by (auto simp: clear_alarm_def require_alarm_def bindE_Inr_iff alarm_status_of_cases
      alarm_require_transition_def is_alarm_transition_allowed_def utc_now_def Let_def set_alarm_def
      clear_fields_def [abs_def] audit_add_audit audit_event_of_def entry_def
      split: option.splits if_splits)

lemma alarm_get_row: "alarm_get i w = Some a \<Longrightarrow> a \<in> set (w_alarms w) \<and> a_id a = i"
  unfolding alarm_get_def by (rule find_row_Some)

lemma alarm_get_member:
  "alarm_inv w \<Longrightarrow> a \<in> set (w_alarms w) \<Longrightarrow> alarm_get (a_id a) w = Some a"
  by (simp add: alarm_get_def alarm_inv_def find_row_unique)

lemma alarm_inv_acknowledge:
  assumes inv: "alarm_inv w" and run: "acknowledge_alarm c i actor note w = Inr (a', w')"
  shows "alarm_inv w'"
proof -
  obtain a where a: "alarm_get i w = Some a" "a_status a = ''ACTIVE''"
    and w': "w_alarms w' = update_rows a_id i (ack_fields (c_clock c (w_ticks w)) actor) (w_alarms w)"
    using acknowledge_alarm_Inr [OF run] by metis
  have same: "b = a" if "a_id b = i" "b \<in> set (w_alarms w)" for b
    using alarm_get_member [OF inv that(2)] that(1) a(1) by simp
  have "alarm_inv (w\<lparr>w_alarms := update_rows a_id i (ack_fields (c_clock c (w_ticks w)) actor) (w_alarms w)\<rparr>)"
  proof (rule alarm_inv_update [OF inv])
    fix b assume "a_id b = i" "b \<in> set (w_alarms w)" "alarm_wf b"
    then show "alarm_wf (ack_fields (c_clock c (w_ticks w)) actor b)"
      using same a(2) by (auto simp: alarm_wf_def ack_fields_def alarm_statuses_def split: option.splits)
  next
    fix b assume "a_id b = i" "b \<in> set (w_alarms w)"
    then show "OPEN_INSTANCE_PREDICATE b" using same a(2) by (auto simp: OPEN_INSTANCE_PREDICATE_def)
  qed (auto simp: ack_fields_def alarm_key_def)
  with w' show ?thesis by (subst alarm_inv_cong [of w']) simp_all
qed

lemma alarm_inv_clear:
  assumes inv: "alarm_inv w" and run: "clear_alarm c i actor reason w = Inr (a', w')"
  shows "alarm_inv w'"
proof -
  obtain a where w': "w_alarms w' = update_rows a_id i (clear_fields (c_clock c (w_ticks w)) reason) (w_alarms w)"
    using clear_alarm_Inr [OF run] by metis
  have "alarm_inv (w\<lparr>w_alarms := update_rows a_id i (clear_fields (c_clock c (w_ticks w)) reason) (w_alarms w)\<rparr>)"
    by (rule alarm_inv_update [OF inv])
       (auto simp: clear_fields_def alarm_key_def OPEN_INSTANCE_PREDICATE_def alarm_wf_def
         alarm_statuses_def split: option.splits)
  with w' show ?thesis by (subst alarm_inv_cong [of w']) simp_all
qed

section \<open>The step relation\<close>

datatype alarm_event =
    Breach string rule_breach "uuid option" "instant option" string
  | Acknowledge uuid string "string option"
  | Clear uuid string string
  | Elsewhere

inductive alarm_step :: "ctx \<Rightarrow> world \<Rightarrow> alarm_event \<Rightarrow> world \<Rightarrow> bool" for c where
  breach: "create_or_update_alarm c (\<lambda>v. v) d b tid trig actor w = Inr (r, w') \<Longrightarrow>
    alarm_step c w (Breach d b tid trig actor) w'"
| acknowledge: "acknowledge_alarm c i actor note w = Inr (r, w') \<Longrightarrow>
    alarm_step c w (Acknowledge i actor note) w'"
| clear: "clear_alarm c i actor reason w = Inr (r, w') \<Longrightarrow>
    alarm_step c w (Clear i actor reason) w'"
| elsewhere: "w_alarms w' = w_alarms w \<Longrightarrow> alarm_step c w Elsewhere w'"

inductive_cases breachE: "alarm_step c w (Breach d b tid trig actor) w'"
inductive_cases acknowledgeE: "alarm_step c w (Acknowledge i actor note) w'"
inductive_cases clearE: "alarm_step c w (Clear i actor reason) w'"

definition no_alarms :: "world \<Rightarrow> bool" where
  "no_alarms w \<longleftrightarrow> w_alarms w = []"

lemma alarm_step_inv: "alarm_inv w \<Longrightarrow> alarm_step c w e w' \<Longrightarrow> alarm_inv w'"
  by (erule alarm_step.cases)
     (auto intro: alarm_inv_create_or_update alarm_inv_acknowledge alarm_inv_clear
       dest: alarm_inv_cong)

interpretation alarm_system: event_system no_alarms "alarm_step c" alarm_inv for c
  by unfold_locales
     (simp add: no_alarms_def alarm_inv_def open_alarms_def, blast intro: alarm_step_inv)

text \<open>
  One step rewrites at most one row in place or appends one. \<open>evolves\<close> is what it may do to a row.
\<close>

definition evolves :: "alarm \<Rightarrow> alarm \<Rightarrow> bool" where
  "evolves a a' \<longleftrightarrow>
     a_id a' = a_id a \<and> alarm_key a' = alarm_key a \<and> a_telemetry_id a' = a_telemetry_id a \<and>
     a_started_at a' = a_started_at a \<and> ACTIVITY_AT a \<le> ACTIVITY_AT a' \<and>
     a_occurrence_count a \<le> a_occurrence_count a' \<and>
     (a_status a = ''CLEARED'' \<longrightarrow> a' = a) \<and>
     (a_status a = ''ACKNOWLEDGED'' \<longrightarrow> a_status a' \<in> {''ACKNOWLEDGED'', ''CLEARED''})"

lemma evolves_refl: "evolves a a"
  by (simp add: evolves_def)

lemma evolves_trans: "evolves a b \<Longrightarrow> evolves b c \<Longrightarrow> evolves a c"
  by (auto simp: evolves_def)

lemma evolves_update:
  assumes "alarm_inv w" and "b \<in> set (w_alarms w)" and "a_id b = i" and "evolves b (f b)"
    and "a \<in> set (w_alarms w)"
  shows "\<exists>a' \<in> set (update_rows a_id i f (w_alarms w)). evolves a a'"
proof (cases "a_id a = i")
  case True
  then have "a = b" using assms by (auto simp: alarm_inv_def dest: distinct_map_eq)
  then show ?thesis using assms by (auto simp: update_rows_def)
next
  case False
  then show ?thesis using assms(5) evolves_refl by (force simp: update_rows_def)
qed

lemma evolves_apply_breach:
  "a_status a \<noteq> ''CLEARED'' \<Longrightarrow> alarm_wf a \<Longrightarrow> evolves a (apply_breach b t a)"
  by (auto simp: evolves_def ACTIVITY_AT_def apply_breach_last alarm_wf_def split: option.splits)

lemma evolves_fold_breach:
  assumes inv: "alarm_inv w" and op: "a0 \<in> set (open_alarms w)"
    and run: "fold_breach a0 b t v = (r, w')" "w_alarms v = w_alarms w"
    and a: "a \<in> set (w_alarms w)"
  shows "\<exists>a' \<in> set (w_alarms w'). evolves a a'"
proof -
  have a0: "a0 \<in> set (w_alarms w)" "a_status a0 \<noteq> ''CLEARED''"
    using op by (auto simp: open_alarms_def OPEN_INSTANCE_PREDICATE_def)
  then have "evolves a0 (apply_breach b t a0)"
    using inv by (auto simp: alarm_inv_def intro: evolves_apply_breach)
  then have "\<exists>a' \<in> set (update_rows a_id (a_id a0) (apply_breach b t) (w_alarms w)). evolves a a'"
    using evolves_update [OF inv a0(1) refl _ a, of "apply_breach b t"] by blast
  then show ?thesis using run by (auto simp: fold_breach_def)
qed

lemma alarm_step_evolves:
  assumes "alarm_step c w e w'" and inv: "alarm_inv w" and a: "a \<in> set (w_alarms w)"
  shows "\<exists>a' \<in> set (w_alarms w'). evolves a a'"
  using assms(1)
proof cases
  case (breach d b tid trig actor r)
  obtain x created where r: "r = (x, created)" by (cases r)
  from breach(2) [unfolded r] show ?thesis
  proof (cases rule: create_or_update_cases)
    case (fold t w1 a0)
    have w1: "w_alarms w1 = w_alarms w" using fold(1) by (rule instant_or_now_split)
    then have "a0 \<in> set (open_alarms w)" using find_open_Some(1) [OF fold(2)] by (simp add: open_alarms_def)
    then show ?thesis using evolves_fold_breach [OF inv _ fold(3) w1 a] by blast
  next
    case (create t w1 w3)
    have "w_alarms w1 = w_alarms w" using create(1) by (rule instant_or_now_split)
    then have "w_alarms w' = w_alarms w @ [x]" using create(4) alarm_create_Inr(1) [OF create(3)] by simp
    then show ?thesis using a evolves_refl by auto
  next
    case (race t w1 a0)
    then show ?thesis by simp
  qed
next
  case (acknowledge i actor nt r)
  obtain b where b: "alarm_get i w = Some b" "a_status b = ''ACTIVE''"
    and w': "w_alarms w' = update_rows a_id i (ack_fields (c_clock c (w_ticks w)) actor) (w_alarms w)"
    using acknowledge(2) by (rule acknowledge_alarm_Inr)
  have "evolves b (ack_fields (c_clock c (w_ticks w)) actor b)"
    using b(2) by (simp add: evolves_def ack_fields_def alarm_key_def ACTIVITY_AT_def split: option.splits)
  then show ?thesis using evolves_update [OF inv _ _ _ a] alarm_get_row [OF b(1)] w' by fastforce
next
  case (clear i actor reason r)
  obtain b where b: "alarm_get i w = Some b" "a_status b \<noteq> ''CLEARED''"
    and w': "w_alarms w' = update_rows a_id i (clear_fields (c_clock c (w_ticks w)) reason) (w_alarms w)"
    using clear(2) by (rule clear_alarm_Inr) auto
  have "evolves b (clear_fields (c_clock c (w_ticks w)) reason b)"
    using b(2) by (simp add: evolves_def clear_fields_def alarm_key_def ACTIVITY_AT_def split: option.splits)
  then show ?thesis using evolves_update [OF inv _ _ _ a] alarm_get_row [OF b(1)] w' by fastforce
next
  case elsewhere
  then show ?thesis using a evolves_refl by auto
qed


section \<open>Simulation of the abstract counter map\<close>

lemma alarm_abs_Some_iff:
  assumes "alarm_inv w"
  shows "alarm_abs w k = Some n \<longleftrightarrow>
    (\<exists>a \<in> set (w_alarms w). OPEN_INSTANCE_PREDICATE a \<and> alarm_key a = k \<and> a_occurrence_count a = n)"
proof -
  obtain d r where k: "k = (d, r)" by (cases k)
  show ?thesis
    unfolding k alarm_abs_find_open [OF assms]
    by (auto simp: find_open_iff [OF assms] open_alarms_def)
qed

lemma map_eqI: "(\<And>k v. m k = Some v \<longleftrightarrow> m' k = Some v) \<Longrightarrow> m = m'"
  by (rule ext) (metis option.exhaust)

lemma alarm_abs_fold:
  assumes inv: "alarm_inv w" and a0: "a0 \<in> set (open_alarms w)"
    and w': "alarm_inv w'" "w_alarms w' = update_rows a_id (a_id a0) (apply_breach b t) (w_alarms w)"
  shows "alarm_abs w' = spec_breach (alarm_key a0) (alarm_abs w)"
proof -
  have a0': "a0 \<in> set (w_alarms w)" "OPEN_INSTANCE_PREDICATE a0" using a0 by (auto simp: open_alarms_def)
  have uniq: "a = a0" if "a \<in> set (w_alarms w)" "a_id a = a_id a0" for a
    using inv that a0' by (auto simp: alarm_inv_def dest: distinct_map_eq)
  have uniqk: "a = a0" if "a \<in> set (w_alarms w)" "OPEN_INSTANCE_PREDICATE a" "alarm_key a = alarm_key a0" for a
    using inv that a0' by (auto simp: alarm_inv_def open_alarms_def dest: distinct_map_eq)
  have cur: "alarm_abs w (alarm_key a0) = Some (a_occurrence_count a0)"
    using a0' by (auto simp: alarm_abs_Some_iff [OF inv])
  show ?thesis
  proof (rule map_eqI)
    fix k v
    show "alarm_abs w' k = Some v \<longleftrightarrow> spec_breach (alarm_key a0) (alarm_abs w) k = Some v"
    proof (cases "k = alarm_key a0")
      case True
      have "alarm_abs w' k = Some (a_occurrence_count a0 + 1)"
        unfolding alarm_abs_Some_iff [OF w'(1)] w'(2) True
        using a0' by (intro bexI [of _ "apply_breach b t a0"]) (auto simp: update_rows_def)
      then show ?thesis using True cur by (auto simp: spec_breach_def)
    next
      case False
      have "alarm_abs w' k = Some v \<longleftrightarrow> alarm_abs w k = Some v"
        unfolding alarm_abs_Some_iff [OF w'(1)] alarm_abs_Some_iff [OF inv] w'(2)
        using False uniq by (fastforce simp: update_rows_def)
      then show ?thesis using False by (simp add: spec_breach_def)
    qed
  qed
qed

lemma alarm_abs_open:
  assumes inv: "alarm_inv w" and w': "alarm_inv w'" "w_alarms w' = w_alarms w @ [a]"
    and a: "OPEN_INSTANCE_PREDICATE a" "a_occurrence_count a = 1"
    and fresh: "alarm_key a \<notin> alarm_key ` set (open_alarms w)"
  shows "alarm_abs w' = spec_breach (alarm_key a) (alarm_abs w)"
proof -
  have none: "alarm_abs w (alarm_key a) = None"
  proof (cases "alarm_abs w (alarm_key a)")
    case (Some n)
    then obtain b where "b \<in> set (open_alarms w)" "alarm_key b = alarm_key a"
      by (auto simp: alarm_abs_Some_iff [OF inv] open_alarms_def)
    then show ?thesis using fresh by (metis imageI)
  qed
  show ?thesis
  proof (rule map_eqI)
    fix k v
    show "alarm_abs w' k = Some v \<longleftrightarrow> spec_breach (alarm_key a) (alarm_abs w) k = Some v"
    proof (cases "k = alarm_key a")
      case True
      have "alarm_abs w' k = Some 1"
        unfolding alarm_abs_Some_iff [OF w'(1)] w'(2) True using a by auto
      then show ?thesis using True none by (auto simp: spec_breach_def)
    next
      case False
      then show ?thesis
        unfolding alarm_abs_Some_iff [OF w'(1)] w'(2)
        by (auto simp: spec_breach_def alarm_abs_Some_iff [OF inv])
    qed
  qed
qed

definition abs_event ::
  "world \<Rightarrow> alarm_event \<Rightarrow> (string \<times> string \<rightharpoonup> int) \<Rightarrow> (string \<times> string \<rightharpoonup> int)" where
  "abs_event w e m =
     (case e of
        Breach d b _ _ _ \<Rightarrow> spec_breach (d, b_rule_id b) m
      | Clear i _ _ \<Rightarrow> (case alarm_get i w of None \<Rightarrow> m | Some a \<Rightarrow> spec_clear (alarm_key a) m)
      | Acknowledge _ _ _ \<Rightarrow> m
      | Elsewhere \<Rightarrow> m)"

lemma breach_refines:
  assumes inv: "alarm_inv w"
    and run: "create_or_update_alarm c (\<lambda>v. v) d b tid trig actor w = Inr ((a, created), w')"
  shows "alarm_abs w' = spec_breach (d, b_rule_id b) (alarm_abs w)"
proof -
  have inv': "alarm_inv w'" using alarm_inv_create_or_update [OF inv _ run] by simp
  from run show ?thesis
  proof (cases rule: create_or_update_cases)
    case (fold t w1 a0)
    have w1: "w_alarms w1 = w_alarms w" using fold(1) by (rule instant_or_now_split)
    have a0: "a0 \<in> set (open_alarms w)" "alarm_key a0 = (d, b_rule_id b)"
      using find_open_Some [OF fold(2)] w1 by (simp_all add: open_alarms_def)
    have "w_alarms w' = update_rows a_id (a_id a0) (apply_breach b t) (w_alarms w)"
      using fold(3) w1 by (auto simp: fold_breach_def)
    with alarm_abs_fold [OF inv a0(1) inv'] a0(2) show ?thesis by simp
  next
    case (create t w1 w3)
    note f = alarm_create_Inr [OF create(3)]
    have w1: "w_alarms w1 = w_alarms w" using create(1) by (rule instant_or_now_split)
    have w': "w_alarms w' = w_alarms w @ [a]" using f(1) create(4) w1 by simp
    have "alarm_key a \<notin> alarm_key ` set (open_alarms w)"
      using create(2) f(2) w1 by (simp add: find_open_None open_alarms_def)
    then show ?thesis
      using alarm_abs_open [OF inv inv' w'] f by (simp add: OPEN_INSTANCE_PREDICATE_def)
  next
    case (race t w1 a0)
    then show ?thesis by simp
  qed
qed

lemma alarm_abs_cong: "w_alarms w' = w_alarms w \<Longrightarrow> alarm_abs w' = alarm_abs w"
  by (simp add: alarm_abs_def open_alarms_def)

lemma acknowledge_refines:
  assumes inv: "alarm_inv w" and run: "acknowledge_alarm c i actor nt w = Inr (a', w')"
  shows "alarm_abs w' = alarm_abs w"
proof -
  obtain a where a: "alarm_get i w = Some a" "a_status a = ''ACTIVE''"
    and w': "w_alarms w' = update_rows a_id i (ack_fields (c_clock c (w_ticks w)) actor) (w_alarms w)"
    using acknowledge_alarm_Inr [OF run] by metis
  let ?f = "ack_fields (c_clock c (w_ticks w)) actor"
  have "OPEN_INSTANCE_PREDICATE (?f b) = OPEN_INSTANCE_PREDICATE b \<and> alarm_key (?f b) = alarm_key b \<and>
      a_occurrence_count (?f b) = a_occurrence_count b"
    if "b \<in> set (w_alarms w)" "a_id b = i" for b
    using alarm_get_member [OF inv that(1)] that(2) a
    by (auto simp: OPEN_INSTANCE_PREDICATE_def ack_fields_def alarm_key_def)
  then have "map (\<lambda>a. (alarm_key a, a_occurrence_count a))
      (filter OPEN_INSTANCE_PREDICATE (update_rows a_id i ?f as)) =
      map (\<lambda>a. (alarm_key a, a_occurrence_count a)) (filter OPEN_INSTANCE_PREDICATE as)"
    if "set as \<subseteq> set (w_alarms w)" for as
    using that by (induction as) (auto simp: update_rows_def)
  then show ?thesis using w' by (simp add: alarm_abs_def open_alarms_def)
qed

lemma clear_refines:
  assumes inv: "alarm_inv w" and run: "clear_alarm c i actor reason w = Inr (a', w')"
    and get: "alarm_get i w = Some a"
  shows "alarm_abs w' = spec_clear (alarm_key a) (alarm_abs w)"
proof -
  obtain a1 where a1: "alarm_get i w = Some a1" "a_status a1 \<noteq> ''CLEARED''"
    and w': "w_alarms w' = update_rows a_id i (clear_fields (c_clock c (w_ticks w)) reason) (w_alarms w)"
    using run by (rule clear_alarm_Inr) auto
  have inv': "alarm_inv w'" using alarm_inv_clear [OF inv run] .
  have a: "a \<in> set (w_alarms w)" "a_id a = i" "OPEN_INSTANCE_PREDICATE a"
    using alarm_get_row [OF get] a1 get by (auto simp: OPEN_INSTANCE_PREDICATE_def)
  have byid: "b = a" if "b \<in> set (w_alarms w)" "a_id b = i" for b
    using inv that a by (auto simp: alarm_inv_def dest: distinct_map_eq)
  have bykey: "b = a" if "b \<in> set (w_alarms w)" "OPEN_INSTANCE_PREDICATE b" "alarm_key b = alarm_key a" for b
    using inv that a by (auto simp: alarm_inv_def open_alarms_def dest: distinct_map_eq)
  have notopen: "\<not> OPEN_INSTANCE_PREDICATE (clear_fields ts re b)" for ts re b
    by (simp add: OPEN_INSTANCE_PREDICATE_def clear_fields_def)
  show ?thesis
  proof (rule map_eqI)
    fix k v
    show "alarm_abs w' k = Some v \<longleftrightarrow> spec_clear (alarm_key a) (alarm_abs w) k = Some v"
    proof (cases "k = alarm_key a")
      case True
      then show ?thesis
        unfolding alarm_abs_Some_iff [OF inv'] w' spec_clear_def
        using bykey a notopen by (auto elim!: in_update_rowsE)
    next
      case False
      then show ?thesis
        unfolding alarm_abs_Some_iff [OF inv'] w' spec_clear_def
        using byid notopen
        by (auto simp: alarm_abs_Some_iff [OF inv] update_rows_def split: if_splits)
    qed
  qed
qed

end
