(* ===== verification/AlarmProps.thy ===== *)
theory AlarmProps
  imports AlarmSystem
begin

text \<open>
  Properties of the alarm rule registry and the alarm lifecycle, each with a concrete instance of its
  hypotheses.
\<close>

section \<open>A small plant\<close>

definition demo_ctx :: ctx where
  "demo_ctx =
     \<lparr>c_trace_id = ''trace'', c_security = None, c_uuid4 = (\<lambda>n. replicate (Suc n) (CHR ''u'')),
      c_clock = (\<lambda>n. int n), c_collate = (\<lambda>s. s), c_fromisoformat = (\<lambda>_. None),
      c_float_of_str = (\<lambda>_. None)\<rparr>"

definition demo_device :: device where
  "demo_device =
     \<lparr>dev_id = ''d'', dev_device_id = ''motor-1'', dev_device_type = ''motor'', dev_name = ''M1'',
      dev_status = ''ACTIVE'', dev_asset_node_id = None\<rparr>"

definition demo_world :: world where
  "demo_world =
     empty_world\<lparr>w_devices := [demo_device]\<rparr>"

definition demo_breach :: rule_breach where
  "demo_breach =
     \<lparr>b_rule_id = ''hot'', b_rule_name = ''Hot'', b_signal_name = ''temperature'',
      b_operator = ''GT'', b_threshold = FNegInf, b_observed = FPosInf, b_severity = ''WARNING'',
      b_priority = ''MEDIUM'', b_message = ''too hot''\<rparr>"

definition demo_alarm :: alarm where
  "demo_alarm =
     \<lparr>a_id = ''u'', a_device_id = ''motor-1'', a_telemetry_id = None, a_rule_id = ''hot'',
      a_severity = ''WARNING'', a_status = ''ACTIVE'', a_message = ''too hot'', a_started_at = 10,
      a_cleared_at = None, a_acknowledged_at = None, a_acknowledged_by = None,
      a_clear_reason = None, a_occurrence_count = 1, a_last_triggered_at = Some 10\<rparr>"

definition demo_created :: audit_event where
  "demo_created =
     \<lparr>ae_id = ''uu'', ae_trace_id = ''trace'', ae_actor = ''backend'', ae_actor_user_id = None,
      ae_action = ''ALARM_CREATED'', ae_resource = ''motor-1'', ae_resource_id = None,
      ae_status = ''SUCCESS'', ae_ip_address = None, ae_user_agent = None,
      ae_details =
        [(''rule_id'', JStr ''hot''), (''severity'', JStr ''WARNING''), (''priority'', JStr ''MEDIUM''),
         (''alarm_id'', JStr ''u''), (''observed'', JNum FPosInf), (''threshold'', JNum FNegInf)],
      ae_timestamp = 0\<rparr>"

definition demo_open :: world where
  "demo_open =
     demo_world\<lparr>w_alarms := [demo_alarm], w_audit := [demo_created],
       w_metrics := [(''alarm_created_total'', [''hot'', ''WARNING''])], w_uuids := 2, w_ticks := 1\<rparr>"

lemmas demo_defs = empty_world_def demo_ctx_def demo_device_def demo_world_def demo_breach_def demo_alarm_def
  demo_created_def demo_open_def

lemma demo_breach_opens:
  "create_or_update_alarm demo_ctx (\<lambda>v. v) ''motor-1'' demo_breach None (Some 10) ''backend''
     demo_world = Inr ((demo_alarm, True), demo_open)"
  by (simp add: demo_defs create_or_update_alarm_def instant_or_now_def find_open_def
      alarm_create_def uuid4_def utc_now_def alarm_row_ok_def audit_add_def audit_event_of_def
      entry_def inc_metric_def Let_def resolved_actor_def or_else_def resolved_details_def
      OPEN_INSTANCE_PREDICATE_def)

lemma demo_open_reachable: "reachable no_alarms (alarm_step demo_ctx) demo_open"
proof (rule reachable.reach_step [OF reachable.reach_init])
  show "no_alarms demo_world" by (simp add: no_alarms_def demo_world_def)
  show "alarm_step demo_ctx demo_world (Breach ''motor-1'' demo_breach None (Some 10) ''backend'') demo_open"
    by (rule alarm_step.breach [OF demo_breach_opens])
qed

lemma demo_open_inv: "alarm_inv demo_open"
  using alarm_system.inv_reachable [OF demo_open_reachable] .

definition demo_cleared :: world where
  "demo_cleared =
     snd (sum.projr (clear_alarm demo_ctx ''u'' ''operator'' ''repaired'' demo_open))"

lemma demo_clear:
  "clear_alarm demo_ctx ''u'' ''operator'' ''repaired'' demo_open =
     Inr (clear_fields 1 ''repaired'' demo_alarm, demo_cleared)"
  by (simp add: demo_cleared_def demo_defs clear_alarm_def require_alarm_def alarm_get_def
      row_simps alarm_status_of_cases alarm_require_transition_def is_alarm_transition_allowed_def
      utc_now_def Let_def clear_fields_def)

section \<open>Rule evaluation\<close>

definition rule_fires :: "alarm_rule \<Rightarrow> (string \<times> pyfloat) list \<Rightarrow> string option \<Rightarrow> bool" where
  "rule_fires rule readings dt \<longleftrightarrow>
     r_enabled rule \<and> (r_device_type rule = None \<or> r_device_type rule = dt) \<and>
     (\<exists>x. map_of readings (r_signal_name rule) = Some x \<and>
          compare (r_operator rule) x (r_threshold rule) = Inr True)"

lemma evaluate_rule_by_fires:
  assumes "rule_row_ok rule"
  shows "\<exists>bs. evaluate_rule rule readings dt = Inr bs \<and>
    map b_rule_id bs = (if rule_fires rule readings dt then [r_id rule] else [])"
proof (cases "rule_fires rule readings dt")
  case True
  then obtain x where "\<not> rule_skipped rule dt" "map_of readings (r_signal_name rule) = Some x"
    "compare (r_operator rule) x (r_threshold rule) = Inr True"
    by (auto simp: rule_fires_def rule_skipped_def)
  with evaluate_rule_fires [of rule dt readings x] assms True show ?thesis
    by (auto simp: rule_row_ok_def breach_of_def)
next
  case False
  from evaluate_rule_total [of rule readings dt] assms obtain bs
    where bs: "evaluate_rule rule readings dt = Inr bs" by (auto simp: rule_row_ok_def)
  have "bs = []"
  proof (rule ccontr)
    assume "bs \<noteq> []"
    then have "hd bs \<in> set bs" by simp
    from evaluate_rule_breach [OF bs this] have "rule_fires rule readings dt"
      by (auto simp: rule_fires_def rule_skipped_def)
    with False show False by simp
  qed
  with bs False show ?thesis by simp
qed

text \<open>
  C1 (functional). On rules the registry accepts, evaluation never raises, and it reports exactly the
  rules that fire - enabled, applicable to the device type, with a reading for their signal that
  satisfies the comparison - once each and in the order the rules arrive.
\<close>

theorem evaluate_rules_exact:
  assumes "\<forall>rule \<in> set rules. rule_row_ok rule"
  shows "\<exists>bs. evaluate_rules rules readings dt = Inr bs \<and>
    map b_rule_id bs = map r_id (filter (\<lambda>rule. rule_fires rule readings dt) rules)"
proof -
  have "\<exists>css. mapE (\<lambda>rule. evaluate_rule rule readings dt) rules = Inr css \<and>
    map b_rule_id (concat css) = map r_id (filter (\<lambda>rule. rule_fires rule readings dt) rules)"
    using assms
  proof (induction rules)
    case Nil
    then show ?case by simp
  next
    case (Cons rule rules)
    then obtain css where css: "mapE (\<lambda>rule. evaluate_rule rule readings dt) rules = Inr css"
      "map b_rule_id (concat css) = map r_id (filter (\<lambda>rule. rule_fires rule readings dt) rules)"
      by auto
    obtain bs where bs: "evaluate_rule rule readings dt = Inr bs"
      "map b_rule_id bs = (if rule_fires rule readings dt then [r_id rule] else [])"
      using evaluate_rule_by_fires Cons.prems by (meson list.set_intros(1))
    have "mapE (\<lambda>rule. evaluate_rule rule readings dt) (rule # rules) = Inr (bs # css)"
      using bs(1) css(1) by simp
    moreover have "map b_rule_id (concat (bs # css)) =
        map r_id (filter (\<lambda>rule. rule_fires rule readings dt) (rule # rules))"
      using bs(2) css(2) by simp
    ultimately show ?case by blast
  qed
  then show ?thesis by (auto simp: evaluate_rules_mapE)
qed

definition demo_rule :: alarm_rule where
  "demo_rule =
     \<lparr>r_id = ''hot'', r_name = ''Hot'', r_description = [], r_device_type = None,
      r_signal_name = ''temperature'', r_operator = ''GT'', r_threshold = Fin 90,
      r_severity = ''WARNING'', r_priority = ''MEDIUM'', r_enabled = True, r_created_at = 0,
      r_updated_at = 0\<rparr>"

lemma demo_rule_ok: "rule_row_ok demo_rule"
  by (simp add: rule_row_ok_def demo_rule_def RULE_SIGNAL_NAMES_def RULE_OPERATORS_def
      RULE_SEVERITIES_def RULE_PRIORITIES_def)

lemma demo_rule_fires: "rule_fires demo_rule [(''temperature'', Fin 95)] (Some ''motor'')"
  by (simp add: rule_fires_def demo_rule_def compare_def)

theorem evaluate_rules_exact_witness:
  "\<exists>bs. evaluate_rules [demo_rule] [(''temperature'', Fin 95)] (Some ''motor'') = Inr bs \<and>
     map b_rule_id bs = [''hot'']"
  using evaluate_rules_exact [of "[demo_rule]" "[(''temperature'', Fin 95)]" "Some ''motor''"]
    demo_rule_ok demo_rule_fires by (simp add: demo_rule_def)

text \<open>
  Comparison is a function of its operator: the six registered operators never raise, any
  other operator raises \<^verbatim>\<open>ValueError\<close>, and a NaN reading satisfies no rule but a \<^verbatim>\<open>NE\<close> rule.
\<close>

theorem compare_operators:
  "(compare operator x t = Inl PyValueError \<longleftrightarrow> operator \<notin> set RULE_OPERATORS) \<and>
   (compare operator FNaN t = Inr True \<longleftrightarrow> operator = ''NE'')"
proof
  show "compare operator x t = Inl PyValueError \<longleftrightarrow> operator \<notin> set RULE_OPERATORS"
    by (simp add: compare_error_iff)
  have "float_less s FNaN = False" for s by (cases s) simp_all
  moreover have "float_eq s FNaN = False" for s by (cases s) simp_all
  ultimately show "compare operator FNaN t = Inr True \<longleftrightarrow> operator = ''NE''"
    by (simp add: compare_def float_le_def)
qed

section \<open>Rule registry\<close>

lemma valid_rule_row:
  "validate_rule_definition (def_of_rule r) = [] \<Longrightarrow> rule_row_ok r"
  by (simp add: validate_rule_definition_Nil_iff def_of_rule_def rule_row_ok_def)

lemma def_of_rule_row: "def_of_rule (rule_row_of_create p x y) = def_of_create p"
  by (simp add: def_of_rule_def rule_row_of_create_def def_of_create_def)

text \<open>
  Creating a rule has three outcomes, told apart by the definition and the registry:
  422 with the validation issues for an unusable definition, 409 for an identifier in use, and
  otherwise the rule is appended and one audit row is written. A definition that passes validation
  always meets the table constraints, so the insert itself cannot fail.
\<close>

theorem create_rule_outcome:
  "case create_rule c p actor w of
     Inl err \<Rightarrow>
       err = AlarmRuleValidationError (validate_rule_definition (def_of_create p)) \<and>
         validate_rule_definition (def_of_create p) \<noteq> [] \<or>
       err = AlarmRuleConflictError (rc_id p) \<and>
         validate_rule_definition (def_of_create p) = [] \<and> rc_id p \<in> r_id ` set (w_rules w)
   | Inr (r, w') \<Rightarrow>
       validate_rule_definition (def_of_create p) = [] \<and> rc_id p \<notin> r_id ` set (w_rules w) \<and>
       def_of_rule r = def_of_create p \<and> r_enabled r = rc_enabled p \<and>
       w_rules w' = w_rules w @ [r] \<and>
       (\<exists>e. w_audit w' = w_audit w @ [e] \<and> ae_action e = ''ALARM_RULE_CREATED'' \<and>
          ae_resource e = rc_id p)"
proof -
  let ?r = "rule_row_of_create p (c_clock c (w_ticks w)) (c_clock c (Suc (w_ticks w)))"
  have conflict: "rule_get (rc_id p) w \<noteq> None \<longleftrightarrow> rc_id p \<in> r_id ` set (w_rules w)"
    using find_row_None [of r_id "rc_id p" "w_rules w"] by (auto simp: rule_get_def)
  have rid: "r_id ?r = rc_id p" "r_enabled ?r = rc_enabled p"
    by (simp_all add: rule_row_of_create_def)
  have ok: "rule_row_ok ?r" if "validate_rule_definition (def_of_create p) = []"
    using valid_rule_row [of ?r] that by (simp add: def_of_rule_row)
  show ?thesis
    using conflict ok rid
    by (auto simp: create_rule_def Let_def rule_insert_def utc_now_def audit_add_audit
        audit_event_of_def entry_def def_of_rule_row)
qed

text \<open>What a patch does to a rule, when no column that must not be null is set to null.\<close>

lemma merged_None [simp]: "merged ch (Some x) = None \<longleftrightarrow> ch = Some None"
  by (simp add: merged_def split: option.splits)

lemma patched_fields:
  assumes "patched p r = Some r1"
  shows "def_of_rule r1 = merged_def p r" and "r_id r1 = r_id r"
  using assms
  by (auto simp: patched_def def_of_rule_def merged_def_def bind_eq_Some_conv)

lemma patched_None_iff:
  assumes "validate_rule_definition (merged_def p r) = []"
  shows "patched p r = None \<longleftrightarrow> ru_description p = Some None \<or> ru_enabled p = Some None"
proof -
  have "rule_name_ok (merged (ru_name p) (Some (r_name r)))"
    "in_vocabulary (merged (ru_signal_name p) (Some (r_signal_name r))) RULE_SIGNAL_NAMES"
    "in_vocabulary (merged (ru_operator p) (Some (r_operator r))) RULE_OPERATORS"
    "in_vocabulary (merged (ru_severity p) (Some (r_severity r))) RULE_SEVERITIES"
    "in_vocabulary (merged (ru_priority p) (Some (r_priority r))) RULE_PRIORITIES"
    "threshold_issues (merged_def p r) = []"
    using assms by (simp_all add: validate_rule_definition_Nil_iff merged_def_def)
  then obtain n1 n2 n3 n4 n5 n6 where
    "merged (ru_name p) (Some (r_name r)) = Some n1"
    "merged (ru_signal_name p) (Some (r_signal_name r)) = Some n2"
    "merged (ru_operator p) (Some (r_operator r)) = Some n3"
    "merged (ru_severity p) (Some (r_severity r)) = Some n4"
    "merged (ru_priority p) (Some (r_priority r)) = Some n5"
    "merged (ru_threshold p) (Some (r_threshold r)) = Some n6"
    by (simp add: rule_name_ok_def in_vocabulary_def threshold_issues_Nil_iff merged_def_def
        split: option.splits)
  then have "patched p r = None \<longleftrightarrow>
      merged (ru_description p) (Some (r_description r)) = None \<or>
      merged (ru_enabled p) (Some (r_enabled r)) = None"
    by (simp add: patched_def Option.bind_eq_None_conv del: merged_None)
  then show ?thesis by simp
qed

text \<open>
  A patch of an existing rule that passes the service's validation can still fail: setting
  \<^verbatim>\<open>description\<close> or \<^verbatim>\<open>enabled\<close> to an explicit null, which the request contract and the validation
  accept, reaches the database and raises an integrity error. Every other validated patch is stored,
  keeps the identifier and keeps the rule valid.
\<close>

theorem update_rule_null_columns:
  assumes "rule_get i w = Some r" and "changed_fields p \<noteq> []"
    and "validate_rule_definition (merged_def p r) = []"
  shows "(update_rule c i p actor w = Inl IntegrityError \<longleftrightarrow>
            ru_description p = Some None \<or> ru_enabled p = Some None) \<and>
         (update_rule c i p actor w = Inl IntegrityError \<or>
            (\<exists>r' w'. update_rule c i p actor w = Inr (r', w') \<and> r_id r' = r_id r \<and>
               validate_rule_definition (def_of_rule r') = [] \<and> rule_get i w' = Some r'))"
proof -
  have rid: "r_id r = i" using assms(1) find_row_Some by (metis rule_get_def)
  have upd: "update_rule c i p actor w =
      bindE (rule_apply_update c r p w) (\<lambda>(r', w1).
            Inr (r', audit_add c (entry ''ALARM_RULE_UPDATED'' (r_id r') ''SUCCESS''
              [(''changed_fields'', JList (map JStr (changed_fields p)))] (Some actor)) w1))"
    using assms by (simp add: update_rule_def get_rule_def Let_def)
  show ?thesis
  proof (cases "patched p r")
    case None
    then have "update_rule c i p actor w = Inl IntegrityError"
      by (simp add: upd rule_apply_update_def)
    with None patched_None_iff [OF assms(3)] show ?thesis by simp
  next
    case (Some r1)
    let ?r2 = "r1\<lparr>r_updated_at := c_clock c (w_ticks w)\<rparr>"
    have d: "def_of_rule ?r2 = merged_def p r" and rid1: "r_id ?r2 = i"
      using patched_fields [OF Some] rid by (simp_all add: def_of_rule_def)
    have valid: "validate_rule_definition (def_of_rule ?r2) = []" using assms(3) d by simp
    then have "rule_row_ok ?r2" by (rule valid_rule_row)
    then obtain w' where run: "update_rule c i p actor w = Inr (?r2, w')"
      and rows: "w_rules w' = update_rows r_id i (\<lambda>_. ?r2) (w_rules w)"
      using Some rid by (simp add: upd rule_apply_update_def utc_now_def Let_def)
    have "rule_get i w' = map_option (\<lambda>_. ?r2) (rule_get i w)"
      unfolding rule_get_def rows by (rule find_row_update_same) (simp add: rid1)
    then have "rule_get i w' = Some ?r2" using assms(1) by simp
    with run valid rid1 rid patched_None_iff [OF assms(3)] Some show ?thesis by auto
  qed
qed

definition null_enabled_patch :: rule_update where
  "null_enabled_patch =
     \<lparr>ru_name = None, ru_description = None, ru_device_type = None, ru_signal_name = None,
      ru_operator = None, ru_threshold = None, ru_severity = None, ru_priority = None,
      ru_enabled = Some None\<rparr>"

lemma demo_rule_valid: "validate_rule_definition (merged_def null_enabled_patch demo_rule) = []"
  by (simp add: validate_rule_definition_Nil_iff merged_def_def null_enabled_patch_def demo_rule_def
      merged_def rule_id_ok_def rule_name_ok_def MAX_RULE_ID_def MAX_NAME_def RULE_ID_ALLOWED_def
      py_strip_Nil_iff py_isspace_def RULE_SIGNAL_NAMES_def RULE_OPERATORS_def RULE_SEVERITIES_def
      RULE_PRIORITIES_def threshold_issues_Nil_iff SIGNAL_SPECS_def SignalSpec_def)

theorem update_rule_null_columns_witness:
  "update_rule demo_ctx ''hot'' null_enabled_patch ''backend'' (demo_world\<lparr>w_rules := [demo_rule]\<rparr>) =
     Inl IntegrityError"
proof -
  have get: "rule_get ''hot'' (demo_world\<lparr>w_rules := [demo_rule]\<rparr>) = Some demo_rule"
    by (simp add: rule_get_def row_simps demo_rule_def)
  have ch: "changed_fields null_enabled_patch \<noteq> []"
    by (simp add: changed_fields_def null_enabled_patch_def)
  show ?thesis
    using update_rule_null_columns [OF get ch demo_rule_valid, of demo_ctx "''backend''"]
    by (simp add: null_enabled_patch_def)
qed

section \<open>Lifecycle\<close>

text \<open>
  C2 (invariant). However breaches, acknowledgements, clears and changes by other components
  interleave, two open alarms for the same device and rule are the same alarm.
\<close>

theorem one_open_instance:
  assumes "reachable no_alarms (alarm_step c) w"
    and "a \<in> set (w_alarms w)" and "b \<in> set (w_alarms w)"
    and "a_status a \<noteq> ''CLEARED''" and "a_status b \<noteq> ''CLEARED''"
    and "a_device_id a = a_device_id b" and "a_rule_id a = a_rule_id b"
  shows "a = b"
proof -
  have "alarm_inv w" using assms(1) by (rule alarm_system.inv_reachable)
  moreover have "a \<in> set (open_alarms w)" "b \<in> set (open_alarms w)"
    using assms by (simp_all add: open_alarms_def OPEN_INSTANCE_PREDICATE_def)
  moreover have "alarm_key a = alarm_key b" using assms by (simp add: alarm_key_def)
  ultimately show ?thesis unfolding alarm_inv_def using distinct_map_eq by metis
qed

theorem one_open_instance_witness:
  "a_status demo_alarm = ''ACTIVE'' \<and> hd (w_alarms demo_open) = demo_alarm"
proof -
  have "hd (w_alarms demo_open) = demo_alarm"
    by (rule one_open_instance [OF demo_open_reachable]) (simp_all add: demo_open_def demo_alarm_def)
  then show ?thesis by (simp add: demo_alarm_def)
qed

text \<open>
  Every alarm of a reachable world is well formed: its status is in the vocabulary, it
  counts at least one breach, its last activity is not before its start, a clear time and a clear
  reason are recorded exactly on cleared alarms, an active alarm carries no acknowledgement and an
  acknowledged one carries its time and actor.
\<close>

theorem reachable_alarms_wf:
  assumes "reachable no_alarms (alarm_step c) w"
  shows "\<forall>a \<in> set (w_alarms w). alarm_wf a"
  using alarm_system.inv_reachable [OF assms] by (simp add: alarm_inv_def)

theorem reachable_alarms_wf_witness: "alarm_wf demo_alarm"
  using reachable_alarms_wf [OF demo_open_reachable] by (simp add: demo_open_def)

text \<open>
  C3 (refinement). The alarm table implements a map from device and rule to a breach counter: a breach
  starts the counter at one or adds one to it, a clear removes the counter of the cleared alarm, and
  an acknowledgement leaves every counter alone.
\<close>

theorem alarm_refinement:
  assumes "alarm_inv w" and "alarm_step c w e w'"
  shows "alarm_abs w' = abs_event w e (alarm_abs w)"
  using assms(2)
proof cases
  case (breach d b tid trig actor r)
  then show ?thesis
    using breach_refines [OF assms(1)] by (cases r) (simp add: abs_event_def)
next
  case (acknowledge i actor nt r)
  then show ?thesis using acknowledge_refines [OF assms(1)] by (simp add: abs_event_def)
next
  case (clear i actor reason r)
  obtain a where "alarm_get i w = Some a" using clear(2) by (rule clear_alarm_Inr)
  then show ?thesis using clear clear_refines [OF assms(1)] by (simp add: abs_event_def)
next
  case elsewhere
  then show ?thesis using alarm_abs_cong [of w' w] by (simp add: abs_event_def)
qed

theorem alarm_refinement_witness:
  "alarm_abs demo_cleared (''motor-1'', ''hot'') = None \<and>
   alarm_abs demo_open (''motor-1'', ''hot'') = Some 1"
proof -
  have "alarm_abs demo_cleared =
      abs_event demo_open (Clear ''u'' ''operator'' ''repaired'') (alarm_abs demo_open)"
    by (rule alarm_refinement [OF demo_open_inv alarm_step.clear [OF demo_clear]])
  then show ?thesis
    by (simp add: abs_event_def alarm_get_def demo_open_def row_simps demo_alarm_def spec_clear_def
        alarm_key_def alarm_abs_def open_alarms_def OPEN_INSTANCE_PREDICATE_def)
qed

lemma run_evolves:
  assumes "reachable (\<lambda>v. v = w) (alarm_step c) w'" and "alarm_inv w" and "a \<in> set (w_alarms w)"
  shows "alarm_inv w' \<and> (\<exists>a' \<in> set (w_alarms w'). evolves a a')"
  using assms(1)
proof (induction rule: reachable.induct)
  case (reach_init s)
  then show ?case using assms evolves_refl by auto
next
  case (reach_step s e t)
  then obtain a1 where "a1 \<in> set (w_alarms s)" "evolves a a1" by blast
  moreover from this reach_step obtain a2 where "a2 \<in> set (w_alarms t)" "evolves a1 a2"
    using alarm_step_evolves by blast
  ultimately show ?case using reach_step alarm_step_inv evolves_trans by blast
qed

text \<open>
  C4 (safety). No sequence of commands loses or rewrites alarm history: every alarm keeps its identity,
  device, rule, opening sample and start, its count and its last activity never decrease, a cleared
  alarm is never touched again (so it is never reopened), and an acknowledged alarm never returns to
  the active status although the transition table lists that move.
\<close>

theorem alarm_history_kept:
  assumes "reachable (\<lambda>v. v = w) (alarm_step c) w'" and "alarm_inv w" and "a \<in> set (w_alarms w)"
  shows "\<exists>a' \<in> set (w_alarms w').
    a_id a' = a_id a \<and> a_device_id a' = a_device_id a \<and> a_rule_id a' = a_rule_id a \<and>
    a_telemetry_id a' = a_telemetry_id a \<and> a_started_at a' = a_started_at a \<and>
    ACTIVITY_AT a \<le> ACTIVITY_AT a' \<and> a_occurrence_count a \<le> a_occurrence_count a' \<and>
    (a_status a = ''CLEARED'' \<longrightarrow> a' = a) \<and>
    (a_status a = ''ACKNOWLEDGED'' \<longrightarrow> a_status a' \<noteq> ''ACTIVE'')"
proof -
  obtain a' where "a' \<in> set (w_alarms w')" "evolves a a'" using run_evolves [OF assms] by blast
  then show ?thesis by (intro bexI [of _ a']) (auto simp: evolves_def alarm_key_def)
qed

theorem alarm_history_kept_witness:
  "\<exists>a' \<in> set (w_alarms demo_cleared). a_id a' = ''u'' \<and> a_started_at a' = 10"
proof -
  have run: "reachable (\<lambda>v. v = demo_open) (alarm_step demo_ctx) demo_cleared"
    by (rule reachable.reach_step [of _ _ demo_open])
       (auto intro: reachable.reach_init alarm_step.clear [OF demo_clear])
  show ?thesis
    using alarm_history_kept [OF run demo_open_inv, of demo_alarm]
    by (auto simp: demo_open_def demo_alarm_def)
qed

section \<open>Deduplication\<close>

text \<open>One condition breaching repeatedly: each sample is folded in turn.\<close>

definition breach_run ::
  "ctx \<Rightarrow> string \<Rightarrow> string \<Rightarrow> world \<Rightarrow> (rule_breach \<times> uuid option \<times> instant) list \<Rightarrow> app_error + world" where
  "breach_run c d actor w items =
     foldE (\<lambda>w (b, tid, t).
       bindE (create_or_update_alarm c (\<lambda>v. v) d b tid (Some t) actor w) (\<lambda>(_, w'). Inr w')) w items"

lemma update_rows_last:
  assumes "distinct (map key (rows @ [r]))"
  shows "update_rows key (key r) f (rows @ [r]) = rows @ [f r]"
proof -
  have "update_rows key (key r) f rows = rows"
    unfolding update_rows_def using assms by (intro map_idI) (auto simp: image_iff)
  then show ?thesis by (simp add: update_rows_append) (simp add: update_rows_def)
qed

lemma fold_on_last:
  assumes inv: "alarm_inv w" and w: "w_alarms w = as @ [a]" and a: "OPEN_INSTANCE_PREDICATE a"
    and k: "alarm_key a = (d, b_rule_id b)"
  obtains w' where "create_or_update_alarm c (\<lambda>v. v) d b tid (Some t) actor w =
      Inr ((apply_breach b t a, False), w')"
    "w_alarms w' = as @ [apply_breach b t a]" "w_audit w' = w_audit w" "w_metrics w' = w_metrics w"
    "alarm_inv w'"
proof -
  have "find_open d (b_rule_id b) w = Some a"
    using w a k by (simp add: find_open_iff [OF inv] open_alarms_def)
  then have run: "create_or_update_alarm c (\<lambda>v. v) d b tid (Some t) actor w =
      Inr (fold_breach a b t w)"
    by (simp add: create_or_update_alarm_def instant_or_now_def)
  have "update_rows a_id (a_id a) (apply_breach b t) (w_alarms w) = as @ [apply_breach b t a]"
    using inv w update_rows_last [of a_id as a] by (simp add: alarm_inv_def)
  then show thesis
    using that run alarm_inv_fold_breach [OF inv, of a b t] by (simp add: fold_breach_def)
qed

lemma breach_run_on_last:
  assumes "alarm_inv w" and "w_alarms w = as @ [a]" and "OPEN_INSTANCE_PREDICATE a"
    and "alarm_key a = (d, r)" and "\<forall>(b, _, _) \<in> set items. b_rule_id b = r"
    and "a_last_triggered_at a = Some l"
  shows "\<exists>w' a'. breach_run c d actor w items = Inr w' \<and> w_alarms w' = as @ [a'] \<and>
    a_id a' = a_id a \<and> alarm_key a' = (d, r) \<and> a_started_at a' = a_started_at a \<and>
    a_telemetry_id a' = a_telemetry_id a \<and> a_status a' = a_status a \<and>
    a_occurrence_count a' = a_occurrence_count a + int (length items) \<and>
    a_last_triggered_at a' = Some (foldl max l (map (\<lambda>(_, _, t). t) items)) \<and>
    w_audit w' = w_audit w \<and> w_metrics w' = w_metrics w"
  using assms
proof (induction items arbitrary: w a l)
  case Nil
  then show ?case by (simp add: breach_run_def)
next
  case (Cons x items)
  obtain b tid t where x: "x = (b, tid, t)" by (cases x) auto
  have k: "alarm_key a = (d, b_rule_id b)" using Cons.prems(4,5) x by simp
  obtain w1 where w1: "create_or_update_alarm c (\<lambda>v. v) d b tid (Some t) actor w =
      Inr ((apply_breach b t a, False), w1)" "w_alarms w1 = as @ [apply_breach b t a]"
    "w_audit w1 = w_audit w" "w_metrics w1 = w_metrics w" "alarm_inv w1"
    using fold_on_last [OF Cons.prems(1-3) k] by metis
  have l: "a_last_triggered_at (apply_breach b t a) = Some (max l t)"
    using Cons.prems(6) by (simp add: apply_breach_last)
  have "breach_run c d actor w (x # items) = breach_run c d actor w1 items"
    using w1(1) x by (simp add: breach_run_def)
  moreover note Cons.IH [OF w1(5,2) _ _ _ l]
  ultimately show ?case using Cons.prems(3-5) w1(3,4) x by auto
qed

text \<open>
  A run of breaches of one condition on one device, however long, produces one alarm:
  if no alarm is open and the first insert succeeds, the run succeeds, adds exactly one row, which
  counts all breaches, keeps the first sample and the first instant, and carries the latest instant
  whatever the arrival order; it writes one audit record and counts one creation.
\<close>

theorem consecutive_breaches_one_alarm:
  assumes inv: "alarm_inv w" and none: "find_open d (b_rule_id b) w = None"
    and first: "alarm_create c d tid (b_rule_id b) (b_severity b) (b_message b) (Some t) 1 w = Inr (a0, w0)"
    and same: "\<forall>(b', _, _) \<in> set items. b_rule_id b' = b_rule_id b"
  shows "\<exists>w' a. breach_run c d actor w ((b, tid, t) # items) = Inr w' \<and>
    w_alarms w' = w_alarms w @ [a] \<and> a_device_id a = d \<and> a_rule_id a = b_rule_id b \<and>
    a_status a = ''ACTIVE'' \<and> a_telemetry_id a = tid \<and> a_started_at a = t \<and>
    a_occurrence_count a = 1 + int (length items) \<and>
    a_last_triggered_at a = Some (foldl max t (map (\<lambda>(_, _, t). t) items)) \<and>
    (\<exists>e. w_audit w' = w_audit w @ [e] \<and> ae_action e = ''ALARM_CREATED'') \<and>
    w_metrics w' = w_metrics w @ [(''alarm_created_total'', [b_rule_id b, b_severity b])]"
proof -
  note f = alarm_create_Inr [OF first]
  define w1 where "w1 = snd (sum.projr
    (create_or_update_alarm c (\<lambda>v. v) d b tid (Some t) actor w))"
  have run: "create_or_update_alarm c (\<lambda>v. v) d b tid (Some t) actor w = Inr ((a0, True), w1)"
    using none first by (simp add: w1_def create_or_update_alarm_def instant_or_now_def Let_def)
  have w1: "w_alarms w1 = w_alarms w @ [a0]"
    "\<exists>e. w_audit w1 = w_audit w @ [e] \<and> ae_action e = ''ALARM_CREATED''"
    "w_metrics w1 = w_metrics w @ [(''alarm_created_total'', [b_rule_id b, b_severity b])]"
    using none first f(1,8,14)
    by (simp_all add: w1_def create_or_update_alarm_def instant_or_now_def Let_def audit_add_audit
        audit_event_of_def entry_def)
  have inv1: "alarm_inv w1" using alarm_inv_create_or_update [OF inv _ run] by simp
  have "breach_run c d actor w ((b, tid, t) # items) = breach_run c d actor w1 items"
    using run by (simp add: breach_run_def)
  moreover have "\<exists>w' a'. breach_run c d actor w1 items = Inr w' \<and> w_alarms w' = w_alarms w @ [a'] \<and>
    a_id a' = a_id a0 \<and> alarm_key a' = (d, b_rule_id b) \<and> a_started_at a' = a_started_at a0 \<and>
    a_telemetry_id a' = a_telemetry_id a0 \<and> a_status a' = a_status a0 \<and>
    a_occurrence_count a' = a_occurrence_count a0 + int (length items) \<and>
    a_last_triggered_at a' = Some (foldl max t (map (\<lambda>(_, _, t). t) items)) \<and>
    w_audit w' = w_audit w1 \<and> w_metrics w' = w_metrics w1"
    by (rule breach_run_on_last [OF inv1 w1(1) _ f(2) same f(5)])
       (simp add: OPEN_INSTANCE_PREDICATE_def f(3))
  ultimately show ?thesis using w1(2,3) f(3,4,6,9) by (auto simp: alarm_key_def)
qed

theorem consecutive_breaches_one_alarm_witness:
  "\<exists>w' a. breach_run demo_ctx ''motor-1'' ''backend'' demo_world
       [(demo_breach, None, 10), (demo_breach, None, 30), (demo_breach, None, 20)] = Inr w' \<and>
     w_alarms w' = [a] \<and> a_occurrence_count a = 3 \<and> a_started_at a = 10 \<and>
     a_last_triggered_at a = Some 30"
proof -
  have inv: "alarm_inv demo_world" by (simp add: alarm_inv_def open_alarms_def demo_world_def)
  have none: "find_open ''motor-1'' (b_rule_id demo_breach) demo_world = None"
    by (simp add: find_open_def demo_world_def)
  have first: "alarm_create demo_ctx ''motor-1'' None (b_rule_id demo_breach) (b_severity demo_breach)
      (b_message demo_breach) (Some 10) 1 demo_world =
      Inr (demo_alarm, demo_world\<lparr>w_alarms := [demo_alarm], w_uuids := 1\<rparr>)"
    by (simp add: demo_defs alarm_create_def uuid4_def alarm_row_ok_def Let_def)
  show ?thesis
    using consecutive_breaches_one_alarm
      [OF inv none first, of "[(demo_breach, None, 30), (demo_breach, None, 20)]" "''backend''"]
    by (auto simp: demo_world_def)
qed

text \<open>
  A lost race is not an error: when another session opens the same condition between
  this session's lookup and its insert, the insert is refused by the partial unique index and the
  breach is folded into the winner's alarm. No second row, audit record or creation count appears.
\<close>

theorem lost_race_folds:
  assumes "find_open d (b_rule_id b) w = None"
    and "find_open d (b_rule_id b) (others w) = Some a0"
  shows "\<exists>w'. create_or_update_alarm c others d b tid (Some t) actor w =
      Inr ((apply_breach b t a0, False), w') \<and>
    w_alarms w' = update_rows a_id (a_id a0) (apply_breach b t) (w_alarms (others w)) \<and>
    w_audit w' = w_audit (others w) \<and> w_metrics w' = w_metrics (others w)"
proof -
  have "alarm_key a0 \<in> alarm_key ` set (open_alarms (others w))"
    using find_open_Some(1) [OF assms(2)] by (rule imageI)
  moreover have "alarm_key a0 = (d, b_rule_id b)" using assms(2) by (rule find_open_Some(2))
  ultimately have "alarm_create c d tid (b_rule_id b) (b_severity b) (b_message b) (Some t) 1 (others w) =
      Inl IntegrityError"
    by (auto simp: alarm_create_def uuid4_def alarm_row_ok_def Let_def open_alarms_def alarm_key_def
        OPEN_INSTANCE_PREDICATE_def image_iff split: if_splits)
  with assms show ?thesis
    by (simp add: create_or_update_alarm_def instant_or_now_def fold_breach_def Let_def uuid4_def)
qed

theorem lost_race_folds_witness:
  "\<exists>w'. create_or_update_alarm demo_ctx (\<lambda>_. demo_open) ''motor-1'' demo_breach None (Some 12)
       ''backend'' demo_world = Inr ((apply_breach demo_breach 12 demo_alarm, False), w') \<and>
     w_audit w' = [demo_created]"
proof -
  have none: "find_open ''motor-1'' (b_rule_id demo_breach) demo_world = None"
    by (simp add: find_open_def demo_world_def)
  have win: "find_open ''motor-1'' (b_rule_id demo_breach) ((\<lambda>_. demo_open) demo_world) = Some demo_alarm"
    by (simp add: find_open_def demo_defs OPEN_INSTANCE_PREDICATE_def)
  show ?thesis
    using lost_race_folds [of "''motor-1''" demo_breach demo_world "\<lambda>_. demo_open", OF none win,
        of demo_ctx None 12 "''backend''"] by (auto simp: demo_open_def)
qed

section \<open>Operator commands\<close>

text \<open>
  Acknowledging an alarm: 404 for an unknown alarm; for a known one it depends on its
  status alone. An active alarm becomes acknowledged with the caller and the time recorded and one audit
  record; an acknowledged or cleared alarm is refused with 409 naming the legal next statuses; nothing
  else of the alarm and no other alarm changes.
\<close>

theorem acknowledge_alarm_outcome:
  assumes "alarm_inv w"
  shows "case acknowledge_alarm c i actor nt w of
      Inl err \<Rightarrow>
        (alarm_get i w = None \<and> err = AlarmNotFoundError i) \<or>
        (\<exists>a s. alarm_get i w = Some a \<and> a_status a = alarm_status_value s \<and> s \<noteq> ALARM_ACTIVE \<and>
           err = AlarmStateError i s ALARM_ACKNOWLEDGED (describe_alarm_transitions s))
    | Inr (a', w') \<Rightarrow>
        \<exists>a. alarm_get i w = Some a \<and> a_status a = ''ACTIVE'' \<and>
          a' = a\<lparr>a_status := ''ACKNOWLEDGED'', a_acknowledged_at := Some (c_clock c (w_ticks w)),
                 a_acknowledged_by := Some actor\<rparr> \<and>
          alarm_get i w' = Some a' \<and>
          (\<forall>j. j \<noteq> i \<longrightarrow> alarm_get j w' = alarm_get j w) \<and>
          (\<exists>e. w_audit w' = w_audit w @ [e] \<and> ae_action e = ''ALARM_ACKNOWLEDGED'')"
proof (cases "acknowledge_alarm c i actor nt w")
  case (Inl err)
  show ?thesis
  proof (cases "alarm_get i w")
    case None
    with Inl show ?thesis by (simp add: acknowledge_alarm_missing)
  next
    case (Some a)
    then have row: "a \<in> set (w_alarms w)" "a_id a = i" using alarm_get_row by blast+
    obtain s where s: "a_status a = alarm_status_value s"
      using assms row(1) by (auto simp: alarm_inv_def alarm_wf_def)
    have "s \<noteq> ALARM_ACTIVE \<and> err = AlarmStateError i s ALARM_ACKNOWLEDGED (describe_alarm_transitions s)"
      using Inl Some s row
      by (cases s) (auto simp: acknowledge_alarm_def require_alarm_def alarm_status_of_cases
          alarm_require_transition_def is_alarm_transition_allowed_def utc_now_def Let_def)
    with Inl Some s show ?thesis by auto
  qed
next
  case (Inr p)
  obtain a' w' where p: "p = (a', w')" by (cases p)
  let ?f = "ack_fields (c_clock c (w_ticks w)) actor"
  obtain a where a: "alarm_get i w = Some a" "a_status a = ''ACTIVE''" "a' = ?f a"
    "w_alarms w' = update_rows a_id i ?f (w_alarms w)"
    "\<exists>e. w_audit w' = w_audit w @ [e] \<and> ae_action e = ''ALARM_ACKNOWLEDGED''"
    using acknowledge_alarm_Inr [OF Inr [unfolded p]] by metis
  have "alarm_get i w' = Some (?f a)" "\<And>j. j \<noteq> i \<Longrightarrow> alarm_get j w' = alarm_get j w"
    using a(1) by (simp_all add: alarm_get_def a(4) row_simps ack_fields_def)
  with a p Inr show ?thesis by (auto simp: ack_fields_def)
qed

theorem acknowledge_alarm_outcome_witness:
  "\<exists>a' w'. acknowledge_alarm demo_ctx ''u'' ''operator'' None demo_open = Inr (a', w') \<and>
     a_status a' = ''ACKNOWLEDGED''"
proof -
  have get: "alarm_get ''u'' demo_open = Some demo_alarm"
    by (simp add: alarm_get_def demo_open_def row_simps demo_alarm_def)
  have "a_status demo_alarm = ''ACTIVE''" by (simp add: demo_alarm_def)
  with acknowledge_alarm_outcome [OF demo_open_inv, where c = demo_ctx and i = "''u''"
      and actor = "''operator''" and nt = None] get
  show ?thesis by (auto split: sum.splits dest: alarm_value_ACTIVE)
qed

text \<open>
  Clearing an alarm: 404 for an unknown alarm, 409 for one that is already cleared;
  an active or acknowledged alarm becomes cleared with the time and the reason recorded, counted once
  in the metrics and audited once, and no other alarm changes.
\<close>

theorem clear_alarm_outcome:
  assumes "alarm_inv w"
  shows "case clear_alarm c i actor reason w of
      Inl err \<Rightarrow>
        (alarm_get i w = None \<and> err = AlarmNotFoundError i) \<or>
        (\<exists>a. alarm_get i w = Some a \<and> a_status a = ''CLEARED'' \<and>
           err = AlarmStateError i ALARM_CLEARED ALARM_CLEARED [])
    | Inr (a', w') \<Rightarrow>
        \<exists>a. alarm_get i w = Some a \<and> OPEN_INSTANCE_PREDICATE a \<and>
          a' = a\<lparr>a_status := ''CLEARED'', a_cleared_at := Some (c_clock c (w_ticks w)),
                 a_clear_reason := Some reason\<rparr> \<and>
          alarm_get i w' = Some a' \<and> (\<forall>j. j \<noteq> i \<longrightarrow> alarm_get j w' = alarm_get j w) \<and>
          w_metrics w' = w_metrics w @ [(''alarm_cleared_total'', [a_rule_id a, a_severity a])] \<and>
          (\<exists>e. w_audit w' = w_audit w @ [e] \<and> ae_action e = ''ALARM_CLEARED'')"
proof (cases "alarm_get i w")
  case None
  then show ?thesis by (simp add: clear_alarm_missing)
next
  case (Some a)
  then have row: "a \<in> set (w_alarms w)" "a_id a = i" using alarm_get_row by blast+
  let ?f = "clear_fields (c_clock c (w_ticks w)) reason"
  have upd: "find_row a_id i (update_rows a_id i ?f (w_alarms w)) = Some (?f a)"
    "\<And>j. j \<noteq> i \<Longrightarrow> find_row a_id j (update_rows a_id i ?f (w_alarms w)) = find_row a_id j (w_alarms w)"
    using Some by (simp_all add: alarm_get_def row_simps clear_fields_def)
  obtain s where s: "a_status a = alarm_status_value s"
    using assms row(1) by (auto simp: alarm_inv_def alarm_wf_def)
  show ?thesis
  proof (cases s)
    case ALARM_CLEARED
    then show ?thesis using Some s row
      by (simp add: clear_alarm_def require_alarm_def alarm_status_of_cases
          alarm_require_transition_def is_alarm_transition_allowed_def describe_alarm_transitions_def)
  qed (use Some s row upd in \<open>auto simp: clear_alarm_def require_alarm_def alarm_status_of_cases
          alarm_require_transition_def is_alarm_transition_allowed_def utc_now_def Let_def
          set_alarm_def audit_add_audit audit_event_of_def entry_def OPEN_INSTANCE_PREDICATE_def
          alarm_get_def clear_fields_def [abs_def]\<close>)
qed

theorem clear_alarm_outcome_witness:
  "\<exists>a' w'. clear_alarm demo_ctx ''u'' ''operator'' ''repaired'' demo_open = Inr (a', w') \<and>
     a_status a' = ''CLEARED'' \<and> a_clear_reason a' = Some ''repaired''"
  using clear_alarm_outcome [OF demo_open_inv, where c = demo_ctx and i = "''u''"
      and actor = "''operator''" and reason = "''repaired''"]
  by (auto simp: demo_clear)

section \<open>Related alarms\<close>

text \<open>
  The related-alarm lookup: an open alarm of the device and rule wins whatever its
  age and without looking at the window; with none open, a window outside 1 to 86400 seconds or a naive
  reference is refused, and otherwise the answer is a most recently active alarm of that device and
  rule inside the window, or none when there is no such alarm.
\<close>

theorem find_related_alarm_spec:
  "case find_related_alarm c d r secs reference w of
     Inl err \<Rightarrow> err = CorrelationWindowError \<and> find_open d r w = None \<and>
       (secs \<notin> {1..MAX_WINDOW_SECONDS} \<or> (\<exists>n. reference = Some (Naive n)))
   | Inr (Some a, w') \<Rightarrow>
       find_open d r w = Some a \<or>
       find_open d r w = None \<and> a \<in> set (w_alarms w) \<and> a_device_id a = d \<and> a_rule_id a = r \<and>
         (\<exists>t. (case reference of Some (Aware s) \<Rightarrow> t = s | _ \<Rightarrow> t = c_clock c (w_ticks w)) \<and>
            t - seconds secs \<le> ACTIVITY_AT a) \<and>
         (\<forall>b \<in> {b \<in> set (w_alarms w). a_device_id b = d \<and> a_rule_id b = r}. ACTIVITY_AT b \<le> ACTIVITY_AT a)
   | Inr (None, w') \<Rightarrow>
       \<exists>t. (case reference of Some (Aware s) \<Rightarrow> t = s | _ \<Rightarrow> t = c_clock c (w_ticks w)) \<and>
         (\<forall>b \<in> {b \<in> set (w_alarms w). a_device_id b = d \<and> a_rule_id b = r}.
            ACTIVITY_AT b < t - seconds secs)"
proof (cases "find_open d r w")
  case (Some a)
  then show ?thesis by (simp add: find_related_alarm_def)
next
  case None
  show ?thesis
  proof (cases "window_start c reference secs w")
    case (Inl e)
    then show ?thesis using None
      by (auto simp: find_related_alarm_def window_start_def resolve_reference_def utc_now_def
          split: if_splits option.splits pydatetime.splits)
  next
    case (Inr p)
    obtain st w1 where p: "p = (st, w1)" by (cases p)
    define t where "t = (case reference of Some (Aware s) \<Rightarrow> s | _ \<Rightarrow> c_clock c (w_ticks w))"
    have st: "st = t - seconds secs" and w1: "w_alarms w1 = w_alarms w"
      and ref: "case reference of Some (Aware s) \<Rightarrow> t = s | _ \<Rightarrow> t = c_clock c (w_ticks w)"
      using Inr p by (auto simp: t_def window_start_def resolve_reference_def utc_now_def
          split: if_splits option.splits pydatetime.splits)
    let ?rows = "filter (\<lambda>a. a_device_id a = d \<and> st \<le> ACTIVITY_AT a \<and> a_rule_id a = r) (w_alarms w)"
    have res: "find_related_alarm c d r secs reference w =
        Inr (first_of (take 1 (sort_by by_activity_desc ?rows)), w1)"
      using None Inr p w1
      by (simp add: find_related_alarm_def alarm_related_def opt_eq_def)
    show ?thesis
    proof (cases "sort_by by_activity_desc ?rows")
      case Nil
      then have "?rows = []" by simp
      then have "\<forall>b \<in> {b \<in> set (w_alarms w). a_device_id b = d \<and> a_rule_id b = r}. ACTIVITY_AT b < st"
        by (auto simp: filter_empty_conv not_le)
      then show ?thesis using res Nil ref st by auto
    next
      case (Cons a as)
      have mem: "a \<in> set ?rows" using activity_order.sort_by_first_member [OF Cons] .
      have least: "ACTIVITY_AT b \<le> ACTIVITY_AT a" if "b \<in> set ?rows" for b
        using activity_order.sort_by_first_least [OF Cons that] by (auto simp: by_activity_desc_def)
      have "ACTIVITY_AT b \<le> ACTIVITY_AT a"
        if "b \<in> set (w_alarms w)" "a_device_id b = d" "a_rule_id b = r" for b
        using least [of b] that mem by (cases "st \<le> ACTIVITY_AT b") auto
      then show ?thesis using res Cons mem ref st None by auto
    qed
  qed
qed


text \<open>A cleared alarm that the lookup finds through the window.\<close>

definition demo_past :: alarm where
  "demo_past = demo_alarm\<lparr>a_status := ''CLEARED''\<rparr>"

lemma demo_past_found:
  "find_related_alarm demo_ctx ''motor-1'' ''hot'' 600 (Some (Aware 20)) (demo_world\<lparr>w_alarms := [demo_past]\<rparr>) =
     Inr (Some demo_past, demo_world\<lparr>w_alarms := [demo_past]\<rparr>)"
  by (simp add: find_related_alarm_def find_open_def alarm_related_def window_start_def resolve_reference_def
      OPEN_INSTANCE_PREDICATE_def open_alarm_status_values_def OPEN_ALARM_STATUSES_def MAX_WINDOW_SECONDS_def
      demo_past_def demo_alarm_def demo_world_def first_of_def opt_eq_def ACTIVITY_AT_def seconds_def sort_by_def)

theorem find_related_alarm_spec_witness:
  "find_open ''motor-1'' ''hot'' (demo_world\<lparr>w_alarms := [demo_past]\<rparr>) = Some demo_past \<or>
   20 - seconds 600 \<le> ACTIVITY_AT demo_past"
  using find_related_alarm_spec [where c = demo_ctx and d = "''motor-1''" and r = "''hot''" and secs = 600
      and reference = "Some (Aware 20)" and w = "demo_world\<lparr>w_alarms := [demo_past]\<rparr>"]
  by (auto simp: demo_past_found)

end
