(* ===== verification/IncidentProps.thy ===== *)
theory IncidentProps
  imports IncidentLemmas AlarmProps
begin

text \<open>
  Properties of the incident lifecycle, of alarm correlation, of the operations centre's queries and
  of the workflow gate, each with a concrete instance of its hypotheses.
\<close>

section \<open>Lifecycle commands\<close>

datatype incident_command =
  AckIncident "string option" | Investigate | Resolve | CloseIncident | Reopen

fun run_incident_command ::
  "ctx \<Rightarrow> incident_command \<Rightarrow> uuid \<Rightarrow> string \<Rightarrow> world \<Rightarrow> app_error + incident \<times> world" where
  "run_incident_command c (AckIncident nt) k actor w = acknowledge_incident c k actor nt w"
| "run_incident_command c Investigate k actor w = start_investigation c k actor w"
| "run_incident_command c Resolve k actor w = resolve_incident c k actor w"
| "run_incident_command c CloseIncident k actor w = close_incident c k actor w"
| "run_incident_command c Reopen k actor w = reopen_incident c k actor w"

fun command_target :: "incident_command \<Rightarrow> IncidentStatus" where
  "command_target (AckIncident _) = INC_ACKNOWLEDGED"
| "command_target Investigate = INC_INVESTIGATING"
| "command_target Resolve = INC_RESOLVED"
| "command_target CloseIncident = INC_CLOSED"
| "command_target Reopen = INC_REOPENED"

fun command_effect :: "incident_command \<Rightarrow> instant \<Rightarrow> string \<Rightarrow> incident \<Rightarrow> incident" where
  "command_effect (AckIncident _) = ack_incident_fields"
| "command_effect Investigate = investigate_fields"
| "command_effect Resolve = resolve_fields"
| "command_effect CloseIncident = close_fields"
| "command_effect Reopen = reopen_fields"

fun command_action :: "incident_command \<Rightarrow> string" where
  "command_action (AckIncident _) = ''INCIDENT_ACKNOWLEDGED''"
| "command_action Investigate = ''INCIDENT_INVESTIGATION_STARTED''"
| "command_action Resolve = ''INCIDENT_RESOLVED''"
| "command_action CloseIncident = ''INCIDENT_CLOSED''"
| "command_action Reopen = ''INCIDENT_REOPENED''"

lemmas incident_command_simps = run_incident_command.simps command_target.simps
  command_effect.simps command_action.simps

interpretation any_command: lifecycle_command
  "\<lambda>c k actor w. run_incident_command c cmd k actor w" "command_target cmd" "command_effect cmd"
  "command_action cmd" for cmd
proof (cases cmd)
  case (AckIncident nt)
  then show "lifecycle_command (\<lambda>c k actor w. run_incident_command c cmd k actor w) (command_target cmd)
      (command_effect cmd) (command_action cmd)"
    using ack_incident.lifecycle_command_axioms [of nt] by (simp add: incident_command_simps)
next
  case Investigate
  then show "lifecycle_command (\<lambda>c k actor w. run_incident_command c cmd k actor w) (command_target cmd)
      (command_effect cmd) (command_action cmd)"
    using investigate.lifecycle_command_axioms by (simp add: incident_command_simps)
next
  case Resolve
  then show "lifecycle_command (\<lambda>c k actor w. run_incident_command c cmd k actor w) (command_target cmd)
      (command_effect cmd) (command_action cmd)"
    using resolve.lifecycle_command_axioms by (simp add: incident_command_simps)
next
  case CloseIncident
  then show "lifecycle_command (\<lambda>c k actor w. run_incident_command c cmd k actor w) (command_target cmd)
      (command_effect cmd) (command_action cmd)"
    using close.lifecycle_command_axioms by (simp add: incident_command_simps)
next
  case Reopen
  then show "lifecycle_command (\<lambda>c k actor w. run_incident_command c cmd k actor w) (command_target cmd)
      (command_effect cmd) (command_action cmd)"
    using reopen.lifecycle_command_axioms by (simp add: incident_command_simps)
qed

text \<open>
  Every lifecycle command on every input: an unknown id and an unrecognised stored
  status are refused, a move the transition table does not list is refused with the moves it does
  list, and any other command rewrites exactly the named incident and appends exactly one audit row
  about it.
\<close>

theorem incident_command_outcome:
  "case incident_get k w of
     None \<Rightarrow> run_incident_command c cmd k actor w = Inl (IncidentNotFoundError k)
   | Some i \<Rightarrow>
       (case as_incident_status (i_status i) of
          None \<Rightarrow> run_incident_command c cmd k actor w = Inl (IncidentStatusUnknownError k (i_status i))
        | Some s \<Rightarrow>
            if command_target cmd \<in> set (INCIDENT_TRANSITIONS s)
            then \<exists>w' e. run_incident_command c cmd k actor w =
                Inr (command_effect cmd (c_clock c (w_ticks w)) actor i, w') \<and>
              w_incidents w' =
                update_rows i_id k (command_effect cmd (c_clock c (w_ticks w)) actor) (w_incidents w) \<and>
              w_audit w' = w_audit w @ [e] \<and> ae_action e = command_action cmd \<and> ae_resource e = k \<and>
              w_links w' = w_links w \<and> w_alarms w' = w_alarms w \<and>
              workflow_tables w' = workflow_tables w
            else run_incident_command c cmd k actor w =
              Inl (IncidentStateError k s (command_target cmd) (describe_incident_transitions s)))"
  by (rule any_command.cmd_outcome)

section \<open>Correlation\<close>

lemma update_rows_twice:
  "(\<And>r. key (f r) = key r) \<Longrightarrow>
     update_rows key k g (update_rows key k f rs) = update_rows key k (\<lambda>r. g (f r)) rs"
  by (simp add: update_rows_def)

lemma absorb_alarm_idem: "absorb_alarm a (absorb_alarm a i) = absorb_alarm a i"
  by (cases i) (auto simp: absorb_alarm_def Let_def split: option.splits)

text \<open>
  Attaching is idempotent: attaching the same alarm to the same incident again reports
  that nothing was attached, adds no link and no audit row and leaves every incident as it was.
\<close>

theorem attach_idempotent:
  assumes "attach_alarm_to_incident c i a actor w = Inr ((att, i'), w1)"
  shows "\<exists>w2. attach_alarm_to_incident c i' a actor' w1 = Inr ((False, i'), w2) \<and>
    w_links w2 = w_links w1 \<and> w_audit w2 = w_audit w1 \<and> w_incidents w2 = w_incidents w1"
  using assms
proof (rule attach_Inr)
  fix ls es
  assume dev: "i_device_id i = None \<or> i_device_id i = Some (a_device_id a)"
    and i': "i' = absorb_alarm a i"
    and rows: "w_incidents w1 = update_rows i_id (i_id i) (absorb_alarm a) (w_incidents w)"
    and links: "w_links w1 = w_links w @ ls"
    and new: "att \<longleftrightarrow> (i_id i, a_id a) \<notin> link_pair ` set (w_links w)"
    and ls: "map link_pair ls = (if att then [(i_id i, a_id a)] else [])"
  have "(i_id i, a_id a) \<in> link_pair ` set (w_links w1)"
    using new ls by (auto simp: links image_Un simp flip: set_map)
  then have "link c (i_id i') (a_id a) w1 =
      Inr (None, w1\<lparr>w_uuids := Suc (w_uuids w1), w_ticks := Suc (w_ticks w1)\<rparr>)"
    by (simp add: link_eq Let_def i')
  moreover have "update_rows i_id (i_id i) (absorb_alarm a) (w_incidents w1) = w_incidents w1"
    by (simp add: rows update_rows_twice absorb_alarm_idem)
  ultimately show ?thesis
    using dev by (auto simp: attach_alarm_to_incident_def Let_def i' set_incident_def absorb_alarm_idem)
qed


lemma demo_fresh: "fresh_uuids demo_ctx demo_open"
  by (simp add: fresh_uuids_def demo_defs)

lemma demo_uuid_inj: "\<forall>m n. c_uuid4 demo_ctx m = c_uuid4 demo_ctx n \<longrightarrow> m = n"
  by (simp add: demo_ctx_def)

lemma demo_incident_inv: "incident_inv demo_open"
  by (simp add: incident_inv_def demo_defs)


definition demo_incident :: incident where
  "demo_incident =
     \<lparr>i_id = ''i'', i_device_id = Some ''motor-1'', i_title = ''motor-1 correlated alarm condition'',
      i_description = [], i_status = ''OPEN'', i_priority = ''LOW'', i_severity = Some ''MINOR'',
      i_acknowledged_at = None, i_acknowledged_by = None, i_resolved_at = None, i_closed_at = None,
      i_last_alarm_at = Some 10, i_created_at = 0\<rparr>"

definition demo_live :: world where
  "demo_live = demo_open\<lparr>w_incidents := [demo_incident]\<rparr>"

lemma demo_attach:
  "\<exists>w1. attach_alarm_to_incident demo_ctx demo_incident demo_alarm ''op'' demo_live =
     Inr ((True, absorb_alarm demo_alarm demo_incident), w1)"
  by (simp add: attach_alarm_to_incident_def link_eq Let_def demo_live_def demo_incident_def demo_defs)

theorem attach_idempotent_witness:
  "\<exists>i' w1 w2. attach_alarm_to_incident demo_ctx demo_incident demo_alarm ''op'' demo_live =
       Inr ((True, i'), w1) \<and>
     attach_alarm_to_incident demo_ctx i' demo_alarm ''other'' w1 = Inr ((False, i'), w2) \<and>
     w_audit w2 = w_audit w1"
proof -
  obtain w1 where w1: "attach_alarm_to_incident demo_ctx demo_incident demo_alarm ''op'' demo_live =
      Inr ((True, absorb_alarm demo_alarm demo_incident), w1)" using demo_attach by blast
  then show ?thesis using attach_idempotent [OF w1, of "''other''"] by blast
qed

lemma open_status_OPEN: "''OPEN'' \<in> set open_incident_status_values"
  using open_incident_status_values_iff [of INC_OPEN] by simp

text \<open>
  An alarm outside the window of the device's live incident opens a second one, and
  the first stays live beside it: correlation does not keep one live incident per device.
\<close>

theorem correlation_opens_second_live:
  assumes inv: "incident_inv w" and live: "find_open_for_device (a_device_id a) w = Some i"
    and out: "\<not> within_window i a window"
    and run: "correlate_alarm c a window actor w = Inr ((i', created), w')"
  shows "created \<and> i_id i' \<noteq> i_id i \<and> {i, i'} \<subseteq> set (w_incidents w') \<and>
    OPEN_INCIDENT_PREDICATE i \<and> OPEN_INCIDENT_PREDICATE i' \<and> i_device_id i' = i_device_id i"
proof -
  have none: "joins a window w = None" using live out by (simp add: joins_def)
  note i = find_open_for_device_Some [OF live]
  from run none obtain j w1 att where cr: "create_incident_for c a actor w = Inr (j, w1)"
    and at: "attach_alarm_to_incident c j a actor w1 = Inr ((att, i'), w')" and created
    by (auto elim: correlate_Inr)
  have rows: "w_incidents w' = update_rows i_id (i_id j) (absorb_alarm a) (w_incidents w1)"
    and i': "i' = absorb_alarm a j" using at by (auto elim: attach_Inr)
  from cr have j: "w_incidents w1 = w_incidents w @ [j]" "i_id j \<notin> i_id ` set (w_incidents w)"
    "i_status j = ''OPEN''" "i_device_id j = Some (a_device_id a)"
    by (auto elim!: create_incident_for_Inr)
  have "i_id j \<noteq> i_id i" using j(2) i(1) by (metis imageI)
  moreover from this have "i \<in> set (w_incidents w')"
    using i(1) by (force simp: rows j(1) update_rows_def)
  moreover have "i' \<in> set (w_incidents w')" by (simp add: rows j(1) update_rows_def i')
  ultimately show ?thesis
    using \<open>created\<close> i j by (simp add: i' OPEN_INCIDENT_PREDICATE_def open_status_OPEN)
qed

definition demo_late :: alarm where
  "demo_late = demo_alarm\<lparr>a_last_triggered_at := Some (seconds 700)\<rparr>"

lemma demo_live_find: "find_open_for_device ''motor-1'' demo_live = Some demo_incident"
  using open_status_OPEN
  by (simp add: find_open_for_device_def demo_live_def demo_incident_def OPEN_INCIDENT_PREDICATE_def)

lemma demo_live_correlate:
  "\<exists>r w'. correlate_alarm demo_ctx demo_late 600 ''backend'' demo_live = Inr (r, w')"
  using demo_live_find
  by (auto simp: correlate_alarm_def demo_late_def within_window_def demo_incident_def
      alarm_activity_at_def seconds_def demo_defs create_incident_for_def incident_insert_def
      uuid4_def utc_now_def Let_def demo_live_def attach_alarm_to_incident_def link_eq)

theorem correlation_opens_second_live_witness:
  "\<exists>i' w'. correlate_alarm demo_ctx demo_late 600 ''backend'' demo_live = Inr ((i', True), w') \<and>
     i_id i' \<noteq> i_id demo_incident \<and> {demo_incident, i'} \<subseteq> set (w_incidents w')"
proof -
  obtain i' created w' where
    run: "correlate_alarm demo_ctx demo_late 600 ''backend'' demo_live = Inr ((i', created), w')"
    using demo_live_correlate by fastforce
  have inv: "incident_inv demo_live"
    by (simp add: incident_inv_def demo_live_def demo_incident_def incident_wf_def
        incident_statuses_def demo_defs)
  have dev: "a_device_id demo_late = ''motor-1''" by (simp add: demo_late_def demo_alarm_def)
  have "\<not> within_window demo_incident demo_late 600"
    by (simp add: within_window_def demo_incident_def demo_late_def alarm_activity_at_def seconds_def)
  from correlation_opens_second_live [OF inv _ this run] run show ?thesis
    by (auto simp: dev demo_live_find)
qed

section \<open>Operations centre\<close>

text \<open>The reference for one dashboard row: one query per column, for one incident.\<close>

definition reference_row :: "world \<Rightarrow> incident \<Rightarrow> dashboard_row" where
  "reference_row w i =
     \<lparr>dr_incident_id = i_id i, dr_title = i_title i, dr_status = i_status i,
      dr_severity = i_severity i, dr_priority = i_priority i,
      dr_device_id = map_option dev_device_id (fst (device_with_asset i w)),
      dr_asset_name = map_option n_name (snd (device_with_asset i w)),
      dr_workflow_status = map_option wr_status (latest_workflow (i_id i) w),
      dr_created_at = i_created_at i, dr_last_alarm_at = i_last_alarm_at i,
      dr_resolved_at = i_resolved_at i\<rparr>"

lemma map_of_fold_setdefault:
  "map_of (fold (\<lambda>r m. setdefault (key r) (v r) m) rs m) k =
     (case map_of m k of Some x \<Rightarrow> Some x | None \<Rightarrow> map_option v (find (\<lambda>r. key r = k) rs))"
proof (induction rs arbitrary: m)
  case Nil
  then show ?case by (simp split: option.splits)
next
  case (Cons r rs)
  have "map_of (setdefault (key r) (v r) m) k =
      (case map_of m k of Some x \<Rightarrow> Some x | None \<Rightarrow> if key r = k then Some (v r) else None)"
  proof -
    have dom: "key r \<in> fst ` set m \<longleftrightarrow> map_of m (key r) \<noteq> None" by (simp add: map_of_eq_None_iff)
    show ?thesis unfolding setdefault_def dom by (auto simp: map_add_def split: option.splits)
  qed
  with Cons show ?case by (auto split: option.splits)
qed

lemma find_first_of: "find P xs = first_of (filter P xs)"
  by (induction xs) (simp_all add: first_of_def)

lemma latest_workflow_statuses_exact:
  assumes "k \<in> set ks"
  shows "map_of (latest_workflow_statuses ks w) k = map_option wr_status (latest_workflow k w)"
proof -
  have "filter (\<lambda>r. wr_incident_id r = k) (filter (\<lambda>r. wr_incident_id r \<in> set ks) (w_runs w)) =
      filter (\<lambda>r. wr_incident_id r = k) (w_runs w)"
    using assms by (auto intro: filter_cong)
  then have "find (\<lambda>r. wr_incident_id r = k)
      (sort_by by_run_created_desc (filter (\<lambda>r. wr_incident_id r \<in> set ks) (w_runs w))) =
      latest_workflow k w"
    by (simp only: find_first_of run_order.filter_sort_by latest_workflow_def)
  with assms show ?thesis
    by (auto simp: latest_workflow_statuses_def Let_def map_of_fold_setdefault)
qed

lemma map_of_find_row:
  "map_of (map (\<lambda>r. (key r, v r)) (filter (\<lambda>r. key r \<in> S) rs)) k =
     (if k \<in> S then map_option v (find_row key k rs) else None)"
  by (induction rs) (auto simp: find_row_def)

lemma device_asset_names_exact:
  assumes "d \<in> set ds"
  shows "map_of (device_asset_names ds w) d =
    map_option (\<lambda>dev. (Option.bind (dev_asset_node_id dev)
        (\<lambda>n. map_option n_name (find_row n_id n (w_assets w))), Some (dev_device_id dev)))
      (find_row dev_device_id d (w_devices w))"
proof -
  let ?devs = "filter (\<lambda>d. dev_device_id d \<in> set ds) (w_devices w)"
  let ?ids = "List.map_filter dev_asset_node_id ?devs"
  let ?as = "map (\<lambda>n. (n_id n, n_name n)) (filter (\<lambda>n. n_id n \<in> set ?ids) (w_assets w))"
  have asset: "Option.bind (dev_asset_node_id dev) (map_of ?as) =
      Option.bind (dev_asset_node_id dev) (\<lambda>n. map_option n_name (find_row n_id n (w_assets w)))"
    if "find_row dev_device_id d (w_devices w) = Some dev" for dev
  proof (cases "dev_asset_node_id dev")
    case (Some n)
    have "dev \<in> set ?devs" using find_row_Some [OF that] assms by auto
    with Some have "n \<in> set ?ids" by (auto simp: List.map_filter_def image_iff intro!: bexI [of _ dev])
    with Some show ?thesis
      using map_of_find_row [of n_id n_name "set ?ids" "w_assets w" n] by simp
  qed simp
  have ne: "ds \<noteq> []" using assms by auto
  show ?thesis
    unfolding device_asset_names_def Let_def
    using assms ne asset
    by (cases "find_row dev_device_id d (w_devices w)")
       (simp_all add: map_of_find_row [of dev_device_id _ "set ds" "w_devices w" d])
qed

text \<open>
  The dashboard's three bulk queries give, row for row, what one query per incident
  and column gives: the same incidents in the same order, each with its device, the name of its asset
  and the status of its newest workflow run.
\<close>

theorem dashboard_rows_exact:
  assumes named: "[] \<notin> dev_device_id ` set (w_devices w)"
  shows "rows limit status severity device_id w =
    map (reference_row w) (incident_list_instances limit status severity device_id w)"
proof -
  let ?is = "incident_list_instances limit status severity device_id w"
  let ?ds = "List.map_filter i_device_id ?is"
  have unnamed: "map_of (device_asset_names ds w) [] = None" for ds
    using named by (force simp: device_asset_names_def Let_def map_of_eq_None_iff)
  have "dashboard_row_of (device_asset_names ?ds w) (latest_workflow_statuses (map i_id ?is) w) i =
      reference_row w i" if i: "i \<in> set ?is" for i
  proof -
    have wf: "map_of (latest_workflow_statuses (map i_id ?is) w) (i_id i) =
        map_option wr_status (latest_workflow (i_id i) w)"
      by (rule latest_workflow_statuses_exact) (use i in simp)
    show ?thesis
    proof (cases "i_device_id i")
      case None
      then show ?thesis
        by (simp add: dashboard_row_of_def reference_row_def unnamed wf device_with_asset_def)
    next
      case (Some d)
      with i have "d \<in> set ?ds" by (auto simp: List.map_filter_def image_iff intro!: bexI [of _ i])
      from device_asset_names_exact [OF this, of w] Some show ?thesis
        by (simp add: dashboard_row_of_def reference_row_def wf device_with_asset_def
            split: option.splits)
    qed
  qed
  then show ?thesis
    by (auto simp: rows_def Let_def incident_list_instances_def)
qed

theorem dashboard_rows_exact_witness:
  "rows 10 None None None demo_live = map (reference_row demo_live)
     (incident_list_instances 10 None None None demo_live)"
  by (rule dashboard_rows_exact) (simp add: demo_live_def demo_defs)

lemma workflow_entry_statuses: "WORKFLOW_ENTRY_STATUSES = [INC_OPEN, INC_ACKNOWLEDGED, INC_INVESTIGATING]"
  by (simp add: WORKFLOW_ENTRY_STATUSES_def incident_statuses_def is_incident_transition_allowed_def)

text \<open>
  The gate lets an incident into the decision workflow exactly when the incident exists,
  is open, acknowledged or under investigation, and its newest diagnosis names a device and is a
  fault or uncertain.
\<close>

theorem gate_exact:
  "ensure_ready k w = Inr (i, d) \<longleftrightarrow>
     incident_get k w = Some i \<and>
     i_status i \<in> {''OPEN'', ''ACKNOWLEDGED'', ''INVESTIGATING''} \<and>
     latest_diagnosis k w = Some d \<and> (\<exists>x. dg_device_id d = Some x \<and> x \<noteq> []) \<and>
     dg_status d \<in> {''FAULT'', ''UNCERTAIN''}"
proof (cases "incident_get k w")
  case None
  then show ?thesis by (simp add: ensure_ready_def require_incident_def)
next
  case (Some j)
  then have id: "i_id j = k" using incident_get_row by blast
  have entry: "(\<exists>s \<in> set WORKFLOW_ENTRY_STATUSES. as_incident_status (i_status j) = Some s) \<longleftrightarrow>
      i_status j \<in> {''OPEN'', ''ACKNOWLEDGED'', ''INVESTIGATING''}"
    by (simp add: workflow_entry_statuses incident_table.parse_Some_iff)
  show ?thesis
    using Some id entry
    by (cases "latest_diagnosis k w")
       (auto simp: ensure_ready_def require_incident_def WORKFLOW_READY_DIAGNOSIS_STATUSES_def
         split: option.splits if_splits)
qed

end
