(* ===== verification/Tower.thy ===== *)
theory Tower
  imports WorkflowLemmas IncidentProps
begin

text \<open>
  The incident and workflow services as one state machine. A state is the database with the runs
  whose agent graph is executing, so a cancellation or any other request can fall between the two
  transactions of a start. The alarm services, which write neither incidents nor workflow tables,
  are one event.
\<close>

section \<open>What the workflow does to incidents\<close>

lemma persist_plan_frame:
  "persist_plan c env st w = Inr (plan, w') \<Longrightarrow> w_incidents w' = w_incidents w \<and> w_links w' = w_links w"
  by (auto simp: persist_plan_def uuid4_def Let_def split: option.splits if_splits)

lemma persist_approval_frame:
  "persist_approval c st plan b w = Inr w' \<Longrightarrow> w_incidents w' = w_incidents w \<and> w_links w' = w_links w"
  by (auto simp: persist_approval_def uuid4_def utc_now_def Let_def split: option.splits if_splits)

lemma create_work_order_frame:
  "create_work_order c st plan appr w = Inr (wo, w') \<Longrightarrow>
     w_incidents w' = w_incidents w \<and> w_links w' = w_links w"
  by (auto simp: create_work_order_def uuid4_def Let_def split: option.splits if_splits prod.splits)

text \<open>A workflow step leaves the incidents alone or moves one of them to a workflow-owned status.\<close>

definition workflow_moves :: "world \<Rightarrow> world \<Rightarrow> bool" where
  "workflow_moves w w' \<longleftrightarrow> w_links w' = w_links w \<and>
     (w_incidents w' = w_incidents w \<or>
      (\<exists>k s. s \<in> {INC_UNDER_ANALYSIS, INC_ACTION_PENDING, INC_WORK_ORDER_CREATED} \<and>
        w_incidents w' =
          update_rows i_id k (\<lambda>i. i\<lparr>i_status := incident_status_value s\<rparr>) (w_incidents w)))"

lemma workflow_moves_same: "w_links w' = w_links w \<Longrightarrow> w_incidents w' = w_incidents w \<Longrightarrow> workflow_moves w w'"
  by (simp add: workflow_moves_def)

lemma workflow_moves_pre:
  "workflow_moves v w' \<Longrightarrow> w_incidents v = w_incidents w \<Longrightarrow> w_links v = w_links w \<Longrightarrow> workflow_moves w w'"
  by (simp add: workflow_moves_def)

lemma workflow_moves_status:
  "s \<in> {INC_UNDER_ANALYSIS, INC_ACTION_PENDING, INC_WORK_ORDER_CREATED} \<Longrightarrow>
   w_incidents w' = update_rows i_id k (\<lambda>i. i\<lparr>i_status := incident_status_value s\<rparr>) (w_incidents w) \<Longrightarrow>
   w_links w' = w_links w \<Longrightarrow> workflow_moves w w'"
  by (auto simp: workflow_moves_def)

lemma persist_incident_moves: "workflow_moves w (persist_incident st w)"
proof (cases "ws_status st = WF_WAITING_APPROVAL \<or> ws_status st = WF_WORK_ORDER_CREATED")
  case True
  then show ?thesis
    using workflow_moves_status [of INC_ACTION_PENDING "persist_incident st w" "ws_incident_id st" w]
      workflow_moves_status [of INC_WORK_ORDER_CREATED "persist_incident st w" "ws_incident_id st" w]
    by (auto simp: persist_incident_def)
next
  case False
  then show ?thesis by (simp add: persist_incident_def workflow_moves_def)
qed

lemma persist_result_moves:
  assumes "persist_result c env st b w = Inr (r, w')"
  shows "workflow_moves w w'"
proof -
  from assms obtain plan w1 w2 st' w4 f where
    pl: "persist_plan c env st w = Inr (plan, w1)"
    and ap: "persist_approval c st plan b w1 = Inr w2"
    and od: "(if ws_status st = WF_AUTO_ALLOWED
        then bindE (create_work_order c st plan None w2) (\<lambda>(wo, w3).
          Inr (at_stage WF_WORK_ORDER_CREATED (st\<lparr>ws_work_order_id := Some (wo_id wo)\<rparr>), w3))
        else Inr (st, w2)) = (Inr (st', w4) :: app_error + _)"
    and w': "w' = persist_incident st' (set_run (ws_workflow_run_id st) f w4)"
    by (auto simp: persist_result_def bindE_Inr_iff Let_def split: option.splits)
  have "w_incidents w4 = w_incidents w2 \<and> w_links w4 = w_links w2"
    using od by (auto simp: bindE_Inr_iff dest: create_work_order_frame split: if_splits)
  then have "w_incidents w4 = w_incidents w" "w_links w4 = w_links w"
    using persist_plan_frame [OF pl] persist_approval_frame [OF ap] by simp_all
  with persist_incident_moves [of "set_run (ws_workflow_run_id st) f w4" st'] show ?thesis
    unfolding w' by (auto intro: workflow_moves_pre)
qed

lemma start_finish_moves:
  assumes "runs_ok w" and run: "start_finish c env st w = (res, w')"
  shows "workflow_moves w w'"
proof -
  obtain g w1 where g: "run_graph c env st w = (g, w1)" by (cases "run_graph c env st w")
  have "agent_frame w w1" using graph_loop_frame [OF g [unfolded run_graph_def]] by blast
  note fr = agent_frame_tables [OF this]
  have same: "w_incidents (save_checkpoint k cp w1) = w_incidents w"
    "w_links (save_checkpoint k cp w1) = w_links w" for k cp
    by (simp_all add: save_checkpoint_def fr)
  show ?thesis
  proof (cases g)
    case (Raised e)
    have "runs_ok w1" using assms(1) by (simp add: runs_ok_def fr)
    from mark_failed_tables [OF this] run g Raised show ?thesis
      by (force simp: start_finish_def workflow_moves_def fr)
  next
    case (Interrupted st1)
    then show ?thesis
      using run g by (auto simp: start_finish_def Let_def same split: sum.splits
          intro: workflow_moves_same workflow_moves_pre [OF persist_result_moves])
  next
    case (Completed st1)
    then show ?thesis
      using run g by (auto simp: start_finish_def Let_def same split: sum.splits
          intro: workflow_moves_same workflow_moves_pre [OF persist_result_moves])
  qed
qed

lemma decide_approval_moves:
  assumes "wf_inv env w F" and "decide_approval c env x decision actor reason w = Inr (r', w')"
  shows "workflow_moves w w'"
  using assms
proof (cases rule: decide_approval_Inr)
  case again
  then show ?thesis by (simp add: workflow_moves_same)
next
  case (approved a row p st2 wo m cp n)
  then show ?thesis
    by (intro workflow_moves_status [of INC_WORK_ORDER_CREATED _ "ws_incident_id st2"]) simp_all
next
  case (rejected a row p st2 m cp)
  then show ?thesis by (simp add: workflow_moves_same)
qed

lemma cancel_moves: "cancel k w = Inr (r, w') \<Longrightarrow> workflow_moves w w'"
  by (auto simp: cancel_def Let_def workflow_moves_def split: option.splits if_splits)

section \<open>The invariant of the incidents under the workflow\<close>

definition reached_statuses :: "IncidentStatus list" where
  "reached_statuses =
     [INC_OPEN, INC_ACKNOWLEDGED, INC_INVESTIGATING, INC_UNDER_ANALYSIS, INC_ACTION_PENDING,
      INC_WORK_ORDER_CREATED]"

definition incidents_reached :: "world \<Rightarrow> bool" where
  "incidents_reached w \<longleftrightarrow>
     (\<forall>i \<in> set (w_incidents w). \<exists>s \<in> set reached_statuses. i_status i = incident_status_value s)"

lemma reached_no_exit:
  "s \<in> set reached_statuses \<Longrightarrow> t \<in> set (INCIDENT_TRANSITIONS s) \<Longrightarrow>
     t \<notin> {INC_RESOLVED, INC_CLOSED, INC_REOPENED}"
  by (auto simp: reached_statuses_def)

lemma incidents_moved:
  assumes inv: "incident_inv w" and mv: "workflow_moves w w'"
  shows "incident_inv w'" and "incidents_reached w \<Longrightarrow> incidents_reached w'"
    and "i \<in> set (w_incidents w) \<Longrightarrow> \<exists>i' \<in> set (w_incidents w'). incident_evolves i i'"
proof -
  have links: "w_links w' = w_links w" using mv by (simp add: workflow_moves_def)
  from mv consider (same) "w_incidents w' = w_incidents w"
    | (moved) k s where "s \<in> {INC_UNDER_ANALYSIS, INC_ACTION_PENDING, INC_WORK_ORDER_CREATED}"
      "w_incidents w' = update_rows i_id k (\<lambda>i. i\<lparr>i_status := incident_status_value s\<rparr>) (w_incidents w)"
    by (auto simp: workflow_moves_def)
  note cases = this
  show "incident_inv w'"
  proof (cases rule: cases)
    case same
    then show ?thesis using inv incident_inv_cong [OF same links] by simp
  next
    case (moved k s)
    show ?thesis
      by (rule incident_inv_update [OF inv _ _ moved(2) links])
         (auto simp: incident_wf_def incident_table.all_members)
  qed
  show "incidents_reached w'" if r: "incidents_reached w"
  proof (cases rule: cases)
    case same
    then show ?thesis using r by (simp add: incidents_reached_def)
  next
    case (moved k s)
    have "s \<in> set reached_statuses" using moved(1) by (auto simp: reached_statuses_def)
    then show ?thesis using r by (auto simp: incidents_reached_def moved(2) elim!: in_update_rowsE)
  qed
  show "\<exists>i' \<in> set (w_incidents w'). incident_evolves i i'" if i: "i \<in> set (w_incidents w)"
  proof (cases rule: cases)
    case same
    then show ?thesis using i incident_evolves_refl by auto
  next
    case (moved k s)
    show ?thesis
      by (rule incident_evolves_update [OF inv i moved(2)])
         (simp add: incident_evolves_def split: option.splits)
  qed
qed

section \<open>Steps\<close>

type_synonym tower = "world \<times> workflow_state list"

datatype tower_event =
    BeginRun uuid uuid
  | FinishRun uuid
  | Decide uuid string
  | CancelRun uuid
  | GatePass uuid
  | Command incident_command uuid
  | Correlate alarm
  | ManualIncident incident_create
  | AlarmWork

inductive tower_step :: "ctx \<Rightarrow> wf_env \<Rightarrow> tower \<Rightarrow> tower_event \<Rightarrow> tower \<Rightarrow> bool" for c env where
  begin_new: "start_begin c env i d w = Inr (NewRun st, w') \<Longrightarrow>
    tower_step c env (w, F) (BeginRun i d) (w', st # F)"
| begin_existing: "start_begin c env i d w = Inr (ExistingRun r, w') \<Longrightarrow>
    tower_step c env (w, F) (BeginRun i d) (w', F)"
| finish: "st \<in> set F \<Longrightarrow> start_finish c env st w = (res, w') \<Longrightarrow>
    tower_step c env (w, F) (FinishRun (ws_workflow_run_id st)) (w', remove1 st F)"
| decide: "decide_approval c env x decision actor reason w = Inr (r, w') \<Longrightarrow>
    tower_step c env (w, F) (Decide x decision) (w', F)"
| cancelled: "cancel k w = Inr (r, w') \<Longrightarrow> tower_step c env (w, F) (CancelRun k) (w', F)"
| gate: "ensure_ready k w = Inr (i, d) \<Longrightarrow>
    tower_step c env (w, F) (GatePass k) (record_gate_pass c i d w, F)"
| command: "run_incident_command c cmd k actor w = Inr (i, w') \<Longrightarrow>
    tower_step c env (w, F) (Command cmd k) (w', F)"
| correlate: "correlate_alarm c a window actor w = Inr ((i, created), w') \<Longrightarrow>
    tower_step c env (w, F) (Correlate a) (w', F)"
| manual: "create_incident c p w = Inr (i, w') \<Longrightarrow>
    tower_step c env (w, F) (ManualIncident p) (w', F)"
| alarm_work: "w_incidents w' = w_incidents w \<Longrightarrow> w_links w' = w_links w \<Longrightarrow>
    workflow_tables w' = workflow_tables w \<Longrightarrow> tower_step c env (w, F) AlarmWork (w', F)"

definition tower_init :: "tower \<Rightarrow> bool" where
  "tower_init s \<longleftrightarrow> snd s = [] \<and> w_incidents (fst s) = [] \<and> w_links (fst s) = [] \<and>
     workflow_tables (fst s) = ([], [], [], [], [])"

definition tower_inv :: "wf_env \<Rightarrow> tower \<Rightarrow> bool" where
  "tower_inv env s \<longleftrightarrow> wf_inv env (fst s) (snd s) \<and> incident_inv (fst s) \<and> incidents_reached (fst s)"

lemma command_facts:
  assumes inv: "incident_inv w" and run: "run_incident_command c cmd k actor w = Inr (i', w')"
  shows "incident_inv w'" "workflow_tables w' = workflow_tables w"
    "incidents_reached w \<Longrightarrow> incidents_reached w'"
    "i \<in> set (w_incidents w) \<Longrightarrow> \<exists>j \<in> set (w_incidents w'). incident_evolves i j"
proof -
  show "incident_inv w'" by (rule any_command.cmd_inv [OF inv run])
  show "i \<in> set (w_incidents w) \<Longrightarrow> \<exists>j \<in> set (w_incidents w'). incident_evolves i j"
    by (rule any_command.cmd_evolves [OF inv run])
  from run obtain j s where j: "incident_get k w = Some j" "i_status j = incident_status_value s"
    "command_target cmd \<in> set (INCIDENT_TRANSITIONS s)"
    and rows: "w_incidents w' = update_rows i_id k
        (command_effect cmd (c_clock c (w_ticks w)) actor) (w_incidents w)"
    and tables: "workflow_tables w' = workflow_tables w"
    by (rule any_command.cmd_Inr)
  show "workflow_tables w' = workflow_tables w" by (rule tables)
  assume r: "incidents_reached w"
  have "j \<in> set (w_incidents w)" using incident_get_row [OF j(1)] by simp
  with r j(2) obtain s' where "s' \<in> set reached_statuses" "incident_status_value s = incident_status_value s'"
    by (auto simp: incidents_reached_def)
  then have "s \<in> set reached_statuses" using incident_table.val_inj by blast
  from reached_no_exit [OF this j(3)] have tgt: "command_target cmd \<in> set reached_statuses"
    by (cases cmd) (auto simp: reached_statuses_def)
  note st = any_command.effect_status
  show "incidents_reached w'"
    using r tgt st by (auto simp: incidents_reached_def rows elim!: in_update_rowsE)
qed

lemma correlate_tables: "correlate_alarm c a window actor w = Inr ((i, created), w') \<Longrightarrow>
  workflow_tables w' = workflow_tables w"
  by (erule correlate_Inr) (auto elim!: attach_Inr create_incident_for_Inr)

lemma correlate_reached:
  assumes run: "correlate_alarm c a window actor w = Inr ((i, created), w')" and r: "incidents_reached w"
  shows "incidents_reached w'"
proof -
  have attach: "incidents_reached v'"
    if "attach_alarm_to_incident c j a actor v = Inr ((att, j'), v')" "incidents_reached v" for j v att j' v'
    using that(1) by (rule attach_Inr)
      (use that(2) in \<open>auto simp: incidents_reached_def elim!: in_update_rowsE\<close>)
  have opened: "incidents_reached v" if "create_incident_for c a actor w = Inr (j, v)" for j v
    using that by (rule create_incident_for_Inr)
      (use r in \<open>auto simp: incidents_reached_def reached_statuses_def\<close>)
  from run show ?thesis by (rule correlate_Inr) (blast intro: attach opened r)+
qed

lemma record_gate_pass_tables:
  "w_incidents (record_gate_pass c i d w) = w_incidents w" "w_links (record_gate_pass c i d w) = w_links w"
  "workflow_tables (record_gate_pass c i d w) = workflow_tables w"
  by (simp_all add: record_gate_pass_def workflow_tables_def)

text \<open>
  Every step either moves incidents as the workflow does or is one of the incident operations; the
  facts about its incidents are the same.
\<close>

lemma tower_step_facts:
  assumes step: "tower_step c env s e s'" and inv: "tower_inv env s"
  shows "tower_inv env s' \<and>
    (\<forall>i \<in> set (w_incidents (fst s)). \<exists>i' \<in> set (w_incidents (fst s')). incident_evolves i i')"
proof -
  have moved: ?thesis if "s = (w, F)" "s' = (w', F')" "wf_inv env w' F'" "workflow_moves w w'" for w F w' F'
    using that inv incidents_moved [of w w'] by (auto simp: tower_inv_def)
  have kept: ?thesis if "s = (w, F)" "s' = (w', F)" "workflow_tables w' = workflow_tables w"
    "incident_inv w'" "incidents_reached w'"
    "\<And>i. i \<in> set (w_incidents w) \<Longrightarrow> \<exists>i' \<in> set (w_incidents w'). incident_evolves i i'" for w F w'
    using that inv wf_inv_cong [OF that(3)] by (auto simp: tower_inv_def)
  from step inv show ?thesis
  proof (cases rule: tower_step.cases)
    case (begin_new i d w st w' F)
    have "workflow_moves w w'"
      using begin_new(4) by (rule start_begin_new)
        (rule workflow_moves_status [of INC_UNDER_ANALYSIS], simp_all)
    moreover have "wf_inv env w' (st # F)"
      using wf_inv_begin [OF _ begin_new(4)] begin_new(1) inv by (simp add: tower_inv_def)
    ultimately show ?thesis using moved [OF begin_new(1,3)] by simp
  next
    case (begin_existing i d w r w' F)
    have "w' = w\<lparr>w_uuids := Suc (w_uuids w)\<rparr>" by (rule start_begin_existing(1) [OF begin_existing(4)])
    then have mv: "workflow_moves w w'" and "workflow_tables w' = workflow_tables w"
      by (simp_all add: workflow_moves_def workflow_tables_def)
    then have "wf_inv env w' F" using wf_inv_cong [of w' w] begin_existing(1) inv by (simp add: tower_inv_def)
    then show ?thesis using moved [OF begin_existing(1,3) _ mv] by simp
  next
    case (finish st F w res w')
    have "wf_inv env w F" "runs_ok w" using inv finish by (simp_all add: tower_inv_def wf_inv_def)
    then show ?thesis
      using moved [OF finish(1,3)] wf_inv_finish [OF _ finish(4,5)] start_finish_moves [OF _ finish(5)] by simp
  next
    case (decide x decision actor reason w r w' F)
    have "wf_inv env w F" using inv decide by (simp add: tower_inv_def)
    then show ?thesis
      using moved [OF decide(1,3)] wf_inv_decide [OF _ decide(4)] decide_approval_moves [OF _ decide(4)] by simp
  next
    case (cancelled k w r w' F)
    have "wf_inv env w F" using inv cancelled by (simp add: tower_inv_def)
    then show ?thesis
      using moved [OF cancelled(1,3)] wf_inv_cancel [OF _ cancelled(4)] cancel_moves [OF cancelled(4)] by simp
  next
    case (gate k w i d F)
    have i: "incident_inv w" "incidents_reached w" using inv gate by (simp_all add: tower_inv_def)
    show ?thesis
      by (rule kept [OF gate(1,3)])
         (use i incident_inv_cong [of "record_gate_pass c i d w" w] incident_evolves_refl in
           \<open>auto simp: record_gate_pass_tables incidents_reached_def\<close>)
  next
    case (command cmd k actor w i w' F)
    have i: "incident_inv w" "incidents_reached w" using inv command by (simp_all add: tower_inv_def)
    note f = command_facts [OF i(1) command(4)]
    show ?thesis by (rule kept [OF command(1,3) f(2) f(1) f(3) [OF i(2)] f(4)])
  next
    case (correlate a window actor w i created w' F)
    have i: "incident_inv w" "incidents_reached w" using inv correlate by (simp_all add: tower_inv_def)
    show ?thesis
      by (rule kept [OF correlate(1,3) correlate_tables [OF correlate(4)]
            incident_inv_correlate [OF i(1) correlate(4)] correlate_reached [OF correlate(4) i(2)]])
         (use correlate_evolves [OF i(1) correlate(4)] in blast)
  next
    case (manual p w i w' F)
    have i: "incident_inv w" "incidents_reached w" using inv manual by (simp_all add: tower_inv_def)
    from manual(4) show ?thesis
    proof (cases rule: create_incident_Inr)
      case existing
      then show ?thesis using manual inv incident_evolves_refl by auto
    next
      case opened
      have "incidents_reached w'" using i(2) opened(1,8) by (auto simp: incidents_reached_def reached_statuses_def)
      then show ?thesis
        by (intro kept [OF manual(1,3) opened(5) incident_inv_append [OF i(1) opened(1,3,2,7)]])
           (use incident_evolves_refl opened(1) in auto)
    qed
  next
    case (alarm_work w' w F)
    have i: "incident_inv w" "incidents_reached w" using inv alarm_work by (simp_all add: tower_inv_def)
    show ?thesis
      by (rule kept [OF alarm_work(1,3,6)])
         (use i alarm_work incident_inv_cong [of w' w] incident_evolves_refl in
           \<open>auto simp: incidents_reached_def\<close>)
  qed
qed

interpretation tower: event_system tower_init "tower_step c env" "tower_inv env" for c env
proof
  show "tower_inv env s" if "tower_init s" for s
    using that
    by (auto simp: tower_init_def tower_inv_def workflow_tables_def wf_inv_def runs_ok_def plans_ok_def
        approvals_ok_def orders_ok_def flight_ok_def incident_inv_def incidents_reached_def)
  show "tower_inv env t" if "tower_inv env s" "tower_step c env s e t" for s e t
    using tower_step_facts that by blast
qed

end
