(* ===== verification/WorkflowDemo.thy ===== *)
theory WorkflowDemo
  imports Tower
begin

text \<open>
  A small workflow, evaluated: the concrete states on which the properties of the workflow service are
  exercised, with their reachability.
\<close>

section \<open>A small workflow\<close>

text \<open>
  One fault on one motor; the knowledge index knows one passage, the planner proposes one step of the
  given kind and the reviewer reports no violation.
\<close>

definition demo_evidence :: knowledge_evidence where
  "demo_evidence =
     \<lparr>ke_evidence_id = ''e1'', ke_document_id = ''doc'', ke_chunk_id = ''c1'', ke_text = ''check the bearing'',
      ke_source = ''manual'', ke_page = None, ke_section = None\<rparr>"

definition demo_step :: "ActionType \<Rightarrow> maintenance_step" where
  "demo_step t = \<lparr>ms_action = ''check'', ms_action_type = t, ms_evidence_ids = [''e1'']\<rparr>"

definition demo_plan :: "ActionType \<Rightarrow> maintenance_plan_output" where
  "demo_plan t = \<lparr>mp_objective = ''repair'', mp_steps = [demo_step t]\<rparr>"

definition demo_review :: safety_review where
  "demo_review = \<lparr>sr_hazards = [], sr_violations = []\<rparr>"

definition demo_env :: "ActionType \<Rightarrow> wf_env" where
  "demo_env t =
     \<lparr>e_index = Some (\<lambda>_. \<lparr>rt_evidence = [demo_evidence], rt_sufficiency = ''SUFFICIENT''\<rparr>),
      e_triage = (\<lambda>_ _. Inr \<lparr>tr_problem_summary = ''hot bearing''\<rparr>),
      e_planning = (\<lambda>_ _. Inr (demo_plan t)), e_safety = (\<lambda>_ _. Inr demo_review),
      e_provider = ''local'', e_model = ''m'', e_max_attempts = 2,
      e_key_hash = (\<lambda>i d v. i @ '' '' @ d), e_plan_hash = mp_objective,
      e_resume_other = (\<lambda>_ _. None)\<rparr>"

definition demo_diagnosis :: diagnosis where
  "demo_diagnosis =
     \<lparr>dg_id = ''dg'', dg_incident_id = None, dg_device_id = Some ''motor-1'', dg_status = ''FAULT'',
      dg_fault_type = Some ''OVERLOAD'', dg_confidence = None, dg_severity = Some ''LOW'',
      dg_evidence = [], dg_model_version = None, dg_created_at = 0\<rparr>"

definition demo_start :: world where
  "demo_start = demo_world\<lparr>w_diagnoses := [demo_diagnosis]\<rparr>"

definition demo_request :: incident_create where
  "demo_request =
     \<lparr>ic_device_id = ''motor-1'', ic_diagnosis_id = ''dg'', ic_title = ''hot'', ic_description = ''hot motor'',
      ic_priority = ''HIGH''\<rparr>"

definition demo_reported :: world where
  "demo_reported = snd (sum.projr (create_incident demo_ctx demo_request demo_start))"

definition is_new_run :: "app_error + begun \<times> world \<Rightarrow> bool" where
  "is_new_run r = (case r of Inr (NewRun st, w) \<Rightarrow> True | _ \<Rightarrow> False)"

definition new_run_of :: "app_error + begun \<times> world \<Rightarrow> workflow_state \<times> world" where
  "new_run_of r = (case r of Inr (NewRun st, w) \<Rightarrow> (st, w) | _ \<Rightarrow> undefined)"

lemma is_new_run_eq: "is_new_run r \<Longrightarrow> r = Inr (NewRun (fst (new_run_of r)), snd (new_run_of r))"
  by (auto simp: is_new_run_def new_run_of_def split: sum.splits prod.splits begun.splits)

definition demo_begun :: "ActionType \<Rightarrow> workflow_state \<times> world" where
  "demo_begun t = new_run_of (start_begin demo_ctx (demo_env t) ''u'' ''dg'' demo_reported)"

definition demo_finished :: "ActionType \<Rightarrow> world" where
  "demo_finished t = snd (start_finish demo_ctx (demo_env t) (fst (demo_begun t)) (snd (demo_begun t)))"

lemma demo_steps:
  "\<not> isl (create_incident demo_ctx demo_request demo_start)"
  "is_new_run (start_begin demo_ctx (demo_env ACT_INSPECT) ''u'' ''dg'' demo_reported)"
  "is_new_run (start_begin demo_ctx (demo_env ACT_REPLACE) ''u'' ''dg'' demo_reported)"
  by code_simp+

lemma demo_orders: "w_orders (demo_finished ACT_INSPECT) \<noteq> []"
  by code_simp

lemma demo_create:
  "create_incident demo_ctx demo_request demo_start =
     Inr (fst (sum.projr (create_incident demo_ctx demo_request demo_start)), demo_reported)"
  unfolding demo_reported_def prod.collapse by (rule sum.collapse(2) [OF demo_steps(1), symmetric])

lemma demo_begin:
  "t \<in> {ACT_INSPECT, ACT_REPLACE} \<Longrightarrow>
   start_begin demo_ctx (demo_env t) ''u'' ''dg'' demo_reported = Inr (NewRun (fst (demo_begun t)), snd (demo_begun t))"
  unfolding demo_begun_def by (rule is_new_run_eq) (use demo_steps(2,3) in auto)

lemma demo_reported_reachable: "reachable tower_init (tower_step demo_ctx env) (demo_reported, [])"
proof (rule reachable.reach_step)
  show "reachable tower_init (tower_step demo_ctx env) (demo_start, [])"
    by (rule reachable.reach_init)
       (simp add: tower_init_def demo_start_def demo_world_def empty_world_def workflow_tables_def)
  show "tower_step demo_ctx env (demo_start, []) (ManualIncident demo_request) (demo_reported, [])"
    by (rule tower_step.manual [OF demo_create])
qed

lemma demo_begin_step:
  assumes "t \<in> {ACT_INSPECT, ACT_REPLACE}"
  shows "tower_step demo_ctx (demo_env t) (demo_reported, []) (BeginRun ''u'' ''dg'')
      (snd (demo_begun t), [fst (demo_begun t)])"
  by (rule tower_step.begin_new [OF demo_begin [OF assms]])

lemma demo_finish_step:
  "tower_step demo_ctx (demo_env t) (snd (demo_begun t), [fst (demo_begun t)])
     (FinishRun (ws_workflow_run_id (fst (demo_begun t)))) (demo_finished t, [])"
proof -
  let ?st = "fst (demo_begun t)"
  have "start_finish demo_ctx (demo_env t) ?st (snd (demo_begun t)) =
      (fst (start_finish demo_ctx (demo_env t) ?st (snd (demo_begun t))), demo_finished t)"
    unfolding demo_finished_def by (rule prod.collapse [symmetric])
  from tower_step.finish [where F = "[?st]", OF _ this] show ?thesis by simp
qed

lemma demo_finished_from:
  assumes "t \<in> {ACT_INSPECT, ACT_REPLACE}"
    and "reachable init (tower_step demo_ctx (demo_env t)) (demo_reported, [])"
  shows "reachable init (tower_step demo_ctx (demo_env t)) (demo_finished t, [])"
proof (rule reachable.reach_step)
  show "reachable init (tower_step demo_ctx (demo_env t)) (snd (demo_begun t), [fst (demo_begun t)])"
    by (rule reachable.reach_step) (rule assms(2), rule demo_begin_step [OF assms(1)])
qed (rule demo_finish_step)

lemma demo_finished_reachable:
  "t \<in> {ACT_INSPECT, ACT_REPLACE} \<Longrightarrow>
     reachable tower_init (tower_step demo_ctx (demo_env t)) (demo_finished t, [])"
  by (rule demo_finished_from) (assumption, rule demo_reported_reachable)

end
