(* ===== verification/WorkflowProps.thy ===== *)
theory WorkflowProps
  imports WorkflowDemo
begin

text \<open>
  Properties of the safety policy, of the agent graph and of the workflow service, the last over every
  interleaving of the services' requests, each with a concrete instance of its hypotheses.
\<close>

section \<open>Policy\<close>

text \<open>
  C6 (functional). The policy blocks a plan exactly when a step cites no evidence or evidence that was
  not retrieved, the diagnosis is not a fault, the evidence is insufficient or the safety review
  reports a violation; it asks for approval exactly when it does not block and the severity is high
  or critical or a step is one of the six invasive actions; it allows every other plan. It always
  gives reasons, without repetition.
\<close>

theorem decide_exact:
  "pd_decision (decide plan review valid status severity sufficiency) =
     (if (\<exists>s \<in> set (mp_steps plan). \<not> step_grounded valid s) \<or> status \<noteq> ''FAULT'' \<or>
         sufficiency = ''INSUFFICIENT_EVIDENCE'' \<or> sr_violations review \<noteq> []
      then PD_BLOCKED
      else if effective_severity severity \<in> {''HIGH'', ''CRITICAL''} \<or>
         (\<exists>s \<in> set (mp_steps plan). ms_action_type s \<in>
            {ACT_STOP, ACT_ISOLATE, ACT_LOCKOUT_TAGOUT, ACT_DISASSEMBLE, ACT_REPLACE, ACT_RESTART})
      then PD_REQUIRES_APPROVAL else PD_AUTO_ALLOWED) \<and>
   pd_reasons (decide plan review valid status severity sufficiency) \<noteq> [] \<and>
   distinct (pd_reasons (decide plan review valid status severity sufficiency))"
proof -
  let ?b = "blocking_reasons plan review valid status sufficiency"
    and ?a = "approval_reasons plan severity"
  have actions: "{ACT_STOP, ACT_ISOLATE, ACT_LOCKOUT_TAGOUT, ACT_DISASSEMBLE, ACT_REPLACE, ACT_RESTART} =
      set APPROVAL_ACTIONS" by (simp add: APPROVAL_ACTIONS_def)
  have b: "?b \<noteq> [] \<longleftrightarrow> (\<exists>s \<in> set (mp_steps plan). \<not> step_grounded valid s) \<or> status \<noteq> ''FAULT'' \<or>
      sufficiency = ''INSUFFICIENT_EVIDENCE'' \<or> sr_violations review \<noteq> []"
    by (auto simp: blocking_reasons_Nil_iff)
  have a: "?a \<noteq> [] \<longleftrightarrow> effective_severity severity \<in> {''HIGH'', ''CRITICAL''} \<or>
      (\<exists>s \<in> set (mp_steps plan). ms_action_type s \<in>
         {ACT_STOP, ACT_ISOLATE, ACT_LOCKOUT_TAGOUT, ACT_DISASSEMBLE, ACT_REPLACE, ACT_RESTART})"
    unfolding actions by (auto simp: approval_reasons_Nil_iff)
  show ?thesis unfolding b [symmetric] a [symmetric] by (auto simp: decide_def Let_def)
qed

theorem decide_exact_witness:
  "pd_decision (decide (demo_plan ACT_REPLACE) demo_review {''e1''} ''FAULT'' (Some ''LOW'') ''SUFFICIENT'') =
     PD_REQUIRES_APPROVAL \<and>
   pd_decision (decide (demo_plan ACT_INSPECT) demo_review {''e2''} ''FAULT'' (Some ''LOW'') ''SUFFICIENT'') =
     PD_BLOCKED"
  using decide_exact [of "demo_plan ACT_REPLACE" demo_review "{''e1''}" "''FAULT''" "Some ''LOW''" "''SUFFICIENT''"]
    decide_exact [of "demo_plan ACT_INSPECT" demo_review "{''e2''}" "''FAULT''" "Some ''LOW''" "''SUFFICIENT''"]
  by (simp add: demo_plan_def demo_step_def demo_review_def step_grounded_def)

section \<open>Agent graph\<close>

lemma auto_allowed_facts:
  assumes "policy_applied PD_AUTO_ALLOWED st"
  obtains plan review where "ws_maintenance_plan st = Some plan" "ws_safety_review st = Some review"
    "\<And>s. s \<in> set (mp_steps plan) \<Longrightarrow>
       step_grounded (valid_evidence_ids st) s \<and> ms_action_type s \<notin> set APPROVAL_ACTIONS"
    "ds_status (ws_diagnosis st) = ''FAULT''"
    "kc_sufficiency (ws_knowledge_context st) \<noteq> ''INSUFFICIENT_EVIDENCE''" "sr_violations review = []"
    "effective_severity (ds_severity (ws_diagnosis st)) \<notin> {''HIGH'', ''CRITICAL''}"
proof -
  from assms obtain plan review where pr: "ws_maintenance_plan st = Some plan" "ws_safety_review st = Some review"
    and d: "pd_decision (decide plan review (valid_evidence_ids st) (ds_status (ws_diagnosis st))
        (ds_severity (ws_diagnosis st)) (kc_sufficiency (ws_knowledge_context st))) = PD_AUTO_ALLOWED"
    by (auto simp: policy_applied_def Let_def)
  from d have "blocking_reasons plan review (valid_evidence_ids st) (ds_status (ws_diagnosis st))
      (kc_sufficiency (ws_knowledge_context st)) = []" "approval_reasons plan (ds_severity (ws_diagnosis st)) = []"
    by (auto simp: decide_def Let_def split: if_splits)
  with pr show thesis
    by (intro that [of plan review]) (auto simp: blocking_reasons_Nil_iff approval_reasons_Nil_iff)
qed

text \<open>
  C7 (safety). Whatever the three agents answer, a run of the graph that completes ends blocked, or
  automatically allowed with a plan that is grounded in the retrieved evidence, contains no invasive
  action, answers a fault below high severity and passed the review without a violation. A run that
  stops for approval carries a policy decision that asks for it. The run never changes what it was
  started for, nor any table but the agent log.
\<close>

theorem graph_outcome:
  assumes "run_graph c env st w = (g, w')"
  shows "w' = w\<lparr>w_agent_runs := w_agent_runs w', w_uuids := w_uuids w', w_ticks := w_ticks w'\<rparr> \<and>
    (case g of
       Raised e \<Rightarrow> True
     | Interrupted st' \<Rightarrow> same_identity st st' \<and>
         map_option pd_decision (ws_policy_decision st') = Some PD_REQUIRES_APPROVAL \<and>
         ws_maintenance_plan st' \<noteq> None
     | Completed st' \<Rightarrow> same_identity st st' \<and>
         (ws_status st' = WF_BLOCKED \<or>
          ws_status st' = WF_AUTO_ALLOWED \<and>
          (\<exists>plan review. ws_maintenance_plan st' = Some plan \<and> ws_safety_review st' = Some review \<and>
             (\<forall>s \<in> set (mp_steps plan).
                step_grounded (valid_evidence_ids st) s \<and> ms_action_type s \<notin> set APPROVAL_ACTIONS) \<and>
             sr_violations review = [] \<and> ds_status (ws_diagnosis st) = ''FAULT'' \<and>
             effective_severity (ds_severity (ws_diagnosis st)) \<notin> {''HIGH'', ''CRITICAL''})))"
proof (rule conjI, goal_cases)
  case 1
  show ?case using graph_loop_frame [OF assms [unfolded run_graph_def]] unfolding agent_frame_def by blast
next
  case 2
  note post = run_graph_post [OF assms]
  have valid: "valid_evidence_ids st' = valid_evidence_ids st" "ws_diagnosis st' = ws_diagnosis st"
    if "same_identity st st'" for st'
    using that by (simp_all add: same_identity_def valid_evidence_ids_def)
  show ?case
  proof (cases g)
    case (Completed st')
    with post have id: "same_identity st st'" and fin: "ws_status st' = WF_BLOCKED \<or>
        ws_status st' = WF_AUTO_ALLOWED \<and> policy_applied PD_AUTO_ALLOWED st'"
      by (simp_all add: node_pre_def)
    show ?thesis
    proof (cases "ws_status st' = WF_BLOCKED")
      case False
      with fin have st: "ws_status st' = WF_AUTO_ALLOWED" "policy_applied PD_AUTO_ALLOWED st'" by simp_all
      from auto_allowed_facts [OF st(2)] show ?thesis
        using st(1) id valid [OF id] unfolding Completed by (simp, metis)
    qed (use Completed id in simp)
  qed (use post in \<open>auto simp: policy_applied_def Let_def\<close>)
qed


lemma demo_graph:
  "case fst (run_graph demo_ctx (demo_env ACT_INSPECT) (fst (demo_begun ACT_INSPECT)) (snd (demo_begun ACT_INSPECT))) of
     Completed st \<Rightarrow> ws_status st = WF_AUTO_ALLOWED | _ \<Rightarrow> False"
  by code_simp

theorem graph_outcome_witness:
  "\<exists>st plan. fst (run_graph demo_ctx (demo_env ACT_INSPECT) (fst (demo_begun ACT_INSPECT))
       (snd (demo_begun ACT_INSPECT))) = Completed st \<and> ws_maintenance_plan st = Some plan \<and>
     (\<forall>s \<in> set (mp_steps plan). step_grounded (valid_evidence_ids (fst (demo_begun ACT_INSPECT))) s)"
proof -
  let ?run = "run_graph demo_ctx (demo_env ACT_INSPECT) (fst (demo_begun ACT_INSPECT)) (snd (demo_begun ACT_INSPECT))"
  from demo_graph obtain st where st: "fst ?run = Completed st" "ws_status st = WF_AUTO_ALLOWED"
    by (auto split: graph_result.splits)
  from graph_outcome [OF prod.collapse [symmetric], of demo_ctx "demo_env ACT_INSPECT"
      "fst (demo_begun ACT_INSPECT)" "snd (demo_begun ACT_INSPECT)"] st
  show ?thesis by auto
qed

text \<open>
  A run of the graph always ends, after at most three agent calls per configured attempt,
  and it calls no agent at all when the diagnosis is not a fault or the evidence is insufficient: then
  it ends blocked at once.
\<close>

theorem agent_calls_bound:
  "length (w_agent_runs (snd (run_graph c env st w))) \<le>
     length (w_agent_runs w) + 3 * max 1 (e_max_attempts env) \<and>
   (ds_status (ws_diagnosis st) \<noteq> ''FAULT'' \<or>
      kc_sufficiency (ws_knowledge_context st) = ''INSUFFICIENT_EVIDENCE'' \<longrightarrow>
    run_graph c env st w = (Completed (precondition_block st), w))"
proof
  obtain g w' where g: "run_graph c env st w = (g, w')" by (cases "run_graph c env st w")
  from graph_loop_frame [OF g [unfolded run_graph_def]] g
  show "length (w_agent_runs (snd (run_graph c env st w))) \<le>
     length (w_agent_runs w) + 3 * max 1 (e_max_attempts env)" by simp
  show "ds_status (ws_diagnosis st) \<noteq> ''FAULT'' \<or>
      kc_sufficiency (ws_knowledge_context st) = ''INSUFFICIENT_EVIDENCE'' \<longrightarrow>
    run_graph c env st w = (Completed (precondition_block st), w)"
    by (auto simp: run_graph_def graph_loop.simps route_precondition_def)
qed

definition demo_uncertain :: workflow_state where
  "demo_uncertain =
     (let st = fst (demo_begun ACT_INSPECT) in st\<lparr>ws_diagnosis := (ws_diagnosis st)\<lparr>ds_status := ''UNCERTAIN''\<rparr>\<rparr>)"

theorem agent_calls_bound_witness:
  "run_graph demo_ctx (demo_env ACT_INSPECT) demo_uncertain demo_start =
     (Completed (precondition_block demo_uncertain), demo_start)"
  using agent_calls_bound [of demo_ctx "demo_env ACT_INSPECT" demo_uncertain demo_start]
  by (simp add: demo_uncertain_def Let_def)

section \<open>Work orders\<close>




section \<open>Approvals\<close>

lemma approval_context:
  assumes inv: "wf_inv env w F" and a: "a \<in> set (w_approvals w)"
  obtains r p where "find_row ap_id (ap_id a) (w_approvals w) = Some a"
    "ap_workflow_run_id a = Some (wr_id r)" "run_get (wr_id r) w = Some r" "r \<in> set (w_runs w)"
    "find_row p_id (ap_maintenance_plan_id a) (w_plans w) = Some p"
    "p_version p = ap_plan_version a" "p_plan_hash p = ap_plan_hash a" "approval_state w a r p"
proof -
  from inv a have "approval_ok w a" by (simp add: wf_inv_def approvals_ok_def)
  then obtain r p where rp: "ap_workflow_run_id a = Some (wr_id r)" "r \<in> set (w_runs w)"
    "p \<in> set (w_plans w)" "p_id p = ap_maintenance_plan_id a"
    "p_version p = ap_plan_version a" "p_plan_hash p = ap_plan_hash a" "approval_state w a r p"
    by (auto simp: approval_ok_def)
  show thesis
  proof (rule that [OF _ rp(1) _ rp(2) _ rp(5,6,7)])
    show "find_row ap_id (ap_id a) (w_approvals w) = Some a"
      using inv a find_row_unique [of ap_id "w_approvals w" a] by (simp add: wf_inv_def approvals_ok_def)
    show "run_get (wr_id r) w = Some r" using inv rp(2) by (simp add: wf_inv_def run_get_member)
    show "find_row p_id (ap_maintenance_plan_id a) (w_plans w) = Some p"
      using inv rp(3,4) find_row_unique [of p_id "w_plans w" p] by (simp add: wf_inv_def plans_ok_def)
  qed
qed

lemma create_work_order_total:
  assumes "order_of_run (ws_workflow_run_id st) w = None" and "ws_maintenance_plan st = Some mp"
    and "c_uuid4 c (w_uuids w) \<notin> wo_id ` set (w_orders w)"
  shows "\<exists>wo w'. create_work_order c st (Some p) appr w = Inr (wo, w')"
  using assms by (simp add: create_work_order_def uuid4_def Let_def)

lemma bindE_total:
  "\<exists>x y. m = Inr (x, y) \<Longrightarrow> (\<And>x y. \<exists>u v. k (x, y) = Inr (u, v)) \<Longrightarrow> \<exists>u v. bindE m k = Inr (u, v)"
  by auto

lemma decide_pending_total:
  assumes inv: "wf_inv env w F" and a: "a \<in> set (w_approvals w)" "ap_decision a = ''PENDING''"
    and r: "ap_workflow_run_id a = Some (wr_id r)" "r \<in> set (w_runs w)" "wr_status r = WF_WAITING_APPROVAL"
    and dec: "decision \<in> {''APPROVED'', ''REJECTED''}"
    and fresh: "c_uuid4 c (w_uuids w) \<notin> wo_id ` set (w_orders w)"
  shows "\<exists>r' w'. decide_approval c env (ap_id a) decision actor reason w = Inr (r', w')"
proof -
  obtain r1 p where rp: "find_row ap_id (ap_id a) (w_approvals w) = Some a"
    "ap_workflow_run_id a = Some (wr_id r1)" "run_get (wr_id r1) w = Some r1" "r1 \<in> set (w_runs w)"
    "find_row p_id (ap_maintenance_plan_id a) (w_plans w) = Some p"
    "p_version p = ap_plan_version a" "p_plan_hash p = ap_plan_hash a" "approval_state w a r1 p"
    using approval_context [OF inv a(1)] by blast
  have "r1 = r" using inv rp(2,4) r run_unique [of w r1 r] by (simp add: wf_inv_def)
  with rp have g: "find_row ap_id (ap_id a) (w_approvals w) = Some a" "run_get (wr_id r) w = Some r"
    and st: "approval_state w a r p" by simp_all
  from st a(2) obtain st where st: "map_of (w_checkpoints w) (wr_id r) = Some (AtApproval st)"
    "ws_workflow_run_id st = wr_id r" "ws_maintenance_plan st = Some (p_payload p)"
    by (auto simp: approval_state_def)
  have none: "order_of_run (wr_id r) w = None"
    using no_order_unless_created [OF inv r(2)] r(3) by (simp add: order_of_run_def find_row_None)
  have made: "\<exists>wo w4. create_work_order c s (Some p) b v = Inr (wo, w4)"
    if "ws_workflow_run_id s = wr_id r" "ws_maintenance_plan s = Some (p_payload p)"
      "w_orders v = w_orders w" "w_uuids v = w_uuids w" for s b v
    by (rule create_work_order_total) (use that none fresh in \<open>simp_all add: order_of_run_def\<close>)
  show ?thesis
  proof (cases "decision = ''APPROVED''")
    case True
    show ?thesis
      by (simp add: decide_approval_def True g r rp a(2) st(1) utc_now_def Let_def resume_graph_result)
         (rule bindE_total, rule made, simp_all add: save_checkpoint_def st)
  next
    case False
    with dec have "decision = ''REJECTED''" by simp
    then show ?thesis
      by (simp add: decide_approval_def g r rp st(1) a(2) utc_now_def Let_def resume_graph_result)
  qed
qed

text \<open>
  C11 (liveness). Every approval a reachable database holds can be acted on, and what happens depends on
  its state alone: a pending one of a waiting run is decided, given a new identifier, and moves the run
  to the work order or to rejected, with one work order exactly when it was approved; a pending one of
  a cancelled run is refused; repeating a decision changes nothing; contradicting one is refused. The
  approval is never stale and never without its run.
\<close>

theorem approval_decision_outcome:
  assumes reach: "reachable tower_init (tower_step c env) (w, F)" and a: "a \<in> set (w_approvals w)"
    and dec: "decision \<in> {''APPROVED'', ''REJECTED''}"
    and fresh: "c_uuid4 c (w_uuids w) \<notin> wo_id ` set (w_orders w)"
  shows "\<exists>r \<in> set (w_runs w). ap_workflow_run_id a = Some (wr_id r) \<and>
    (if ap_decision a = ''PENDING'' \<and> wr_status r = WF_CANCELLED
     then decide_approval c env (ap_id a) decision actor reason w = Inl (AppError ''WORKFLOW_CANCELLED'' 409)
     else if ap_decision a = ''PENDING''
     then \<exists>r' w'. decide_approval c env (ap_id a) decision actor reason w = Inr (r', w') \<and>
       wr_status r = WF_WAITING_APPROVAL \<and> wr_id r' = wr_id r \<and> r' \<in> set (w_runs w') \<and>
       wr_status r' = (if decision = ''APPROVED'' then WF_WORK_ORDER_CREATED else WF_REJECTED) \<and>
       length (w_orders w') = length (w_orders w) + (if decision = ''APPROVED'' then 1 else 0)
     else if ap_decision a = decision
     then decide_approval c env (ap_id a) decision actor reason w = Inr (r, w)
     else decide_approval c env (ap_id a) decision actor reason w =
       Inl (AppError ''APPROVAL_ALREADY_DECIDED'' 409))"
proof -
  have inv: "wf_inv env w F" using tower.inv_reachable [OF reach] by (simp add: tower_inv_def)
  obtain r p where rp: "find_row ap_id (ap_id a) (w_approvals w) = Some a"
    "ap_workflow_run_id a = Some (wr_id r)" "run_get (wr_id r) w = Some r" "r \<in> set (w_runs w)"
    "find_row p_id (ap_maintenance_plan_id a) (w_plans w) = Some p"
    "p_version p = ap_plan_version a" "p_plan_hash p = ap_plan_hash a" and st: "approval_state w a r p"
    using approval_context [OF inv a] by blast
  have pend: "\<exists>r' w'. decide_approval c env (ap_id a) decision actor reason w = Inr (r', w') \<and>
       wr_status r = WF_WAITING_APPROVAL \<and> wr_id r' = wr_id r \<and> r' \<in> set (w_runs w') \<and>
       wr_status r' = (if decision = ''APPROVED'' then WF_WORK_ORDER_CREATED else WF_REJECTED) \<and>
       length (w_orders w') = length (w_orders w) + (if decision = ''APPROVED'' then 1 else 0)"
    if p: "ap_decision a = ''PENDING''" "wr_status r \<noteq> WF_CANCELLED"
  proof -
    have wait: "wr_status r = WF_WAITING_APPROVAL" using st p by (auto simp: approval_state_def)
    obtain r' w' where run: "decide_approval c env (ap_id a) decision actor reason w = Inr (r', w')"
      using decide_pending_total [OF inv a p(1) rp(2,4) wait dec fresh] by blast
    have same: "b = a" if "b \<in> set (w_approvals w)" "ap_id b = ap_id a" for b
      using inv that a distinct_map_eq [of ap_id "w_approvals w" b a] by (simp add: wf_inv_def approvals_ok_def)
    have row: "q = r" if "b \<in> set (w_approvals w)" "ap_id b = ap_id a"
      "ap_workflow_run_id b = Some (wr_id q)" "q \<in> set (w_runs w)" for b q
      using same [OF that(1,2)] that(3,4) rp(2,4) inv run_unique [of w q r] by (simp add: wf_inv_def)
    from inv run have "wr_id r' = wr_id r \<and> r' \<in> set (w_runs w') \<and>
       wr_status r' = (if decision = ''APPROVED'' then WF_WORK_ORDER_CREATED else WF_REJECTED) \<and>
       length (w_orders w') = length (w_orders w) + (if decision = ''APPROVED'' then 1 else 0)"
    proof (cases rule: decide_approval_Inr)
      case (again b)
      then show ?thesis using same [OF again(4,5)] p(1) by simp
    next
      case (approved b q pl st2 wo m cp n)
      with row [OF approved(2,3,4,5)] rp(4) show ?thesis by (auto simp: update_rows_def)
    next
      case (rejected b q pl st2 m cp)
      with row [OF rejected(2,3,4,5)] rp(4) show ?thesis by (auto simp: update_rows_def)
    qed
    with run wait show ?thesis by blast
  qed
  show ?thesis
  proof (rule bexI [OF _ rp(4)], rule conjI [OF rp(2)], goal_cases)
    case 1
    show ?case
    proof (cases "ap_decision a = ''PENDING''")
      case True
      show ?thesis
      proof (cases "wr_status r = WF_CANCELLED")
        case True
        with \<open>ap_decision a = ''PENDING''\<close> show ?thesis using dec rp by (simp add: decide_approval_def)
      qed (use True pend in simp)
    next
      case False
      then have "ap_decision a = ''APPROVED'' \<and> wr_status r = WF_WORK_ORDER_CREATED \<or>
          ap_decision a = ''REJECTED'' \<and> wr_status r = WF_REJECTED"
        using st by (simp add: approval_state_def split: if_splits)
      with dec show ?thesis using False rp by (elim disjE insertE emptyE) (simp_all add: decide_approval_def)
    qed
  qed
qed


definition one_pending :: "world \<Rightarrow> bool" where
  "one_pending w \<longleftrightarrow>
     map ap_decision (w_approvals w) = [''PENDING''] \<and> w_orders w = [] \<and>
     map wr_status (w_runs w) = [WF_WAITING_APPROVAL]"

lemma demo_one_pending: "one_pending (demo_finished ACT_REPLACE)"
  by code_simp

lemma demo_pending:
  "ap_decision (hd (w_approvals (demo_finished ACT_REPLACE))) = ''PENDING''"
  "w_approvals (demo_finished ACT_REPLACE) \<noteq> []"
  "c_uuid4 demo_ctx (w_uuids (demo_finished ACT_REPLACE)) \<notin> wo_id ` set (w_orders (demo_finished ACT_REPLACE))"
  "map wr_status (w_runs (demo_finished ACT_REPLACE)) = [WF_WAITING_APPROVAL]"
  using demo_one_pending by (auto simp: one_pending_def)

theorem approval_decision_outcome_witness:
  "\<exists>r' w'. decide_approval demo_ctx (demo_env ACT_REPLACE) (ap_id (hd (w_approvals (demo_finished ACT_REPLACE))))
       ''APPROVED'' ''engineer'' ''checked'' (demo_finished ACT_REPLACE) = Inr (r', w') \<and>
     wr_status r' = WF_WORK_ORDER_CREATED \<and>
     length (w_orders w') = length (w_orders (demo_finished ACT_REPLACE)) + 1"
proof -
  let ?w = "demo_finished ACT_REPLACE"
  have status: "wr_status r = WF_WAITING_APPROVAL" if "r \<in> set (w_runs ?w)" for r
  proof -
    have "wr_status r \<in> set (map wr_status (w_runs ?w))" using that by simp
    then show ?thesis unfolding demo_pending(4) by simp
  qed
  have "\<exists>r \<in> set (w_runs ?w). ap_workflow_run_id (hd (w_approvals ?w)) = Some (wr_id r) \<and>
    (\<exists>r' w'. decide_approval demo_ctx (demo_env ACT_REPLACE) (ap_id (hd (w_approvals ?w)))
       ''APPROVED'' ''engineer'' ''checked'' ?w = Inr (r', w') \<and> wr_status r' = WF_WORK_ORDER_CREATED \<and>
     length (w_orders w') = length (w_orders ?w) + 1)"
    using approval_decision_outcome [OF demo_finished_reachable [of ACT_REPLACE] hd_in_set [OF demo_pending(2)] _
        demo_pending(3), of "''APPROVED''" "''engineer''" "''checked''"] demo_pending(1)
    by (auto simp: status)
  then show ?thesis by blast
qed

section \<open>Incidents under the workflow\<close>

lemma exit_refused:
  assumes inv: "incidents_reached w" and target: "command_target cmd \<in> {INC_RESOLVED, INC_CLOSED, INC_REOPENED}"
  shows "\<exists>e. run_incident_command c cmd k actor w = Inl e"
proof (cases "run_incident_command c cmd k actor w")
  case (Inr p)
  obtain i' w' where "p = (i', w')" by (cases p)
  with Inr have run: "run_incident_command c cmd k actor w = Inr (i', w')" by simp
  then obtain j s where j: "incident_get k w = Some j" "i_status j = incident_status_value s"
    "command_target cmd \<in> set (INCIDENT_TRANSITIONS s)"
    by (rule any_command.cmd_Inr)
  have "j \<in> set (w_incidents w)" using incident_get_row [OF j(1)] by simp
  with inv obtain s' where "s' \<in> set reached_statuses" "i_status j = incident_status_value s'"
    by (auto simp: incidents_reached_def)
  with j(2) have "s \<in> set reached_statuses" using incident_table.val_inj by metis
  from reached_no_exit [OF this j(3)] target show ?thesis by simp
qed simp

text \<open>
  C12 (safety). No incident is ever resolved, closed or reopened: no operation writes the mitigated
  status that the transition table asks for first, so in every reachable database the three commands
  are refused, whatever the incident.
\<close>

theorem incident_never_resolved:
  assumes "reachable tower_init (tower_step c env) (w, F)"
  shows "(\<exists>e. resolve_incident c' k actor w = Inl e) \<and> (\<exists>e. close_incident c' k actor w = Inl e) \<and>
    (\<exists>e. reopen_incident c' k actor w = Inl e)"
proof -
  have r: "incidents_reached w" using tower.inv_reachable [OF assms] by (simp add: tower_inv_def)
  show ?thesis
    using exit_refused [OF r, of Resolve c' k actor] exit_refused [OF r, of CloseIncident c' k actor]
      exit_refused [OF r, of Reopen c' k actor] by simp
qed

theorem incident_never_resolved_witness:
  "(\<exists>e. resolve_incident demo_ctx ''u'' ''op'' (demo_finished ACT_INSPECT) = Inl e) \<and>
   (\<exists>e. close_incident demo_ctx ''u'' ''op'' (demo_finished ACT_INSPECT) = Inl e)"
  using incident_never_resolved [OF demo_finished_reachable [of ACT_INSPECT], of demo_ctx "''u''" "''op''"]
  by simp

lemma tower_history:
  assumes "reachable (\<lambda>s. s = s0) (tower_step c env) s" and "tower_inv env s0"
    and "i \<in> set (w_incidents (fst s0))"
  shows "tower_inv env s \<and> (\<exists>i' \<in> set (w_incidents (fst s)). incident_evolves i i')"
  using assms(1)
proof (induction rule: reachable.induct)
  case (reach_init s)
  then show ?case using assms(2,3) incident_evolves_refl by blast
next
  case (reach_step s e s')
  then show ?case using tower_step_facts [OF reach_step(2)] incident_evolves_trans by metis
qed

text \<open>
  Whatever the services do, no incident is lost and none forgets: it keeps its identity,
  device and creation time, its severity and priority change only to a severity of higher rank, its last
  alarm never moves back and an acknowledgement is never taken away.
\<close>

theorem incident_history_kept:
  assumes "reachable tower_init (tower_step c env) (w, F)"
    and "reachable (\<lambda>s. s = (w, F)) (tower_step c env) (w', F')" and "i \<in> set (w_incidents w)"
  shows "\<exists>i' \<in> set (w_incidents w'). i_id i' = i_id i \<and> i_device_id i' = i_device_id i \<and>
    i_created_at i' = i_created_at i \<and>
    (severity_rank (i_severity i) < severity_rank (i_severity i') \<or>
     i_severity i' = i_severity i \<and> i_priority i' = i_priority i) \<and>
    (case i_last_alarm_at i of None \<Rightarrow> True
     | Some t \<Rightarrow> (case i_last_alarm_at i' of None \<Rightarrow> False | Some t' \<Rightarrow> t \<le> t')) \<and>
    (i_acknowledged_at i \<noteq> None \<longrightarrow> i_acknowledged_at i' \<noteq> None)"
proof -
  obtain i' where "i' \<in> set (w_incidents w')" "incident_evolves i i'"
    using tower_history [OF assms(2) tower.inv_reachable [OF assms(1)]] assms(3) by auto
  then show ?thesis unfolding incident_evolves_def by blast
qed


theorem incident_history_kept_witness:
  "\<exists>i \<in> set (w_incidents (demo_finished ACT_INSPECT)). i_device_id i = Some ''motor-1''"
proof -
  let ?i = "fst (sum.projr (create_incident demo_ctx demo_request demo_start))"
  have i: "?i \<in> set (w_incidents demo_reported)" "i_device_id ?i = Some ''motor-1''" by code_simp+
  have "reachable (\<lambda>s. s = (demo_reported, [])) (tower_step demo_ctx (demo_env ACT_INSPECT))
      (demo_finished ACT_INSPECT, [])"
    by (rule demo_finished_from) (simp, rule reachable.reach_init, simp)
  from incident_history_kept [OF demo_reported_reachable this i(1)] i(2) show ?thesis by auto
qed

section \<open>Starting and cancelling\<close>

definition run_keys :: "world \<Rightarrow> (uuid \<times> string) list" where
  "run_keys w = map (\<lambda>r. (wr_id r, wr_idempotency_key r)) (w_runs w)"

lemma run_keys_update:
  "w_runs w' = update_rows wr_id k f (w_runs w) \<Longrightarrow>
   (\<And>r. wr_id (f r) = wr_id r \<and> wr_idempotency_key (f r) = wr_idempotency_key r) \<Longrightarrow> run_keys w' = run_keys w"
  by (simp add: run_keys_def map_update_rows_same)

lemma persist_frame_runs:
  "persist_plan c env st w = Inr (plan, w') \<Longrightarrow> w_runs w' = w_runs w"
  "persist_approval c st plan b w = Inr w' \<Longrightarrow> w_runs w' = w_runs w"
  "create_work_order c st plan appr w = Inr (wo, w') \<Longrightarrow> w_runs w' = w_runs w"
  by (auto simp: persist_plan_def persist_approval_def create_work_order_def uuid4_def utc_now_def Let_def
      split: option.splits if_splits prod.splits)

text \<open>What persisting a result does to the run.\<close>

lemma persist_result_run:
  assumes "persist_result c env st b w = Inr (r, w')"
  obtains row st' where "run_get (ws_workflow_run_id st) w = Some row" "r = recorded st' row"
    "w_runs w' = update_rows wr_id (ws_workflow_run_id st) (recorded st') (w_runs w)"
    "ws_status st' = (if ws_status st = WF_AUTO_ALLOWED then WF_WORK_ORDER_CREATED else ws_status st)"
proof -
  from assms obtain row plan w1 w2 st' w4 where
    row: "run_get (ws_workflow_run_id st) w = Some row"
    and pl: "persist_plan c env st w = Inr (plan, w1)"
    and ap: "persist_approval c st plan b w1 = Inr w2"
    and od: "(if ws_status st = WF_AUTO_ALLOWED
        then bindE (create_work_order c st plan None w2) (\<lambda>(wo, w3).
          Inr (at_stage WF_WORK_ORDER_CREATED (st\<lparr>ws_work_order_id := Some (wo_id wo)\<rparr>), w3))
        else Inr (st, w2)) = (Inr (st', w4) :: app_error + _)"
    and r: "r = recorded st' row"
      "w' = persist_incident st' (set_run (ws_workflow_run_id st) (recorded st') w4)"
    by (auto simp: persist_result_def bindE_Inr_iff Let_def recorded_def [abs_def] split: option.splits)
  have "w_runs w4 = w_runs w2"
    "ws_status st' = (if ws_status st = WF_AUTO_ALLOWED then WF_WORK_ORDER_CREATED else ws_status st)"
    using od by (auto simp: bindE_Inr_iff dest: persist_frame_runs(3) split: if_splits)
  with that [OF row r(1)] persist_frame_runs(1) [OF pl] persist_frame_runs(2) [OF ap] show thesis
    by (simp add: r(2) persist_incident_def)
qed

lemma start_finish_keys:
  assumes ok: "runs_ok w" and run: "start_finish c env st w = (res, w')"
  shows "run_keys w' = run_keys w"
proof -
  obtain g w1 where g: "run_graph c env st w = (g, w1)" by (cases "run_graph c env st w")
  have "agent_frame w w1" using graph_loop_frame [OF g [unfolded run_graph_def]] by blast
  note fr = agent_frame_tables(6) [OF this]
  have saved: "run_keys (save_checkpoint k cp w1) = run_keys w" for k cp
    by (simp add: save_checkpoint_def run_keys_def fr)
  have persisted: "run_keys v' = run_keys v" if "persist_result c env st' b v = Inr (r, v')" for st' b v r v'
    using that by (rule persist_result_run) (erule run_keys_update, simp)
  show ?thesis
  proof (cases g)
    case (Raised e)
    have "runs_ok w1" using ok by (simp add: runs_ok_def fr)
    have w': "w' = mark_failed (ws_workflow_run_id st) ''AGENT_FAILURE'' (exc_text e) w1"
      using run g Raised by (simp add: start_finish_def)
    from mark_failed_tables [OF \<open>runs_ok w1\<close>] obtain f where
      "\<And>r. wr_id (f r) = wr_id r \<and> wr_idempotency_key (f r) = wr_idempotency_key r"
      "w_runs w' = update_rows wr_id (ws_workflow_run_id st) f (w_runs w1)"
      unfolding w' by blast
    from run_keys_update [OF this(2,1)] show ?thesis by (simp add: run_keys_def fr)
  next
    case (Interrupted st1)
    then show ?thesis
      using run g by (auto simp: start_finish_def Let_def saved run_keys_def split: sum.splits dest!: persisted)
        (simp_all add: save_checkpoint_def fr)
  next
    case (Completed st1)
    then show ?thesis
      using run g by (auto simp: start_finish_def Let_def saved dest!: persisted split: sum.splits)
  qed
qed

lemma tower_step_keys:
  assumes "tower_step c env s e s'" and inv: "tower_inv env s"
  shows "\<exists>ks. run_keys (fst s') = run_keys (fst s) @ ks"
  using assms(1)
proof (cases rule: tower_step.cases)
  case (begin_new i d w st w' F)
  from begin_new(4) obtain r where "w_runs w' = w_runs w @ [r]" by (rule start_begin_new)
  with begin_new show ?thesis by (simp add: run_keys_def)
next
  case (begin_existing i d w r w' F)
  then show ?thesis using start_begin_existing(1) [OF begin_existing(4)] by (simp add: run_keys_def)
next
  case (finish st F w res w')
  have "runs_ok w" using inv finish by (simp add: tower_inv_def wf_inv_def)
  with finish show ?thesis using start_finish_keys [OF _ finish(5)] by simp
next
  case (decide x decision actor reason w r w' F)
  have "wf_inv env w F" using inv decide by (simp add: tower_inv_def)
  from this decide(4) have "run_keys w' = run_keys w"
    by (cases rule: decide_approval_Inr)
       (auto simp: run_keys_def map_update_rows_same)
  with decide show ?thesis by simp
next
  case (cancelled k w r w' F)
  then show ?thesis
    by (auto simp: cancel_def Let_def run_keys_def map_update_rows_same split: option.splits if_splits)
next
  case (gate k w i d F)
  then show ?thesis using record_gate_pass_tables(3) [of c i d w] by (simp add: run_keys_def workflow_tables_def)
next
  case (command cmd k actor w i w' F)
  have "incident_inv w" using inv command by (simp add: tower_inv_def)
  with command show ?thesis using command_facts(2) [OF _ command(4)] by (simp add: run_keys_def workflow_tables_def)
next
  case (correlate a window actor w i created w' F)
  then show ?thesis using correlate_tables [OF correlate(4)] by (simp add: run_keys_def workflow_tables_def)
next
  case (manual p w i w' F)
  from manual(4) have "w_runs w' = w_runs w"
    by (cases rule: create_incident_Inr) (auto simp: workflow_tables_def)
  with manual show ?thesis by (simp add: run_keys_def)
next
  case (alarm_work w' w F)
  then show ?thesis by (simp add: run_keys_def workflow_tables_def)
qed

lemma tower_run_keys:
  assumes "reachable (\<lambda>s. s = s0) (tower_step c env) s" and "tower_inv env s0"
  shows "tower_inv env s \<and> (\<exists>ks. run_keys (fst s) = run_keys (fst s0) @ ks)"
  using assms(1)
proof (induction rule: reachable.induct)
  case (reach_init s)
  then show ?case using assms(2) by simp
next
  case (reach_step s e s')
  then show ?case using tower_step_keys [OF reach_step(2)] tower_step_facts [OF reach_step(2)] by fastforce
qed

text \<open>
  C13 (safety). Starting is idempotent across time: once a run was started for an incident and a
  diagnosis, then whatever happens afterwards - the graph ends or fails, the run is decided or
  cancelled - a later start of the same pair returns that run and writes nothing.
\<close>

theorem start_idempotent:
  assumes reach: "reachable tower_init (tower_step c env) (w, F)"
    and beg: "start_begin c env i d w = Inr (NewRun st, w1)"
    and later: "reachable (\<lambda>s. s = (w1, st # F)) (tower_step c env) (w2, F2)"
  shows "\<exists>r \<in> set (w_runs w2). wr_id r = ws_workflow_run_id st \<and>
    start_begin c env i d w2 = Inr (ExistingRun r, w2\<lparr>w_uuids := Suc (w_uuids w2)\<rparr>)"
proof -
  let ?key = "e_key_hash env i d WORKFLOW_VERSION" and ?k = "ws_workflow_run_id st"
  have "tower_inv env (w1, st # F)"
    using tower_step_facts [OF tower_step.begin_new [OF beg] tower.inv_reachable [OF reach]] by blast
  from tower_run_keys [OF later this] obtain ks where inv: "runs_ok w2" and
    ks: "run_keys w2 = run_keys w1 @ ks" by (auto simp: tower_inv_def wf_inv_def)
  have "(?k, ?key) \<in> set (run_keys w1)" using beg by (rule start_begin_new) (simp add: run_keys_def)
  then have "(?k, ?key) \<in> set (run_keys w2)" using ks by simp
  then obtain r where r: "r \<in> set (w_runs w2)" "wr_id r = ?k" "wr_idempotency_key r = ?key"
    by (auto simp: run_keys_def)
  then have "run_by_key ?key w2 = Some r"
    using inv find_row_unique [of wr_idempotency_key "w_runs w2" r] by (simp add: runs_ok_def run_by_key_def)
  moreover from beg obtain search where "e_index env = Some search"
    by (auto simp: start_begin_def split: option.splits)
  ultimately have "start_begin c env i d w2 = Inr (ExistingRun r, w2\<lparr>w_uuids := Suc (w_uuids w2)\<rparr>)"
    by (simp add: start_begin_def uuid4_def run_by_key_def Let_def)
  with r show ?thesis by blast
qed

theorem start_idempotent_witness:
  "\<exists>r. start_begin demo_ctx (demo_env ACT_INSPECT) ''u'' ''dg'' (demo_finished ACT_INSPECT) =
     Inr (ExistingRun r, (demo_finished ACT_INSPECT)\<lparr>w_uuids := Suc (w_uuids (demo_finished ACT_INSPECT))\<rparr>)"
proof -
  have "reachable (\<lambda>s. s = (snd (demo_begun ACT_INSPECT), [fst (demo_begun ACT_INSPECT)]))
      (tower_step demo_ctx (demo_env ACT_INSPECT)) (demo_finished ACT_INSPECT, [])"
    by (rule reachable.reach_step) (rule reachable.reach_init, simp, rule demo_finish_step)
  from start_idempotent [OF demo_reported_reachable demo_begin this] show ?thesis by auto
qed

lemma gate_passes:
  assumes "ensure_ready k w = Inr (i, d)"
  shows "incident_get k w = Some i \<and> i_status i \<in> {''OPEN'', ''ACKNOWLEDGED'', ''INVESTIGATING''}"
proof -
  from assms obtain s where "incident_get k w = Some i" "as_incident_status (i_status i) = Some s"
    "s \<in> set WORKFLOW_ENTRY_STATUSES"
    by (auto simp: ensure_ready_def require_incident_def split: option.splits if_splits)
  then show ?thesis by (auto simp: workflow_entry_statuses incident_table.parse_Some_iff)
qed

text \<open>
  Starting through the workflow endpoint does not look at the incident's status: on an
  incident that the readiness gate refuses because it already left triage, the start succeeds, given
  new identifiers, and puts the incident back under analysis.
\<close>

theorem start_ignores_status:
  assumes "incident_get i w = Some x" and "i_status x \<notin> {''OPEN'', ''ACKNOWLEDGED'', ''INVESTIGATING''}"
    and "find_row dg_id d (w_diagnoses w) = Some dg" and "dg_incident_id dg = Some i"
    and "dg_device_id dg = Some dev" and "dev \<noteq> []" and "dg_status dg \<in> {''FAULT'', ''UNCERTAIN''}"
    and "e_index env = Some search" and "run_by_key (e_key_hash env i d WORKFLOW_VERSION) w = None"
    and "c_uuid4 c (w_uuids w) \<notin> wr_id ` set (w_runs w)"
    and "c_uuid4 c (Suc (w_uuids w)) \<notin> rr_id ` set (w_retrievals w)"
  shows "(\<exists>e. ensure_ready i w = Inl e) \<and>
    (\<exists>st w'. start_begin c env i d w = Inr (NewRun st, w') \<and>
       incident_get i w' = Some (x\<lparr>i_status := ''UNDER_ANALYSIS''\<rparr>))"
proof
  have "ensure_ready i w \<noteq> Inr (y, z)" for y z
    using assms(1,2) gate_passes [of i w y z] by auto
  then show "\<exists>e. ensure_ready i w = Inl e" by (cases "ensure_ready i w") auto
  show "\<exists>st w'. start_begin c env i d w = Inr (NewRun st, w') \<and>
       incident_get i w' = Some (x\<lparr>i_status := ''UNDER_ANALYSIS''\<rparr>)"
    using assms
    by (simp add: start_begin_def begin_run_def uuid4_def utc_now_def run_by_key_def incident_get_def Let_def
        find_row_update_same)
qed


text \<open>A second diagnosis of the incident whose work order already exists.\<close>

definition demo_again :: world where
  "demo_again =
     (demo_finished ACT_INSPECT)\<lparr>w_diagnoses :=
       [demo_diagnosis\<lparr>dg_id := ''dg2'', dg_incident_id := Some ''u''\<rparr>]\<rparr>"

definition left_triage :: "world \<Rightarrow> bool" where
  "left_triage w \<longleftrightarrow>
     map_option i_status (incident_get ''u'' w) = Some ''WORK_ORDER_CREATED'' \<and>
     run_by_key (e_key_hash (demo_env ACT_INSPECT) ''u'' ''dg2'' WORKFLOW_VERSION) w = None \<and>
     c_uuid4 demo_ctx (w_uuids w) \<notin> wr_id ` set (w_runs w) \<and>
     c_uuid4 demo_ctx (Suc (w_uuids w)) \<notin> rr_id ` set (w_retrievals w)"

lemma demo_left_triage: "left_triage demo_again"
  by code_simp

theorem start_ignores_status_witness:
  "(\<exists>e. ensure_ready ''u'' demo_again = Inl e) \<and>
   (\<exists>st w'. start_begin demo_ctx (demo_env ACT_INSPECT) ''u'' ''dg2'' demo_again = Inr (NewRun st, w'))"
proof -
  from demo_left_triage obtain x where x: "incident_get ''u'' demo_again = Some x"
    "i_status x = ''WORK_ORDER_CREATED''"
    and fresh: "run_by_key (e_key_hash (demo_env ACT_INSPECT) ''u'' ''dg2'' WORKFLOW_VERSION) demo_again = None"
      "c_uuid4 demo_ctx (w_uuids demo_again) \<notin> wr_id ` set (w_runs demo_again)"
      "c_uuid4 demo_ctx (Suc (w_uuids demo_again)) \<notin> rr_id ` set (w_retrievals demo_again)"
    by (auto simp: left_triage_def)
  let ?d = "demo_diagnosis\<lparr>dg_id := ''dg2'', dg_incident_id := Some ''u''\<rparr>"
  have status: "i_status x \<notin> {''OPEN'', ''ACKNOWLEDGED'', ''INVESTIGATING''}" using x(2) by simp
  have d: "find_row dg_id ''dg2'' (w_diagnoses demo_again) = Some ?d" by (simp add: demo_again_def find_row_Cons)
  have fields: "dg_incident_id ?d = Some ''u''" "dg_device_id ?d = Some ''motor-1''" "''motor-1'' \<noteq> []"
    "dg_status ?d \<in> {''FAULT'', ''UNCERTAIN''}" by (simp_all add: demo_diagnosis_def)
  have index: "e_index (demo_env ACT_INSPECT) =
      Some (\<lambda>_. \<lparr>rt_evidence = [demo_evidence], rt_sufficiency = ''SUFFICIENT''\<rparr>)" by (simp add: demo_env_def)
  from start_ignores_status [OF x(1) status d fields index fresh] show ?thesis by blast
qed

lemma persisted_run:
  assumes "persist_result c env st b w = Inr (r, w')"
  shows "run_get (ws_workflow_run_id st) w' = Some r"
    "wr_status r = (if ws_status st = WF_AUTO_ALLOWED then WF_WORK_ORDER_CREATED else ws_status st)"
proof -
  from assms obtain row st' where row: "run_get (ws_workflow_run_id st) w = Some row" "r = recorded st' row"
    "w_runs w' = update_rows wr_id (ws_workflow_run_id st) (recorded st') (w_runs w)"
    "ws_status st' = (if ws_status st = WF_AUTO_ALLOWED then WF_WORK_ORDER_CREATED else ws_status st)"
    by (rule persist_result_run)
  show "run_get (ws_workflow_run_id st) w' = Some r"
    using row by (simp add: run_get_def find_row_update_same)
  show "wr_status r = (if ws_status st = WF_AUTO_ALLOWED then WF_WORK_ORDER_CREATED else ws_status st)"
    using row by simp
qed

lemma start_finish_run:
  assumes run: "start_finish c env st w = (Inr r, w')"
  shows "run_get (ws_workflow_run_id st) w' = Some r \<and>
    wr_status r \<in> {WF_BLOCKED, WF_WAITING_APPROVAL, WF_WORK_ORDER_CREATED}"
proof -
  obtain g w1 where g: "run_graph c env st w = (g, w1)" by (cases "run_graph c env st w")
  note post = run_graph_post [OF g]
  show ?thesis
  proof (cases g)
    case (Raised e)
    then show ?thesis using run g by (simp add: start_finish_def)
  next
    case (Interrupted st1)
    then obtain v where "persist_result c env (at_stage WF_WAITING_APPROVAL st1) True v = Inr (r, w')"
      using run g by (auto simp: start_finish_def Let_def split: sum.splits)
    from persisted_run [OF this] show ?thesis using post Interrupted by (simp add: same_identity_def)
  next
    case (Completed st1)
    then obtain v where "persist_result c env st1 False v = Inr (r, w')"
      using run g by (auto simp: start_finish_def Let_def split: sum.splits)
    from persisted_run [OF this] show ?thesis
      using post Completed by (auto simp: same_identity_def node_pre_def)
  qed
qed

text \<open>
  A cancellation that arrives while the run's agents are working does not last: the
  request succeeds and stores the cancelled status, and when the graph then ends normally its result
  overwrites it. The run is blocked, waits for approval or has a work order.
\<close>

theorem cancel_overwritten:
  assumes "cancel (ws_workflow_run_id st) w = Inr (r0, w1)" and "start_finish c env st w1 = (Inr r, w2)"
  shows "wr_status r0 = WF_CANCELLED \<and> run_get (ws_workflow_run_id st) w1 = Some r0 \<and>
    run_get (ws_workflow_run_id st) w2 = Some r \<and>
    wr_status r \<in> {WF_BLOCKED, WF_WAITING_APPROVAL, WF_WORK_ORDER_CREATED}"
proof -
  from assms(1) have "wr_status r0 = WF_CANCELLED" "run_get (ws_workflow_run_id st) w1 = Some r0"
    by (auto simp: cancel_def Let_def run_get_def find_row_update_same split: option.splits if_splits)
  with start_finish_run [OF assms(2)] show ?thesis by blast
qed

definition demo_cancelled :: world where
  "demo_cancelled =
     snd (sum.projr (cancel (ws_workflow_run_id (fst (demo_begun ACT_INSPECT))) (snd (demo_begun ACT_INSPECT))))"

lemma demo_cancel:
  "\<not> isl (cancel (ws_workflow_run_id (fst (demo_begun ACT_INSPECT))) (snd (demo_begun ACT_INSPECT)))"
  "\<not> isl (fst (start_finish demo_ctx (demo_env ACT_INSPECT) (fst (demo_begun ACT_INSPECT)) demo_cancelled))"
  by code_simp+

theorem cancel_overwritten_witness:
  "\<exists>r0 r w2. cancel (ws_workflow_run_id (fst (demo_begun ACT_INSPECT))) (snd (demo_begun ACT_INSPECT)) =
       Inr (r0, demo_cancelled) \<and> wr_status r0 = WF_CANCELLED \<and>
     start_finish demo_ctx (demo_env ACT_INSPECT) (fst (demo_begun ACT_INSPECT)) demo_cancelled = (Inr r, w2) \<and>
     wr_status r \<noteq> WF_CANCELLED"
proof -
  from demo_cancel(1) obtain r0 where c: "cancel (ws_workflow_run_id (fst (demo_begun ACT_INSPECT)))
      (snd (demo_begun ACT_INSPECT)) = Inr (r0, demo_cancelled)"
    unfolding demo_cancelled_def
    by (cases "cancel (ws_workflow_run_id (fst (demo_begun ACT_INSPECT))) (snd (demo_begun ACT_INSPECT))") auto
  from demo_cancel(2) obtain r w2 where f: "start_finish demo_ctx (demo_env ACT_INSPECT)
      (fst (demo_begun ACT_INSPECT)) demo_cancelled = (Inr r, w2)"
    by (cases "start_finish demo_ctx (demo_env ACT_INSPECT) (fst (demo_begun ACT_INSPECT)) demo_cancelled";
        cases "fst (start_finish demo_ctx (demo_env ACT_INSPECT) (fst (demo_begun ACT_INSPECT)) demo_cancelled)")
       auto
  show ?thesis using cancel_overwritten [OF c f] c f by auto
qed

end
