(* ===== verification/Telemetry.thy ===== *)
theory Telemetry
  imports Incidents
begin

text \<open>
  Telemetry: the message contract of \<^verbatim>\<open>schemas/telemetry.py\<close>, the repositories of
  \<^verbatim>\<open>repositories/telemetry.py\<close> and \<^verbatim>\<open>repositories/device.py\<close>, the history endpoint of
  \<^verbatim>\<open>api/telemetry.py\<close>, the latest-value cache of \<^verbatim>\<open>infrastructure/redis/latest.py\<close> and the fan-out of
  \<^verbatim>\<open>websocket/manager.py\<close>.
\<close>

section \<open>Message contract\<close>

text \<open>
  Python's \<^verbatim>\<open>int(text)\<close>: surrounding white space, one sign, and digits that single underscores may
  separate; more than 4300 digits are refused. \<open>None\<close> is \<^verbatim>\<open>ValueError\<close>.
\<close>

definition is_digit :: "char \<Rightarrow> bool" where
  "is_digit ch \<longleftrightarrow> 48 \<le> (of_char ch :: nat) \<and> (of_char ch :: nat) \<le> 57"

definition digits_value :: "string \<Rightarrow> int" where
  "digits_value ds = foldl (\<lambda>acc ch. 10 * acc + (of_char ch - 48)) 0 ds"

definition py_int :: "string \<Rightarrow> int option" where
  "py_int s =
     (let t = py_strip s;
          (sign, body) = (case t of [] \<Rightarrow> (1, [])
            | ch # rest \<Rightarrow> if ch = CHR ''-'' then (- 1, rest) else if ch = CHR ''+'' then (1, rest) else (1, t));
          groups = py_split (CHR ''_'') body
      in if list_all (\<lambda>g. g \<noteq> [] \<and> list_all is_digit g) groups \<and> length (concat groups) \<le> 4300
         then Some (sign * digits_value (concat groups)) else None)"

definition supported_major_version :: "string \<Rightarrow> bool" where
  "supported_major_version v = (py_int (hd (py_split (CHR ''.'') v)) = Some 1)"

definition in_range :: "rat \<Rightarrow> rat \<Rightarrow> pyfloat \<Rightarrow> bool" where
  "in_range lo hi x \<longleftrightarrow> float_le (Fin lo) x \<and> float_le x (Fin hi)"

definition telemetry_fields_ok :: "telemetry_in \<Rightarrow> bool" where
  "telemetry_fields_ok d \<longleftrightarrow>
     supported_major_version (t_schema_version d) \<and>
     text_between 1 100 (t_device_id d) \<and>
     in_range (- 50) 250 (t_temperature_c d) \<and> in_range (- 50) 250 (t_bearing_temperature_c d) \<and>
     in_range 0 200 (t_vibration_mm_s d) \<and> in_range 0 10000 (t_current_a d) \<and>
     in_range 0 10000 (t_voltage_v d) \<and> 0 \<le> t_rpm d \<and> t_rpm d \<le> 100000 \<and>
     in_range 0 120 (t_load_pct d) \<and> in_range 0 100000 (t_power_kw d) \<and>
     text_between 1 50 (t_operating_state d) \<and> text_between 1 100 (t_fault_state d)"

text \<open>
  A message body as the JSON parser and the field coercions leave it: undecodable, with the name of
  the exception; decodable but without exactly the contract's fields at their types; or the parsed
  time stamp with the other fields. The validators then run. \<open>Inl\<close> carries the exception's name.
\<close>

datatype message =
    Undecodable string
  | Unusable
  | Fields pydatetime telemetry_in

definition model_validate :: "message \<Rightarrow> string + telemetry_in" where
  "model_validate m =
     (case m of
        Undecodable exc \<Rightarrow> Inl exc
      | Unusable \<Rightarrow> Inl ''ValidationError''
      | Fields (Naive _) d \<Rightarrow> Inl ''ValidationError''
      | Fields (Aware t) d \<Rightarrow>
          if telemetry_fields_ok d then Inr (d\<lparr>t_timestamp := t\<rparr>) else Inl ''ValidationError'')"

section \<open>Repositories\<close>

definition device_get :: "string \<Rightarrow> world \<Rightarrow> device option" where
  "device_get device_id w = find_row dev_device_id device_id (w_devices w)"

definition telemetry_row :: "uuid \<Rightarrow> instant \<Rightarrow> telemetry_in \<Rightarrow> telemetry" where
  "telemetry_row fresh ts d =
     \<lparr>t_schema_version = t_schema_version d, t_timestamp = t_timestamp d, t_device_id = t_device_id d,
      t_temperature_c = t_temperature_c d, t_bearing_temperature_c = t_bearing_temperature_c d,
      t_vibration_mm_s = t_vibration_mm_s d, t_current_a = t_current_a d, t_voltage_v = t_voltage_v d,
      t_rpm = t_rpm d, t_load_pct = t_load_pct d, t_power_kw = t_power_kw d,
      t_operating_state = t_operating_state d, t_fault_state = t_fault_state d,
      t_id = fresh, t_ingested_at = ts\<rparr>"

text \<open>
  The insert is refused by the column width of the schema version, which the contract does not bound,
  skipped when the device already has a sample with this time stamp, and stored otherwise.
\<close>

definition SCHEMA_VERSION_WIDTH :: nat where
  "SCHEMA_VERSION_WIDTH = 20"

definition sample_key :: "telemetry \<Rightarrow> string \<times> instant" where
  "sample_key t = (t_device_id t, t_timestamp t)"

definition insert_once :: "ctx \<Rightarrow> telemetry_in \<Rightarrow> world \<Rightarrow> app_error + telemetry option \<times> world" where
  "insert_once c d w =
     (let (fresh, w1) = uuid4 c w; (ts, w2) = utc_now c w1; t = telemetry_row fresh ts d in
      if SCHEMA_VERSION_WIDTH < length (t_schema_version d) then Inl DataError
      else if sample_key t \<in> sample_key ` set (w_telemetry w2) then Inr (None, w2)
      else if fresh \<in> t_id ` set (w_telemetry w2) \<or>
          t_device_id d \<notin> dev_device_id ` set (w_devices w2) then Inl IntegrityError
      else Inr (Some t, w2\<lparr>w_telemetry := w_telemetry w2 @ [t]\<rparr>))"

definition by_timestamp_desc :: "telemetry \<Rightarrow> telemetry \<Rightarrow> bool" where
  "by_timestamp_desc a b \<longleftrightarrow> t_timestamp b \<le> t_timestamp a"

definition telemetry_latest :: "string \<Rightarrow> world \<Rightarrow> telemetry option" where
  "telemetry_latest device_id w =
     first_of (sort_by by_timestamp_desc (filter (\<lambda>t. t_device_id t = device_id) (w_telemetry w)))"

definition history ::
  "string \<Rightarrow> instant option \<Rightarrow> instant option \<Rightarrow> instant option \<Rightarrow> nat \<Rightarrow> world \<Rightarrow> telemetry list" where
  "history device_id start till cursor limit w =
     take limit (sort_by by_timestamp_desc (filter (\<lambda>t.
       t_device_id t = device_id \<and>
       (case start of None \<Rightarrow> True | Some s \<Rightarrow> s \<le> t_timestamp t) \<and>
       (case till of None \<Rightarrow> True | Some e \<Rightarrow> t_timestamp t \<le> e) \<and>
       (case cursor of None \<Rightarrow> True | Some k \<Rightarrow> t_timestamp t < k)) (w_telemetry w)))"

definition recent_window :: "string \<Rightarrow> nat \<Rightarrow> world \<Rightarrow> telemetry list" where
  "recent_window device_id limit w =
     rev (take limit (sort_by by_timestamp_desc (filter (\<lambda>t. t_device_id t = device_id) (w_telemetry w))))"

section \<open>History endpoint\<close>

definition naive_time :: "pydatetime option \<Rightarrow> bool" where
  "naive_time x \<longleftrightarrow> (case x of Some (Naive _) \<Rightarrow> True | _ \<Rightarrow> False)"

definition instant_of :: "pydatetime option \<Rightarrow> instant option" where
  "instant_of x = (case x of Some (Aware t) \<Rightarrow> Some t | _ \<Rightarrow> None)"

record telemetry_page =
  tp_items :: "telemetry list"
  tp_next_cursor :: "instant option"

definition page_of :: "nat \<Rightarrow> telemetry list \<Rightarrow> telemetry_page" where
  "page_of limit ts =
     (let items = take limit ts in
      \<lparr>tp_items = items, tp_next_cursor = (if limit < length ts then Some (t_timestamp (last items)) else None)\<rparr>)"

definition telemetry_history ::
  "string \<Rightarrow> pydatetime option \<Rightarrow> pydatetime option \<Rightarrow> pydatetime option \<Rightarrow> nat \<Rightarrow> world
    \<Rightarrow> app_error + telemetry_page" where
  "telemetry_history device_id start till cursor limit w =
     (if naive_time start \<or> naive_time till \<or> naive_time cursor then Inl (AppError ''INVALID_TIME_RANGE'' 422)
      else if (case (instant_of start, instant_of till) of (Some s, Some e) \<Rightarrow> e < s | _ \<Rightarrow> False)
      then Inl (AppError ''INVALID_TIME_RANGE'' 422)
      else if device_get device_id w = None then Inl (AppError ''DEVICE_NOT_FOUND'' 404)
      else Inr (page_of limit
        (history device_id (instant_of start) (instant_of till) (instant_of cursor) (limit + 1) w)))"

text \<open>The canonical topic of a device, from \<^verbatim>\<open>gateway/ingestion.py\<close>.\<close>

definition telemetry_topic :: "string \<Rightarrow> string" where
  "telemetry_topic device_id = ''industrial/devices/'' @ device_id @ ''/telemetry''"

section \<open>Latest-value cache\<close>

text \<open>
  The cache holds, per device, the epoch and the sample it was written with. The epoch is the time
  stamp in seconds as a double, which tells any two microseconds apart up to the year 2255.
\<close>

type_synonym cache = "(string \<times> telemetry) list"

definition set_if_newer :: "telemetry \<Rightarrow> cache \<Rightarrow> bool \<times> cache" where
  "set_if_newer t m =
     (case map_of m (t_device_id t) of
        Some old \<Rightarrow> if t_timestamp t \<le> t_timestamp old then (False, m) else (True, (t_device_id t, t) # m)
      | None \<Rightarrow> (True, (t_device_id t, t) # m))"

definition cache_get :: "string \<Rightarrow> cache \<Rightarrow> telemetry option" where
  "cache_get device_id m = map_of m device_id"

section \<open>Fan-out to live clients\<close>

text \<open>A manager keeps, per device, one bounded queue for each connected client.\<close>

record subscription =
  sub_device :: string
  sub_client :: nat
  sub_queue :: "telemetry list"

type_synonym manager = "subscription list"

definition ws_connect :: "string \<Rightarrow> nat \<Rightarrow> manager \<Rightarrow> manager" where
  "ws_connect device_id client m =
     filter (\<lambda>s. \<not> (sub_device s = device_id \<and> sub_client s = client)) m
     @ [\<lparr>sub_device = device_id, sub_client = client, sub_queue = []\<rparr>]"

definition ws_disconnect :: "string \<Rightarrow> nat \<Rightarrow> manager \<Rightarrow> manager" where
  "ws_disconnect device_id client m =
     filter (\<lambda>s. \<not> (sub_device s = device_id \<and> sub_client s = client)) m"

definition offer :: "nat \<Rightarrow> telemetry \<Rightarrow> telemetry list \<Rightarrow> telemetry list" where
  "offer queue_size x q = (if queue_size > 0 \<and> queue_size \<le> length q then tl q else q) @ [x]"

definition broadcast :: "nat \<Rightarrow> string \<Rightarrow> telemetry \<Rightarrow> manager \<Rightarrow> manager" where
  "broadcast queue_size device_id x m =
     map (\<lambda>s. if sub_device s = device_id then s\<lparr>sub_queue := offer queue_size x (sub_queue s)\<rparr> else s) m"

text \<open>A client takes the oldest queued sample.\<close>

definition ws_take :: "string \<Rightarrow> nat \<Rightarrow> manager \<Rightarrow> manager" where
  "ws_take device_id client m =
     map (\<lambda>s. if sub_device s = device_id \<and> sub_client s = client
              then s\<lparr>sub_queue := tl (sub_queue s)\<rparr> else s) m"

end
