(* ===== verification/Ingestion.thy ===== *)
theory Ingestion
  imports Telemetry
begin

text \<open>
  The telemetry path: device registration of \<^verbatim>\<open>services/devices.py\<close>, the online diagnosis coordinator
  of \<^verbatim>\<open>services/diagnosis.py\<close> and the ingestion service of \<^verbatim>\<open>services/telemetry.py\<close>. The frozen model is
  a parameter that returns a prediction or the name of the exception it raised. Whether a cache call
  reaches Redis is an argument of the operation that makes it. Latencies are not kept.
\<close>

section \<open>Devices\<close>

definition DEVICE_STATUSES :: "string list" where
  "DEVICE_STATUSES = [''ACTIVE'', ''INACTIVE'', ''DECOMMISSIONED'']"

record device_create =
  dc_device_id :: string
  dc_device_type :: string
  dc_name :: string
  dc_status :: string

definition is_alnum :: "char \<Rightarrow> bool" where
  "is_alnum ch \<longleftrightarrow> (let n = of_char ch :: nat in 48 \<le> n \<and> n \<le> 57 \<or> 65 \<le> n \<and> n \<le> 90 \<or> 97 \<le> n \<and> n \<le> 122)"

definition device_id_pattern :: "string \<Rightarrow> bool" where
  "device_id_pattern s =
     (case s of [] \<Rightarrow> False
      | ch # rest \<Rightarrow> is_alnum ch \<and> list_all (\<lambda>x. is_alnum x \<or> x \<in> set ''_.-'') rest)"

definition device_create_ok :: "device_create \<Rightarrow> bool" where
  "device_create_ok p \<longleftrightarrow>
     text_between 1 100 (dc_device_id p) \<and> device_id_pattern (dc_device_id p) \<and>
     text_between 1 50 (dc_device_type p) \<and> text_between 1 200 (dc_name p) \<and>
     dc_status p \<in> set DEVICE_STATUSES"

text \<open>An update sets the fields it names; an explicit null is refused by the contract.\<close>

record device_update =
  du_device_type :: "string option"
  du_name :: "string option"
  du_status :: "string option"
  du_metadata :: bool

definition create_device :: "ctx \<Rightarrow> device_create \<Rightarrow> world \<Rightarrow> app_error + device \<times> world" where
  "create_device c p w =
     (let (fresh, w1) = uuid4 c w;
          dev = \<lparr>dev_id = fresh, dev_device_id = dc_device_id p, dev_device_type = dc_device_type p,
                 dev_name = dc_name p, dev_status = dc_status p, dev_asset_node_id = None\<rparr>
      in if fresh \<in> dev_id ` set (w_devices w) \<or> dc_device_id p \<in> dev_device_id ` set (w_devices w)
         then Inl (AppError ''DEVICE_ALREADY_EXISTS'' 409)
         else Inr (dev, audit_add c (entry ''DEVICE_CREATED'' (dc_device_id p) ''SUCCESS'' [] None)
                (w1\<lparr>w_devices := w_devices w1 @ [dev]\<rparr>)))"

definition get_device :: "string \<Rightarrow> world \<Rightarrow> app_error + device" where
  "get_device device_id w =
     (case device_get device_id w of None \<Rightarrow> Inl (AppError ''DEVICE_NOT_FOUND'' 404) | Some d \<Rightarrow> Inr d)"

definition by_device_id :: "ctx \<Rightarrow> device \<Rightarrow> device \<Rightarrow> bool" where
  "by_device_id c a b \<longleftrightarrow> c_collate c (dev_device_id a) \<le> c_collate c (dev_device_id b)"

definition list_devices :: "ctx \<Rightarrow> nat \<Rightarrow> nat \<Rightarrow> world \<Rightarrow> device list" where
  "list_devices c limit offset w = take limit (drop offset (sort_by (by_device_id c) (w_devices w)))"

definition apply_device_update :: "device_update \<Rightarrow> device \<Rightarrow> device" where
  "apply_device_update p d =
     d\<lparr>dev_device_type := (case du_device_type p of None \<Rightarrow> dev_device_type d | Some x \<Rightarrow> x),
       dev_name := (case du_name p of None \<Rightarrow> dev_name d | Some x \<Rightarrow> x),
       dev_status := (case du_status p of None \<Rightarrow> dev_status d | Some x \<Rightarrow> x)\<rparr>"

definition updated_fields :: "device_update \<Rightarrow> string list" where
  "updated_fields p =
     (if du_device_type p = None then [] else [''device_type''])
     @ (if du_metadata p then [''metadata''] else [])
     @ (if du_name p = None then [] else [''name''])
     @ (if du_status p = None then [] else [''status''])"

definition update_device :: "ctx \<Rightarrow> string \<Rightarrow> device_update \<Rightarrow> world \<Rightarrow> app_error + device \<times> world" where
  "update_device c device_id p w =
     bindE (get_device device_id w) (\<lambda>d.
       Inr (apply_device_update p d,
         audit_add c (entry ''DEVICE_UPDATED'' device_id ''SUCCESS''
             [(''fields'', JList (map JStr (updated_fields p)))] None)
           (w\<lparr>w_devices := update_rows dev_id (dev_id d) (apply_device_update p) (w_devices w)\<rparr>)))"

section \<open>Online diagnosis\<close>

record prediction =
  pr_device_id :: string
  pr_status :: string
  pr_fault_type :: "string option"
  pr_confidence :: pyfloat
  pr_severity :: string
  pr_evidence :: "sensor_evidence list"
  pr_model_version :: string

record model_runtime =
  mr_window_size :: nat
  mr_stride :: int
  mr_predict :: "telemetry list \<Rightarrow> string + prediction"

record coordinator =
  co_buffers :: "(string \<times> telemetry list) list"
  co_since :: "(string \<times> int) list"
  co_inference_count :: nat
  co_failure_count :: nat
  co_uncertain_count :: nat
  co_distribution :: "string list"

definition buffer_of :: "string \<Rightarrow> coordinator \<Rightarrow> telemetry list" where
  "buffer_of device_id co = (case map_of (co_buffers co) device_id of None \<Rightarrow> [] | Some b \<Rightarrow> b)"

definition since_of :: "string \<Rightarrow> coordinator \<Rightarrow> int" where
  "since_of device_id co = (case map_of (co_since co) device_id of None \<Rightarrow> 0 | Some n \<Rightarrow> n)"

definition set_buffer :: "string \<Rightarrow> telemetry list \<Rightarrow> coordinator \<Rightarrow> coordinator" where
  "set_buffer device_id b co = co\<lparr>co_buffers := (device_id, b) # co_buffers co\<rparr>"

definition set_since :: "string \<Rightarrow> int \<Rightarrow> coordinator \<Rightarrow> coordinator" where
  "set_since device_id n co = co\<lparr>co_since := (device_id, n) # co_since co\<rparr>"

text \<open>A deque with a maximal length drops from the left what does not fit.\<close>

definition deque_extend :: "nat \<Rightarrow> 'a list \<Rightarrow> 'a list \<Rightarrow> 'a list" where
  "deque_extend maxlen xs b = drop (length (b @ xs) - maxlen) (b @ xs)"

definition warm_device :: "model_runtime \<Rightarrow> world \<Rightarrow> coordinator \<Rightarrow> device \<Rightarrow> coordinator" where
  "warm_device rt w co d =
     (let rows = recent_window (dev_device_id d) (mr_window_size rt) w in
      set_since (dev_device_id d) 0
        (set_buffer (dev_device_id d)
          (deque_extend (mr_window_size rt) rows (buffer_of (dev_device_id d) co)) co))"

definition warmup :: "ctx \<Rightarrow> model_runtime \<Rightarrow> world \<Rightarrow> coordinator \<Rightarrow> coordinator" where
  "warmup c rt w co = foldl (warm_device rt w) co (list_devices c 5000 0 w)"

definition diagnosis_insert :: "diagnosis \<Rightarrow> world \<Rightarrow> app_error + world" where
  "diagnosis_insert d w =
     (if dg_id d \<in> dg_id ` set (w_diagnoses w) \<or>
         (case dg_device_id d of None \<Rightarrow> False | Some k \<Rightarrow> k \<notin> dev_device_id ` set (w_devices w))
      then Inl IntegrityError else Inr (w\<lparr>w_diagnoses := w_diagnoses w @ [d]\<rparr>))"

definition create_prediction :: "ctx \<Rightarrow> prediction \<Rightarrow> world \<Rightarrow> app_error + diagnosis \<times> world" where
  "create_prediction c p w =
     (let (fresh, w1) = uuid4 c w; (ts, w2) = utc_now c w1;
          d = \<lparr>dg_id = fresh, dg_incident_id = None, dg_device_id = Some (pr_device_id p),
               dg_status = pr_status p, dg_fault_type = pr_fault_type p,
               dg_confidence = Some (pr_confidence p), dg_severity = Some (pr_severity p),
               dg_evidence = pr_evidence p, dg_model_version = Some (pr_model_version p),
               dg_created_at = ts\<rparr>
      in bindE (diagnosis_insert d w2) (\<lambda>w3. Inr (d, w3)))"

definition create_failed :: "ctx \<Rightarrow> string \<Rightarrow> world \<Rightarrow> app_error + diagnosis \<times> world" where
  "create_failed c device_id w =
     (let (fresh, w1) = uuid4 c w; (ts, w2) = utc_now c w1;
          d = \<lparr>dg_id = fresh, dg_incident_id = None, dg_device_id = Some device_id, dg_status = ''FAILED'',
               dg_fault_type = None, dg_confidence = None, dg_severity = None, dg_evidence = [],
               dg_model_version = None, dg_created_at = ts\<rparr>
      in bindE (diagnosis_insert d w2) (\<lambda>w3. Inr (d, w3)))"

definition record_prediction :: "ctx \<Rightarrow> string \<Rightarrow> prediction \<Rightarrow> world \<Rightarrow> app_error + world" where
  "record_prediction c device_id p w =
     bindE (create_prediction c p w) (\<lambda>(d, w1).
       (let incident_id = (if pr_status p \<in> {''FAULT'', ''UNCERTAIN''}
              then map_option i_id (find_open_for_device (pr_device_id p) w1) else None);
            w2 = w1\<lparr>w_diagnoses := update_rows dg_id (dg_id d)
                   (\<lambda>x. x\<lparr>dg_incident_id := incident_id\<rparr>) (w_diagnoses w1)\<rparr>
        in Inr (audit_add c (entry ''DIAGNOSIS_CREATED'' device_id ''SUCCESS''
             [(''diagnosis_status'', JStr (pr_status p)), (''model_version'', JStr (pr_model_version p)),
              (''incident_id'', json_opt_str incident_id)] None) w2)))"

definition record_failure :: "ctx \<Rightarrow> string \<Rightarrow> string \<Rightarrow> world \<Rightarrow> app_error + world" where
  "record_failure c device_id exc w =
     bindE (create_failed c device_id w) (\<lambda>(d, w1).
       Inr (audit_add c (entry ''DIAGNOSIS_FAILED'' device_id ''FAILED'' [(''error_type'', JStr exc)] None) w1))"

definition window_ok :: "telemetry list \<Rightarrow> bool" where
  "window_ok b \<longleftrightarrow> 2 \<le> length b \<and> sorted_wrt (\<lambda>x y. t_timestamp x < t_timestamp y) b"

text \<open>
  The inference: the prediction is stored and counted; a failure of the model or of the store is
  counted and recorded as a failed diagnosis. Only a failure to record the failure escapes.
\<close>

text \<open>A failed insert has drawn one identifier and one clock reading.\<close>

definition drawn :: "world \<Rightarrow> world" where
  "drawn w = w\<lparr>w_uuids := Suc (w_uuids w), w_ticks := Suc (w_ticks w)\<rparr>"

definition infer ::
  "ctx \<Rightarrow> model_runtime \<Rightarrow> string \<Rightarrow> telemetry list \<Rightarrow> coordinator \<Rightarrow> world
    \<Rightarrow> (app_error + unit) \<times> coordinator \<times> world" where
  "infer c rt device_id window co w =
     (let failed = (\<lambda>exc v. case record_failure c device_id exc v of
            Inl e \<Rightarrow> (Inl e, co\<lparr>co_failure_count := Suc (co_failure_count co)\<rparr>, drawn v)
          | Inr w1 \<Rightarrow> (Inr (), co\<lparr>co_failure_count := Suc (co_failure_count co)\<rparr>, w1))
      in case mr_predict rt window of
           Inl exc \<Rightarrow> failed exc w
         | Inr p \<Rightarrow>
             (case record_prediction c device_id p w of
                Inl _ \<Rightarrow> failed ''IntegrityError'' (drawn w)
              | Inr w1 \<Rightarrow>
                  (Inr (), co\<lparr>co_inference_count := Suc (co_inference_count co),
                     co_uncertain_count := (if pr_status p = ''UNCERTAIN''
                       then Suc (co_uncertain_count co) else co_uncertain_count co),
                     co_distribution := co_distribution co @ [case pr_fault_type p of
                       None \<Rightarrow> ''UNCERTAIN'' | Some f \<Rightarrow> if f = [] then ''UNCERTAIN'' else f]\<rparr>, w1)))"

definition handle ::
  "ctx \<Rightarrow> model_runtime \<Rightarrow> telemetry \<Rightarrow> coordinator \<Rightarrow> world
    \<Rightarrow> (app_error + unit) \<times> coordinator \<times> world" where
  "handle c rt t co w =
     (let k = t_device_id t; b = buffer_of k co in
      if b \<noteq> [] \<and> t_timestamp t \<le> t_timestamp (last b) then (Inr (), co, w)
      else
        (let b' = deque_extend (mr_window_size rt) [t] b;
             n = since_of k co + 1;
             co1 = set_since k n (set_buffer k b' co) in
         if length b' < mr_window_size rt then (Inr (), co1, w)
         else if n < mr_stride rt then (Inr (), co1, w)
         else
           (let co2 = set_since k 0 co1 in
            if \<not> window_ok b' then (Inl PyValueError, co2, w)
            else infer c rt k b' co2 w)))"

section \<open>Ingestion\<close>

record ingestion_counters =
  cnt_consumed :: nat
  cnt_persisted :: nat
  cnt_duplicates :: nat
  cnt_rejected :: nat

record ingestion_result =
  ir_status :: string
  ir_telemetry :: "telemetry option"

text \<open>The database with the state the process keeps beside it.\<close>

record plant =
  s_db :: world
  s_counters :: ingestion_counters
  s_cache :: cache
  s_ws :: manager
  s_diagnosis :: "coordinator option"

text \<open>
  What the service is run with: the model runtime, the queue size of the fan-out, whether Redis
  answers, what other sessions commit between the lookup and the insert of an alarm, and what
  abandoned alarm work leaves behind in the counters and streams.
\<close>

record ingest_env =
  ie_runtime :: model_runtime
  ie_queue_size :: nat
  ie_redis_up :: bool
  ie_others :: "world \<Rightarrow> world"
  ie_abandoned :: "world \<Rightarrow> world"

definition topic_device_id :: "string \<Rightarrow> string" where
  "topic_device_id topic =
     (let parts = py_split (CHR ''/'') topic in
      if length parts \<noteq> 4 \<or> parts ! 0 \<noteq> ''industrial'' \<or> parts ! 1 \<noteq> ''devices'' then [] else parts ! 2)"

definition payload_of :: "telemetry_in \<Rightarrow> payload" where
  "payload_of d = map_of
     [(''schema_version'', VStr (t_schema_version d)), (''timestamp'', VTime (Aware (t_timestamp d))),
      (''device_id'', VStr (t_device_id d)), (''temperature_c'', VFloat (t_temperature_c d)),
      (''bearing_temperature_c'', VFloat (t_bearing_temperature_c d)),
      (''vibration_mm_s'', VFloat (t_vibration_mm_s d)), (''current_a'', VFloat (t_current_a d)),
      (''voltage_v'', VFloat (t_voltage_v d)), (''rpm'', VInt (t_rpm d)),
      (''load_pct'', VFloat (t_load_pct d)), (''power_kw'', VFloat (t_power_kw d)),
      (''operating_state'', VStr (t_operating_state d)), (''fault_state'', VStr (t_fault_state d))]"

definition reject :: "ctx \<Rightarrow> string \<Rightarrow> string \<Rightarrow> string \<Rightarrow> plant \<Rightarrow> plant" where
  "reject c topic reason detail s =
     s\<lparr>s_db := audit_add c (entry ''TELEMETRY_REJECTED'' topic ''FAILED''
           [(''reason'', JStr reason), (''detail'', JStr detail)] None)
         (inc_metric ''telemetry_ingest_failed_total'' [reason] (s_db s)),
       s_counters := (s_counters s)\<lparr>cnt_rejected := Suc (cnt_rejected (s_counters s))\<rparr>\<rparr>"

definition correlate_all :: "ctx \<Rightarrow> alarm list \<Rightarrow> world \<Rightarrow> app_error + world" where
  "correlate_all c touched w =
     foldE (\<lambda>v a. bindE (correlate_alarm c a DEFAULT_CORRELATION_WINDOW_SECONDS DEFAULT_ACTOR v)
       (\<lambda>(_, v'). Inr v')) w touched"

definition alarm_work ::
  "ctx \<Rightarrow> (world \<Rightarrow> world) \<Rightarrow> device \<Rightarrow> uuid \<Rightarrow> telemetry_in \<Rightarrow> world \<Rightarrow> app_error + nat \<times> world" where
  "alarm_work c others dev telemetry_id d w =
     bindE (record_breaches c others (dev_device_id dev) (Some (dev_device_type dev)) (Some telemetry_id)
         (payload_of d) (Some (t_timestamp d)) DEFAULT_ACTOR w) (\<lambda>(touched, w1).
       bindE (correlate_all c touched w1) (\<lambda>w2. Inr (length touched, w2)))"

definition apply_alarm_rules ::
  "ctx \<Rightarrow> ingest_env \<Rightarrow> device \<Rightarrow> uuid \<Rightarrow> telemetry_in \<Rightarrow> world \<Rightarrow> nat \<times> world" where
  "apply_alarm_rules c env dev telemetry_id d w =
     (case alarm_work c (ie_others env) dev telemetry_id d w of
        Inr (n, w') \<Rightarrow> (n, w')
      | Inl _ \<Rightarrow>
          (0, audit_add c (entry ''ALARM_EVALUATION_FAILED'' (dev_device_id dev) ''FAILED''
             [(''reason'', JStr ''rule evaluation raised''), (''telemetry_id'', JStr telemetry_id)] None)
            (rollback_to w (ie_abandoned env w))))"

definition publish_latest :: "ingest_env \<Rightarrow> telemetry \<Rightarrow> plant \<Rightarrow> bool \<times> plant" where
  "publish_latest env t s =
     (let (is_latest, s1) =
            (if ie_redis_up env
             then (let (b, m) = set_if_newer t (s_cache s) in (b, s\<lparr>s_cache := m\<rparr>))
             else (map_option t_id (telemetry_latest (t_device_id t) (s_db s)) = Some (t_id t), s))
      in (is_latest,
          if is_latest then s1\<lparr>s_ws := broadcast (ie_queue_size env) (t_device_id t) t (s_ws s1)\<rparr> else s1))"

definition diagnose :: "ctx \<Rightarrow> ingest_env \<Rightarrow> telemetry \<Rightarrow> plant \<Rightarrow> (app_error + unit) \<times> plant" where
  "diagnose c env t s =
     (case s_diagnosis s of
        None \<Rightarrow> (Inr (), s)
      | Some co \<Rightarrow>
          (let (r, co', w') = handle c (ie_runtime env) t co (s_db s)
           in (r, s\<lparr>s_db := w', s_diagnosis := Some co'\<rparr>)))"

definition store_sample ::
  "ctx \<Rightarrow> ingest_env \<Rightarrow> device \<Rightarrow> telemetry_in \<Rightarrow> plant \<Rightarrow> (app_error + ingestion_result) \<times> plant" where
  "store_sample c env dev d s =
     (case insert_once c d (s_db s) of
        Inl e \<Rightarrow> (Inl e, s\<lparr>s_db := drawn (s_db s)\<rparr>)
      | Inr (None, w1) \<Rightarrow>
          (Inr \<lparr>ir_status = ''DUPLICATE'', ir_telemetry = None\<rparr>,
           s\<lparr>s_db := rollback_to (s_db s) w1,
             s_counters := (s_counters s)\<lparr>cnt_duplicates := Suc (cnt_duplicates (s_counters s))\<rparr>\<rparr>)
      | Inr (Some t, w1) \<Rightarrow>
          (let (_, w2) = apply_alarm_rules c env dev (t_id t) d w1;
               s1 = s\<lparr>s_db := w2,
                      s_counters := (s_counters s)\<lparr>cnt_persisted := Suc (cnt_persisted (s_counters s))\<rparr>\<rparr>;
               (is_latest, s2) = publish_latest env t s1;
               (r, s3) = (if is_latest then diagnose c env t s2 else (Inr (), s2))
           in (case r of Inl e \<Rightarrow> Inl e
               | Inr _ \<Rightarrow> Inr \<lparr>ir_status = ''PERSISTED'', ir_telemetry = Some t\<rparr>, s3)))"

definition ingest ::
  "ctx \<Rightarrow> ingest_env \<Rightarrow> string \<Rightarrow> message \<Rightarrow> plant \<Rightarrow> (app_error + ingestion_result) \<times> plant" where
  "ingest c env topic m s =
     (let (trace_id, w0) = uuid4 c (s_db s);
          c' = c\<lparr>c_trace_id := trace_id\<rparr>;
          s0 = s\<lparr>s_db := w0, s_counters := (s_counters s)\<lparr>cnt_consumed := Suc (cnt_consumed (s_counters s))\<rparr>\<rparr>;
          rejected = (\<lambda>reason detail.
            (Inr \<lparr>ir_status = ''REJECTED'', ir_telemetry = None\<rparr>, reject c' topic reason detail s0))
      in case model_validate m of
           Inl exc \<Rightarrow> rejected ''INVALID_TELEMETRY'' exc
         | Inr d \<Rightarrow>
             if topic_device_id topic \<noteq> t_device_id d then rejected ''DEVICE_TOPIC_MISMATCH'' (t_device_id d)
             else case device_get (t_device_id d) w0 of
                 None \<Rightarrow> rejected ''UNKNOWN_DEVICE'' (t_device_id d)
               | Some dev \<Rightarrow> store_sample c' env dev d s0)"

definition on_db :: "(world \<Rightarrow> world) \<Rightarrow> plant \<Rightarrow> plant" where
  "on_db f s = s\<lparr>s_db := f (s_db s)\<rparr>"

definition ingest_payload ::
  "ctx \<Rightarrow> ingest_env \<Rightarrow> string \<Rightarrow> message \<Rightarrow> plant \<Rightarrow> (app_error + ingestion_result) \<times> plant" where
  "ingest_payload c env topic m s =
     (case ingest c env topic m (on_db (inc_metric ''telemetry_ingest_total'' []) s) of
        (Inl e, s') \<Rightarrow>
          (Inl e, on_db (inc_metric ''telemetry_processing_latency_seconds'' [''ERROR''] \<circ>
             inc_metric ''telemetry_ingest_failed_total'' [''EXCEPTION'']) s')
      | (Inr r, s') \<Rightarrow>
          (Inr r, on_db (inc_metric ''telemetry_processing_latency_seconds'' [ir_status r]) s'))"

text \<open>The consumer logs an exception of the service and goes on with the next message.\<close>

definition consume :: "ctx \<Rightarrow> ingest_env \<Rightarrow> plant \<Rightarrow> string \<times> message \<Rightarrow> plant" where
  "consume c env s tm = snd (ingest_payload c env (fst tm) (snd tm) s)"

section \<open>Reading the latest sample\<close>

definition latest ::
  "bool \<Rightarrow> bool \<Rightarrow> string \<Rightarrow> plant \<Rightarrow> (app_error + telemetry) \<times> plant" where
  "latest read_up write_up device_id s =
     (if device_get device_id (s_db s) = None then (Inl (AppError ''DEVICE_NOT_FOUND'' 404), s)
      else case (if read_up then cache_get device_id (s_cache s) else None) of
          Some t \<Rightarrow> (Inr t, s)
        | None \<Rightarrow>
            (case telemetry_latest device_id (s_db s) of
               None \<Rightarrow> (Inl (AppError ''TELEMETRY_NOT_FOUND'' 404), s)
             | Some t \<Rightarrow>
                 (Inr t, if write_up then s\<lparr>s_cache := snd (set_if_newer t (s_cache s))\<rparr> else s)))"

end
