(* ===== verification/TelemetryLemmas.thy ===== *)
theory TelemetryLemmas
  imports Ingestion IncidentLemmas
begin

text \<open>
  What ingestion keeps and adds: the samples are only ever added to, by the insert alone; the cache
  agrees with the newest stored sample; the coordinator's buffers stay ordered and bounded.
\<close>

section \<open>Alarm work leaves the samples alone\<close>

text \<open>
  The contract of a step that runs between the insert of a sample and its commit: it touches neither
  samples nor devices. Steps compose.
\<close>

definition samples_kept :: "world \<Rightarrow> world \<Rightarrow> bool" where
  "samples_kept w w' \<longleftrightarrow> w_telemetry w' = w_telemetry w \<and> w_devices w' = w_devices w"

lemma samples_kept_refl [simp]: "samples_kept w w"
  by (simp add: samples_kept_def)

lemma samples_kept_trans: "samples_kept w v \<Longrightarrow> samples_kept v u \<Longrightarrow> samples_kept w u"
  by (simp add: samples_kept_def)

lemma samples_kept_audit [simp]: "samples_kept w (audit_add c en v) = samples_kept w v"
  by (simp add: samples_kept_def)

lemma samples_kept_metric [simp]: "samples_kept w (inc_metric n ls v) = samples_kept w v"
  by (simp add: samples_kept_def inc_metric_def)

locale quiet_step =
  fixes f :: "world \<Rightarrow> 'x \<Rightarrow> app_error + 'y \<times> world"
  assumes quiet: "f w x = Inr (y, w') \<Longrightarrow> samples_kept w w'"
begin

lemma quiet_fold:
  assumes "foldE (\<lambda>(ys, v) x. bindE (f v x) (\<lambda>(y, v'). Inr (ys @ [g y], v'))) (ys, w) xs = Inr (zs, w')"
  shows "samples_kept w w'"
proof -
  have "samples_kept w (snd (zs, w'))"
    using assms
    by (rule foldE_invariant [where P = "\<lambda>s. samples_kept w (snd s)"])
       (auto simp: bindE_Inr_iff intro: samples_kept_trans [OF _ quiet])
  then show ?thesis by simp
qed

lemma quiet_run:
  assumes "foldE (\<lambda>v x. bindE (f v x) (\<lambda>(_, v'). Inr v')) w xs = Inr w'"
  shows "samples_kept w w'"
  using assms
  by (rule foldE_invariant [where P = "samples_kept w"])
     (auto simp: bindE_Inr_iff intro: samples_kept_trans [OF _ quiet])

end

lemma fold_breach_kept: "samples_kept w (snd (fold_breach a b t w))"
  by (simp add: fold_breach_def samples_kept_def Let_def)

lemma alarm_create_kept: "alarm_create c d tid r s m st n w = Inr (a, w') \<Longrightarrow> samples_kept w w'"
  by (auto simp: alarm_create_def uuid4_def utc_now_def Let_def samples_kept_def
      split: option.splits if_splits)

lemma create_or_update_kept:
  assumes others: "\<And>v. samples_kept v (others v)"
    and run: "create_or_update_alarm c others d b tid (Some t) actor w = Inr (r, w')"
  shows "samples_kept w w'"
proof (cases "find_open d (b_rule_id b) w")
  case (Some a)
  then show ?thesis using run fold_breach_kept [of w a b t]
    by (simp add: create_or_update_alarm_def instant_or_now_def)
next
  case None
  let ?w2 = "others w"
  have uuid: "samples_kept ?w2 (snd (uuid4 c ?w2))" by (simp add: uuid4_def samples_kept_def)
  have "samples_kept ?w2 w'"
  proof (cases "alarm_create c d tid (b_rule_id b) (b_severity b) (b_message b) (Some t) 1 ?w2")
    case (Inl e)
    then obtain a where "fold_breach a b t (snd (uuid4 c ?w2)) = (r, w')"
      using run None by (auto simp: create_or_update_alarm_def instant_or_now_def Let_def split: option.splits)
    then show ?thesis using samples_kept_trans [OF uuid fold_breach_kept [of _ a b t]] by simp
  next
    case (Inr p)
    obtain a w3 where "p = (a, w3)" by (cases p)
    with Inr show ?thesis
      using run None alarm_create_kept
      by (auto simp: create_or_update_alarm_def instant_or_now_def Let_def)
  qed
  with others show ?thesis by (blast intro: samples_kept_trans)
qed

lemma link_kept: "link c i a w = Inr (l, w') \<Longrightarrow> samples_kept w w'"
  by (auto simp: link_def uuid4_def utc_now_def Let_def samples_kept_def split: if_splits)

lemma attach_kept: "attach_alarm_to_incident c i a actor w = Inr (r, w') \<Longrightarrow> samples_kept w w'"
  by (auto simp: attach_alarm_to_incident_def bindE_Inr_iff Let_def set_incident_def samples_kept_def
      dest!: link_kept split: if_splits)

lemma create_incident_for_kept: "create_incident_for c a actor w = Inr (i, w') \<Longrightarrow> samples_kept w w'"
  by (auto simp: create_incident_for_def incident_insert_def bindE_Inr_iff uuid4_def utc_now_def Let_def
      samples_kept_def inc_metric_def split: if_splits)

lemma correlate_kept: "correlate_alarm c a window actor w = Inr (r, w') \<Longrightarrow> samples_kept w w'"
  by (auto simp: correlate_alarm_def bindE_Inr_iff split: option.splits if_splits
      dest!: attach_kept create_incident_for_kept intro: samples_kept_trans)

interpretation correlating: quiet_step "\<lambda>w a. correlate_alarm c a window actor w" for c window actor
  by unfold_locales (rule correlate_kept)

lemma record_breaches_kept:
  assumes others: "\<And>v. samples_kept v (others v)"
    and run: "record_breaches c others d dt tid payload (Some t) actor w = Inr (touched, w')"
  shows "samples_kept w w'"
proof -
  have step: "quiet_step (\<lambda>w b. create_or_update_alarm c others d b tid (Some t) actor w)"
    by unfold_locales (rule create_or_update_kept [OF others])
  note fold = quiet_step.quiet_fold [OF step, where g = fst]
  from run consider "w' = w"
    | breaches where "foldE (\<lambda>(touched, w) breach.
          bindE (create_or_update_alarm c others d breach tid (Some t) actor w)
            (\<lambda>((a, _), w'). Inr (touched @ [a], w'))) ([], w) breaches = Inr (touched, w')"
    by (auto simp: record_breaches_def bindE_Inr_iff Let_def split: if_splits)
  then show ?thesis
  proof cases
    case (2 breaches)
    then show ?thesis using fold [of "[]" w breaches touched w'] by (simp add: case_prod_unfold)
  qed simp
qed

lemma alarm_work_kept:
  assumes "\<And>v. samples_kept v (others v)" and "alarm_work c others dev tid d w = Inr (n, w')"
  shows "samples_kept w w'"
  using assms(2)
  by (auto simp: alarm_work_def correlate_all_def bindE_Inr_iff
      dest!: record_breaches_kept [OF assms(1)] correlating.quiet_run intro: samples_kept_trans)

lemma apply_alarm_rules_kept:
  assumes "\<And>v. samples_kept v (ie_others env v)"
  shows "samples_kept w (snd (apply_alarm_rules c env dev tid d w))"
proof (cases "alarm_work c (ie_others env) dev tid d w")
  case (Inl e)
  then show ?thesis by (simp add: apply_alarm_rules_def samples_kept_def rollback_to_def)
next
  case (Inr p)
  obtain n w' where "p = (n, w')" by (cases p)
  with Inr show ?thesis using alarm_work_kept [OF assms] by (auto simp: apply_alarm_rules_def)
qed

section \<open>Diagnosis leaves the samples alone\<close>

lemma create_prediction_kept: "create_prediction c p w = Inr (d, w') \<Longrightarrow> samples_kept w w'"
  by (auto simp: create_prediction_def diagnosis_insert_def bindE_Inr_iff uuid4_def utc_now_def Let_def
      samples_kept_def split: if_splits)

lemma record_prediction_kept: "record_prediction c k p w = Inr w' \<Longrightarrow> samples_kept w w'"
  by (auto simp: record_prediction_def bindE_Inr_iff Let_def samples_kept_def dest!: create_prediction_kept)

lemma record_failure_kept: "record_failure c k exc w = Inr w' \<Longrightarrow> samples_kept w w'"
  by (auto simp: record_failure_def create_failed_def diagnosis_insert_def bindE_Inr_iff uuid4_def
      utc_now_def Let_def samples_kept_def split: if_splits)

lemma drawn_kept [simp]: "samples_kept w (drawn v) = samples_kept w v"
  by (simp add: samples_kept_def drawn_def)

lemma failure_kept:
  "record_failure c k exc (drawn w) = Inr w' \<Longrightarrow> samples_kept w w'"
  by (drule record_failure_kept) (simp add: samples_kept_def drawn_def)

lemma infer_kept: "infer c rt k b co w = (r, co', w') \<Longrightarrow> samples_kept w w'"
  by (auto simp: infer_def Let_def split: sum.splits dest: record_failure_kept record_prediction_kept failure_kept)

lemma handle_kept: "handle c rt t co w = (r, co', w') \<Longrightarrow> samples_kept w w'"
  by (auto simp: handle_def Let_def split: if_splits dest: infer_kept)

lemma diagnose_kept: "samples_kept (s_db s) (s_db (snd (diagnose c env t s)))"
  by (auto simp: diagnose_def split: option.splits prod.splits dest: handle_kept)

lemma publish_latest_db [simp]:
  "s_db (snd (publish_latest env t s)) = s_db s" "s_counters (snd (publish_latest env t s)) = s_counters s"
  "s_diagnosis (snd (publish_latest env t s)) = s_diagnosis s"
  by (auto simp: publish_latest_def Let_def split: prod.splits)

lemma diagnose_state [simp]:
  "s_counters (snd (diagnose c env t s)) = s_counters s" "s_cache (snd (diagnose c env t s)) = s_cache s"
  "s_ws (snd (diagnose c env t s)) = s_ws s"
  by (auto simp: diagnose_def split: option.splits prod.splits)

end
