(* ===== verification/TelemetryProps.thy ===== *)
theory TelemetryProps
  imports TelemetryLemmas AlarmProps
begin

text \<open>
  Properties of the telemetry path: what becomes of a message, what survives a broken rule, what a
  stream of messages leaves behind, the latest-value cache, the history pages, the live queues, the
  diagnosis windows and the topic names.
\<close>

section \<open>One message\<close>

text \<open>Why a message is refused, as the service checks it.\<close>

definition refusal :: "string \<Rightarrow> message \<Rightarrow> world \<Rightarrow> string option" where
  "refusal topic m w =
     (case model_validate m of
        Inl _ \<Rightarrow> Some ''INVALID_TELEMETRY''
      | Inr d \<Rightarrow>
          if topic_device_id topic \<noteq> t_device_id d then Some ''DEVICE_TOPIC_MISMATCH''
          else if t_device_id d \<notin> dev_device_id ` set (w_devices w) then Some ''UNKNOWN_DEVICE''
          else None)"

definition refused :: "string \<Rightarrow> string \<Rightarrow> plant \<Rightarrow> plant \<Rightarrow> bool" where
  "refused topic reason s s' \<longleftrightarrow>
     (\<exists>e. w_audit (s_db s') = w_audit (s_db s) @ [e] \<and> ae_action e = ''TELEMETRY_REJECTED'' \<and>
        ae_resource e = topic) \<and>
     (''telemetry_ingest_failed_total'', [reason]) \<in> set (w_metrics (s_db s')) \<and>
     w_telemetry (s_db s') = w_telemetry (s_db s) \<and> w_alarms (s_db s') = w_alarms (s_db s) \<and>
     w_incidents (s_db s') = w_incidents (s_db s) \<and> s_cache s' = s_cache s \<and> s_ws s' = s_ws s \<and>
     s_diagnosis s' = s_diagnosis s"

lemma device_get_iff: "device_get k w = None \<longleftrightarrow> k \<notin> dev_device_id ` set (w_devices w)"
  by (simp add: device_get_def find_row_None)

lemma device_get_member: "device_get k w = Some d \<Longrightarrow> k \<in> dev_device_id ` set (w_devices w)"
  by (metis device_get_iff option.distinct(1))

lemma sample_key_row [simp]: "sample_key (telemetry_row k ts d) = (t_device_id d, t_timestamp d)"
  by (simp add: sample_key_def telemetry_row_def)

lemma telemetry_row_id [simp]: "t_id (telemetry_row k ts d) = k"
  by (simp add: telemetry_row_def)

lemma insert_once_eq:
  "insert_once c d w =
     (let t = telemetry_row (c_uuid4 c (w_uuids w)) (c_clock c (w_ticks w)) d in
      if SCHEMA_VERSION_WIDTH < length (t_schema_version d) then Inl DataError
      else if sample_key t \<in> sample_key ` set (w_telemetry w) then Inr (None, drawn w)
      else if t_id t \<in> t_id ` set (w_telemetry w) \<or> t_device_id d \<notin> dev_device_id ` set (w_devices w)
      then Inl IntegrityError
      else Inr (Some t, (drawn w)\<lparr>w_telemetry := w_telemetry w @ [t]\<rparr>))"
  by (simp add: insert_once_def uuid4_def utc_now_def Let_def drawn_def)

lemma same_tables_drawn [simp]: "same_tables w (drawn w)"
  by (simp add: same_tables_iff drawn_def)

text \<open>Storing a sample, apart from what follows its commit.\<close>

lemma store_sample_stored:
  assumes others: "\<And>v. samples_kept v (ie_others env v)"
    and ins: "insert_once c d (s_db s) = Inr (Some t, w1)"
    and run: "store_sample c env dev d s = (r, s')"
  shows "w_telemetry (s_db s') = w_telemetry (s_db s) @ [t]" "w_devices (s_db s') = w_devices (s_db s)"
    "s_counters s' = (s_counters s)\<lparr>cnt_persisted := Suc (cnt_persisted (s_counters s))\<rparr>"
    "r = Inr \<lparr>ir_status = ''PERSISTED'', ir_telemetry = Some t\<rparr> \<or> s_diagnosis s \<noteq> None \<and> (\<exists>e. r = Inl e)"
    "s_cache s' = (if ie_redis_up env then snd (set_if_newer t (s_cache s)) else s_cache s)"
proof -
  obtain n w2 where aw: "apply_alarm_rules c env dev (t_id t) d w1 = (n, w2)" by fastforce
  let ?s1 = "s\<lparr>s_db := w2, s_counters := (s_counters s)\<lparr>cnt_persisted := Suc (cnt_persisted (s_counters s))\<rparr>\<rparr>"
  obtain b s2 where pl: "publish_latest env t ?s1 = (b, s2)" by fastforce
  obtain q s3 where dg: "(if b then diagnose c env t s2 else (Inr (), s2)) = (q, s3)" by fastforce
  have res: "r = (case q of Inl e \<Rightarrow> Inl e | Inr _ \<Rightarrow> Inr \<lparr>ir_status = ''PERSISTED'', ir_telemetry = Some t\<rparr>)"
    "s' = s3"
    using run by (simp_all add: store_sample_def ins aw pl dg Let_def)
  have w1: "w_telemetry w1 = w_telemetry (s_db s) @ [t]" "w_devices w1 = w_devices (s_db s)"
    using ins by (auto simp: insert_once_eq Let_def drawn_def split: if_splits)
  have "samples_kept w1 w2" using apply_alarm_rules_kept [OF others, of w1 c dev "t_id t" d] aw by simp
  moreover have s2: "s_db s2 = w2" "s_counters s2 = s_counters ?s1" "s_diagnosis s2 = s_diagnosis s"
    using publish_latest_db [of env t ?s1] by (simp_all add: pl)
  moreover have "samples_kept (s_db s2) (s_db s3)"
    using dg diagnose_kept [of s2 c env t] by (auto split: if_splits)
  ultimately show "w_telemetry (s_db s') = w_telemetry (s_db s) @ [t]" "w_devices (s_db s') = w_devices (s_db s)"
    using w1 res(2) by (simp_all add: samples_kept_def)
  have "s3 = (if b then snd (diagnose c env t s2) else s2)" using dg by (cases b) auto
  then have s3: "s_counters s3 = s_counters s2" "s_cache s3 = s_cache s2" by simp_all
  then show "s_counters s' = (s_counters s)\<lparr>cnt_persisted := Suc (cnt_persisted (s_counters s))\<rparr>"
    using s2 res(2) by simp
  show "r = Inr \<lparr>ir_status = ''PERSISTED'', ir_telemetry = Some t\<rparr> \<or> s_diagnosis s \<noteq> None \<and> (\<exists>e. r = Inl e)"
    using dg res(1) s2(3) by (cases q; cases "s_diagnosis s") (auto simp: diagnose_def split: if_splits)
  show "s_cache s' = (if ie_redis_up env then snd (set_if_newer t (s_cache s)) else s_cache s)"
    using pl s3 res(2) by (auto simp: publish_latest_def Let_def split: if_splits prod.splits)
qed

lemma reject_simps [simp]:
  "s_cache (reject c topic reason detail s) = s_cache s" "s_ws (reject c topic reason detail s) = s_ws s"
  "s_diagnosis (reject c topic reason detail s) = s_diagnosis s"
  "s_counters (reject c topic reason detail s) =
     (s_counters s)\<lparr>cnt_rejected := Suc (cnt_rejected (s_counters s))\<rparr>"
  by (simp_all add: reject_def)

lemma on_db_simps [simp]:
  "s_db (on_db f s) = f (s_db s)" "s_counters (on_db f s) = s_counters s" "s_cache (on_db f s) = s_cache s"
  "s_ws (on_db f s) = s_ws s" "s_diagnosis (on_db f s) = s_diagnosis s"
  by (simp_all add: on_db_def)

text \<open>What becomes of a message, one case for each way out of the service.\<close>

lemma ingest_cases:
  assumes others: "\<And>v. samples_kept v (ie_others env v)"
    and run: "ingest_payload c env topic m s = (r, s')"
  obtains (refused) reason where "refusal topic m (s_db s) = Some reason"
      "r = Inr \<lparr>ir_status = ''REJECTED'', ir_telemetry = None\<rparr>" "refused topic reason s s'"
      "s_counters s' = (s_counters s)\<lparr>cnt_consumed := Suc (cnt_consumed (s_counters s)),
         cnt_rejected := Suc (cnt_rejected (s_counters s))\<rparr>" "w_devices (s_db s') = w_devices (s_db s)"
  | (failed) d e where "model_validate m = Inr d" "refusal topic m (s_db s) = None" "r = Inl e"
      "e = DataError \<and> SCHEMA_VERSION_WIDTH < length (t_schema_version d) \<or>
       e = IntegrityError \<and> length (t_schema_version d) \<le> SCHEMA_VERSION_WIDTH \<and>
         (t_device_id d, t_timestamp d) \<notin> sample_key ` set (w_telemetry (s_db s)) \<and>
         c_uuid4 c (Suc (w_uuids (s_db s))) \<in> t_id ` set (w_telemetry (s_db s))"
      "same_tables (s_db s) (s_db s')" "s_cache s' = s_cache s"
      "s_counters s' = (s_counters s)\<lparr>cnt_consumed := Suc (cnt_consumed (s_counters s))\<rparr>"
  | (duplicate) d where "model_validate m = Inr d" "refusal topic m (s_db s) = None"
      "r = Inr \<lparr>ir_status = ''DUPLICATE'', ir_telemetry = None\<rparr>"
      "length (t_schema_version d) \<le> SCHEMA_VERSION_WIDTH"
      "(t_device_id d, t_timestamp d) \<in> sample_key ` set (w_telemetry (s_db s))"
      "same_tables (s_db s) (s_db s')" "s_cache s' = s_cache s"
      "s_counters s' = (s_counters s)\<lparr>cnt_consumed := Suc (cnt_consumed (s_counters s)),
         cnt_duplicates := Suc (cnt_duplicates (s_counters s))\<rparr>"
  | (stored) d t where "model_validate m = Inr d" "refusal topic m (s_db s) = None"
      "length (t_schema_version d) \<le> SCHEMA_VERSION_WIDTH"
      "sample_key t = (t_device_id d, t_timestamp d)" "sample_key t \<notin> sample_key ` set (w_telemetry (s_db s))"
      "w_telemetry (s_db s') = w_telemetry (s_db s) @ [t]" "w_devices (s_db s') = w_devices (s_db s)"
      "r = Inr \<lparr>ir_status = ''PERSISTED'', ir_telemetry = Some t\<rparr> \<or> s_diagnosis s \<noteq> None \<and> (\<exists>e. r = Inl e)"
      "s_cache s' = (if ie_redis_up env then snd (set_if_newer t (s_cache s)) else s_cache s)"
      "s_counters s' = (s_counters s)\<lparr>cnt_consumed := Suc (cnt_consumed (s_counters s)),
         cnt_persisted := Suc (cnt_persisted (s_counters s))\<rparr>"
      "\<exists>k ts. t = telemetry_row k ts d"
proof -
  let ?s = "on_db (inc_metric ''telemetry_ingest_total'' []) s"
  let ?wb = "(s_db ?s)\<lparr>w_uuids := Suc (w_uuids (s_db ?s))\<rparr>"
  let ?c = "c\<lparr>c_trace_id := c_uuid4 c (w_uuids (s_db s))\<rparr>"
  let ?begun = "?s\<lparr>s_db := ?wb, s_counters := (s_counters s)\<lparr>cnt_consumed := Suc (cnt_consumed (s_counters s))\<rparr>\<rparr>"
  obtain r1 s1 where one: "ingest c env topic m ?s = (r1, s1)" by fastforce
  have r: "r = r1" and s': "same_tables (s_db s1) (s_db s')" "s_counters s' = s_counters s1"
    "s_cache s' = s_cache s1" "s_ws s' = s_ws s1" "s_diagnosis s' = s_diagnosis s1"
    "set (w_metrics (s_db s1)) \<subseteq> set (w_metrics (s_db s'))"
    using run one by (auto simp: ingest_payload_def same_tables_iff inc_metric_def split: sum.splits)
  have w0: "same_tables (s_db s) ?wb" "w_uuids ?wb = Suc (w_uuids (s_db s))"
    by (simp_all add: same_tables_iff inc_metric_def)
  show thesis
  proof (cases "refusal topic m (s_db s)")
    case (Some reason)
    then obtain detail where "r1 = Inr \<lparr>ir_status = ''REJECTED'', ir_telemetry = None\<rparr>"
      "s1 = reject ?c topic reason detail ?begun"
      using one by (auto simp: refusal_def ingest_def uuid4_def Let_def inc_metric_def device_get_iff
          split: sum.splits if_splits option.splits dest: device_get_member)
    moreover have "refused topic reason s (reject ?c topic reason detail ?begun)"
      by (simp add: refused_def reject_def audit_add_audit audit_event_of_def entry_def inc_metric_def)
    ultimately show thesis using refused [OF Some] r s' w0
      by (auto simp: refused_def same_tables_iff reject_def inc_metric_def)
  next
    case None
    then obtain d dev where d: "model_validate m = Inr d" "device_get (t_device_id d) ?wb = Some dev"
      and st: "store_sample ?c env dev d ?begun = (r1, s1)"
      using one by (auto simp: refusal_def ingest_def uuid4_def Let_def inc_metric_def device_get_iff
          split: sum.splits if_splits option.splits)
    show thesis
    proof (cases "insert_once ?c d ?wb")
      case (Inl e)
      with st have "r1 = Inl e" "s1 = ?begun\<lparr>s_db := drawn ?wb\<rparr>" by (simp_all add: store_sample_def)
      moreover have "e = DataError \<and> SCHEMA_VERSION_WIDTH < length (t_schema_version d) \<or>
       e = IntegrityError \<and> length (t_schema_version d) \<le> SCHEMA_VERSION_WIDTH \<and>
         (t_device_id d, t_timestamp d) \<notin> sample_key ` set (w_telemetry (s_db s)) \<and>
         c_uuid4 c (Suc (w_uuids (s_db s))) \<in> t_id ` set (w_telemetry (s_db s))"
        using Inl None d by (auto simp: insert_once_eq Let_def refusal_def inc_metric_def split: if_splits)
      ultimately show thesis using failed [OF d(1) None] r s' w0
        by (auto simp: same_tables_iff drawn_def)
    next
      case (Inr p)
      obtain o1 w1 where p: "p = (o1, w1)" by (cases p)
      show thesis
      proof (cases o1)
        case None
        with Inr p have "w1 = drawn ?wb" "length (t_schema_version d) \<le> SCHEMA_VERSION_WIDTH"
          "(t_device_id d, t_timestamp d) \<in> sample_key ` set (w_telemetry (s_db s))"
          by (auto simp: insert_once_eq Let_def inc_metric_def split: if_splits)
        with st Inr p None show thesis
          using duplicate [OF d(1) \<open>refusal topic m (s_db s) = None\<close>] r s' w0
          by (auto simp: store_sample_def same_tables_iff rollback_to_def)
      next
        case (Some t)
        with Inr p have ins: "insert_once ?c d (s_db ?begun) = Inr (Some t, w1)" by simp
        then have "length (t_schema_version d) \<le> SCHEMA_VERSION_WIDTH"
          "sample_key t = (t_device_id d, t_timestamp d)" "sample_key t \<notin> sample_key ` set (w_telemetry (s_db s))"
          "\<exists>k ts. t = telemetry_row k ts d"
          by (auto simp: insert_once_eq Let_def inc_metric_def split: if_splits)
        with store_sample_stored [OF others ins st] show thesis
          using stored [OF d(1) None] r s' w0 by (auto simp: same_tables_iff)
      qed
    qed
  qed
qed



definition demo_sample :: telemetry_in where
  "demo_sample =
     \<lparr>t_schema_version = ''1.0'', t_timestamp = 0, t_device_id = ''motor-1'', t_temperature_c = Fin 95,
      t_bearing_temperature_c = Fin 60, t_vibration_mm_s = Fin 2, t_current_a = Fin 10, t_voltage_v = Fin 400,
      t_rpm = 1500, t_load_pct = Fin 50, t_power_kw = Fin 5, t_operating_state = ''RUNNING'',
      t_fault_state = ''NORMAL''\<rparr>"

definition demo_runtime :: model_runtime where
  "demo_runtime = \<lparr>mr_window_size = 2, mr_stride = 1, mr_predict = (\<lambda>_. Inl ''ValueError'')\<rparr>"

definition demo_ingest_env :: ingest_env where
  "demo_ingest_env =
     \<lparr>ie_runtime = demo_runtime, ie_queue_size = 1, ie_redis_up = True, ie_others = (\<lambda>v. v),
      ie_abandoned = (\<lambda>v. v)\<rparr>"

definition demo_plant :: plant where
  "demo_plant =
     \<lparr>s_db = demo_world, s_counters = \<lparr>cnt_consumed = 0, cnt_persisted = 0, cnt_duplicates = 0, cnt_rejected = 0\<rparr>,
      s_cache = [], s_ws = [], s_diagnosis = None\<rparr>"

lemma demo_version: "supported_major_version ''1.0''"
  by (simp add: supported_major_version_def py_split_def py_int_def py_strip_def py_isspace_def is_digit_def
      digits_value_def)

lemma demo_fields_ok: "telemetry_fields_ok demo_sample"
  by (simp add: telemetry_fields_ok_def demo_sample_def demo_version in_range_def text_between_def)

lemma demo_topic: "topic_device_id ''industrial/devices/motor-1/telemetry'' = ''motor-1''"
  by (simp add: topic_device_id_def py_split_def)

lemma demo_accepted:
  "model_validate (Fields (Aware 5) demo_sample) = Inr (demo_sample\<lparr>t_timestamp := 5\<rparr>)"
  "refusal ''industrial/devices/motor-1/telemetry'' (Fields (Aware 5) demo_sample) (s_db demo_plant) = None"
  using demo_fields_ok demo_topic
  by (simp_all add: model_validate_def refusal_def demo_plant_def demo_world_def demo_device_def demo_sample_def)

lemma demo_quiet: "samples_kept v (ie_others demo_ingest_env v)"
  by (simp add: demo_ingest_env_def)


text \<open>
  A broken rule costs an alarm, never a measurement: whatever the alarm work raises, the
  sample it was done for is stored, the alarms, incidents and links are those before the work, and one
  audit record tells of the failure.
\<close>

theorem alarm_failure_contained:
  assumes ins: "insert_once c d (s_db s) = Inr (Some t, w1)"
    and fails: "alarm_work c (ie_others env) dev (t_id t) d w1 = Inl e" and "s_diagnosis s = None"
  shows "\<exists>s'. store_sample c env dev d s = (Inr \<lparr>ir_status = ''PERSISTED'', ir_telemetry = Some t\<rparr>, s') \<and>
    w_telemetry (s_db s') = w_telemetry (s_db s) @ [t] \<and> w_alarms (s_db s') = w_alarms (s_db s) \<and>
    w_incidents (s_db s') = w_incidents (s_db s) \<and> w_links (s_db s') = w_links (s_db s) \<and>
    (\<exists>a. w_audit (s_db s') = w_audit (s_db s) @ [a] \<and> ae_action a = ''ALARM_EVALUATION_FAILED'' \<and>
       ae_resource a = dev_device_id dev)"
proof -
  obtain n w2 where aw: "apply_alarm_rules c env dev (t_id t) d w1 = (n, w2)" by fastforce
  let ?s1 = "s\<lparr>s_db := w2, s_counters := (s_counters s)\<lparr>cnt_persisted := Suc (cnt_persisted (s_counters s))\<rparr>\<rparr>"
  obtain b s2 where pl: "publish_latest env t ?s1 = (b, s2)" by fastforce
  have s2: "s_db s2 = w2" "s_diagnosis s2 = None"
    using publish_latest_db [of env t ?s1] assms(3) by (simp_all add: pl)
  have w1: "w_telemetry w1 = w_telemetry (s_db s) @ [t]" "w_alarms w1 = w_alarms (s_db s)"
    "w_incidents w1 = w_incidents (s_db s)" "w_links w1 = w_links (s_db s)" "w_audit w1 = w_audit (s_db s)"
    using ins by (auto simp: insert_once_eq Let_def drawn_def split: if_splits)
  have "store_sample c env dev d s = (Inr \<lparr>ir_status = ''PERSISTED'', ir_telemetry = Some t\<rparr>, s2)"
    using s2(2) by (cases b) (simp_all add: store_sample_def ins aw pl diagnose_def Let_def)
  moreover have "w_telemetry w2 = w_telemetry w1" "w_alarms w2 = w_alarms w1" "w_incidents w2 = w_incidents w1"
    "w_links w2 = w_links w1"
    "\<exists>a. w_audit w2 = w_audit w1 @ [a] \<and> ae_action a = ''ALARM_EVALUATION_FAILED'' \<and>
       ae_resource a = dev_device_id dev"
    using fails aw
    by (auto simp: apply_alarm_rules_def audit_add_audit audit_event_of_def entry_def rollback_to_def)
  ultimately show ?thesis using w1 s2(1) by simp
qed

text \<open>A rule row whose operator the evaluation does not know.\<close>

definition demo_broken :: plant where
  "demo_broken = demo_plant\<lparr>s_db := demo_world\<lparr>w_rules := [demo_rule\<lparr>r_operator := ''XX''\<rparr>]\<rparr>\<rparr>"

lemma demo_broken_fails:
  "w_rules w = [demo_rule\<lparr>r_operator := ''XX''\<rparr>] \<Longrightarrow>
     isl (alarm_work demo_ctx (\<lambda>v. v) demo_device k demo_sample w)"
  by (simp add: alarm_work_def record_breaches_def list_applicable_def demo_rule_def demo_device_def
      canonical_readings_def SIGNAL_SPECS_def SignalSpec_def payload_of_def demo_sample_def evaluate_rules_mapE
      evaluate_rule_def rule_skipped_def compare_def Let_def)

lemma demo_broken_insert:
  "insert_once demo_ctx demo_sample (s_db demo_broken) =
     Inr (Some (telemetry_row ''u'' 0 demo_sample),
       (drawn (s_db demo_broken))\<lparr>w_telemetry := [telemetry_row ''u'' 0 demo_sample]\<rparr>)"
  by (simp add: insert_once_eq Let_def demo_broken_def demo_plant_def demo_world_def empty_world_def demo_ctx_def
      demo_sample_def demo_device_def SCHEMA_VERSION_WIDTH_def)

theorem alarm_failure_contained_witness:
  "\<exists>s'. store_sample demo_ctx demo_ingest_env demo_device demo_sample demo_broken =
      (Inr \<lparr>ir_status = ''PERSISTED'', ir_telemetry = Some (telemetry_row ''u'' 0 demo_sample)\<rparr>, s') \<and>
    w_alarms (s_db s') = []"
proof -
  let ?w1 = "(drawn (s_db demo_broken))\<lparr>w_telemetry := [telemetry_row ''u'' 0 demo_sample]\<rparr>"
  have "isl (alarm_work demo_ctx (ie_others demo_ingest_env) demo_device ''u'' demo_sample ?w1)"
    using demo_broken_fails [of ?w1 "''u''"]
    by (simp add: demo_broken_def demo_plant_def drawn_def demo_ingest_env_def)
  then obtain e where "alarm_work demo_ctx (ie_others demo_ingest_env) demo_device ''u'' demo_sample ?w1 = Inl e"
    by (auto simp: isl_def)
  with alarm_failure_contained [OF demo_broken_insert, of demo_ingest_env demo_device e] show ?thesis
    by (auto simp: demo_broken_def demo_plant_def demo_world_def empty_world_def)
qed


section \<open>A stream of messages\<close>

definition unique_samples :: "world \<Rightarrow> bool" where
  "unique_samples w \<longleftrightarrow> distinct (map sample_key (w_telemetry w))"

definition accounted :: "ingestion_counters \<Rightarrow> nat" where
  "accounted n = cnt_persisted n + cnt_duplicates n + cnt_rejected n"

lemma consume_step:
  assumes others: "\<And>v. samples_kept v (ie_others env v)" and uniq: "unique_samples (s_db s)"
    and s': "s' = consume c env s tm"
  shows "unique_samples (s_db s')" "\<exists>ts. w_telemetry (s_db s') = w_telemetry (s_db s) @ ts"
    "length (w_telemetry (s_db s')) + cnt_persisted (s_counters s) =
       length (w_telemetry (s_db s)) + cnt_persisted (s_counters s')"
    "cnt_consumed (s_counters s') = Suc (cnt_consumed (s_counters s))"
    "accounted (s_counters s') \<le> Suc (accounted (s_counters s))"
proof -
  obtain r where run: "ingest_payload c env (fst tm) (snd tm) s = (r, s')"
    using s' by (metis consume_def prod.collapse)
  from others run have "unique_samples (s_db s') \<and> (\<exists>ts. w_telemetry (s_db s') = w_telemetry (s_db s) @ ts) \<and>
    length (w_telemetry (s_db s')) + cnt_persisted (s_counters s) =
       length (w_telemetry (s_db s)) + cnt_persisted (s_counters s') \<and>
    cnt_consumed (s_counters s') = Suc (cnt_consumed (s_counters s)) \<and>
    accounted (s_counters s') \<le> Suc (accounted (s_counters s))"
    by (cases rule: ingest_cases)
       (use uniq in \<open>auto simp: unique_samples_def accounted_def refused_def same_tables_iff\<close>)
  then show "unique_samples (s_db s')" "\<exists>ts. w_telemetry (s_db s') = w_telemetry (s_db s) @ ts"
    "length (w_telemetry (s_db s')) + cnt_persisted (s_counters s) =
       length (w_telemetry (s_db s)) + cnt_persisted (s_counters s')"
    "cnt_consumed (s_counters s') = Suc (cnt_consumed (s_counters s))"
    "accounted (s_counters s') \<le> Suc (accounted (s_counters s))" by blast+
qed

text \<open>
  C19 (invariant). Whatever messages arrive and in whatever order, the stored samples are only added to,
  no device gets two samples for one time stamp, the persisted counter counts exactly the samples that
  were added, and no message is counted as more than one of persisted, duplicate and rejected.
\<close>

theorem stream_accounting:
  assumes others: "\<And>v. samples_kept v (ie_others env v)" and uniq: "unique_samples (s_db s)"
  shows "unique_samples (s_db (foldl (consume c env) s ms)) \<and>
    (\<exists>ts. w_telemetry (s_db (foldl (consume c env) s ms)) = w_telemetry (s_db s) @ ts \<and>
       cnt_persisted (s_counters (foldl (consume c env) s ms)) = cnt_persisted (s_counters s) + length ts) \<and>
    cnt_consumed (s_counters (foldl (consume c env) s ms)) = cnt_consumed (s_counters s) + length ms \<and>
    accounted (s_counters (foldl (consume c env) s ms)) \<le> accounted (s_counters s) + length ms"
  using uniq
proof (induction ms arbitrary: s)
  case Nil
  then show ?case by simp
next
  case (Cons tm ms)
  note one = consume_step [OF others Cons.prems refl, of c tm]
  then obtain ts where "w_telemetry (s_db (consume c env s tm)) = w_telemetry (s_db s) @ ts" by blast
  with one Cons.IH [OF one(1)] show ?case by (auto simp: ac_simps)
qed

theorem stream_accounting_witness:
  "unique_samples (s_db (foldl (consume demo_ctx demo_ingest_env) demo_plant
     [(''industrial/devices/motor-1/telemetry'', Fields (Aware 5) demo_sample), (''x'', Unusable)]))"
proof -
  have "unique_samples (s_db demo_plant)"
    by (simp add: unique_samples_def demo_plant_def demo_world_def empty_world_def)
  from stream_accounting [OF demo_quiet this] show ?thesis by blast
qed

section \<open>Latest value\<close>

interpretation timestamp_order: row_order by_timestamp_desc
  by unfold_locales (auto simp: by_timestamp_desc_def)

lemma newest_iff:
  assumes "inj_on t_timestamp (set xs)"
  shows "first_of (sort_by by_timestamp_desc xs) = Some t \<longleftrightarrow>
    t \<in> set xs \<and> (\<forall>u \<in> set xs. t_timestamp u \<le> t_timestamp t)"
proof (cases "sort_by by_timestamp_desc xs")
  case Nil
  then show ?thesis by (simp add: first_of_def)
next
  case (Cons y ys)
  have y: "y \<in> set xs" "\<And>u. u \<in> set xs \<Longrightarrow> t_timestamp u \<le> t_timestamp y"
    using timestamp_order.sort_by_first_member [OF Cons] timestamp_order.sort_by_first_least [OF Cons]
    by (auto simp: by_timestamp_desc_def)
  have "t = y" if "t \<in> set xs" "\<forall>u \<in> set xs. t_timestamp u \<le> t_timestamp t"
    using that y assms by (metis inj_onD order_antisym)
  with y show ?thesis by (auto simp: Cons first_of_def)
qed

lemma newest_None [simp]: "first_of (sort_by by_timestamp_desc xs) = None \<longleftrightarrow> xs = []"
  by (cases "sort_by by_timestamp_desc xs") (auto simp: first_of_def)

lemma unique_timestamps:
  assumes "unique_samples w"
  shows "inj_on t_timestamp (set (filter (\<lambda>t. t_device_id t = k) (w_telemetry w)))"
  using assms by (auto simp: unique_samples_def distinct_map inj_on_def sample_key_def)

lemma telemetry_latest_append:
  assumes uniq: "unique_samples w'" and rows: "w_telemetry w' = w_telemetry w @ [t]"
  shows "telemetry_latest k w' =
    (if t_device_id t \<noteq> k then telemetry_latest k w
     else case telemetry_latest k w of None \<Rightarrow> Some t
       | Some old \<Rightarrow> if t_timestamp t \<le> t_timestamp old then Some old else Some t)"
proof -
  let ?old = "filter (\<lambda>t. t_device_id t = k) (w_telemetry w)"
  have "unique_samples w" using assms by (simp add: unique_samples_def)
  note inj = unique_timestamps [OF this, of k] unique_timestamps [OF uniq, of k]
  show ?thesis
  proof (cases "t_device_id t = k")
    case True
    then have new: "filter (\<lambda>t. t_device_id t = k) (w_telemetry w') = ?old @ [t]" by (simp add: rows)
    show ?thesis
    proof (cases "telemetry_latest k w")
      case None
      then have "?old = []" by (simp add: telemetry_latest_def)
      with True new None show ?thesis by (simp add: telemetry_latest_def first_of_def)
    next
      case (Some old)
      then have old: "old \<in> set ?old" "\<forall>u \<in> set ?old. t_timestamp u \<le> t_timestamp old"
        using newest_iff [OF inj(1)] by (auto simp: telemetry_latest_def)
      have "first_of (sort_by by_timestamp_desc (?old @ [t])) =
          (if t_timestamp t \<le> t_timestamp old then Some old else Some t)"
        using old newest_iff [OF inj(2)] unfolding new by (auto intro: order_trans)
      with True Some new show ?thesis by (simp add: telemetry_latest_def)
    qed
  qed (simp add: telemetry_latest_def rows)
qed

definition cache_agrees :: "plant \<Rightarrow> bool" where
  "cache_agrees s \<longleftrightarrow> unique_samples (s_db s) \<and>
     (\<forall>k. cache_get k (s_cache s) = telemetry_latest k (s_db s))"

lemma set_if_newer_get:
  "cache_get k (snd (set_if_newer t m)) =
     (if t_device_id t \<noteq> k then cache_get k m
      else case cache_get k m of None \<Rightarrow> Some t
        | Some old \<Rightarrow> if t_timestamp t \<le> t_timestamp old then Some old else Some t)"
  by (auto simp: set_if_newer_def cache_get_def split: option.splits)

lemma consume_agrees:
  assumes others: "\<And>v. samples_kept v (ie_others env v)" and up: "ie_redis_up env" and s: "cache_agrees s"
  shows "cache_agrees (consume c env s tm)"
proof -
  let ?s' = "consume c env s tm"
  have uniq: "unique_samples (s_db ?s')" using consume_step(1) [OF others _ refl] s by (simp add: cache_agrees_def)
  obtain r where run: "ingest_payload c env (fst tm) (snd tm) s = (r, ?s')"
    by (metis consume_def prod.collapse)
  have same: "cache_agrees ?s'" if "w_telemetry (s_db ?s') = w_telemetry (s_db s)" "s_cache ?s' = s_cache s"
    using that s uniq by (simp add: cache_agrees_def telemetry_latest_def)
  from others run show ?thesis
  proof (cases rule: ingest_cases)
    case (stored d t)
    then show ?thesis
      using s up uniq telemetry_latest_append [OF uniq stored(6)]
      by (simp add: cache_agrees_def set_if_newer_get)
  qed (auto intro!: same simp: refused_def same_tables_iff)
qed

text \<open>
  C20 (equivalence). While Redis answers, the latest-value endpoint is the database query: after any
  stream of messages the cached sample of every device is its newest stored sample, however late and
  out of order samples arrived, and reading it returns that sample and changes nothing.
\<close>

theorem latest_equals_query:
  assumes "\<And>v. samples_kept v (ie_others env v)" and "ie_redis_up env" and "cache_agrees s"
  shows "latest True write_up k (foldl (consume c env) s ms) =
    (let s' = foldl (consume c env) s ms in
     (if device_get k (s_db s') = None then Inl (AppError ''DEVICE_NOT_FOUND'' 404)
      else case telemetry_latest k (s_db s') of
          None \<Rightarrow> Inl (AppError ''TELEMETRY_NOT_FOUND'' 404) | Some t \<Rightarrow> Inr t, s'))"
proof -
  have "cache_agrees (foldl (consume c env) s ms)"
    using assms(3) by (induction ms arbitrary: s) (auto intro: consume_agrees [OF assms(1,2)])
  then show ?thesis by (simp add: latest_def cache_agrees_def Let_def split: option.splits)
qed

theorem latest_equals_query_witness:
  "latest True True ''motor-1'' (foldl (consume demo_ctx demo_ingest_env) demo_plant
       [(''industrial/devices/motor-1/telemetry'', Fields (Aware 5) demo_sample)]) =
    (let s' = foldl (consume demo_ctx demo_ingest_env) demo_plant
       [(''industrial/devices/motor-1/telemetry'', Fields (Aware 5) demo_sample)] in
     (if device_get ''motor-1'' (s_db s') = None then Inl (AppError ''DEVICE_NOT_FOUND'' 404)
      else case telemetry_latest ''motor-1'' (s_db s') of
          None \<Rightarrow> Inl (AppError ''TELEMETRY_NOT_FOUND'' 404) | Some t \<Rightarrow> Inr t, s'))"
proof (rule latest_equals_query [OF demo_quiet])
  show "ie_redis_up demo_ingest_env" by (simp add: demo_ingest_env_def)
  show "cache_agrees demo_plant"
    by (simp add: cache_agrees_def unique_samples_def demo_plant_def demo_world_def empty_world_def cache_get_def
        telemetry_latest_def first_of_def)
qed


section \<open>History pages\<close>

text \<open>A client that follows the cursors until there is none, for at most the given number of pages.\<close>

fun read_all ::
  "nat \<Rightarrow> (instant option \<Rightarrow> app_error + telemetry_page) \<Rightarrow> instant option \<Rightarrow> telemetry list option" where
  "read_all 0 fetch cursor = None"
| "read_all (Suc n) fetch cursor =
     (case fetch cursor of
        Inl _ \<Rightarrow> None
      | Inr p \<Rightarrow>
          (case tp_next_cursor p of
             None \<Rightarrow> Some (tp_items p)
           | Some k \<Rightarrow> map_option ((@) (tp_items p)) (read_all n fetch (Some k))))"

definition in_period :: "instant option \<Rightarrow> instant option \<Rightarrow> telemetry \<Rightarrow> bool" where
  "in_period start till t \<longleftrightarrow>
     (case start of None \<Rightarrow> True | Some s \<Rightarrow> s \<le> t_timestamp t) \<and>
     (case till of None \<Rightarrow> True | Some e \<Rightarrow> t_timestamp t \<le> e)"

definition full_history :: "string \<Rightarrow> instant option \<Rightarrow> instant option \<Rightarrow> world \<Rightarrow> telemetry list" where
  "full_history k start till w =
     sort_by by_timestamp_desc (filter (\<lambda>t. t_device_id t = k \<and> in_period start till t) (w_telemetry w))"

lemma history_cursor:
  "history k start till cursor n w =
     take n (filter (\<lambda>t. case cursor of None \<Rightarrow> True | Some b \<Rightarrow> t_timestamp t < b) (full_history k start till w))"
  by (simp add: history_def full_history_def timestamp_order.filter_sort_by in_period_def conj_ac)

lemma sorted_wrt_distinct: "sorted_wrt P xs \<Longrightarrow> distinct xs \<Longrightarrow> sorted_wrt (\<lambda>x y. P x y \<and> x \<noteq> y) xs"
  by (induction xs) auto

lemma full_history_decreasing:
  assumes "unique_samples w"
  shows "sorted_wrt (\<lambda>x y. t_timestamp y < t_timestamp x) (full_history k start till w)"
proof -
  let ?xs = "filter (\<lambda>t. t_device_id t = k \<and> in_period start till t) (w_telemetry w)"
  have inj: "inj_on t_timestamp (set ?xs)"
    by (rule inj_on_subset [OF unique_timestamps [OF assms, of k]]) auto
  have "distinct ?xs" using assms by (simp add: unique_samples_def distinct_map)
  then have d: "distinct (full_history k start till w)" by (simp add: full_history_def)
  have strict: "t_timestamp y < t_timestamp x"
    if "x \<in> set (full_history k start till w)" "y \<in> set (full_history k start till w)"
      "by_timestamp_desc x y \<and> x \<noteq> y" for x y
    using that inj_onD [OF inj, of x y]
    by (auto simp: full_history_def by_timestamp_desc_def order.order_iff_strict)
  have "sorted_wrt (\<lambda>x y. by_timestamp_desc x y \<and> x \<noteq> y) (full_history k start till w)"
    by (rule sorted_wrt_distinct [OF _ d]) (simp add: full_history_def timestamp_order.sorted_sort_by)
  from sorted_wrt_mono_rel [OF strict this] show ?thesis .
qed

lemma filter_after:
  assumes "sorted_wrt (\<lambda>x y. t_timestamp y < t_timestamp x) (xs @ ys)" and "xs \<noteq> []"
  shows "filter (\<lambda>t. t_timestamp t < t_timestamp (last xs)) (xs @ ys) = ys"
proof -
  obtain zs z where xs: "xs = zs @ [z]" using assms(2) by (metis rev_exhaust)
  have "filter (\<lambda>t. t_timestamp t < t_timestamp z) xs = []"
    using assms(1) by (auto simp: xs sorted_wrt_append filter_empty_conv)
  moreover have "filter (\<lambda>t. t_timestamp t < t_timestamp z) ys = ys"
    using assms(1) by (auto simp: xs sorted_wrt_append filter_id_conv)
  ultimately show ?thesis by (simp add: xs)
qed

lemma read_all_suffix:
  assumes "sorted_wrt (\<lambda>x y. t_timestamp y < t_timestamp x) all" and "all = before @ rest"
    and fetch: "\<And>cursor. fetch cursor = Inr (page_of limit (take (limit + 1)
        (filter (\<lambda>t. case cursor of None \<Rightarrow> True | Some b \<Rightarrow> t_timestamp t < b) all)))"
    and "0 < limit" and "length rest < fuel"
    and "cursor = (if before = [] then None else Some (t_timestamp (last before)))"
  shows "read_all fuel fetch cursor = Some rest"
  using assms(2,5,6)
proof (induction fuel arbitrary: before rest cursor)
  case 0
  then show ?case by simp
next
  case (Suc fuel)
  have rows: "filter (\<lambda>t. case cursor of None \<Rightarrow> True | Some b \<Rightarrow> t_timestamp t < b) all = rest"
    using Suc.prems filter_after [of before rest] assms(1) by (auto simp: filter_id_conv)
  show ?case
  proof (cases "limit < length rest")
    case False
    then show ?thesis by (simp add: fetch rows page_of_def Let_def)
  next
    case True
    let ?items = "take limit rest"
    have ne: "?items \<noteq> []" using True assms(4) by auto
    have "read_all fuel fetch (Some (t_timestamp (last ?items))) = Some (drop limit rest)"
      by (rule Suc.IH [of "before @ ?items"]) (use Suc.prems assms(4) ne True in \<open>auto simp: last_append\<close>)
    moreover have "fetch cursor = Inr \<lparr>tp_items = ?items, tp_next_cursor = Some (t_timestamp (last ?items))\<rparr>"
      using True by (simp add: fetch rows page_of_def Let_def min_def)
    ultimately show ?thesis by simp
  qed
qed

text \<open>
  C21 (equivalence). Paging is exact: a client that follows the cursor of the history endpoint from the
  start gets every sample of the device in the period exactly once, newest first, whatever the page
  size, and needs at most one page more than there are samples.
\<close>

theorem pages_exact:
  assumes "unique_samples w" and "device_get k w \<noteq> None" and "0 < limit"
    and "\<forall>s e. start = Some s \<longrightarrow> till = Some e \<longrightarrow> s \<le> e"
  shows "read_all (Suc (length (full_history k start till w)))
      (\<lambda>cursor. telemetry_history k (map_option Aware start) (map_option Aware till) (map_option Aware cursor) limit w)
      None = Some (full_history k start till w)"
proof (rule read_all_suffix [OF full_history_decreasing [OF assms(1)], where before = "[]"])
  fix cursor
  have aware: "\<not> naive_time (map_option Aware x)" "instant_of (map_option Aware x) = x" for x
    by (cases x; simp add: naive_time_def instant_of_def)+
  show "telemetry_history k (map_option Aware start) (map_option Aware till) (map_option Aware cursor) limit w =
      Inr (page_of limit (take (limit + 1) (filter (\<lambda>t. case cursor of None \<Rightarrow> True | Some b \<Rightarrow> t_timestamp t < b)
        (full_history k start till w))))"
    using assms(2,4)
    by (auto simp: telemetry_history_def aware history_cursor not_less split: option.splits)
qed (use assms(3) in simp_all)

definition demo_samples :: world where
  "demo_samples = demo_world\<lparr>w_telemetry :=
     map (\<lambda>t. telemetry_row (nat_digits (nat t)) 0 (demo_sample\<lparr>t_timestamp := t\<rparr>)) [3, 1, 2]\<rparr>"

theorem pages_exact_witness:
  "read_all (Suc (length (full_history ''motor-1'' (Some 0) None demo_samples)))
      (\<lambda>cursor. telemetry_history ''motor-1'' (map_option Aware (Some 0)) (map_option Aware None)
         (map_option Aware cursor) 2 demo_samples)
      None = Some (full_history ''motor-1'' (Some 0) None demo_samples)"
proof (rule pages_exact)
  show "unique_samples demo_samples" by (simp add: unique_samples_def demo_samples_def)
  show "device_get ''motor-1'' demo_samples \<noteq> None"
    by (simp add: device_get_def demo_samples_def demo_world_def demo_device_def find_row_Cons)
qed simp_all

section \<open>Live queues\<close>

datatype ws_event = Connect string nat | Disconnect string nat | Send string telemetry | Take string nat

fun ws_step :: "nat \<Rightarrow> manager \<Rightarrow> ws_event \<Rightarrow> manager" where
  "ws_step qs m (Connect k n) = ws_connect k n m"
| "ws_step qs m (Disconnect k n) = ws_disconnect k n m"
| "ws_step qs m (Send k x) = broadcast qs k x m"
| "ws_step qs m (Take k n) = ws_take k n m"

lemma offer_length: "0 < qs \<Longrightarrow> length q \<le> qs \<Longrightarrow> length (offer qs x q) \<le> qs"
  by (auto simp: offer_def)

lemma ws_step_bounded:
  assumes "0 < qs" and "\<forall>s \<in> set m. length (sub_queue s) \<le> qs"
  shows "\<forall>s \<in> set (ws_step qs m e). length (sub_queue s) \<le> qs"
  using assms
  by (cases e) (auto simp: ws_connect_def ws_disconnect_def broadcast_def ws_take_def offer_length intro: le_trans)

text \<open>
  However clients connect, read and disconnect, no queue grows beyond its size, and a sample
  sent to a device is the newest entry of the queue of every client of that device: a slow client loses
  old values, never the latest one.
\<close>

theorem queues_bounded:
  assumes "0 < qs" and "s \<in> set (foldl (ws_step qs) [] es)"
  shows "length (sub_queue s) \<le> qs \<and>
    (\<exists>s' \<in> set (broadcast qs (sub_device s) x (foldl (ws_step qs) [] es)).
       sub_device s' = sub_device s \<and> sub_client s' = sub_client s \<and>
       sub_queue s' \<noteq> [] \<and> last (sub_queue s') = x \<and> length (sub_queue s') \<le> qs)"
proof -
  have "\<forall>s \<in> set (foldl (ws_step qs) m es). length (sub_queue s) \<le> qs"
    if "\<forall>s \<in> set m. length (sub_queue s) \<le> qs" for m
    using that by (induction es arbitrary: m) (auto dest: ws_step_bounded [OF assms(1)])
  then have len: "length (sub_queue s) \<le> qs" using assms(2) by (metis empty_iff empty_set)
  have "s\<lparr>sub_queue := offer qs x (sub_queue s)\<rparr> \<in> set (broadcast qs (sub_device s) x (foldl (ws_step qs) [] es))"
    using assms(2) by (force simp: broadcast_def)
  with len show ?thesis
    by (intro conjI bexI [of _ "s\<lparr>sub_queue := offer qs x (sub_queue s)\<rparr>"])
       (use offer_length [OF assms(1)] in \<open>simp_all add: offer_def\<close>)
qed

theorem queues_bounded_witness:
  "length (sub_queue (hd (foldl (ws_step 1) [] [Connect ''motor-1'' 7, Send ''motor-1'' (hd (w_telemetry demo_samples)),
     Send ''motor-1'' (last (w_telemetry demo_samples))]))) \<le> 1"
  using queues_bounded [of 1 "hd (foldl (ws_step 1) [] [Connect ''motor-1'' 7,
     Send ''motor-1'' (hd (w_telemetry demo_samples)), Send ''motor-1'' (last (w_telemetry demo_samples))])"
     "[Connect ''motor-1'' 7, Send ''motor-1'' (hd (w_telemetry demo_samples)), Send ''motor-1'' (last (w_telemetry demo_samples))]"]
  by (simp add: ws_connect_def broadcast_def)


section \<open>Diagnosis windows\<close>

definition increasing :: "telemetry list \<Rightarrow> bool" where
  "increasing b \<longleftrightarrow> sorted_wrt (\<lambda>x y. t_timestamp x < t_timestamp y) b"

definition windows_ok :: "model_runtime \<Rightarrow> coordinator \<Rightarrow> bool" where
  "windows_ok rt co \<longleftrightarrow>
     (\<forall>k. length (buffer_of k co) \<le> mr_window_size rt \<and> increasing (buffer_of k co))"

lemma deque_extend_length: "length (deque_extend n xs b) \<le> n"
  by (simp add: deque_extend_def)

lemma deque_extend_increasing: "increasing (b @ xs) \<Longrightarrow> increasing (deque_extend n xs b)"
  unfolding deque_extend_def increasing_def by (rule sorted_wrt_drop)

lemma buffer_of_simps [simp]:
  "buffer_of k (set_buffer j b co) = (if j = k then b else buffer_of k co)"
  "buffer_of k (set_since j n co) = buffer_of k co"
  by (simp_all add: buffer_of_def set_buffer_def set_since_def)

lemma infer_windows: "infer c rt k b co w = (r, co', w') \<Longrightarrow> co_buffers co' = co_buffers co \<and> r \<noteq> Inl PyValueError"
  by (auto simp: infer_def Let_def record_failure_def create_failed_def diagnosis_insert_def bindE_def
      split: sum.splits prod.splits if_splits)

lemma increasing_append:
  "increasing b \<Longrightarrow> b = [] \<or> t_timestamp (last b) < t_timestamp t \<Longrightarrow> increasing (b @ [t])"
  by (cases b rule: rev_cases) (auto simp: increasing_def sorted_wrt_append)

lemma handle_windows:
  assumes co: "windows_ok rt co" and rt: "2 \<le> mr_window_size rt" and run: "handle c rt t co w = (r, co', w')"
  shows "windows_ok rt co' \<and> r \<noteq> Inl PyValueError"
proof -
  let ?k = "t_device_id t" and ?b = "buffer_of (t_device_id t) co"
  let ?new = "deque_extend (mr_window_size rt) [t] ?b"
  show ?thesis
  proof (cases "?b \<noteq> [] \<and> t_timestamp t \<le> t_timestamp (last ?b)")
    case True
    then show ?thesis using run co by (auto simp: handle_def Let_def)
  next
    case False
    then have "increasing (?b @ [t])" using co by (intro increasing_append) (auto simp: windows_ok_def)
    note new = deque_extend_length [of "mr_window_size rt" "[t]" ?b]
      deque_extend_increasing [OF this, of "mr_window_size rt"]
    have ok: "windows_ok rt co2" if "co_buffers co2 = (?k, ?new) # co_buffers co" for co2
      using that co new by (auto simp: windows_ok_def buffer_of_def)
    have "window_ok ?new" if "\<not> length ?new < mr_window_size rt"
      using that new rt by (simp add: window_ok_def increasing_def)
    with run False ok show ?thesis
      by (auto simp: handle_def Let_def set_since_def set_buffer_def split: if_splits dest!: infer_windows)
  qed
qed

lemma recent_window_increasing: "unique_samples w \<Longrightarrow> increasing (recent_window k n w)"
proof -
  assume u: "unique_samples w"
  have "sort_by by_timestamp_desc (filter (\<lambda>t. t_device_id t = k) (w_telemetry w)) = full_history k None None w"
    by (simp add: full_history_def in_period_def)
  moreover have "sorted_wrt (\<lambda>x y. t_timestamp y < t_timestamp x) (take n (full_history k None None w))"
    by (rule sorted_wrt_take [OF full_history_decreasing [OF u]])
  ultimately show ?thesis by (simp add: recent_window_def increasing_def sorted_wrt_rev)
qed

lemma warm_fold:
  assumes "unique_samples w" and "distinct (map dev_device_id ds)" and "windows_ok rt co"
    and "\<forall>d \<in> set ds. buffer_of (dev_device_id d) co = []"
  shows "windows_ok rt (foldl (warm_device rt w) co ds)"
  using assms(2-4)
proof (induction ds arbitrary: co)
  case Nil
  then show ?case by simp
next
  case (Cons d ds)
  let ?co = "warm_device rt w co d"
  have "increasing ([] @ recent_window (dev_device_id d) (mr_window_size rt) w)"
    using recent_window_increasing [OF assms(1)] by simp
  note new = deque_extend_length [of "mr_window_size rt" "recent_window (dev_device_id d) (mr_window_size rt) w" "[]"]
      deque_extend_increasing [OF this, of "mr_window_size rt"]
  have "windows_ok rt ?co" using Cons.prems new by (simp add: windows_ok_def warm_device_def Let_def)
  moreover have "\<forall>e \<in> set ds. buffer_of (dev_device_id e) ?co = []"
    using Cons.prems by (auto simp: warm_device_def Let_def image_iff)
  ultimately show ?case using Cons.IH Cons.prems by simp
qed

lemma listed_distinct: "distinct (map dev_device_id (w_devices w)) \<Longrightarrow> distinct (map dev_device_id (list_devices c n m w))"
proof -
  assume d: "distinct (map dev_device_id (w_devices w))"
  then have "distinct (map dev_device_id (sort_by (by_device_id c) (w_devices w)))" by (simp add: distinct_map)
  then show ?thesis by (simp add: list_devices_def take_map [symmetric] drop_map [symmetric])
qed

definition fresh_coordinator :: coordinator where
  "fresh_coordinator =
     \<lparr>co_buffers = [], co_since = [], co_inference_count = 0, co_failure_count = 0, co_uncertain_count = 0,
      co_distribution = []\<rparr>"

definition handle_all ::
  "ctx \<Rightarrow> model_runtime \<Rightarrow> telemetry list \<Rightarrow> coordinator \<times> world \<Rightarrow> coordinator \<times> world" where
  "handle_all c rt ts cw = foldl (\<lambda>(co, w) t. snd (handle c rt t co w)) cw ts"

text \<open>
  After a warm-up from the database and any samples in any order, every device's buffer
  is within the window size with strictly increasing time stamps, so the window the next sample
  completes is always accepted: building it, which happens outside the error handling, never raises.
\<close>

theorem windows_never_raise:
  assumes "unique_samples w" and "distinct (map dev_device_id (w_devices w))" and "2 \<le> mr_window_size rt"
    and "handle_all c rt ts (warmup c' rt w fresh_coordinator, w0) = (co, w1)"
  shows "length (buffer_of k co) \<le> mr_window_size rt \<and>
    sorted_wrt (\<lambda>x y. t_timestamp x < t_timestamp y) (buffer_of k co) \<and>
    fst (handle c rt t co w1) \<noteq> Inl PyValueError"
proof -
  have start: "windows_ok rt (warmup c' rt w fresh_coordinator)"
    unfolding warmup_def
    by (rule warm_fold [OF assms(1) listed_distinct [OF assms(2)]])
       (simp_all add: windows_ok_def fresh_coordinator_def buffer_of_def increasing_def)
  have "windows_ok rt (fst (handle_all c rt ts cw))" if "windows_ok rt (fst cw)" for cw
    using that unfolding handle_all_def
  proof (induction ts arbitrary: cw)
    case (Cons t ts)
    obtain r co' w' where "handle c rt t (fst cw) (snd cw) = (r, co', w')" by (metis prod_cases3)
    with handle_windows [OF Cons.prems assms(3) this] Cons.IH [of "(co', w')"] show ?case
      by (simp add: case_prod_unfold)
  qed simp
  then have ok: "windows_ok rt co" using start assms(4) by (metis fst_conv)
  obtain r co' w' where "handle c rt t co w1 = (r, co', w')" by (metis prod_cases3)
  from handle_windows [OF ok assms(3) this] this ok show ?thesis
    by (simp add: windows_ok_def increasing_def)
qed

theorem windows_never_raise_witness:
  "length (buffer_of ''motor-1'' (fst (handle_all demo_ctx demo_runtime (w_telemetry demo_samples)
     (warmup demo_ctx demo_runtime demo_samples fresh_coordinator, demo_samples)))) \<le> 2"
proof -
  have u: "unique_samples demo_samples" by (simp add: unique_samples_def demo_samples_def)
  have d: "distinct (map dev_device_id (w_devices demo_samples))" "2 \<le> mr_window_size demo_runtime"
    by (simp_all add: demo_samples_def demo_world_def demo_runtime_def)
  from windows_never_raise [OF u d prod.collapse [symmetric]] show ?thesis by (simp add: demo_runtime_def)
qed

section \<open>Topics\<close>

lemma py_split_aux_skip:
  "d \<notin> set xs \<Longrightarrow> py_split_aux d acc (xs @ d # ys) = (rev acc @ xs) # py_split_aux d [] ys"
  by (induction xs arbitrary: acc) auto

lemma pattern_no_slash: "device_id_pattern s \<Longrightarrow> CHR ''/'' \<notin> set s"
  by (cases s) (auto simp: device_id_pattern_def is_alnum_def list_all_iff)

text \<open>
  The topic the gateway publishes a device's samples on is read back as that device, for
  every identifier the device registry accepts.
\<close>

theorem topic_roundtrip:
  assumes "device_create_ok p"
  shows "topic_device_id (telemetry_topic (dc_device_id p)) = dc_device_id p"
proof -
  have n: "CHR ''/'' \<notin> set (dc_device_id p)"
    using assms by (auto simp: device_create_ok_def dest: pattern_no_slash)
  have "py_split (CHR ''/'') (telemetry_topic (dc_device_id p)) =
      [''industrial'', ''devices'', dc_device_id p, ''telemetry'']"
    using py_split_aux_skip [OF n, of "[]" "''telemetry''"] by (simp add: py_split_def telemetry_topic_def)
  then show ?thesis by (simp add: topic_device_id_def)
qed

theorem topic_roundtrip_witness:
  "topic_device_id (telemetry_topic ''M-1'') = ''M-1''"
proof -
  let ?p = "\<lparr>dc_device_id = ''M-1'', dc_device_type = ''motor'', dc_name = ''M'', dc_status = ''ACTIVE''\<rparr>"
  have "device_create_ok ?p"
    by (simp add: device_create_ok_def text_between_def device_id_pattern_def is_alnum_def DEVICE_STATUSES_def)
  from topic_roundtrip [OF this] show ?thesis by simp
qed

end
