(* ===== verification/Rbac.thy ===== *)
theory Rbac
  imports Policy
begin

text \<open>
  The permission vocabulary, the default grants and the principal of \<^verbatim>\<open>security/rbac.py\<close>. Request-time
  authority is read from the database; the default grants are what the tables are seeded with.
\<close>

section \<open>Vocabulary\<close>

definition WILDCARD :: string where "WILDCARD = ''*''"
definition TELEMETRY_READ :: string where "TELEMETRY_READ = ''telemetry.read''"
definition DASHBOARD_READ :: string where "DASHBOARD_READ = ''dashboard.read''"
definition INCIDENT_READ :: string where "INCIDENT_READ = ''incident.read''"
definition INCIDENT_CREATE :: string where "INCIDENT_CREATE = ''incident.create''"
definition INCIDENT_ACK :: string where "INCIDENT_ACK = ''incident.ack''"
definition INCIDENT_INVESTIGATE :: string where "INCIDENT_INVESTIGATE = ''incident.investigate''"
definition INCIDENT_RESOLVE :: string where "INCIDENT_RESOLVE = ''incident.resolve''"
definition INCIDENT_CLOSE :: string where "INCIDENT_CLOSE = ''incident.close''"
definition INCIDENT_REOPEN :: string where "INCIDENT_REOPEN = ''incident.reopen''"
definition WORKFLOW_READ :: string where "WORKFLOW_READ = ''workflow.read''"
definition WORKFLOW_START :: string where "WORKFLOW_START = ''workflow.start''"
definition WORKFLOW_CANCEL :: string where "WORKFLOW_CANCEL = ''workflow.cancel''"
definition APPROVAL_READ :: string where "APPROVAL_READ = ''approval.read''"
definition APPROVAL_REVIEW :: string where "APPROVAL_REVIEW = ''approval.review''"
definition WORKORDER_READ :: string where "WORKORDER_READ = ''workorder.read''"
definition ALARM_READ :: string where "ALARM_READ = ''alarm.read''"
definition ALARM_ACK :: string where "ALARM_ACK = ''alarm.ack''"
definition ALARM_CLEAR :: string where "ALARM_CLEAR = ''alarm.clear''"
definition ALARM_RULE_READ :: string where "ALARM_RULE_READ = ''alarmrule.read''"
definition ALARM_RULE_CREATE :: string where "ALARM_RULE_CREATE = ''alarmrule.create''"
definition ALARM_RULE_UPDATE :: string where "ALARM_RULE_UPDATE = ''alarmrule.update''"
definition ASSET_READ :: string where "ASSET_READ = ''asset.read''"
definition ASSET_MANAGE :: string where "ASSET_MANAGE = ''asset.manage''"
definition CONFIG_READ :: string where "CONFIG_READ = ''config.read''"
definition CONFIG_WRITE :: string where "CONFIG_WRITE = ''config.write''"
definition CONFIG_PUBLISH :: string where "CONFIG_PUBLISH = ''config.publish''"
definition CONNECTIVITY_READ :: string where "CONNECTIVITY_READ = ''connectivity.read''"
definition CONNECTIVITY_CONTROL :: string where "CONNECTIVITY_CONTROL = ''connectivity.control''"
definition OBSERVABILITY_READ :: string where "OBSERVABILITY_READ = ''observability.read''"
definition ORG_READ :: string where "ORG_READ = ''org.read''"
definition ORG_MANAGE :: string where "ORG_MANAGE = ''org.manage''"
definition SCOPE_MANAGE :: string where "SCOPE_MANAGE = ''scope.manage''"
definition AUDIT_READ :: string where "AUDIT_READ = ''audit.read''"
definition GOVERNANCE_READ :: string where "GOVERNANCE_READ = ''governance.read''"
definition GOVERNANCE_MANAGE :: string where "GOVERNANCE_MANAGE = ''governance.manage''"
definition CHANGE_READ :: string where "CHANGE_READ = ''change.read''"
definition CHANGE_MANAGE :: string where "CHANGE_MANAGE = ''change.manage''"
definition USER_MANAGE :: string where "USER_MANAGE = ''user.manage''"
definition ADMIN :: string where "ADMIN = ''ADMIN''"
definition OPERATOR :: string where "OPERATOR = ''OPERATOR''"
definition VIEWER :: string where "VIEWER = ''VIEWER''"

lemmas rbac_names =
  WILDCARD_def TELEMETRY_READ_def DASHBOARD_READ_def INCIDENT_READ_def INCIDENT_CREATE_def
  INCIDENT_ACK_def INCIDENT_INVESTIGATE_def INCIDENT_RESOLVE_def INCIDENT_CLOSE_def INCIDENT_REOPEN_def
  WORKFLOW_READ_def WORKFLOW_START_def WORKFLOW_CANCEL_def APPROVAL_READ_def APPROVAL_REVIEW_def
  WORKORDER_READ_def ALARM_READ_def ALARM_ACK_def ALARM_CLEAR_def ALARM_RULE_READ_def
  ALARM_RULE_CREATE_def ALARM_RULE_UPDATE_def ASSET_READ_def ASSET_MANAGE_def CONFIG_READ_def
  CONFIG_WRITE_def CONFIG_PUBLISH_def CONNECTIVITY_READ_def CONNECTIVITY_CONTROL_def OBSERVABILITY_READ_def
  ORG_READ_def ORG_MANAGE_def SCOPE_MANAGE_def AUDIT_READ_def GOVERNANCE_READ_def
  GOVERNANCE_MANAGE_def CHANGE_READ_def CHANGE_MANAGE_def USER_MANAGE_def ADMIN_def
  OPERATOR_def VIEWER_def

definition ROLE_PERMISSIONS :: "(string \<times> string list) list" where
  "ROLE_PERMISSIONS =
    [(ADMIN,
     [WILDCARD, USER_MANAGE, ORG_MANAGE, SCOPE_MANAGE, GOVERNANCE_MANAGE]),
     (OPERATOR,
     [TELEMETRY_READ, DASHBOARD_READ, INCIDENT_READ, INCIDENT_CREATE, INCIDENT_ACK,
      INCIDENT_INVESTIGATE, INCIDENT_RESOLVE, INCIDENT_CLOSE, INCIDENT_REOPEN,
      WORKFLOW_READ, WORKFLOW_START, WORKFLOW_CANCEL, APPROVAL_READ, APPROVAL_REVIEW,
      WORKORDER_READ, ALARM_READ, ALARM_ACK, ALARM_CLEAR, ALARM_RULE_READ,
      ALARM_RULE_CREATE, ALARM_RULE_UPDATE, ASSET_READ, ASSET_MANAGE, CONFIG_READ,
      CONFIG_WRITE, CONFIG_PUBLISH, CONNECTIVITY_READ, CONNECTIVITY_CONTROL,
      OBSERVABILITY_READ, ORG_READ, AUDIT_READ, GOVERNANCE_READ, CHANGE_READ,
      CHANGE_MANAGE]),
     (VIEWER,
     [TELEMETRY_READ, DASHBOARD_READ, INCIDENT_READ, WORKFLOW_READ, APPROVAL_READ,
      WORKORDER_READ, ALARM_READ, ALARM_RULE_READ, ASSET_READ, CONFIG_READ,
      CONNECTIVITY_READ, OBSERVABILITY_READ, ORG_READ, GOVERNANCE_READ, CHANGE_READ])]"

definition DEFAULT_ROLE_NAMES :: "string list" where
  "DEFAULT_ROLE_NAMES = [ADMIN, OPERATOR, VIEWER]"

definition DEFAULT_REGISTRATION_ROLE :: string where
  "DEFAULT_REGISTRATION_ROLE = VIEWER"

definition ALL_PERMISSIONS :: "string list" where
  "ALL_PERMISSIONS =
     sort (remdups (filter (\<lambda>name. name \<noteq> WILDCARD) (concat (map snd ROLE_PERMISSIONS))))"

definition permissions_for_roles :: "string list \<Rightarrow> string set" where
  "permissions_for_roles roles =
     (\<Union>role \<in> set roles. case map_of ROLE_PERMISSIONS (py_upper role) of None \<Rightarrow> {} | Some ps \<Rightarrow> set ps)"

section \<open>Principal\<close>

record principal =
  pn_user_id :: uuid
  pn_username :: string
  pn_roles :: "string list"
  pn_permissions :: "string set"

definition has_permission :: "principal \<Rightarrow> string \<Rightarrow> bool" where
  "has_permission p permission \<longleftrightarrow> WILDCARD \<in> pn_permissions p \<or> permission \<in> pn_permissions p"

section \<open>The default grants\<close>

lemma role_names_distinct: "distinct (map fst ROLE_PERMISSIONS)"
  by (simp add: ROLE_PERMISSIONS_def ADMIN_def OPERATOR_def VIEWER_def)

lemma grants_of:
  "map_of ROLE_PERMISSIONS ADMIN = Some [WILDCARD, USER_MANAGE, ORG_MANAGE, SCOPE_MANAGE, GOVERNANCE_MANAGE]"
  by (simp add: ROLE_PERMISSIONS_def ADMIN_def OPERATOR_def VIEWER_def)

lemma all_permissions_iff:
  "p \<in> set ALL_PERMISSIONS \<longleftrightarrow> p \<noteq> WILDCARD \<and> (\<exists>g \<in> set ROLE_PERMISSIONS. p \<in> set (snd g))"
  by (auto simp: ALL_PERMISSIONS_def)

end
