(* ===== verification/Identity.thy ===== *)
theory Identity
  imports Rbac Telemetry
begin

text \<open>
  Identities: the tables of \<^verbatim>\<open>security/models.py\<close> and \<^verbatim>\<open>security/org_models.py\<close>, access tokens of
  \<^verbatim>\<open>security/tokens.py\<close>, the password policy, the identity repositories and services, the login rate
  limiter and the endpoints of \<^verbatim>\<open>api/auth.py\<close>. PyJWT and bcrypt are parameters. Redis is a table of
  counters with an expiry; whether each of its commands reaches it is an argument of the request.
\<close>

section \<open>Tables\<close>

datatype UserStatus = USER_ACTIVE | USER_DISABLED

record user =
  u_id :: uuid
  u_username :: string
  u_email :: "string option"
  u_password_hash :: string
  u_status :: UserStatus

record role =
  ro_id :: uuid
  ro_name :: string

record permission_row =
  pe_id :: uuid
  pe_name :: string

datatype ScopeLevel = SL_ORGANIZATION | SL_PLANT | SL_AREA

record organization =
  og_id :: uuid
  og_name :: string
  og_description :: string

record org_plant =
  pl_id :: uuid
  pl_organization_id :: uuid
  pl_name :: string
  pl_description :: string

record org_area =
  oar_id :: uuid
  oar_plant_id :: uuid
  oar_name :: string
  oar_description :: string

record user_scope =
  us_user_id :: uuid
  us_scope_level :: ScopeLevel
  us_scope_id :: uuid

record device_scope =
  dsc_device_id :: string
  dsc_area_id :: uuid

record governance_policy =
  gp_id :: uuid
  gp_name :: string
  gp_description :: string
  gp_effect :: string
  gp_permission :: string
  gp_conditions :: details
  gp_enabled :: bool

datatype ChangeStatus = CS_DRAFT | CS_SCHEDULED | CS_IN_PROGRESS | CS_COMPLETED | CS_CANCELLED

datatype ChangeRisk = CR_LOW | CR_MEDIUM | CR_HIGH

datatype ChangeType = CT_CONFIGURATION | CT_HARDWARE | CT_PROCEDURE

record change_record =
  ch_id :: uuid
  ch_title :: string
  ch_description :: string
  ch_change_type :: ChangeType
  ch_risk_level :: ChangeRisk
  ch_status :: ChangeStatus
  ch_resource_type :: "string option"
  ch_resource_id :: "string option"
  ch_requested_by_user_id :: "uuid option"
  ch_requested_by_name :: "string option"
  ch_scheduled_start :: "instant option"
  ch_scheduled_end :: "instant option"
  ch_created_at :: instant

text \<open>A Redis counter and the time it expires, if any.\<close>

record login_counter =
  lc_count :: int
  lc_expires :: "instant option"

text \<open>The operational tables with the identity, organisation and governance tables beside them.\<close>

record platform =
  g_db :: world
  g_users :: "user list"
  g_roles :: "role list"
  g_permissions :: "permission_row list"
  g_user_roles :: "(uuid \<times> uuid) list"
  g_role_permissions :: "(uuid \<times> uuid) list"
  g_organizations :: "organization list"
  g_plants :: "org_plant list"
  g_areas :: "org_area list"
  g_user_scopes :: "user_scope list"
  g_device_scopes :: "device_scope list"
  g_policies :: "governance_policy list"
  g_changes :: "change_record list"
  g_logins :: "(string \<times> login_counter) list"

text \<open>The settings and libraries a request runs with.\<close>

record redis_env =
  re_now :: instant
  re_get :: bool
  re_incr :: bool
  re_expire :: bool
  re_delete :: bool

record sec_env =
  se_secret :: "string option"
  se_ttl :: int
  se_registration :: bool
  se_limit :: int
  se_window :: int
  se_jwt_encode :: "details \<Rightarrow> string \<Rightarrow> string"
  se_jwt_decode :: "string \<Rightarrow> string \<Rightarrow> json option"
  se_hashpw :: "string \<Rightarrow> string"
  se_checkpw :: "string \<Rightarrow> string \<Rightarrow> bool option"
  se_redis :: redis_env
  se_policies_up :: bool

definition on_world :: "(world \<Rightarrow> world) \<Rightarrow> platform \<Rightarrow> platform" where
  "on_world f g = g\<lparr>g_db := f (g_db g)\<rparr>"

section \<open>Text\<close>

text \<open>
  \<^verbatim>\<open>str.casefold\<close> on code points below 256: lower case, with the sharp s (223) folded to two letters.
  The micro sign (181), which folds above 255, is kept.
\<close>

definition py_casefold :: "string \<Rightarrow> string" where
  "py_casefold s = concat (map (\<lambda>ch. if of_char ch = (223 :: nat) then ''ss'' else py_lower [ch]) s)"

definition utf8_length :: "string \<Rightarrow> nat" where
  "utf8_length s = sum_list (map (\<lambda>ch. if of_char ch < (128 :: nat) then 1 else 2) s)"

definition normalize_username :: "string \<Rightarrow> string" where
  "normalize_username s = py_casefold (py_strip s)"

definition normalize_email :: "string option \<Rightarrow> string option" where
  "normalize_email e =
     (case e of None \<Rightarrow> None
      | Some s \<Rightarrow> (let t = py_casefold (py_strip s) in if t = [] then None else Some t))"

section \<open>Passwords\<close>

definition MIN_PASSWORD_LENGTH :: nat where
  "MIN_PASSWORD_LENGTH = 12"

definition MAX_PASSWORD_BYTES :: nat where
  "MAX_PASSWORD_BYTES = 72"

definition validate_password_policy :: "string \<Rightarrow> string \<Rightarrow> app_error + unit" where
  "validate_password_policy password username =
     (if length password < MIN_PASSWORD_LENGTH \<or> MAX_PASSWORD_BYTES < utf8_length password \<or>
         py_strip password = [] \<or>
         (username \<noteq> [] \<and> py_casefold password = py_casefold username)
      then Inl (AppError ''INVALID_PASSWORD_POLICY'' 422) else Inr ())"

definition verify_password :: "sec_env \<Rightarrow> string \<Rightarrow> string \<Rightarrow> bool" where
  "verify_password env password password_hash =
     (case se_checkpw env password password_hash of None \<Rightarrow> False | Some b \<Rightarrow> b)"

section \<open>Access tokens\<close>

record claims =
  cl_user_id :: uuid
  cl_username :: string
  cl_roles :: "json list"
  cl_issued_at :: instant
  cl_expires_at :: instant
  cl_token_id :: string

record issued_token =
  it_token :: string
  it_issued_at :: instant
  it_expires_at :: instant

text \<open>\<^verbatim>\<open>int(moment.timestamp())\<close> drops the fraction of a second, towards zero.\<close>

definition epoch_seconds :: "instant \<Rightarrow> int" where
  "epoch_seconds t = (if 0 \<le> t then t div 1000000 else - (- t div 1000000))"

definition token_payload :: "uuid \<Rightarrow> string \<Rightarrow> string list \<Rightarrow> uuid \<Rightarrow> instant \<Rightarrow> instant \<Rightarrow> details" where
  "token_payload user_id username roles token_id issued_at expires_at =
     [(''sub'', JStr user_id), (''user_id'', JStr user_id), (''username'', JStr username),
      (''roles'', JList (map JStr roles)), (''type'', JStr ''access''), (''jti'', JStr token_id),
      (''iat'', JInt (epoch_seconds issued_at)), (''exp'', JInt (epoch_seconds expires_at))]"

definition create_access_token ::
  "ctx \<Rightarrow> sec_env \<Rightarrow> uuid \<Rightarrow> string \<Rightarrow> string list \<Rightarrow> string \<Rightarrow> world \<Rightarrow> issued_token \<times> world" where
  "create_access_token c env user_id username roles secret w =
     (let (issued_at, w1) = utc_now c w;
          expires_at = issued_at + seconds (se_ttl env);
          (token_id, w2) = uuid4 c w1
      in (\<lparr>it_token = se_jwt_encode env (token_payload user_id username roles token_id issued_at expires_at) secret,
           it_issued_at = issued_at, it_expires_at = expires_at\<rparr>, w2))"

text \<open>
  \<^verbatim>\<open>datetime.fromtimestamp(float(claim), tz=UTC)\<close>: an instant of the years 1 to 9999, rounded to the
  microsecond. A \<^verbatim>\<open>bool\<close> is an \<^verbatim>\<open>int\<close>. A number outside the range raises, uncaught.
\<close>

definition datetime_range :: "instant \<Rightarrow> app_error + instant" where
  "datetime_range t =
     (if seconds (- 62135596800) \<le> t \<and> t < seconds 253402300800 then Inr t else Inl PyValueError)"

definition as_datetime :: "json option \<Rightarrow> app_error + instant" where
  "as_datetime claim =
     (case claim of
        Some (JInt n) \<Rightarrow> datetime_range (seconds n)
      | Some (JBool b) \<Rightarrow> datetime_range (seconds (if b then 1 else 0))
      | Some (JNum (Fin q)) \<Rightarrow> datetime_range (round_half_even (q * 1000000))
      | Some (JNum _) \<Rightarrow> Inl PyValueError
      | _ \<Rightarrow> Inl (AppError ''INVALID_TOKEN'' 401))"

text \<open>
  \<^verbatim>\<open>UUID(text)\<close>: the prefixes, braces and hyphens are dropped and 32 hexadecimal digits remain, read by
  \<^verbatim>\<open>int(digits, 16)\<close> - which takes white space, a sign, a prefix and single underscores too - and written
  in the canonical form.
\<close>

fun remove_sub :: "string \<Rightarrow> string \<Rightarrow> string" where
  "remove_sub pat [] = []"
| "remove_sub pat (ch # rest) =
     (if pat \<noteq> [] \<and> take (length pat) (ch # rest) = pat
      then remove_sub pat (drop (length pat - 1) rest) else ch # remove_sub pat rest)"

definition strip_braces :: "string \<Rightarrow> string" where
  "strip_braces s = (let b = (\<lambda>ch. ch \<in> set ''{}'') in rev (dropWhile b (rev (dropWhile b s))))"

definition hex_digit :: "char \<Rightarrow> int option" where
  "hex_digit ch =
     (let n = of_char ch :: int in
      if 48 \<le> n \<and> n \<le> 57 then Some (n - 48) else if 97 \<le> n \<and> n \<le> 102 then Some (n - 87)
      else if 65 \<le> n \<and> n \<le> 70 then Some (n - 55) else None)"

definition py_int16 :: "string \<Rightarrow> int option" where
  "py_int16 s =
     (let t = py_strip s;
          (sign, body) = (case t of [] \<Rightarrow> (1, [])
            | ch # rest \<Rightarrow> if ch = CHR ''-'' then (- 1, rest) else if ch = CHR ''+'' then (1, rest) else (1, t));
          (pre, digits) = (if take 2 body \<in> {''0x'', ''0X''} then (True, drop 2 body) else (False, body));
          groups = py_split (CHR ''_'') digits;
          groups' = (if pre \<and> groups \<noteq> [] \<and> hd groups = [] then tl groups else groups)
      in if groups' \<noteq> [] \<and> list_all (\<lambda>g. g \<noteq> [] \<and> list_all (\<lambda>ch. hex_digit ch \<noteq> None) g) groups'
         then Some (sign * foldl (\<lambda>acc ch. 16 * acc + the (hex_digit ch)) 0 (concat groups')) else None)"

definition hex_text :: "int \<Rightarrow> nat \<Rightarrow> string" where
  "hex_text n k = map (\<lambda>i. ''0123456789abcdef'' ! nat (n div 16 ^ (k - 1 - i) mod 16)) [0..<k]"

definition py_uuid :: "string \<Rightarrow> uuid option" where
  "py_uuid s =
     (let h = filter (\<lambda>ch. ch \<noteq> CHR ''-'') (strip_braces (remove_sub ''uuid:'' (remove_sub ''urn:'' s)))
      in if length h \<noteq> 32 then None
         else case py_int16 h of
             None \<Rightarrow> None
           | Some n \<Rightarrow>
               if 0 \<le> n \<and> n < 2 ^ 128
               then (let t = hex_text n 32 in
                     Some (take 8 t @ ''-'' @ take 4 (drop 8 t) @ ''-'' @ take 4 (drop 12 t) @ ''-''
                           @ take 4 (drop 16 t) @ ''-'' @ drop 20 t))
               else None)"

text \<open>
  The library verifies structure, signature and the presence of the required claims; the service checks
  the rest. The roles of a token are kept as they are: no decision reads them.
\<close>

definition invalid_token :: app_error where
  "invalid_token = AppError ''INVALID_TOKEN'' 401"

definition verified_payload :: "sec_env \<Rightarrow> string \<Rightarrow> string \<Rightarrow> app_error + details" where
  "verified_payload env token secret =
     (case se_jwt_decode env token secret of
        Some (JObj payload) \<Rightarrow> 
          bindE (guardE (map_of payload ''type'' = Some (JStr ''access'')) invalid_token) (\<lambda>_. Inr payload)
      | _ \<Rightarrow> Inl invalid_token)"

definition token_subject :: "details \<Rightarrow> app_error + uuid" where
  "token_subject payload =
     (case map_of payload ''sub'' of
        Some (JStr subject) \<Rightarrow>
          if subject = [] then Inl invalid_token
          else (case py_uuid subject of None \<Rightarrow> Inl invalid_token | Some user_id \<Rightarrow> Inr user_id)
      | _ \<Rightarrow> Inl invalid_token)"

definition claims_of :: "details \<Rightarrow> uuid \<Rightarrow> instant \<Rightarrow> instant \<Rightarrow> claims" where
  "claims_of payload user_id issued_at expires_at =
     \<lparr>cl_user_id = user_id,
      cl_username = (case map_of payload ''username'' of Some (JStr u) \<Rightarrow> u | _ \<Rightarrow> []),
      cl_roles = (case map_of payload ''roles'' of Some (JList rs) \<Rightarrow> rs | _ \<Rightarrow> []),
      cl_issued_at = issued_at, cl_expires_at = expires_at,
      cl_token_id = (case map_of payload ''jti'' of Some (JStr j) \<Rightarrow> j | _ \<Rightarrow> [])\<rparr>"

definition token_claims :: "sec_env \<Rightarrow> string \<Rightarrow> string \<Rightarrow> app_error + claims" where
  "token_claims env token secret =
     bindE (verified_payload env token secret) (\<lambda>payload.
     bindE (token_subject payload) (\<lambda>user_id.
     bindE (as_datetime (map_of payload ''exp'')) (\<lambda>expires_at.
     bindE (as_datetime (map_of payload ''iat'')) (\<lambda>issued_at.
       Inr (claims_of payload user_id issued_at expires_at)))))"

definition decode_access_token ::
  "ctx \<Rightarrow> sec_env \<Rightarrow> string \<Rightarrow> string \<Rightarrow> world \<Rightarrow> (app_error + claims) \<times> world" where
  "decode_access_token c env token secret w =
     (case token_claims env token secret of
        Inl e \<Rightarrow> (Inl e, w)
      | Inr cl \<Rightarrow>
          (let (reference, w1) = utc_now c w in
           if cl_expires_at cl \<le> reference then (Inl (AppError ''TOKEN_EXPIRED'' 401), w1) else (Inr cl, w1)))"

section \<open>Repositories\<close>

definition user_get :: "uuid \<Rightarrow> platform \<Rightarrow> user option" where
  "user_get user_id g = find_row u_id user_id (g_users g)"

definition get_by_username :: "string \<Rightarrow> platform \<Rightarrow> user option" where
  "get_by_username username g = find_row u_username (normalize_username username) (g_users g)"

definition create_user ::
  "ctx \<Rightarrow> string \<Rightarrow> string \<Rightarrow> string option \<Rightarrow> platform \<Rightarrow> app_error + user \<times> platform" where
  "create_user c username password_hash email g =
     (let (fresh, w1) = uuid4 c (g_db g);
          u = \<lparr>u_id = fresh, u_username = normalize_username username, u_email = normalize_email email,
               u_password_hash = password_hash, u_status = USER_ACTIVE\<rparr>
      in if fresh \<in> u_id ` set (g_users g) \<or> u_username u \<in> u_username ` set (g_users g) \<or>
            (u_email u \<noteq> None \<and> u_email u \<in> u_email ` set (g_users g))
         then Inl IntegrityError
         else Inr (u, g\<lparr>g_db := w1, g_users := g_users g @ [u]\<rparr>))"

definition get_by_name :: "string \<Rightarrow> platform \<Rightarrow> role option" where
  "get_by_name name g = find_row ro_name (py_upper name) (g_roles g)"

definition names_for_user :: "ctx \<Rightarrow> uuid \<Rightarrow> platform \<Rightarrow> string list" where
  "names_for_user c user_id g =
     map ro_name (sort_by (\<lambda>a b. c_collate c (ro_name a) \<le> c_collate c (ro_name b))
       (filter (\<lambda>r. (user_id, ro_id r) \<in> set (g_user_roles g)) (g_roles g)))"

definition permissions_for_user :: "uuid \<Rightarrow> platform \<Rightarrow> string set" where
  "permissions_for_user user_id g =
     set (map pe_name (filter (\<lambda>p. list_ex (\<lambda>(role_id, permission_id).
        permission_id = pe_id p \<and> (user_id, role_id) \<in> set (g_user_roles g)) (g_role_permissions g))
       (g_permissions g)))"

definition assign :: "uuid \<Rightarrow> platform \<Rightarrow> string \<Rightarrow> app_error + platform" where
  "assign user_id g role_name =
     (case get_by_name role_name g of
        None \<Rightarrow> Inl (AppError ''UNKNOWN_ROLE'' 422)
      | Some r \<Rightarrow>
          Inr (if (user_id, ro_id r) \<in> set (g_user_roles g) then g
               else g\<lparr>g_user_roles := g_user_roles g @ [(user_id, ro_id r)]\<rparr>))"

section \<open>Services\<close>

definition principal_for :: "ctx \<Rightarrow> user \<Rightarrow> platform \<Rightarrow> principal" where
  "principal_for c u g =
     \<lparr>pn_user_id = u_id u, pn_username = u_username u, pn_roles = names_for_user c (u_id u) g,
      pn_permissions = permissions_for_user (u_id u) g\<rparr>"

definition register_user ::
  "ctx \<Rightarrow> sec_env \<Rightarrow> string \<Rightarrow> string \<Rightarrow> string option \<Rightarrow> string list option \<Rightarrow> platform
    \<Rightarrow> app_error + user \<times> platform" where
  "register_user c env username password email roles g =
     (let normalized = normalize_username username in
      if get_by_username normalized g \<noteq> None then Inl (AppError ''USERNAME_TAKEN'' 409)
      else bindE (validate_password_policy password normalized) (\<lambda>_.
        bindE (create_user c normalized (se_hashpw env password) email g) (\<lambda>(u, g1).
          bindE (foldE (assign (u_id u)) g1
              (case roles of None \<Rightarrow> [DEFAULT_REGISTRATION_ROLE] | Some rs \<Rightarrow> rs)) (\<lambda>g2.
            Inr (u, g2)))))"

definition authenticate_user :: "sec_env \<Rightarrow> string \<Rightarrow> string \<Rightarrow> platform \<Rightarrow> app_error + user" where
  "authenticate_user env username password g =
     (case get_by_username username g of
        None \<Rightarrow> Inl (AppError ''INVALID_CREDENTIALS'' 401)
      | Some u \<Rightarrow>
          if \<not> verify_password env password (u_password_hash u) then Inl (AppError ''INVALID_CREDENTIALS'' 401)
          else if u_status u \<noteq> USER_ACTIVE then Inl (AppError ''INVALID_CREDENTIALS'' 401)
          else Inr u)"

end
