(* ===== verification/Boundary.thy ===== *)
theory Boundary
  imports Identity
begin

text \<open>
  The security boundary of a request: the audit writer of \<^verbatim>\<open>security/audit.py\<close>, the dependencies of
  \<^verbatim>\<open>security/dependencies.py\<close>, the governance policy engine of \<^verbatim>\<open>security/policy_engine.py\<close>, the login
  rate limiter of \<^verbatim>\<open>security/rate_limit.py\<close> and the endpoints of \<^verbatim>\<open>api/auth.py\<close>. A refusal that is
  audited commits its audit row and then raises, so these operations return the state beside the error.
\<close>

section \<open>Requests and security events\<close>

record http_request =
  rq_method :: string
  rq_path :: string
  rq_authorization :: "string option"
  rq_user_agent :: "string option"
  rq_x_actor :: "string option"
  rq_client :: "string option"

definition client_ip :: "http_request \<Rightarrow> string" where
  "client_ip rq = (case rq_client rq of None \<Rightarrow> ''unknown'' | Some h \<Rightarrow> h)"

definition MAX_LEGACY_ACTOR_LENGTH :: nat where
  "MAX_LEGACY_ACTOR_LENGTH = 200"

definition legacy_actor_label :: "http_request \<Rightarrow> string option" where
  "legacy_actor_label rq =
     (let v = py_strip (case rq_x_actor rq of None \<Rightarrow> [] | Some s \<Rightarrow> s)
      in if v = [] then None else Some (take MAX_LEGACY_ACTOR_LENGTH v))"

definition ANONYMOUS_ACTOR :: string where
  "ANONYMOUS_ACTOR = ''anonymous''"

definition SECURITY_EVENT_ACTIONS :: "string list" where
  "SECURITY_EVENT_ACTIONS =
     [''AUTH_LOGIN'', ''AUTH_LOGOUT'', ''AUTH_REGISTER'', ''PERMISSION_DENIED'', ''SCOPE_DENIED'', ''POLICY_DENIED'']"

text \<open>The active context is the one given, or the one published for the request.\<close>

definition record_security_event ::
  "ctx \<Rightarrow> security_context option \<Rightarrow> string \<Rightarrow> string \<Rightarrow> string option \<Rightarrow> string \<Rightarrow> details \<Rightarrow> string option
    \<Rightarrow> uuid option \<Rightarrow> platform \<Rightarrow> platform" where
  "record_security_event c context action resource resource_id status details actor actor_user_id g =
     (let active = or_else context (c_security c);
          resolved = (case actor of
              Some (ch # rest) \<Rightarrow> ch # rest
            | _ \<Rightarrow> (case active of None \<Rightarrow> ANONYMOUS_ACTOR | Some a \<Rightarrow> sc_actor a));
          user_id = or_else actor_user_id (Option.bind active sc_actor_user_id)
      in on_world (audit_add c
           \<lparr>en_action = action, en_resource = resource, en_status = status, en_details = details,
            en_actor = Some resolved, en_resource_id = resource_id, en_actor_user_id = user_id,
            en_ip_address = Option.bind active sc_ip_address,
            en_user_agent = Option.bind active sc_user_agent\<rparr>) g)"

section \<open>Authentication\<close>

definition bearer_token :: "string option \<Rightarrow> app_error + string" where
  "bearer_token header =
     (case header of
        None \<Rightarrow> Inr []
      | Some h \<Rightarrow>
          (let value = py_strip h in
           if value = [] then Inr []
           else if take 7 (py_lower value) = ''bearer '' then Inr (py_strip (drop 7 value))
           else Inl (AppError ''INVALID_TOKEN'' 401)))"

definition signing_secret :: "sec_env \<Rightarrow> app_error + string" where
  "signing_secret env =
     (case se_secret env of
        Some (ch # rest) \<Rightarrow> Inr (ch # rest)
      | _ \<Rightarrow> Inl (AppError ''SECURITY_NOT_CONFIGURED'' 503))"

definition published :: "http_request \<Rightarrow> user \<Rightarrow> security_context" where
  "published rq u =
     \<lparr>sc_actor = u_username u, sc_actor_user_id = Some (u_id u), sc_ip_address = Some (client_ip rq),
      sc_user_agent = rq_user_agent rq, sc_legacy_actor = legacy_actor_label rq\<rparr>"

definition anonymous_context :: "http_request \<Rightarrow> string option \<Rightarrow> security_context" where
  "anonymous_context rq legacy =
     \<lparr>sc_actor = ANONYMOUS_ACTOR, sc_actor_user_id = None, sc_ip_address = Some (client_ip rq),
      sc_user_agent = rq_user_agent rq, sc_legacy_actor = legacy\<rparr>"

text \<open>On success the caller's context is published: the rest of the request runs with it.\<close>

definition get_principal ::
  "ctx \<Rightarrow> sec_env \<Rightarrow> http_request \<Rightarrow> platform \<Rightarrow> (app_error + principal \<times> ctx) \<times> platform" where
  "get_principal c env rq g =
     (case bearer_token (rq_authorization rq) of
        Inl e \<Rightarrow> (Inl e, g)
      | Inr token \<Rightarrow>
          if token = [] then (Inl (AppError ''AUTHENTICATION_REQUIRED'' 401), g)
          else (case signing_secret env of
              Inl e \<Rightarrow> (Inl e, g)
            | Inr secret \<Rightarrow>
                (case decode_access_token c env token secret (g_db g) of
                   (Inl e, w) \<Rightarrow> (Inl e, g\<lparr>g_db := w\<rparr>)
                 | (Inr cl, w) \<Rightarrow>
                     (let g1 = g\<lparr>g_db := w\<rparr> in
                      case user_get (cl_user_id cl) g1 of
                        None \<Rightarrow> (Inl (AppError ''INVALID_TOKEN'' 401), g1)
                      | Some u \<Rightarrow>
                          if u_status u \<noteq> USER_ACTIVE then (Inl (AppError ''ACCOUNT_DISABLED'' 401), g1)
                          else (Inr (principal_for c u g1, c\<lparr>c_security := Some (published rq u)\<rparr>), g1)))))"

definition get_optional_principal ::
  "ctx \<Rightarrow> sec_env \<Rightarrow> http_request \<Rightarrow> platform \<Rightarrow> (app_error + principal option \<times> ctx) \<times> platform" where
  "get_optional_principal c env rq g =
     (if py_strip (case rq_authorization rq of None \<Rightarrow> [] | Some h \<Rightarrow> h) = []
      then (Inr (None, c\<lparr>c_security := Some (anonymous_context rq (legacy_actor_label rq))\<rparr>), g)
      else case get_principal c env rq g of
          (Inl e, g1) \<Rightarrow> (Inl e, g1)
        | (Inr (p, c'), g1) \<Rightarrow> (Inr (Some p, c'), g1))"

section \<open>Policy engine\<close>

definition SUPPORTED_CONDITION_KEYS :: "string list" where
  "SUPPORTED_CONDITION_KEYS = [''roles'', ''time_window'', ''always'']"

record governance_decision =
  gd_allowed :: bool
  gd_policy_name :: "string option"

text \<open>A clock time is its minute of the day.\<close>

definition parse_clock :: "json option \<Rightarrow> int option" where
  "parse_clock value =
     (case value of
        Some (JStr s) \<Rightarrow>
          (case py_split (CHR '':'') s of
             [h, m] \<Rightarrow>
               (case (py_int h, py_int m) of
                  (Some hour, Some minute) \<Rightarrow>
                    if 0 \<le> hour \<and> hour \<le> 23 \<and> 0 \<le> minute \<and> minute \<le> 59
                    then Some (60 * hour + minute) else None
                | _ \<Rightarrow> None)
           | _ \<Rightarrow> None)
      | _ \<Rightarrow> None)"

definition isoweekday :: "instant \<Rightarrow> int" where
  "isoweekday t = (t div seconds 86400 + 3) mod 7 + 1"

definition minute_of_day :: "instant \<Rightarrow> int" where
  "minute_of_day t = t mod seconds 86400 div seconds 60"

text \<open>\<^verbatim>\<open>isinstance(day, int)\<close> holds of the truth values, which are 1 and 0.\<close>

definition iso_day :: "json \<Rightarrow> int option" where
  "iso_day d =
     (case (case d of JInt n \<Rightarrow> Some n | JBool b \<Rightarrow> Some (if b then 1 else 0) | _ \<Rightarrow> None) of
        Some n \<Rightarrow> if 1 \<le> n \<and> n \<le> 7 then Some n else None
      | None \<Rightarrow> None)"

definition in_clock_window :: "int \<Rightarrow> int \<Rightarrow> int \<Rightarrow> bool" where
  "in_clock_window start till current \<longleftrightarrow>
     (if start < till then start \<le> current \<and> current < till
      else if till < start then start \<le> current \<or> current < till else False)"

definition matches_time_window :: "json \<Rightarrow> instant \<Rightarrow> bool" where
  "matches_time_window window now =
     (case window of
        JObj w \<Rightarrow>
          (case (parse_clock (map_of w ''start''), parse_clock (map_of w ''end''), map_of w ''days'') of
             (Some start, Some till, Some (JList days)) \<Rightarrow>
               list_all (\<lambda>d. iso_day d \<noteq> None) days \<and> Some (isoweekday now) \<in> iso_day ` set days \<and>
               in_clock_window start till (minute_of_day now)
           | _ \<Rightarrow> False)
      | _ \<Rightarrow> False)"

definition hashable :: "json \<Rightarrow> bool" where
  "hashable v = (case v of JList _ \<Rightarrow> False | JObj _ \<Rightarrow> False | _ \<Rightarrow> True)"

text \<open>
  One condition: whether it holds, raises, or is one the engine cannot interpret, which is counted and
  leaves the rule inert.
\<close>

datatype verdict = Holds | Fails | Invalid | Raises

definition condition_verdict :: "principal \<Rightarrow> instant \<Rightarrow> string \<times> json \<Rightarrow> verdict" where
  "condition_verdict p now kv =
     (let (key, value) = kv in
      if key = ''always'' then (if value = JBool True then Holds else Invalid)
      else if key = ''roles'' then
        (case value of
           JList vs \<Rightarrow>
             if \<not> list_all hashable vs then Raises
             else if list_ex (\<lambda>r. JStr r \<in> set vs) (pn_roles p) then Holds else Fails
         | _ \<Rightarrow> Fails)
      else if key = ''time_window'' then (if matches_time_window value now then Holds else Fails)
      else Invalid)"

fun conditions_loop ::
  "principal \<Rightarrow> instant \<Rightarrow> details \<Rightarrow> world \<Rightarrow> (app_error + bool) \<times> world" where
  "conditions_loop p now [] w = (Inr True, w)"
| "conditions_loop p now (kv # rest) w =
     (case condition_verdict p now kv of
        Holds \<Rightarrow> conditions_loop p now rest w
      | Fails \<Rightarrow> (Inr False, w)
      | Invalid \<Rightarrow> (Inr False, inc_metric ''governance_invalid_policy_total'' [] w)
      | Raises \<Rightarrow> (Inl PyTypeError, w))"

definition conditions_match ::
  "details \<Rightarrow> principal \<Rightarrow> instant \<Rightarrow> world \<Rightarrow> (app_error + bool) \<times> world" where
  "conditions_match conditions p now w =
     (if conditions = [] then (Inr False, w) else conditions_loop p now conditions w)"

definition by_policy_name :: "ctx \<Rightarrow> governance_policy \<Rightarrow> governance_policy \<Rightarrow> bool" where
  "by_policy_name c a b \<longleftrightarrow> c_collate c (gp_name a) \<le> c_collate c (gp_name b)"

definition enabled_deny_policies :: "ctx \<Rightarrow> string \<Rightarrow> platform \<Rightarrow> governance_policy list" where
  "enabled_deny_policies c permission g =
     sort_by (by_policy_name c)
       (filter (\<lambda>p. gp_enabled p \<and> gp_permission p = permission \<and> gp_effect p = ''DENY'') (g_policies g))"

fun evaluate_loop ::
  "principal \<Rightarrow> instant \<Rightarrow> governance_policy list \<Rightarrow> world \<Rightarrow> (app_error + governance_decision) \<times> world" where
  "evaluate_loop p now [] w = (Inr \<lparr>gd_allowed = True, gd_policy_name = None\<rparr>, w)"
| "evaluate_loop p now (gp # rest) w =
     (case conditions_match (gp_conditions gp) p now w of
        (Inl e, w1) \<Rightarrow> (Inl e, w1)
      | (Inr True, w1) \<Rightarrow> (Inr \<lparr>gd_allowed = False, gd_policy_name = Some (gp_name gp)\<rparr>, w1)
      | (Inr False, w1) \<Rightarrow> evaluate_loop p now rest w1)"

definition GOVERNANCE_UNAVAILABLE :: app_error where
  "GOVERNANCE_UNAVAILABLE = AppError ''GOVERNANCE_UNAVAILABLE'' 503"

definition evaluate ::
  "ctx \<Rightarrow> sec_env \<Rightarrow> principal \<Rightarrow> string \<Rightarrow> platform \<Rightarrow> (app_error + governance_decision) \<times> platform" where
  "evaluate c env p permission g =
     (let (moment, w1) = utc_now c (g_db g);
          failed = (\<lambda>w. (Inl GOVERNANCE_UNAVAILABLE, g\<lparr>g_db := inc_metric ''governance_evaluation_error_total'' [] w\<rparr>))
      in if \<not> se_policies_up env then failed w1
         else case evaluate_loop p moment (enabled_deny_policies c permission g) w1 of
             (Inl _, w2) \<Rightarrow> failed w2
           | (Inr d, w2) \<Rightarrow> (Inr d, g\<lparr>g_db := w2\<rparr>))"

definition ensure_policy_allows ::
  "ctx \<Rightarrow> sec_env \<Rightarrow> http_request \<Rightarrow> principal \<Rightarrow> string \<Rightarrow> platform \<Rightarrow> (app_error + unit) \<times> platform" where
  "ensure_policy_allows c env rq p permission g =
     (case evaluate c env p permission g of
        (Inl e, g1) \<Rightarrow> (Inl e, g1)
      | (Inr d, g1) \<Rightarrow>
          if gd_allowed d then (Inr (), g1)
          else (Inl (AppError ''POLICY_DENIED'' 403),
            record_security_event c None ''POLICY_DENIED'' ''policy'' (Some permission) ''DENIED''
              [(''policy'', JStr (case gd_policy_name d of None \<Rightarrow> [] | Some n \<Rightarrow> n)),
               (''permission'', JStr permission), (''method'', JStr (rq_method rq)), (''path'', JStr (rq_path rq))]
              (Some (pn_username p)) (Some (pn_user_id p))
              (on_world (inc_metric ''governance_policy_denied_total'' []) g1)))"

section \<open>Permission checks\<close>

definition require_permission ::
  "ctx \<Rightarrow> sec_env \<Rightarrow> http_request \<Rightarrow> string \<Rightarrow> platform \<Rightarrow> (app_error + principal \<times> ctx) \<times> platform" where
  "require_permission c env rq permission g =
     (case get_principal c env rq g of
        (Inl e, g1) \<Rightarrow> (Inl e, g1)
      | (Inr (p, c'), g1) \<Rightarrow>
          if \<not> has_permission p permission
          then (Inl (AppError ''PERMISSION_DENIED'' 403),
            record_security_event c' None ''PERMISSION_DENIED'' ''permission'' (Some permission) ''DENIED''
              [(''method'', JStr (rq_method rq)), (''path'', JStr (rq_path rq)),
               (''roles'', JList (map JStr (pn_roles p)))]
              (Some (pn_username p)) (Some (pn_user_id p))
              (on_world (inc_metric ''security_permission_denied_total'' []) g1))
          else (case ensure_policy_allows c' env rq p permission g1 of
              (Inl e, g2) \<Rightarrow> (Inl e, g2)
            | (Inr _, g2) \<Rightarrow> (Inr (p, c'), g2)))"

text \<open>A governed route: the handler runs only for a caller the boundary lets through.\<close>

definition governed ::
  "ctx \<Rightarrow> sec_env \<Rightarrow> http_request \<Rightarrow> string \<Rightarrow> (ctx \<Rightarrow> principal \<Rightarrow> platform \<Rightarrow> (app_error + 'a) \<times> platform)
    \<Rightarrow> platform \<Rightarrow> (app_error + 'a) \<times> platform" where
  "governed c env rq permission handler g =
     (case require_permission c env rq permission g of
        (Inl e, g1) \<Rightarrow> (Inl e, g1)
      | (Inr (p, c'), g1) \<Rightarrow> handler c' p g1)"

section \<open>Login rate limit\<close>

definition live_counter :: "instant \<Rightarrow> string \<Rightarrow> platform \<Rightarrow> login_counter option" where
  "live_counter now identity g =
     (case map_of (g_logins g) identity of
        None \<Rightarrow> None
      | Some k \<Rightarrow> (case lc_expires k of None \<Rightarrow> Some k | Some t \<Rightarrow> if now < t then Some k else None))"

definition failure_count :: "sec_env \<Rightarrow> string \<Rightarrow> platform \<Rightarrow> int" where
  "failure_count env identity g =
     (if re_get (se_redis env)
      then (case live_counter (re_now (se_redis env)) identity g of None \<Rightarrow> 0 | Some k \<Rightarrow> lc_count k)
      else 0)"

definition limiter_check :: "sec_env \<Rightarrow> string \<Rightarrow> platform \<Rightarrow> app_error + unit" where
  "limiter_check env identity g =
     guardE (\<not> se_limit env \<le> failure_count env identity g) (AppError ''LOGIN_RATE_LIMITED'' 429)"

definition set_counter :: "string \<Rightarrow> login_counter option \<Rightarrow> platform \<Rightarrow> platform" where
  "set_counter identity k g =
     g\<lparr>g_logins := (case k of None \<Rightarrow> [] | Some v \<Rightarrow> [(identity, v)])
        @ filter (\<lambda>(i, _). i \<noteq> identity) (g_logins g)\<rparr>"

text \<open>
  The counter is incremented and then, on the first failure, given its expiry: two commands, of which
  the second can fail alone. A time to live that is not positive deletes the key.
\<close>

definition register_failure :: "sec_env \<Rightarrow> string \<Rightarrow> platform \<Rightarrow> platform" where
  "register_failure env identity g =
     (let r = se_redis env in
      if \<not> re_incr r then g
      else case live_counter (re_now r) identity g of
          Some k \<Rightarrow>
            (let k' = k\<lparr>lc_count := lc_count k + 1\<rparr> in
             if lc_count k' = 1 \<and> re_expire r
             then set_counter identity (if se_window env \<le> 0 then None
               else Some (k'\<lparr>lc_expires := Some (re_now r + seconds (se_window env))\<rparr>)) g
             else set_counter identity (Some k') g)
        | None \<Rightarrow>
            set_counter identity
              (if \<not> re_expire r then Some \<lparr>lc_count = 1, lc_expires = None\<rparr>
               else if se_window env \<le> 0 then None
               else Some \<lparr>lc_count = 1, lc_expires = Some (re_now r + seconds (se_window env))\<rparr>) g)"

definition limiter_reset :: "sec_env \<Rightarrow> string \<Rightarrow> platform \<Rightarrow> platform" where
  "limiter_reset env identity g = (if re_delete (se_redis env) then set_counter identity None g else g)"

section \<open>Authentication endpoints\<close>

record register_request =
  rr_username :: string
  rr_password :: string
  rr_email :: "string option"
  rr_roles :: "string list option"

definition register_request_ok :: "register_request \<Rightarrow> bool" where
  "register_request_ok p \<longleftrightarrow>
     text_between 3 100 (rr_username p) \<and> text_between 1 256 (rr_password p) \<and>
     (case rr_email p of None \<Rightarrow> True | Some e \<Rightarrow> length e \<le> 320)"

definition requested_roles :: "register_request \<Rightarrow> principal option \<Rightarrow> string list option" where
  "requested_roles p caller =
     (case rr_roles p of
        Some (r # rs) \<Rightarrow>
          (case caller of
             Some q \<Rightarrow> if has_permission q USER_MANAGE then Some (r # rs) else None
           | None \<Rightarrow> None)
      | _ \<Rightarrow> None)"

definition register ::
  "ctx \<Rightarrow> sec_env \<Rightarrow> http_request \<Rightarrow> register_request \<Rightarrow> platform \<Rightarrow> (app_error + user \<times> string list) \<times> platform" where
  "register c env rq p g =
     (case get_optional_principal c env rq g of
        (Inl e, g1) \<Rightarrow> (Inl e, g1)
      | (Inr (caller, c'), g1) \<Rightarrow>
          if \<not> se_registration env then (Inl (AppError ''REGISTRATION_DISABLED'' 403), g1)
          else (case register_user c' env (rr_username p) (rr_password p) (rr_email p)
                  (requested_roles p caller) g1 of
              Inl e \<Rightarrow> (Inl e, g1)
            | Inr (u, g2) \<Rightarrow>
                (let roles = names_for_user c' (u_id u) g2 in
                 (Inr (u, roles),
                  record_security_event c' None ''AUTH_REGISTER'' ''auth'' (Some (u_id u)) ''SUCCESS''
                    [(''registered_by'', JStr (case caller of None \<Rightarrow> ''self'' | Some q \<Rightarrow> pn_username q)),
                     (''roles'', JList (map JStr roles)),
                     (''roles_requested_ignored'', JBool (rr_roles p \<notin> {None, Some []} \<and>
                        requested_roles p caller = None))]
                    (Some (case caller of None \<Rightarrow> u_username u | Some q \<Rightarrow> pn_username q))
                    (Some (case caller of None \<Rightarrow> u_id u | Some q \<Rightarrow> pn_user_id q)) g2))))"

record token_response =
  tr_token :: issued_token
  tr_user_id :: uuid
  tr_username :: string
  tr_roles :: "string list"

definition login ::
  "ctx \<Rightarrow> sec_env \<Rightarrow> http_request \<Rightarrow> string \<Rightarrow> string \<Rightarrow> platform \<Rightarrow> (app_error + token_response) \<times> platform" where
  "login c env rq username password g =
     (let context = anonymous_context rq None;
          c' = c\<lparr>c_security := Some context\<rparr>;
          origin = client_ip rq in
      case signing_secret env of
        Inl e \<Rightarrow> (Inl e, g)
      | Inr secret \<Rightarrow>
          (case limiter_check env origin g of
             Inl e \<Rightarrow> (Inl e, g)
           | Inr _ \<Rightarrow>
               (case authenticate_user env username password g of
                  Inl e \<Rightarrow>
                    (Inl e,
                     record_security_event c' (Some context) ''AUTH_LOGIN'' ''auth''
                       (Some (normalize_username username)) ''FAILURE'' [(''reason'', JStr (error_code e))]
                       (Some (normalize_username username)) None (register_failure env origin g))
                | Inr u \<Rightarrow>
                    (let g1 = limiter_reset env origin g;
                         roles = names_for_user c' (u_id u) g1;
                         (issued, w) = create_access_token c' env (u_id u) (u_username u) roles secret (g_db g1)
                     in (Inr \<lparr>tr_token = issued, tr_user_id = u_id u, tr_username = u_username u, tr_roles = roles\<rparr>,
                         record_security_event c' (Some context) ''AUTH_LOGIN'' ''auth'' (Some (u_id u)) ''SUCCESS''
                           [(''roles'', JList (map JStr roles))] (Some (u_username u)) (Some (u_id u))
                           (g1\<lparr>g_db := w\<rparr>))))))"

end
