(* ===== verification/Organizations.thy ===== *)
theory Organizations
  imports Boundary
begin

text \<open>
  Scope-aware authorization of \<^verbatim>\<open>security/scope_policy.py\<close> and the organisation endpoints of
  \<^verbatim>\<open>api/organizations.py\<close>: which devices and which rows of the hierarchy organisation, plant, area an
  identity reaches through its bindings, and the operations that author the hierarchy, the bindings and
  the placement of devices. Foreign keys of the hierarchy cascade on delete; a binding carries no
  foreign key to the node it names.
\<close>

section \<open>Scope policy\<close>

datatype ScopeAccessMode = UNRESTRICTED | SCOPED | DENIED

record device_scope_access =
  da_mode :: ScopeAccessMode
  da_device_ids :: "string set option"

definition allows :: "device_scope_access \<Rightarrow> string \<Rightarrow> bool" where
  "allows a device_id =
     (if da_mode a = UNRESTRICTED then True
      else case da_device_ids a of
          Some ids \<Rightarrow> da_mode a = SCOPED \<and> device_id \<in> ids
        | None \<Rightarrow> False)"

record organization_scope_access =
  oa_mode :: ScopeAccessMode
  oa_organization_ids :: "uuid set"
  oa_plant_ids :: "uuid set"
  oa_area_ids :: "uuid set"

definition shows_organization :: "organization_scope_access \<Rightarrow> uuid \<Rightarrow> bool" where
  "shows_organization a k \<longleftrightarrow> oa_mode a = UNRESTRICTED \<or> k \<in> oa_organization_ids a"

definition shows_plant :: "organization_scope_access \<Rightarrow> uuid \<Rightarrow> bool" where
  "shows_plant a k \<longleftrightarrow> oa_mode a = UNRESTRICTED \<or> k \<in> oa_plant_ids a"

definition shows_area :: "organization_scope_access \<Rightarrow> uuid \<Rightarrow> bool" where
  "shows_area a k \<longleftrightarrow> oa_mode a = UNRESTRICTED \<or> k \<in> oa_area_ids a"

definition bindings_of :: "uuid \<Rightarrow> platform \<Rightarrow> user_scope list" where
  "bindings_of user_id g = filter (\<lambda>b. us_user_id b = user_id) (g_user_scopes g)"

definition bound_ids :: "ScopeLevel \<Rightarrow> user_scope list \<Rightarrow> uuid set" where
  "bound_ids level bs = set (map us_scope_id (filter (\<lambda>b. us_scope_level b = level) bs))"

definition plants_in :: "uuid set \<Rightarrow> platform \<Rightarrow> uuid set" where
  "plants_in organization_ids g =
     set (map pl_id (filter (\<lambda>p. pl_organization_id p \<in> organization_ids) (g_plants g)))"

definition areas_in :: "uuid set \<Rightarrow> platform \<Rightarrow> uuid set" where
  "areas_in plant_ids g = set (map oar_id (filter (\<lambda>a. oar_plant_id a \<in> plant_ids) (g_areas g)))"

definition resolve_device_access :: "principal \<Rightarrow> platform \<Rightarrow> device_scope_access" where
  "resolve_device_access p g =
     (if WILDCARD \<in> pn_permissions p then \<lparr>da_mode = UNRESTRICTED, da_device_ids = None\<rparr>
      else (let bindings = bindings_of (pn_user_id p) g in
        if bindings = [] then \<lparr>da_mode = DENIED, da_device_ids = Some {}\<rparr>
        else (let areas = bound_ids SL_AREA bindings;
                  plants = bound_ids SL_PLANT bindings;
                  organizations = bound_ids SL_ORGANIZATION bindings;
                  area_ids = areas \<union> areas_in plants g \<union> areas_in (plants_in organizations g) g
              in \<lparr>da_mode = SCOPED,
                  da_device_ids = Some (if area_ids = {} then {}
                    else set (map dsc_device_id (filter (\<lambda>d. dsc_area_id d \<in> area_ids) (g_device_scopes g))))\<rparr>)))"

text \<open>
  The ancestor passes run first, areas before plants; the descendant passes then start from what the
  ancestor passes collected.
\<close>

definition resolve_organization_access :: "principal \<Rightarrow> platform \<Rightarrow> organization_scope_access" where
  "resolve_organization_access p g =
     (let nothing = (\<lambda>mode. \<lparr>oa_mode = mode, oa_organization_ids = {}, oa_plant_ids = {}, oa_area_ids = {}\<rparr>) in
      if WILDCARD \<in> pn_permissions p then nothing UNRESTRICTED
      else (let bindings = bindings_of (pn_user_id p) g in
        if bindings = [] then nothing DENIED
        else (let areas = bound_ids SL_AREA bindings;
                  plants = bound_ids SL_PLANT bindings;
                  organizations = bound_ids SL_ORGANIZATION bindings;
                  plants1 = plants \<union> set (map oar_plant_id (filter (\<lambda>a. oar_id a \<in> areas) (g_areas g)));
                  organizations1 = organizations \<union>
                    set (map pl_organization_id (filter (\<lambda>x. pl_id x \<in> plants1) (g_plants g)));
                  plants2 = plants1 \<union> plants_in organizations1 g;
                  areas2 = areas \<union> areas_in plants2 g
              in \<lparr>oa_mode = SCOPED, oa_organization_ids = organizations1, oa_plant_ids = plants2,
                  oa_area_ids = areas2\<rparr>)))"

definition ensure_device_in_scope ::
  "ctx \<Rightarrow> http_request \<Rightarrow> principal \<Rightarrow> string \<Rightarrow> platform \<Rightarrow> (app_error + unit) \<times> platform" where
  "ensure_device_in_scope c rq p device_id g =
     (if allows (resolve_device_access p g) device_id then (Inr (), g)
      else (Inl (AppError ''SCOPE_DENIED'' 403),
        record_security_event c None ''SCOPE_DENIED'' ''scope'' (Some device_id) ''DENIED''
          [(''device_id'', JStr device_id), (''method'', JStr (rq_method rq)), (''path'', JStr (rq_path rq))]
          (Some (pn_username p)) (Some (pn_user_id p))
          (on_world (inc_metric ''security_scope_denied_total'' []) g)))"

definition ensure_organization_visible ::
  "ctx \<Rightarrow> http_request \<Rightarrow> principal \<Rightarrow> string \<Rightarrow> uuid \<Rightarrow> organization_scope_access \<Rightarrow> platform
    \<Rightarrow> (app_error + unit) \<times> platform" where
  "ensure_organization_visible c rq p resource resource_id access g =
     (let visible = (if resource = ''organization'' then shows_organization access resource_id
            else if resource = ''plant'' then shows_plant access resource_id
            else if resource = ''area'' then shows_area access resource_id else False)
      in if visible then (Inr (), g)
         else (Inl (AppError ''SCOPE_DENIED'' 403),
           record_security_event c None ''SCOPE_DENIED'' resource (Some resource_id) ''DENIED''
             [(''resource'', JStr resource), (''resource_id'', JStr resource_id),
              (''method'', JStr (rq_method rq)), (''path'', JStr (rq_path rq))]
             (Some (pn_username p)) (Some (pn_user_id p))
             (on_world (inc_metric ''security_scope_denied_total'' []) g)))"

definition device_scope_filter :: "principal \<Rightarrow> platform \<Rightarrow> string set option" where
  "device_scope_filter p g =
     (let access = resolve_device_access p g in
      if da_mode access = UNRESTRICTED then None
      else Some (case da_device_ids access of None \<Rightarrow> {} | Some ids \<Rightarrow> ids))"

section \<open>Helpers\<close>

definition committed :: "app_error + 'a \<times> platform \<Rightarrow> platform \<Rightarrow> (app_error + 'a) \<times> platform" where
  "committed r g = (case r of Inl e \<Rightarrow> (Inl e, g) | Inr (x, g') \<Rightarrow> (Inr x, g'))"

definition mutation_audit ::
  "ctx \<Rightarrow> string \<Rightarrow> string \<Rightarrow> string \<Rightarrow> principal \<Rightarrow> details \<Rightarrow> platform \<Rightarrow> platform" where
  "mutation_audit c action resource resource_id p details g =
     on_world (audit_add c
       \<lparr>en_action = action, en_resource = resource, en_status = ''SUCCESS'', en_details = details,
        en_actor = Some (pn_username p), en_resource_id = Some resource_id,
        en_actor_user_id = Some (pn_user_id p), en_ip_address = None, en_user_agent = None\<rparr>) g"

definition require_organization :: "uuid \<Rightarrow> platform \<Rightarrow> app_error + organization" where
  "require_organization k g =
     (case find_row og_id k (g_organizations g) of
        None \<Rightarrow> Inl (AppError ''ORGANIZATION_NOT_FOUND'' 404) | Some r \<Rightarrow> Inr r)"

definition require_plant :: "uuid \<Rightarrow> platform \<Rightarrow> app_error + org_plant" where
  "require_plant k g =
     (case find_row pl_id k (g_plants g) of None \<Rightarrow> Inl (AppError ''PLANT_NOT_FOUND'' 404) | Some r \<Rightarrow> Inr r)"

definition require_area :: "uuid \<Rightarrow> platform \<Rightarrow> app_error + org_area" where
  "require_area k g =
     (case find_row oar_id k (g_areas g) of None \<Rightarrow> Inl (AppError ''AREA_NOT_FOUND'' 404) | Some r \<Rightarrow> Inr r)"

record node_payload =
  np_name :: string
  np_description :: string

definition node_payload_ok :: "node_payload \<Rightarrow> bool" where
  "node_payload_ok p \<longleftrightarrow> text_between 1 200 (np_name p) \<and> length (np_description p) \<le> 500"

section \<open>Organisations\<close>

definition list_organizations :: "ctx \<Rightarrow> principal \<Rightarrow> platform \<Rightarrow> organization list" where
  "list_organizations c p g =
     (let access = resolve_organization_access p g;
          rows = sort_by (\<lambda>a b. c_collate c (og_name a) \<le> c_collate c (og_name b)) (g_organizations g)
      in if oa_mode access \<noteq> UNRESTRICTED then filter (\<lambda>r. og_id r \<in> oa_organization_ids access) rows else rows)"

definition create_organization ::
  "node_payload \<Rightarrow> ctx \<Rightarrow> principal \<Rightarrow> platform \<Rightarrow> app_error + organization \<times> platform" where
  "create_organization payload c p g =
     (if np_name payload \<in> og_name ` set (g_organizations g) then Inl (AppError ''ORGANIZATION_EXISTS'' 409)
      else (let (fresh, w1) = uuid4 c (g_db g);
                row = \<lparr>og_id = fresh, og_name = np_name payload, og_description = np_description payload\<rparr>
            in if fresh \<in> og_id ` set (g_organizations g) then Inl IntegrityError
               else Inr (row, mutation_audit c ''ORGANIZATION_CREATED'' ''organization'' fresh p
                 [(''name'', JStr (np_name payload))]
                 (g\<lparr>g_db := w1, g_organizations := g_organizations g @ [row]\<rparr>))))"

definition get_organization ::
  "http_request \<Rightarrow> uuid \<Rightarrow> ctx \<Rightarrow> principal \<Rightarrow> platform \<Rightarrow> (app_error + organization) \<times> platform" where
  "get_organization rq k c p g =
     (case ensure_organization_visible c rq p ''organization'' k (resolve_organization_access p g) g of
        (Inl e, g1) \<Rightarrow> (Inl e, g1)
      | (Inr _, g1) \<Rightarrow> (require_organization k g1, g1))"

record organization_update =
  ou_name :: "string option"
  ou_description :: "string option"

definition update_organization ::
  "uuid \<Rightarrow> organization_update \<Rightarrow> ctx \<Rightarrow> principal \<Rightarrow> platform \<Rightarrow> app_error + organization \<times> platform" where
  "update_organization k payload c p g =
     bindE (require_organization k g) (\<lambda>row.
       if (case ou_name payload of None \<Rightarrow> False
           | Some n \<Rightarrow> n \<noteq> og_name row \<and> n \<in> og_name ` set (g_organizations g))
       then Inl (AppError ''ORGANIZATION_EXISTS'' 409)
       else (let f = (\<lambda>r. r\<lparr>og_name := (case ou_name payload of None \<Rightarrow> og_name r | Some n \<Rightarrow> n),
                            og_description := (case ou_description payload of None \<Rightarrow> og_description r | Some d \<Rightarrow> d)\<rparr>)
             in Inr (f row, mutation_audit c ''ORGANIZATION_UPDATED'' ''organization'' k p []
               (g\<lparr>g_organizations := update_rows og_id k f (g_organizations g)\<rparr>))))"

text \<open>Deleting a node deletes what hangs below it: the database cascades.\<close>

definition drop_areas :: "uuid set \<Rightarrow> platform \<Rightarrow> platform" where
  "drop_areas ks g =
     g\<lparr>g_areas := filter (\<lambda>a. oar_id a \<notin> ks) (g_areas g),
       g_device_scopes := filter (\<lambda>d. dsc_area_id d \<notin> ks) (g_device_scopes g)\<rparr>"

definition drop_plants :: "uuid set \<Rightarrow> platform \<Rightarrow> platform" where
  "drop_plants ks g =
     drop_areas (areas_in ks g) (g\<lparr>g_plants := filter (\<lambda>p. pl_id p \<notin> ks) (g_plants g)\<rparr>)"

definition drop_organization :: "uuid \<Rightarrow> platform \<Rightarrow> platform" where
  "drop_organization k g =
     drop_plants (plants_in {k} g)
       (g\<lparr>g_organizations := filter (\<lambda>r. og_id r \<noteq> k) (g_organizations g)\<rparr>)"

definition delete_organization ::
  "uuid \<Rightarrow> ctx \<Rightarrow> principal \<Rightarrow> platform \<Rightarrow> app_error + unit \<times> platform" where
  "delete_organization k c p g =
     bindE (require_organization k g) (\<lambda>row.
       Inr ((), drop_organization k
         (mutation_audit c ''ORGANIZATION_DELETED'' ''organization'' k p [(''name'', JStr (og_name row))] g)))"

section \<open>Plants\<close>

definition list_plants ::
  "http_request \<Rightarrow> uuid \<Rightarrow> ctx \<Rightarrow> principal \<Rightarrow> platform \<Rightarrow> (app_error + org_plant list) \<times> platform" where
  "list_plants rq k c p g =
     (let access = resolve_organization_access p g in
      case ensure_organization_visible c rq p ''organization'' k access g of
        (Inl e, g1) \<Rightarrow> (Inl e, g1)
      | (Inr _, g1) \<Rightarrow>
          (bindE (require_organization k g1) (\<lambda>_.
             (let rows = sort_by (\<lambda>a b. c_collate c (pl_name a) \<le> c_collate c (pl_name b))
                    (filter (\<lambda>r. pl_organization_id r = k) (g_plants g1))
              in Inr (if oa_mode access \<noteq> UNRESTRICTED
                      then filter (\<lambda>r. pl_id r \<in> oa_plant_ids access) rows else rows))), g1))"

definition plant_row_ok :: "org_plant \<Rightarrow> org_plant list \<Rightarrow> bool" where
  "plant_row_ok r others \<longleftrightarrow>
     pl_id r \<notin> pl_id ` set others \<and>
     (pl_organization_id r, pl_name r) \<notin> (\<lambda>x. (pl_organization_id x, pl_name x)) ` set others"

definition create_plant ::
  "uuid \<Rightarrow> node_payload \<Rightarrow> ctx \<Rightarrow> principal \<Rightarrow> platform \<Rightarrow> app_error + org_plant \<times> platform" where
  "create_plant k payload c p g =
     bindE (require_organization k g) (\<lambda>_.
       (let (fresh, w1) = uuid4 c (g_db g);
            row = \<lparr>pl_id = fresh, pl_organization_id = k, pl_name = np_name payload,
                   pl_description = np_description payload\<rparr>
        in if \<not> plant_row_ok row (g_plants g) then Inl IntegrityError
           else Inr (row, mutation_audit c ''PLANT_CREATED'' ''plant'' fresh p
             [(''name'', JStr (np_name payload)), (''organization_id'', JStr k)]
             (g\<lparr>g_db := w1, g_plants := g_plants g @ [row]\<rparr>))))"

definition update_plant ::
  "uuid \<Rightarrow> node_payload \<Rightarrow> ctx \<Rightarrow> principal \<Rightarrow> platform \<Rightarrow> app_error + org_plant \<times> platform" where
  "update_plant k payload c p g =
     bindE (require_plant k g) (\<lambda>row.
       (let f = (\<lambda>r. r\<lparr>pl_name := np_name payload, pl_description := np_description payload\<rparr>)
        in if \<not> plant_row_ok (f row) (filter (\<lambda>r. pl_id r \<noteq> k) (g_plants g)) then Inl IntegrityError
           else Inr (f row, mutation_audit c ''PLANT_UPDATED'' ''plant'' k p []
             (g\<lparr>g_plants := update_rows pl_id k f (g_plants g)\<rparr>))))"

definition delete_plant :: "uuid \<Rightarrow> ctx \<Rightarrow> principal \<Rightarrow> platform \<Rightarrow> app_error + unit \<times> platform" where
  "delete_plant k c p g =
     bindE (require_plant k g) (\<lambda>row.
       Inr ((), drop_plants {k}
         (mutation_audit c ''PLANT_DELETED'' ''plant'' k p [(''name'', JStr (pl_name row))] g)))"

section \<open>Areas\<close>

definition list_areas ::
  "http_request \<Rightarrow> uuid \<Rightarrow> ctx \<Rightarrow> principal \<Rightarrow> platform \<Rightarrow> (app_error + org_area list) \<times> platform" where
  "list_areas rq k c p g =
     (let access = resolve_organization_access p g in
      case ensure_organization_visible c rq p ''plant'' k access g of
        (Inl e, g1) \<Rightarrow> (Inl e, g1)
      | (Inr _, g1) \<Rightarrow>
          (bindE (require_plant k g1) (\<lambda>_.
             (let rows = sort_by (\<lambda>a b. c_collate c (oar_name a) \<le> c_collate c (oar_name b))
                    (filter (\<lambda>r. oar_plant_id r = k) (g_areas g1))
              in Inr (if oa_mode access \<noteq> UNRESTRICTED
                      then filter (\<lambda>r. oar_id r \<in> oa_area_ids access) rows else rows))), g1))"

definition area_row_ok :: "org_area \<Rightarrow> org_area list \<Rightarrow> bool" where
  "area_row_ok r others \<longleftrightarrow>
     oar_id r \<notin> oar_id ` set others \<and>
     (oar_plant_id r, oar_name r) \<notin> (\<lambda>x. (oar_plant_id x, oar_name x)) ` set others"

definition create_area ::
  "uuid \<Rightarrow> node_payload \<Rightarrow> ctx \<Rightarrow> principal \<Rightarrow> platform \<Rightarrow> app_error + org_area \<times> platform" where
  "create_area k payload c p g =
     bindE (require_plant k g) (\<lambda>_.
       (let (fresh, w1) = uuid4 c (g_db g);
            row = \<lparr>oar_id = fresh, oar_plant_id = k, oar_name = np_name payload,
                   oar_description = np_description payload\<rparr>
        in if \<not> area_row_ok row (g_areas g) then Inl IntegrityError
           else Inr (row, mutation_audit c ''AREA_CREATED'' ''area'' fresh p
             [(''name'', JStr (np_name payload)), (''plant_id'', JStr k)]
             (g\<lparr>g_db := w1, g_areas := g_areas g @ [row]\<rparr>))))"

definition update_area ::
  "uuid \<Rightarrow> node_payload \<Rightarrow> ctx \<Rightarrow> principal \<Rightarrow> platform \<Rightarrow> app_error + org_area \<times> platform" where
  "update_area k payload c p g =
     bindE (require_area k g) (\<lambda>row.
       (let f = (\<lambda>r. r\<lparr>oar_name := np_name payload, oar_description := np_description payload\<rparr>)
        in if \<not> area_row_ok (f row) (filter (\<lambda>r. oar_id r \<noteq> k) (g_areas g)) then Inl IntegrityError
           else Inr (f row, mutation_audit c ''AREA_UPDATED'' ''area'' k p []
             (g\<lparr>g_areas := update_rows oar_id k f (g_areas g)\<rparr>))))"

definition delete_area :: "uuid \<Rightarrow> ctx \<Rightarrow> principal \<Rightarrow> platform \<Rightarrow> app_error + unit \<times> platform" where
  "delete_area k c p g =
     bindE (require_area k g) (\<lambda>row.
       Inr ((), drop_areas {k}
         (mutation_audit c ''AREA_DELETED'' ''area'' k p [(''name'', JStr (oar_name row))] g)))"

section \<open>Bindings and placement\<close>

definition validate_binding_target :: "platform \<Rightarrow> ScopeLevel \<times> uuid \<Rightarrow> app_error + unit" where
  "validate_binding_target g b =
     (case fst b of
        SL_ORGANIZATION \<Rightarrow> bindE (require_organization (snd b) g) (\<lambda>_. Inr ())
      | SL_PLANT \<Rightarrow> bindE (require_plant (snd b) g) (\<lambda>_. Inr ())
      | SL_AREA \<Rightarrow> bindE (require_area (snd b) g) (\<lambda>_. Inr ()))"

definition scope_level_value :: "ScopeLevel \<Rightarrow> string" where
  "scope_level_value l = (case l of SL_ORGANIZATION \<Rightarrow> ''ORGANIZATION'' | SL_PLANT \<Rightarrow> ''PLANT'' | SL_AREA \<Rightarrow> ''AREA'')"

definition list_user_scopes :: "uuid \<Rightarrow> platform \<Rightarrow> app_error + user_scope list" where
  "list_user_scopes user_id g =
     (if user_get user_id g = None then Inl (AppError ''USER_NOT_FOUND'' 404) else Inr (bindings_of user_id g))"

definition set_user_scopes ::
  "uuid \<Rightarrow> (ScopeLevel \<times> uuid) list \<Rightarrow> ctx \<Rightarrow> principal \<Rightarrow> platform \<Rightarrow> app_error + user_scope list \<times> platform" where
  "set_user_scopes user_id bindings c p g =
     (if user_get user_id g = None then Inl (AppError ''USER_NOT_FOUND'' 404)
      else bindE (mapE (validate_binding_target g) bindings) (\<lambda>_.
        if \<not> distinct bindings then Inl IntegrityError
        else (let rows = map (\<lambda>(l, k). \<lparr>us_user_id = user_id, us_scope_level = l, us_scope_id = k\<rparr>) bindings;
                  g1 = mutation_audit c ''USER_SCOPE_ASSIGNED'' ''user'' user_id p
                    [(''bindings'', JList (map (\<lambda>(l, k).
                       JObj [(''scope_level'', JStr (scope_level_value l)), (''scope_id'', JStr k)]) bindings))]
                    (g\<lparr>g_user_scopes := filter (\<lambda>b. us_user_id b \<noteq> user_id) (g_user_scopes g) @ rows\<rparr>)
              in Inr (bindings_of user_id g1, g1))))"

definition get_device_scope :: "string \<Rightarrow> platform \<Rightarrow> uuid option" where
  "get_device_scope device_id g = map_option dsc_area_id (find_row dsc_device_id device_id (g_device_scopes g))"

definition set_device_scope ::
  "string \<Rightarrow> uuid option \<Rightarrow> ctx \<Rightarrow> principal \<Rightarrow> platform \<Rightarrow> app_error + uuid option \<times> platform" where
  "set_device_scope device_id area_id c p g =
     (if device_id \<notin> dev_device_id ` set (w_devices (g_db g)) then Inl (AppError ''DEVICE_NOT_FOUND'' 404)
      else bindE (case area_id of None \<Rightarrow> Inr () | Some k \<Rightarrow> bindE (require_area k g) (\<lambda>_. Inr ())) (\<lambda>_.
        (let rows = (case area_id of
               None \<Rightarrow> filter (\<lambda>d. dsc_device_id d \<noteq> device_id) (g_device_scopes g)
             | Some k \<Rightarrow>
                 if find_row dsc_device_id device_id (g_device_scopes g) = None
                 then g_device_scopes g @ [\<lparr>dsc_device_id = device_id, dsc_area_id = k\<rparr>]
                 else update_rows dsc_device_id device_id (\<lambda>d. d\<lparr>dsc_area_id := k\<rparr>) (g_device_scopes g))
         in Inr (area_id, mutation_audit c ''DEVICE_SCOPE_ASSIGNED'' ''device'' device_id p
              [(''area_id'', json_opt_str area_id)] (g\<lparr>g_device_scopes := rows\<rparr>)))))"

end
