(* ===== verification/Governance.thy ===== *)
theory Governance
  imports Organizations
begin

text \<open>
  The governance endpoints of \<^verbatim>\<open>api/governance.py\<close>: audit and security-event queries, the compliance
  dashboard, authoring of governance policies with their write-time validation, and the change ledger
  with the state machine of \<^verbatim>\<open>security/governance_models.py\<close>.
\<close>

section \<open>Audit governance\<close>

text \<open>\<^verbatim>\<open>value.replace("Z", "+00:00")\<close> precedes the parse.\<close>

definition window_query :: "ctx \<Rightarrow> string option \<Rightarrow> app_error + instant option" where
  "window_query c value =
     (case value of
        None \<Rightarrow> Inr None
      | Some s \<Rightarrow>
          if py_strip s = [] then Inr None
          else (case c_fromisoformat c (concat (map (\<lambda>ch. if ch = CHR ''Z'' then ''+00:00'' else [ch]) s)) of
              Some (Aware t) \<Rightarrow> Inr (Some t)
            | _ \<Rightarrow> Inl (AppError ''VALIDATION_ERROR'' 422)))"

record audit_page =
  apg_items :: "audit_event list"
  apg_total :: nat

definition query_audit ::
  "ctx \<Rightarrow> audit_filters \<Rightarrow> string option \<Rightarrow> string option \<Rightarrow> nat \<Rightarrow> nat \<Rightarrow> platform \<Rightarrow> app_error + audit_page" where
  "query_audit c f since till limit offset g =
     bindE (window_query c since) (\<lambda>s. bindE (window_query c till) (\<lambda>u.
       (let (rows, total) = audit_query (f\<lparr>f_actions := None, f_since := s, f_until := u\<rparr>) limit offset (g_db g)
        in Inr \<lparr>apg_items = rows, apg_total = total\<rparr>)))"

definition security_filters :: "string option \<Rightarrow> string option \<Rightarrow> instant option \<Rightarrow> instant option \<Rightarrow> audit_filters" where
  "security_filters actor status since till =
     \<lparr>f_actor = actor, f_action = None, f_actions = Some SECURITY_EVENT_ACTIONS, f_resource = None,
      f_resource_id = None, f_status = status, f_trace_id = None, f_since = since, f_until = till\<rparr>"

definition query_security_events ::
  "ctx \<Rightarrow> string option \<Rightarrow> string option \<Rightarrow> string option \<Rightarrow> string option \<Rightarrow> nat \<Rightarrow> nat \<Rightarrow> platform
    \<Rightarrow> app_error + audit_page \<times> (string \<Rightarrow> string \<Rightarrow> nat option)" where
  "query_security_events c actor status since till limit offset g =
     bindE (window_query c since) (\<lambda>s. bindE (window_query c till) (\<lambda>u.
       (let f = security_filters actor status s u; (rows, total) = audit_query f limit offset (g_db g)
        in Inr (\<lparr>apg_items = rows, apg_total = total\<rparr>, audit_summary f (g_db g)))))"

section \<open>Policies\<close>

definition policy_invalid :: "app_error" where
  "policy_invalid = AppError ''POLICY_CONDITION_INVALID'' 422"

text \<open>\<^verbatim>\<open>isdigit\<close> also holds of the superscript digits, which \<^verbatim>\<open>int\<close> refuses with \<^verbatim>\<open>ValueError\<close>.\<close>

definition py_isdigit :: "string \<Rightarrow> bool" where
  "py_isdigit s \<longleftrightarrow> s \<noteq> [] \<and> list_all (\<lambda>ch. is_digit ch \<or> of_char ch \<in> {178, 179, 185 :: nat}) s"

text \<open>\<^verbatim>\<open>part.isdigit() and int(part) <= bound\<close>.\<close>

definition clock_part :: "string \<Rightarrow> int \<Rightarrow> app_error + bool" where
  "clock_part s bound =
     (if \<not> py_isdigit s then Inr False
      else case py_int s of None \<Rightarrow> Inl PyValueError | Some n \<Rightarrow> Inr (n \<le> bound))"

definition validate_clock :: "json option \<Rightarrow> app_error + unit" where
  "validate_clock clock =
     (case clock of
        Some (JStr s) \<Rightarrow>
          if length s \<noteq> 5 \<or> s ! 2 \<noteq> CHR '':'' then Inl policy_invalid
          else (case py_split (CHR '':'') s of
              [h, m] \<Rightarrow>
                bindE (clock_part h 23) (\<lambda>ok.
                  if \<not> ok then Inl policy_invalid
                  else bindE (clock_part m 59) (\<lambda>ok'. if ok' then Inr () else Inl policy_invalid))
            | _ \<Rightarrow> Inl PyValueError)
      | _ \<Rightarrow> Inl policy_invalid)"

definition validate_time_window :: "json \<Rightarrow> app_error + unit" where
  "validate_time_window window =
     (case window of
        JObj w \<Rightarrow>
          (case map_of w ''days'' of
             Some (JList days) \<Rightarrow>
               if days = [] \<or> \<not> list_all (\<lambda>d. iso_day d \<noteq> None) days then Inl policy_invalid
               else bindE (validate_clock (map_of w ''start'')) (\<lambda>_. validate_clock (map_of w ''end''))
           | _ \<Rightarrow> Inl policy_invalid)
      | _ \<Rightarrow> Inl policy_invalid)"

definition validate_condition :: "string \<times> json \<Rightarrow> app_error + unit" where
  "validate_condition kv =
     (let (key, value) = kv in
      if key \<notin> set SUPPORTED_CONDITION_KEYS then Inl policy_invalid
      else if key = ''roles'' then
        (case value of
           JList vs \<Rightarrow> guardE (vs \<noteq> [] \<and> list_all (\<lambda>v. case v of JStr s \<Rightarrow> s \<noteq> [] | _ \<Rightarrow> False) vs) policy_invalid
         | _ \<Rightarrow> Inl policy_invalid)
      else if key = ''time_window'' then validate_time_window value
      else guardE (value = JBool True) policy_invalid)"

definition validate_conditions :: "details \<Rightarrow> app_error + unit" where
  "validate_conditions conditions =
     bindE (mapE validate_condition conditions) (\<lambda>_.
       guardE (\<not> (''always'' \<in> fst ` set conditions \<and> 1 < length conditions)) policy_invalid)"

definition validate_permission_name :: "string \<Rightarrow> app_error + unit" where
  "validate_permission_name permission =
     guardE (permission \<in> set ALL_PERMISSIONS) (AppError ''POLICY_PERMISSION_UNKNOWN'' 422)"

definition require_policy :: "uuid \<Rightarrow> platform \<Rightarrow> app_error + governance_policy" where
  "require_policy k g =
     (case find_row gp_id k (g_policies g) of None \<Rightarrow> Inl (AppError ''POLICY_NOT_FOUND'' 404) | Some r \<Rightarrow> Inr r)"

definition list_policies :: "ctx \<Rightarrow> platform \<Rightarrow> governance_policy list" where
  "list_policies c g = sort_by (by_policy_name c) (g_policies g)"

record policy_create =
  pc_name :: string
  pc_description :: string
  pc_permission :: string
  pc_conditions :: details
  pc_enabled :: bool

definition create_policy ::
  "policy_create \<Rightarrow> ctx \<Rightarrow> principal \<Rightarrow> platform \<Rightarrow> app_error + governance_policy \<times> platform" where
  "create_policy payload c p g =
     bindE (validate_permission_name (pc_permission payload)) (\<lambda>_.
     bindE (validate_conditions (pc_conditions payload)) (\<lambda>_.
       if pc_name payload \<in> gp_name ` set (g_policies g) then Inl (AppError ''POLICY_EXISTS'' 409)
       else (let (fresh, w1) = uuid4 c (g_db g);
                 row = \<lparr>gp_id = fresh, gp_name = pc_name payload, gp_description = pc_description payload,
                        gp_effect = ''DENY'', gp_permission = pc_permission payload,
                        gp_conditions = pc_conditions payload, gp_enabled = pc_enabled payload\<rparr>
             in if fresh \<in> gp_id ` set (g_policies g) then Inl IntegrityError
                else Inr (row, mutation_audit c ''GOVERNANCE_POLICY_CREATED'' ''policy'' fresh p
                  [(''name'', JStr (pc_name payload)), (''permission'', JStr (pc_permission payload)),
                   (''conditions'', JObj (pc_conditions payload))]
                  (g\<lparr>g_db := w1, g_policies := g_policies g @ [row]\<rparr>)))))"

record policy_update =
  pu_name :: "string option"
  pu_description :: "string option"
  pu_permission :: "string option"
  pu_conditions :: "details option"
  pu_enabled :: "bool option"

definition patch :: "'a option \<Rightarrow> 'a \<Rightarrow> 'a" where
  "patch new old = (case new of None \<Rightarrow> old | Some v \<Rightarrow> v)"

definition update_policy ::
  "uuid \<Rightarrow> policy_update \<Rightarrow> ctx \<Rightarrow> principal \<Rightarrow> platform \<Rightarrow> app_error + governance_policy \<times> platform" where
  "update_policy k payload c p g =
     bindE (require_policy k g) (\<lambda>row.
       if (case pu_name payload of None \<Rightarrow> False
           | Some n \<Rightarrow> n \<noteq> gp_name row \<and> n \<in> gp_name ` set (g_policies g))
       then Inl (AppError ''POLICY_EXISTS'' 409)
       else bindE (case pu_permission payload of None \<Rightarrow> Inr () | Some n \<Rightarrow> validate_permission_name n) (\<lambda>_.
         bindE (case pu_conditions payload of None \<Rightarrow> Inr () | Some cs \<Rightarrow> validate_conditions cs) (\<lambda>_.
           (let f = (\<lambda>r. r\<lparr>gp_name := patch (pu_name payload) (gp_name r),
                          gp_description := patch (pu_description payload) (gp_description r),
                          gp_permission := patch (pu_permission payload) (gp_permission r),
                          gp_conditions := patch (pu_conditions payload) (gp_conditions r),
                          gp_enabled := patch (pu_enabled payload) (gp_enabled r)\<rparr>)
            in Inr (f row, mutation_audit c ''GOVERNANCE_POLICY_UPDATED'' ''policy'' k p
                 [(''name'', JStr (gp_name (f row))), (''enabled'', JBool (gp_enabled (f row)))]
                 (g\<lparr>g_policies := update_rows gp_id k f (g_policies g)\<rparr>))))))"

definition delete_policy :: "uuid \<Rightarrow> ctx \<Rightarrow> principal \<Rightarrow> platform \<Rightarrow> app_error + unit \<times> platform" where
  "delete_policy k c p g =
     bindE (require_policy k g) (\<lambda>row.
       (let g1 = mutation_audit c ''GOVERNANCE_POLICY_DELETED'' ''policy'' k p
              [(''name'', JStr (gp_name row)), (''permission'', JStr (gp_permission row))] g
        in Inr ((), g1\<lparr>g_policies := filter (\<lambda>r. gp_id r \<noteq> k) (g_policies g1)\<rparr>)))"

definition evaluate_policy ::
  "sec_env \<Rightarrow> string \<Rightarrow> ctx \<Rightarrow> principal \<Rightarrow> platform \<Rightarrow> (app_error + governance_decision) \<times> platform" where
  "evaluate_policy env permission c p g =
     (case validate_permission_name permission of
        Inl e \<Rightarrow> (Inl e, g)
      | Inr _ \<Rightarrow> evaluate c env p permission g)"

section \<open>Change ledger\<close>

definition CHANGE_TRANSITIONS :: "ChangeStatus \<Rightarrow> ChangeStatus list" where
  "CHANGE_TRANSITIONS s =
     (case s of
        CS_DRAFT \<Rightarrow> [CS_SCHEDULED, CS_CANCELLED]
      | CS_SCHEDULED \<Rightarrow> [CS_IN_PROGRESS, CS_CANCELLED]
      | CS_IN_PROGRESS \<Rightarrow> [CS_COMPLETED, CS_CANCELLED]
      | CS_COMPLETED \<Rightarrow> []
      | CS_CANCELLED \<Rightarrow> [])"

definition change_status_value :: "ChangeStatus \<Rightarrow> string" where
  "change_status_value s =
     (case s of CS_DRAFT \<Rightarrow> ''DRAFT'' | CS_SCHEDULED \<Rightarrow> ''SCHEDULED'' | CS_IN_PROGRESS \<Rightarrow> ''IN_PROGRESS''
      | CS_COMPLETED \<Rightarrow> ''COMPLETED'' | CS_CANCELLED \<Rightarrow> ''CANCELLED'')"

definition change_risk_value :: "ChangeRisk \<Rightarrow> string" where
  "change_risk_value r = (case r of CR_LOW \<Rightarrow> ''LOW'' | CR_MEDIUM \<Rightarrow> ''MEDIUM'' | CR_HIGH \<Rightarrow> ''HIGH'')"

definition change_type_value :: "ChangeType \<Rightarrow> string" where
  "change_type_value t =
     (case t of CT_CONFIGURATION \<Rightarrow> ''CONFIGURATION'' | CT_HARDWARE \<Rightarrow> ''HARDWARE'' | CT_PROCEDURE \<Rightarrow> ''PROCEDURE'')"

definition require_change :: "uuid \<Rightarrow> platform \<Rightarrow> app_error + change_record" where
  "require_change k g =
     (case find_row ch_id k (g_changes g) of None \<Rightarrow> Inl (AppError ''CHANGE_NOT_FOUND'' 404) | Some r \<Rightarrow> Inr r)"

definition list_changes ::
  "ChangeStatus option \<Rightarrow> ChangeRisk option \<Rightarrow> ChangeType option \<Rightarrow> nat \<Rightarrow> nat \<Rightarrow> platform \<Rightarrow> change_record list" where
  "list_changes status risk kind limit offset g =
     take limit (drop offset (sort_by (\<lambda>a b. ch_created_at b \<le> ch_created_at a)
       (filter (\<lambda>r. opt_eq status (ch_status r) \<and> opt_eq risk (ch_risk_level r) \<and> opt_eq kind (ch_change_type r))
         (g_changes g))))"

record change_create =
  cc_title :: string
  cc_description :: string
  cc_change_type :: ChangeType
  cc_risk_level :: ChangeRisk
  cc_resource_type :: "string option"
  cc_resource_id :: "string option"

definition create_change ::
  "change_create \<Rightarrow> ctx \<Rightarrow> principal \<Rightarrow> platform \<Rightarrow> app_error + change_record \<times> platform" where
  "create_change payload c p g =
     (let (fresh, w1) = uuid4 c (g_db g); (ts, w2) = utc_now c w1;
          row = \<lparr>ch_id = fresh, ch_title = cc_title payload, ch_description = cc_description payload,
                 ch_change_type = cc_change_type payload, ch_risk_level = cc_risk_level payload,
                 ch_status = CS_DRAFT, ch_resource_type = cc_resource_type payload,
                 ch_resource_id = cc_resource_id payload, ch_requested_by_user_id = Some (pn_user_id p),
                 ch_requested_by_name = Some (pn_username p), ch_scheduled_start = None,
                 ch_scheduled_end = None, ch_created_at = ts\<rparr>
      in if fresh \<in> ch_id ` set (g_changes g) then Inl IntegrityError
         else Inr (row, mutation_audit c ''CHANGE_RECORD_CREATED'' ''change'' fresh p
           [(''title'', JStr (cc_title payload)), (''change_type'', JStr (change_type_value (cc_change_type payload))),
            (''risk_level'', JStr (change_risk_value (cc_risk_level payload)))]
           (g\<lparr>g_db := w2, g_changes := g_changes g @ [row]\<rparr>)))"

record change_update =
  cu_title :: "string option"
  cu_description :: "string option"
  cu_change_type :: "ChangeType option"
  cu_risk_level :: "ChangeRisk option"
  cu_resource_type :: "string option"
  cu_resource_id :: "string option"

definition update_change ::
  "uuid \<Rightarrow> change_update \<Rightarrow> ctx \<Rightarrow> principal \<Rightarrow> platform \<Rightarrow> app_error + change_record \<times> platform" where
  "update_change k payload c p g =
     bindE (require_change k g) (\<lambda>row.
       if ch_status row \<noteq> CS_DRAFT then Inl (AppError ''CHANGE_NOT_EDITABLE'' 409)
       else (let f = (\<lambda>r. r\<lparr>ch_title := patch (cu_title payload) (ch_title r),
                            ch_description := patch (cu_description payload) (ch_description r),
                            ch_change_type := patch (cu_change_type payload) (ch_change_type r),
                            ch_risk_level := patch (cu_risk_level payload) (ch_risk_level r),
                            ch_resource_type := or_else (cu_resource_type payload) (ch_resource_type r),
                            ch_resource_id := or_else (cu_resource_id payload) (ch_resource_id r)\<rparr>)
             in Inr (f row, mutation_audit c ''CHANGE_RECORD_UPDATED'' ''change'' k p []
               (g\<lparr>g_changes := update_rows ch_id k f (g_changes g)\<rparr>))))"

text \<open>
  A window bound of the request is compared with the other one and then stored. A stored bound is
  aware of its zone; comparing it with a naive one raises \<^verbatim>\<open>TypeError\<close>, and a naive one cannot be
  stored.
\<close>

definition window_bound :: "pydatetime option \<Rightarrow> instant option \<Rightarrow> pydatetime option" where
  "window_bound new old = (case new of None \<Rightarrow> map_option Aware old | Some d \<Rightarrow> Some d)"

definition check_window :: "pydatetime option \<Rightarrow> pydatetime option \<Rightarrow> app_error + unit" where
  "check_window start till =
     (case (start, till) of
        (Some (Aware s), Some (Aware e)) \<Rightarrow> guardE (s < e) (AppError ''CHANGE_WINDOW_INVALID'' 422)
      | (Some (Naive s), Some (Naive e)) \<Rightarrow>
          if e \<le> s then Inl (AppError ''CHANGE_WINDOW_INVALID'' 422) else Inl DataError
      | (Some _, Some _) \<Rightarrow> Inl PyTypeError
      | _ \<Rightarrow> Inl (AppError ''CHANGE_WINDOW_REQUIRED'' 422))"

definition transition_change ::
  "uuid \<Rightarrow> ChangeStatus \<Rightarrow> pydatetime option \<Rightarrow> pydatetime option \<Rightarrow> ctx \<Rightarrow> principal \<Rightarrow> platform
    \<Rightarrow> app_error + change_record \<times> platform" where
  "transition_change k target start till c p g =
     bindE (require_change k g) (\<lambda>row.
       if target \<notin> set (CHANGE_TRANSITIONS (ch_status row)) then Inl (AppError ''INVALID_CHANGE_TRANSITION'' 409)
       else if (start \<noteq> None \<or> till \<noteq> None) \<and> \<not> (ch_status row = CS_DRAFT \<and> target = CS_SCHEDULED)
       then Inl (AppError ''INVALID_CHANGE_TRANSITION'' 409)
       else (let start' = window_bound start (ch_scheduled_start row);
                 till' = window_bound till (ch_scheduled_end row) in
             bindE (if target = CS_SCHEDULED then check_window start' till' else Inr ()) (\<lambda>_.
               (let f = (\<lambda>r. r\<lparr>ch_status := target, ch_scheduled_start := instant_of start',
                              ch_scheduled_end := instant_of till'\<rparr>)
                in Inr (f row, mutation_audit c ''CHANGE_RECORD_TRANSITIONED'' ''change'' k p
                     [(''from'', JStr (change_status_value (ch_status row))),
                      (''to'', JStr (change_status_value target))]
                     (g\<lparr>g_changes := update_rows ch_id k f (g_changes g)\<rparr>))))))"

section \<open>Compliance dashboard\<close>

record compliance_dashboard =
  cd_audit_total :: nat
  cd_audit_by_status :: "string \<Rightarrow> nat option"
  cd_security_events :: "string \<Rightarrow> string \<Rightarrow> nat option"
  cd_policies_total :: nat
  cd_policies_enabled :: nat
  cd_policies_disabled :: nat
  cd_policies_invalid :: nat
  cd_changes_total :: nat
  cd_changes_by_status :: "ChangeStatus \<Rightarrow> nat"
  cd_high_risk_open :: nat
  cd_users :: nat
  cd_active_users :: nat
  cd_last_audit_at :: "instant option"

definition OPEN_CHANGE_STATUSES :: "ChangeStatus list" where
  "OPEN_CHANGE_STATUSES = [CS_DRAFT, CS_SCHEDULED, CS_IN_PROGRESS]"

definition window_filters :: "instant \<Rightarrow> instant \<Rightarrow> audit_filters" where
  "window_filters since till =
     \<lparr>f_actor = None, f_action = None, f_actions = None, f_resource = None, f_resource_id = None,
      f_status = None, f_trace_id = None, f_since = Some since, f_until = Some till\<rparr>"

text \<open>The counts per action and status, summed over the actions that occur.\<close>

definition audit_by_status :: "audit_filters \<Rightarrow> world \<Rightarrow> string \<Rightarrow> nat option" where
  "audit_by_status f w status =
     (let actions = remdups (map ae_action (filter (filter_matches f) (w_audit w)));
          counts = List.map_filter (\<lambda>a. audit_summary f w a status) actions
      in if counts = [] then None else Some (sum_list counts))"

definition audit_total :: "audit_filters \<Rightarrow> world \<Rightarrow> nat" where
  "audit_total f w =
     sum_list (List.map_filter (audit_by_status f w)
       (remdups (map ae_status (filter (filter_matches f) (w_audit w)))))"

definition compliance_dashboard_read :: "ctx \<Rightarrow> int \<Rightarrow> platform \<Rightarrow> compliance_dashboard \<times> platform" where
  "compliance_dashboard_read c window_days g =
     (let (now, w) = utc_now c (g_db g);
          since = now - seconds (86400 * window_days);
          f = window_filters since now;
          newest = fst (audit_query f 1 0 w);
          enabled = length (filter gp_enabled (g_policies g))
      in (\<lparr>cd_audit_total = audit_total f w,
           cd_audit_by_status = audit_by_status f w,
           cd_security_events = audit_summary (f\<lparr>f_actions := Some SECURITY_EVENT_ACTIONS\<rparr>) w,
           cd_policies_total = length (g_policies g),
           cd_policies_enabled = enabled,
           cd_policies_disabled = length (g_policies g) - enabled,
           cd_policies_invalid = length (filter (\<lambda>r.
             \<not> fst ` set (gp_conditions r) \<subseteq> set SUPPORTED_CONDITION_KEYS) (g_policies g)),
           cd_changes_total = sum_list (map (\<lambda>s. length (filter (\<lambda>r. ch_status r = s) (g_changes g)))
             [CS_DRAFT, CS_SCHEDULED, CS_IN_PROGRESS, CS_COMPLETED, CS_CANCELLED]),
           cd_changes_by_status = (\<lambda>s. length (filter (\<lambda>r. ch_status r = s) (g_changes g))),
           cd_high_risk_open = length (filter (\<lambda>r. ch_risk_level r = CR_HIGH \<and>
             ch_status r \<in> set OPEN_CHANGE_STATUSES) (g_changes g)),
           cd_users = length (g_users g),
           cd_active_users = length (filter (\<lambda>u. u_status u = USER_ACTIVE) (g_users g)),
           cd_last_audit_at = (case newest of [] \<Rightarrow> None | e # _ \<Rightarrow> Some (ae_timestamp e))\<rparr>,
          g\<lparr>g_db := w\<rparr>))"

end
