(* ===== verification/BoundaryLemmas.thy ===== *)
theory BoundaryLemmas
  imports Boundary
begin

text \<open>
  What the security boundary leaves alone and what it decides: which grant rows a permission comes
  from, when a governance policy refuses, and that a refusal writes one audit row and nothing else.
\<close>

section \<open>What a boundary step may touch\<close>

text \<open>Only the audit trail, the metrics, the streams and the login counters.\<close>

definition same_identity :: "platform \<Rightarrow> platform \<Rightarrow> bool" where
  "same_identity g g' \<longleftrightarrow>
     g' = g\<lparr>g_db := (g_db g)\<lparr>w_audit := w_audit (g_db g'), w_metrics := w_metrics (g_db g'),
              w_uuids := w_uuids (g_db g'), w_ticks := w_ticks (g_db g')\<rparr>,
            g_logins := g_logins g'\<rparr>"

lemma same_identityI:
  assumes "g_users g' = g_users g" "g_roles g' = g_roles g" "g_permissions g' = g_permissions g"
    "g_user_roles g' = g_user_roles g" "g_role_permissions g' = g_role_permissions g"
    "g_organizations g' = g_organizations g" "g_plants g' = g_plants g" "g_areas g' = g_areas g"
    "g_user_scopes g' = g_user_scopes g" "g_device_scopes g' = g_device_scopes g"
    "g_policies g' = g_policies g" "g_changes g' = g_changes g"
    and "g_db g' = (g_db g)\<lparr>w_audit := w_audit (g_db g'), w_metrics := w_metrics (g_db g'),
              w_uuids := w_uuids (g_db g'), w_ticks := w_ticks (g_db g')\<rparr>"
  shows "same_identity g g'"
  unfolding same_identity_def
  by (rule platform.equality) (use assms in simp_all)

definition quiet_world :: "world \<Rightarrow> world \<Rightarrow> bool" where
  "quiet_world w w' \<longleftrightarrow> (\<exists>m u t. w' = w\<lparr>w_metrics := m, w_uuids := u, w_ticks := t\<rparr>)"

text \<open>
  The contract of a step that only counts and draws: it is reflexive and transitive, and it keeps the
  tables.
\<close>

lemma quiet_world_refl [simp, intro]: "quiet_world w w"
  unfolding quiet_world_def by (rule exI [of _ "w_metrics w"], rule exI [of _ "w_uuids w"], rule exI [of _ "w_ticks w"]) simp

lemma quiet_world_trans: "quiet_world u v \<Longrightarrow> quiet_world v w \<Longrightarrow> quiet_world u w"
  unfolding quiet_world_def by (elim exE, simp, blast)

lemma quiet_world_steps [simp]:
  "quiet_world w (inc_metric n l w)" "quiet_world w (snd (utc_now c w))" "quiet_world w (snd (uuid4 c w))"
  unfolding quiet_world_def inc_metric_def utc_now_def uuid4_def
  by (rule exI [of _ "w_metrics w @ [(n, l)]"], rule exI [of _ "w_uuids w"], rule exI [of _ "w_ticks w"], simp,
      rule exI [of _ "w_metrics w"], rule exI [of _ "w_uuids w"], rule exI [of _ "Suc (w_ticks w)"], simp,
      rule exI [of _ "w_metrics w"], rule exI [of _ "Suc (w_uuids w)"], rule exI [of _ "w_ticks w"], simp)

lemma quiet_world_audit: "quiet_world w w' \<Longrightarrow> w_audit w' = w_audit w"
  by (auto simp: quiet_world_def)

text \<open>The boundary up to its decision: the database is only counted on and drawn from.\<close>

definition quiet :: "platform \<Rightarrow> platform \<Rightarrow> bool" where
  "quiet g g' \<longleftrightarrow> (\<exists>w. g' = g\<lparr>g_db := w\<rparr> \<and> quiet_world (g_db g) w)"

lemma quiet_refl [simp, intro]: "quiet g g"
  unfolding quiet_def by (rule exI [of _ "g_db g"]) simp

lemma quiet_trans: "quiet f g \<Longrightarrow> quiet g h \<Longrightarrow> quiet f h"
  unfolding quiet_def by (elim exE conjE, simp, blast intro: quiet_world_trans)

lemma quiet_db: "quiet_world (g_db g) w \<Longrightarrow> quiet g (g\<lparr>g_db := w\<rparr>)"
  by (auto simp: quiet_def)

lemma quiet_same_identity: "quiet g g' \<Longrightarrow> same_identity g g'"
  by (auto simp: quiet_def quiet_world_def intro: same_identityI)

lemma quiet_audit: "quiet g g' \<Longrightarrow> w_audit (g_db g') = w_audit (g_db g)"
  by (auto simp: quiet_def dest: quiet_world_audit)

lemma quiet_tables:
  assumes "quiet g g'"
  shows "g_users g' = g_users g" "g_roles g' = g_roles g" "g_permissions g' = g_permissions g"
    "g_user_roles g' = g_user_roles g" "g_role_permissions g' = g_role_permissions g"
    "g_policies g' = g_policies g"
  using assms by (auto simp: quiet_def)

lemma security_event_after:
  assumes "quiet g g1"
  shows "same_identity g (record_security_event c ctxt act res rid st ds ac uid g1) \<and>
    (\<exists>a. w_audit (g_db (record_security_event c ctxt act res rid st ds ac uid g1)) = w_audit (g_db g) @ [a] \<and>
       ae_action a = act \<and> ae_resource a = res \<and> ae_status a = st \<and>
       (\<forall>k. uid = Some k \<longrightarrow> ae_actor_user_id a = Some k))"
proof -
  obtain w m u t where g1: "g1 = g\<lparr>g_db := w\<rparr>" and w: "w = (g_db g)\<lparr>w_metrics := m, w_uuids := u, w_ticks := t\<rparr>"
    using assms by (auto simp: quiet_def quiet_world_def)
  let ?g2 = "record_security_event c ctxt act res rid st ds ac uid g1"
  have "same_identity g ?g2"
    by (rule same_identityI)
       (simp_all add: record_security_event_def on_world_def Let_def g1 w audit_add_def uuid4_def utc_now_def)
  then show ?thesis
    by (simp add: record_security_event_def on_world_def Let_def g1 w audit_add_audit audit_event_of_def
        or_else_def split: option.splits)
qed

section \<open>Grants\<close>

text \<open>A permission a user holds through the rows of the role tables.\<close>

definition granted :: "uuid \<Rightarrow> string \<Rightarrow> platform \<Rightarrow> bool" where
  "granted user_id permission g \<longleftrightarrow>
     (\<exists>role_id row. (user_id, role_id) \<in> set (g_user_roles g) \<and> row \<in> set (g_permissions g) \<and>
        (role_id, pe_id row) \<in> set (g_role_permissions g) \<and> pe_name row = permission)"

lemma permissions_for_user_iff: "permission \<in> permissions_for_user user_id g \<longleftrightarrow> granted user_id permission g"
  by (auto simp: permissions_for_user_def granted_def list_ex_iff)

lemma has_permission_granted:
  "has_permission (principal_for c u g) permission \<longleftrightarrow>
     granted (u_id u) WILDCARD g \<or> granted (u_id u) permission g"
  by (simp add: has_permission_def principal_for_def permissions_for_user_iff)

section \<open>Policies\<close>

text \<open>A policy refuses a request when it has conditions and every one of them holds.\<close>

definition refuses :: "governance_policy \<Rightarrow> principal \<Rightarrow> instant \<Rightarrow> bool" where
  "refuses gp p now \<longleftrightarrow>
     gp_conditions gp \<noteq> [] \<and> (\<forall>kv \<in> set (gp_conditions gp). condition_verdict p now kv = Holds)"

definition applies :: "string \<Rightarrow> governance_policy \<Rightarrow> bool" where
  "applies permission gp \<longleftrightarrow> gp_enabled gp \<and> gp_permission gp = permission \<and> gp_effect gp = ''DENY''"

lemma conditions_loop_result:
  "conditions_loop p now kvs w = (r, w') \<Longrightarrow> quiet_world w w' \<and>
    (r = Inr True \<longleftrightarrow> (\<forall>kv \<in> set kvs. condition_verdict p now kv = Holds)) \<and>
    ((\<exists>e. r = Inl e) \<longrightarrow> (\<exists>kv \<in> set kvs. condition_verdict p now kv = Raises))"
  by (induction kvs) (auto split: verdict.splits)

lemma conditions_match_result:
  "conditions_match (gp_conditions gp) p now w = (r, w') \<Longrightarrow>
    quiet_world w w' \<and> (r = Inr True \<longleftrightarrow> refuses gp p now)"
  by (auto simp: conditions_match_def refuses_def dest: conditions_loop_result split: if_splits)

lemma evaluate_loop_result:
  "evaluate_loop p now gps w = (r, w') \<Longrightarrow> quiet_world w w' \<and>
    (case r of Inl _ \<Rightarrow> True
     | Inr d \<Rightarrow> gd_allowed d \<longleftrightarrow> (\<forall>gp \<in> set gps. \<not> refuses gp p now))"
proof (induction gps arbitrary: w)
  case Nil
  then show ?case by auto
next
  case (Cons gp gps)
  obtain r1 w1 where m: "conditions_match (gp_conditions gp) p now w = (r1, w1)" by fastforce
  note one = conditions_match_result [OF m]
  consider e where "r1 = Inl e" | "r1 = Inr True" | "r1 = Inr False"
    by (metis (full_types) obj_sumE)
  then show ?case
  proof cases
    case 3
    then have "evaluate_loop p now gps w1 = (r, w')" using Cons.prems m by simp
    from Cons.IH [OF this] one 3 show ?thesis by (auto intro: quiet_world_trans split: sum.splits)
  qed (use Cons.prems m one in auto)
qed

lemma evaluate_result:
  assumes "evaluate c env p permission g = (r, g')"
  shows "quiet g g' \<and>
    (case r of Inl e \<Rightarrow> e = GOVERNANCE_UNAVAILABLE
     | Inr d \<Rightarrow> gd_allowed d \<longleftrightarrow>
         (\<forall>gp \<in> set (g_policies g). applies permission gp \<longrightarrow> \<not> refuses gp p (c_clock c (w_ticks (g_db g)))))"
proof -
  let ?w1 = "snd (utc_now c (g_db g))" and ?now = "fst (utc_now c (g_db g))"
  obtain r1 w2 where ev: "evaluate_loop p ?now (enabled_deny_policies c permission g) ?w1 = (r1, w2)" by fastforce
  from evaluate_loop_result [OF ev] have w2: "quiet_world ?w1 w2"
    and d: "case r1 of Inl _ \<Rightarrow> True | Inr d \<Rightarrow> gd_allowed d \<longleftrightarrow>
       (\<forall>gp \<in> set (enabled_deny_policies c permission g). \<not> refuses gp p ?now)" by auto
  have q: "quiet_world (g_db g) ?w1" "quiet_world (g_db g) w2"
    "quiet_world (g_db g) (inc_metric n l ?w1)" "quiet_world (g_db g) (inc_metric n l w2)" for n l
    using w2 by (meson quiet_world_steps quiet_world_trans)+
  have "set (enabled_deny_policies c permission g) = {gp \<in> set (g_policies g). applies permission gp}"
    by (auto simp: enabled_deny_policies_def applies_def)
  with assms ev d q show ?thesis
    by (auto simp: evaluate_def Let_def case_prod_unfold quiet_db utc_now_def split: if_splits sum.splits)
qed

end
