(* ===== verification/BoundaryProps.thy ===== *)
theory BoundaryProps
  imports BoundaryLemmas
begin

text \<open>
  Properties of the security boundary: who is let through and what a refusal leaves behind, what
  registration can grant, how long a token lasts and what the login rate limit does.
\<close>

section \<open>The permission check\<close>

lemma as_datetime_error: "as_datetime x = Inl e \<Longrightarrow> e = PyValueError \<or> e = invalid_token"
  by (auto simp: as_datetime_def datetime_range_def invalid_token_def
      split: option.splits json.splits pyfloat.splits if_splits)

lemma token_claims_error: "token_claims env token secret = Inl e \<Longrightarrow> e = PyValueError \<or> e = invalid_token"
proof -
  have "verified_payload env token secret = Inl e' \<Longrightarrow> e' = invalid_token" for e'
    by (auto simp: verified_payload_def bindE_Inl_iff split: option.splits json.splits)
  moreover have "token_subject payload = Inl e' \<Longrightarrow> e' = invalid_token" for e' payload
    by (auto simp: token_subject_def split: option.splits json.splits if_splits)
  ultimately show "token_claims env token secret = Inl e \<Longrightarrow> ?thesis"
    by (auto simp: token_claims_def bindE_Inl_iff dest: as_datetime_error)
qed

lemma decode_result:
  assumes "decode_access_token c env token secret w = (r, w')"
  shows "quiet_world w w' \<and> (case r of Inl e \<Rightarrow> error_status_code e \<in> {401, 500} | Inr cl \<Rightarrow> w' = snd (utc_now c w))"
proof (cases "token_claims env token secret")
  case (Inl e)
  with assms have "r = Inl e" "w' = w" by (simp_all add: decode_access_token_def)
  with token_claims_error [OF Inl] show ?thesis by (auto simp: invalid_token_def)
next
  case (Inr cl)
  have "w' = snd (utc_now c w)" "r = Inl (AppError ''TOKEN_EXPIRED'' 401) \<or> r = Inr cl"
    using assms by (auto simp: decode_access_token_def Inr utc_now_def split: if_splits)
  then show ?thesis by auto
qed

lemma boundary_entry:
  "bearer_token h = Inl e \<Longrightarrow> e = invalid_token"
  "signing_secret env = Inl e \<Longrightarrow> e = AppError ''SECURITY_NOT_CONFIGURED'' 503"
  by (auto simp: bearer_token_def invalid_token_def signing_secret_def Let_def split: option.splits list.splits if_splits)

lemma get_principal_result:
  assumes "get_principal c env rq g = (r, g')"
  shows "quiet g g' \<and> (case r of
      Inl e \<Rightarrow> error_status_code e \<in> {401, 500, 503}
    | Inr (p, c') \<Rightarrow> \<exists>u \<in> set (g_users g). u_status u = USER_ACTIVE \<and> p = principal_for c u g \<and>
        c' = c\<lparr>c_security := Some (published rq u)\<rparr> \<and> w_ticks (g_db g') = Suc (w_ticks (g_db g)))"
proof -
  consider e where "bearer_token (rq_authorization rq) = Inl e" | "bearer_token (rq_authorization rq) = Inr []"
    | token e where "bearer_token (rq_authorization rq) = Inr token" "token \<noteq> []" "signing_secret env = Inl e"
    | token secret where "bearer_token (rq_authorization rq) = Inr token" "token \<noteq> []" "signing_secret env = Inr secret"
    by (metis obj_sumE)
  then show ?thesis
  proof cases
    case 1
    with assms boundary_entry(1) [OF 1] show ?thesis by (auto simp: get_principal_def invalid_token_def)
  next
    case 2
    with assms show ?thesis by (auto simp: get_principal_def)
  next
    case 3
    with assms boundary_entry(2) [OF 3(3)] show ?thesis by (auto simp: get_principal_def)
  next
    case (4 token secret)
    obtain r1 w1 where d: "decode_access_token c env token secret (g_db g) = (r1, w1)" by fastforce
    note dec = decode_result [OF d]
    then have q: "quiet g (g\<lparr>g_db := w1\<rparr>)" by (simp add: quiet_db)
    show ?thesis
    proof (cases r1)
      case (Inl e)
      with assms 4 d dec q show ?thesis by (auto simp: get_principal_def)
    next
      case (Inr cl)
      then have w1: "w1 = snd (utc_now c (g_db g))" using dec by simp
      have pf: "principal_for c u (g\<lparr>g_db := w1\<rparr>) = principal_for c u g" for u
        by (simp add: principal_for_def names_for_user_def permissions_for_user_def)
      have ug: "user_get k (g\<lparr>g_db := w1\<rparr>) = find_row u_id k (g_users g)" for k by (simp add: user_get_def)
      have ticks: "w_ticks w1 = Suc (w_ticks (g_db g))" by (simp add: w1 utc_now_def)
      show ?thesis
      proof (cases "find_row u_id (cl_user_id cl) (g_users g)")
        case None
        with assms 4 d Inr q ug show ?thesis by (auto simp: get_principal_def Let_def)
      next
        case (Some u)
        from assms 4 d Inr have "(r, g') = (if u_status u \<noteq> USER_ACTIVE then (Inl (AppError ''ACCOUNT_DISABLED'' 401), g\<lparr>g_db := w1\<rparr>)
            else (Inr (principal_for c u g, c\<lparr>c_security := Some (published rq u)\<rparr>), g\<lparr>g_db := w1\<rparr>))"
          by (auto simp: get_principal_def Let_def ug Some pf split: if_splits)
        with q ticks find_row_Some [OF Some] show ?thesis by (auto split: if_splits)
      qed
    qed
  qed
qed


section \<open>Login rate limit\<close>

definition at_time :: "instant \<Rightarrow> sec_env \<Rightarrow> sec_env" where
  "at_time t env = env\<lparr>se_redis := (se_redis env)\<lparr>re_now := t\<rparr>\<rparr>"

definition redis_up :: "sec_env \<Rightarrow> bool" where
  "redis_up env \<longleftrightarrow> re_get (se_redis env) \<and> re_incr (se_redis env) \<and> re_expire (se_redis env) \<and> re_delete (se_redis env)"

text \<open>A run of failed logins from one origin, at the given times.\<close>

definition failures :: "sec_env \<Rightarrow> string \<Rightarrow> instant list \<Rightarrow> platform \<Rightarrow> platform" where
  "failures env origin ts g = foldl (\<lambda>g t. register_failure (at_time t env) origin g) g ts"

lemma at_time_simps [simp]:
  "re_now (se_redis (at_time t env)) = t" "re_get (se_redis (at_time t env)) = re_get (se_redis env)"
  "re_incr (se_redis (at_time t env)) = re_incr (se_redis env)" "re_expire (se_redis (at_time t env)) = re_expire (se_redis env)"
  "re_delete (se_redis (at_time t env)) = re_delete (se_redis env)" "se_limit (at_time t env) = se_limit env"
  "se_window (at_time t env) = se_window env" "se_secret (at_time t env) = se_secret env"
  by (simp_all add: at_time_def)

lemma map_of_set_counter [simp]:
  "map_of (g_logins (set_counter i k g)) i = k"
  "j \<noteq> i \<Longrightarrow> map_of (g_logins (set_counter i k g)) j = map_of (g_logins g) j"
proof -
  have "map_of (filter (\<lambda>(x, _). x \<noteq> i) m) i = None" for m :: "(string \<times> login_counter) list" by (induction m) auto
  moreover have "j \<noteq> i \<Longrightarrow> map_of (filter (\<lambda>(x, _). x \<noteq> i) m) j = map_of m j" for m :: "(string \<times> login_counter) list"
    by (induction m) auto
  ultimately show "map_of (g_logins (set_counter i k g)) i = k"
    "j \<noteq> i \<Longrightarrow> map_of (g_logins (set_counter i k g)) j = map_of (g_logins g) j"
    by (auto simp: set_counter_def split: option.splits)
qed

text \<open>The counter an origin holds: a count and an expiry that the later failures do not move.\<close>

lemma failures_count:
  assumes "re_incr (se_redis env)" and "map_of (g_logins g) origin = Some \<lparr>lc_count = n, lc_expires = ex\<rparr>" and "1 \<le> n"
    and "\<forall>t \<in> set ts. \<forall>x. ex = Some x \<longrightarrow> t < x"
  shows "map_of (g_logins (failures env origin ts g)) origin = Some \<lparr>lc_count = n + int (length ts), lc_expires = ex\<rparr>"
  using assms(2-4)
proof (induction ts arbitrary: g n)
  case Nil
  then show ?case by (simp add: failures_def)
next
  case (Cons t ts)
  have live: "live_counter t origin g = Some \<lparr>lc_count = n, lc_expires = ex\<rparr>"
    using Cons.prems by (simp add: live_counter_def split: option.splits)
  have "map_of (g_logins (register_failure (at_time t env) origin g)) origin = Some \<lparr>lc_count = n + 1, lc_expires = ex\<rparr>"
    using assms(1) Cons.prems(2) by (simp add: register_failure_def live Let_def)
  from Cons.IH [OF this] Cons.prems show ?case by (simp add: failures_def add.assoc)
qed

lemma login_limited:
  assumes "re_get (se_redis env)" and "signing_secret env = Inr secret"
    and "live_counter (re_now (se_redis env)) (client_ip rq) g = Some k" and "se_limit env \<le> lc_count k"
  shows "login c env rq username password g = (Inl (AppError ''LOGIN_RATE_LIMITED'' 429), g)"
  using assms by (simp add: login_def Let_def limiter_check_def guardE_def failure_count_def)

text \<open>
  While Redis answers, an origin whose failed logins all fall within one window of the
  first is cut off exactly from the configured number of failures on: every further login in that
  window is answered 429, whatever the credentials, with no verification and no change of state. When
  the window that the first failure opened has passed, the counter is gone.
\<close>

theorem rate_limit_exact:
  assumes up: "redis_up env" and conf: "signing_secret env = Inr secret" and win: "0 < se_window env"
    and first: "live_counter t0 origin g = None" and ts: "\<forall>t \<in> set ts. t < t0 + seconds (se_window env)"
  defines "g' \<equiv> failures env origin (t0 # ts) g"
  shows "(t < t0 + seconds (se_window env) \<longrightarrow> failure_count (at_time t env) origin g' = 1 + int (length ts)) \<and>
    (t0 + seconds (se_window env) \<le> t \<longrightarrow> failure_count (at_time t env) origin g' = 0) \<and>
    (t < t0 + seconds (se_window env) \<longrightarrow> se_limit env \<le> 1 + int (length ts) \<longrightarrow> client_ip rq = origin \<longrightarrow>
       login c (at_time t env) rq username password g' = (Inl (AppError ''LOGIN_RATE_LIMITED'' 429), g'))"
proof -
  let ?x = "t0 + seconds (se_window env)"
  have "map_of (g_logins (register_failure (at_time t0 env) origin g)) origin = Some \<lparr>lc_count = 1, lc_expires = Some ?x\<rparr>"
    using up win first by (simp add: register_failure_def Let_def redis_up_def)
  from failures_count [OF _ this, of env ts] up ts
  have m: "map_of (g_logins g') origin = Some \<lparr>lc_count = 1 + int (length ts), lc_expires = Some ?x\<rparr>"
    by (simp add: g'_def failures_def redis_up_def)
  have live: "live_counter t origin g' = (if t < ?x then Some \<lparr>lc_count = 1 + int (length ts), lc_expires = Some ?x\<rparr> else None)"
    by (simp add: live_counter_def m)
  have conf': "signing_secret (at_time t env) = Inr secret" using conf by (simp add: signing_secret_def)
  show ?thesis
    using up live by (auto simp: failure_count_def redis_up_def intro!: login_limited [OF _ conf'])
qed

text \<open>
  The count and its expiry are two commands. When the first failure of an origin is counted
  and its expiry is not set, the counter never expires: once the configured number of failures is
  reached, the origin is refused at every later time, and no successful login can reset it.
\<close>

theorem lockout_without_expiry:
  assumes up: "re_get (se_redis env)" "re_incr (se_redis env)" and conf: "signing_secret env = Inr secret"
    and lost: "\<not> re_expire (se_redis env')" "re_incr (se_redis env')"
    and first: "live_counter (re_now (se_redis env')) (client_ip rq) g = None" and enough: "se_limit env \<le> 1 + int (length ts)"
  shows "login c (at_time t env) rq username password (failures env (client_ip rq) ts (register_failure env' (client_ip rq) g)) =
    (Inl (AppError ''LOGIN_RATE_LIMITED'' 429), failures env (client_ip rq) ts (register_failure env' (client_ip rq) g))"
proof -
  have "map_of (g_logins (register_failure env' (client_ip rq) g)) (client_ip rq) = Some \<lparr>lc_count = 1, lc_expires = None\<rparr>"
    using lost first by (simp add: register_failure_def Let_def)
  from failures_count [OF up(2) this, of ts]
  have m: "map_of (g_logins (failures env (client_ip rq) ts (register_failure env' (client_ip rq) g))) (client_ip rq) =
      Some \<lparr>lc_count = 1 + int (length ts), lc_expires = None\<rparr>" by simp
  have conf': "signing_secret (at_time t env) = Inr secret" using conf by (simp add: signing_secret_def)
  show ?thesis
    by (rule login_limited [OF _ conf', where k = "\<lparr>lc_count = 1 + int (length ts), lc_expires = None\<rparr>"]) (use up m enough in \<open>simp_all add: live_counter_def\<close>)
qed

section \<open>Tokens\<close>

lemma py_strip_id: "s \<noteq> [] \<Longrightarrow> \<not> py_isspace (hd s) \<Longrightarrow> \<not> py_isspace (last s) \<Longrightarrow> py_strip s = s"
proof -
  assume s: "s \<noteq> []" "\<not> py_isspace (hd s)" "\<not> py_isspace (last s)"
  have "dropWhile py_isspace s = s" using s by (cases s) auto
  moreover have "dropWhile py_isspace (rev s) = rev s" using s by (cases s rule: rev_cases) auto
  ultimately show "py_strip s = s" by (simp add: py_strip_def)
qed

lemma take_append_exact: "length xs = n \<Longrightarrow> take n (xs @ ys) = xs"
  by simp

lemma bearer_token_bearer:
  assumes "t \<noteq> []" and "\<forall>ch \<in> set t. \<not> py_isspace ch"
  shows "bearer_token (Some (''Bearer '' @ t)) = Inr t"
proof -
  have "py_strip (''Bearer '' @ t) = ''Bearer '' @ t"
    by (rule py_strip_id) (use assms in \<open>simp_all add: py_isspace_def\<close>)
  moreover have "py_strip t = t" by (rule py_strip_id) (use assms in auto)
  moreover have "take 7 (py_lower (''Bearer '' @ t)) = ''bearer ''"
    unfolding py_lower_def map_append by (rule trans [OF take_append_exact]) code_simp+
  ultimately show ?thesis by (simp add: bearer_token_def)
qed

lemma epoch_range:
  assumes "0 \<le> t" and "t < seconds 253402300800"
  shows "as_datetime (Some (JInt (epoch_seconds t))) = Inr (seconds (t div 1000000))"
proof -
  let ?s = "seconds (t div 1000000)"
  have "0 \<le> ?s" using assms(1) by (simp add: seconds_def pos_imp_zdiv_nonneg_iff)
  moreover have "?s \<le> t"
    unfolding seconds_def using pos_mod_sign [of 1000000 t] minus_mod_eq_div_mult [of t 1000000] by linarith
  ultimately have "datetime_range ?s = Inr ?s" using assms(2) by (simp add: datetime_range_def seconds_def)
  then show ?thesis using assms(1) by (simp add: as_datetime_def epoch_seconds_def)
qed

text \<open>
  C26 (roundtrip). The token of a successful login authenticates its bearer: any later request that
  carries it is that user with the authority the role tables grant at that moment, as long as the user
  is stored and active and the clock is before the second in which the token expires; from that second on it
  is refused as expired. The library is assumed to verify what it signed, to sign into text without
  white space, and the user's id to be canonical.
\<close>

theorem login_token_authenticates:
  assumes run: "login c env rq username password g = (Inr resp, g1)" and conf: "signing_secret env = Inr secret"
    and sent: "rq_authorization rq' = Some (''Bearer '' @ it_token (tr_token resp))"
    and opaque: "it_token (tr_token resp) \<noteq> []" "\<forall>ch \<in> set (it_token (tr_token resp)). \<not> py_isspace ch"
    and jwt: "\<And>tid. se_jwt_encode env (token_payload (tr_user_id resp) (tr_username resp) (tr_roles resp) tid
          (it_issued_at (tr_token resp)) (it_expires_at (tr_token resp))) secret = it_token (tr_token resp) \<Longrightarrow>
        se_jwt_decode env (it_token (tr_token resp)) secret =
          Some (JObj (token_payload (tr_user_id resp) (tr_username resp) (tr_roles resp) tid
          (it_issued_at (tr_token resp)) (it_expires_at (tr_token resp))))"
    and user: "py_uuid (tr_user_id resp) = Some (tr_user_id resp)"
      "find_row u_id (tr_user_id resp) (g_users g2) = Some u" "u_status u = USER_ACTIVE"
    and times: "0 \<le> it_issued_at (tr_token resp)" "0 \<le> se_ttl env" "it_expires_at (tr_token resp) < seconds 253402300800"
  shows "fst (get_principal c2 env rq' g2) =
    (if c_clock c2 (w_ticks (g_db g2)) < seconds (it_expires_at (tr_token resp) div 1000000)
     then Inr (principal_for c2 u g2, c2\<lparr>c_security := Some (published rq' u)\<rparr>)
     else Inl (AppError ''TOKEN_EXPIRED'' 401))"
proof -
  let ?it = "tr_token resp"
  let ?P = "\<lambda>tid. token_payload (tr_user_id resp) (tr_username resp) (tr_roles resp) tid (it_issued_at ?it) (it_expires_at ?it)"
  obtain tid where enc: "it_token ?it = se_jwt_encode env (?P tid) secret" and ex: "it_expires_at ?it = it_issued_at ?it + seconds (se_ttl env)"
    using run conf
    by (auto simp: login_def Let_def create_access_token_def case_prod_unfold split: sum.splits)
  have dec: "se_jwt_decode env (it_token ?it) secret = Some (JObj (?P tid))" by (rule jwt) (simp add: enc)
  have "0 \<le> it_expires_at ?it" "it_issued_at ?it \<le> it_expires_at ?it" using times(1,2) by (simp_all add: ex seconds_def)
  then have dt: "as_datetime (Some (JInt (epoch_seconds (it_expires_at ?it)))) = Inr (seconds (it_expires_at ?it div 1000000))"
    "as_datetime (Some (JInt (epoch_seconds (it_issued_at ?it)))) = Inr (seconds (it_issued_at ?it div 1000000))"
    using times by (auto intro: epoch_range)
  have ne: "tr_user_id resp \<noteq> []" using user(1) by (auto simp: py_uuid_def Let_def strip_braces_def)
  have claims: "token_claims env (it_token ?it) secret =
      Inr (claims_of (?P tid) (tr_user_id resp) (seconds (it_issued_at ?it div 1000000)) (seconds (it_expires_at ?it div 1000000)))"
    using ne user(1) by (simp add: token_claims_def verified_payload_def dec token_subject_def token_payload_def dt)
  have pf: "principal_for c2 u (g2\<lparr>g_db := w\<rparr>) = principal_for c2 u g2" for w
    by (simp add: principal_for_def names_for_user_def permissions_for_user_def)
  show ?thesis
    using bearer_token_bearer [OF opaque] user
    by (simp add: get_principal_def sent conf opaque decode_access_token_def claims claims_of_def utc_now_def user_get_def pf Let_def)
qed

section \<open>Registration\<close>

text \<open>The permissions a role grants.\<close>

definition role_grants :: "string \<Rightarrow> platform \<Rightarrow> string set" where
  "role_grants name g = {permission. \<exists>r row. r \<in> set (g_roles g) \<and> ro_name r = name \<and> row \<in> set (g_permissions g) \<and>
     (ro_id r, pe_id row) \<in> set (g_role_permissions g) \<and> pe_name row = permission}"

lemma get_optional_quiet:
  assumes "get_optional_principal c env rq g = (r, g')"
  shows "quiet g g'"
  using assms get_principal_result by (fastforce simp: get_optional_principal_def split: if_splits sum.splits prod.splits)

lemma assign_fold:
  assumes "foldE (assign k) g rs = Inr g'"
  shows "\<exists>ps. g' = g\<lparr>g_user_roles := g_user_roles g @ ps\<rparr> \<and>
    (\<forall>j rid. (j, rid) \<in> set (g_user_roles g') \<longleftrightarrow> (j, rid) \<in> set (g_user_roles g) \<or>
       j = k \<and> (\<exists>r \<in> set rs. map_option ro_id (get_by_name r g) = Some rid))"
  using assms
proof (induction rs arbitrary: g)
  case Nil
  then show ?case by (intro exI [of _ "[]"]) simp
next
  case (Cons r rs)
  obtain g1 where one: "assign k g r = Inr g1" and rest: "foldE (assign k) g1 rs = Inr g'"
    using Cons.prems by (auto simp: bindE_Inr_iff)
  then obtain ro where ro: "get_by_name r g = Some ro" by (auto simp: assign_def split: option.splits)
  define ps where "ps = (if (k, ro_id ro) \<in> set (g_user_roles g) then [] else [(k, ro_id ro)])"
  have g1: "g1 = g\<lparr>g_user_roles := g_user_roles g @ ps\<rparr>" using one ro by (auto simp: assign_def ps_def)
  have gb: "get_by_name x g1 = get_by_name x g" for x by (simp add: get_by_name_def g1)
  obtain qs where "g' = g1\<lparr>g_user_roles := g_user_roles g1 @ qs\<rparr>" and
    mem: "\<forall>j rid. (j, rid) \<in> set (g_user_roles g') \<longleftrightarrow> (j, rid) \<in> set (g_user_roles g1) \<or>
       j = k \<and> (\<exists>r \<in> set rs. map_option ro_id (get_by_name r g) = Some rid)"
    using Cons.IH [OF rest] by (auto simp: gb)
  then have "g' = g\<lparr>g_user_roles := g_user_roles g @ (ps @ qs)\<rparr>" by (simp add: g1)
  moreover have "(j, rid) \<in> set (g_user_roles g1) \<longleftrightarrow> (j, rid) \<in> set (g_user_roles g) \<or> j = k \<and> rid = ro_id ro" for j rid
    by (auto simp: g1 ps_def)
  ultimately show ?case using mem ro by (intro exI [of _ "ps @ qs"]) auto
qed

lemma register_user_Inr:
  assumes "register_user c env username password email roles g = Inr (u, g')"
  shows "u_id u \<notin> u_id ` set (g_users g) \<and> u_username u \<notin> u_username ` set (g_users g) \<and>
    u_username u = normalize_username (normalize_username username) \<and> u_status u = USER_ACTIVE \<and>
    g_users g' = g_users g @ [u] \<and> g_roles g' = g_roles g \<and> g_permissions g' = g_permissions g \<and>
    g_role_permissions g' = g_role_permissions g \<and>
    (\<forall>j rid. (j, rid) \<in> set (g_user_roles g') \<longleftrightarrow> (j, rid) \<in> set (g_user_roles g) \<or>
       j = u_id u \<and> (\<exists>r \<in> set (case roles of None \<Rightarrow> [DEFAULT_REGISTRATION_ROLE] | Some rs \<Rightarrow> rs).
          map_option ro_id (get_by_name r g) = Some rid))"
proof -
  obtain g1 where cr: "create_user c (normalize_username username) (se_hashpw env password) email g = Inr (u, g1)"
    and asn: "foldE (assign (u_id u)) g1 (case roles of None \<Rightarrow> [DEFAULT_REGISTRATION_ROLE] | Some rs \<Rightarrow> rs) = Inr g'"
    using assms by (auto simp: register_user_def Let_def bindE_Inr_iff split: if_splits)
  from cr have g1: "g_users g1 = g_users g @ [u]" "g_roles g1 = g_roles g" "g_permissions g1 = g_permissions g"
    "g_role_permissions g1 = g_role_permissions g" "g_user_roles g1 = g_user_roles g"
    and u: "u_id u \<notin> u_id ` set (g_users g)" "u_username u \<notin> u_username ` set (g_users g)"
    "u_username u = normalize_username (normalize_username username)" "u_status u = USER_ACTIVE"
    by (auto simp: create_user_def Let_def uuid4_def split: if_splits)
  have "get_by_name r g1 = get_by_name r g" for r by (simp add: get_by_name_def g1)
  with assign_fold [OF asn] g1 u show ?thesis by auto
qed

lemma permissions_depend:
  assumes "g_permissions g' = g_permissions g" "g_role_permissions g' = g_role_permissions g"
    and "\<forall>rid. (k, rid) \<in> set (g_user_roles g') \<longleftrightarrow> (k, rid) \<in> set (g_user_roles g)"
  shows "permissions_for_user k g' = permissions_for_user k g"
  using assms by (auto simp: permissions_for_user_def list_ex_iff)

lemma event_tables:
  "g_users (record_security_event c ctxt act res rid st ds ac uid g) = g_users g"
  "g_roles (record_security_event c ctxt act res rid st ds ac uid g) = g_roles g"
  "g_permissions (record_security_event c ctxt act res rid st ds ac uid g) = g_permissions g"
  "g_user_roles (record_security_event c ctxt act res rid st ds ac uid g) = g_user_roles g"
  "g_role_permissions (record_security_event c ctxt act res rid st ds ac uid g) = g_role_permissions g"
  by (simp_all add: record_security_event_def on_world_def Let_def)

lemma viewer_upper: "py_upper DEFAULT_REGISTRATION_ROLE = VIEWER"
  by (simp add: DEFAULT_REGISTRATION_ROLE_def VIEWER_def py_upper_def)

text \<open>
  C27 (safety). Registration cannot escalate. It adds exactly one active identity, under a normalised name
  nobody had, and gives no other identity any permission. Unless the caller presented a credential that
  holds \<^verbatim>\<open>user.manage\<close>, the new identity holds exactly what the role VIEWER grants, whatever roles the
  request asked for.
\<close>

theorem registration_grants:
  assumes run: "register c env rq p g = (Inr (u, roles), g')"
    and fresh: "\<forall>k rid. (k, rid) \<in> set (g_user_roles g) \<longrightarrow> k \<in> u_id ` set (g_users g)"
    and names: "distinct (map ro_name (g_roles g))"
  shows "g_users g' = g_users g @ [u] \<and> u_status u = USER_ACTIVE \<and>
    u_username u = normalize_username (normalize_username (rr_username p)) \<and>
    u_username u \<notin> u_username ` set (g_users g) \<and>
    (\<forall>k. k \<noteq> u_id u \<longrightarrow> permissions_for_user k g' = permissions_for_user k g) \<and>
    ((\<nexists>q c' g1. get_optional_principal c env rq g = (Inr (Some q, c'), g1) \<and> has_permission q USER_MANAGE) \<longrightarrow>
      permissions_for_user (u_id u) g' = role_grants VIEWER g)"
proof -
  obtain caller c1 g1 g2 where op: "get_optional_principal c env rq g = (Inr (caller, c1), g1)"
    and reg: "register_user c1 env (rr_username p) (rr_password p) (rr_email p) (requested_roles p caller) g1 = Inr (u, g2)"
    and g': "g_users g' = g_users g2" "g_permissions g' = g_permissions g2" "g_user_roles g' = g_user_roles g2"
      "g_role_permissions g' = g_role_permissions g2"
    using run
    by (auto simp: register_def Let_def event_tables split: prod.splits sum.splits if_splits)
  note q = quiet_tables [OF get_optional_quiet [OF op]]
  note new = register_user_Inr [OF reg, unfolded q]
  have other: "permissions_for_user k g' = permissions_for_user k g" if "k \<noteq> u_id u" for k
    by (rule permissions_depend) (use that new g' q in auto)
  have "permissions_for_user (u_id u) g' = role_grants VIEWER g"
    if no: "\<nexists>q c' g1. get_optional_principal c env rq g = (Inr (Some q, c'), g1) \<and> has_permission q USER_MANAGE"
  proof -
    have "requested_roles p caller = None" using no op by (auto simp: requested_roles_def split: option.splits list.splits)
    moreover have "(u_id u, rid) \<notin> set (g_user_roles g)" for rid using fresh new by blast
    ultimately have mem: "(u_id u, rid) \<in> set (g_user_roles g') \<longleftrightarrow>
        map_option ro_id (find_row ro_name VIEWER (g_roles g)) = Some rid" for rid
      using new g' by (simp add: get_by_name_def viewer_upper q)
    have "find_row ro_name VIEWER (g_roles g) = Some r \<longleftrightarrow> r \<in> set (g_roles g) \<and> ro_name r = VIEWER" for r
      using find_row_Some find_row_unique [OF names] by fastforce
    then have held: "(u_id u, rid) \<in> set (g_user_roles g') \<longleftrightarrow> (\<exists>r \<in> set (g_roles g). ro_name r = VIEWER \<and> ro_id r = rid)" for rid
      by (auto simp: mem)
    have tab: "g_permissions g' = g_permissions g" "g_role_permissions g' = g_role_permissions g" using new g' by simp_all
    show ?thesis
      by (rule set_eqI) (auto simp: permissions_for_user_iff granted_def role_grants_def held tab)
  qed
  with new g' other show ?thesis by auto
qed

section \<open>A concrete platform\<close>

definition gate_ctx :: ctx where
  "gate_ctx =
     \<lparr>c_trace_id = ''-'', c_security = None, c_uuid4 = (\<lambda>n. ''id'' @ nat_digits n), c_clock = (\<lambda>n. int n),
      c_collate = (\<lambda>s. s), c_fromisoformat = (\<lambda>_. None), c_float_of_str = (\<lambda>_. None)\<rparr>"

definition eva :: user where
  "eva = \<lparr>u_id = ''00000000-0000-4000-8000-0000000000e1'', u_username = ''eva'', u_email = None,
    u_password_hash = ''correct horse'', u_status = USER_ACTIVE\<rparr>"

definition gate :: platform where
  "gate =
     \<lparr>g_db = empty_world, g_users = [eva],
      g_roles = [\<lparr>ro_id = ''r1'', ro_name = ''ADMIN''\<rparr>, \<lparr>ro_id = ''r3'', ro_name = ''VIEWER''\<rparr>],
      g_permissions = [\<lparr>pe_id = ''p1'', pe_name = ''*''\<rparr>, \<lparr>pe_id = ''p2'', pe_name = ''incident.read''\<rparr>],
      g_user_roles = [(''00000000-0000-4000-8000-0000000000e1'', ''r3'')],
      g_role_permissions = [(''r1'', ''p1''), (''r3'', ''p2'')],
      g_organizations = [], g_plants = [], g_areas = [], g_user_scopes = [], g_device_scopes = [],
      g_policies = [], g_changes = [], g_logins = []\<rparr>"

text \<open>Signing keeps the token id; verification gives back the payload of eva's token with that id.\<close>

definition gate_env :: sec_env where
  "gate_env =
     \<lparr>se_secret = Some ''k'', se_ttl = 3600, se_registration = True, se_limit = 2, se_window = 60,
      se_jwt_encode = (\<lambda>P s. case map_of P ''jti'' of Some (JStr j) \<Rightarrow> ''t'' @ j | _ \<Rightarrow> []),
      se_jwt_decode = (\<lambda>t s. Some (JObj (token_payload (u_id eva) (u_username eva) [''VIEWER''] (tl t) 0 3600000000))),
      se_hashpw = (\<lambda>p. p), se_checkpw = (\<lambda>p h. Some (p = h)),
      se_redis = \<lparr>re_now = 0, re_get = True, re_incr = True, re_expire = True, re_delete = True\<rparr>, se_policies_up = True\<rparr>"

definition gate_rq :: http_request where
  "gate_rq = \<lparr>rq_method = ''POST'', rq_path = ''/incidents'', rq_authorization = Some ''Bearer tid0'',
    rq_user_agent = None, rq_x_actor = None, rq_client = Some ''10.0.0.7''\<rparr>"

text \<open>Eva may read incidents and not create one.\<close>

lemma gate_denied: "case require_permission gate_ctx gate_env gate_rq INCIDENT_CREATE gate of
    (Inl e, g') \<Rightarrow> e = AppError ''PERMISSION_DENIED'' 403 | _ \<Rightarrow> False"
  by code_simp


lemma gate_conf: "signing_secret gate_env = Inr ''k''"
  by (simp add: signing_secret_def gate_env_def)

theorem rate_limit_exact_witness:
  "login gate_ctx (at_time 20 gate_env) gate_rq ''eva'' ''correct horse'' (failures gate_env ''10.0.0.7'' [0, 10] gate) =
    (Inl (AppError ''LOGIN_RATE_LIMITED'' 429), failures gate_env ''10.0.0.7'' [0, 10] gate)"
proof -
  have "redis_up gate_env" "0 < se_window gate_env" "live_counter 0 ''10.0.0.7'' gate = None"
    "\<forall>t \<in> set [10]. t < 0 + seconds (se_window gate_env)"
    by (simp_all add: redis_up_def gate_env_def live_counter_def gate_def seconds_def)
  from rate_limit_exact [OF this(1) gate_conf this(2-4), of 20 gate_rq gate_ctx "''eva''" "''correct horse''"] show ?thesis
    by (simp add: gate_env_def seconds_def gate_rq_def client_ip_def)
qed

theorem lockout_without_expiry_witness:
  "fst (login gate_ctx (at_time (10 ^ 15) gate_env) gate_rq ''eva'' ''correct horse''
    (failures gate_env ''10.0.0.7'' [1]
      (register_failure (gate_env\<lparr>se_redis := (se_redis gate_env)\<lparr>re_expire := False\<rparr>\<rparr>) ''10.0.0.7'' gate))) =
   Inl (AppError ''LOGIN_RATE_LIMITED'' 429)"
proof -
  have "client_ip gate_rq = ''10.0.0.7''" by (simp add: gate_rq_def client_ip_def)
  with lockout_without_expiry [where env' = "gate_env\<lparr>se_redis := (se_redis gate_env)\<lparr>re_expire := False\<rparr>\<rparr>" and rq = gate_rq
      and g = gate and ts = "[1]" and t = "10 ^ 15" and c = gate_ctx, OF _ _ gate_conf]
  show ?thesis by (simp add: gate_env_def live_counter_def gate_def)
qed

lemma gate_login:
  "case login gate_ctx gate_env gate_rq ''Eva'' ''correct horse'' gate of
     (Inr resp, g) \<Rightarrow> tr_user_id resp = u_id eva \<and> tr_username resp = ''eva'' \<and> tr_roles resp = [''VIEWER''] \<and>
       it_token (tr_token resp) = ''tid0'' \<and> it_issued_at (tr_token resp) = 0 \<and> it_expires_at (tr_token resp) = 3600000000
   | _ \<Rightarrow> False"
  by code_simp

lemma gate_uuid: "py_uuid (u_id eva) = Some (u_id eva)"
  by code_simp

theorem login_token_authenticates_witness:
  "\<exists>resp g1. login gate_ctx gate_env gate_rq ''Eva'' ''correct horse'' gate = (Inr resp, g1) \<and>
    (\<exists>c'. fst (get_principal gate_ctx gate_env gate_rq gate) = Inr (principal_for gate_ctx eva gate, c'))"
proof -
  from gate_login obtain resp g1 where run: "login gate_ctx gate_env gate_rq ''Eva'' ''correct horse'' gate = (Inr resp, g1)"
    and r: "tr_user_id resp = u_id eva" "tr_username resp = ''eva''" "tr_roles resp = [''VIEWER'']"
      "it_token (tr_token resp) = ''tid0''" "it_issued_at (tr_token resp) = 0" "it_expires_at (tr_token resp) = 3600000000"
    by (auto split: prod.splits sum.splits)
  have "fst (get_principal gate_ctx gate_env gate_rq gate) =
    (if c_clock gate_ctx (w_ticks (g_db gate)) < seconds (it_expires_at (tr_token resp) div 1000000)
     then Inr (principal_for gate_ctx eva gate, gate_ctx\<lparr>c_security := Some (published gate_rq eva)\<rparr>)
     else Inl (AppError ''TOKEN_EXPIRED'' 401))"
  proof (rule login_token_authenticates [OF run gate_conf])
    show "rq_authorization gate_rq = Some (''Bearer '' @ it_token (tr_token resp))" by (simp add: gate_rq_def r)
    show "se_jwt_decode gate_env (it_token (tr_token resp)) ''k'' = Some (JObj (token_payload (tr_user_id resp) (tr_username resp)
        (tr_roles resp) tid (it_issued_at (tr_token resp)) (it_expires_at (tr_token resp))))"
      if "se_jwt_encode gate_env (token_payload (tr_user_id resp) (tr_username resp) (tr_roles resp) tid
        (it_issued_at (tr_token resp)) (it_expires_at (tr_token resp))) ''k'' = it_token (tr_token resp)" for tid
      using that by (auto simp: gate_env_def r token_payload_def eva_def)
    show "find_row u_id (tr_user_id resp) (g_users gate) = Some eva" by (simp add: r gate_def find_row_def)
  qed (use gate_uuid in \<open>simp_all add: r py_isspace_def gate_env_def seconds_def, simp_all add: eva_def\<close>)
  then show ?thesis using run by (simp add: r gate_ctx_def gate_def empty_world_def seconds_def)
qed

definition gate_register :: register_request where
  "gate_register = \<lparr>rr_username = ''Max'', rr_password = ''battery staple'', rr_email = None, rr_roles = Some [''ADMIN'']\<rparr>"

lemma gate_registered:
  "case register gate_ctx gate_env (gate_rq\<lparr>rq_authorization := None\<rparr>) gate_register gate of (Inr _, _) \<Rightarrow> True | _ \<Rightarrow> False"
  by code_simp

theorem registration_grants_witness:
  "\<exists>u roles g'. register gate_ctx gate_env (gate_rq\<lparr>rq_authorization := None\<rparr>) gate_register gate = (Inr (u, roles), g') \<and>
    permissions_for_user (u_id u) g' = role_grants VIEWER gate"
proof -
  let ?rq = "gate_rq\<lparr>rq_authorization := None\<rparr>"
  from gate_registered obtain u roles g' where run: "register gate_ctx gate_env ?rq gate_register gate = (Inr (u, roles), g')"
    by (auto split: prod.splits sum.splits)
  have "\<nexists>q c' g1. get_optional_principal gate_ctx gate_env ?rq gate = (Inr (Some q, c'), g1) \<and> has_permission q USER_MANAGE"
    by (simp add: get_optional_principal_def py_strip_def)
  with registration_grants [OF run] run show ?thesis by (auto simp: gate_def eva_def)
qed

end
