(* ===== verification/ScopeProps.thy ===== *)
theory ScopeProps
  imports Organizations BoundaryProps
begin

text \<open>
  Properties of organisation scopes: which devices a binding reaches, which rows of the hierarchy it
  shows, and the integrity of the hierarchy under every sequence of organisation requests.
\<close>

section \<open>Reach\<close>

text \<open>A binding covers an area that is the bound node or lies below it.\<close>

definition covers :: "platform \<Rightarrow> user_scope \<Rightarrow> uuid \<Rightarrow> bool" where
  "covers g b k =
     (case us_scope_level b of
        SL_AREA \<Rightarrow> us_scope_id b = k
      | SL_PLANT \<Rightarrow> \<exists>a \<in> set (g_areas g). oar_id a = k \<and> oar_plant_id a = us_scope_id b
      | SL_ORGANIZATION \<Rightarrow> \<exists>a \<in> set (g_areas g). \<exists>x \<in> set (g_plants g).
          oar_id a = k \<and> oar_plant_id a = pl_id x \<and> pl_organization_id x = us_scope_id b)"

definition reaches :: "platform \<Rightarrow> uuid \<Rightarrow> string \<Rightarrow> bool" where
  "reaches g user_id device_id \<longleftrightarrow>
     (\<exists>b \<in> set (g_user_scopes g). \<exists>d \<in> set (g_device_scopes g).
        us_user_id b = user_id \<and> dsc_device_id d = device_id \<and> covers g b (dsc_area_id d))"

lemma covers_level:
  "us_scope_level b = SL_AREA \<Longrightarrow> covers g b k \<longleftrightarrow> us_scope_id b = k"
  "us_scope_level b = SL_PLANT \<Longrightarrow> covers g b k \<longleftrightarrow> (\<exists>a \<in> set (g_areas g). oar_id a = k \<and> oar_plant_id a = us_scope_id b)"
  "us_scope_level b = SL_ORGANIZATION \<Longrightarrow> covers g b k \<longleftrightarrow> (\<exists>a \<in> set (g_areas g). \<exists>x \<in> set (g_plants g).
     oar_id a = k \<and> oar_plant_id a = pl_id x \<and> pl_organization_id x = us_scope_id b)"
  by (simp_all add: covers_def)

text \<open>The two above for a device whose placement, area and plant are each stored once.\<close>

lemma covers_placed:
  assumes "\<And>c. c \<in> set (g_areas v) \<and> oar_id c = k \<longleftrightarrow> c = a"
    and "\<And>y. y \<in> set (g_plants v) \<and> oar_plant_id a = pl_id y \<longleftrightarrow> y = x"
  shows "covers v b k \<longleftrightarrow> (case us_scope_level b of SL_AREA \<Rightarrow> us_scope_id b = k
    | SL_PLANT \<Rightarrow> oar_plant_id a = us_scope_id b | SL_ORGANIZATION \<Rightarrow> pl_organization_id x = us_scope_id b)"
proof (cases "us_scope_level b")
  case SL_ORGANIZATION
  have "covers v b k \<longleftrightarrow> (\<exists>c y. (c \<in> set (g_areas v) \<and> oar_id c = k) \<and>
      (y \<in> set (g_plants v) \<and> oar_plant_id c = pl_id y) \<and> pl_organization_id y = us_scope_id b)"
    by (auto simp: covers_level(3) [OF SL_ORGANIZATION])
  then have "covers v b k \<longleftrightarrow> (\<exists>y. (y \<in> set (g_plants v) \<and> oar_plant_id a = pl_id y) \<and> pl_organization_id y = us_scope_id b)"
    unfolding assms(1) by blast
  then show ?thesis unfolding assms(2) by (simp add: SL_ORGANIZATION)
next
  case SL_PLANT
  have "covers v b k \<longleftrightarrow> (\<exists>c. (c \<in> set (g_areas v) \<and> oar_id c = k) \<and> oar_plant_id c = us_scope_id b)"
    by (auto simp: covers_level(2) [OF SL_PLANT])
  then show ?thesis unfolding assms(1) by (simp add: SL_PLANT)
qed (simp add: covers_level(1))

lemma reaches_placed:
  assumes "\<And>e. e \<in> set (g_device_scopes v) \<and> dsc_device_id e = device_id \<longleftrightarrow> e = d"
  shows "reaches v user_id device_id \<longleftrightarrow>
    (\<exists>b \<in> set (g_user_scopes v). us_user_id b = user_id \<and> covers v b (dsc_area_id d))"
proof -
  have "reaches v user_id device_id \<longleftrightarrow> (\<exists>b \<in> set (g_user_scopes v). us_user_id b = user_id \<and>
      (\<exists>e. (e \<in> set (g_device_scopes v) \<and> dsc_device_id e = device_id) \<and> covers v b (dsc_area_id e)))"
    unfolding reaches_def by blast
  then show ?thesis unfolding assms by simp
qed

lemma covered_areas:
  "k \<in> bound_ids SL_AREA bs \<union> areas_in (bound_ids SL_PLANT bs) g \<union> areas_in (plants_in (bound_ids SL_ORGANIZATION bs) g) g
    \<longleftrightarrow> (\<exists>b \<in> set bs. covers g b k)"
proof -
  have "k \<in> bound_ids SL_AREA bs \<longleftrightarrow> (\<exists>b \<in> set bs. us_scope_level b = SL_AREA \<and> covers g b k)"
    by (auto simp: bound_ids_def covers_def)
  moreover have "k \<in> areas_in (bound_ids SL_PLANT bs) g \<longleftrightarrow> (\<exists>b \<in> set bs. us_scope_level b = SL_PLANT \<and> covers g b k)"
    by (force simp: bound_ids_def areas_in_def covers_level(2))
  moreover have "k \<in> areas_in (plants_in (bound_ids SL_ORGANIZATION bs) g) g \<longleftrightarrow>
      (\<exists>b \<in> set bs. us_scope_level b = SL_ORGANIZATION \<and> covers g b k)"
    by (force simp: bound_ids_def areas_in_def plants_in_def covers_level(3))
  moreover have "\<forall>b. us_scope_level b = SL_AREA \<or> us_scope_level b = SL_PLANT \<or> us_scope_level b = SL_ORGANIZATION"
    using ScopeLevel.exhaust by blast
  ultimately show ?thesis unfolding Un_iff by blast
qed

lemma allows_iff:
  "allows (resolve_device_access p g) device_id \<longleftrightarrow>
     WILDCARD \<in> pn_permissions p \<or> reaches g (pn_user_id p) device_id"
proof (cases "WILDCARD \<in> pn_permissions p")
  case True
  then show ?thesis by (simp add: resolve_device_access_def allows_def)
next
  case False
  let ?bs = "bindings_of (pn_user_id p) g"
  define A where "A = bound_ids SL_AREA ?bs \<union> areas_in (bound_ids SL_PLANT ?bs) g \<union> areas_in (plants_in (bound_ids SL_ORGANIZATION ?bs) g) g"
  have A: "k \<in> A \<longleftrightarrow> (\<exists>b \<in> set ?bs. covers g b k)" for k unfolding A_def by (rule covered_areas)
  have "allows (resolve_device_access p g) device_id \<longleftrightarrow>
      (\<exists>d \<in> set (g_device_scopes g). dsc_device_id d = device_id \<and> dsc_area_id d \<in> A)"
  proof (cases "?bs = []")
    case True
    then have "A = {}" using A by auto
    with True False show ?thesis by (simp add: resolve_device_access_def allows_def)
  next
    case bs: False
    have "allows (resolve_device_access p g) device_id \<longleftrightarrow> device_id \<in>
        (if A = {} then {} else set (map dsc_device_id (filter (\<lambda>d. dsc_area_id d \<in> A) (g_device_scopes g))))"
      using False bs by (simp add: resolve_device_access_def allows_def Let_def A_def)
    then show ?thesis by auto
  qed
  moreover have "b \<in> set ?bs \<longleftrightarrow> b \<in> set (g_user_scopes g) \<and> us_user_id b = pn_user_id p" for b
    by (auto simp: bindings_of_def)
  ultimately show ?thesis using False by (auto simp: reaches_def A)
qed

text \<open>
  C23 (equivalence). Device reach is exact. The check in front of a device route lets a caller through, and
  the filter of a list route keeps a device, exactly when the caller holds the wildcard or one of its
  bindings names the device's area, the plant of that area or the organisation of that plant. No bindings
  means no reach; a refusal changes nothing but the audit trail and counters.
\<close>

theorem device_reach_exact:
  "(fst (ensure_device_in_scope c rq p device_id g) = Inr () \<longleftrightarrow>
      WILDCARD \<in> pn_permissions p \<or> reaches g (pn_user_id p) device_id) \<and>
   (case device_scope_filter p g of
      None \<Rightarrow> WILDCARD \<in> pn_permissions p
    | Some ids \<Rightarrow> WILDCARD \<notin> pn_permissions p \<and> (device_id \<in> ids \<longleftrightarrow> reaches g (pn_user_id p) device_id)) \<and>
   same_identity g (snd (ensure_device_in_scope c rq p device_id g))"
proof -
  have q: "quiet g (on_world (inc_metric n l) g)" for n l by (simp add: on_world_def quiet_db)
  have "same_identity g (snd (ensure_device_in_scope c rq p device_id g))"
    using security_event_after [OF q] by (simp add: ensure_device_in_scope_def quiet_same_identity)
  moreover have "case device_scope_filter p g of None \<Rightarrow> WILDCARD \<in> pn_permissions p
    | Some ids \<Rightarrow> WILDCARD \<notin> pn_permissions p \<and> (device_id \<in> ids \<longleftrightarrow> allows (resolve_device_access p g) device_id)"
    by (simp add: device_scope_filter_def resolve_device_access_def allows_def Let_def)
  ultimately show ?thesis by (auto simp: ensure_device_in_scope_def allows_iff split: option.splits)
qed

section \<open>Visibility\<close>

text \<open>
  What a single area binding shows: the passes that add descendants start from the
  ancestors the earlier passes added, so a caller bound to one area sees every plant and every area of
  the whole organisation around it. Its devices stay bounded: it reaches only devices of that area.
\<close>

theorem area_binding_shows_organisation:
  assumes "WILDCARD \<notin> pn_permissions p"
    and "bindings_of (pn_user_id p) g = [\<lparr>us_user_id = pn_user_id p, us_scope_level = SL_AREA, us_scope_id = oar_id a\<rparr>]"
    and "a \<in> set (g_areas g)" and "x \<in> set (g_plants g)" and "oar_plant_id a = pl_id x"
    and "y \<in> set (g_plants g)" and "pl_organization_id y = pl_organization_id x" and "b \<in> set (g_areas g)" and "oar_plant_id b = pl_id y"
  shows "shows_plant (resolve_organization_access p g) (pl_id y) \<and> shows_area (resolve_organization_access p g) (oar_id b) \<and>
    (\<forall>device_id. allows (resolve_device_access p g) device_id \<longrightarrow>
       (\<exists>d \<in> set (g_device_scopes g). dsc_device_id d = device_id \<and> dsc_area_id d = oar_id a))"
proof -
  let ?bs = "bindings_of (pn_user_id p) g"
  have bound: "bound_ids SL_AREA ?bs = {oar_id a}" "bound_ids SL_PLANT ?bs = {}" "bound_ids SL_ORGANIZATION ?bs = {}"
    by (simp_all add: assms(2) bound_ids_def)
  have ne: "?bs \<noteq> []" by (simp add: assms(2))
  let ?P1 = "set (map oar_plant_id (filter (\<lambda>z. oar_id z \<in> {oar_id a}) (g_areas g)))"
  let ?O1 = "set (map pl_organization_id (filter (\<lambda>z. pl_id z \<in> ?P1) (g_plants g)))"
  have "oar_plant_id a \<in> ?P1" using assms(3) by auto
  then have "pl_organization_id x \<in> ?O1" using assms(4,5) by auto
  then have y: "pl_id y \<in> plants_in ?O1 g" using assms(6,7) by (auto simp: plants_in_def)
  then have b: "oar_id b \<in> areas_in (?P1 \<union> plants_in ?O1 g) g" using assms(8,9) by (auto simp: areas_in_def)
  have access: "oa_plant_ids (resolve_organization_access p g) = ?P1 \<union> plants_in ?O1 g"
    "oa_area_ids (resolve_organization_access p g) = {oar_id a} \<union> areas_in (?P1 \<union> plants_in ?O1 g) g"
    using assms(1) ne by (simp_all add: resolve_organization_access_def Let_def bound del: set_map set_filter)
  have "\<forall>device_id. allows (resolve_device_access p g) device_id \<longrightarrow>
       (\<exists>d \<in> set (g_device_scopes g). dsc_device_id d = device_id \<and> dsc_area_id d = oar_id a)"
  proof (intro allI impI)
    fix device_id
    assume "allows (resolve_device_access p g) device_id"
    then obtain bd d where bd: "bd \<in> set (g_user_scopes g)" "us_user_id bd = pn_user_id p" "d \<in> set (g_device_scopes g)"
      "dsc_device_id d = device_id" "covers g bd (dsc_area_id d)" using assms(1) by (auto simp: allows_iff reaches_def)
    then have "bd \<in> set ?bs" by (simp add: bindings_of_def)
    then have "bd = \<lparr>us_user_id = pn_user_id p, us_scope_level = SL_AREA, us_scope_id = oar_id a\<rparr>" by (simp add: assms(2))
    with bd show "\<exists>d \<in> set (g_device_scopes g). dsc_device_id d = device_id \<and> dsc_area_id d = oar_id a"
      by (auto simp: covers_def)
  qed
  with y b show ?thesis by (simp add: shows_plant_def shows_area_def access)
qed

section \<open>Integrity of the hierarchy\<close>

definition plant_key :: "org_plant \<Rightarrow> uuid \<times> string" where
  "plant_key x = (pl_organization_id x, pl_name x)"

definition area_key :: "org_area \<Rightarrow> uuid \<times> string" where
  "area_key a = (oar_plant_id a, oar_name a)"

definition org_inv :: "platform \<Rightarrow> bool" where
  "org_inv g \<longleftrightarrow>
     (distinct (map og_id (g_organizations g)) \<and> distinct (map og_name (g_organizations g))) \<and>
     (distinct (map pl_id (g_plants g)) \<and> distinct (map plant_key (g_plants g)) \<and>
      (\<forall>x \<in> set (g_plants g). pl_organization_id x \<in> og_id ` set (g_organizations g))) \<and>
     (distinct (map oar_id (g_areas g)) \<and> distinct (map area_key (g_areas g)) \<and>
      (\<forall>x \<in> set (g_areas g). oar_plant_id x \<in> pl_id ` set (g_plants g))) \<and>
     (distinct (map dsc_device_id (g_device_scopes g)) \<and>
      (\<forall>x \<in> set (g_device_scopes g). dsc_area_id x \<in> oar_id ` set (g_areas g)) \<and>
      (\<forall>x \<in> set (g_device_scopes g). dsc_device_id x \<in> dev_device_id ` set (w_devices (g_db g)))) \<and>
     distinct (g_user_scopes g)"

text \<open>The invariant reads these tables only.\<close>

lemma in_image: "y \<in> f ` S \<longleftrightarrow> (\<exists>x \<in> S. f x = y)"
  by auto

lemma org_inv_cong:
  assumes "g_organizations g' = g_organizations g" "g_plants g' = g_plants g" "g_areas g' = g_areas g"
    "g_device_scopes g' = g_device_scopes g" "g_user_scopes g' = g_user_scopes g"
    and "dev_device_id ` set (w_devices (g_db g)) \<subseteq> dev_device_id ` set (w_devices (g_db g'))"
  shows "org_inv g \<Longrightarrow> org_inv g'"
  using assms by (auto simp: org_inv_def)

lemma mutation_audit_tables [simp]:
  "g_organizations (mutation_audit c act res k p ds g) = g_organizations g"
  "g_plants (mutation_audit c act res k p ds g) = g_plants g"
  "g_areas (mutation_audit c act res k p ds g) = g_areas g"
  "g_user_scopes (mutation_audit c act res k p ds g) = g_user_scopes g"
  "g_device_scopes (mutation_audit c act res k p ds g) = g_device_scopes g"
  "g_users (mutation_audit c act res k p ds g) = g_users g"
  "g_policies (mutation_audit c act res k p ds g) = g_policies g"
  "g_changes (mutation_audit c act res k p ds g) = g_changes g"
  "w_devices (g_db (mutation_audit c act res k p ds g)) = w_devices (g_db g)"
  by (simp_all add: mutation_audit_def on_world_def)

lemma mutation_audit_inv [simp]: "org_inv (mutation_audit c act res k p ds g) \<longleftrightarrow> org_inv g"
  by (simp add: org_inv_def)

lemma uuid4_devices [simp]: "w_devices (snd (uuid4 c w)) = w_devices w"
  by (simp add: uuid4_def)

lemma distinct_update_rows:
  assumes "distinct (map key rows)" "\<And>r. key r = k \<Longrightarrow> key (f r) = k"
    and "distinct (map g rows)" "find_row key k rows = Some r0" "g (f r0) \<notin> g ` set (filter (\<lambda>r. key r \<noteq> k) rows)"
  shows "distinct (map g (update_rows key k f rows))"
proof -
  have one: "r = r0" if "r \<in> set rows" "key r = k" for r
    using find_row_unique [OF assms(1) that(1)] assms(4) that(2) by simp
  have eq: "map g (update_rows key k f rows) = map (\<lambda>r. if key r = k then g (f r0) else g r) rows"
    using one by (auto simp: update_rows_def)
  have "inj_on (\<lambda>r. if key r = k then g (f r0) else g r) (set rows)"
  proof (rule inj_onI)
    fix r s
    assume rs: "r \<in> set rows" "s \<in> set rows"
      and eq: "(if key r = k then g (f r0) else g r) = (if key s = k then g (f r0) else g s)"
    have out: "g (f r0) \<noteq> g x" if "x \<in> set rows" "key x \<noteq> k" for x using assms(5) that by auto
    have inj: "g r = g s \<Longrightarrow> r = s" using assms(3) rs by (auto simp: distinct_map dest: inj_onD)
    have same: "key r = k \<longleftrightarrow> key s = k" using eq out [OF rs(1)] out [OF rs(2)] by (auto split: if_splits)
    show "r = s"
    proof (cases "key r = k")
      case True
      then show ?thesis using one [OF rs(1)] one [OF rs(2)] same by simp
    next
      case False
      then show ?thesis using eq same by (simp add: inj)
    qed
  qed
  with assms(3) show ?thesis unfolding eq by (simp add: distinct_map)
qed

lemma ball_update_rows: "\<forall>r \<in> set rows. P r \<Longrightarrow> (\<And>r. P r \<Longrightarrow> P (f r)) \<Longrightarrow> \<forall>r \<in> set (update_rows key k f rows). P r"
  by (auto simp: update_rows_def)

lemma set_update_rows_image:
  assumes "\<And>r. key r = k \<Longrightarrow> h (f r) = h r"
  shows "h ` set (update_rows key k f rows) = h ` set rows"
  using map_update_rows_same [of key k h f rows] assms by (metis list.set_map)

section \<open>Each request keeps the invariant\<close>

lemma create_organization_inv: "org_inv g \<Longrightarrow> create_organization payload c p g = Inr (row, g') \<Longrightarrow> org_inv g'"
  by (auto simp: create_organization_def org_inv_def Let_def uuid4_def split: if_splits)

lemma create_plant_inv: "org_inv g \<Longrightarrow> create_plant k payload c p g = Inr (row, g') \<Longrightarrow> org_inv g'"
  by (auto simp: create_plant_def require_organization_def org_inv_def Let_def uuid4_def plant_row_ok_def plant_key_def
      bindE_Inr_iff split: if_splits option.splits dest!: find_row_Some)

lemma create_area_inv: "org_inv g \<Longrightarrow> create_area k payload c p g = Inr (row, g') \<Longrightarrow> org_inv g'"
  by (auto simp: create_area_def require_plant_def org_inv_def Let_def uuid4_def area_row_ok_def area_key_def
      bindE_Inr_iff split: if_splits option.splits dest!: find_row_Some)

lemma update_organization_inv:
  assumes "org_inv g" and "update_organization k payload c p g = Inr (row, g')"
  shows "org_inv g'"
proof -
  define f where "f r = r\<lparr>og_name := (case ou_name payload of None \<Rightarrow> og_name r | Some n \<Rightarrow> n),
    og_description := (case ou_description payload of None \<Rightarrow> og_description r | Some d \<Rightarrow> d)\<rparr>" for r :: organization
  obtain r0 where r0: "find_row og_id k (g_organizations g) = Some r0"
    and ok: "\<not> (case ou_name payload of None \<Rightarrow> False | Some n \<Rightarrow> n \<noteq> og_name r0 \<and> n \<in> og_name ` set (g_organizations g))"
    and g': "g' = mutation_audit c ''ORGANIZATION_UPDATED'' ''organization'' k p []
      (g\<lparr>g_organizations := update_rows og_id k f (g_organizations g)\<rparr>)"
    using assms(2)
    by (auto simp: update_organization_def require_organization_def bindE_Inr_iff Let_def f_def [abs_def] split: if_splits option.splits)
  have d: "distinct (map og_id (g_organizations g))" "distinct (map og_name (g_organizations g))"
    using assms(1) by (simp_all add: org_inv_def)
  have mem: "r0 \<in> set (g_organizations g)" "og_id r0 = k" using find_row_Some [OF r0] by auto
  have fresh: "og_name (f r0) \<notin> og_name ` set (filter (\<lambda>r. og_id r \<noteq> k) (g_organizations g))"
  proof
    assume "og_name (f r0) \<in> og_name ` set (filter (\<lambda>r. og_id r \<noteq> k) (g_organizations g))"
    then obtain r where r: "r \<in> set (g_organizations g)" "og_id r \<noteq> k" "og_name r = og_name (f r0)" by auto
    then have "og_name (f r0) = og_name r0"
      using ok by (auto simp: f_def split: option.splits)
    with r mem d(2) show False by (metis distinct_map inj_onD)
  qed
  have "distinct (map og_name (update_rows og_id k f (g_organizations g)))"
    by (rule distinct_update_rows [where ?r0.0 = r0]) (use d r0 fresh in \<open>simp_all add: f_def\<close>)
  moreover have "og_id ` set (update_rows og_id k f (g_organizations g)) = og_id ` set (g_organizations g)"
    by (rule set_update_rows_image) (simp add: f_def)
  moreover have "map og_id (update_rows og_id k f (g_organizations g)) = map og_id (g_organizations g)"
    by (rule map_update_rows_same) (simp add: f_def)
  ultimately show ?thesis using assms(1) by (simp add: g' org_inv_def)
qed

lemma update_plant_inv:
  assumes "org_inv g" and "update_plant k payload c p g = Inr (row, g')"
  shows "org_inv g'"
proof -
  define f where "f r = r\<lparr>pl_name := np_name payload, pl_description := np_description payload\<rparr>" for r :: org_plant
  obtain r0 where r0: "find_row pl_id k (g_plants g) = Some r0"
    and ok: "plant_row_ok (f r0) (filter (\<lambda>r. pl_id r \<noteq> k) (g_plants g))"
    and g': "g' = mutation_audit c ''PLANT_UPDATED'' ''plant'' k p [] (g\<lparr>g_plants := update_rows pl_id k f (g_plants g)\<rparr>)"
    using assms(2)
    by (auto simp: update_plant_def require_plant_def bindE_Inr_iff Let_def f_def [abs_def] split: if_splits option.splits)
  have d: "distinct (map pl_id (g_plants g))" "distinct (map plant_key (g_plants g))"
    using assms(1) by (simp_all add: org_inv_def)
  have fresh: "plant_key (f r0) \<notin> plant_key ` set (filter (\<lambda>r. pl_id r \<noteq> k) (g_plants g))"
    using ok by (auto simp: plant_row_ok_def plant_key_def)
  have "distinct (map plant_key (update_rows pl_id k f (g_plants g)))"
    by (rule distinct_update_rows [where ?r0.0 = r0]) (use d r0 fresh in \<open>simp_all add: f_def\<close>)
  moreover have "pl_id ` set (update_rows pl_id k f (g_plants g)) = pl_id ` set (g_plants g)"
    by (rule set_update_rows_image) (simp add: f_def)
  moreover have "\<forall>x \<in> set (update_rows pl_id k f (g_plants g)). pl_organization_id x \<in> og_id ` set (g_organizations g)"
    by (rule ball_update_rows) (use assms(1) in \<open>simp_all add: org_inv_def f_def\<close>)
  moreover have "map pl_id (update_rows pl_id k f (g_plants g)) = map pl_id (g_plants g)"
    by (rule map_update_rows_same) (simp add: f_def)
  ultimately show ?thesis using assms(1) by (simp add: g' org_inv_def)
qed

lemma update_area_inv:
  assumes "org_inv g" and "update_area k payload c p g = Inr (row, g')"
  shows "org_inv g'"
proof -
  define f where "f r = r\<lparr>oar_name := np_name payload, oar_description := np_description payload\<rparr>" for r :: org_area
  obtain r0 where r0: "find_row oar_id k (g_areas g) = Some r0"
    and ok: "area_row_ok (f r0) (filter (\<lambda>r. oar_id r \<noteq> k) (g_areas g))"
    and g': "g' = mutation_audit c ''AREA_UPDATED'' ''area'' k p [] (g\<lparr>g_areas := update_rows oar_id k f (g_areas g)\<rparr>)"
    using assms(2)
    by (auto simp: update_area_def require_area_def bindE_Inr_iff Let_def f_def [abs_def] split: if_splits option.splits)
  have d: "distinct (map oar_id (g_areas g))" "distinct (map area_key (g_areas g))"
    using assms(1) by (simp_all add: org_inv_def)
  have fresh: "area_key (f r0) \<notin> area_key ` set (filter (\<lambda>r. oar_id r \<noteq> k) (g_areas g))"
    using ok by (auto simp: area_row_ok_def area_key_def)
  have "distinct (map area_key (update_rows oar_id k f (g_areas g)))"
    by (rule distinct_update_rows [where ?r0.0 = r0]) (use d r0 fresh in \<open>simp_all add: f_def\<close>)
  moreover have "oar_id ` set (update_rows oar_id k f (g_areas g)) = oar_id ` set (g_areas g)"
    by (rule set_update_rows_image) (simp add: f_def)
  moreover have "\<forall>x \<in> set (update_rows oar_id k f (g_areas g)). oar_plant_id x \<in> pl_id ` set (g_plants g)"
    by (rule ball_update_rows) (use assms(1) in \<open>simp_all add: org_inv_def f_def\<close>)
  moreover have "map oar_id (update_rows oar_id k f (g_areas g)) = map oar_id (g_areas g)"
    by (rule map_update_rows_same) (simp add: f_def)
  ultimately show ?thesis using assms(1) by (simp add: g' org_inv_def)
qed

lemma drop_areas_inv: "org_inv g \<Longrightarrow> org_inv (drop_areas ks g)"
  by (auto simp: org_inv_def drop_areas_def distinct_map_filter)

lemma dropped_plants:
  assumes "\<forall>a \<in> set (g_areas g). oar_plant_id a \<in> pl_id ` set (g_plants g)" and "a \<in> set (g_areas g)" "oar_id a \<notin> areas_in ks g"
  shows "oar_plant_id a \<in> pl_id ` set (filter (\<lambda>x. pl_id x \<notin> ks) (g_plants g))"
proof -
  have "oar_plant_id a \<notin> ks" using assms(2,3) by (auto simp: areas_in_def)
  moreover obtain x where "x \<in> set (g_plants g)" "oar_plant_id a = pl_id x" using assms(1,2) by auto
  ultimately show ?thesis by auto
qed

lemma drop_plants_inv:
  assumes "org_inv g"
  shows "org_inv (drop_plants ks g)"
proof -
  have "\<forall>a \<in> set (g_areas g). oar_plant_id a \<in> pl_id ` set (g_plants g)" using assms by (simp add: org_inv_def)
  note kept = dropped_plants [OF this]
  have tables: "g_organizations (drop_plants ks g) = g_organizations g"
    "g_plants (drop_plants ks g) = filter (\<lambda>x. pl_id x \<notin> ks) (g_plants g)"
    "g_areas (drop_plants ks g) = filter (\<lambda>a. oar_id a \<notin> areas_in ks g) (g_areas g)"
    "g_device_scopes (drop_plants ks g) = filter (\<lambda>d. dsc_area_id d \<notin> areas_in ks g) (g_device_scopes g)"
    "g_user_scopes (drop_plants ks g) = g_user_scopes g" "g_db (drop_plants ks g) = g_db g"
    by (simp_all add: drop_plants_def drop_areas_def)
  show ?thesis
    using assms kept unfolding org_inv_def tables by (auto simp: distinct_map_filter)
qed

lemma drop_organization_tables:
  "g_organizations (drop_organization k g) = filter (\<lambda>r. og_id r \<noteq> k) (g_organizations g)"
  "g_plants (drop_organization k g) = filter (\<lambda>x. pl_id x \<notin> plants_in {k} g) (g_plants g)"
  "g_areas (drop_organization k g) = filter (\<lambda>a. oar_id a \<notin> areas_in (plants_in {k} g) g) (g_areas g)"
  "g_device_scopes (drop_organization k g) = filter (\<lambda>d. dsc_area_id d \<notin> areas_in (plants_in {k} g) g) (g_device_scopes g)"
  "g_user_scopes (drop_organization k g) = g_user_scopes g" "g_db (drop_organization k g) = g_db g"
  by (simp_all add: drop_organization_def drop_plants_def drop_areas_def areas_in_def)

lemma drop_organization_inv:
  assumes "org_inv g"
  shows "org_inv (drop_organization k g)"
proof -
  have "\<forall>a \<in> set (g_areas g). oar_plant_id a \<in> pl_id ` set (g_plants g)" using assms by (simp add: org_inv_def)
  note kept = dropped_plants [OF this]
  have orgs: "pl_organization_id x \<in> og_id ` set (filter (\<lambda>r. og_id r \<noteq> k) (g_organizations g))"
    if "x \<in> set (g_plants g)" "pl_id x \<notin> plants_in {k} g" for x
  proof -
    have "pl_organization_id x \<noteq> k" using that by (auto simp: plants_in_def)
    moreover have "pl_organization_id x \<in> og_id ` set (g_organizations g)" using assms that(1) by (simp add: org_inv_def)
    ultimately show ?thesis by auto
  qed
  show ?thesis
    using assms kept orgs unfolding org_inv_def drop_organization_tables by (auto simp: distinct_map_filter)
qed

lemma delete_inv:
  assumes "org_inv g"
  shows "delete_organization k c p g = Inr (u, g') \<Longrightarrow> org_inv g'"
    and "delete_plant k c p g = Inr (u, g') \<Longrightarrow> org_inv g'"
    and "delete_area k c p g = Inr (u, g') \<Longrightarrow> org_inv g'"
  using assms
  by (auto simp: delete_organization_def delete_plant_def delete_area_def bindE_Inr_iff
      intro: drop_organization_inv drop_plants_inv drop_areas_inv)

lemma set_user_scopes_inv:
  assumes "org_inv g" and "set_user_scopes k bs c p g = Inr (rows, g')"
  shows "org_inv g'"
proof -
  let ?row = "\<lambda>(l, j). \<lparr>us_user_id = k, us_scope_level = l, us_scope_id = j\<rparr>"
  have "distinct bs" and t: "g_user_scopes g' = filter (\<lambda>b. us_user_id b \<noteq> k) (g_user_scopes g) @ map ?row bs"
    "g_organizations g' = g_organizations g" "g_plants g' = g_plants g" "g_areas g' = g_areas g"
    "g_device_scopes g' = g_device_scopes g" "w_devices (g_db g') = w_devices (g_db g)"
    using assms(2) by (auto simp: set_user_scopes_def bindE_Inr_iff Let_def split: if_splits)
  then have "distinct (map ?row bs)" by (auto simp: distinct_map inj_on_def)
  with assms(1) show ?thesis unfolding org_inv_def t by auto
qed

lemma set_device_scope_inv:
  assumes "org_inv g" and "set_device_scope d k c p g = Inr (r, g')"
  shows "org_inv g'"
proof -
  have d: "d \<in> dev_device_id ` set (w_devices (g_db g))" "distinct (map dsc_device_id (g_device_scopes g))"
    using assms by (auto simp: set_device_scope_def org_inv_def split: if_splits)
  define rows where "rows = (case k of
       None \<Rightarrow> filter (\<lambda>x. dsc_device_id x \<noteq> d) (g_device_scopes g)
     | Some j \<Rightarrow> if find_row dsc_device_id d (g_device_scopes g) = None
         then g_device_scopes g @ [\<lparr>dsc_device_id = d, dsc_area_id = j\<rparr>]
         else update_rows dsc_device_id d (\<lambda>x. x\<lparr>dsc_area_id := j\<rparr>) (g_device_scopes g))"
  have t: "g_device_scopes g' = rows" "g_organizations g' = g_organizations g" "g_plants g' = g_plants g" "g_areas g' = g_areas g"
    "g_user_scopes g' = g_user_scopes g" "w_devices (g_db g') = w_devices (g_db g)"
    using assms(2) by (auto simp: set_device_scope_def bindE_Inr_iff Let_def rows_def split: if_splits)
  have area: "j \<in> oar_id ` set (g_areas g)" if "k = Some j" for j
    using assms(2) that by (auto simp: set_device_scope_def require_area_def bindE_Inr_iff split: if_splits option.splits dest!: find_row_Some)
  have "distinct (map dsc_device_id rows)"
    using d(2) by (auto simp: rows_def row_simps distinct_map_filter split: option.splits)
  moreover have "dsc_area_id x \<in> oar_id ` set (g_areas g) \<and> dsc_device_id x \<in> dev_device_id ` set (w_devices (g_db g))"
    if "x \<in> set rows" for x
    using that assms(1) d(1) area
    by (auto simp: rows_def org_inv_def update_rows_def split: option.splits if_splits)
  ultimately show ?thesis using assms(1) unfolding org_inv_def t by blast
qed

section \<open>The organisation requests as an event system\<close>

datatype org_event =
    CreateOrganization node_payload
  | UpdateOrganization uuid organization_update
  | DeleteOrganization uuid
  | CreatePlant uuid node_payload
  | UpdatePlant uuid node_payload
  | DeletePlant uuid
  | CreateArea uuid node_payload
  | UpdateArea uuid node_payload
  | DeleteArea uuid
  | SetUserScopes uuid "(ScopeLevel \<times> uuid) list"
  | SetDeviceScope string "uuid option"

definition org_run :: "org_event \<Rightarrow> ctx \<Rightarrow> principal \<Rightarrow> platform \<Rightarrow> app_error + platform" where
  "org_run e c p g =
     (case e of
        CreateOrganization x \<Rightarrow> map_sum id snd (create_organization x c p g)
      | UpdateOrganization k x \<Rightarrow> map_sum id snd (update_organization k x c p g)
      | DeleteOrganization k \<Rightarrow> map_sum id snd (delete_organization k c p g)
      | CreatePlant k x \<Rightarrow> map_sum id snd (create_plant k x c p g)
      | UpdatePlant k x \<Rightarrow> map_sum id snd (update_plant k x c p g)
      | DeletePlant k \<Rightarrow> map_sum id snd (delete_plant k c p g)
      | CreateArea k x \<Rightarrow> map_sum id snd (create_area k x c p g)
      | UpdateArea k x \<Rightarrow> map_sum id snd (update_area k x c p g)
      | DeleteArea k \<Rightarrow> map_sum id snd (delete_area k c p g)
      | SetUserScopes k bs \<Rightarrow> map_sum id snd (set_user_scopes k bs c p g)
      | SetDeviceScope d k \<Rightarrow> map_sum id snd (set_device_scope d k c p g))"

text \<open>
  A step is a request that commits, by any caller in any context, or work of the other components, which
  never remove a device and leave the hierarchy, the bindings and the placements alone.
\<close>

definition elsewhere :: "platform \<Rightarrow> platform \<Rightarrow> bool" where
  "elsewhere g g' \<longleftrightarrow>
     g_organizations g' = g_organizations g \<and> g_plants g' = g_plants g \<and> g_areas g' = g_areas g \<and>
     g_device_scopes g' = g_device_scopes g \<and> g_user_scopes g' = g_user_scopes g \<and>
     dev_device_id ` set (w_devices (g_db g)) \<subseteq> dev_device_id ` set (w_devices (g_db g'))"

definition org_step :: "platform \<Rightarrow> (ctx \<times> principal \<times> org_event) option \<Rightarrow> platform \<Rightarrow> bool" where
  "org_step g e g' =
     (case e of None \<Rightarrow> elsewhere g g' | Some (c, p, req) \<Rightarrow> org_run req c p g = Inr g')"

definition org_init :: "platform \<Rightarrow> bool" where
  "org_init g \<longleftrightarrow> g_organizations g = [] \<and> g_plants g = [] \<and> g_areas g = [] \<and> g_device_scopes g = [] \<and> g_user_scopes g = []"

lemma map_sum_snd: "map_sum id snd r = Inr g' \<longleftrightarrow> (\<exists>x. r = Inr (x, g'))"
  by (cases r) auto

lemma org_run_inv: "org_inv g \<Longrightarrow> org_run e c p g = Inr g' \<Longrightarrow> org_inv g'"
  by (cases e)
     (auto simp: org_run_def map_sum_snd intro: create_organization_inv update_organization_inv delete_inv
      create_plant_inv update_plant_inv create_area_inv update_area_inv set_user_scopes_inv set_device_scope_inv)

interpretation org: event_system org_init org_step org_inv
proof
  show "org_init g \<Longrightarrow> org_inv g" for g by (simp add: org_init_def org_inv_def)
  show "org_inv g \<Longrightarrow> org_step g e g' \<Longrightarrow> org_inv g'" for g e g'
    by (auto simp: org_step_def elsewhere_def split: option.splits intro: org_run_inv org_inv_cong)
qed

text \<open>
  C24 (invariant). In every platform the organisation requests can reach, the hierarchy is sound: every
  plant hangs from a stored organisation, every area from a stored plant, names are unique among
  siblings, every device is placed at most once, in a stored area, and is a registered device.
\<close>

theorem hierarchy_sound:
  assumes "reachable org_init org_step g"
  shows "(\<forall>x \<in> set (g_plants g). \<exists>o' \<in> set (g_organizations g). og_id o' = pl_organization_id x) \<and>
    (\<forall>a \<in> set (g_areas g). \<exists>x \<in> set (g_plants g). pl_id x = oar_plant_id a) \<and>
    (\<forall>d \<in> set (g_device_scopes g). (\<exists>a \<in> set (g_areas g). oar_id a = dsc_area_id d) \<and>
       (\<exists>v \<in> set (w_devices (g_db g)). dev_device_id v = dsc_device_id d)) \<and>
    distinct (map dsc_device_id (g_device_scopes g)) \<and> distinct (map og_name (g_organizations g)) \<and>
    distinct (map (\<lambda>x. (pl_organization_id x, pl_name x)) (g_plants g)) \<and>
    distinct (map (\<lambda>a. (oar_plant_id a, oar_name a)) (g_areas g))"
proof -
  have "org_inv g" by (rule org.inv_reachable [OF assms])
  moreover have "plant_key = (\<lambda>x. (pl_organization_id x, pl_name x))" "area_key = (\<lambda>a. (oar_plant_id a, oar_name a))"
    by (simp_all add: fun_eq_iff plant_key_def area_key_def)
  ultimately show ?thesis by (simp add: org_inv_def in_image)
qed

text \<open>
  Deleting an organisation revokes. Bindings keep the identifiers of deleted nodes, but no
  binding of any identity reaches a device that was placed in the deleted organisation; a device placed
  elsewhere keeps exactly the callers it had.
\<close>

theorem delete_organization_revokes:
  assumes reach: "reachable org_init org_step g" and del: "delete_organization k c p g = Inr (u, g')"
    and placed: "d \<in> set (g_device_scopes g)" "a \<in> set (g_areas g)" "oar_id a = dsc_area_id d"
      "x \<in> set (g_plants g)" "pl_id x = oar_plant_id a"
  shows "if pl_organization_id x = k then \<not> reaches g' user_id (dsc_device_id d)
    else reaches g' user_id (dsc_device_id d) \<longleftrightarrow> reaches g user_id (dsc_device_id d)"
proof -
  have inv: "org_inv g" by (rule org.inv_reachable [OF reach])
  let ?gone = "areas_in (plants_in {k} g) g"
  have g': "g_device_scopes g' = filter (\<lambda>d. dsc_area_id d \<notin> ?gone) (g_device_scopes g)"
    "g_areas g' = filter (\<lambda>a. oar_id a \<notin> ?gone) (g_areas g)"
    "g_plants g' = filter (\<lambda>x. pl_id x \<notin> plants_in {k} g) (g_plants g)" "g_user_scopes g' = g_user_scopes g"
    using del by (auto simp: delete_organization_def bindE_Inr_iff drop_organization_tables areas_in_def plants_in_def)
  have one_area: "b = a" if "b \<in> set (g_areas g)" "oar_id b = dsc_area_id d" for b
    using inv that placed(2,3) unfolding org_inv_def distinct_map by (metis inj_onD)
  have one_plant: "y = x" if "y \<in> set (g_plants g)" "pl_id y = oar_plant_id a" for y
    using inv that placed(4,5) unfolding org_inv_def distinct_map by (metis inj_onD)
  have one_dev: "e = d" if "e \<in> set (g_device_scopes g)" "dsc_device_id e = dsc_device_id d" for e
    using inv that placed(1) unfolding org_inv_def distinct_map by (metis inj_onD)
  have gone: "dsc_area_id d \<in> ?gone \<longleftrightarrow> pl_organization_id x = k"
  proof
    assume "dsc_area_id d \<in> ?gone"
    then obtain b y where "b \<in> set (g_areas g)" "oar_id b = dsc_area_id d" "y \<in> set (g_plants g)" "pl_id y = oar_plant_id b"
      "pl_organization_id y = k" by (auto simp: areas_in_def plants_in_def)
    then show "pl_organization_id x = k" using one_area one_plant by metis
  next
    assume "pl_organization_id x = k"
    then have "pl_id x \<in> plants_in {k} g" using placed(4) by (auto simp: plants_in_def)
    then show "dsc_area_id d \<in> ?gone" unfolding areas_in_def using placed(2,3,5) by force
  qed
  show ?thesis
  proof (cases "pl_organization_id x = k")
    case True
    then have "\<not> reaches g' user_id (dsc_device_id d)"
      using gone one_dev by (auto simp: reaches_def g')
    with True show ?thesis by simp
  next
    case False
    have "pl_id x \<notin> plants_in {k} g"
    proof
      assume "pl_id x \<in> plants_in {k} g"
      then obtain y where "y \<in> set (g_plants g)" "pl_id y = pl_id x" "pl_organization_id y = k" by (auto simp: plants_in_def)
      with one_plant [of y] placed(5) False show False by simp
    qed
    then have kept: "a \<in> set (g_areas g')" "x \<in> set (g_plants g')"
      using gone False placed(2-4) by (simp_all add: g')
    have sub: "set (g_areas g') \<subseteq> set (g_areas g)" "set (g_plants g') \<subseteq> set (g_plants g)" by (auto simp: g')
    have areas: "b \<in> set (g_areas g') \<and> oar_id b = dsc_area_id d \<longleftrightarrow> b = a" "b \<in> set (g_areas g) \<and> oar_id b = dsc_area_id d \<longleftrightarrow> b = a" for b
      using kept(1) placed(2,3) sub(1) one_area by blast+
    have plants: "y \<in> set (g_plants g') \<and> oar_plant_id a = pl_id y \<longleftrightarrow> y = x" "y \<in> set (g_plants g) \<and> oar_plant_id a = pl_id y \<longleftrightarrow> y = x" for y
      using kept(2) placed(4,5) sub(2) one_plant by (metis subsetD)+
    have "covers g' b (dsc_area_id d) \<longleftrightarrow> covers g b (dsc_area_id d)" for b
      using covers_placed [of _ "dsc_area_id d", OF areas(1) plants(1)] covers_placed [of _ "dsc_area_id d", OF areas(2) plants(2)] by simp
    moreover have devs: "e \<in> set (g_device_scopes g') \<and> dsc_device_id e = dsc_device_id d \<longleftrightarrow> e = d"
      "e \<in> set (g_device_scopes g) \<and> dsc_device_id e = dsc_device_id d \<longleftrightarrow> e = d" for e
      using False gone placed(1) unfolding g' by (auto dest: one_dev)
    ultimately have "reaches g' user_id (dsc_device_id d) \<longleftrightarrow> reaches g user_id (dsc_device_id d)"
      using reaches_placed [OF devs(1)] reaches_placed [OF devs(2)] by (simp add: g'(4))
    with False show ?thesis by simp
  qed
qed

section \<open>A concrete site\<close>

text \<open>Requests in order; a refused request changes nothing.\<close>

definition org_do :: "ctx \<Rightarrow> principal \<Rightarrow> platform \<Rightarrow> org_event \<Rightarrow> platform" where
  "org_do c p g e = (case org_run e c p g of Inl _ \<Rightarrow> g | Inr g' \<Rightarrow> g')"

lemma org_do_reachable: "reachable init org_step g \<Longrightarrow> reachable init org_step (foldl (org_do c p) g es)"
  by (rule reachable_foldl [where label = "\<lambda>e. Some (c, p, e)"]) (auto simp: org_do_def org_step_def split: sum.splits)

definition site_admin :: principal where
  "site_admin = \<lparr>pn_user_id = ''adm'', pn_username = ''admin'', pn_roles = [''ADMIN''], pn_permissions = {WILDCARD}\<rparr>"

definition site_caller :: principal where
  "site_caller = \<lparr>pn_user_id = u_id eva, pn_username = ''eva'', pn_roles = [''VIEWER''], pn_permissions = {''incident.read''}\<rparr>"

definition site_start :: platform where
  "site_start = gate\<lparr>g_db := empty_world\<lparr>w_devices :=
     [\<lparr>dev_id = ''d'', dev_device_id = ''motor-1'', dev_device_type = ''motor'', dev_name = ''M1'',
       dev_status = ''ACTIVE'', dev_asset_node_id = None\<rparr>]\<rparr>\<rparr>"

text \<open>One organisation with two plants of one area each; eva is bound to the first area, where the motor is.\<close>

definition site :: platform where
  "site = foldl (org_do gate_ctx site_admin) site_start
     [CreateOrganization \<lparr>np_name = ''Works'', np_description = []\<rparr>,
      CreatePlant ''id0'' \<lparr>np_name = ''North'', np_description = []\<rparr>,
      CreatePlant ''id0'' \<lparr>np_name = ''South'', np_description = []\<rparr>,
      CreateArea ''id2'' \<lparr>np_name = ''Hall 1'', np_description = []\<rparr>,
      CreateArea ''id4'' \<lparr>np_name = ''Hall 2'', np_description = []\<rparr>,
      SetUserScopes (u_id eva) [(SL_AREA, ''id6'')],
      SetDeviceScope ''motor-1'' (Some ''id6'')]"

lemma site_reachable: "reachable org_init org_step site"
  unfolding site_def by (rule org_do_reachable) (rule reach_init, simp add: org_init_def site_start_def gate_def)

lemma site_tables:
  "g_plants site =
     [\<lparr>pl_id = ''id2'', pl_organization_id = ''id0'', pl_name = ''North'', pl_description = []\<rparr>,
      \<lparr>pl_id = ''id4'', pl_organization_id = ''id0'', pl_name = ''South'', pl_description = []\<rparr>]"
  "g_areas site =
     [\<lparr>oar_id = ''id6'', oar_plant_id = ''id2'', oar_name = ''Hall 1'', oar_description = []\<rparr>,
      \<lparr>oar_id = ''id8'', oar_plant_id = ''id4'', oar_name = ''Hall 2'', oar_description = []\<rparr>]"
  "g_device_scopes site = [\<lparr>dsc_device_id = ''motor-1'', dsc_area_id = ''id6''\<rparr>]"
  "bindings_of (u_id eva) site = [\<lparr>us_user_id = u_id eva, us_scope_level = SL_AREA, us_scope_id = ''id6''\<rparr>]"
  by code_simp+

theorem area_binding_shows_organisation_witness:
  "shows_area (resolve_organization_access site_caller site) ''id8''"
proof -
  have "WILDCARD \<notin> pn_permissions site_caller" "pn_user_id site_caller = u_id eva" by code_simp+
  then show ?thesis
    using area_binding_shows_organisation [where p = site_caller and g = site and a = "g_areas site ! 0"
        and x = "g_plants site ! 0" and y = "g_plants site ! 1" and b = "g_areas site ! 1"]
    by (simp add: site_tables)
qed

theorem hierarchy_sound_witness:
  "\<exists>v \<in> set (w_devices (g_db site)). dev_device_id v = ''motor-1''"
  using hierarchy_sound [OF site_reachable] by (simp add: site_tables(3))

lemma site_deleted: "case delete_organization ''id0'' gate_ctx site_admin site of Inr _ \<Rightarrow> True | Inl _ \<Rightarrow> False"
  by code_simp

theorem delete_organization_revokes_witness:
  "\<exists>g'. delete_organization ''id0'' gate_ctx site_admin site = Inr ((), g') \<and>
    reaches site (u_id eva) ''motor-1'' \<and> \<not> reaches g' (u_id eva) ''motor-1''"
proof -
  obtain g' where run: "delete_organization ''id0'' gate_ctx site_admin site = Inr ((), g')"
    using site_deleted by (auto split: sum.splits)
  have "reaches site (u_id eva) ''motor-1''" by code_simp
  moreover have "\<not> reaches g' (u_id eva) ''motor-1''"
    using delete_organization_revokes [OF site_reachable run, where d = "g_device_scopes site ! 0"
        and a = "g_areas site ! 0" and x = "g_plants site ! 0" and user_id = "u_id eva"]
    by (simp add: site_tables)
  ultimately show ?thesis using run by blast
qed

end
