(* ===== verification/GovernanceProps.thy ===== *)
theory GovernanceProps
  imports Governance ScopeProps
begin

text \<open>
  Properties of governance: what a policy that passed the write-time validation does when the policy
  engine evaluates it, and the state machine of the change ledger over every sequence of requests.
\<close>

section \<open>Stored policies\<close>

lemma is_digit_value: "is_digit ch \<Longrightarrow> 0 \<le> of_char ch - (48 :: int)"
  unfolding is_digit_def by (metis diff_ge_0_iff_ge of_nat_le_iff of_nat_numeral of_nat_of_char)

lemma digits_value_nonneg: "list_all is_digit ds \<Longrightarrow> 0 \<le> digits_value ds"
proof -
  have "0 \<le> acc \<Longrightarrow> list_all is_digit ds \<Longrightarrow> 0 \<le> foldl (\<lambda>acc ch. 10 * acc + (of_char ch - 48)) (acc :: int) ds" for acc
  proof (induction ds arbitrary: acc)
    case (Cons ch ds)
    then have "0 \<le> 10 * acc + (of_char ch - 48)" using is_digit_value [of ch] by simp
    with Cons.IH Cons.prems show ?case by simp
  qed simp
  then show "list_all is_digit ds \<Longrightarrow> 0 \<le> digits_value ds" by (simp add: digits_value_def)
qed

lemma py_strip_set: "ch \<in> set (py_strip s) \<Longrightarrow> ch \<in> set s"
  by (simp add: py_strip_def) (metis set_dropWhileD set_rev)

lemma unsigned: "py_isdigit s \<Longrightarrow> CHR ''-'' \<notin> set s \<and> CHR ''+'' \<notin> set s"
  by (auto simp: py_isdigit_def list_all_iff is_digit_def)

lemma clock_part_ok: "clock_part s bound = Inr True \<longleftrightarrow> py_isdigit s \<and> (\<exists>n. py_int s = Some n \<and> 0 \<le> n \<and> n \<le> bound)"
proof -
  have "0 \<le> n" if d: "py_isdigit s" and n: "py_int s = Some n" for n
  proof -
    let ?t = "py_strip s"
    have "hd ?t \<noteq> CHR ''-'' \<and> hd ?t \<noteq> CHR ''+''" if "?t \<noteq> []"
      using unsigned [OF d] py_strip_set [of "hd ?t" s] that by (auto dest: hd_in_set)
    then have "(case ?t of [] \<Rightarrow> (1, []) | ch # rest \<Rightarrow> if ch = CHR ''-'' then (- 1, rest) else if ch = CHR ''+'' then (1, rest) else (1, ?t)) = (1 :: int, ?t)"
      by (auto split: list.splits)
    then have "n = digits_value (concat (py_split (CHR ''_'') ?t))" "list_all (\<lambda>g. list_all is_digit g) (py_split (CHR ''_'') ?t)"
      using n by (auto simp: py_int_def Let_def list_all_iff split: if_splits)
    then show ?thesis using digits_value_nonneg [of "concat (py_split (CHR ''_'') ?t)"] by (auto simp: list_all_iff)
  qed
  then show ?thesis by (auto simp: clock_part_def split: option.splits)
qed

lemma validate_clock_ok:
  assumes "validate_clock v = Inr ()"
  shows "\<exists>t. parse_clock v = Some t \<and> 0 \<le> t \<and> t < 1440"
proof -
  obtain s h m where v: "v = Some (JStr s)" and "py_split (CHR '':'') s = [h, m]"
    and h: "clock_part h 23 = Inr True" and m: "clock_part m 59 = Inr True"
    using assms by (auto simp: validate_clock_def bindE_Inr_iff policy_invalid_def split: option.splits json.splits if_splits list.splits)
  then show ?thesis by (auto simp: clock_part_ok parse_clock_def)
qed

lemma validate_time_window_ok:
  assumes "validate_time_window v = Inr ()"
  obtains w days start till where "v = JObj w" "map_of w ''days'' = Some (JList days)" "days \<noteq> []"
    "list_all (\<lambda>d. iso_day d \<noteq> None) days" "parse_clock (map_of w ''start'') = Some start" "parse_clock (map_of w ''end'') = Some till"
    "0 \<le> start" "start < 1440" "0 \<le> till" "till < 1440"
  using assms
  by (auto simp: validate_time_window_def bindE_Inr_iff split: json.splits option.splits if_splits dest!: validate_clock_ok)

lemma validate_condition_keys:
  assumes "validate_condition (key, value) = Inr ()"
  shows "key = ''always'' \<and> value = JBool True \<or>
    key = ''time_window'' \<and> validate_time_window value = Inr () \<or>
    key = ''roles'' \<and> (\<exists>vs. value = JList vs \<and> vs \<noteq> [] \<and> (\<forall>v \<in> set vs. \<exists>r. v = JStr r \<and> r \<noteq> []))"
proof -
  have key: "key \<in> {''roles'', ''time_window'', ''always''}"
    using assms by (auto simp: validate_condition_def SUPPORTED_CONDITION_KEYS_def split: if_splits)
  have role: "(case v of JStr s \<Rightarrow> s \<noteq> [] | _ \<Rightarrow> False) \<longleftrightarrow> (\<exists>r. v = JStr r \<and> r \<noteq> [])" for v by (cases v) auto
  from key consider "key = ''roles''" | "key = ''time_window''" | "key = ''always''" by blast
  then show ?thesis
  proof cases
    case 1
    then obtain vs where "value = JList vs" using assms
      by (cases "value") (simp_all add: validate_condition_def SUPPORTED_CONDITION_KEYS_def policy_invalid_def)
    with 1 assms show ?thesis by (simp add: validate_condition_def SUPPORTED_CONDITION_KEYS_def list_all_iff role)
  qed (use assms in \<open>simp_all add: validate_condition_def SUPPORTED_CONDITION_KEYS_def\<close>)
qed

lemma roles_verdict:
  assumes "\<forall>v \<in> set vs. \<exists>r. v = JStr r \<and> r \<noteq> []"
  shows "condition_verdict q now (''roles'', JList vs) = (if \<exists>r \<in> set (pn_roles q). JStr r \<in> set vs then Holds else Fails)"
proof -
  have "list_all hashable vs" unfolding list_all_iff using assms by (metis hashable_def json.simps)
  then show ?thesis by (simp add: condition_verdict_def list_ex_iff)
qed

lemma validate_condition_verdict:
  assumes "validate_condition kv = Inr ()"
  shows "condition_verdict q now kv \<in> {Holds, Fails}"
proof (cases kv)
  case (Pair key "value")
  from validate_condition_keys [OF assms [unfolded Pair]] show ?thesis
    unfolding Pair by (elim disjE conjE exE) (simp_all add: condition_verdict_def [of q now "(''always'', _)"] roles_verdict, simp add: condition_verdict_def)
qed

lemma mapE_Inr_ball: "mapE f xs = Inr ys \<Longrightarrow> \<forall>x \<in> set xs. \<exists>y. f x = Inr y"
  by (induction xs arbitrary: ys) (auto simp: bindE_Inr_iff)

lemma validate_conditions_ok:
  "validate_conditions cs = Inr () \<Longrightarrow> \<forall>kv \<in> set cs. validate_condition kv = Inr ()"
  by (auto simp: validate_conditions_def bindE_Inr_iff dest!: mapE_Inr_ball)

lemma conditions_loop_clean:
  "\<forall>kv \<in> set cs. condition_verdict q now kv \<in> {Holds, Fails} \<Longrightarrow>
    conditions_loop q now cs w = (Inr (\<forall>kv \<in> set cs. condition_verdict q now kv = Holds), w)"
  by (induction cs) auto

lemma window_moment:
  assumes "1 \<le> d" "d \<le> 7" "0 \<le> start" "start < 1440"
  shows "isoweekday (seconds (86400 * (d + 3)) + seconds (60 * start)) = d \<and>
    minute_of_day (seconds (86400 * (d + 3)) + seconds (60 * start)) = start"
proof -
  have split: "(n * k + r) div n = k" "(n * k + r) mod n = r" if "0 \<le> r" "r < n" for n k r :: int using that by simp_all
  have "60000000 * start < 86400000000" "0 \<le> 60000000 * start" using assms by auto
  note split [OF this(2,1), of "d + 3"]
  moreover have "(d + 6) mod 7 = d - 1" using assms by presburger
  ultimately show ?thesis by (simp add: isoweekday_def minute_of_day_def seconds_def algebra_simps)
qed

lemma time_window_satisfiable:
  assumes "validate_time_window (JObj w) = Inr ()"
  shows "(\<exists>now. matches_time_window (JObj w) now) \<longleftrightarrow> parse_clock (map_of w ''start'') \<noteq> parse_clock (map_of w ''end'')"
proof (rule validate_time_window_ok [OF assms])
  fix w' days start till
  assume w': "JObj w = JObj w'" and days: "map_of w' ''days'' = Some (JList days)" "days \<noteq> []" "list_all (\<lambda>d. iso_day d \<noteq> None) days"
    and clock: "parse_clock (map_of w' ''start'') = Some start" "parse_clock (map_of w' ''end'') = Some till" "0 \<le> start" "start < 1440"
  obtain x d where d: "x \<in> set days" "iso_day x = Some d" using days(2,3) by (cases days) auto
  then have "1 \<le> d" "d \<le> 7" by (auto simp: iso_day_def split: json.splits option.splits if_splits)
  from window_moment [OF this clock(3,4)]
  have "matches_time_window (JObj w) (seconds (86400 * (d + 3)) + seconds (60 * start))" if "start \<noteq> till"
    using that w' days(1,3) clock(1,2) d by (force simp: matches_time_window_def in_clock_window_def)
  moreover have "\<not> matches_time_window (JObj w) now" if "start = till" for now
    using that w' days clock by (simp add: matches_time_window_def in_clock_window_def)
  ultimately show ?thesis using w' clock by auto
qed

lemma verdict_simps:
  "condition_verdict q now (''always'', JBool True) = Holds"
  "condition_verdict q now (''time_window'', v) = (if matches_time_window v now then Holds else Fails)"
  by (simp_all add: condition_verdict_def)

lemma satisfiable_conditions:
  assumes ok: "validate_conditions cs = Inr ()" and dist: "distinct (map fst cs)"
    and tw: "\<forall>tw. map_of cs ''time_window'' = Some (JObj tw) \<longrightarrow> parse_clock (map_of tw ''start'') \<noteq> parse_clock (map_of tw ''end'')"
  shows "\<exists>q now. \<forall>kv \<in> set cs. condition_verdict q now kv = Holds"
proof -
  note each = validate_conditions_ok [OF ok]
  have stored: "(k, v) \<in> set cs \<longleftrightarrow> map_of cs k = Some v" for k v using dist by simp
  obtain now where now: "map_of cs ''time_window'' = Some v \<Longrightarrow> matches_time_window v now" for v
  proof (cases "map_of cs ''time_window''")
    case (Some v)
    then have "validate_time_window v = Inr ()" using each validate_condition_keys [of "''time_window''" v] by (auto simp: stored [symmetric])
    moreover from this obtain w where "v = JObj w" by (rule validate_time_window_ok)
    ultimately show ?thesis using time_window_satisfiable [of w] tw Some that by auto
  qed (use that in simp)
  obtain q :: principal where q: "map_of cs ''roles'' = Some (JList vs) \<Longrightarrow> vs \<noteq> [] \<Longrightarrow> \<forall>v \<in> set vs. \<exists>r. v = JStr r \<and> r \<noteq> [] \<Longrightarrow>
      \<exists>r \<in> set (pn_roles q). JStr r \<in> set vs" for vs
  proof (cases "map_of cs ''roles''")
    case (Some v)
    define r where "r = (case v of JList (JStr r # _) \<Rightarrow> r | _ \<Rightarrow> [])"
    let ?q = "\<lparr>pn_user_id = [], pn_username = [], pn_roles = [r], pn_permissions = {}\<rparr>"
    have "\<exists>r \<in> set (pn_roles ?q). JStr r \<in> set vs" if "v = JList vs" "vs \<noteq> []" "\<forall>v \<in> set vs. \<exists>r. v = JStr r \<and> r \<noteq> []" for vs
      using that by (cases vs) (auto simp: r_def)
    with Some show ?thesis using that [of ?q] by simp
  qed (use that in simp)
  have "condition_verdict q now (k, v) = Holds" if "(k, v) \<in> set cs" for k v
  proof -
    have valid: "validate_condition (k, v) = Inr ()" using each that by blast
    from validate_condition_keys [OF valid] show ?thesis
    proof (elim disjE conjE exE)
      fix vs
      assume "k = ''roles''" "v = JList vs" "vs \<noteq> []" "\<forall>v \<in> set vs. \<exists>r. v = JStr r \<and> r \<noteq> []"
      with that q show ?thesis by (auto simp: roles_verdict stored)
    qed (use that now in \<open>auto simp: verdict_simps stored\<close>)
  qed
  then have "\<forall>kv \<in> set cs. condition_verdict q now kv = Holds" by auto
  then show ?thesis by blast
qed


definition night_policy :: policy_create where
  "night_policy = \<lparr>pc_name = ''nights'', pc_description = [], pc_permission = INCIDENT_CREATE,
     pc_conditions = [(''roles'', JList [JStr ''VIEWER'']), (''time_window'', JObj [(''days'', JList [JInt 1, JInt 7]),
       (''start'', JStr ''22:00''), (''end'', JStr ''22:00'')])], pc_enabled = True\<rparr>"

lemma night_policy_created:
  "case create_policy night_policy gate_ctx site_admin gate of Inr _ \<Rightarrow> True | Inl _ \<Rightarrow> False"
  by code_simp


section \<open>The change ledger\<close>

datatype change_event =
    CreateChange change_create
  | UpdateChange uuid change_update
  | TransitionChange uuid ChangeStatus "pydatetime option" "pydatetime option"

definition change_run :: "change_event \<Rightarrow> ctx \<Rightarrow> principal \<Rightarrow> platform \<Rightarrow> app_error + platform" where
  "change_run e c p g =
     (case e of
        CreateChange x \<Rightarrow> map_sum id snd (create_change x c p g)
      | UpdateChange k x \<Rightarrow> map_sum id snd (update_change k x c p g)
      | TransitionChange k target start till \<Rightarrow> map_sum id snd (transition_change k target start till c p g))"

text \<open>A step is a request that commits, or work of the other components, which leave the ledger alone.\<close>

definition change_step :: "platform \<Rightarrow> (ctx \<times> principal \<times> change_event) option \<Rightarrow> platform \<Rightarrow> bool" where
  "change_step g e g' =
     (case e of None \<Rightarrow> g_changes g' = g_changes g | Some (c, p, req) \<Rightarrow> change_run req c p g = Inr g')"

definition change_init :: "platform \<Rightarrow> bool" where
  "change_init g \<longleftrightarrow> g_changes g = []"

definition change_window_ok :: "change_record \<Rightarrow> bool" where
  "change_window_ok r =
     (case (ch_scheduled_start r, ch_scheduled_end r) of
        (None, None) \<Rightarrow> ch_status r \<in> {CS_DRAFT, CS_CANCELLED}
      | (Some s, Some e) \<Rightarrow> s < e \<and> ch_status r \<noteq> CS_DRAFT
      | _ \<Rightarrow> False)"

definition change_inv :: "platform \<Rightarrow> bool" where
  "change_inv g \<longleftrightarrow> distinct (map ch_id (g_changes g)) \<and> (\<forall>r \<in> set (g_changes g). change_window_ok r)"

lemma mutation_audit_changes [simp]: "g_changes (mutation_audit c act res k p ds g) = g_changes g"
  by (simp add: mutation_audit_def on_world_def)

lemma create_change_table:
  "create_change x c p g = Inr (row, g') \<Longrightarrow>
    g_changes g' = g_changes g @ [row] \<and> ch_id row \<notin> ch_id ` set (g_changes g) \<and> ch_status row = CS_DRAFT \<and>
    ch_scheduled_start row = None \<and> ch_scheduled_end row = None"
  by (auto simp: create_change_def Let_def uuid4_def utc_now_def split: if_splits)

lemma update_change_table:
  assumes "update_change k x c p g = Inr (row, g')"
  obtains r f where "find_row ch_id k (g_changes g) = Some r" "ch_status r = CS_DRAFT"
    "g_changes g' = update_rows ch_id k f (g_changes g)"
    "\<And>z. ch_id (f z) = ch_id z \<and> ch_status (f z) = ch_status z \<and> ch_scheduled_start (f z) = ch_scheduled_start z \<and>
       ch_scheduled_end (f z) = ch_scheduled_end z \<and> ch_requested_by_user_id (f z) = ch_requested_by_user_id z \<and>
       ch_requested_by_name (f z) = ch_requested_by_name z \<and> ch_created_at (f z) = ch_created_at z"
  using assms by (auto simp: update_change_def require_change_def bindE_Inr_iff Let_def split: if_splits option.splits)

lemma transition_change_table:
  assumes "transition_change k target start till c p g = Inr (row, g')"
  obtains r a b where "find_row ch_id k (g_changes g) = Some r" "target \<in> set (CHANGE_TRANSITIONS (ch_status r))"
    "g_changes g' = update_rows ch_id k (\<lambda>z. z\<lparr>ch_status := target, ch_scheduled_start := a, ch_scheduled_end := b\<rparr>) (g_changes g)"
    "target = CS_SCHEDULED \<Longrightarrow> \<exists>s e. a = Some s \<and> b = Some e \<and> s < e"
    "target \<noteq> CS_SCHEDULED \<Longrightarrow> a = ch_scheduled_start r \<and> b = ch_scheduled_end r"
proof -
  obtain r where r: "find_row ch_id k (g_changes g) = Some r" "target \<in> set (CHANGE_TRANSITIONS (ch_status r))"
    and none: "target \<noteq> CS_SCHEDULED \<Longrightarrow> start = None \<and> till = None"
    and ok: "target = CS_SCHEDULED \<Longrightarrow> check_window (window_bound start (ch_scheduled_start r)) (window_bound till (ch_scheduled_end r)) = Inr ()"
    and g': "g_changes g' = update_rows ch_id k (\<lambda>z. z\<lparr>ch_status := target,
      ch_scheduled_start := instant_of (window_bound start (ch_scheduled_start r)),
      ch_scheduled_end := instant_of (window_bound till (ch_scheduled_end r))\<rparr>) (g_changes g)"
    using assms by (auto simp: transition_change_def require_change_def bindE_Inr_iff Let_def split: if_splits option.splits)
  show ?thesis
  proof (rule that [OF r g'])
    show "target = CS_SCHEDULED \<Longrightarrow> \<exists>s e. instant_of (window_bound start (ch_scheduled_start r)) = Some s \<and>
        instant_of (window_bound till (ch_scheduled_end r)) = Some e \<and> s < e"
      using ok by (auto simp: check_window_def instant_of_def split: option.splits pydatetime.splits if_splits)
    show "target \<noteq> CS_SCHEDULED \<Longrightarrow> instant_of (window_bound start (ch_scheduled_start r)) = ch_scheduled_start r \<and>
        instant_of (window_bound till (ch_scheduled_end r)) = ch_scheduled_end r"
      using none by (auto simp: window_bound_def instant_of_def split: option.splits)
  qed
qed

text \<open>What may become of a record: its status moves along the table, and once it left the draft only the status does.\<close>

definition change_moves :: "(ChangeStatus \<times> ChangeStatus) set" where
  "change_moves = {(s, t). t \<in> set (CHANGE_TRANSITIONS s)}"

definition change_leads :: "change_record \<Rightarrow> change_record \<Rightarrow> bool" where
  "change_leads r r' \<longleftrightarrow>
     ch_id r' = ch_id r \<and> ch_requested_by_user_id r' = ch_requested_by_user_id r \<and>
     ch_requested_by_name r' = ch_requested_by_name r \<and> ch_created_at r' = ch_created_at r \<and>
     (ch_status r, ch_status r') \<in> change_moves\<^sup>* \<and>
     (ch_status r \<noteq> CS_DRAFT \<longrightarrow> r' = r\<lparr>ch_status := ch_status r'\<rparr>)"

lemma moves_to_draft: "(s, CS_DRAFT) \<in> change_moves\<^sup>* \<Longrightarrow> s = CS_DRAFT"
  by (erule rtranclE) (auto simp: change_moves_def CHANGE_TRANSITIONS_def split: ChangeStatus.splits)

lemma change_leads_refl: "change_leads r r"
  by (simp add: change_leads_def)

lemma change_leads_trans:
  assumes one: "change_leads r r'" and two: "change_leads r' r''"
  shows "change_leads r r''"
proof -
  have "r'' = r\<lparr>ch_status := ch_status r''\<rparr>" if draft: "ch_status r \<noteq> CS_DRAFT"
  proof -
    have "ch_status r' \<noteq> CS_DRAFT" using one draft moves_to_draft [of "ch_status r"] by (auto simp: change_leads_def)
    then have "r'' = r'\<lparr>ch_status := ch_status r''\<rparr>" "r' = r\<lparr>ch_status := ch_status r'\<rparr>"
      using one two draft by (simp_all add: change_leads_def)
    then show ?thesis by (metis change_record.surjective change_record.update_convs(6))
  qed
  with one two show ?thesis unfolding change_leads_def by (auto intro: rtrancl_trans)
qed

lemma only_row: "distinct (map key rows) \<Longrightarrow> find_row key k rows = Some r \<Longrightarrow> z \<in> set rows \<Longrightarrow> key z = k \<Longrightarrow> z = r"
  using find_row_unique by fastforce

lemma ledger_update:
  assumes inv: "change_inv g" and row: "find_row ch_id k (g_changes g) = Some r"
    and table: "g_changes g' = update_rows ch_id k f (g_changes g)"
    and f: "\<And>z. ch_id (f z) = ch_id z" "change_window_ok (f r)" "change_leads r (f r)"
  shows "change_inv g' \<and> (\<forall>z \<in> set (g_changes g). \<exists>z' \<in> set (g_changes g'). change_leads z z')"
proof -
  have one: "z = r" if "z \<in> set (g_changes g)" "ch_id z = k" for z
    using only_row [of ch_id, OF _ row that] inv by (simp add: change_inv_def)
  have "distinct (map ch_id (g_changes g'))"
    using inv by (simp add: change_inv_def table map_key_update_rows f(1))
  moreover have "change_window_ok z" if "z \<in> set (g_changes g')" for z
    using that inv f(2) by (auto simp: table update_rows_def change_inv_def dest: one)
  moreover have "\<exists>z' \<in> set (g_changes g'). change_leads z z'" if "z \<in> set (g_changes g)" for z
  proof (rule bexI)
    show "change_leads z (if ch_id z = k then f z else z)" using f(3) one [OF that] by (cases "ch_id z = k") (simp_all add: change_leads_refl)
    show "(if ch_id z = k then f z else z) \<in> set (g_changes g')" using that by (simp add: table update_rows_def)
  qed
  ultimately show ?thesis by (simp add: change_inv_def)
qed

lemma change_step_leads:
  assumes inv: "change_inv g" and step: "change_step g e g'"
  shows "change_inv g' \<and> (\<forall>z \<in> set (g_changes g). \<exists>z' \<in> set (g_changes g'). change_leads z z')"
proof (cases e)
  case None
  with assms show ?thesis by (auto simp: change_step_def change_inv_def intro: change_leads_refl)
next
  case (Some cpe)
  obtain c p req where e: "e = Some (c, p, req)" using Some by (cases cpe) auto
  show ?thesis
  proof (cases req)
    case (CreateChange x)
    then obtain row where "create_change x c p g = Inr (row, g')" using step by (auto simp: e change_step_def change_run_def map_sum_snd)
    from create_change_table [OF this] inv show ?thesis
      by (auto simp: change_inv_def change_window_ok_def intro: change_leads_refl)
  next
    case (UpdateChange k x)
    then obtain row where "update_change k x c p g = Inr (row, g')" using step by (auto simp: e change_step_def change_run_def map_sum_snd)
    then show ?thesis
    proof (rule update_change_table)
      fix r f
      assume r: "find_row ch_id k (g_changes g) = Some r" "ch_status r = CS_DRAFT"
        and t: "g_changes g' = update_rows ch_id k f (g_changes g)"
        and f: "\<And>z. ch_id (f z) = ch_id z \<and> ch_status (f z) = ch_status z \<and> ch_scheduled_start (f z) = ch_scheduled_start z \<and>
         ch_scheduled_end (f z) = ch_scheduled_end z \<and> ch_requested_by_user_id (f z) = ch_requested_by_user_id z \<and>
         ch_requested_by_name (f z) = ch_requested_by_name z \<and> ch_created_at (f z) = ch_created_at z"
      have "change_window_ok r" using inv find_row_Some [OF r(1)] by (simp add: change_inv_def)
      then have "change_window_ok (f r)" using f [of r] by (simp add: change_window_ok_def split: option.splits)
      moreover have "change_leads r (f r)" using f [of r] by (simp add: change_leads_def r(2))
      ultimately show ?thesis using ledger_update [OF inv r(1) t] f by blast
    qed
  next
    case (TransitionChange k target start till)
    then obtain row where "transition_change k target start till c p g = Inr (row, g')"
      using step by (auto simp: e change_step_def change_run_def map_sum_snd)
    then show ?thesis
    proof (rule transition_change_table)
      fix r a b
      assume r: "find_row ch_id k (g_changes g) = Some r" "target \<in> set (CHANGE_TRANSITIONS (ch_status r))"
        and t: "g_changes g' = update_rows ch_id k (\<lambda>z. z\<lparr>ch_status := target, ch_scheduled_start := a, ch_scheduled_end := b\<rparr>) (g_changes g)"
        and sched: "target = CS_SCHEDULED \<Longrightarrow> \<exists>s e. a = Some s \<and> b = Some e \<and> s < e"
        and other: "target \<noteq> CS_SCHEDULED \<Longrightarrow> a = ch_scheduled_start r \<and> b = ch_scheduled_end r"
      let ?r = "r\<lparr>ch_status := target, ch_scheduled_start := a, ch_scheduled_end := b\<rparr>"
      have ok: "change_window_ok r" using inv find_row_Some [OF r(1)] by (simp add: change_inv_def)
      have "change_window_ok ?r"
        using ok sched other r(2) by (cases "ch_status r") (auto simp: change_window_ok_def CHANGE_TRANSITIONS_def split: option.splits)
      moreover have "target = CS_SCHEDULED \<Longrightarrow> ch_status r = CS_DRAFT"
        using r(2) by (cases "ch_status r") (auto simp: CHANGE_TRANSITIONS_def)
      then have "change_leads r ?r"
        using other r(2) by (cases "target = CS_SCHEDULED") (auto simp: change_leads_def change_moves_def intro: r_into_rtrancl)
      ultimately show ?thesis using ledger_update [OF inv r(1) t] by simp
    qed
  qed
qed

interpretation ledger: event_system change_init change_step change_inv
  by unfold_locales (simp add: change_init_def change_inv_def, blast dest: change_step_leads)

text \<open>
  The change ledger. In every state the change requests can reach, a record has both window
  bounds or none, the start lies before the end, a draft has no window, and only a record that was never
  scheduled has been cancelled without one: whatever is scheduled, in progress or completed has its window.
\<close>

theorem change_ledger_windows:
  assumes "reachable change_init change_step g" and "r \<in> set (g_changes g)"
  shows "if ch_status r \<in> {CS_SCHEDULED, CS_IN_PROGRESS, CS_COMPLETED}
    then \<exists>s e. ch_scheduled_start r = Some s \<and> ch_scheduled_end r = Some e \<and> s < e
    else (ch_scheduled_start r = None \<longleftrightarrow> ch_scheduled_end r = None) \<and>
      (ch_status r = CS_DRAFT \<longrightarrow> ch_scheduled_start r = None)"
proof -
  have "change_window_ok r" using ledger.inv_reachable [OF assms(1)] assms(2) by (simp add: change_inv_def)
  then show ?thesis
    by (cases "ch_scheduled_start r"; cases "ch_scheduled_end r") (auto simp: change_window_ok_def)
qed

text \<open>
  History of a change. From any reachable ledger, over any further requests of any callers, a
  record is never removed and never changes its identity, requester or creation time; its status only
  moves forward along the transition table; once it left the draft nothing but the status changes; a
  completed or cancelled record never changes again.
\<close>

theorem change_history:
  assumes "reachable change_init change_step g" and "reachable (\<lambda>h. h = g) change_step g'" and "r \<in> set (g_changes g)"
  shows "\<exists>r' \<in> set (g_changes g'). ch_id r' = ch_id r \<and> ch_requested_by_user_id r' = ch_requested_by_user_id r \<and>
    ch_requested_by_name r' = ch_requested_by_name r \<and> ch_created_at r' = ch_created_at r \<and>
    (ch_status r, ch_status r') \<in> {(s, t). t \<in> set (CHANGE_TRANSITIONS s)}\<^sup>* \<and>
    (ch_status r \<noteq> CS_DRAFT \<longrightarrow> r' = r\<lparr>ch_status := ch_status r'\<rparr>) \<and>
    (ch_status r \<in> {CS_COMPLETED, CS_CANCELLED} \<longrightarrow> r' = r)"
proof -
  have "change_inv g' \<and> (\<exists>r' \<in> set (g_changes g'). change_leads r r')"
    using assms(2)
  proof (induction rule: reachable.induct)
    case (reach_init h)
    with assms(3) ledger.inv_reachable [OF assms(1)] show ?case by (auto intro: change_leads_refl)
  next
    case (reach_step h e h')
    then show ?case using change_step_leads [of h e h'] change_leads_trans by blast
  qed
  then obtain r' where r': "r' \<in> set (g_changes g')" "change_leads r r'" by blast
  moreover have "r' = r" if "ch_status r \<in> {CS_COMPLETED, CS_CANCELLED}"
  proof -
    have "CHANGE_TRANSITIONS (ch_status r) = []" using that by (auto simp: CHANGE_TRANSITIONS_def)
    then have "ch_status r' = ch_status r" using r'(2) by (auto simp: change_leads_def change_moves_def elim: converse_rtranclE)
    moreover have "r' = r\<lparr>ch_status := ch_status r'\<rparr>" using r'(2) that by (auto simp: change_leads_def)
    ultimately show ?thesis by simp
  qed
  ultimately show ?thesis unfolding change_leads_def change_moves_def by blast
qed

section \<open>A concrete ledger\<close>

definition change_do :: "ctx \<Rightarrow> principal \<Rightarrow> platform \<Rightarrow> change_event \<Rightarrow> platform" where
  "change_do c p g e = (case change_run e c p g of Inl _ \<Rightarrow> g | Inr g' \<Rightarrow> g')"

lemma change_do_reachable: "reachable init change_step g \<Longrightarrow> reachable init change_step (foldl (change_do c p) g es)"
  by (rule reachable_foldl [where label = "\<lambda>e. Some (c, p, e)"]) (auto simp: change_do_def change_step_def split: sum.splits)

definition pump_change :: change_create where
  "pump_change = \<lparr>cc_title = ''Replace pump'', cc_description = [], cc_change_type = CT_HARDWARE, cc_risk_level = CR_HIGH,
     cc_resource_type = None, cc_resource_id = None\<rparr>"

definition planned :: platform where
  "planned = foldl (change_do gate_ctx site_admin) gate
     [CreateChange pump_change, TransitionChange ''id0'' CS_SCHEDULED (Some (Aware 5)) (Some (Aware 9))]"

lemma planned_reachable: "reachable change_init change_step planned"
  unfolding planned_def by (rule change_do_reachable, rule reach_init) (simp add: change_init_def gate_def)

lemma planned_record: "case g_changes planned of [r] \<Rightarrow> ch_status r = CS_SCHEDULED \<and> ch_scheduled_start r = Some 5 | _ \<Rightarrow> False"
  by code_simp

theorem change_ledger_windows_witness:
  "\<exists>r \<in> set (g_changes planned). ch_status r = CS_SCHEDULED \<and> (\<exists>e. ch_scheduled_end r = Some e \<and> 5 < e)"
proof -
  obtain r where r: "g_changes planned = [r]" "ch_status r = CS_SCHEDULED" "ch_scheduled_start r = Some 5"
    using planned_record by (auto split: list.splits)
  then show ?thesis using change_ledger_windows [OF planned_reachable, of r] by auto
qed

lemma planned_cancelled:
  "case (g_changes planned, g_changes (foldl (change_do gate_ctx site_admin) planned [TransitionChange ''id0'' CS_CANCELLED None None])) of
     ([r], [r']) \<Rightarrow> ch_status r \<noteq> CS_DRAFT \<and> ch_status r' = CS_CANCELLED | _ \<Rightarrow> False"
  by code_simp

theorem change_history_witness:
  "\<exists>r r'. g_changes planned = [r] \<and>
    g_changes (foldl (change_do gate_ctx site_admin) planned [TransitionChange ''id0'' CS_CANCELLED None None]) = [r'] \<and>
    r' = r\<lparr>ch_status := CS_CANCELLED\<rparr>"
proof -
  let ?after = "foldl (change_do gate_ctx site_admin) planned [TransitionChange ''id0'' CS_CANCELLED None None]"
  obtain r r' where r: "g_changes planned = [r]" "g_changes ?after = [r']" "ch_status r \<noteq> CS_DRAFT" "ch_status r' = CS_CANCELLED"
    using planned_cancelled by (auto split: list.splits)
  have "reachable (\<lambda>h. h = planned) change_step ?after" by (rule change_do_reachable) (rule reach_init, simp)
  from change_history [OF planned_reachable this, of r] r show ?thesis by auto
qed

end
