(* ===== verification/Gateway.thy ===== *)
theory Gateway
  imports Ingestion "HOL-Library.AList"
begin

text \<open>
  The industrial gateway: the typed device definitions of \<^verbatim>\<open>gateway/models.py\<close>, the sample contract of
  \<^verbatim>\<open>adapters/models.py\<close>, the normaliser and the ingestion bridge (\<^verbatim>\<open>gateway/normalizer.py\<close>,
  \<^verbatim>\<open>gateway/ingestion.py\<close>), the device registry, the runtime of one device as a state machine whose
  events are what its awaits return (\<^verbatim>\<open>gateway/runtime.py\<close>), and the gateway that owns the runtimes
  (\<^verbatim>\<open>gateway/gateway.py\<close>). What a device answers and when a timer fires are the events.
\<close>

section \<open>Definitions\<close>

datatype protocol_type = PT_MQTT | PT_OPC_UA | PT_MODBUS_TCP | PT_SIMULATOR

definition protocol_value :: "protocol_type \<Rightarrow> string" where
  "protocol_value p =
     (case p of PT_MQTT \<Rightarrow> ''mqtt'' | PT_OPC_UA \<Rightarrow> ''opc_ua'' | PT_MODBUS_TCP \<Rightarrow> ''modbus_tcp''
      | PT_SIMULATOR \<Rightarrow> ''simulator'')"

definition CANONICAL_SIGNAL_FIELDS :: "string list" where
  "CANONICAL_SIGNAL_FIELDS =
     [''temperature'', ''bearing_temperature'', ''vibration'', ''current'', ''voltage'', ''rpm'', ''load'', ''power'']"

definition FIRST_HOLDING_REGISTER :: int where
  "FIRST_HOLDING_REGISTER = 40001"

datatype DeviceState =
    DS_DISABLED | DS_STARTING | DS_CONNECTING | DS_CONNECTED | DS_DEGRADED | DS_RECONNECTING | DS_ERROR | DS_STOPPED

definition device_state_value :: "DeviceState \<Rightarrow> string" where
  "device_state_value s =
     (case s of DS_DISABLED \<Rightarrow> ''DISABLED'' | DS_STARTING \<Rightarrow> ''STARTING'' | DS_CONNECTING \<Rightarrow> ''CONNECTING''
      | DS_CONNECTED \<Rightarrow> ''CONNECTED'' | DS_DEGRADED \<Rightarrow> ''DEGRADED'' | DS_RECONNECTING \<Rightarrow> ''RECONNECTING''
      | DS_ERROR \<Rightarrow> ''ERROR'' | DS_STOPPED \<Rightarrow> ''STOPPED'')"

text \<open>The message of the \<^verbatim>\<open>ValueError\<close> that refuses a mapping, if it is refused. Keys of a mapping are distinct.\<close>

definition require_full_coverage :: "string list \<Rightarrow> string \<Rightarrow> string option" where
  "require_full_coverage present protocol =
     (let unknown = sort_by (\<le>) (filter (\<lambda>s. s \<notin> set CANONICAL_SIGNAL_FIELDS) present);
          missing = sort_by (\<le>) (filter (\<lambda>s. s \<notin> set present) CANONICAL_SIGNAL_FIELDS);
          problems = (if unknown = [] then [] else [''unknown signals: '' @ py_join '', '' unknown])
            @ (if missing = [] then [] else [''missing canonical signals: '' @ py_join '', '' missing])
      in if problems = [] then None
         else Some (protocol @ '' signal mapping must map exactly the canonical signals; '' @ py_join ''; '' problems))"

datatype state_target = TargetOperating | TargetFault

datatype rule_operator = OpEq | OpNe | OpGt | OpGte | OpLt | OpLte

record state_rule =
  sru_target :: state_target
  sru_signal :: string
  sru_operator :: rule_operator
  sru_threshold :: pyfloat
  sru_then :: string

definition rule_matches :: "state_rule \<Rightarrow> pyfloat \<Rightarrow> bool" where
  "rule_matches r measurement =
     (case sru_operator r of
        OpEq \<Rightarrow> float_eq measurement (sru_threshold r)
      | OpNe \<Rightarrow> \<not> float_eq measurement (sru_threshold r)
      | OpGt \<Rightarrow> float_less (sru_threshold r) measurement
      | OpGte \<Rightarrow> float_le (sru_threshold r) measurement
      | OpLt \<Rightarrow> float_less measurement (sru_threshold r)
      | OpLte \<Rightarrow> float_le measurement (sru_threshold r))"

definition state_rule_ok :: "state_rule \<Rightarrow> bool" where
  "state_rule_ok r \<longleftrightarrow> sru_signal r \<in> set CANONICAL_SIGNAL_FIELDS \<and> text_between 1 100 (sru_then r)"

record state_definition =
  sd_operating_state :: string
  sd_fault_state :: string
  sd_derived :: "state_rule list"

definition state_definition_ok :: "state_definition \<Rightarrow> bool" where
  "state_definition_ok d \<longleftrightarrow>
     text_between 1 50 (sd_operating_state d) \<and> text_between 1 100 (sd_fault_state d) \<and>
     list_all state_rule_ok (sd_derived d)"

record register_config =
  rgc_address :: int
  rgc_scale :: pyfloat
  rgc_unit :: "string option"

definition register_config_ok :: "register_config \<Rightarrow> bool" where
  "register_config_ok r \<longleftrightarrow>
     FIRST_HOLDING_REGISTER \<le> rgc_address r \<and> rgc_address r \<le> FIRST_HOLDING_REGISTER + 65535 \<and>
     float_isfinite (rgc_scale r)"

record modbus_config =
  mbc_host :: string
  mbc_port :: int
  mbc_unit_id :: int
  mbc_timeout_seconds :: pyfloat
  mbc_registers :: "(string \<times> register_config) list"

definition modbus_config_ok :: "modbus_config \<Rightarrow> bool" where
  "modbus_config_ok m \<longleftrightarrow>
     mbc_host m \<noteq> [] \<and> 1 \<le> mbc_port m \<and> mbc_port m \<le> 65535 \<and> 1 \<le> mbc_unit_id m \<and> mbc_unit_id m \<le> 247 \<and>
     float_less (Fin 0) (mbc_timeout_seconds m) \<and> list_all (register_config_ok \<circ> snd) (mbc_registers m) \<and>
     distinct (map fst (mbc_registers m)) \<and>
     require_full_coverage (map fst (mbc_registers m)) ''modbus_tcp'' = None"

record opc_ua_config =
  opc_endpoint :: string
  opc_timeout_seconds :: pyfloat
  opc_nodes :: "(string \<times> string) list"

definition opc_ua_config_ok :: "opc_ua_config \<Rightarrow> bool" where
  "opc_ua_config_ok u \<longleftrightarrow>
     take 10 (opc_endpoint u) = ''opc.tcp://'' \<and> float_less (Fin 0) (opc_timeout_seconds u) \<and>
     list_all (\<lambda>n. snd n \<noteq> []) (opc_nodes u) \<and> distinct (map fst (opc_nodes u)) \<and>
     require_full_coverage (map fst (opc_nodes u)) ''opc_ua'' = None"

text \<open>The simulator block has no fields and the MQTT block an optional topic.\<close>

record device_definition =
  dd_device_id :: string
  dd_protocol :: protocol_type
  dd_enabled :: bool
  dd_poll_interval_ms :: int
  dd_state :: state_definition
  dd_modbus_tcp :: "modbus_config option"
  dd_opc_ua :: "opc_ua_config option"
  dd_simulator :: "unit option"
  dd_mqtt :: "string option option"

definition declares :: "device_definition \<Rightarrow> protocol_type \<Rightarrow> bool" where
  "declares d p =
     (case p of PT_MODBUS_TCP \<Rightarrow> dd_modbus_tcp d \<noteq> None | PT_OPC_UA \<Rightarrow> dd_opc_ua d \<noteq> None
      | PT_SIMULATOR \<Rightarrow> dd_simulator d \<noteq> None | PT_MQTT \<Rightarrow> dd_mqtt d \<noteq> None)"

definition quoted :: "string \<Rightarrow> string" where
  "quoted s = [CHR 0x27] @ s @ [CHR 0x27]"

definition require_matching_protocol_block :: "device_definition \<Rightarrow> string option" where
  "require_matching_protocol_block d =
     (if \<not> declares d (dd_protocol d)
      then Some (''device '' @ quoted (dd_device_id d) @ '' must declare a '' @ quoted (protocol_value (dd_protocol d)) @ '' block'')
      else (let unexpected = sort_by (\<le>) (map protocol_value (filter (\<lambda>p. p \<noteq> dd_protocol d \<and> declares d p)
                 [PT_MODBUS_TCP, PT_OPC_UA, PT_SIMULATOR, PT_MQTT]))
            in if unexpected = [] then None
               else Some (''device '' @ quoted (dd_device_id d) @ '' declares blocks that do not match protocol '' @
                 quoted (protocol_value (dd_protocol d)) @ '': '' @ py_join '', '' unexpected)))"

definition definition_ok :: "device_definition \<Rightarrow> bool" where
  "definition_ok d \<longleftrightarrow>
     text_between 1 100 (dd_device_id d) \<and> device_id_pattern (dd_device_id d) \<and>
     100 \<le> dd_poll_interval_ms d \<and> dd_poll_interval_ms d \<le> 3600000 \<and> state_definition_ok (dd_state d) \<and>
     (\<forall>m \<in> set_option (dd_modbus_tcp d). modbus_config_ok m) \<and> (\<forall>u \<in> set_option (dd_opc_ua d). opc_ua_config_ok u) \<and>
     require_matching_protocol_block d = None"

definition endpoint :: "device_definition \<Rightarrow> string option" where
  "endpoint d =
     (case dd_modbus_tcp d of
        Some m \<Rightarrow> Some (mbc_host m @ '':'' @ int_str (mbc_port m))
      | None \<Rightarrow> map_option opc_endpoint (dd_opc_ua d))"

definition polled :: "device_definition \<Rightarrow> bool" where
  "polled d \<longleftrightarrow> dd_protocol d \<noteq> PT_MQTT"

section \<open>Samples\<close>

text \<open>The sample an adapter returns. Its contract refuses blank signal names and values that are not finite.\<close>

record unified_telemetry =
  ut_device_id :: string
  ut_timestamp :: instant
  ut_signals :: "(string \<times> pyfloat) list"

definition unified_telemetry_ok :: "unified_telemetry \<Rightarrow> bool" where
  "unified_telemetry_ok t \<longleftrightarrow>
     text_between 1 100 (ut_device_id t) \<and> ut_signals t \<noteq> [] \<and>
     list_all (\<lambda>(s, v). py_strip s \<noteq> [] \<and> float_isfinite v) (ut_signals t)"

definition SIGNAL_TO_CONTRACT_FIELD :: "(string \<times> string) list" where
  "SIGNAL_TO_CONTRACT_FIELD =
     [(''temperature'', ''temperature_c''), (''bearing_temperature'', ''bearing_temperature_c''),
      (''vibration'', ''vibration_mm_s''), (''current'', ''current_a''), (''voltage'', ''voltage_v''),
      (''rpm'', ''rpm''), (''load'', ''load_pct''), (''power'', ''power_kw'')]"

text \<open>One label: the first rule of that target whose signal was measured and whose comparison holds.\<close>

record resolved_state =
  rs_operating_state :: string
  rs_fault_state :: string
  rs_settled :: "state_target set"

definition settle :: "(string \<rightharpoonup> pyfloat) \<Rightarrow> resolved_state \<Rightarrow> state_rule \<Rightarrow> resolved_state" where
  "settle signals rs rule =
     (if sru_target rule \<in> rs_settled rs then rs
      else case signals (sru_signal rule) of
          None \<Rightarrow> rs
        | Some measurement \<Rightarrow>
            if \<not> rule_matches rule measurement then rs
            else (case sru_target rule of
                TargetOperating \<Rightarrow> rs\<lparr>rs_operating_state := sru_then rule, rs_settled := insert TargetOperating (rs_settled rs)\<rparr>
              | TargetFault \<Rightarrow> rs\<lparr>rs_fault_state := sru_then rule, rs_settled := insert TargetFault (rs_settled rs)\<rparr>))"

definition resolve_state :: "state_definition \<Rightarrow> (string \<rightharpoonup> pyfloat) \<Rightarrow> string \<times> string" where
  "resolve_state d signals =
     (let rs = foldl (settle signals)
            \<lparr>rs_operating_state = sd_operating_state d, rs_fault_state = sd_fault_state d, rs_settled = {}\<rparr> (sd_derived d)
      in (rs_operating_state rs, rs_fault_state rs))"

text \<open>
  The canonical payload, as the ingestion contract reads it back: a finite float keeps its value in
  JSON, the time stamp its instant. \<open>Inl\<close> lists the missing signals. Rounding rejects only values
  that are not finite, which no sample carries.
\<close>

definition SCHEMA_VERSION :: string where
  "SCHEMA_VERSION = ''1.0''"

definition rounded :: "pyfloat \<Rightarrow> int" where
  "rounded v = (case v of Fin q \<Rightarrow> round_half_even q | _ \<Rightarrow> 0)"

definition to_canonical_payload :: "unified_telemetry \<Rightarrow> state_definition \<Rightarrow> string list + message" where
  "to_canonical_payload t d =
     (let signals = map_of (ut_signals t);
          missing = filter (\<lambda>s. signals s = None) (map fst SIGNAL_TO_CONTRACT_FIELD);
          measured = (\<lambda>s. the (signals s));
          (operating_state, fault_state) = resolve_state d signals
      in if missing \<noteq> [] then Inl (sort_by (\<le>) missing)
         else Inr (Fields (Aware (ut_timestamp t))
           \<lparr>t_schema_version = SCHEMA_VERSION, t_timestamp = ut_timestamp t, t_device_id = ut_device_id t,
            t_temperature_c = measured ''temperature'', t_bearing_temperature_c = measured ''bearing_temperature'',
            t_vibration_mm_s = measured ''vibration'', t_current_a = measured ''current'',
            t_voltage_v = measured ''voltage'', t_rpm = rounded (measured ''rpm''), t_load_pct = measured ''load'',
            t_power_kw = measured ''power'', t_operating_state = operating_state, t_fault_state = fault_state\<rparr>))"

section \<open>Ingestion bridge\<close>

datatype ingestion_outcome = PERSISTED | DUPLICATE | REJECTED

definition OUTCOMES :: "(string \<times> ingestion_outcome) list" where
  "OUTCOMES = [(''PERSISTED'', PERSISTED), (''DUPLICATE'', DUPLICATE), (''REJECTED'', REJECTED)]"

datatype publish_error = NormalizationError "string list" | IngestionError app_error

definition sink_publish ::
  "ctx \<Rightarrow> ingest_env \<Rightarrow> unified_telemetry \<Rightarrow> state_definition \<Rightarrow> plant \<Rightarrow> (publish_error + ingestion_outcome) \<times> plant" where
  "sink_publish c env t d s =
     (case to_canonical_payload t d of
        Inl missing \<Rightarrow> (Inl (NormalizationError missing), s)
      | Inr m \<Rightarrow>
          (case ingest_payload c env (telemetry_topic (ut_device_id t)) m s of
             (Inl e, s1) \<Rightarrow> (Inl (IngestionError e), s1)
           | (Inr r, s1) \<Rightarrow>
               (Inr (case map_of OUTCOMES (ir_status r) of None \<Rightarrow> REJECTED | Some x \<Rightarrow> x), s1)))"

definition registration_exists :: "string \<Rightarrow> plant \<Rightarrow> bool" where
  "registration_exists device_id s \<longleftrightarrow> device_get device_id (s_db s) \<noteq> None"

end
