(* ===== verification/GatewayRuntime.thy ===== *)
theory GatewayRuntime
  imports Gateway
begin

text \<open>
  The runtime of one device as a state machine (\<^verbatim>\<open>gateway/runtime.py\<close>) and the gateway that owns the
  runtimes (\<^verbatim>\<open>gateway/registry.py\<close>, \<^verbatim>\<open>gateway/gateway.py\<close>). The polling task is at one of its awaits; an
  event is what that await returns, and the code up to the next await is one step. A cancelled task is
  gone. The simulator's source factory is total; releasing an adapter does not change the runtime.
\<close>

section \<open>Adapters\<close>

text \<open>The checks of the adapter constructors; \<open>Inl\<close> carries the text of the exception.\<close>

definition normalize_register :: "string \<times> register_config \<Rightarrow> string + unit" where
  "normalize_register sr =
     bindE (guardE (py_strip (fst sr) \<noteq> []) ''Modbus signal names must not be blank.'') (\<lambda>_.
     bindE (guardE (FIRST_HOLDING_REGISTER \<le> rgc_address (snd sr) \<and> rgc_address (snd sr) \<le> FIRST_HOLDING_REGISTER + 65535)
       ''Modbus holding-register addresses must map to offsets 0 through 65535.'') (\<lambda>_.
     guardE (float_isfinite (rgc_scale (snd sr))) ''Modbus register scales must be finite.''))"

definition modbus_adapter :: "string \<Rightarrow> modbus_config \<Rightarrow> string + unit" where
  "modbus_adapter device_id m =
     bindE (guardE (py_strip (mbc_host m) \<noteq> []) ''Modbus host must not be blank.'') (\<lambda>_.
     bindE (guardE (1 \<le> mbc_port m \<and> mbc_port m \<le> 65535) ''Modbus port must be between 1 and 65535.'') (\<lambda>_.
     bindE (guardE (py_strip device_id \<noteq> []) ''Modbus device_id must not be blank.'') (\<lambda>_.
     bindE (guardE (1 \<le> mbc_unit_id m \<and> mbc_unit_id m \<le> 247) ''Modbus unit_id must be between 1 and 247.'') (\<lambda>_.
     bindE (guardE (\<not> float_le (mbc_timeout_seconds m) (Fin 0)) ''Modbus timeout_seconds must be positive.'') (\<lambda>_.
     bindE (mapE normalize_register (mbc_registers m)) (\<lambda>_.
     guardE (mbc_registers m \<noteq> []) ''Modbus register mapping must not be empty.''))))))"

definition normalize_node :: "string \<times> string \<Rightarrow> string + unit" where
  "normalize_node sn =
     guardE (py_strip (fst sn) \<noteq> [] \<and> py_strip (snd sn) \<noteq> [])
       ''OPC UA node mapping requires non-blank signal names and node_id values.''"

definition opc_ua_adapter :: "string \<Rightarrow> opc_ua_config \<Rightarrow> string + unit" where
  "opc_ua_adapter device_id u =
     bindE (guardE (take 10 (opc_endpoint u) = ''opc.tcp://'') ''OPC UA endpoint must use opc.tcp://.'') (\<lambda>_.
     bindE (guardE (py_strip device_id \<noteq> []) ''OPC UA device_id must not be blank.'') (\<lambda>_.
     bindE (guardE (\<not> float_le (opc_timeout_seconds u) (Fin 0)) ''OPC UA timeout_seconds must be positive.'') (\<lambda>_.
     bindE (mapE normalize_node (opc_nodes u)) (\<lambda>_.
     guardE (opc_nodes u \<noteq> []) ''OPC UA node mapping must not be empty.''))))"

text \<open>\<open>simulated\<close> says whether a source factory is registered.\<close>

definition build_adapter :: "bool \<Rightarrow> device_definition \<Rightarrow> string + unit" where
  "build_adapter simulated d =
     (if dd_protocol d = PT_SIMULATOR then guardE simulated ''no simulator sample source is registered in this process''
      else case dd_modbus_tcp d of
          Some m \<Rightarrow> modbus_adapter (dd_device_id d) m
        | None \<Rightarrow> (case dd_opc_ua d of
              Some u \<Rightarrow> opc_ua_adapter (dd_device_id d) u
            | None \<Rightarrow> Inl (''device '' @ quoted (dd_device_id d) @ '' has no pollable protocol configuration'')))"

section \<open>Retry policy\<close>

record retry_policy =
  rp_failure_threshold :: int
  rp_reconnect_threshold :: int
  rp_max_reconnect_attempts :: int
  rp_backoff_initial_seconds :: rat
  rp_backoff_max_seconds :: rat
  rp_backoff_factor :: rat

definition DEFAULT_POLICY :: retry_policy where
  "DEFAULT_POLICY =
     \<lparr>rp_failure_threshold = 3, rp_reconnect_threshold = 6, rp_max_reconnect_attempts = 5,
      rp_backoff_initial_seconds = 1, rp_backoff_max_seconds = 30, rp_backoff_factor = 2\<rparr>"

definition delay_for :: "retry_policy \<Rightarrow> int \<Rightarrow> rat" where
  "delay_for p attempt =
     min (rp_backoff_initial_seconds p * rp_backoff_factor p ^ nat (max attempt 0)) (rp_backoff_max_seconds p)"

section \<open>Runtime of a device\<close>

text \<open>Where the polling task waits. \<open>NoTask\<close> is a runtime without a task, \<open>Finished\<close> one whose task returned.\<close>

datatype task =
    NoTask | AtRegistration | AtConnect | AtRead | AtPublish | AtSleep | AtBackoff rat | Finished

record device_runtime =
  rt_definition :: device_definition
  rt_task :: task
  rt_adapter :: bool
  rt_state :: DeviceState
  rt_last_success :: "instant option"
  rt_last_error :: "instant option"
  rt_message :: "string option"
  rt_consecutive_failures :: int
  rt_reconnect_attempts :: int
  rt_samples_ingested :: nat
  rt_samples_rejected :: nat
  rt_read_errors :: nat

definition new_runtime :: "device_definition \<Rightarrow> device_runtime" where
  "new_runtime d =
     \<lparr>rt_definition = d, rt_task = NoTask, rt_adapter = False, rt_state = DS_STOPPED, rt_last_success = None,
      rt_last_error = None, rt_message = None, rt_consecutive_failures = 0, rt_reconnect_attempts = 0,
      rt_samples_ingested = 0, rt_samples_rejected = 0, rt_read_errors = 0\<rparr>"

definition running :: "device_runtime \<Rightarrow> bool" where
  "running r \<longleftrightarrow> rt_task r \<notin> {NoTask, Finished}"

text \<open>The shared MQTT consumer: absent, or whether it is connected.\<close>

definition passive_state :: "bool option \<Rightarrow> DeviceState" where
  "passive_state mqtt = (if mqtt = Some True then DS_CONNECTED else DS_DEGRADED)"

definition current_state :: "bool option \<Rightarrow> device_runtime \<Rightarrow> DeviceState" where
  "current_state mqtt r =
     (if \<not> dd_enabled (rt_definition r) then DS_DISABLED
      else if \<not> polled (rt_definition r) then passive_state mqtt else rt_state r)"

definition start_runtime :: "bool option \<Rightarrow> device_runtime \<Rightarrow> device_runtime" where
  "start_runtime mqtt r =
     (if \<not> dd_enabled (rt_definition r) then r\<lparr>rt_state := DS_DISABLED, rt_message := Some ''device is disabled in configuration''\<rparr>
      else if running r then r
      else if \<not> polled (rt_definition r) then
        r\<lparr>rt_state := passive_state mqtt,
          rt_message := (if passive_state mqtt = DS_CONNECTED then None else Some ''shared MQTT consumer is not connected'')\<rparr>
      else r\<lparr>rt_state := DS_STARTING, rt_message := None, rt_task := AtRegistration\<rparr>)"

definition stop_runtime :: "bool option \<Rightarrow> device_runtime \<Rightarrow> device_runtime" where
  "stop_runtime mqtt r =
     r\<lparr>rt_task := NoTask, rt_adapter := False,
       rt_state := (if \<not> dd_enabled (rt_definition r) then DS_DISABLED
         else if polled (rt_definition r) then DS_STOPPED else passive_state mqtt),
       rt_message := None\<rparr>"

text \<open>What an await of the task returned, with the clock when the code after it reads it.\<close>

datatype runtime_event =
    Registration "string + bool" instant
  | Connection "string + unit" instant
  | Reading "string + unit" instant
  | Publication "string + ingestion_outcome" instant
  | Slept
  | BackedOff

definition fail_permanently :: "string \<Rightarrow> instant \<Rightarrow> device_runtime \<Rightarrow> device_runtime" where
  "fail_permanently m now r =
     r\<lparr>rt_state := DS_ERROR, rt_last_error := Some now, rt_message := Some m, rt_task := Finished, rt_adapter := False\<rparr>"

definition record_failure :: "retry_policy \<Rightarrow> device_runtime \<Rightarrow> bool \<times> device_runtime" where
  "record_failure p r =
     (let r1 = r\<lparr>rt_consecutive_failures := rt_consecutive_failures r + 1\<rparr> in
      if rp_reconnect_threshold p \<le> rt_consecutive_failures r1 then (True, r1\<lparr>rt_state := DS_RECONNECTING\<rparr>)
      else (False, if rp_failure_threshold p \<le> rt_consecutive_failures r1 then r1\<lparr>rt_state := DS_DEGRADED\<rparr> else r1))"

definition retreat :: "retry_policy \<Rightarrow> string \<Rightarrow> instant \<Rightarrow> device_runtime \<Rightarrow> device_runtime" where
  "retreat p stage now r =
     (if rp_max_reconnect_attempts p \<le> rt_reconnect_attempts r
      then fail_permanently (stage @ '' recovery exhausted after '' @ int_str (rt_reconnect_attempts r) @ '' attempts: '' @
        (case rt_message r of None \<Rightarrow> ''unknown cause'' | Some m \<Rightarrow> m)) now r
      else r\<lparr>rt_state := DS_RECONNECTING, rt_task := AtBackoff (delay_for p (rt_reconnect_attempts r)),
             rt_reconnect_attempts := rt_reconnect_attempts r + 1\<rparr>)"

text \<open>After a failure of the poll loop: back to sleep, or out of the loop and into the retreat.\<close>

definition poll_failed :: "retry_policy \<Rightarrow> instant \<Rightarrow> device_runtime \<Rightarrow> device_runtime" where
  "poll_failed p now r =
     (case record_failure p r of
        (True, r1) \<Rightarrow> retreat p ''telemetry'' now r1
      | (False, r1) \<Rightarrow> r1\<lparr>rt_task := AtSleep\<rparr>)"

definition sample_published :: "retry_policy \<Rightarrow> string + ingestion_outcome \<Rightarrow> instant \<Rightarrow> device_runtime \<Rightarrow> device_runtime" where
  "sample_published p res now r =
     (case res of
        Inl exc \<Rightarrow> poll_failed p now (r\<lparr>rt_last_error := Some now, rt_message := Some (''ingestion failed: '' @ exc)\<rparr>)
      | Inr REJECTED \<Rightarrow>
          poll_failed p now (r\<lparr>rt_samples_rejected := Suc (rt_samples_rejected r), rt_last_error := Some now,
            rt_message := Some ''sample was rejected by the ingestion contract''\<rparr>)
      | Inr _ \<Rightarrow>
          r\<lparr>rt_samples_ingested := Suc (rt_samples_ingested r), rt_last_success := Some now,
            rt_consecutive_failures := 0, rt_state := DS_CONNECTED, rt_message := None, rt_task := AtSleep\<rparr>)"

text \<open>One step of the task; \<open>None\<close> when the event is not what the task waits for.\<close>

definition runtime_step :: "retry_policy \<Rightarrow> bool \<Rightarrow> runtime_event \<Rightarrow> device_runtime \<Rightarrow> device_runtime option" where
  "runtime_step p simulated e r =
     (case (rt_task r, e) of
        (AtRegistration, Registration (Inl exc) now) \<Rightarrow> Some (fail_permanently (''unexpected runtime failure: '' @ exc) now r)
      | (AtRegistration, Registration (Inr False) now) \<Rightarrow> 
          Some (fail_permanently (''device '' @ quoted (dd_device_id (rt_definition r)) @ '' is not registered in the devices table'') now r)
      | (AtRegistration, Registration (Inr True) now) \<Rightarrow>
          Some (case build_adapter simulated (rt_definition r) of
              Inl exc \<Rightarrow> fail_permanently (''adapter could not be constructed: '' @ exc) now r
            | Inr _ \<Rightarrow> r\<lparr>rt_adapter := True, rt_state := DS_CONNECTING, rt_task := AtConnect\<rparr>)
      | (AtConnect, Connection (Inl exc) now) \<Rightarrow>
          Some (retreat p ''connection'' now (r\<lparr>rt_last_error := Some now, rt_message := Some (''connection failed: '' @ exc)\<rparr>))
      | (AtConnect, Connection (Inr _) now) \<Rightarrow>
          Some (r\<lparr>rt_consecutive_failures := 0, rt_reconnect_attempts := 0, rt_state := DS_CONNECTED,
                  rt_message := None, rt_task := AtRead\<rparr>)
      | (AtRead, Reading (Inl exc) now) \<Rightarrow>
          Some (poll_failed p now (r\<lparr>rt_read_errors := Suc (rt_read_errors r), rt_last_error := Some now,
            rt_message := Some (''read failed: '' @ exc)\<rparr>))
      | (AtRead, Reading (Inr _) now) \<Rightarrow> Some (r\<lparr>rt_task := AtPublish\<rparr>)
      | (AtPublish, Publication res now) \<Rightarrow> Some (sample_published p res now r)
      | (AtSleep, Slept) \<Rightarrow> Some (r\<lparr>rt_task := AtRead\<rparr>)
      | (AtBackoff _, BackedOff) \<Rightarrow>
          Some (r\<lparr>rt_consecutive_failures := 0, rt_state := DS_CONNECTING, rt_task := AtConnect\<rparr>)
      | _ \<Rightarrow> None)"

text \<open>A run of the task over the events it waits for; others are not delivered.\<close>

definition deliver :: "retry_policy \<Rightarrow> bool \<Rightarrow> device_runtime \<Rightarrow> runtime_event \<Rightarrow> device_runtime" where
  "deliver p simulated r e = (case runtime_step p simulated e r of None \<Rightarrow> r | Some r' \<Rightarrow> r')"

text \<open>
  \<^verbatim>\<open>wait_until_ready\<close> looks at the state between the events of two polls until the deadline: the list
  holds the events that arrive between one look and the next.
\<close>

fun poll_ready ::
  "retry_policy \<Rightarrow> bool \<Rightarrow> bool option \<Rightarrow> runtime_event list list \<Rightarrow> device_runtime \<Rightarrow> bool \<times> device_runtime" where
  "poll_ready p simulated mqtt batches r =
     (if current_state mqtt r = DS_CONNECTED then (True, r)
      else if current_state mqtt r = DS_ERROR then (False, r)
      else case batches of
          [] \<Rightarrow> (False, r)
        | b # bs \<Rightarrow> poll_ready p simulated mqtt bs (foldl (deliver p simulated) r b))"

definition wait_until_ready ::
  "retry_policy \<Rightarrow> bool \<Rightarrow> bool option \<Rightarrow> runtime_event list list \<Rightarrow> device_runtime \<Rightarrow> bool \<times> device_runtime" where
  "wait_until_ready p simulated mqtt batches r =
     (if \<not> dd_enabled (rt_definition r) \<or> \<not> polled (rt_definition r) then (True, r)
      else poll_ready p simulated mqtt batches r)"

end
