(* ===== verification/GatewayControl.thy ===== *)
theory GatewayControl
  imports GatewayRuntime
begin

text \<open>
  The device registry (\<^verbatim>\<open>gateway/registry.py\<close>) and the gateway that owns one runtime per device
  (\<^verbatim>\<open>gateway/gateway.py\<close>). A dictionary is an association list in insertion order. What a runtime goes
  through while the gateway waits for it is an argument of the operation that waits.
\<close>

section \<open>Registry\<close>

datatype gateway_error = AlreadyRegistered string | DuplicateDevices "string list" | NotRegisteredDevice string

type_synonym registry = "(string \<times> device_definition) list"

definition register_definition :: "device_definition \<Rightarrow> registry \<Rightarrow> gateway_error + registry" where
  "register_definition d reg =
     (if dd_device_id d \<in> fst ` set reg then Inl (AlreadyRegistered (dd_device_id d))
      else Inr (reg @ [(dd_device_id d, d)]))"

fun duplicate_ids :: "registry \<Rightarrow> string set \<Rightarrow> device_definition list \<Rightarrow> string list" where
  "duplicate_ids reg seen [] = []"
| "duplicate_ids reg seen (d # ds) =
     (if dd_device_id d \<in> seen \<or> dd_device_id d \<in> fst ` set reg then [dd_device_id d] else [])
     @ duplicate_ids reg (insert (dd_device_id d) seen) ds"

definition load_definitions :: "device_definition list \<Rightarrow> registry \<Rightarrow> gateway_error + registry" where
  "load_definitions ds reg =
     (let duplicates = duplicate_ids reg {} ds in
      if duplicates \<noteq> [] then Inl (DuplicateDevices (sort_by (\<le>) (remdups duplicates)))
      else Inr (foldl (\<lambda>reg d. AList.update (dd_device_id d) d reg) reg ds))"

definition replace_definition :: "device_definition \<Rightarrow> registry \<Rightarrow> registry" where
  "replace_definition d reg = AList.update (dd_device_id d) d reg"

definition enabled_definitions :: "registry \<Rightarrow> device_definition list" where
  "enabled_definitions reg = filter dd_enabled (map snd reg)"

section \<open>Gateway\<close>

record gateway =
  gw_registry :: registry
  gw_enabled :: bool
  gw_policy :: retry_policy
  gw_simulated :: bool
  gw_mqtt :: "bool option"
  gw_runtimes :: "(string \<times> device_runtime) list"
  gw_applied :: "(string \<times> int option) list"
  gw_loaded_at :: "instant option"

definition runtime_for :: "device_definition \<Rightarrow> gateway \<Rightarrow> gateway" where
  "runtime_for d g =
     (if map_of (gw_runtimes g) (dd_device_id d) \<noteq> None then g
      else g\<lparr>gw_runtimes := gw_runtimes g @ [(dd_device_id d, new_runtime d)]\<rparr>)"

definition new_gateway :: "registry \<Rightarrow> bool \<Rightarrow> retry_policy \<Rightarrow> bool \<Rightarrow> bool option \<Rightarrow> gateway" where
  "new_gateway reg enabled p simulated mqtt =
     foldl (\<lambda>g d. runtime_for d g)
       \<lparr>gw_registry = reg, gw_enabled = enabled, gw_policy = p, gw_simulated = simulated, gw_mqtt = mqtt,
        gw_runtimes = [], gw_applied = [], gw_loaded_at = None\<rparr> (map snd reg)"

definition register_device :: "device_definition \<Rightarrow> gateway \<Rightarrow> gateway_error + gateway" where
  "register_device d g =
     bindE (register_definition d (gw_registry g)) (\<lambda>reg. Inr (runtime_for d (g\<lparr>gw_registry := reg\<rparr>)))"

definition register_all :: "device_definition list \<Rightarrow> gateway \<Rightarrow> gateway_error + gateway" where
  "register_all ds g =
     bindE (load_definitions ds (gw_registry g)) (\<lambda>reg.
       Inr (foldl (\<lambda>g d. runtime_for d g) (g\<lparr>gw_registry := reg\<rparr>) ds))"

definition with_runtime :: "string \<Rightarrow> (device_runtime \<Rightarrow> device_runtime) \<Rightarrow> gateway \<Rightarrow> gateway" where
  "with_runtime device_id f g =
     (case map_of (gw_runtimes g) device_id of
        None \<Rightarrow> g | Some r \<Rightarrow> g\<lparr>gw_runtimes := AList.update device_id (f r) (gw_runtimes g)\<rparr>)"

definition mark_loaded :: "instant \<Rightarrow> gateway \<Rightarrow> gateway" where
  "mark_loaded now g = g\<lparr>gw_loaded_at := Some now\<rparr>"

definition gateway_start :: "instant \<Rightarrow> gateway \<Rightarrow> gateway" where
  "gateway_start now g =
     (let g1 = foldl (\<lambda>g d. with_runtime (dd_device_id d) (start_runtime (gw_mqtt g)) (runtime_for d g)) g
            (enabled_definitions (gw_registry g))
      in if gw_loaded_at g1 = None then mark_loaded now g1 else g1)"

definition gateway_stop :: "gateway \<Rightarrow> gateway" where
  "gateway_stop g = g\<lparr>gw_runtimes := map (map_prod id (stop_runtime (gw_mqtt g))) (gw_runtimes g)\<rparr>"

definition require_runtime :: "string \<Rightarrow> gateway \<Rightarrow> gateway_error + device_runtime" where
  "require_runtime device_id g =
     (case map_of (gw_runtimes g) device_id of None \<Rightarrow> Inl (NotRegisteredDevice device_id) | Some r \<Rightarrow> Inr r)"

definition start_device :: "string \<Rightarrow> gateway \<Rightarrow> gateway_error + gateway" where
  "start_device device_id g =
     bindE (require_runtime device_id g) (\<lambda>_. Inr (with_runtime device_id (start_runtime (gw_mqtt g)) g))"

definition stop_device :: "string \<Rightarrow> gateway \<Rightarrow> gateway_error + gateway" where
  "stop_device device_id g =
     bindE (require_runtime device_id g) (\<lambda>_. Inr (with_runtime device_id (stop_runtime (gw_mqtt g)) g))"

text \<open>An event reaches the task of one device.\<close>

definition device_event :: "string \<Rightarrow> runtime_event \<Rightarrow> gateway \<Rightarrow> gateway" where
  "device_event device_id e g =
     with_runtime device_id (\<lambda>r. deliver (gw_policy g) (gw_simulated g) r e) g"

section \<open>Applying a definition\<close>

definition DEFAULT_APPLY_TIMEOUT_SECONDS :: pyfloat where
  "DEFAULT_APPLY_TIMEOUT_SECONDS = Fin 10"

record apply_result =
  ar_device_id :: string
  ar_applied :: bool
  ar_version :: "int option"
  ar_state :: DeviceState
  ar_error :: "string option"

definition gateway_applied_version :: "string \<Rightarrow> gateway \<Rightarrow> int option" where
  "gateway_applied_version device_id g = (case map_of (gw_applied g) device_id of None \<Rightarrow> None | Some v \<Rightarrow> v)"

text \<open>The runtime's own failure text, or that it was not connected in time.\<close>

definition not_ready :: "string \<Rightarrow> device_runtime \<Rightarrow> string" where
  "not_ready what r =
     (case rt_message r of
        None \<Rightarrow> what @ '' within '' @ format_g DEFAULT_APPLY_TIMEOUT_SECONDS @ ''s''
      | Some m \<Rightarrow> m)"

definition confirm_ready ::
  "string \<Rightarrow> int option \<Rightarrow> runtime_event list list \<Rightarrow> gateway \<Rightarrow> gateway_error + apply_result \<times> gateway" where
  "confirm_ready device_id version batches g =
     bindE (require_runtime device_id g) (\<lambda>r.
       (let (ready, r1) = wait_until_ready (gw_policy g) (gw_simulated g) (gw_mqtt g) batches r;
            g1 = with_runtime device_id (\<lambda>_. r1) g
        in Inr (if ready
                then (\<lparr>ar_device_id = device_id, ar_applied = True, ar_version = version,
                       ar_state = current_state (gw_mqtt g) r1, ar_error = None\<rparr>,
                      g1\<lparr>gw_applied := AList.update device_id version (gw_applied g1)\<rparr>)
                else (\<lparr>ar_device_id = device_id, ar_applied = False, ar_version = None,
                       ar_state = current_state (gw_mqtt g) r1, ar_error = Some (not_ready ''runtime did not report connected'' r1)\<rparr>, g1))))"

definition apply_device_definition ::
  "device_definition \<Rightarrow> int option \<Rightarrow> runtime_event list list \<Rightarrow> gateway \<Rightarrow> apply_result \<times> gateway" where
  "apply_device_definition d version batches g =
     (let device_id = dd_device_id d;
          failed = (\<lambda>state err. \<lparr>ar_device_id = device_id, ar_applied = False, ar_version = version,
            ar_state = state, ar_error = Some err\<rparr>)
      in if \<not> gw_enabled g then (failed DS_DISABLED ''gateway is disabled in this process'', g)
         else (let (ready, candidate) = wait_until_ready (gw_policy g) (gw_simulated g) (gw_mqtt g) batches
                     (start_runtime (gw_mqtt g) (new_runtime d))
               in if \<not> ready
                  then (failed (current_state (gw_mqtt g) (stop_runtime (gw_mqtt g) candidate)) (not_ready ''candidate runtime was not connected'' candidate), g)
                  else (\<lparr>ar_device_id = device_id, ar_applied = True, ar_version = version,
                         ar_state = current_state (gw_mqtt g) candidate, ar_error = None\<rparr>,
                        g\<lparr>gw_runtimes := AList.update device_id candidate (gw_runtimes g),
                          gw_registry := replace_definition d (gw_registry g),
                          gw_applied := AList.update device_id version (gw_applied g)\<rparr>)))"

text \<open>
  The two ends of an application, between which it waits for the candidate: it remembers the runtime it
  will replace, and when the candidate is connected stops that one and installs the candidate.
\<close>

definition apply_begin :: "device_definition \<Rightarrow> gateway \<Rightarrow> device_runtime option \<times> device_runtime" where
  "apply_begin d g =
     (map_of (gw_runtimes g) (dd_device_id d), start_runtime (gw_mqtt g) (new_runtime d))"

definition apply_swap ::
  "device_definition \<Rightarrow> int option \<Rightarrow> device_runtime option \<Rightarrow> device_runtime \<Rightarrow> gateway \<Rightarrow> device_runtime option \<times> gateway" where
  "apply_swap d version previous candidate g =
     (map_option (stop_runtime (gw_mqtt g)) previous,
      g\<lparr>gw_runtimes := AList.update (dd_device_id d) candidate (gw_runtimes g),
        gw_registry := replace_definition d (gw_registry g),
        gw_applied := AList.update (dd_device_id d) version (gw_applied g)\<rparr>)"

fun apply_definitions ::
  "(device_definition \<times> int option \<times> runtime_event list list) list \<Rightarrow> gateway \<Rightarrow> apply_result list \<times> gateway" where
  "apply_definitions [] g = ([], g)"
| "apply_definitions ((d, version, batches) # rest) g =
     (let (r, g1) = apply_device_definition d version batches g; (rs, g2) = apply_definitions rest g1
      in (r # rs, g2))"

section \<open>Status\<close>

record device_status =
  st_device_id :: string
  st_protocol :: protocol_type
  st_enabled :: bool
  st_state :: DeviceState
  st_derived :: bool
  st_polled :: bool
  st_poll_interval_ms :: int
  st_endpoint :: "string option"
  st_last_success :: "instant option"
  st_last_error :: "instant option"
  st_message :: "string option"
  st_consecutive_failures :: int
  st_reconnect_attempts :: int
  st_samples_ingested :: nat
  st_samples_rejected :: nat
  st_read_errors :: nat

definition runtime_status :: "bool option \<Rightarrow> device_runtime \<Rightarrow> device_status" where
  "runtime_status mqtt r =
     (let d = rt_definition r in
      \<lparr>st_device_id = dd_device_id d, st_protocol = dd_protocol d, st_enabled = dd_enabled d,
       st_state = current_state mqtt r, st_derived = (sd_derived (dd_state d) \<noteq> []), st_polled = polled d,
       st_poll_interval_ms = dd_poll_interval_ms d, st_endpoint = endpoint d, st_last_success = rt_last_success r,
       st_last_error = rt_last_error r, st_message = rt_message r,
       st_consecutive_failures = rt_consecutive_failures r, st_reconnect_attempts = rt_reconnect_attempts r,
       st_samples_ingested = rt_samples_ingested r, st_samples_rejected = rt_samples_rejected r,
       st_read_errors = rt_read_errors r\<rparr>)"

definition gateway_status :: "string \<Rightarrow> gateway \<Rightarrow> gateway_error + device_status" where
  "gateway_status device_id g = bindE (require_runtime device_id g) (\<lambda>r. Inr (runtime_status (gw_mqtt g) r))"

definition statuses :: "gateway \<Rightarrow> device_status list" where
  "statuses g = map (runtime_status (gw_mqtt g) \<circ> snd) (gw_runtimes g)"

record connectivity_summary =
  cy_gateway_enabled :: bool
  cy_gateway_available :: bool
  cy_loaded_at :: "instant option"
  cy_device_count :: nat
  cy_enabled_device_count :: nat
  cy_states :: "DeviceState \<Rightarrow> nat"
  cy_total_samples_ingested :: nat
  cy_total_samples_rejected :: nat

definition gateway_summary :: "gateway \<Rightarrow> connectivity_summary" where
  "gateway_summary g =
     (let ss = statuses g in
      \<lparr>cy_gateway_enabled = gw_enabled g, cy_gateway_available = True, cy_loaded_at = gw_loaded_at g,
       cy_device_count = length ss, cy_enabled_device_count = length (filter st_enabled ss),
       cy_states = (\<lambda>s. length (filter (\<lambda>x. st_state x = s) ss)),
       cy_total_samples_ingested = sum_list (map st_samples_ingested ss),
       cy_total_samples_rejected = sum_list (map st_samples_rejected ss)\<rparr>)"

end
