(* ===== verification/AssetConfig.thy ===== *)
theory AssetConfig
  imports GatewayControl
begin

text \<open>
  The rows of the asset hierarchy and of the versioned device configurations (\<^verbatim>\<open>assetconfig/models.py\<close>),
  the hierarchy's operations (\<^verbatim>\<open>AssetService\<close> of \<^verbatim>\<open>service.py\<close>), the queries and table updates of
  \<^verbatim>\<open>repository.py\<close> and the configuration audit of \<^verbatim>\<open>audit.py\<close>.
\<close>

section \<open>Rows\<close>

datatype AssetType = SITE | LINE

definition asset_type_value :: "AssetType \<Rightarrow> string" where
  "asset_type_value t = (case t of SITE \<Rightarrow> ''SITE'' | LINE \<Rightarrow> ''LINE'')"

definition ASSET_PARENT_RULES :: "AssetType \<Rightarrow> AssetType option" where
  "ASSET_PARENT_RULES t = (case t of SITE \<Rightarrow> None | LINE \<Rightarrow> Some SITE)"

datatype ConfigurationStatus = CFG_DRAFT | CFG_VALIDATED | CFG_PUBLISHED | CFG_ARCHIVED

datatype ApplyStatus = AP_PENDING | AP_APPLYING | AP_APPLIED | AP_FAILED

datatype ConfigurationSource = SRC_DATABASE | SRC_BOOTSTRAP | SRC_NONE

record config_issue =
  ci_field :: string
  ci_code :: string
  ci_message :: string

record validation_outcome =
  vo_valid :: bool
  vo_errors :: "config_issue list"
  vo_checked_at :: instant

record device_configuration =
  cf_id :: uuid
  cf_device_id :: string
  cf_version :: int
  cf_status :: ConfigurationStatus
  cf_protocol :: protocol_type
  cf_configuration :: json
  cf_created_by :: string
  cf_validated_at :: "instant option"
  cf_published_at :: "instant option"
  cf_archived_at :: "instant option"
  cf_validation_result :: "validation_outcome option"
  cf_validation_error :: "string option"

record config_runtime_status =
  crs_device_id :: string
  crs_desired_version :: "int option"
  crs_applied_version :: "int option"
  crs_apply_status :: ApplyStatus
  crs_source :: ConfigurationSource
  crs_last_apply_at :: "instant option"
  crs_last_apply_error :: "string option"

record config_store =
  cs_db :: world
  cs_configs :: "device_configuration list"
  cs_runtime :: "config_runtime_status list"

text \<open>The constraints of the configuration table, checked for a row against the others.\<close>

definition configuration_row_ok :: "device_configuration \<Rightarrow> device_configuration list \<Rightarrow> world \<Rightarrow> bool" where
  "configuration_row_ok r others w \<longleftrightarrow>
     cf_id r \<notin> cf_id ` set others \<and> 0 < cf_version r \<and>
     (cf_device_id r, cf_version r) \<notin> (\<lambda>x. (cf_device_id x, cf_version x)) ` set others \<and>
     ((cf_status r \<in> {CFG_PUBLISHED, CFG_ARCHIVED}) \<longleftrightarrow> cf_published_at r \<noteq> None) \<and>
     (cf_status r = CFG_PUBLISHED \<longrightarrow>
        (\<forall>x \<in> set others. cf_device_id x = cf_device_id r \<longrightarrow> cf_status x \<noteq> CFG_PUBLISHED)) \<and>
     cf_device_id r \<in> dev_device_id ` set (w_devices w)"

section \<open>Asset hierarchy\<close>

definition asset_get :: "uuid \<Rightarrow> world \<Rightarrow> asset_node option" where
  "asset_get k w = find_row n_id k (w_assets w)"

text \<open>Ordered by type descending, then by name.\<close>

definition by_asset :: "ctx \<Rightarrow> asset_node \<Rightarrow> asset_node \<Rightarrow> bool" where
  "by_asset c a b \<longleftrightarrow>
     (let ta = c_collate c (n_asset_type a); tb = c_collate c (n_asset_type b)
      in tb < ta \<or> ta = tb \<and> c_collate c (n_name a) \<le> c_collate c (n_name b))"

definition list_nodes :: "ctx \<Rightarrow> world \<Rightarrow> asset_node list" where
  "list_nodes c w = sort_by (by_asset c) (w_assets w)"

definition asset_not_found :: app_error where
  "asset_not_found = AppError ''ASSET_NOT_FOUND'' 404"

definition hierarchy_invalid :: app_error where
  "hierarchy_invalid = AppError ''ASSET_HIERARCHY_INVALID'' 422"

definition create_asset :: "ctx \<Rightarrow> string \<Rightarrow> AssetType \<Rightarrow> uuid option \<Rightarrow> world \<Rightarrow> app_error + asset_node \<times> world" where
  "create_asset c name asset_type parent_id w =
     bindE (case parent_id of
         None \<Rightarrow> Inr None
       | Some k \<Rightarrow> (case asset_get k w of None \<Rightarrow> Inl asset_not_found | Some p \<Rightarrow> Inr (Some p))) (\<lambda>parent.
     bindE (case (ASSET_PARENT_RULES asset_type, parent) of
         (None, None) \<Rightarrow> Inr ()
       | (None, Some _) \<Rightarrow> Inl hierarchy_invalid
       | (Some _, None) \<Rightarrow> Inl hierarchy_invalid
       | (Some required, Some p) \<Rightarrow> guardE (n_asset_type p = asset_type_value required) hierarchy_invalid) (\<lambda>_.
     (let (fresh, w1) = uuid4 c w;
          node = \<lparr>n_id = fresh, n_name = name, n_asset_type = asset_type_value asset_type,
                  n_parent_id = map_option n_id parent\<rparr>
      in if fresh \<in> n_id ` set (w_assets w) then Inl IntegrityError
         else Inr (node, w1\<lparr>w_assets := w_assets w1 @ [node]\<rparr>))))"

definition get_asset :: "uuid \<Rightarrow> world \<Rightarrow> app_error + asset_node" where
  "get_asset k w = (case asset_get k w of None \<Rightarrow> Inl asset_not_found | Some n \<Rightarrow> Inr n)"

definition child_count :: "uuid \<Rightarrow> world \<Rightarrow> nat" where
  "child_count k w = length (filter (\<lambda>n. n_parent_id n = Some k) (w_assets w))"

definition device_count :: "uuid \<Rightarrow> world \<Rightarrow> nat" where
  "device_count k w = length (filter (\<lambda>d. dev_asset_node_id d = Some k) (w_devices w))"

definition delete_asset :: "uuid \<Rightarrow> world \<Rightarrow> app_error + world" where
  "delete_asset k w =
     bindE (get_asset k w) (\<lambda>n.
       if 0 < child_count (n_id n) w then Inl (AppError ''ASSET_IN_USE'' 409)
       else if 0 < device_count (n_id n) w then Inl (AppError ''ASSET_IN_USE'' 409)
       else Inr (w\<lparr>w_assets := filter (\<lambda>x. n_id x \<noteq> n_id n) (w_assets w)\<rparr>))"

definition assign_asset :: "device \<Rightarrow> uuid option \<Rightarrow> world \<Rightarrow> world" where
  "assign_asset d k w = w\<lparr>w_devices := update_rows dev_id (dev_id d) (\<lambda>x. x\<lparr>dev_asset_node_id := k\<rparr>) (w_devices w)\<rparr>"

definition attach_device :: "uuid \<Rightarrow> string \<Rightarrow> world \<Rightarrow> app_error + world" where
  "attach_device k device_id w =
     bindE (get_asset k w) (\<lambda>n. bindE (get_device device_id w) (\<lambda>d. Inr (assign_asset d (Some (n_id n)) w)))"

definition detach_device :: "string \<Rightarrow> world \<Rightarrow> app_error + world" where
  "detach_device device_id w = bindE (get_device device_id w) (\<lambda>d. Inr (assign_asset d None w))"

definition detach_device_from :: "uuid \<Rightarrow> string \<Rightarrow> world \<Rightarrow> app_error + world" where
  "detach_device_from k device_id w =
     bindE (get_asset k w) (\<lambda>n. bindE (get_device device_id w) (\<lambda>d.
       if dev_asset_node_id d \<noteq> Some (n_id n) then Inl (AppError ''DEVICE_NOT_ATTACHED'' 409)
       else Inr (assign_asset d None w)))"

section \<open>Configuration queries\<close>

definition next_version :: "string \<Rightarrow> config_store \<Rightarrow> int" where
  "next_version device_id cs = Max (insert 0 (set (map cf_version (filter (\<lambda>r. cf_device_id r = device_id) (cs_configs cs))))) + 1"

definition config_key :: "device_configuration \<Rightarrow> string \<times> int" where
  "config_key r = (cf_device_id r, cf_version r)"

definition configuration_find :: "string \<Rightarrow> int \<Rightarrow> config_store \<Rightarrow> device_configuration option" where
  "configuration_find device_id version cs = find_row config_key (device_id, version) (cs_configs cs)"

definition list_for_device :: "string \<Rightarrow> config_store \<Rightarrow> device_configuration list" where
  "list_for_device device_id cs =
     sort_by (\<lambda>a b. cf_version b \<le> cf_version a) (filter (\<lambda>r. cf_device_id r = device_id) (cs_configs cs))"

definition current_published :: "string \<Rightarrow> config_store \<Rightarrow> device_configuration option" where
  "current_published device_id cs = find (\<lambda>r. cf_device_id r = device_id \<and> cf_status r = CFG_PUBLISHED) (cs_configs cs)"

definition list_published :: "ctx \<Rightarrow> config_store \<Rightarrow> device_configuration list" where
  "list_published c cs =
     sort_by (\<lambda>a b. c_collate c (cf_device_id a) \<le> c_collate c (cf_device_id b))
       (filter (\<lambda>r. cf_status r = CFG_PUBLISHED) (cs_configs cs))"

definition runtime_status_find :: "string \<Rightarrow> config_store \<Rightarrow> config_runtime_status option" where
  "runtime_status_find device_id cs = find_row crs_device_id device_id (cs_runtime cs)"

text \<open>The archived rows keep everything but their status and the database's time of the statement.\<close>

definition archive_published_except :: "instant \<Rightarrow> string \<Rightarrow> int \<Rightarrow> config_store \<Rightarrow> nat \<times> config_store" where
  "archive_published_except now device_id keep cs =
     (let hit = (\<lambda>r. cf_device_id r = device_id \<and> cf_status r = CFG_PUBLISHED \<and> cf_version r \<noteq> keep)
      in (length (filter hit (cs_configs cs)),
          cs\<lparr>cs_configs := map (\<lambda>r. if hit r then r\<lparr>cf_status := CFG_ARCHIVED, cf_archived_at := Some now\<rparr> else r) (cs_configs cs)\<rparr>))"

definition upsert_runtime_status :: "config_runtime_status \<Rightarrow> config_store \<Rightarrow> config_store" where
  "upsert_runtime_status r cs =
     cs\<lparr>cs_runtime := (if runtime_status_find (crs_device_id r) cs = None then cs_runtime cs @ [r]
        else update_rows crs_device_id (crs_device_id r) (\<lambda>_. r) (cs_runtime cs))\<rparr>"

definition config_audit_resource :: "string \<Rightarrow> string" where
  "config_audit_resource device_id = ''device_configuration:'' @ device_id"

definition on_cs :: "(world \<Rightarrow> world) \<Rightarrow> config_store \<Rightarrow> config_store" where
  "on_cs f cs = cs\<lparr>cs_db := f (cs_db cs)\<rparr>"

text \<open>One configuration event; its actor is the system unless one is given.\<close>

definition config_record ::
  "ctx \<Rightarrow> string \<Rightarrow> string \<Rightarrow> int option \<Rightarrow> string \<Rightarrow> string \<Rightarrow> string \<Rightarrow> details \<Rightarrow> config_store \<Rightarrow> config_store" where
  "config_record c device_id event_type version status summary actor extra cs =
     on_cs (audit_add c (entry event_type (config_audit_resource device_id) status
       ([(''device_id'', JStr device_id),
         (''config_version'', (case version of None \<Rightarrow> JNull | Some v \<Rightarrow> JInt v)), (''summary'', JStr summary)] @ extra)
       (Some actor))) cs"

definition audit_history :: "string \<Rightarrow> nat \<Rightarrow> world \<Rightarrow> app_error + audit_event list" where
  "audit_history device_id limit w =
     bindE (get_device device_id w) (\<lambda>_.
       Inr (take limit (sort_by (\<lambda>a b. ae_timestamp b \<le> ae_timestamp a)
         (filter (\<lambda>e. ae_resource e = config_audit_resource device_id) (w_audit w)))))"

end
