(* ===== verification/ConfigService.thy ===== *)
theory ConfigService
  imports AssetConfig Policy
begin

text \<open>
  Validation, publication and application of device configurations: \<^verbatim>\<open>assetconfig/validation.py\<close>,
  \<^verbatim>\<open>apply.py\<close> and the services of \<^verbatim>\<open>service.py\<close>. What other sessions commit between choosing a version
  number and inserting the row is an argument.
\<close>

section \<open>Validation\<close>

record pydantic_error =
  pyd_loc :: "string list"
  pyd_msg :: string
  pyd_type :: string

text \<open>\<^verbatim>\<open>DeviceDefinition.model_validate\<close> and \<^verbatim>\<open>model_dump(mode="json")\<close>.\<close>

record pyd_env =
  py_validate :: "json \<Rightarrow> pydantic_error list + device_definition"
  py_dump :: "device_definition \<Rightarrow> json"

definition issue :: "string \<Rightarrow> string \<Rightarrow> string \<Rightarrow> config_issue" where
  "issue field code message = \<lparr>ci_field = field, ci_code = code, ci_message = message\<rparr>"

fun contains :: "string \<Rightarrow> string \<Rightarrow> bool" where
  "contains p [] \<longleftrightarrow> p = []"
| "contains p (ch # s) \<longleftrightarrow> take (length p) (ch # s) = p \<or> contains p s"

definition classify :: "string \<Rightarrow> string \<Rightarrow> string" where
  "classify message error_type =
     (let lowered = py_lower message in
      if contains ''missing canonical signals'' lowered then ''MISSING_SIGNAL''
      else if contains ''unknown signals'' lowered then ''UNKNOWN_SIGNAL''
      else if contains ''must declare a'' lowered \<and> contains ''block'' lowered then ''PROTOCOL_BLOCK_MISSING''
      else if contains ''do not match protocol'' lowered then ''PROTOCOL_BLOCK_MISMATCH''
      else if contains ''opc.tcp://'' lowered then ''ENDPOINT_INVALID''
      else if contains ''must be finite'' lowered then ''PROTOCOL_MAPPING_INVALID''
      else if contains ''derived state rules'' lowered then ''STATE_RULE_INVALID''
      else if error_type = ''missing'' then ''FIELD_REQUIRED''
      else if error_type = ''extra_forbidden'' then ''FIELD_UNKNOWN''
      else ''FIELD_INVALID'')"

definition pydantic_issues :: "pydantic_error list \<Rightarrow> config_issue list" where
  "pydantic_issues errors =
     map (\<lambda>e. let location = py_join ''.'' (pyd_loc e) in
       issue (if location = [] then ''<root>'' else location) (classify (pyd_msg e) (pyd_type e)) (pyd_msg e)) errors"

definition SECRET_KEY_MARKERS :: "string list" where
  "SECRET_KEY_MARKERS =
     [''password'', ''passwd'', ''secret'', ''token'', ''credential'', ''api_key'', ''apikey'', ''private_key'']"

definition is_secret_key :: "string \<Rightarrow> bool" where
  "is_secret_key key \<longleftrightarrow> list_ex (\<lambda>m. contains m (py_lower key)) SECRET_KEY_MARKERS"

fun secret_issues :: "string \<Rightarrow> json \<Rightarrow> config_issue list"
  and secret_items :: "string \<Rightarrow> (string \<times> json) list \<Rightarrow> config_issue list"
  and secret_elements :: "string \<Rightarrow> nat \<Rightarrow> json list \<Rightarrow> config_issue list" where
  "secret_issues base (JObj kvs) = secret_items base kvs"
| "secret_issues base (JList xs) = secret_elements base 0 xs"
| "secret_issues base _ = []"
| "secret_items base [] = []"
| "secret_items base ((key, v) # rest) =
     (let path = (if base = [] then key else base @ ''.'' @ key) in
      (if is_secret_key key \<and> v \<notin> {JNull, JStr [], JObj [], JList []}
       then [issue path ''SECRET_MATERIAL_REJECTED''
         ''credential material must not be stored in a configuration snapshot; use an opaque secret reference instead'']
       else [])
      @ secret_issues path v @ secret_items base rest)"
| "secret_elements base i [] = []"
| "secret_elements base i (x # xs) =
     secret_issues (base @ ''['' @ nat_digits i @ '']'') x @ secret_elements base (Suc i) xs"

definition gateway_compatibility :: "device_definition \<Rightarrow> config_issue list" where
  "gateway_compatibility d =
     (case register_definition d [] of
        Inl _ \<Rightarrow> [issue ''configuration'' ''GATEWAY_INCOMPATIBLE'' (''device '' @ quoted (dd_device_id d) @ '' is already registered'')]
      | Inr _ \<Rightarrow> [])"

definition definition_issues :: "string \<Rightarrow> device_definition \<Rightarrow> config_issue list" where
  "definition_issues device_id d =
     (if dd_device_id d \<noteq> device_id then [issue ''device_id'' ''DEVICE_ID_MISMATCH''
        (''payload device_id '' @ quoted (dd_device_id d) @ '' does not match the target device '' @ quoted device_id)] else [])
     @ (if polled d \<and> endpoint d = None then [issue ''endpoint'' ''ENDPOINT_INVALID''
        (''protocol '' @ quoted (protocol_value (dd_protocol d)) @ '' requires a connection endpoint'')] else [])
     @ (if \<not> (100 \<le> dd_poll_interval_ms d \<and> dd_poll_interval_ms d \<le> 3600000) then [issue ''poll_interval_ms''
        ''POLL_INTERVAL_INVALID'' ''poll interval must be between 100 and 3600000 milliseconds''] else [])
     @ (if \<exists>m \<in> set_option (dd_modbus_tcp d). float_le (mbc_timeout_seconds m) (Fin 0)
        then [issue ''modbus_tcp.timeout_seconds'' ''TIMEOUT_INVALID'' ''timeout must be positive''] else [])
     @ (if \<exists>u \<in> set_option (dd_opc_ua d). float_le (opc_timeout_seconds u) (Fin 0)
        then [issue ''opc_ua.timeout_seconds'' ''TIMEOUT_INVALID'' ''timeout must be positive''] else [])
     @ (if sd_operating_state (dd_state d) = [] \<or> sd_fault_state (dd_state d) = [] then [issue ''state''
        ''STATE_DEFINITION_INVALID'' ''operating_state and fault_state must both be declared''] else [])
     @ gateway_compatibility d"

definition configuration_issues :: "pyd_env \<Rightarrow> string \<Rightarrow> json \<Rightarrow> string option \<Rightarrow> config_issue list" where
  "configuration_issues env device_id payload device_status =
     secret_issues [] payload
     @ (if device_status = None then [issue ''device_id'' ''DEVICE_NOT_FOUND''
        (''device '' @ quoted device_id @ '' is not registered'')] else [])
     @ (case py_validate env payload of Inl errors \<Rightarrow> pydantic_issues errors | Inr d \<Rightarrow> definition_issues device_id d)
     @ (case device_status of
          None \<Rightarrow> []
        | Some status \<Rightarrow> if status = ''ACTIVE'' then [] else [issue ''device_id'' ''DEVICE_NOT_ACTIVE''
            (''device '' @ quoted device_id @ '' has status '' @ quoted status @ ''; acquisition requires ACTIVE'')])"

definition validate_configuration :: "pyd_env \<Rightarrow> string \<Rightarrow> json \<Rightarrow> string option \<Rightarrow> instant \<Rightarrow> validation_outcome" where
  "validate_configuration env device_id payload device_status now =
     (let errors = configuration_issues env device_id payload device_status
      in \<lparr>vo_valid = (errors = []), vo_errors = errors, vo_checked_at = now\<rparr>)"

section \<open>Appliers\<close>

record apply_outcome =
  ao_applied :: bool
  ao_applied_version :: "int option"
  ao_error :: "string option"
  ao_runtime_state :: "string option"

record 'a applier =
  ap_available :: "'a \<Rightarrow> bool"
  ap_apply :: "device_definition \<Rightarrow> int \<Rightarrow> 'a \<Rightarrow> (string + apply_outcome) \<times> 'a"
  ap_applied_version :: "string \<Rightarrow> 'a \<Rightarrow> int option"
  ap_runtime_state :: "string \<Rightarrow> 'a \<Rightarrow> string option"

text \<open>The gateway as applier; the argument is what the candidate runtime goes through while it is waited for.\<close>

definition gateway_applier :: "runtime_event list list \<Rightarrow> gateway applier" where
  "gateway_applier batches =
     \<lparr>ap_available = gw_enabled,
      ap_apply = (\<lambda>d version g.
        (let (r, g') = apply_device_definition d (Some version) batches g
         in (Inr \<lparr>ao_applied = ar_applied r, ao_applied_version = (if ar_applied r then ar_version r else None),
                  ao_error = ar_error r, ao_runtime_state = Some (device_state_value (ar_state r))\<rparr>, g'))),
      ap_applied_version = gateway_applied_version,
      ap_runtime_state = (\<lambda>device_id g.
        (case gateway_status device_id g of Inl _ \<Rightarrow> None | Inr st \<Rightarrow> Some (device_state_value (st_state st))))\<rparr>"

definition GATEWAY_UNAVAILABLE :: string where
  "GATEWAY_UNAVAILABLE = ''gateway runtime is not available in this process''"

definition unavailable_applier :: "unit applier" where
  "unavailable_applier =
     \<lparr>ap_available = (\<lambda>_. False),
      ap_apply = (\<lambda>_ _ a. (Inr \<lparr>ao_applied = False, ao_applied_version = None, ao_error = Some GATEWAY_UNAVAILABLE,
        ao_runtime_state = None\<rparr>, a)),
      ap_applied_version = (\<lambda>_ _. None), ap_runtime_state = (\<lambda>_ _. None)\<rparr>"


section \<open>Drafts\<close>

definition parse_definition :: "pyd_env \<Rightarrow> json \<Rightarrow> string \<Rightarrow> app_error + device_definition" where
  "parse_definition env payload device_id =
     (case py_validate env payload of
        Inl _ \<Rightarrow> Inl (AppError ''CONFIGURATION_VALIDATION_FAILED'' 422)
      | Inr d \<Rightarrow> if dd_device_id d \<noteq> device_id then Inl (AppError ''CONFIGURATION_VALIDATION_FAILED'' 422) else Inr d)"

definition MUTABLE_STATUSES :: "ConfigurationStatus set" where
  "MUTABLE_STATUSES = {CFG_DRAFT, CFG_VALIDATED}"

definition list_configurations :: "string \<Rightarrow> config_store \<Rightarrow> app_error + device_configuration list" where
  "list_configurations device_id cs =
     bindE (get_device device_id (cs_db cs)) (\<lambda>_. Inr (list_for_device device_id cs))"

definition get_configuration :: "string \<Rightarrow> int \<Rightarrow> config_store \<Rightarrow> app_error + device_configuration" where
  "get_configuration device_id version cs =
     bindE (get_device device_id (cs_db cs)) (\<lambda>_.
       (case configuration_find device_id version cs of
          None \<Rightarrow> Inl (AppError ''CONFIGURATION_NOT_FOUND'' 404) | Some r \<Rightarrow> Inr r))"

text \<open>Adding a row, and writing the changed row back, are where the table's constraints are checked.\<close>

definition insert_configuration :: "device_configuration \<Rightarrow> config_store \<Rightarrow> app_error + config_store" where
  "insert_configuration r cs =
     (if configuration_row_ok r (cs_configs cs) (cs_db cs)
      then Inr (cs\<lparr>cs_configs := cs_configs cs @ [r]\<rparr>) else Inl IntegrityError)"

definition save_configuration :: "device_configuration \<Rightarrow> config_store \<Rightarrow> app_error + config_store" where
  "save_configuration r cs =
     (if configuration_row_ok r (filter (\<lambda>x. cf_id x \<noteq> cf_id r) (cs_configs cs)) (cs_db cs)
      then Inr (cs\<lparr>cs_configs := update_rows cf_id (cf_id r) (\<lambda>_. r) (cs_configs cs)\<rparr>) else Inl IntegrityError)"

definition new_draft :: "uuid \<Rightarrow> string \<Rightarrow> int \<Rightarrow> protocol_type \<Rightarrow> json \<Rightarrow> string \<Rightarrow> device_configuration" where
  "new_draft fresh device_id version protocol configuration actor =
     \<lparr>cf_id = fresh, cf_device_id = device_id, cf_version = version, cf_status = CFG_DRAFT, cf_protocol = protocol,
      cf_configuration = configuration, cf_created_by = actor, cf_validated_at = None, cf_published_at = None,
      cf_archived_at = None, cf_validation_result = None, cf_validation_error = None\<rparr>"

definition v_text :: "int \<Rightarrow> string" where
  "v_text version = ''v'' @ int_str version"

definition create_draft ::
  "ctx \<Rightarrow> pyd_env \<Rightarrow> string \<Rightarrow> json \<Rightarrow> string \<Rightarrow> (config_store \<Rightarrow> config_store) \<Rightarrow> config_store \<Rightarrow>
    app_error + device_configuration \<times> config_store" where
  "create_draft c env device_id payload actor others cs =
     bindE (get_device device_id (cs_db cs)) (\<lambda>_.
     bindE (parse_definition env payload device_id) (\<lambda>d.
       (let version = next_version device_id cs;
            cs1 = others cs;
            (fresh, w1) = uuid4 c (cs_db cs1);
            row = new_draft fresh device_id version (dd_protocol d) (py_dump env d) actor
        in (case insert_configuration row (cs1\<lparr>cs_db := w1\<rparr>) of
              Inl _ \<Rightarrow> Inl (AppError ''CONFIGURATION_CONFLICT'' 409)
            | Inr cs2 \<Rightarrow> Inr (row, config_record c device_id ''CONFIG_DRAFT_CREATED'' (Some version) ''SUCCESS''
                (''draft '' @ v_text version @ '' created for protocol '' @ protocol_value (dd_protocol d)) actor [] cs2)))))"

definition update_draft ::
  "ctx \<Rightarrow> pyd_env \<Rightarrow> string \<Rightarrow> int \<Rightarrow> json \<Rightarrow> string \<Rightarrow> config_store \<Rightarrow> app_error + device_configuration \<times> config_store" where
  "update_draft c env device_id version payload actor cs =
     bindE (get_configuration device_id version cs) (\<lambda>row.
       if cf_status row \<notin> MUTABLE_STATUSES then Inl (AppError ''CONFIGURATION_IMMUTABLE'' 409)
       else bindE (parse_definition env payload device_id) (\<lambda>d.
         (let row' = row\<lparr>cf_configuration := py_dump env d, cf_protocol := dd_protocol d, cf_status := CFG_DRAFT,
                         cf_validated_at := None, cf_validation_result := None, cf_validation_error := None\<rparr>
          in bindE (save_configuration row' cs) (\<lambda>cs1.
               Inr (row', config_record c device_id ''CONFIG_DRAFT_UPDATED'' (Some version) ''SUCCESS''
                 (''draft '' @ v_text version @ '' updated'') actor [] cs1)))))"

definition delete_draft :: "ctx \<Rightarrow> string \<Rightarrow> int \<Rightarrow> config_store \<Rightarrow> app_error + config_store" where
  "delete_draft c device_id version cs =
     bindE (get_configuration device_id version cs) (\<lambda>row.
       if cf_status row \<noteq> CFG_DRAFT then Inl (AppError ''CONFIGURATION_STATE_INVALID'' 409)
       else Inr (config_record c device_id ''CONFIG_DRAFT_DELETED'' (Some version) ''SUCCESS''
              (''draft '' @ v_text version @ '' deleted'') ''system'' []
              (cs\<lparr>cs_configs := filter (\<lambda>x. cf_id x \<noteq> cf_id row) (cs_configs cs)\<rparr>)))"

text \<open>Unlike \<open>create_draft\<close>, a version taken by another session here leaves as the database's own error.\<close>

definition clone_version ::
  "ctx \<Rightarrow> string \<Rightarrow> int \<Rightarrow> string \<Rightarrow> (config_store \<Rightarrow> config_store) \<Rightarrow> config_store \<Rightarrow>
    app_error + device_configuration \<times> config_store" where
  "clone_version c device_id source_version actor others cs =
     bindE (get_configuration device_id source_version cs) (\<lambda>source.
       (let version = next_version device_id cs;
            cs1 = others cs;
            (fresh, w1) = uuid4 c (cs_db cs1);
            row = new_draft fresh device_id version (cf_protocol source) (cf_configuration source) actor;
            rollback = (cf_status source = CFG_ARCHIVED)
        in bindE (insert_configuration row (cs1\<lparr>cs_db := w1\<rparr>)) (\<lambda>cs2.
             Inr (row, config_record c device_id
               (if rollback then ''CONFIG_ROLLBACK_DRAFT_CREATED'' else ''CONFIG_DRAFT_CREATED'') (Some version) ''SUCCESS''
               (if rollback then ''draft '' @ v_text version @ '' cloned from archived '' @ v_text source_version @ '' (rollback)''
                else ''draft '' @ v_text version @ '' cloned from '' @ v_text source_version)
               actor [(''source_version'', JInt source_version)] cs2))))"

definition validate_version ::
  "ctx \<Rightarrow> pyd_env \<Rightarrow> string \<Rightarrow> int \<Rightarrow> config_store \<Rightarrow> app_error + validation_outcome \<times> config_store" where
  "validate_version c env device_id version cs =
     bindE (get_configuration device_id version cs) (\<lambda>row.
     bindE (get_device device_id (cs_db cs)) (\<lambda>dev.
       (let (now, w1) = utc_now c (cs_db cs);
            cs1 = cs\<lparr>cs_db := w1\<rparr>;
            outcome = validate_configuration env device_id (cf_configuration row) (Some (dev_status dev)) now
        in if cf_status row \<notin> MUTABLE_STATUSES then Inr (outcome, cs1)
           else (let row1 = row\<lparr>cf_validation_result := Some outcome,
                       cf_validation_error := (if vo_valid outcome then None
                         else Some (py_join ''; '' (map ci_message (vo_errors outcome))))\<rparr>;
                     row2 = (if vo_valid outcome then row1\<lparr>cf_status := CFG_VALIDATED, cf_validated_at := Some (vo_checked_at outcome)\<rparr>
                             else row1)
                 in bindE (save_configuration row2 cs1) (\<lambda>cs2.
                      Inr (outcome, config_record c device_id ''CONFIG_VALIDATED'' (Some version)
                        (if vo_valid outcome then ''SUCCESS'' else ''FAILED'')
                        (if vo_valid outcome then v_text version @ '' passed validation''
                         else v_text version @ '' failed validation with '' @ nat_digits (length (vo_errors outcome)) @ '' issue(s)'')
                        ''system'' [(''error_count'', JInt (int (length (vo_errors outcome))))] cs2))))))"

section \<open>Publication and application\<close>

text \<open>
  What \<^verbatim>\<open>publish\<close> commits before it turns to the runtime. A rejected publication commits what the
  validation found and then raises, so the state is returned beside the result.
\<close>

definition publish_commit ::
  "ctx \<Rightarrow> pyd_env \<Rightarrow> string \<Rightarrow> int \<Rightarrow> string \<Rightarrow> config_store \<Rightarrow> (app_error + device_configuration) \<times> config_store" where
  "publish_commit c env device_id version actor cs =
     (case get_configuration device_id version cs of
        Inl e \<Rightarrow> (Inl e, cs)
      | Inr row \<Rightarrow>
          if cf_status row = CFG_PUBLISHED then (Inl (AppError ''CONFIGURATION_STATE_INVALID'' 409), cs)
          else if cf_status row = CFG_ARCHIVED then (Inl (AppError ''CONFIGURATION_STATE_INVALID'' 409), cs)
          else (case get_device device_id (cs_db cs) of
                  Inl e \<Rightarrow> (Inl e, cs)
                | Inr dev \<Rightarrow>
                    (let (checked, w1) = utc_now c (cs_db cs);
                         cs1 = cs\<lparr>cs_db := w1\<rparr>;
                         outcome = validate_configuration env device_id (cf_configuration row) (Some (dev_status dev)) checked;
                         row1 = row\<lparr>cf_validation_result := Some outcome\<rparr>
                     in if \<not> vo_valid outcome
                        then (case save_configuration
                                (row1\<lparr>cf_validation_error := Some (py_join ''; '' (map ci_message (vo_errors outcome)))\<rparr>) cs1 of
                                Inl e \<Rightarrow> (Inl e, cs)
                              | Inr cs2 \<Rightarrow> (Inl (AppError ''CONFIGURATION_VALIDATION_FAILED'' 422),
                                  config_record c device_id ''CONFIG_VALIDATED'' (Some version) ''FAILED''
                                    (''publish rejected: '' @ v_text version @ '' failed validation'') ''system''
                                    [(''error_count'', JInt (int (length (vo_errors outcome))))] cs2))
                        else (let (published_at, w2) = utc_now c (cs_db cs1);
                                  (archive_now, w3) = utc_now c w2;
                                  (archived, cs2) = archive_published_except archive_now device_id version (cs1\<lparr>cs_db := w3\<rparr>);
                                  row2 = row1\<lparr>cf_status := CFG_PUBLISHED, cf_published_at := Some published_at,
                                              cf_validated_at := Some (vo_checked_at outcome), cf_validation_error := None\<rparr>
                              in (case save_configuration row2 cs2 of
                                    Inl e \<Rightarrow> (Inl e, cs)
                                  | Inr cs3 \<Rightarrow>
                                      (let cs4 = config_record c device_id ''CONFIG_PUBLISHED'' (Some version) ''SUCCESS''
                                             (v_text version @ '' published'') actor [] cs3
                                       in (Inr row2,
                                           if 0 < archived
                                           then config_record c device_id ''CONFIG_ARCHIVED'' None ''SUCCESS''
                                             (nat_digits archived @ '' previously published version(s) archived'') ''system'' [] cs4
                                           else cs4)))))))"

definition mark_applying :: "ctx \<Rightarrow> 'a applier \<Rightarrow> string \<Rightarrow> int \<Rightarrow> config_store \<times> 'a \<Rightarrow> config_store \<times> 'a" where
  "mark_applying c ap device_id version s =
     (let (cs, a) = s; (now, w1) = utc_now c (cs_db cs)
      in (upsert_runtime_status
            \<lparr>crs_device_id = device_id, crs_desired_version = Some version,
             crs_applied_version = ap_applied_version ap device_id a, crs_apply_status = AP_APPLYING,
             crs_source = SRC_DATABASE, crs_last_apply_at = Some now,
             crs_last_apply_error = Option.bind (runtime_status_find device_id cs) crs_last_apply_error\<rparr>
            (cs\<lparr>cs_db := w1\<rparr>), a))"

definition record_apply ::
  "ctx \<Rightarrow> 'a applier \<Rightarrow> string \<Rightarrow> int \<Rightarrow> apply_outcome \<Rightarrow> string \<Rightarrow> bool \<Rightarrow> config_store \<times> 'a \<Rightarrow> config_store \<times> 'a" where
  "record_apply c ap device_id version outcome actor pending s =
     (let (cs, a) = s; (now, w1) = utc_now c (cs_db cs);
          cs1 = upsert_runtime_status
            \<lparr>crs_device_id = device_id, crs_desired_version = Some version,
             crs_applied_version = (if ao_applied outcome then ao_applied_version outcome else ap_applied_version ap device_id a),
             crs_apply_status = (if ao_applied outcome then AP_APPLIED else if pending then AP_PENDING else AP_FAILED),
             crs_source = SRC_DATABASE, crs_last_apply_at = Some now, crs_last_apply_error = ao_error outcome\<rparr>
            (cs\<lparr>cs_db := w1\<rparr>)
      in (config_record c device_id
            (if ao_applied outcome then ''CONFIG_APPLY_SUCCEEDED'' else if pending then ''CONFIG_APPLY_PENDING'' else ''CONFIG_APPLY_FAILED'')
            (Some version) (if ao_applied outcome then ''SUCCESS'' else if pending then ''PENDING'' else ''FAILED'')
            (if ao_applied outcome then v_text version @ '' applied to the runtime''
             else v_text version @ '' was not applied: ''
               @ (case ao_error outcome of None \<Rightarrow> ''unknown cause'' | Some m \<Rightarrow> if m = [] then ''unknown cause'' else m))
            actor [(''runtime_state'', json_opt_str (ao_runtime_state outcome))] cs1, a))"

text \<open>A raising applier is a failed application whose error is the exception's text.\<close>

definition run_apply :: "'a applier \<Rightarrow> device_definition \<Rightarrow> int \<Rightarrow> config_store \<times> 'a \<Rightarrow> apply_outcome \<times> config_store \<times> 'a" where
  "run_apply ap d version s =
     (let (cs, a) = s; (r, a') = ap_apply ap d version a
      in (case r of
            Inl exc \<Rightarrow> \<lparr>ao_applied = False, ao_applied_version = None, ao_error = Some exc, ao_runtime_state = None\<rparr>
          | Inr outcome \<Rightarrow> outcome, cs, a'))"

definition apply_published ::
  "ctx \<Rightarrow> pyd_env \<Rightarrow> 'a applier \<Rightarrow> string \<Rightarrow> int \<Rightarrow> string \<Rightarrow> config_store \<times> 'a \<Rightarrow>
    (app_error + apply_outcome) \<times> config_store \<times> 'a" where
  "apply_published c env ap device_id version actor s =
     (case configuration_find device_id version (fst s) of
        None \<Rightarrow> (Inl (AppError ''CONFIGURATION_NOT_FOUND'' 404), s)
      | Some row \<Rightarrow>
          (case py_validate env (cf_configuration row) of
             Inl _ \<Rightarrow> (Inl PyValueError, s)
           | Inr d \<Rightarrow>
               if \<not> ap_available ap (snd s)
               then (let outcome = \<lparr>ao_applied = False, ao_applied_version = None, ao_error = Some GATEWAY_UNAVAILABLE,
                                    ao_runtime_state = None\<rparr>
                     in (Inr outcome, record_apply c ap device_id version outcome actor True s))
               else (let (outcome, s1) = run_apply ap d version (mark_applying c ap device_id version s)
                     in (Inr outcome, record_apply c ap device_id version outcome actor False s1))))"

section \<open>Desired against applied\<close>

record configuration_status =
  cst_device_id :: string
  cst_desired_version :: "int option"
  cst_applied_version :: "int option"
  cst_apply_status :: ApplyStatus
  cst_source :: ConfigurationSource
  cst_last_apply_at :: "instant option"
  cst_last_apply_error :: "string option"
  cst_in_sync :: bool
  cst_protocol :: "protocol_type option"
  cst_runtime_state :: "string option"

definition row_apply_status :: "config_runtime_status option \<Rightarrow> ApplyStatus" where
  "row_apply_status row = (case row of None \<Rightarrow> AP_PENDING | Some r \<Rightarrow> crs_apply_status r)"

definition in_sync :: "int option \<Rightarrow> int option \<Rightarrow> ApplyStatus \<Rightarrow> bool" where
  "in_sync desired applied st \<longleftrightarrow> desired \<noteq> None \<and> desired = applied \<and> st = AP_APPLIED"

definition configuration_status ::
  "'a applier \<Rightarrow> string \<Rightarrow> config_store \<times> 'a \<Rightarrow> app_error + configuration_status" where
  "configuration_status ap device_id s =
     (let (cs, a) = s in
      bindE (get_device device_id (cs_db cs)) (\<lambda>_.
        (let published = current_published device_id cs;
             row = runtime_status_find device_id cs;
             desired = map_option cf_version published;
             applied = Option.bind row crs_applied_version
         in Inr \<lparr>cst_device_id = device_id, cst_desired_version = desired, cst_applied_version = applied,
                 cst_apply_status = row_apply_status row,
                 cst_source = (case row of None \<Rightarrow> SRC_NONE | Some r \<Rightarrow> crs_source r),
                 cst_last_apply_at = Option.bind row crs_last_apply_at,
                 cst_last_apply_error = Option.bind row crs_last_apply_error,
                 cst_in_sync = in_sync desired applied (row_apply_status row),
                 cst_protocol = map_option cf_protocol published,
                 cst_runtime_state = ap_runtime_state ap device_id a\<rparr>)))"

definition publish ::
  "ctx \<Rightarrow> pyd_env \<Rightarrow> 'a applier \<Rightarrow> string \<Rightarrow> int \<Rightarrow> string \<Rightarrow> config_store \<times> 'a \<Rightarrow>
    (app_error + device_configuration \<times> configuration_status) \<times> config_store \<times> 'a" where
  "publish c env ap device_id version actor s =
     (case publish_commit c env device_id version actor (fst s) of
        (Inl e, cs1) \<Rightarrow> (Inl e, cs1, snd s)
      | (Inr row, cs1) \<Rightarrow>
          (case apply_published c env ap device_id version actor (cs1, snd s) of
             (Inl e, s2) \<Rightarrow> (Inl e, s2)
           | (Inr _, s2) \<Rightarrow> (bindE (configuration_status ap device_id s2) (\<lambda>st. Inr (row, st)), s2)))"

definition apply_current ::
  "ctx \<Rightarrow> pyd_env \<Rightarrow> 'a applier \<Rightarrow> string \<Rightarrow> string \<Rightarrow> config_store \<times> 'a \<Rightarrow>
    (app_error + configuration_status) \<times> config_store \<times> 'a" where
  "apply_current c env ap device_id actor s =
     (case get_device device_id (cs_db (fst s)) of
        Inl e \<Rightarrow> (Inl e, s)
      | Inr _ \<Rightarrow>
          (case current_published device_id (fst s) of
             None \<Rightarrow> (Inl (AppError ''CONFIGURATION_NOT_FOUND'' 404), s)
           | Some published \<Rightarrow>
               if \<not> ap_available ap (snd s) then (Inl (AppError ''APPLY_UNAVAILABLE'' 503), s)
               else (case apply_published c env ap device_id (cf_version published) actor s of
                       (Inl e, s1) \<Rightarrow> (Inl e, s1)
                     | (Inr _, s1) \<Rightarrow> (configuration_status ap device_id s1, s1))))"

end
