(* ===== verification/ConfigSource.thy ===== *)
theory ConfigSource
  imports ConfigService
begin

text \<open>
  The read models over devices and configurations (\<^verbatim>\<open>AssetService.device_summaries\<close> and \<^verbatim>\<open>tree\<close>), the
  choice of each device's effective definition (\<^verbatim>\<open>assetconfig/source.py\<close>) and the start of a gateway
  from it (\<^verbatim>\<open>_build_managed_gateway\<close> of \<^verbatim>\<open>main.py\<close>). Reading the bootstrap file is a parameter.
\<close>

section \<open>Device summaries\<close>

record device_summary =
  dsm_device_id :: string
  dsm_name :: string
  dsm_device_type :: string
  dsm_status :: string
  dsm_asset_node_id :: "uuid option"
  dsm_protocol :: "protocol_type option"
  dsm_published_version :: "int option"
  dsm_applied_version :: "int option"
  dsm_apply_status :: ApplyStatus
  dsm_in_sync :: bool

text \<open>A dictionary built from rows keeps the last one of a key.\<close>

definition device_summary_of :: "device_configuration list \<Rightarrow> config_runtime_status list \<Rightarrow> device \<Rightarrow> device_summary" where
  "device_summary_of published runtime d =
     (let config = find_row cf_device_id (dev_device_id d) (rev published);
          status = find_row crs_device_id (dev_device_id d) (rev runtime);
          desired = map_option cf_version config;
          applied = Option.bind status crs_applied_version
      in \<lparr>dsm_device_id = dev_device_id d, dsm_name = dev_name d, dsm_device_type = dev_device_type d,
          dsm_status = dev_status d, dsm_asset_node_id = dev_asset_node_id d,
          dsm_protocol = map_option cf_protocol config, dsm_published_version = desired,
          dsm_applied_version = applied, dsm_apply_status = row_apply_status status,
          dsm_in_sync = in_sync desired applied (row_apply_status status)\<rparr>)"

definition list_runtime_status :: "ctx \<Rightarrow> config_store \<Rightarrow> config_runtime_status list" where
  "list_runtime_status c cs = sort_by (\<lambda>a b. c_collate c (crs_device_id a) \<le> c_collate c (crs_device_id b)) (cs_runtime cs)"

definition device_summaries :: "ctx \<Rightarrow> config_store \<Rightarrow> device_summary list" where
  "device_summaries c cs =
     map (device_summary_of (list_published c cs) (list_runtime_status c cs)) (sort_by (by_device_id c) (w_devices (cs_db cs)))"

section \<open>Asset tree\<close>

datatype asset_tree = AssetTree asset_node "device_summary list" "asset_tree list"

text \<open>
  One level for each unit of fuel. Every node has one parent and a root has none, so a path below a
  root repeats no node and the number of nodes is enough.
\<close>

fun build_tree :: "nat \<Rightarrow> asset_node list \<Rightarrow> device_summary list \<Rightarrow> asset_node \<Rightarrow> asset_tree" where
  "build_tree 0 nodes summaries n = AssetTree n (filter (\<lambda>s. dsm_asset_node_id s = Some (n_id n)) summaries) []"
| "build_tree (Suc fuel) nodes summaries n =
     AssetTree n (filter (\<lambda>s. dsm_asset_node_id s = Some (n_id n)) summaries)
       (map (build_tree fuel nodes summaries) (filter (\<lambda>x. n_parent_id x = Some (n_id n)) nodes))"

definition asset_tree_read :: "ctx \<Rightarrow> config_store \<Rightarrow> asset_tree list \<times> device_summary list" where
  "asset_tree_read c cs =
     (let nodes = list_nodes c (cs_db cs); summaries = device_summaries c cs
      in (map (build_tree (length nodes) nodes summaries) (filter (\<lambda>n. n_parent_id n = None) nodes),
          filter (\<lambda>s. dsm_asset_node_id s = None) summaries))"

section \<open>Effective definitions\<close>

record resolved_definition =
  rd_device_id :: string
  rd_definition :: device_definition
  rd_version :: "int option"
  rd_source :: ConfigurationSource

text \<open>Reading fails as a whole when one stored payload no longer parses.\<close>

definition published_definitions :: "ctx \<Rightarrow> pyd_env \<Rightarrow> config_store \<Rightarrow> pydantic_error list + resolved_definition list" where
  "published_definitions c env cs =
     mapE (\<lambda>r. bindE (py_validate env (cf_configuration r)) (\<lambda>d.
       Inr \<lparr>rd_device_id = cf_device_id r, rd_definition = d, rd_version = Some (cf_version r), rd_source = SRC_DATABASE\<rparr>))
       (list_published c cs)"

text \<open>The bootstrap file is absent, is refused with a message, or gives definitions.\<close>

type_synonym bootstrap_file = "(string + device_definition list) option"

definition bootstrap_definitions :: "bootstrap_file \<Rightarrow> string + resolved_definition list" where
  "bootstrap_definitions file =
     (case file of
        None \<Rightarrow> Inr []
      | Some loaded \<Rightarrow> bindE loaded (\<lambda>ds. Inr (map (\<lambda>d.
          \<lparr>rd_device_id = dd_device_id d, rd_definition = d, rd_version = None, rd_source = SRC_BOOTSTRAP\<rparr>) ds)))"

text \<open>
  With \<open>readable = False\<close> the database cannot be read. The number of reported problems is returned
  beside the definitions.
\<close>

definition resolve_definitions ::
  "ctx \<Rightarrow> pyd_env \<Rightarrow> bool \<Rightarrow> bootstrap_file \<Rightarrow> bool \<Rightarrow> config_store \<Rightarrow> string + resolved_definition list \<times> nat" where
  "resolve_definitions c env readable file managed cs =
     (if \<not> managed then bindE (bootstrap_definitions file) (\<lambda>ds. Inr (ds, 0))
      else (let (resolved, problems) = (case (if readable then published_definitions c env cs else Inl []) of
                   Inl _ \<Rightarrow> ([], 1) | Inr ds \<Rightarrow> (ds, 0));
                managed_ids = rd_device_id ` set resolved;
                (bootstrap, problems') = (case bootstrap_definitions file of
                   Inl _ \<Rightarrow> ([], Suc problems) | Inr ds \<Rightarrow> (ds, problems))
            in Inr (resolved @ filter (\<lambda>x. rd_device_id x \<notin> managed_ids) bootstrap, problems')))"

section \<open>Starting a managed gateway\<close>

datatype startup_error = StartupGateway gateway_error | StartupIntegrity | StartupSource string

text \<open>The row names a device, which must exist.\<close>

definition startup_row ::
  "ctx \<Rightarrow> resolved_definition \<Rightarrow> apply_result option \<Rightarrow> config_store \<Rightarrow> startup_error + config_store" where
  "startup_row c item result cs =
     (let (now, w1) = utc_now c (cs_db cs) in
      if rd_device_id item \<notin> dev_device_id ` set (w_devices w1) then Inl StartupIntegrity
      else Inr (upsert_runtime_status
        \<lparr>crs_device_id = rd_device_id item, crs_desired_version = rd_version item,
         crs_applied_version = (case result of Some r \<Rightarrow> if ar_applied r then rd_version item else None | None \<Rightarrow> None),
         crs_apply_status = (case result of None \<Rightarrow> AP_PENDING | Some r \<Rightarrow> if ar_applied r then AP_APPLIED else AP_FAILED),
         crs_source = rd_source item, crs_last_apply_at = Some now,
         crs_last_apply_error = Option.bind result ar_error\<rparr> (cs\<lparr>cs_db := w1\<rparr>)))"

definition startup_item ::
  "ctx \<Rightarrow> (string \<Rightarrow> runtime_event list list) \<Rightarrow> config_store \<times> gateway \<Rightarrow> resolved_definition \<Rightarrow>
    startup_error + config_store \<times> gateway" where
  "startup_item c batches s item =
     (let (cs, g) = s in
      if rd_source item = SRC_DATABASE
      then (case confirm_ready (rd_device_id item) (rd_version item) (batches (rd_device_id item)) g of
              Inl e \<Rightarrow> Inl (StartupGateway e)
            | Inr (r, g1) \<Rightarrow> bindE (startup_row c item (Some r) cs) (\<lambda>cs1. Inr (cs1, g1)))
      else bindE (startup_row c item None cs) (\<lambda>cs1. Inr (cs1, g)))"

definition build_managed_gateway ::
  "ctx \<Rightarrow> pyd_env \<Rightarrow> bool \<Rightarrow> bootstrap_file \<Rightarrow> retry_policy \<Rightarrow> bool \<Rightarrow> bool option \<Rightarrow> instant \<Rightarrow> instant \<Rightarrow>
    (string \<Rightarrow> runtime_event list list) \<Rightarrow> config_store \<Rightarrow> startup_error + config_store \<times> gateway" where
  "build_managed_gateway c env readable file p simulated mqtt now loaded batches cs =
     (case resolve_definitions c env readable file True cs of
        Inl m \<Rightarrow> Inl (StartupSource m)
      | Inr (resolved, _) \<Rightarrow>
          (case load_definitions (map rd_definition resolved) [] of
             Inl e \<Rightarrow> Inl (StartupGateway e)
           | Inr reg \<Rightarrow>
               bindE (foldE (startup_item c batches) (cs, gateway_start now (new_gateway reg True p simulated mqtt)) resolved)
                 (\<lambda>(cs1, g1). Inr (cs1, mark_loaded loaded g1))))"

end
