(* ===== verification/ConfigApi.thy ===== *)
theory ConfigApi
  imports ConfigSource Organizations
begin

text \<open>
  The endpoints of \<^verbatim>\<open>api/configurations.py\<close>, \<^verbatim>\<open>api/assets.py\<close> and \<^verbatim>\<open>api/connectivity.py\<close>: every route
  checks its permission, then that the device it names is in the caller's scope, and only then calls
  the service. The state is the platform's tables, the configuration tables and the runtime.
\<close>

section \<open>State of the process\<close>

record 'a control =
  ct_platform :: platform
  ct_configs :: "device_configuration list"
  ct_runtime :: "config_runtime_status list"
  ct_applier :: 'a

definition control_store :: "'a control \<Rightarrow> config_store" where
  "control_store k = \<lparr>cs_db = g_db (ct_platform k), cs_configs = ct_configs k, cs_runtime = ct_runtime k\<rparr>"

definition put_store :: "config_store \<Rightarrow> 'a control \<Rightarrow> 'a control" where
  "put_store cs k =
     k\<lparr>ct_platform := on_world (\<lambda>_. cs_db cs) (ct_platform k), ct_configs := cs_configs cs, ct_runtime := cs_runtime cs\<rparr>"

type_synonym ('a, 'r) control_handler = "ctx \<Rightarrow> principal \<Rightarrow> 'a control \<Rightarrow> (app_error + 'r) \<times> 'a control"

text \<open>A route with its permission, and one that also names a device.\<close>

definition control_route ::
  "ctx \<Rightarrow> sec_env \<Rightarrow> http_request \<Rightarrow> string \<Rightarrow> ('a, 'r) control_handler \<Rightarrow> 'a control \<Rightarrow> (app_error + 'r) \<times> 'a control" where
  "control_route c se rq permission handler k =
     (case require_permission c se rq permission (ct_platform k) of
        (Inl e, g1) \<Rightarrow> (Inl e, k\<lparr>ct_platform := g1\<rparr>)
      | (Inr (p, c'), g1) \<Rightarrow> handler c' p (k\<lparr>ct_platform := g1\<rparr>))"

definition in_scope :: "http_request \<Rightarrow> string \<Rightarrow> ('a, 'r) control_handler \<Rightarrow> ('a, 'r) control_handler" where
  "in_scope rq device_id handler c p k =
     (case ensure_device_in_scope c rq p device_id (ct_platform k) of
        (Inl e, g1) \<Rightarrow> (Inl e, k\<lparr>ct_platform := g1\<rparr>)
      | (Inr _, g1) \<Rightarrow> handler c p (k\<lparr>ct_platform := g1\<rparr>))"

definition device_route ::
  "ctx \<Rightarrow> sec_env \<Rightarrow> http_request \<Rightarrow> string \<Rightarrow> string \<Rightarrow> ('a, 'r) control_handler \<Rightarrow> 'a control \<Rightarrow> (app_error + 'r) \<times> 'a control" where
  "device_route c se rq permission device_id handler = control_route c se rq permission (in_scope rq device_id handler)"

text \<open>How the services' results become a response and the next state: an exception rolls the session back.\<close>

definition read_store :: "(config_store \<Rightarrow> app_error + 'r) \<Rightarrow> 'a control \<Rightarrow> (app_error + 'r) \<times> 'a control" where
  "read_store f k = (f (control_store k), k)"

definition write_store :: "(config_store \<Rightarrow> app_error + 'r \<times> config_store) \<Rightarrow> 'a control \<Rightarrow> (app_error + 'r) \<times> 'a control" where
  "write_store f k =
     (case f (control_store k) of Inl e \<Rightarrow> (Inl e, k) | Inr (r, cs) \<Rightarrow> (Inr r, put_store cs k))"

definition write_world :: "(world \<Rightarrow> app_error + world) \<Rightarrow> 'a control \<Rightarrow> (app_error + unit) \<times> 'a control" where
  "write_world f k =
     (case f (g_db (ct_platform k)) of
        Inl e \<Rightarrow> (Inl e, k) | Inr w \<Rightarrow> (Inr (), k\<lparr>ct_platform := on_world (\<lambda>_. w) (ct_platform k)\<rparr>))"

definition run_store ::
  "(config_store \<times> 'a \<Rightarrow> (app_error + 'r) \<times> config_store \<times> 'a) \<Rightarrow> 'a control \<Rightarrow> (app_error + 'r) \<times> 'a control" where
  "run_store f k =
     (case f (control_store k, ct_applier k) of (r, cs, a) \<Rightarrow> (r, (put_store cs k)\<lparr>ct_applier := a\<rparr>))"

section \<open>Configurations\<close>

definition list_configurations_route ::
  "ctx \<Rightarrow> sec_env \<Rightarrow> http_request \<Rightarrow> string \<Rightarrow> 'a control \<Rightarrow> (app_error + device_configuration list) \<times> 'a control" where
  "list_configurations_route c se rq device_id =
     device_route c se rq CONFIG_READ device_id (\<lambda>_ _. read_store (list_configurations device_id))"

definition create_configuration_route ::
  "ctx \<Rightarrow> sec_env \<Rightarrow> pyd_env \<Rightarrow> http_request \<Rightarrow> string \<Rightarrow> json \<Rightarrow> (config_store \<Rightarrow> config_store) \<Rightarrow> 'a control \<Rightarrow>
    (app_error + device_configuration) \<times> 'a control" where
  "create_configuration_route c se env rq device_id payload others =
     device_route c se rq CONFIG_WRITE device_id (\<lambda>c' p.
       write_store (create_draft c' env device_id payload (pn_username p) others))"

definition get_configuration_route ::
  "ctx \<Rightarrow> sec_env \<Rightarrow> http_request \<Rightarrow> string \<Rightarrow> int \<Rightarrow> 'a control \<Rightarrow> (app_error + device_configuration) \<times> 'a control" where
  "get_configuration_route c se rq device_id version =
     device_route c se rq CONFIG_READ device_id (\<lambda>_ _. read_store (get_configuration device_id version))"

definition update_configuration_route ::
  "ctx \<Rightarrow> sec_env \<Rightarrow> pyd_env \<Rightarrow> http_request \<Rightarrow> string \<Rightarrow> int \<Rightarrow> json \<Rightarrow> 'a control \<Rightarrow>
    (app_error + device_configuration) \<times> 'a control" where
  "update_configuration_route c se env rq device_id version payload =
     device_route c se rq CONFIG_WRITE device_id (\<lambda>c' p.
       write_store (update_draft c' env device_id version payload (pn_username p)))"

definition delete_configuration_route ::
  "ctx \<Rightarrow> sec_env \<Rightarrow> http_request \<Rightarrow> string \<Rightarrow> int \<Rightarrow> 'a control \<Rightarrow> (app_error + unit) \<times> 'a control" where
  "delete_configuration_route c se rq device_id version =
     device_route c se rq CONFIG_WRITE device_id (\<lambda>c' _.
       write_store (\<lambda>cs. bindE (delete_draft c' device_id version cs) (\<lambda>cs'. Inr ((), cs'))))"

definition validate_configuration_route ::
  "ctx \<Rightarrow> sec_env \<Rightarrow> pyd_env \<Rightarrow> http_request \<Rightarrow> string \<Rightarrow> int \<Rightarrow> 'a control \<Rightarrow> (app_error + validation_outcome) \<times> 'a control" where
  "validate_configuration_route c se env rq device_id version =
     device_route c se rq CONFIG_WRITE device_id (\<lambda>c' _. write_store (validate_version c' env device_id version))"

definition clone_configuration_route ::
  "ctx \<Rightarrow> sec_env \<Rightarrow> http_request \<Rightarrow> string \<Rightarrow> int \<Rightarrow> (config_store \<Rightarrow> config_store) \<Rightarrow> 'a control \<Rightarrow>
    (app_error + device_configuration) \<times> 'a control" where
  "clone_configuration_route c se rq device_id version others =
     device_route c se rq CONFIG_WRITE device_id (\<lambda>c' p.
       write_store (clone_version c' device_id version (pn_username p) others))"

definition publish_configuration_route ::
  "ctx \<Rightarrow> sec_env \<Rightarrow> pyd_env \<Rightarrow> 'a applier \<Rightarrow> http_request \<Rightarrow> string \<Rightarrow> int \<Rightarrow> 'a control \<Rightarrow>
    (app_error + device_configuration \<times> configuration_status) \<times> 'a control" where
  "publish_configuration_route c se env ap rq device_id version =
     device_route c se rq CONFIG_PUBLISH device_id (\<lambda>c' p.
       run_store (publish c' env ap device_id version (pn_username p)))"

definition configuration_status_route ::
  "ctx \<Rightarrow> sec_env \<Rightarrow> 'a applier \<Rightarrow> http_request \<Rightarrow> string \<Rightarrow> 'a control \<Rightarrow> (app_error + configuration_status) \<times> 'a control" where
  "configuration_status_route c se ap rq device_id =
     device_route c se rq CONFIG_READ device_id (\<lambda>_ _ k. (configuration_status ap device_id (control_store k, ct_applier k), k))"

definition apply_configuration_route ::
  "ctx \<Rightarrow> sec_env \<Rightarrow> pyd_env \<Rightarrow> 'a applier \<Rightarrow> http_request \<Rightarrow> string \<Rightarrow> 'a control \<Rightarrow>
    (app_error + configuration_status) \<times> 'a control" where
  "apply_configuration_route c se env ap rq device_id =
     device_route c se rq CONFIG_PUBLISH device_id (\<lambda>c' p. run_store (apply_current c' env ap device_id (pn_username p)))"

definition configuration_audit_route ::
  "ctx \<Rightarrow> sec_env \<Rightarrow> http_request \<Rightarrow> string \<Rightarrow> nat \<Rightarrow> 'a control \<Rightarrow> (app_error + audit_event list) \<times> 'a control" where
  "configuration_audit_route c se rq device_id limit =
     device_route c se rq CONFIG_READ device_id (\<lambda>_ _. read_store (\<lambda>cs. audit_history device_id limit (cs_db cs)))"

section \<open>Assets\<close>

definition list_assets_route ::
  "ctx \<Rightarrow> sec_env \<Rightarrow> http_request \<Rightarrow> 'a control \<Rightarrow> (app_error + (asset_node \<times> nat) list) \<times> 'a control" where
  "list_assets_route c se rq =
     control_route c se rq ASSET_READ (\<lambda>c' _. read_store (\<lambda>cs.
       Inr (map (\<lambda>n. (n, device_count (n_id n) (cs_db cs))) (list_nodes c' (cs_db cs)))))"

definition asset_tree_route ::
  "ctx \<Rightarrow> sec_env \<Rightarrow> http_request \<Rightarrow> 'a control \<Rightarrow> (app_error + asset_tree list \<times> device_summary list) \<times> 'a control" where
  "asset_tree_route c se rq = control_route c se rq ASSET_READ (\<lambda>c' _. read_store (\<lambda>cs. Inr (asset_tree_read c' cs)))"

definition create_asset_route ::
  "ctx \<Rightarrow> sec_env \<Rightarrow> http_request \<Rightarrow> string \<Rightarrow> AssetType \<Rightarrow> uuid option \<Rightarrow> 'a control \<Rightarrow> (app_error + asset_node) \<times> 'a control" where
  "create_asset_route c se rq name asset_type parent_id =
     control_route c se rq ASSET_MANAGE (\<lambda>c' _. write_store (\<lambda>cs.
       bindE (create_asset c' name asset_type parent_id (cs_db cs)) (\<lambda>(n, w). Inr (n, cs\<lparr>cs_db := w\<rparr>))))"

definition get_asset_route ::
  "ctx \<Rightarrow> sec_env \<Rightarrow> http_request \<Rightarrow> uuid \<Rightarrow> 'a control \<Rightarrow> (app_error + asset_node \<times> nat) \<times> 'a control" where
  "get_asset_route c se rq asset_id =
     control_route c se rq ASSET_READ (\<lambda>_ _. read_store (\<lambda>cs.
       bindE (get_asset asset_id (cs_db cs)) (\<lambda>n. Inr (n, device_count (n_id n) (cs_db cs)))))"

definition delete_asset_route ::
  "ctx \<Rightarrow> sec_env \<Rightarrow> http_request \<Rightarrow> uuid \<Rightarrow> 'a control \<Rightarrow> (app_error + unit) \<times> 'a control" where
  "delete_asset_route c se rq asset_id = control_route c se rq ASSET_MANAGE (\<lambda>_ _. write_world (delete_asset asset_id))"

definition attach_device_route ::
  "ctx \<Rightarrow> sec_env \<Rightarrow> http_request \<Rightarrow> uuid \<Rightarrow> string \<Rightarrow> 'a control \<Rightarrow> (app_error + unit) \<times> 'a control" where
  "attach_device_route c se rq asset_id device_id =
     device_route c se rq ASSET_MANAGE device_id (\<lambda>_ _. write_world (attach_device asset_id device_id))"

definition detach_device_route ::
  "ctx \<Rightarrow> sec_env \<Rightarrow> http_request \<Rightarrow> uuid \<Rightarrow> string \<Rightarrow> 'a control \<Rightarrow> (app_error + unit) \<times> 'a control" where
  "detach_device_route c se rq asset_id device_id =
     device_route c se rq ASSET_MANAGE device_id (\<lambda>_ _. write_world (detach_device_from asset_id device_id))"

section \<open>Connectivity\<close>

text \<open>The process may run without a gateway.\<close>

definition require_gateway :: "gateway option \<Rightarrow> app_error + gateway" where
  "require_gateway g = (case g of None \<Rightarrow> Inl (AppError ''CONNECTIVITY_DISABLED'' 503) | Some x \<Rightarrow> Inr x)"

definition device_not_found :: "gateway_error + 'r \<Rightarrow> app_error + 'r" where
  "device_not_found r = (case r of Inl _ \<Rightarrow> Inl (AppError ''CONNECTIVITY_DEVICE_NOT_FOUND'' 404) | Inr x \<Rightarrow> Inr x)"

definition connectivity_summary_route ::
  "ctx \<Rightarrow> sec_env \<Rightarrow> http_request \<Rightarrow> bool \<Rightarrow> gateway option control \<Rightarrow> (app_error + connectivity_summary) \<times> gateway option control" where
  "connectivity_summary_route c se rq configured =
     control_route c se rq CONNECTIVITY_READ (\<lambda>_ _ k.
       (Inr (case ct_applier k of
           None \<Rightarrow> \<lparr>cy_gateway_enabled = configured, cy_gateway_available = False, cy_loaded_at = None, cy_device_count = 0,
             cy_enabled_device_count = 0, cy_states = (\<lambda>_. 0), cy_total_samples_ingested = 0, cy_total_samples_rejected = 0\<rparr>
         | Some g \<Rightarrow> gateway_summary g), k))"

definition list_connectivity_devices_route ::
  "ctx \<Rightarrow> sec_env \<Rightarrow> http_request \<Rightarrow> gateway option control \<Rightarrow> (app_error + device_status list) \<times> gateway option control" where
  "list_connectivity_devices_route c se rq =
     control_route c se rq CONNECTIVITY_READ (\<lambda>_ _ k. (Inr (case ct_applier k of None \<Rightarrow> [] | Some g \<Rightarrow> statuses g), k))"

definition get_connectivity_device_route ::
  "ctx \<Rightarrow> sec_env \<Rightarrow> http_request \<Rightarrow> string \<Rightarrow> gateway option control \<Rightarrow> (app_error + device_status) \<times> gateway option control" where
  "get_connectivity_device_route c se rq device_id =
     device_route c se rq CONNECTIVITY_READ device_id (\<lambda>_ _ k.
       (bindE (require_gateway (ct_applier k)) (\<lambda>g. device_not_found (gateway_status device_id g)), k))"

definition polling_route ::
  "(string \<Rightarrow> gateway \<Rightarrow> gateway_error + gateway) \<Rightarrow> ctx \<Rightarrow> sec_env \<Rightarrow> http_request \<Rightarrow> string \<Rightarrow> gateway option control \<Rightarrow>
    (app_error + device_status) \<times> gateway option control" where
  "polling_route f c se rq device_id =
     device_route c se rq CONNECTIVITY_CONTROL device_id (\<lambda>_ _ k.
       (case bindE (require_gateway (ct_applier k)) (\<lambda>g. device_not_found (bindE (f device_id g) (\<lambda>g'.
              bindE (gateway_status device_id g') (\<lambda>st. Inr (st, g'))))) of
          Inl e \<Rightarrow> (Inl e, k) | Inr (st, g') \<Rightarrow> (Inr st, k\<lparr>ct_applier := Some g'\<rparr>)))"

definition start_connectivity_device_route ::
  "ctx \<Rightarrow> sec_env \<Rightarrow> http_request \<Rightarrow> string \<Rightarrow> gateway option control \<Rightarrow> (app_error + device_status) \<times> gateway option control" where
  "start_connectivity_device_route = polling_route start_device"

definition stop_connectivity_device_route ::
  "ctx \<Rightarrow> sec_env \<Rightarrow> http_request \<Rightarrow> string \<Rightarrow> gateway option control \<Rightarrow> (app_error + device_status) \<times> gateway option control" where
  "stop_connectivity_device_route = polling_route stop_device"

end
