(* ===== verification/AssetLemmas.thy ===== *)
theory AssetLemmas
  imports ConfigApi
begin

text \<open>
  The invariant of the configuration tables, how each operation changes them, the step relation of
  the configuration service under arbitrary interleaving, and the contract of an applier.
\<close>

section \<open>Invariant\<close>

definition registered :: "world \<Rightarrow> string set" where
  "registered w = dev_device_id ` set (w_devices w)"

definition row_dates_ok :: "device_configuration \<Rightarrow> bool" where
  "row_dates_ok r \<longleftrightarrow> 0 < cf_version r \<and> ((cf_status r \<in> {CFG_PUBLISHED, CFG_ARCHIVED}) \<longleftrightarrow> cf_published_at r \<noteq> None)"

definition rows_ok :: "string set \<Rightarrow> device_configuration list \<Rightarrow> bool" where
  "rows_ok devs rows \<longleftrightarrow>
     distinct (map cf_id rows) \<and> distinct (map config_key rows) \<and>
     (\<forall>r \<in> set rows. row_dates_ok r \<and> cf_device_id r \<in> devs) \<and>
     (\<forall>r \<in> set rows. \<forall>x \<in> set rows. cf_status r = CFG_PUBLISHED \<longrightarrow> cf_status x = CFG_PUBLISHED \<longrightarrow>
        cf_device_id r = cf_device_id x \<longrightarrow> r = x)"

definition configs_ok :: "config_store \<Rightarrow> bool" where
  "configs_ok cs \<longleftrightarrow> rows_ok (registered (cs_db cs)) (cs_configs cs) \<and> distinct (map crs_device_id (cs_runtime cs))"

lemma audit_add_devices [simp]: "w_devices (audit_add c en w) = w_devices w"
  by (simp add: audit_add_def uuid4_def utc_now_def Let_def)

lemma config_record_simps [simp]:
  "cs_configs (config_record c d e v st m a x cs) = cs_configs cs"
  "cs_runtime (config_record c d e v st m a x cs) = cs_runtime cs"
  "registered (cs_db (config_record c d e v st m a x cs)) = registered (cs_db cs)"
  by (simp_all add: config_record_def on_cs_def registered_def)

lemma registered_draws [simp]:
  "registered (snd (uuid4 c w)) = registered w" "registered (snd (utc_now c w)) = registered w"
  by (simp_all add: registered_def uuid4_def utc_now_def)

lemma registered_draw: "uuid4 c w = (k, w1) \<Longrightarrow> registered w1 = registered w"
  "utc_now c w = (t, w1) \<Longrightarrow> registered w1 = registered w"
  by (auto simp: registered_def uuid4_def utc_now_def)

lemma config_record_store [simp]:
  "configs_ok (config_record c d e v st m a x cs) \<longleftrightarrow> configs_ok cs"
  by (simp add: configs_ok_def)

lemma get_device_found: "get_device d w = Inr x \<Longrightarrow> d \<in> registered w"
  by (auto simp: get_device_def device_get_def registered_def split: option.splits dest!: find_row_Some)

lemma get_configuration_found:
  assumes "get_configuration d v cs = Inr r"
  shows "r \<in> set (cs_configs cs)" "cf_device_id r = d" "cf_version r = v" "d \<in> registered (cs_db cs)"
    "configuration_find d v cs = Some r"
proof -
  from assms obtain x where x: "get_device d (cs_db cs) = Inr x" "configuration_find d v cs = Some r"
    by (auto simp: get_configuration_def bindE_Inr_iff split: option.splits)
  from x(2) have "r \<in> set (cs_configs cs) \<and> config_key r = (d, v)"
    unfolding configuration_find_def by (rule find_row_Some)
  then show "r \<in> set (cs_configs cs)" "cf_device_id r = d" "cf_version r = v" by (auto simp: config_key_def)
  show "d \<in> registered (cs_db cs)" by (rule get_device_found [OF x(1)])
  show "configuration_find d v cs = Some r" by (rule x(2))
qed

lemma rows_ok_same_id: "rows_ok devs rows \<Longrightarrow> r \<in> set rows \<Longrightarrow> x \<in> set rows \<Longrightarrow> cf_id r = cf_id x \<Longrightarrow> r = x"
  unfolding rows_ok_def by (meson distinct_map inj_onD)

lemma rows_ok_same_key: "rows_ok devs rows \<Longrightarrow> r \<in> set rows \<Longrightarrow> x \<in> set rows \<Longrightarrow> config_key r = config_key x \<Longrightarrow> r = x"
  unfolding rows_ok_def by (meson distinct_map inj_onD)

section \<open>Single statements\<close>

lemma rows_ok_insert:
  assumes "configuration_row_ok r rows w" and "rows_ok (registered w) rows"
  shows "rows_ok (registered w) (rows @ [r])"
  using assms unfolding rows_ok_def configuration_row_ok_def registered_def config_key_def row_dates_ok_def
  by auto

lemma rows_ok_filter: "rows_ok devs rows \<Longrightarrow> rows_ok devs (filter P rows)"
  unfolding rows_ok_def by (auto simp: distinct_map_filter)

lemma rows_ok_more_devices: "rows_ok devs rows \<Longrightarrow> devs \<subseteq> devs' \<Longrightarrow> rows_ok devs' rows"
  unfolding rows_ok_def by blast

lemma insert_configuration_cases:
  assumes "insert_configuration r cs = Inr cs'"
  shows "configuration_row_ok r (cs_configs cs) (cs_db cs)" "cs' = cs\<lparr>cs_configs := cs_configs cs @ [r]\<rparr>"
  using assms by (auto simp: insert_configuration_def split: if_splits)

lemma insert_configuration_ok: "insert_configuration r cs = Inr cs' \<Longrightarrow> configs_ok cs \<Longrightarrow> configs_ok cs'"
  by (auto simp: insert_configuration_def configs_ok_def intro: rows_ok_insert split: if_splits)

lemma save_configuration_cases:
  assumes "save_configuration r cs = Inr cs'"
  shows "configuration_row_ok r (filter (\<lambda>x. cf_id x \<noteq> cf_id r) (cs_configs cs)) (cs_db cs)"
    "cs' = cs\<lparr>cs_configs := update_rows cf_id (cf_id r) (\<lambda>_. r) (cs_configs cs)\<rparr>"
  using assms by (auto simp: save_configuration_def split: if_splits)

lemma set_update_constant: "set (update_rows key k (\<lambda>_. r) rows) =
    (if k \<in> key ` set rows then {r} else {}) \<union> set (filter (\<lambda>x. key x \<noteq> k) rows)"
  by (induction rows) (auto simp: update_rows_def)

lemma distinct_update_constant:
  assumes "distinct (map key rows)" and "distinct (map g rows)" and "g r \<notin> g ` set (filter (\<lambda>x. key x \<noteq> k) rows)"
  shows "distinct (map g (update_rows key k (\<lambda>_. r) rows))"
  using assms
proof (induction rows)
  case Nil
  then show ?case by (simp add: update_rows_def)
next
  case (Cons y ys)
  have IH: "distinct (map g (update_rows key k (\<lambda>_. r) ys))" using Cons by (auto split: if_splits)
  show ?case
  proof (cases "key y = k")
    case True
    with Cons.prems(1) have "update_rows key k (\<lambda>_. r) ys = ys" by (induction ys) (auto simp: update_rows_def)
    moreover have "filter (\<lambda>x. key x \<noteq> k) ys = ys"
    proof (rule filter_True, rule ballI)
      fix x assume "x \<in> set ys"
      then have "key x \<in> key ` set ys" by (rule imageI)
      with True Cons.prems(1) show "key x \<noteq> k" by auto
    qed
    ultimately show ?thesis using True Cons.prems by (simp add: update_rows_def)
  next
    case False
    have "g y \<notin> g ` set (update_rows key k (\<lambda>_. r) ys)"
      using Cons.prems False unfolding set_update_constant by (auto split: if_splits)
    moreover have "update_rows key k (\<lambda>_. r) (y # ys) = y # update_rows key k (\<lambda>_. r) ys"
      using False by (simp add: update_rows_def)
    ultimately show ?thesis using IH by simp
  qed
qed

lemma rows_ok_save:
  assumes ok: "configuration_row_ok r (filter (\<lambda>x. cf_id x \<noteq> cf_id r) rows) w" and rows: "rows_ok (registered w) rows"
  shows "rows_ok (registered w) (update_rows cf_id (cf_id r) (\<lambda>_. r) rows)"
proof -
  let ?rows = "update_rows cf_id (cf_id r) (\<lambda>_. r) rows"
  have others: "\<And>x. x \<in> set (filter (\<lambda>x. cf_id x \<noteq> cf_id r) rows) \<Longrightarrow> x \<in> set rows \<and> cf_id x \<noteq> cf_id r" by auto
  have members: "set ?rows \<subseteq> insert r (set (filter (\<lambda>x. cf_id x \<noteq> cf_id r) rows))"
    unfolding set_update_constant by auto
  have "distinct (map cf_id ?rows)"
    using rows by (intro distinct_update_constant) (auto simp: rows_ok_def)
  moreover have "distinct (map config_key ?rows)"
    using rows ok by (intro distinct_update_constant) (auto simp: rows_ok_def configuration_row_ok_def config_key_def)
  moreover have "\<forall>x \<in> set ?rows. row_dates_ok x \<and> cf_device_id x \<in> registered w"
  proof
    fix x assume "x \<in> set ?rows"
    then have "x = r \<or> x \<in> set rows" using members by auto
    then show "row_dates_ok x \<and> cf_device_id x \<in> registered w"
      using rows ok unfolding rows_ok_def configuration_row_ok_def row_dates_ok_def registered_def by blast
  qed
  moreover have "\<forall>x \<in> set ?rows. \<forall>y \<in> set ?rows. cf_status x = CFG_PUBLISHED \<longrightarrow> cf_status y = CFG_PUBLISHED \<longrightarrow>
      cf_device_id x = cf_device_id y \<longrightarrow> x = y"
  proof (intro ballI impI)
    fix x y assume xy: "x \<in> set ?rows" "y \<in> set ?rows" "cf_status x = CFG_PUBLISHED" "cf_status y = CFG_PUBLISHED"
      "cf_device_id x = cf_device_id y"
    then consider "x = r" "y = r" | "x = r" "y \<in> set (filter (\<lambda>x. cf_id x \<noteq> cf_id r) rows)"
      | "y = r" "x \<in> set (filter (\<lambda>x. cf_id x \<noteq> cf_id r) rows)" | "x \<in> set rows" "y \<in> set rows"
      using members by auto
    then show "x = y"
    proof cases
      case 2 with ok xy show ?thesis unfolding configuration_row_ok_def by metis
    next
      case 3 with ok xy show ?thesis unfolding configuration_row_ok_def by metis
    next
      case 4 with rows xy show ?thesis unfolding rows_ok_def by blast
    qed simp
  qed
  ultimately show ?thesis unfolding rows_ok_def by blast
qed

lemma save_configuration_ok: "save_configuration r cs = Inr cs' \<Longrightarrow> configs_ok cs \<Longrightarrow> configs_ok cs'"
  by (auto simp: save_configuration_def configs_ok_def intro: rows_ok_save split: if_splits)

section \<open>Operations\<close>

lemma archive_published_except_rows:
  "archive_published_except now d keep cs = (n, cs') \<Longrightarrow>
     cs' = cs\<lparr>cs_configs := map (\<lambda>r. if cf_device_id r = d \<and> cf_status r = CFG_PUBLISHED \<and> cf_version r \<noteq> keep
       then r\<lparr>cf_status := CFG_ARCHIVED, cf_archived_at := Some now\<rparr> else r) (cs_configs cs)\<rparr>"
  by (auto simp: archive_published_except_def Let_def)

lemma archive_published_except_ok:
  assumes "archive_published_except now d keep cs = (n, cs')" and "configs_ok cs"
  shows "configs_ok cs'"
proof -
  define f :: "device_configuration \<Rightarrow> device_configuration" where "f = (\<lambda>r. if cf_device_id r = d \<and> cf_status r = CFG_PUBLISHED \<and> cf_version r \<noteq> keep
    then r\<lparr>cf_status := CFG_ARCHIVED, cf_archived_at := Some now\<rparr> else r)"
  have cs': "cs' = cs\<lparr>cs_configs := map f (cs_configs cs)\<rparr>"
    using archive_published_except_rows [OF assms(1)] unfolding f_def .
  have keeps: "cf_id (f r) = cf_id r" "config_key (f r) = config_key r" "cf_device_id (f r) = cf_device_id r"
    "row_dates_ok r \<Longrightarrow> row_dates_ok (f r)" "cf_status (f r) = CFG_PUBLISHED \<Longrightarrow> f r = r" for r
    by (auto simp: f_def config_key_def row_dates_ok_def split: if_splits)
  have "map cf_id (map f rows) = map cf_id rows" "map config_key (map f rows) = map config_key rows" for rows
    by (simp_all add: keeps)
  then have "rows_ok (registered (cs_db cs)) (map f (cs_configs cs))"
    using assms(2) unfolding configs_ok_def rows_ok_def
    by (simp del: map_map add: keeps) (metis keeps(3,5))
  with assms(2) show ?thesis by (simp add: cs' configs_ok_def)
qed

lemma find_append: "find P (xs @ ys) = (case find P xs of None \<Rightarrow> find P ys | Some x \<Rightarrow> Some x)"
  by (induction xs) auto

lemma upsert_runtime_status_simps [simp]:
  "cs_configs (upsert_runtime_status r cs) = cs_configs cs" "cs_db (upsert_runtime_status r cs) = cs_db cs"
  by (simp_all add: upsert_runtime_status_def)

lemma upsert_runtime_status_find:
  "runtime_status_find d (upsert_runtime_status r cs) = (if d = crs_device_id r then Some r else runtime_status_find d cs)"
proof (cases "runtime_status_find (crs_device_id r) cs = None")
  case True
  then show ?thesis
    by (auto simp: upsert_runtime_status_def runtime_status_find_def find_row_def find_append split: option.splits)
next
  case False
  then obtain x where x: "find_row crs_device_id (crs_device_id r) (cs_runtime cs) = Some x"
    by (auto simp: runtime_status_find_def)
  with False show ?thesis
    by (auto simp: upsert_runtime_status_def runtime_status_find_def find_row_update_same find_row_update_other)
qed

lemma upsert_runtime_status_ok: "configs_ok cs \<Longrightarrow> configs_ok (upsert_runtime_status r cs)"
  by (auto simp: configs_ok_def upsert_runtime_status_def runtime_status_find_def find_row_None map_key_update_rows)

lemma with_db_ok: "configs_ok cs \<Longrightarrow> registered w = registered (cs_db cs) \<Longrightarrow> configs_ok (cs\<lparr>cs_db := w\<rparr>)"
  by (simp add: configs_ok_def)

lemma mark_applying_ok: "configs_ok (fst s) \<Longrightarrow> configs_ok (fst (mark_applying c ap d v s))"
  by (auto simp: mark_applying_def Let_def split: prod.splits
    intro!: upsert_runtime_status_ok with_db_ok dest: registered_draw)

lemma record_apply_ok: "configs_ok (fst s) \<Longrightarrow> configs_ok (fst (record_apply c ap d v oc actor p s))"
  by (auto simp: record_apply_def Let_def split: prod.splits
    intro!: upsert_runtime_status_ok with_db_ok dest: registered_draw)

section \<open>History\<close>

text \<open>What may become of a published or archived row.\<close>

definition row_advance :: "device_configuration \<Rightarrow> device_configuration \<Rightarrow> bool" where
  "row_advance r r' \<longleftrightarrow>
     r' = r \<or> cf_status r = CFG_PUBLISHED \<and> (\<exists>t. r' = r\<lparr>cf_status := CFG_ARCHIVED, cf_archived_at := Some t\<rparr>)"

definition history_kept :: "device_configuration list \<Rightarrow> device_configuration list \<Rightarrow> bool" where
  "history_kept rows rows' \<longleftrightarrow>
     (\<forall>r \<in> set rows. cf_status r \<in> {CFG_PUBLISHED, CFG_ARCHIVED} \<longrightarrow> (\<exists>r' \<in> set rows'. row_advance r r'))"

definition advances :: "config_store \<Rightarrow> config_store \<Rightarrow> bool" where
  "advances cs cs' \<longleftrightarrow>
     configs_ok cs \<longrightarrow> configs_ok cs' \<and> history_kept (cs_configs cs) (cs_configs cs') \<and>
       registered (cs_db cs) \<subseteq> registered (cs_db cs')"

lemma row_advance_trans: "row_advance r x \<Longrightarrow> row_advance x y \<Longrightarrow> row_advance r y"
  unfolding row_advance_def by auto

lemma row_advance_status: "row_advance r x \<Longrightarrow> cf_status r \<in> {CFG_PUBLISHED, CFG_ARCHIVED} \<Longrightarrow> cf_status x \<in> {CFG_PUBLISHED, CFG_ARCHIVED}"
  unfolding row_advance_def by auto

lemma history_kept_refl: "history_kept rows rows"
  unfolding history_kept_def row_advance_def by blast

lemma history_kept_trans: "history_kept xs ys \<Longrightarrow> history_kept ys zs \<Longrightarrow> history_kept xs zs"
  unfolding history_kept_def by (meson row_advance_trans row_advance_status)

lemma advances_refl: "advances cs cs"
  by (simp add: advances_def history_kept_refl)

lemma advances_trans [trans]: "advances x y \<Longrightarrow> advances y z \<Longrightarrow> advances x z"
  unfolding advances_def by (meson history_kept_trans subset_trans)

lemma advances_same_rows:
  "cs_configs cs' = cs_configs cs \<Longrightarrow> registered (cs_db cs') = registered (cs_db cs) \<Longrightarrow>
     (configs_ok cs \<Longrightarrow> configs_ok cs') \<Longrightarrow> advances cs cs'"
  by (simp add: advances_def history_kept_refl)

lemma history_kept_append: "history_kept rows (rows @ xs)"
  unfolding history_kept_def row_advance_def by auto

lemma insert_configuration_advances:
  assumes "insert_configuration r cs = Inr cs'"
  shows "advances cs cs'"
  using insert_configuration_ok [OF assms] insert_configuration_cases [OF assms]
  by (simp add: advances_def history_kept_append)

text \<open>Writing back a row that was read as a draft touches no published or archived row.\<close>

lemma history_kept_save:
  assumes rows: "rows_ok devs rows" and old: "old \<in> set rows" "cf_id r = cf_id old"
    and mutable: "cf_status old \<in> MUTABLE_STATUSES"
  shows "history_kept rows (update_rows cf_id (cf_id r) (\<lambda>_. r) rows)"
proof -
  { fix x assume x: "x \<in> set rows" "cf_status x \<in> {CFG_PUBLISHED, CFG_ARCHIVED}"
    with mutable have "x \<noteq> old" by (auto simp: MUTABLE_STATUSES_def)
    then have "cf_id x \<noteq> cf_id r" using rows_ok_same_id [OF rows x(1) old(1)] old(2) by auto
    then have "x \<in> set (update_rows cf_id (cf_id r) (\<lambda>_. r) rows)" using x(1) by (simp add: set_update_constant)
    then have "\<exists>x' \<in> set (update_rows cf_id (cf_id r) (\<lambda>_. r) rows). row_advance x x'"
      unfolding row_advance_def by blast }
  then show ?thesis unfolding history_kept_def by blast
qed

lemma save_configuration_advances:
  assumes save: "save_configuration r cs = Inr cs'" and old: "old \<in> set (cs_configs cs)" "cf_id r = cf_id old"
    and mutable: "cf_status old \<in> MUTABLE_STATUSES"
  shows "advances cs cs'"
proof -
  have "configs_ok cs \<Longrightarrow> history_kept (cs_configs cs) (cs_configs cs')"
    using history_kept_save [OF _ old mutable] save_configuration_cases [OF save] by (auto simp: configs_ok_def)
  then show ?thesis
    using save_configuration_ok [OF save] save_configuration_cases(2) [OF save] by (simp add: advances_def)
qed

lemma archive_published_except_advances:
  assumes "archive_published_except now d keep cs = (n, cs')"
  shows "advances cs cs'"
proof -
  note cs' = archive_published_except_rows [OF assms]
  have "history_kept (cs_configs cs) (cs_configs cs')"
    unfolding history_kept_def
  proof (intro ballI impI)
    fix r assume r: "r \<in> set (cs_configs cs)"
    let ?f = "\<lambda>r. if cf_device_id r = d \<and> cf_status r = CFG_PUBLISHED \<and> cf_version r \<noteq> keep
       then r\<lparr>cf_status := CFG_ARCHIVED, cf_archived_at := Some now\<rparr> else r"
    have "?f r \<in> set (cs_configs cs')" unfolding cs' using r by simp
    moreover have "row_advance r (?f r)" unfolding row_advance_def by auto
    ultimately show "\<exists>r' \<in> set (cs_configs cs'). row_advance r r'" by blast
  qed
  then show ?thesis using archive_published_except_ok [OF assms] cs' by (simp add: advances_def)
qed

lemma with_db_advances: "registered w = registered (cs_db cs) \<Longrightarrow> advances cs (cs\<lparr>cs_db := w\<rparr>)"
  by (rule advances_same_rows) (simp_all add: with_db_ok)

lemma config_record_advances: "advances cs (config_record c d e v st m a x cs)"
  by (rule advances_same_rows) simp_all

section \<open>Operations advance the history\<close>

lemma create_draft_Inr:
  assumes "create_draft c env d payload actor others cs = Inr (row, cs')"
  obtains dev def fresh w1 cs2 where
    "get_device d (cs_db cs) = Inr dev" "parse_definition env payload d = Inr def"
    "uuid4 c (cs_db (others cs)) = (fresh, w1)"
    "row = new_draft fresh d (next_version d cs) (dd_protocol def) (py_dump env def) actor"
    "insert_configuration row (others cs\<lparr>cs_db := w1\<rparr>) = Inr cs2"
    "cs' = config_record c d ''CONFIG_DRAFT_CREATED'' (Some (next_version d cs)) ''SUCCESS''
      (''draft '' @ v_text (next_version d cs) @ '' created for protocol '' @ protocol_value (dd_protocol def)) actor [] cs2"
proof -
  from assms obtain dev def where dev: "get_device d (cs_db cs) = Inr dev" and def: "parse_definition env payload d = Inr def"
    unfolding create_draft_def bindE_Inr_iff by blast
  obtain fresh w1 where u: "uuid4 c (cs_db (others cs)) = (fresh, w1)" by fastforce
  let ?row = "new_draft fresh d (next_version d cs) (dd_protocol def) (py_dump env def) actor"
  show ?thesis
  proof (cases "insert_configuration ?row (others cs\<lparr>cs_db := w1\<rparr>)")
    case (Inl e)
    with assms dev def u show ?thesis by (simp add: create_draft_def Let_def)
  next
    case (Inr cs2)
    show ?thesis
    proof (rule that [OF dev def u _ _])
      show "row = ?row" using assms dev def u Inr by (simp add: create_draft_def Let_def)
      then show "insert_configuration row (others cs\<lparr>cs_db := w1\<rparr>) = Inr cs2" using Inr by simp
      show "cs' = config_record c d ''CONFIG_DRAFT_CREATED'' (Some (next_version d cs)) ''SUCCESS''
        (''draft '' @ v_text (next_version d cs) @ '' created for protocol '' @ protocol_value (dd_protocol def)) actor [] cs2"
        using assms dev def u Inr by (simp add: create_draft_def Let_def)
    qed
  qed
qed

lemma create_draft_advances:
  assumes "create_draft c env d payload actor others cs = Inr (row, cs')"
  shows "advances (others cs) cs'"
proof (rule create_draft_Inr [OF assms])
  fix dev def fresh w1 cs2 m
  assume u: "uuid4 c (cs_db (others cs)) = (fresh, w1)" and
    ins: "insert_configuration row (others cs\<lparr>cs_db := w1\<rparr>) = Inr cs2" and
    rec: "cs' = config_record c d ''CONFIG_DRAFT_CREATED'' (Some (next_version d cs)) ''SUCCESS''
      (''draft '' @ v_text (next_version d cs) @ '' created for protocol '' @ protocol_value (dd_protocol def)) actor [] cs2"
  have "advances (others cs) (others cs\<lparr>cs_db := w1\<rparr>)"
    by (rule with_db_advances) (rule registered_draw(1) [OF u])
  also have "advances \<dots> cs2" by (rule insert_configuration_advances [OF ins])
  also have "advances \<dots> cs'" unfolding rec by (rule config_record_advances)
  finally show "advances (others cs) cs'" .
qed

lemma clone_version_Inr:
  assumes "clone_version c d v actor others cs = Inr (row, cs')"
  obtains source fresh w1 cs2 e m x where
    "get_configuration d v cs = Inr source" "uuid4 c (cs_db (others cs)) = (fresh, w1)"
    "row = new_draft fresh d (next_version d cs) (cf_protocol source) (cf_configuration source) actor"
    "insert_configuration row (others cs\<lparr>cs_db := w1\<rparr>) = Inr cs2"
    "cs' = config_record c d e (Some (next_version d cs)) ''SUCCESS'' m actor x cs2"
proof -
  from assms obtain source where source: "get_configuration d v cs = Inr source"
    unfolding clone_version_def bindE_Inr_iff by blast
  obtain fresh w1 where u: "uuid4 c (cs_db (others cs)) = (fresh, w1)" by fastforce
  let ?row = "new_draft fresh d (next_version d cs) (cf_protocol source) (cf_configuration source) actor"
  show ?thesis
  proof (cases "insert_configuration ?row (others cs\<lparr>cs_db := w1\<rparr>)")
    case (Inl e)
    with assms source u show ?thesis by (simp add: clone_version_def Let_def)
  next
    case (Inr cs2)
    with assms source u have "row = ?row"
      and "\<exists>e m x. cs' = config_record c d e (Some (next_version d cs)) ''SUCCESS'' m actor x cs2"
      by (auto simp: clone_version_def Let_def)
    with that [OF source u] Inr show ?thesis by blast
  qed
qed

lemma clone_version_advances:
  assumes "clone_version c d v actor others cs = Inr (row, cs')"
  shows "advances (others cs) cs'"
proof (rule clone_version_Inr [OF assms])
  fix source fresh w1 cs2 e m x
  assume u: "uuid4 c (cs_db (others cs)) = (fresh, w1)" and
    ins: "insert_configuration row (others cs\<lparr>cs_db := w1\<rparr>) = Inr cs2" and
    rec: "cs' = config_record c d e (Some (next_version d cs)) ''SUCCESS'' m actor x cs2"
  have "advances (others cs) (others cs\<lparr>cs_db := w1\<rparr>)"
    by (rule with_db_advances) (rule registered_draw(1) [OF u])
  also have "advances \<dots> cs2" by (rule insert_configuration_advances [OF ins])
  also have "advances \<dots> cs'" unfolding rec by (rule config_record_advances)
  finally show "advances (others cs) cs'" .
qed

lemma update_draft_Inr:
  assumes "update_draft c env d v payload actor cs = Inr (row, cs')"
  obtains old def cs1 where
    "get_configuration d v cs = Inr old" "cf_status old \<in> MUTABLE_STATUSES" "parse_definition env payload d = Inr def"
    "row = old\<lparr>cf_configuration := py_dump env def, cf_protocol := dd_protocol def, cf_status := CFG_DRAFT,
       cf_validated_at := None, cf_validation_result := None, cf_validation_error := None\<rparr>"
    "save_configuration row cs = Inr cs1"
    "cs' = config_record c d ''CONFIG_DRAFT_UPDATED'' (Some v) ''SUCCESS'' (''draft '' @ v_text v @ '' updated'') actor [] cs1"
proof -
  from assms obtain old where old: "get_configuration d v cs = Inr old"
    unfolding update_draft_def bindE_Inr_iff by blast
  with assms have mutable: "cf_status old \<in> MUTABLE_STATUSES" by (auto simp: update_draft_def split: if_splits)
  from assms old mutable obtain def where def: "parse_definition env payload d = Inr def"
    by (auto simp: update_draft_def bindE_Inr_iff)
  from assms old mutable def show ?thesis
    by (auto simp: update_draft_def bindE_Inr_iff Let_def intro: that [OF old mutable def])
qed

lemma update_draft_advances:
  assumes "update_draft c env d v payload actor cs = Inr (row, cs')"
  shows "advances cs cs'"
proof (rule update_draft_Inr [OF assms])
  fix old def cs1
  assume old: "get_configuration d v cs = Inr old" "cf_status old \<in> MUTABLE_STATUSES" and
    row: "row = old\<lparr>cf_configuration := py_dump env def, cf_protocol := dd_protocol def, cf_status := CFG_DRAFT,
       cf_validated_at := None, cf_validation_result := None, cf_validation_error := None\<rparr>" and
    save: "save_configuration row cs = Inr cs1" and
    rec: "cs' = config_record c d ''CONFIG_DRAFT_UPDATED'' (Some v) ''SUCCESS'' (''draft '' @ v_text v @ '' updated'') actor [] cs1"
  have "cf_id row = cf_id old" by (simp add: row)
  then have "advances cs cs1"
    by (rule save_configuration_advances [OF save get_configuration_found(1) [OF old(1)] _ old(2)])
  also have "advances \<dots> cs'" unfolding rec by (rule config_record_advances)
  finally show "advances cs cs'" .
qed

lemma delete_draft_advances:
  assumes "delete_draft c d v cs = Inr cs'"
  shows "advances cs cs'"
proof -
  from assms obtain old m where old: "get_configuration d v cs = Inr old" "cf_status old = CFG_DRAFT" and
    rec: "cs' = config_record c d ''CONFIG_DRAFT_DELETED'' (Some v) ''SUCCESS'' m ''system'' []
      (cs\<lparr>cs_configs := filter (\<lambda>x. cf_id x \<noteq> cf_id old) (cs_configs cs)\<rparr>)"
    by (auto simp: delete_draft_def bindE_Inr_iff split: if_splits)
  have "advances cs (cs\<lparr>cs_configs := filter (\<lambda>x. cf_id x \<noteq> cf_id old) (cs_configs cs)\<rparr>)"
    unfolding advances_def
  proof (intro impI conjI)
    assume ok: "configs_ok cs"
    then show "configs_ok (cs\<lparr>cs_configs := filter (\<lambda>x. cf_id x \<noteq> cf_id old) (cs_configs cs)\<rparr>)"
      by (simp add: configs_ok_def rows_ok_filter)
    have "r \<noteq> old" if "cf_status r \<in> {CFG_PUBLISHED, CFG_ARCHIVED}" for r using old(2) that by auto
    then have "r \<in> set (filter (\<lambda>x. cf_id x \<noteq> cf_id old) (cs_configs cs))"
      if "r \<in> set (cs_configs cs)" "cf_status r \<in> {CFG_PUBLISHED, CFG_ARCHIVED}" for r
      using that rows_ok_same_id [of "registered (cs_db cs)" "cs_configs cs" r old] ok
        get_configuration_found(1) [OF old(1)] unfolding configs_ok_def by fastforce
    then show "history_kept (cs_configs cs) (cs_configs (cs\<lparr>cs_configs := filter (\<lambda>x. cf_id x \<noteq> cf_id old) (cs_configs cs)\<rparr>))"
      unfolding history_kept_def row_advance_def by auto
  qed simp
  also have "advances \<dots> cs'" unfolding rec by (rule config_record_advances)
  finally show ?thesis .
qed

lemma validate_version_Inr:
  assumes "validate_version c env d v cs = Inr (oc, cs')"
  obtains (untouched) w1 where "registered w1 = registered (cs_db cs)" "cs' = cs\<lparr>cs_db := w1\<rparr>"
  | (checked) old new w1 cs2 st m x where "registered w1 = registered (cs_db cs)" "old \<in> set (cs_configs cs)"
      "cf_status old \<in> MUTABLE_STATUSES" "cf_id new = cf_id old" "save_configuration new (cs\<lparr>cs_db := w1\<rparr>) = Inr cs2"
      "cs' = config_record c d ''CONFIG_VALIDATED'' (Some v) st m ''system'' x cs2"
proof -
  from assms obtain old where old: "get_configuration d v cs = Inr old"
    unfolding validate_version_def bindE_Inr_iff by blast
  from assms old obtain dev where dev: "get_device d (cs_db cs) = Inr dev"
    by (auto simp: validate_version_def bindE_Inr_iff)
  obtain now w1 where t: "utc_now c (cs_db cs) = (now, w1)" by fastforce
  note w1 = registered_draw(2) [OF t]
  show ?thesis
  proof (cases "cf_status old \<in> MUTABLE_STATUSES")
    case False
    with assms old dev t have "cs' = cs\<lparr>cs_db := w1\<rparr>" by (simp add: validate_version_def Let_def)
    with w1 show ?thesis by (rule untouched)
  next
    case True
    define oc' where "oc' = validate_configuration env d (cf_configuration old) (Some (dev_status dev)) now"
    define row1 where "row1 = old\<lparr>cf_validation_result := Some oc', cf_validation_error := (if vo_valid oc' then None
      else Some (py_join ''; '' (map ci_message (vo_errors oc'))))\<rparr>"
    define new where "new = (if vo_valid oc' then row1\<lparr>cf_status := CFG_VALIDATED, cf_validated_at := Some (vo_checked_at oc')\<rparr>
      else row1)"
    have new: "cf_id new = cf_id old" by (simp add: new_def row1_def)
    have "\<exists>cs2 st m x. save_configuration new (cs\<lparr>cs_db := w1\<rparr>) = Inr cs2 \<and>
        cs' = config_record c d ''CONFIG_VALIDATED'' (Some v) st m ''system'' x cs2"
      using assms old dev t True
      unfolding validate_version_def Let_def new_def row1_def oc'_def
      by (auto simp: bindE_Inr_iff simp del: append_Cons append.simps split: if_splits)
    then show ?thesis using checked [OF w1 get_configuration_found(1) [OF old] True new] by blast
  qed
qed

lemma validate_version_advances:
  assumes "validate_version c env d v cs = Inr (oc, cs')"
  shows "advances cs cs'"
  using assms
proof (cases rule: validate_version_Inr)
  case (untouched w1)
  then show ?thesis by (simp add: with_db_advances)
next
  case (checked old new w1 cs2 st m x)
  have "advances cs (cs\<lparr>cs_db := w1\<rparr>)" by (rule with_db_advances) (rule checked(1))
  also have "advances \<dots> cs2"
    by (rule save_configuration_advances [OF checked(5) _ checked(4,3)]) (simp add: checked(2))
  also have "advances \<dots> cs'" unfolding checked(6) by (rule config_record_advances)
  finally show ?thesis .
qed

section \<open>Publication\<close>

lemma mutable_iff: "s \<in> MUTABLE_STATUSES \<longleftrightarrow> s \<noteq> CFG_PUBLISHED \<and> s \<noteq> CFG_ARCHIVED"
  by (cases s) (auto simp: MUTABLE_STATUSES_def)

lemma save_configuration_succeeds:
  assumes ok: "configs_ok cs" and old: "old \<in> set (cs_configs cs)" "cf_id r = cf_id old" "config_key r = config_key old"
    and dates: "row_dates_ok r"
    and single: "\<And>x. cf_status r = CFG_PUBLISHED \<Longrightarrow> x \<in> set (cs_configs cs) \<Longrightarrow> cf_id x \<noteq> cf_id r \<Longrightarrow>
      cf_device_id x = cf_device_id r \<Longrightarrow> cf_status x \<noteq> CFG_PUBLISHED"
  shows "save_configuration r cs = Inr (cs\<lparr>cs_configs := update_rows cf_id (cf_id r) (\<lambda>_. r) (cs_configs cs)\<rparr>)"
proof -
  have rows: "rows_ok (registered (cs_db cs)) (cs_configs cs)" using ok by (simp add: configs_ok_def)
  have "x = old" if "x \<in> set (cs_configs cs)" "config_key x = config_key r" for x
    using rows_ok_same_key [OF rows that(1) old(1)] that(2) old(3) by simp
  then have "config_key r \<notin> config_key ` set (filter (\<lambda>x. cf_id x \<noteq> cf_id r) (cs_configs cs))" using old(2) by force
  moreover have "cf_device_id r \<in> registered (cs_db cs)"
    using rows old unfolding rows_ok_def config_key_def by auto
  ultimately have "configuration_row_ok r (filter (\<lambda>x. cf_id x \<noteq> cf_id r) (cs_configs cs)) (cs_db cs)"
    using dates single unfolding configuration_row_ok_def row_dates_ok_def registered_def config_key_def by auto
  then show ?thesis by (simp add: save_configuration_def)
qed

text \<open>The three ways a publication ends before the runtime is involved.\<close>

definition publish_refused :: "pyd_env \<Rightarrow> string \<Rightarrow> int \<Rightarrow> config_store \<Rightarrow> app_error \<Rightarrow> bool" where
  "publish_refused env d v cs e \<longleftrightarrow>
     e = AppError ''DEVICE_NOT_FOUND'' 404 \<and> d \<notin> registered (cs_db cs) \<or>
     e = AppError ''CONFIGURATION_NOT_FOUND'' 404 \<and> d \<in> registered (cs_db cs) \<and> configuration_find d v cs = None \<or>
     e = AppError ''CONFIGURATION_STATE_INVALID'' 409 \<and>
       (\<exists>r. configuration_find d v cs = Some r \<and> cf_status r \<in> {CFG_PUBLISHED, CFG_ARCHIVED})"

lemma get_configuration_Inl:
  "get_configuration d v cs = Inl e \<Longrightarrow>
     e = AppError ''DEVICE_NOT_FOUND'' 404 \<and> d \<notin> registered (cs_db cs) \<or>
     e = AppError ''CONFIGURATION_NOT_FOUND'' 404 \<and> d \<in> registered (cs_db cs) \<and> configuration_find d v cs = None"
  by (auto simp: get_configuration_def bindE_Inl_iff get_device_def device_get_def find_row_None registered_def
      split: option.splits dest!: find_row_Some)

definition accepted_row :: "device_configuration \<Rightarrow> validation_outcome \<Rightarrow> instant \<Rightarrow> device_configuration" where
  "accepted_row old oc t = old\<lparr>cf_validation_result := Some oc, cf_status := CFG_PUBLISHED, cf_published_at := Some t,
     cf_validated_at := Some (vo_checked_at oc), cf_validation_error := None\<rparr>"

definition rejected_row :: "device_configuration \<Rightarrow> validation_outcome \<Rightarrow> device_configuration" where
  "rejected_row old oc = old\<lparr>cf_validation_result := Some oc,
     cf_validation_error := Some (py_join ''; '' (map ci_message (vo_errors oc)))\<rparr>"

lemma publish_commit_cases:
  assumes pc: "publish_commit c env d v actor cs = (r, cs')" and ok: "configs_ok cs"
  obtains (refused) e where "r = Inl e" "cs' = cs" "publish_refused env d v cs e"
  | (rejected) old dev now w1 oc cs2 m x where "configuration_find d v cs = Some old" "cf_status old \<in> MUTABLE_STATUSES"
      "old \<in> set (cs_configs cs)" "get_device d (cs_db cs) = Inr dev" "registered w1 = registered (cs_db cs)"
      "oc = validate_configuration env d (cf_configuration old) (Some (dev_status dev)) now" "\<not> vo_valid oc"
      "r = Inl (AppError ''CONFIGURATION_VALIDATION_FAILED'' 422)"
      "save_configuration (rejected_row old oc) (cs\<lparr>cs_db := w1\<rparr>) = Inr cs2"
      "cs' = config_record c d ''CONFIG_VALIDATED'' (Some v) ''FAILED'' m ''system'' x cs2"
  | (accepted) old dev now t archive_now w1 oc n cs2 cs3 m m' where "configuration_find d v cs = Some old"
      "cf_status old \<in> MUTABLE_STATUSES" "old \<in> set (cs_configs cs)" "get_device d (cs_db cs) = Inr dev"
      "registered w1 = registered (cs_db cs)"
      "oc = validate_configuration env d (cf_configuration old) (Some (dev_status dev)) now" "vo_valid oc"
      "r = Inr (accepted_row old oc t)"
      "archive_published_except archive_now d v (cs\<lparr>cs_db := w1\<rparr>) = (n, cs2)"
      "save_configuration (accepted_row old oc t) cs2 = Inr cs3"
      "cs' = (if 0 < n then config_record c d ''CONFIG_ARCHIVED'' None ''SUCCESS'' m' ''system'' []
        (config_record c d ''CONFIG_PUBLISHED'' (Some v) ''SUCCESS'' m actor [] cs3)
       else config_record c d ''CONFIG_PUBLISHED'' (Some v) ''SUCCESS'' m actor [] cs3)"
proof (cases "get_configuration d v cs")
  case (Inl e)
  with pc have "r = Inl e" "cs' = cs" by (simp_all add: publish_commit_def)
  then show ?thesis by (rule refused) (use get_configuration_Inl [OF Inl] in \<open>auto simp: publish_refused_def\<close>)
next
  case (Inr old)
  note found = get_configuration_found [OF Inr]
  show ?thesis
  proof (cases "cf_status old \<in> MUTABLE_STATUSES")
    case False
    with pc Inr have "r = Inl (AppError ''CONFIGURATION_STATE_INVALID'' 409)" "cs' = cs"
      by (auto simp: publish_commit_def mutable_iff split: if_splits)
    then show ?thesis by (rule refused) (use False found(5) in \<open>auto simp: publish_refused_def mutable_iff\<close>)
  next
    case True
    then have unpub: "cf_status old \<noteq> CFG_PUBLISHED" "cf_status old \<noteq> CFG_ARCHIVED" by (auto simp: mutable_iff)
    from Inr obtain dev where dev: "get_device d (cs_db cs) = Inr dev"
      by (auto simp: get_configuration_def bindE_Inr_iff)
    obtain now w1 where t1: "utc_now c (cs_db cs) = (now, w1)" by fastforce
    define oc where "oc = validate_configuration env d (cf_configuration old) (Some (dev_status dev)) now"
    have rows: "rows_ok (registered (cs_db cs)) (cs_configs cs)" using ok by (simp add: configs_ok_def)
    have dates: "row_dates_ok old" using rows found(1) by (simp add: rows_ok_def)
    have w1: "registered w1 = registered (cs_db cs)" by (rule registered_draw(2) [OF t1])
    have ok1: "configs_ok (cs\<lparr>cs_db := w1\<rparr>)" by (rule with_db_ok [OF ok w1])
    show ?thesis
    proof (cases "vo_valid oc")
      case False
      have "save_configuration (rejected_row old oc) (cs\<lparr>cs_db := w1\<rparr>) =
          Inr (cs\<lparr>cs_db := w1, cs_configs := update_rows cf_id (cf_id old) (\<lambda>_. rejected_row old oc) (cs_configs cs)\<rparr>)"
        (is "?save = Inr ?cs2")
        using save_configuration_succeeds [OF ok1, of old "rejected_row old oc"] found(1) dates unpub
        by (simp add: rejected_row_def config_key_def row_dates_ok_def)
      with pc Inr unpub dev t1 False obtain m x where
        "r = Inl (AppError ''CONFIGURATION_VALIDATION_FAILED'' 422)"
        "cs' = config_record c d ''CONFIG_VALIDATED'' (Some v) ''FAILED'' m ''system'' x ?cs2"
        by (auto simp: publish_commit_def Let_def oc_def rejected_row_def)
      with found True dev w1 False \<open>?save = Inr ?cs2\<close> show ?thesis
        by (intro rejected [OF _ _ _ _ _ oc_def]) auto
    next
      case True': True
      obtain t w2 where t2: "utc_now c w1 = (t, w2)" by fastforce
      obtain archive_now w3 where t3: "utc_now c w2 = (archive_now, w3)" by fastforce
      have w3: "registered w3 = registered (cs_db cs)" using registered_draw(2) [OF t2] registered_draw(2) [OF t3] w1 by simp
      have ok3: "configs_ok (cs\<lparr>cs_db := w3\<rparr>)" by (rule with_db_ok [OF ok w3])
      obtain n cs2 where ar: "archive_published_except archive_now d v (cs\<lparr>cs_db := w3\<rparr>) = (n, cs2)" by fastforce
      have cs2: "cs_configs cs2 = map (\<lambda>r. if cf_device_id r = d \<and> cf_status r = CFG_PUBLISHED \<and> cf_version r \<noteq> v
           then r\<lparr>cf_status := CFG_ARCHIVED, cf_archived_at := Some archive_now\<rparr> else r) (cs_configs cs)"
        using archive_published_except_rows [OF ar] by simp
      have "old \<in> set (cs_configs cs2)"
        unfolding cs2 set_map by (rule image_eqI [OF _ found(1)]) (simp add: unpub)
      moreover have "cf_status x \<noteq> CFG_PUBLISHED"
        if "x \<in> set (cs_configs cs2)" "cf_id x \<noteq> cf_id old" "cf_device_id x = cf_device_id old" for x
      proof
        assume pub: "cf_status x = CFG_PUBLISHED"
        from that(1) obtain y where y: "y \<in> set (cs_configs cs)"
          and xy: "x = (if cf_device_id y = d \<and> cf_status y = CFG_PUBLISHED \<and> cf_version y \<noteq> v
             then y\<lparr>cf_status := CFG_ARCHIVED, cf_archived_at := Some archive_now\<rparr> else y)"
          unfolding cs2 set_map by blast
        have stays: "\<not> (cf_device_id y = d \<and> cf_status y = CFG_PUBLISHED \<and> cf_version y \<noteq> v)"
          using xy pub by force
        with xy have "x = y" by argo
        with y stays pub have x: "x \<in> set (cs_configs cs)" "\<not> (cf_device_id x = d \<and> cf_version x \<noteq> v)" by blast+
        with that(3) found have "config_key x = config_key old" by (simp add: config_key_def)
        from rows_ok_same_key [OF rows x(1) found(1) this] that(2) show False by simp
      qed
      ultimately have "save_configuration (accepted_row old oc t) cs2 =
          Inr (cs2\<lparr>cs_configs := update_rows cf_id (cf_id old) (\<lambda>_. accepted_row old oc t) (cs_configs cs2)\<rparr>)"
        (is "?save = Inr ?cs3")
        using save_configuration_succeeds [OF archive_published_except_ok [OF ar ok3], of old "accepted_row old oc t"] dates
        by (simp add: accepted_row_def config_key_def row_dates_ok_def)
      note save = this
      have "publish_commit c env d v actor cs = (Inr (accepted_row old oc t),
          if 0 < n then config_record c d ''CONFIG_ARCHIVED'' None ''SUCCESS''
            (nat_digits n @ '' previously published version(s) archived'') ''system'' []
            (config_record c d ''CONFIG_PUBLISHED'' (Some v) ''SUCCESS'' (v_text v @ '' published'') actor [] ?cs3)
          else config_record c d ''CONFIG_PUBLISHED'' (Some v) ''SUCCESS'' (v_text v @ '' published'') actor [] ?cs3)"
        using unpub True' save [unfolded accepted_row_def]
        by (simp add: publish_commit_def Let_def Inr dev t1 t2 t3 ar oc_def [symmetric] accepted_row_def)
      with pc have "r = Inr (accepted_row old oc t)" and "cs' = (if 0 < n then config_record c d ''CONFIG_ARCHIVED'' None ''SUCCESS''
            (nat_digits n @ '' previously published version(s) archived'') ''system'' []
            (config_record c d ''CONFIG_PUBLISHED'' (Some v) ''SUCCESS'' (v_text v @ '' published'') actor [] ?cs3)
          else config_record c d ''CONFIG_PUBLISHED'' (Some v) ''SUCCESS'' (v_text v @ '' published'') actor [] ?cs3)"
        by (simp_all only: prod.inject)
      then show ?thesis
        by (rule accepted [OF found(5) True found(1) dev w3 oc_def True' _ ar save])
    qed
  qed
qed

lemma publish_commit_advances:
  assumes pc: "publish_commit c env d v actor cs = (r, cs')"
  shows "advances cs cs'"
proof (cases "configs_ok cs")
  case False
  then show ?thesis by (simp add: advances_def)
next
  case ok: True
  from pc ok show ?thesis
  proof (cases rule: publish_commit_cases)
    case (refused e)
    then show ?thesis by (simp add: advances_refl)
  next
    case (rejected old dev now w1 oc cs2 m x)
    have "advances cs (cs\<lparr>cs_db := w1\<rparr>)" by (rule with_db_advances) (rule rejected(5))
    also have "advances \<dots> cs2"
      by (rule save_configuration_advances [OF rejected(9) _ _ rejected(2)])
        (simp_all add: rejected(3) rejected_row_def)
    also have "advances \<dots> cs'" unfolding rejected(10) by (rule config_record_advances)
    finally show ?thesis .
  next
    case (accepted old dev now t archive_now w1 oc n cs2 cs3 m m')
    have "cf_status old \<noteq> CFG_PUBLISHED" using accepted(2) by (simp add: mutable_iff)
    then have "old \<in> set (cs_configs cs2)"
      using archive_published_except_rows [OF accepted(9)] accepted(3) by (auto intro!: image_eqI [of _ _ old])
    have "advances cs (cs\<lparr>cs_db := w1\<rparr>)" by (rule with_db_advances) (rule accepted(5))
    also have "advances \<dots> cs2" by (rule archive_published_except_advances [OF accepted(9)])
    also have "advances \<dots> cs3"
      by (rule save_configuration_advances [OF accepted(10) \<open>old \<in> set (cs_configs cs2)\<close> _ accepted(2)])
        (simp add: accepted_row_def)
    also have "advances \<dots> cs'"
      unfolding accepted(11) by (auto intro: config_record_advances advances_trans [OF config_record_advances])
    finally show ?thesis .
  qed
qed

lemma mark_applying_advances: "advances (fst s) (fst (mark_applying c ap d v s))"
  by (cases s) (auto simp: mark_applying_def Let_def split: prod.splits
    intro!: advances_same_rows upsert_runtime_status_ok with_db_ok dest: registered_draw)

lemma record_apply_advances: "advances (fst s) (fst (record_apply c ap d v oc actor p s))"
  by (cases s) (auto simp: record_apply_def Let_def split: prod.splits
    intro!: advances_same_rows upsert_runtime_status_ok with_db_ok dest: registered_draw)

lemma startup_row_advances:
  assumes "startup_row c item res cs = Inr cs'"
  shows "advances cs cs'"
  using assms by (auto simp: startup_row_def Let_def split: prod.splits if_splits
    intro!: advances_same_rows upsert_runtime_status_ok with_db_ok dest: registered_draw)

section \<open>Sessions in any order\<close>

text \<open>
  One committed transaction of the configuration service. Publishing and applying are the three
  transactions they are in the code, so the phases of different requests may interleave. \<open>World\<close> is
  whatever else the platform commits, \<open>Runtime\<close> whatever the runtime does.
\<close>

inductive config_step :: "pyd_env \<Rightarrow> config_store \<times> 'a \<Rightarrow> config_store \<times> 'a \<Rightarrow> bool"
  and config_steps :: "pyd_env \<Rightarrow> config_store \<times> 'a \<Rightarrow> config_store \<times> 'a \<Rightarrow> bool" for env where
  Create: "config_steps env (cs, a) (cs1, a1) \<Longrightarrow> create_draft c env d payload actor (\<lambda>_. cs1) cs = Inr (row, cs') \<Longrightarrow>
    config_step env (cs, a) (cs', a1)"
| Clone: "config_steps env (cs, a) (cs1, a1) \<Longrightarrow> clone_version c d v actor (\<lambda>_. cs1) cs = Inr (row, cs') \<Longrightarrow>
    config_step env (cs, a) (cs', a1)"
| Update: "update_draft c env d v payload actor cs = Inr (row, cs') \<Longrightarrow> config_step env (cs, a) (cs', a)"
| Delete: "delete_draft c d v cs = Inr cs' \<Longrightarrow> config_step env (cs, a) (cs', a)"
| Validate: "validate_version c env d v cs = Inr (oc, cs') \<Longrightarrow> config_step env (cs, a) (cs', a)"
| Commit: "publish_commit c env d v actor cs = (r, cs') \<Longrightarrow> config_step env (cs, a) (cs', a)"
| Mark: "config_step env s (mark_applying c ap d v s)"
| Record: "config_step env s (record_apply c ap d v oc actor pending s)"
| Startup: "startup_row c item res cs = Inr cs' \<Longrightarrow> config_step env (cs, a) (cs', a)"
| World: "registered (cs_db cs) \<subseteq> registered w \<Longrightarrow> config_step env (cs, a) (cs\<lparr>cs_db := w\<rparr>, a)"
| Runtime: "config_step env (cs, a) (cs, a')"
| Done: "config_steps env s s"
| Step: "config_steps env s t \<Longrightarrow> config_step env t u \<Longrightarrow> config_steps env s u"

lemma world_advances: "registered (cs_db cs) \<subseteq> registered w \<Longrightarrow> advances cs (cs\<lparr>cs_db := w\<rparr>)"
  by (auto simp: advances_def configs_ok_def history_kept_refl intro: rows_ok_more_devices)

lemma config_step_advances:
  "config_step env s t \<Longrightarrow> advances (fst s) (fst t)"
  "config_steps env s t \<Longrightarrow> advances (fst s) (fst t)"
proof (induction rule: config_step_config_steps.inducts)
  case (Create cs a cs1 a1 c d payload actor row cs')
  then show ?case using create_draft_advances [of c env d payload actor "\<lambda>_. cs1" cs row cs'] by (auto intro: advances_trans)
next
  case (Clone cs a cs1 a1 c d v actor row cs')
  then show ?case using clone_version_advances [of c d v actor "\<lambda>_. cs1" cs row cs'] by (auto intro: advances_trans)
qed (auto intro: advances_refl advances_trans world_advances update_draft_advances delete_draft_advances
  validate_version_advances publish_commit_advances mark_applying_advances record_apply_advances startup_row_advances)

end
