(* ===== verification/GatewayProps.thy ===== *)
theory GatewayProps
  imports GatewayControl TelemetryProps
begin

text \<open>
  Properties of the gateway: what the states of a device runtime mean in every reachable runtime, how
  long it keeps trying to connect, what a failing device that still connects does, that applying a
  definition touches one device only, and what the ingestion contract makes of a normalised sample.
\<close>

section \<open>Runtimes\<close>

datatype runtime_request = StartRuntime "bool option" | StopRuntime "bool option" | Deliver runtime_event

definition runtime_do :: "retry_policy \<Rightarrow> bool \<Rightarrow> device_runtime \<Rightarrow> runtime_request \<Rightarrow> device_runtime \<Rightarrow> bool" where
  "runtime_do p simulated r req r' =
     (case req of StartRuntime m \<Rightarrow> r' = start_runtime m r | StopRuntime m \<Rightarrow> r' = stop_runtime m r
      | Deliver e \<Rightarrow> runtime_step p simulated e r = Some r')"

definition fresh_runtime :: "device_definition \<Rightarrow> device_runtime \<Rightarrow> bool" where
  "fresh_runtime d r \<longleftrightarrow> r = new_runtime d"

text \<open>The task only runs for an enabled, polled device; its position and the state agree.\<close>

definition runtime_wf :: "retry_policy \<Rightarrow> device_definition \<Rightarrow> device_runtime \<Rightarrow> bool" where
  "runtime_wf p d r \<longleftrightarrow>
     rt_definition r = d \<and> 0 \<le> rt_consecutive_failures r \<and>
     (rt_task r \<noteq> NoTask \<longrightarrow> dd_enabled d \<and> polled d) \<and>
     (rt_adapter r \<longleftrightarrow> rt_task r \<notin> {NoTask, AtRegistration, Finished}) \<and>
     0 \<le> rt_reconnect_attempts r \<and> rt_reconnect_attempts r \<le> max 0 (rp_max_reconnect_attempts p) \<and>
     (case rt_task r of
        NoTask \<Rightarrow> rt_state r \<notin> {DS_STARTING, DS_CONNECTING, DS_RECONNECTING, DS_ERROR} \<and>
          (dd_enabled d \<and> polled d \<longrightarrow> rt_state r \<in> {DS_STOPPED})
      | AtRegistration \<Rightarrow> rt_state r = DS_STARTING
      | AtConnect \<Rightarrow> rt_state r = DS_CONNECTING
      | AtBackoff _ \<Rightarrow> rt_state r = DS_RECONNECTING \<and> 0 < rt_reconnect_attempts r
      | Finished \<Rightarrow> rt_state r = DS_ERROR \<and> rt_message r \<noteq> None
      | _ \<Rightarrow> rt_reconnect_attempts r = 0 \<and> rt_consecutive_failures r < rp_reconnect_threshold p \<and>
          rt_state r = (if rp_failure_threshold p \<le> rt_consecutive_failures r then DS_DEGRADED else DS_CONNECTED))"

lemma retreat_wf:
  assumes "rt_definition r = d" "dd_enabled d" "polled d" "rt_adapter r" "0 \<le> rt_consecutive_failures r"
    "0 \<le> rt_reconnect_attempts r" "rt_reconnect_attempts r \<le> max 0 (rp_max_reconnect_attempts p)"
  shows "runtime_wf p d (retreat p stage now r)"
  using assms by (auto simp: retreat_def fail_permanently_def runtime_wf_def)

lemma poll_failed_wf:
  assumes "rt_definition r = d" "dd_enabled d" "polled d" "rt_adapter r" "0 \<le> rt_consecutive_failures r"
    "rt_reconnect_attempts r = 0"
    "rt_state r = (if rp_failure_threshold p \<le> rt_consecutive_failures r then DS_DEGRADED else DS_CONNECTED)"
  shows "runtime_wf p d (poll_failed p now r)"
proof (cases "rp_reconnect_threshold p \<le> rt_consecutive_failures r + 1")
  case True
  then show ?thesis using assms by (simp add: poll_failed_def record_failure_def Let_def retreat_wf)
next
  case False
  then show ?thesis using assms by (auto simp: poll_failed_def record_failure_def Let_def runtime_wf_def)
qed

lemma runtime_step_wf:
  assumes "1 \<le> rp_failure_threshold p" "1 \<le> rp_reconnect_threshold p" "runtime_wf p d r" "runtime_step p simulated e r = Some r'"
  shows "runtime_wf p d r'"
  using assms
  by (auto simp: runtime_step_def sample_published_def fail_permanently_def
      intro!: retreat_wf poll_failed_wf
      split: task.splits runtime_event.splits sum.splits bool.splits ingestion_outcome.splits if_splits)
     (auto simp: runtime_wf_def)

definition runtime_inv :: "retry_policy \<Rightarrow> device_definition \<Rightarrow> device_runtime \<Rightarrow> bool" where
  "runtime_inv p d r \<longleftrightarrow> (1 \<le> rp_failure_threshold p \<and> 1 \<le> rp_reconnect_threshold p \<longrightarrow> runtime_wf p d r)"

lemma start_stop_wf:
  "runtime_wf p d r \<Longrightarrow> runtime_wf p d (start_runtime m r)" "runtime_wf p d r \<Longrightarrow> runtime_wf p d (stop_runtime m r)"
  by (auto simp: start_runtime_def stop_runtime_def runtime_wf_def running_def passive_state_def)

interpretation device: event_system "fresh_runtime d" "runtime_do p simulated" "runtime_inv p d" for d p simulated
proof
  show "fresh_runtime d r \<Longrightarrow> runtime_inv p d r" for r
    by (simp add: fresh_runtime_def runtime_inv_def runtime_wf_def new_runtime_def)
  show "runtime_inv p d r \<Longrightarrow> runtime_do p simulated r e r' \<Longrightarrow> runtime_inv p d r'" for r e r'
    by (cases e) (auto simp: runtime_do_def runtime_inv_def start_stop_wf intro: runtime_step_wf)
qed


section \<open>Accepted event sequences\<close>

fun accepts :: "retry_policy \<Rightarrow> bool \<Rightarrow> runtime_event list \<Rightarrow> device_runtime \<Rightarrow> device_runtime option" where
  "accepts p simulated [] r = Some r"
| "accepts p simulated (e # es) r = Option.bind (runtime_step p simulated e r) (accepts p simulated es)"

lemma accepts_Cons:
  "accepts p simulated (e # es) r = Some r' \<longleftrightarrow>
    (\<exists>r1. runtime_step p simulated e r = Some r1 \<and> accepts p simulated es r1 = Some r')"
  by (simp add: bind_eq_Some_conv)

definition connects :: "runtime_event \<Rightarrow> bool" where
  "connects e = (case e of Connection (Inr _) _ \<Rightarrow> True | _ \<Rightarrow> False)"

definition connection_fails :: "runtime_event \<Rightarrow> bool" where
  "connection_fails e = (case e of Connection (Inl _) _ \<Rightarrow> True | _ \<Rightarrow> False)"

text \<open>How many events are left while no connection succeeds.\<close>

definition budget :: "retry_policy \<Rightarrow> device_runtime \<Rightarrow> int" where
  "budget p r =
     (let left = max 0 (rp_max_reconnect_attempts p - rt_reconnect_attempts r) in
      case rt_task r of AtConnect \<Rightarrow> 2 * left + 1 | AtBackoff _ \<Rightarrow> 2 * left + 2 | _ \<Rightarrow> 0)"

lemma budget_pos: "(\<exists>x. rt_task r = AtBackoff x) \<or> rt_task r = AtConnect \<Longrightarrow> 0 < budget p r"
  by (elim disjE exE) (auto simp: budget_def max_def)

lemma failing_step:
  assumes "runtime_step p simulated e r = Some r'" "\<not> connects e" "(\<exists>x. rt_task r = AtBackoff x) \<or> rt_task r = AtConnect"
  shows "budget p r' = budget p r - 1 \<and>
    ((\<exists>x. rt_task r' = AtBackoff x) \<or> rt_task r' = AtConnect \<or>
     rt_task r' = Finished \<and> rt_state r' = DS_ERROR \<and> \<not> rt_adapter r')"
  using assms
  by (auto simp: runtime_step_def retreat_def fail_permanently_def budget_def connects_def
      split: runtime_event.splits sum.splits if_splits)

lemma finished_step: "rt_task r = Finished \<Longrightarrow> runtime_step p simulated e r = None"
  by (simp add: runtime_step_def)

lemma failing_run:
  assumes "accepts p simulated es r = Some r'" "list_all (\<lambda>e. \<not> connects e) es"
    "(\<exists>x. rt_task r = AtBackoff x) \<or> rt_task r = AtConnect"
  shows "budget p r' = budget p r - int (length es) \<and> 0 \<le> budget p r' \<and>
    (budget p r' = 0 \<longleftrightarrow> rt_task r' = Finished) \<and> (budget p r' = 0 \<longrightarrow> rt_state r' = DS_ERROR \<and> \<not> rt_adapter r')"
  using assms
proof (induction es arbitrary: r)
  case Nil
  then have "r' = r" by simp
  with Nil.prems(3) budget_pos [OF Nil.prems(3), of p] show ?case by auto
next
  case (Cons e es)
  from Cons.prems obtain r1 where step: "runtime_step p simulated e r = Some r1" and rest: "accepts p simulated es r1 = Some r'"
    by (auto simp: accepts_Cons simp del: accepts.simps)
  note one = failing_step [OF step _ Cons.prems(3)]
  show ?case
  proof (cases "rt_task r1 = Finished")
    case True
    with rest have "es = [] \<and> r' = r1" by (cases es) (simp_all add: finished_step)
    with one True Cons.prems(2) show ?thesis by (auto simp: budget_def)
  next
    case False
    with one Cons.prems(2) have "(\<exists>x. rt_task r1 = AtBackoff x) \<or> rt_task r1 = AtConnect" by auto
    from Cons.IH [OF rest _ this] one Cons.prems(2) show ?thesis by auto
  qed
qed

text \<open>
  C29 (termination). A device that cannot be reached is given up. From the moment its task asks for a
  connection with no attempt behind it, every sequence of events in which no attempt succeeds has at most
  two events per allowed attempt and one more; the sequences of exactly that length, and no shorter ones,
  end the task in ERROR with the adapter released, so the retries neither go on for ever nor stop early.
\<close>

theorem connect_failures_bounded:
  assumes "rt_task r = AtConnect" "rt_reconnect_attempts r = 0" "0 \<le> rp_max_reconnect_attempts p"
    and "accepts p simulated es r = Some r'" "list_all (\<lambda>e. \<not> connects e) es"
  shows "int (length es) \<le> 2 * rp_max_reconnect_attempts p + 1 \<and>
    (int (length es) = 2 * rp_max_reconnect_attempts p + 1 \<longleftrightarrow> rt_task r' = Finished) \<and>
    (rt_task r' = Finished \<longrightarrow> rt_state r' = DS_ERROR \<and> \<not> rt_adapter r' \<and> (\<forall>e. runtime_step p simulated e r' = None))"
proof -
  have "budget p r = 2 * rp_max_reconnect_attempts p + 1" using assms(1-3) by (simp add: budget_def)
  then show ?thesis using failing_run [OF assms(4,5)] assms(1) by (auto simp: finished_step)
qed

lemma poll_failed_live:
  assumes "rt_reconnect_attempts r = 0" "0 < rp_max_reconnect_attempts p" "rt_state r \<noteq> DS_ERROR"
  shows "((\<exists>x. rt_task (poll_failed p now r) = AtBackoff x) \<or>
      rt_task (poll_failed p now r) = AtSleep \<and> rt_reconnect_attempts (poll_failed p now r) = 0) \<and>
    rt_state (poll_failed p now r) \<noteq> DS_ERROR"
  using assms by (auto simp: poll_failed_def record_failure_def Let_def retreat_def)

definition live :: "device_runtime \<Rightarrow> bool" where
  "live r \<longleftrightarrow> rt_state r \<noteq> DS_ERROR \<and>
     (case rt_task r of AtConnect \<Rightarrow> True | AtBackoff _ \<Rightarrow> True | AtRead \<Rightarrow> rt_reconnect_attempts r = 0
      | AtPublish \<Rightarrow> rt_reconnect_attempts r = 0 | AtSleep \<Rightarrow> rt_reconnect_attempts r = 0 | _ \<Rightarrow> False)"

lemma poll_failed_live':
  "rt_reconnect_attempts r = 0 \<Longrightarrow> 0 < rp_max_reconnect_attempts p \<Longrightarrow> rt_state r \<noteq> DS_ERROR \<Longrightarrow> live (poll_failed p now r)"
  using poll_failed_live [of r p now] by (auto simp: live_def)

lemma connecting_step:
  assumes "runtime_step p simulated e r = Some r'" "\<not> connection_fails e" "0 < rp_max_reconnect_attempts p" "live r"
  shows "live r'"
proof (cases "rt_task r")
  case AtConnect
  then show ?thesis using assms
    by (auto simp: runtime_step_def connection_fails_def live_def split: runtime_event.splits sum.splits)
next
  case AtRead
  then have ok: "rt_reconnect_attempts r = 0" "rt_state r \<noteq> DS_ERROR" using assms(4) by (simp_all add: live_def)
  consider exc now where "r' = poll_failed p now (r\<lparr>rt_read_errors := Suc (rt_read_errors r), rt_last_error := Some now,
      rt_message := Some (''read failed: '' @ exc)\<rparr>)" | "r' = r\<lparr>rt_task := AtPublish\<rparr>"
    using assms(1) AtRead by (auto simp: runtime_step_def split: runtime_event.splits sum.splits)
  then show ?thesis using ok assms(3) by cases (simp_all add: poll_failed_live', simp add: live_def)
next
  case AtPublish
  then have ok: "rt_reconnect_attempts r = 0" "rt_state r \<noteq> DS_ERROR" using assms(4) by (simp_all add: live_def)
  obtain res now where "r' = sample_published p res now r"
    using assms(1) AtPublish by (auto simp: runtime_step_def split: runtime_event.splits)
  then show ?thesis using ok assms(3)
    by (cases "\<exists>x. res = Inr x \<and> x \<noteq> REJECTED")
       (auto simp: sample_published_def poll_failed_live' split: sum.splits ingestion_outcome.splits, auto simp: live_def)
next
  case AtSleep
  then show ?thesis using assms by (cases e) (auto simp: runtime_step_def live_def)
next
  case (AtBackoff x)
  then show ?thesis using assms by (cases e) (auto simp: runtime_step_def live_def)
qed (use assms in \<open>simp_all add: live_def\<close>)

text \<open>
  C30 (liveness). A device that connects and never delivers is never given up. While connection attempts
  succeed, no sequence of failed readings, rejected samples and failed ingestions takes the runtime to
  ERROR, however long it is: each new connection resets the count of attempts, so the recovery of the
  telemetry stage never runs out.
\<close>

theorem telemetry_failures_never_error:
  assumes "rt_task r = AtConnect" "rt_state r \<noteq> DS_ERROR" "0 < rp_max_reconnect_attempts p"
    and "accepts p simulated es r = Some r'" "list_all (\<lambda>e. \<not> connection_fails e) es"
  shows "running r' \<and> rt_state r' \<noteq> DS_ERROR"
proof -
  have "live r'" if "live s" "accepts p simulated es s = Some r'" for s
    using that assms(5)
  proof (induction es arbitrary: s)
    case (Cons e es)
    from Cons.prems(2) obtain r1 where r1: "runtime_step p simulated e s = Some r1" "accepts p simulated es r1 = Some r'"
      by (auto simp: accepts_Cons simp del: accepts.simps)
    have "live r1" using connecting_step [OF r1(1) _ assms(3)] Cons.prems(1,3) by simp
    with Cons.IH r1(2) Cons.prems(3) show ?case by simp
  qed simp
  from this [OF _ assms(4)] assms(1,2) show ?thesis by (auto simp: live_def running_def split: task.splits)
qed

section \<open>Applying a definition\<close>

lemma deliver_definition: "rt_definition (deliver p simulated r e) = rt_definition r"
  by (auto simp: deliver_def runtime_step_def sample_published_def poll_failed_def record_failure_def Let_def retreat_def
      fail_permanently_def split: option.splits task.splits runtime_event.splits sum.splits bool.splits
      ingestion_outcome.splits if_splits)

lemma deliver_all_definition: "rt_definition (foldl (deliver p simulated) r es) = rt_definition r"
  by (induction es arbitrary: r) (simp_all add: deliver_definition)

lemma poll_ready_result:
  "poll_ready p simulated m batches r = (ready, r') \<Longrightarrow>
    rt_definition r' = rt_definition r \<and> (ready \<longleftrightarrow> current_state m r' = DS_CONNECTED)"
proof (induction batches arbitrary: r)
  case (Cons b bs)
  show ?case
  proof (cases "current_state m r \<in> {DS_CONNECTED, DS_ERROR}")
    case False
    then have "poll_ready p simulated m bs (foldl (deliver p simulated) r b) = (ready, r')" using Cons.prems by simp
    from Cons.IH [OF this] show ?thesis by (simp add: deliver_all_definition)
  qed (use Cons.prems in \<open>auto split: if_splits\<close>)
qed (auto split: if_splits)

lemma start_runtime_definition: "rt_definition (start_runtime m r) = rt_definition r"
  by (simp add: start_runtime_def)

text \<open>
  Applying a definition is isolated. A definition that is not applied leaves the gateway as it
  was, so a bad configuration cannot take a working device down, and says why; one that is applied
  replaces the runtime of its device by one that runs exactly that definition, registers it and records
  the version, and was seen connected when the device is enabled and polled. Every other device keeps its
  runtime, its definition and its version.
\<close>

theorem apply_isolated:
  assumes "apply_device_definition d version batches g = (res, g')"
  shows "(\<not> ar_applied res \<longrightarrow> g' = g \<and> ar_error res \<noteq> None) \<and>
    (ar_applied res \<longrightarrow> gw_enabled g \<and> ar_error res = None \<and> map_of (gw_registry g') (dd_device_id d) = Some d \<and>
       gateway_applied_version (dd_device_id d) g' = version \<and>
       (\<exists>r. map_of (gw_runtimes g') (dd_device_id d) = Some r \<and> rt_definition r = d \<and>
          (dd_enabled d \<and> polled d \<longrightarrow> rt_state r = DS_CONNECTED))) \<and>
    (\<forall>other. other \<noteq> dd_device_id d \<longrightarrow> map_of (gw_runtimes g') other = map_of (gw_runtimes g) other \<and>
       map_of (gw_registry g') other = map_of (gw_registry g) other \<and>
       gateway_applied_version other g' = gateway_applied_version other g)"
proof -
  obtain ready candidate where w: "wait_until_ready (gw_policy g) (gw_simulated g) (gw_mqtt g) batches
      (start_runtime (gw_mqtt g) (new_runtime d)) = (ready, candidate)" by fastforce
  have cand: "rt_definition candidate = d" "ready \<Longrightarrow> dd_enabled d \<Longrightarrow> polled d \<Longrightarrow> rt_state candidate = DS_CONNECTED"
    using w poll_ready_result [of "gw_policy g" "gw_simulated g" "gw_mqtt g" batches "start_runtime (gw_mqtt g) (new_runtime d)" ready candidate]
    by (auto simp: wait_until_ready_def start_runtime_definition new_runtime_def current_state_def simp del: poll_ready.simps
        split: if_splits)
  show ?thesis
  proof (cases "gw_enabled g \<and> ready")
    case True
    then have res: "res = \<lparr>ar_device_id = dd_device_id d, ar_applied = True, ar_version = version,
        ar_state = current_state (gw_mqtt g) candidate, ar_error = None\<rparr>"
      and g': "g' = g\<lparr>gw_runtimes := AList.update (dd_device_id d) candidate (gw_runtimes g),
         gw_registry := replace_definition d (gw_registry g), gw_applied := AList.update (dd_device_id d) version (gw_applied g)\<rparr>"
      using assms w by (auto simp: apply_device_definition_def Let_def)
    have "map_of (gw_runtimes g') = (map_of (gw_runtimes g))(dd_device_id d \<mapsto> candidate)"
      "map_of (gw_registry g') = (map_of (gw_registry g))(dd_device_id d \<mapsto> d)"
      "map_of (gw_applied g') = (map_of (gw_applied g))(dd_device_id d \<mapsto> version)"
      by (simp_all add: g' update_conv' replace_definition_def)
    then show ?thesis unfolding gateway_applied_version_def using True cand by (simp add: res)
  next
    case False
    then show ?thesis using assms w by (auto simp: apply_device_definition_def Let_def split: if_splits)
  qed
qed

section \<open>A sample on its way to the database\<close>

lemma topic_of_device:
  assumes "device_id_pattern k"
  shows "topic_device_id (telemetry_topic k) = k"
proof -
  have "py_split (CHR ''/'') (telemetry_topic k) = [''industrial'', ''devices'', k, ''telemetry'']"
    using py_split_aux_skip [OF pattern_no_slash [OF assms], of "[]" "''telemetry''"] by (simp add: py_split_def telemetry_topic_def)
  then show ?thesis by (simp add: topic_device_id_def)
qed

text \<open>The ranges the telemetry contract accepts, signal by signal.\<close>

definition signals_in_range :: "(string \<rightharpoonup> pyfloat) \<Rightarrow> bool" where
  "signals_in_range m \<longleftrightarrow>
     (\<forall>(s, lo, hi) \<in> {(''temperature'', - 50, 250), (''bearing_temperature'', - 50, 250), (''vibration'', 0, 200),
        (''current'', 0, 10000), (''voltage'', 0, 10000), (''load'', 0, 120), (''power'', 0, 100000)}.
        in_range lo hi (the (m s))) \<and>
     0 \<le> rounded (the (m ''rpm'')) \<and> rounded (the (m ''rpm'')) \<le> 100000"

lemma settle_labels:
  assumes "text_between 1 100 (rs_operating_state rs)" "text_between 1 100 (rs_fault_state rs)" "list_all state_rule_ok rules"
  shows "text_between 1 100 (rs_operating_state (foldl (settle m) rs rules)) \<and> text_between 1 100 (rs_fault_state (foldl (settle m) rs rules))"
  using assms
proof (induction rules arbitrary: rs)
  case (Cons rule rules)
  have "text_between 1 100 (rs_operating_state (settle m rs rule)) \<and> text_between 1 100 (rs_fault_state (settle m rs rule))"
    using Cons.prems by (auto simp: settle_def state_rule_ok_def split: option.splits state_target.splits)
  with Cons show ?case by simp
qed simp

lemma resolve_state_labels:
  assumes "state_definition_ok d" "resolve_state d m = (os, fs)"
  shows "text_between 1 100 os" "text_between 1 100 fs"
  using assms settle_labels [of "\<lparr>rs_operating_state = sd_operating_state d, rs_fault_state = sd_fault_state d, rs_settled = {}\<rparr>" "sd_derived d" m]
  by (auto simp: resolve_state_def state_definition_ok_def Let_def text_between_def)

lemma canonical_signals: "map fst SIGNAL_TO_CONTRACT_FIELD = CANONICAL_SIGNAL_FIELDS"
  by (simp add: SIGNAL_TO_CONTRACT_FIELD_def CANONICAL_SIGNAL_FIELDS_def)

lemma schema_version_ok: "supported_major_version SCHEMA_VERSION"
  by code_simp

text \<open>
  C31 (functional). What becomes of a polled sample of a registered device. A sample without every
  canonical signal is refused by the normaliser, which names the missing ones and touches nothing. Any
  other sample is rejected by the ingestion exactly when a signal is out of the contract's range or the
  resolved operating label has more than 50 characters - which a validated derived rule may produce,
  since its label may have 100. A sample reported as persisted is stored with the device, the time stamp, the
  values and the labels it was polled with.
\<close>

theorem gateway_sample_outcome:
  assumes others: "\<And>v. samples_kept v (ie_others env v)"
    and "unified_telemetry_ok t" and "device_id_pattern (ut_device_id t)" and "state_definition_ok d"
    and "registration_exists (ut_device_id t) s" and "resolve_state d (map_of (ut_signals t)) = (os, fs)"
    and run: "sink_publish c env t d s = (res, s')"
  shows "if \<exists>sig \<in> set CANONICAL_SIGNAL_FIELDS. map_of (ut_signals t) sig = None
    then s' = s \<and> res = Inl (NormalizationError (sort_by (\<le>) (filter (\<lambda>sig. map_of (ut_signals t) sig = None) CANONICAL_SIGNAL_FIELDS)))
    else (res = Inr REJECTED \<longleftrightarrow> \<not> signals_in_range (map_of (ut_signals t)) \<or> 50 < length os) \<and>
      (res = Inr PERSISTED \<longrightarrow> (\<exists>row \<in> set (w_telemetry (s_db s')).
         t_device_id row = ut_device_id t \<and> t_timestamp row = ut_timestamp t \<and>
         map_of (ut_signals t) ''temperature'' = Some (t_temperature_c row) \<and>
         map_of (ut_signals t) ''bearing_temperature'' = Some (t_bearing_temperature_c row) \<and>
         map_of (ut_signals t) ''vibration'' = Some (t_vibration_mm_s row) \<and>
         map_of (ut_signals t) ''current'' = Some (t_current_a row) \<and>
         map_of (ut_signals t) ''voltage'' = Some (t_voltage_v row) \<and>
         map_option rounded (map_of (ut_signals t) ''rpm'') = Some (t_rpm row) \<and>
         map_of (ut_signals t) ''load'' = Some (t_load_pct row) \<and>
         map_of (ut_signals t) ''power'' = Some (t_power_kw row) \<and>
         t_operating_state row = os \<and> t_fault_state row = fs))"
proof -
  let ?m = "map_of (ut_signals t)"
  show ?thesis
  proof (cases "\<exists>sig \<in> set CANONICAL_SIGNAL_FIELDS. ?m sig = None")
    case True
    then have "filter (\<lambda>sig. ?m sig = None) CANONICAL_SIGNAL_FIELDS \<noteq> []" by (simp add: filter_empty_conv)
    then show ?thesis using run True by (simp add: sink_publish_def to_canonical_payload_def canonical_signals Let_def assms(6))
  next
    case False
    then have all: "\<exists>v. ?m sig = Some v" if "sig \<in> set CANONICAL_SIGNAL_FIELDS" for sig using that by auto
    define x where "x = \<lparr>t_schema_version = SCHEMA_VERSION, t_timestamp = ut_timestamp t, t_device_id = ut_device_id t,
      t_temperature_c = the (?m ''temperature''), t_bearing_temperature_c = the (?m ''bearing_temperature''),
      t_vibration_mm_s = the (?m ''vibration''), t_current_a = the (?m ''current''), t_voltage_v = the (?m ''voltage''),
      t_rpm = rounded (the (?m ''rpm'')), t_load_pct = the (?m ''load''), t_power_kw = the (?m ''power''),
      t_operating_state = os, t_fault_state = fs\<rparr>"
    let ?topic = "telemetry_topic (ut_device_id t)"
    have none: "filter (\<lambda>sig. ?m sig = None) CANONICAL_SIGNAL_FIELDS = []" using False by (simp add: filter_empty_conv)
    have payload: "to_canonical_payload t d = Inr (Fields (Aware (ut_timestamp t)) x)"
      using none by (simp add: to_canonical_payload_def canonical_signals Let_def assms(6) x_def)
    obtain r s1 where ing: "ingest_payload c env ?topic (Fields (Aware (ut_timestamp t)) x) s = (r, s1)" by fastforce
    have labels: "text_between 1 100 os" "text_between 1 100 fs" by (rule resolve_state_labels [OF assms(4,6)])+
    have ok: "telemetry_fields_ok x \<longleftrightarrow> signals_in_range ?m \<and> length os \<le> 50"
      using labels assms(2) schema_version_ok
      by (auto simp: telemetry_fields_ok_def x_def signals_in_range_def text_between_def unified_telemetry_ok_def)
    have valid: "model_validate (Fields (Aware (ut_timestamp t)) x) = (if telemetry_fields_ok x then Inr x else Inl ''ValidationError'')"
      by (simp add: model_validate_def x_def)
    have dev: "t_device_id x = ut_device_id t" by (simp add: x_def)
    have reg: "ut_device_id t \<in> dev_device_id ` set (w_devices (s_db s))"
      using assms(5) unfolding registration_exists_def device_get_iff by simp
    have refusal: "refusal ?topic (Fields (Aware (ut_timestamp t)) x) (s_db s) = None \<longleftrightarrow> telemetry_fields_ok x"
      unfolding refusal_def valid using reg topic_of_device [OF assms(3)] by (simp add: dev)
    have res: "res = (case r of Inl e \<Rightarrow> Inl (IngestionError e) | Inr z \<Rightarrow> Inr (case map_of OUTCOMES (ir_status z) of None \<Rightarrow> REJECTED | Some y \<Rightarrow> y))"
      "s' = s1" using run payload ing by (auto simp: sink_publish_def split: sum.splits)
    have neither: "\<not> (\<exists>sig \<in> set CANONICAL_SIGNAL_FIELDS. ?m sig = None)" using False .
    from others ing show ?thesis
    proof (cases rule: ingest_cases)
      case (refused reason)
      then have "\<not> telemetry_fields_ok x" "res = Inr REJECTED"
        using refusal res(1) by (simp_all add: OUTCOMES_def)
      with ok neither show ?thesis by auto
    next
      case (failed d' e)
      then have "telemetry_fields_ok x" "\<nexists>y. res = Inr y" using refusal res(1) by simp_all
      with ok neither show ?thesis by auto
    next
      case (duplicate d')
      then have "telemetry_fields_ok x" "res = Inr DUPLICATE" using refusal res(1) by (simp_all add: OUTCOMES_def)
      with ok neither show ?thesis by auto
    next
      case (stored d' row)
      then have fine: "telemetry_fields_ok x" using refusal by simp
      then have "d' = x" using stored(1) valid by simp
      then obtain k ts where row: "row = telemetry_row k ts x" using stored(11) by blast
      have mem: "row \<in> set (w_telemetry (s_db s'))" using stored(6) res(2) by simp
      have "res \<noteq> Inr REJECTED" using stored(8) res(1) by (auto simp: OUTCOMES_def)
      moreover have "\<exists>v. ?m sig = Some v" if "sig \<in> {''temperature'', ''bearing_temperature'', ''vibration'', ''current'',
          ''voltage'', ''rpm'', ''load'', ''power''}" for sig
        using all that unfolding CANONICAL_SIGNAL_FIELDS_def by simp
      then have "?m ''temperature'' = Some (t_temperature_c row)" "?m ''bearing_temperature'' = Some (t_bearing_temperature_c row)"
        "?m ''vibration'' = Some (t_vibration_mm_s row)" "?m ''current'' = Some (t_current_a row)"
        "?m ''voltage'' = Some (t_voltage_v row)" "map_option rounded (?m ''rpm'') = Some (t_rpm row)"
        "?m ''load'' = Some (t_load_pct row)" "?m ''power'' = Some (t_power_kw row)"
        by (force simp: row telemetry_row_def x_def)+
      moreover have "t_device_id row = ut_device_id t" "t_timestamp row = ut_timestamp t" "t_operating_state row = os"
        "t_fault_state row = fs" by (simp_all add: row telemetry_row_def x_def)
      ultimately show ?thesis using neither ok fine mem by auto
    qed
  qed
qed

section \<open>A concrete device\<close>

definition pump_state :: state_definition where
  "pump_state = \<lparr>sd_operating_state = ''RUNNING'', sd_fault_state = ''NORMAL'', sd_derived =
     [\<lparr>sru_target = TargetOperating, sru_signal = ''rpm'', sru_operator = OpGt, sru_threshold = Fin 100,
       sru_then = replicate 51 CHR ''x''\<rparr>]\<rparr>"

definition pump :: device_definition where
  "pump = \<lparr>dd_device_id = ''motor-1'', dd_protocol = PT_SIMULATOR, dd_enabled = True, dd_poll_interval_ms = 1000,
     dd_state = pump_state, dd_modbus_tcp = None, dd_opc_ua = None, dd_simulator = Some (), dd_mqtt = None\<rparr>"

definition pump_connected :: device_runtime where
  "pump_connected = foldl (deliver DEFAULT_POLICY True) (start_runtime None (new_runtime pump))
     [Registration (Inr True) 1, Connection (Inr ()) 2]"

lemma deliver_reachable:
  "reachable (fresh_runtime d) (runtime_do p simulated) r \<Longrightarrow>
    reachable (fresh_runtime d) (runtime_do p simulated) (foldl (deliver p simulated) r es)"
  by (rule reachable_foldl [where label = Deliver]) (auto simp: deliver_def runtime_do_def split: option.splits)

lemma pump_reachable: "reachable (fresh_runtime pump) (runtime_do DEFAULT_POLICY True) pump_connected"
  unfolding pump_connected_def
  by (rule deliver_reachable, rule reach_step [where e = "StartRuntime None"], rule reach_init)
     (simp_all add: fresh_runtime_def runtime_do_def)

lemma pump_at_read: "rt_task pump_connected = AtRead" "rt_consecutive_failures pump_connected = 0"
  by code_simp+


definition pump_waiting :: device_runtime where
  "pump_waiting = foldl (deliver DEFAULT_POLICY True) (start_runtime None (new_runtime pump)) [Registration (Inr True) 1]"

lemma pump_at_connect: "rt_task pump_waiting = AtConnect" "rt_reconnect_attempts pump_waiting = 0" "rt_state pump_waiting = DS_CONNECTING"
  by code_simp+

definition refused_attempts :: "runtime_event list" where
  "refused_attempts = concat (replicate 5 [Connection (Inl ''refused'') 3, BackedOff]) @ [Connection (Inl ''refused'') 4]"

lemma refused_accepted: "case accepts DEFAULT_POLICY True refused_attempts pump_waiting of None \<Rightarrow> False | Some _ \<Rightarrow> True"
  by code_simp

theorem connect_failures_bounded_witness:
  "\<exists>r'. accepts DEFAULT_POLICY True refused_attempts pump_waiting = Some r' \<and> length refused_attempts = 11 \<and> rt_state r' = DS_ERROR"
proof -
  obtain r' where run: "accepts DEFAULT_POLICY True refused_attempts pump_waiting = Some r'"
    using refused_accepted by (auto split: option.splits)
  have "length refused_attempts = 11" "list_all (\<lambda>e. \<not> connects e) refused_attempts" by code_simp+
  with connect_failures_bounded [OF pump_at_connect(1,2) _ run] run show ?thesis by (simp add: DEFAULT_POLICY_def)
qed

definition unreadable :: "runtime_event list" where
  "unreadable = concat (replicate 20 ([Connection (Inr ()) 3] @
     concat (replicate 5 [Reading (Inl ''timeout'') 4, Slept]) @ [Reading (Inl ''timeout'') 5, BackedOff]))"

lemma unreadable_accepted: "case accepts DEFAULT_POLICY True unreadable pump_waiting of None \<Rightarrow> False | Some _ \<Rightarrow> True"
  by code_simp

theorem telemetry_failures_never_error_witness:
  "\<exists>r'. accepts DEFAULT_POLICY True unreadable pump_waiting = Some r' \<and> rt_state r' \<noteq> DS_ERROR"
proof -
  obtain r' where run: "accepts DEFAULT_POLICY True unreadable pump_waiting = Some r'"
    using unreadable_accepted by (auto split: option.splits)
  have "list_all (\<lambda>e. \<not> connection_fails e) unreadable" by code_simp
  with telemetry_failures_never_error [OF pump_at_connect(1) _ _ run] run show ?thesis
    by (simp add: pump_at_connect DEFAULT_POLICY_def)
qed

definition pump_gateway :: gateway where
  "pump_gateway = new_gateway [(''motor-1'', pump)] True DEFAULT_POLICY True None"

lemma pump_apply:
  "ar_applied (fst (apply_device_definition pump (Some 7) [[Registration (Inr True) 1, Connection (Inr ()) 2]] pump_gateway))"
  by code_simp

theorem apply_isolated_witness:
  "gateway_applied_version ''motor-1''
    (snd (apply_device_definition pump (Some 7) [[Registration (Inr True) 1, Connection (Inr ()) 2]] pump_gateway)) = Some 7"
proof -
  obtain res g' where run: "apply_device_definition pump (Some 7) [[Registration (Inr True) 1, Connection (Inr ()) 2]] pump_gateway = (res, g')"
    by fastforce
  from apply_isolated [OF run] pump_apply run show ?thesis by (simp add: pump_def)
qed

definition pump_sample :: unified_telemetry where
  "pump_sample = \<lparr>ut_device_id = ''motor-1'', ut_timestamp = 5, ut_signals =
     [(''temperature'', Fin 60), (''bearing_temperature'', Fin 60), (''vibration'', Fin 2), (''current'', Fin 10),
      (''voltage'', Fin 400), (''rpm'', Fin 1500), (''load'', Fin 50), (''power'', Fin 5)]\<rparr>"

text \<open>The pump's definition is valid; every sample above 100 rpm is rejected for its label.\<close>

lemma pump_valid:
  "definition_ok pump" "state_definition_ok pump_state" "unified_telemetry_ok pump_sample" "device_id_pattern ''motor-1''"
  by (simp_all add: definition_ok_def pump_def pump_state_def state_definition_ok_def state_rule_ok_def text_between_def
      CANONICAL_SIGNAL_FIELDS_def require_matching_protocol_block_def declares_def Let_def device_id_pattern_def is_alnum_def
      unified_telemetry_ok_def pump_sample_def py_strip_def py_isspace_def sort_by_def)

lemma pump_labels: "resolve_state pump_state (map_of (ut_signals pump_sample)) = (replicate 51 CHR ''x'', ''NORMAL'')"
  by (simp add: resolve_state_def pump_state_def pump_sample_def settle_def rule_matches_def)

theorem gateway_sample_outcome_witness:
  "definition_ok pump \<and> fst (sink_publish demo_ctx demo_ingest_env pump_sample (dd_state pump) demo_plant) = Inr REJECTED"
proof -
  obtain res s' where run: "sink_publish demo_ctx demo_ingest_env pump_sample pump_state demo_plant = (res, s')" by fastforce
  have reg: "registration_exists (ut_device_id pump_sample) demo_plant"
    by (simp add: registration_exists_def device_get_iff pump_sample_def demo_plant_def demo_world_def demo_device_def)
  have pat: "device_id_pattern (ut_device_id pump_sample)" using pump_valid(4) by (simp add: pump_sample_def)
  have "\<not> (\<exists>sig \<in> set CANONICAL_SIGNAL_FIELDS. map_of (ut_signals pump_sample) sig = None)"
    by (simp add: CANONICAL_SIGNAL_FIELDS_def pump_sample_def)
  then have "res = Inr REJECTED"
    using gateway_sample_outcome [OF demo_quiet pump_valid(3) pat pump_valid(2) reg pump_labels run] by simp
  then show ?thesis using pump_valid(1) run by (simp add: pump_def)
qed

end
