(* ===== verification/AssetProps.thy ===== *)
theory AssetProps
  imports AssetLemmas GatewayProps
begin

text \<open>
  Properties of the configuration service: the table invariant and the immutable history under any
  interleaving, what publishing does and reports, the choice of effective definitions, the asset tree
  and the guarded endpoints.
\<close>

section \<open>Appliers\<close>

text \<open>
  What the configuration service relies on from whatever applies a definition: success names the
  version and the runtime then answers with it, failure leaves the runtime alone, and other devices
  are never touched.
\<close>

locale definition_applier =
  fixes ap :: "'a applier"
  assumes applied: "ap_apply ap d v a = (Inr oc, a') \<Longrightarrow> ao_applied oc \<Longrightarrow>
      ao_applied_version oc = Some v \<and> ap_applied_version ap (dd_device_id d) a' = Some v"
    and refused: "ap_apply ap d v a = (r, a') \<Longrightarrow> (\<And>oc. r = Inr oc \<Longrightarrow> \<not> ao_applied oc) \<Longrightarrow> a' = a"
    and others: "ap_apply ap d v a = (r, a') \<Longrightarrow> x \<noteq> dd_device_id d \<Longrightarrow>
      ap_applied_version ap x a' = ap_applied_version ap x a"
begin

lemma run_apply_cases:
  assumes "run_apply ap d v (cs, a) = (oc, cs', a')"
  shows "cs' = cs"
    "ao_applied oc \<Longrightarrow> ao_applied_version oc = Some v \<and> ap_applied_version ap (dd_device_id d) a' = Some v"
    "\<not> ao_applied oc \<Longrightarrow> a' = a"
    "x \<noteq> dd_device_id d \<Longrightarrow> ap_applied_version ap x a' = ap_applied_version ap x a"
proof -
  obtain r b where r: "ap_apply ap d v a = (r, b)" by fastforce
  with assms have oc: "cs' = cs" "a' = b" and
    sum: "oc = (case r of Inl exc \<Rightarrow> \<lparr>ao_applied = False, ao_applied_version = None, ao_error = Some exc, ao_runtime_state = None\<rparr>
      | Inr outcome \<Rightarrow> outcome)"
    by (simp_all add: run_apply_def)
  show "cs' = cs" by (rule oc(1))
  show "ao_applied oc \<Longrightarrow> ao_applied_version oc = Some v \<and> ap_applied_version ap (dd_device_id d) a' = Some v"
    using applied r sum oc(2) by (cases r) auto
  show "\<not> ao_applied oc \<Longrightarrow> a' = a"
    using refused [OF r] sum oc(2) by (cases r) auto
  show "x \<noteq> dd_device_id d \<Longrightarrow> ap_applied_version ap x a' = ap_applied_version ap x a"
    using others [OF r] oc(2) by simp
qed

lemma record_apply_result:
  assumes "record_apply c ap d v oc actor pending (cs, a) = (cs', a')"
  shows "a' = a" "cs_configs cs' = cs_configs cs" "registered (cs_db cs') = registered (cs_db cs)"
    "\<exists>t. runtime_status_find d cs' = Some
       \<lparr>crs_device_id = d, crs_desired_version = Some v,
        crs_applied_version = (if ao_applied oc then ao_applied_version oc else ap_applied_version ap d a),
        crs_apply_status = (if ao_applied oc then AP_APPLIED else if pending then AP_PENDING else AP_FAILED),
        crs_source = SRC_DATABASE, crs_last_apply_at = Some t, crs_last_apply_error = ao_error oc\<rparr>"
proof -
  obtain now w1 where t: "utc_now c (cs_db cs) = (now, w1)" by fastforce
  note [simp] = runtime_status_find_def
  have find: "find_row crs_device_id d (cs_runtime (upsert_runtime_status r cs0)) = Some r" if "crs_device_id r = d" for r cs0
    using upsert_runtime_status_find [of d r cs0] that by simp
  show "a' = a" "cs_configs cs' = cs_configs cs" "registered (cs_db cs') = registered (cs_db cs)"
    using assms t registered_draw(2) [OF t] by (auto simp: record_apply_def Let_def)
  show "\<exists>t. runtime_status_find d cs' = Some
       \<lparr>crs_device_id = d, crs_desired_version = Some v,
        crs_applied_version = (if ao_applied oc then ao_applied_version oc else ap_applied_version ap d a),
        crs_apply_status = (if ao_applied oc then AP_APPLIED else if pending then AP_PENDING else AP_FAILED),
        crs_source = SRC_DATABASE, crs_last_apply_at = Some t, crs_last_apply_error = ao_error oc\<rparr>"
    using assms t by (auto simp: record_apply_def Let_def find simp del: append_Cons)
qed

lemma mark_applying_result:
  assumes "mark_applying c ap d v (cs, a) = (cs', a')"
  shows "a' = a" "cs_configs cs' = cs_configs cs" "registered (cs_db cs') = registered (cs_db cs)"
  using assms by (auto simp: mark_applying_def Let_def dest: registered_draw split: prod.splits)

text \<open>One application of a stored version: the runtime row afterwards is what the runtime did.\<close>

lemma apply_published_result:
  assumes run: "apply_published c env ap d v actor (cs, a) = (Inr oc, cs', a')"
    and found: "configuration_find d v cs = Some row" and valid: "py_validate env (cf_configuration row) = Inr def"
    and same: "dd_device_id def = d"
  shows "cs_configs cs' = cs_configs cs" "registered (cs_db cs') = registered (cs_db cs)"
    "row_apply_status (runtime_status_find d cs') = AP_APPLIED \<longleftrightarrow> ao_applied oc"
    "ao_applied oc \<Longrightarrow> Option.bind (runtime_status_find d cs') crs_applied_version = Some v \<and> ap_applied_version ap d a' = Some v"
    "\<not> ao_applied oc \<Longrightarrow> a' = a \<and> Option.bind (runtime_status_find d cs') crs_applied_version = ap_applied_version ap d a"
    "x \<noteq> d \<Longrightarrow> ap_applied_version ap x a' = ap_applied_version ap x a"
proof -
  have "(cs_configs cs' = cs_configs cs \<and> registered (cs_db cs') = registered (cs_db cs)) \<and>
    (row_apply_status (runtime_status_find d cs') = AP_APPLIED \<longleftrightarrow> ao_applied oc) \<and>
    (ao_applied oc \<longrightarrow> Option.bind (runtime_status_find d cs') crs_applied_version = Some v \<and> ap_applied_version ap d a' = Some v) \<and>
    (\<not> ao_applied oc \<longrightarrow> a' = a \<and> Option.bind (runtime_status_find d cs') crs_applied_version = ap_applied_version ap d a) \<and>
    (x \<noteq> d \<longrightarrow> ap_applied_version ap x a' = ap_applied_version ap x a)"
  proof (cases "ap_available ap a")
    case False
    define o0 where "o0 = \<lparr>ao_applied = False, ao_applied_version = None, ao_error = Some GATEWAY_UNAVAILABLE, ao_runtime_state = None\<rparr>"
    from run found valid False have "oc = o0" "record_apply c ap d v o0 actor True (cs, a) = (cs', a')"
      by (auto simp: apply_published_def o0_def Let_def)
    moreover have "\<not> ao_applied o0" by (simp add: o0_def)
    ultimately show ?thesis using record_apply_result [of c d v o0 actor True cs a cs' a']
      by (auto simp: row_apply_status_def split: if_splits)
  next
    case True
    obtain cs1 a1 where mark: "mark_applying c ap d v (cs, a) = (cs1, a1)" by fastforce
    note m = mark_applying_result [OF mark]
    obtain o1 cs2 a2 where ra: "run_apply ap def v (cs1, a) = (o1, cs2, a2)" by (metis prod_cases3)
    from run found valid True mark ra m(1) have "oc = o1" "record_apply c ap d v o1 actor False (cs2, a2) = (cs', a')"
      by (auto simp: apply_published_def Let_def)
    moreover note run_apply_cases [OF ra]
    ultimately show ?thesis using record_apply_result [of c d v o1 actor False cs2 a2 cs' a'] m same
      by (auto simp: row_apply_status_def split: if_splits)
  qed
  then show "cs_configs cs' = cs_configs cs" "registered (cs_db cs') = registered (cs_db cs)"
    "row_apply_status (runtime_status_find d cs') = AP_APPLIED \<longleftrightarrow> ao_applied oc"
    "ao_applied oc \<Longrightarrow> Option.bind (runtime_status_find d cs') crs_applied_version = Some v \<and> ap_applied_version ap d a' = Some v"
    "\<not> ao_applied oc \<Longrightarrow> a' = a \<and> Option.bind (runtime_status_find d cs') crs_applied_version = ap_applied_version ap d a"
    "x \<noteq> d \<Longrightarrow> ap_applied_version ap x a' = ap_applied_version ap x a" by simp_all
qed

end

interpretation unavailable: definition_applier unavailable_applier
  by unfold_locales (auto simp: unavailable_applier_def)

lemma apply_device_definition_effect:
  assumes "apply_device_definition d v batches g = (r, g')"
  shows "ar_applied r \<Longrightarrow> gateway_applied_version (dd_device_id d) g' = v \<and> ar_version r = v"
    "\<not> ar_applied r \<Longrightarrow> g' = g"
    "x \<noteq> dd_device_id d \<Longrightarrow> gateway_applied_version x g' = gateway_applied_version x g"
  using assms
  by (auto simp: apply_device_definition_def Let_def gateway_applied_version_def AList.update_conv' split: if_splits prod.splits)

interpretation gateway: definition_applier "gateway_applier batches" for batches
proof unfold_locales
  fix d v g r g' oc x
  obtain res g1 where run: "apply_device_definition d (Some v) batches g = (res, g1)" by fastforce
  note effect = apply_device_definition_effect [OF run]
  have shape: "ap_apply (gateway_applier batches) d v g =
      (Inr \<lparr>ao_applied = ar_applied res, ao_applied_version = (if ar_applied res then ar_version res else None),
        ao_error = ar_error res, ao_runtime_state = Some (device_state_value (ar_state res))\<rparr>, g1)"
    by (simp add: gateway_applier_def run)
  { assume "ap_apply (gateway_applier batches) d v g = (Inr oc, g')" "ao_applied oc"
    with shape effect(1) show "ao_applied_version oc = Some v \<and>
        ap_applied_version (gateway_applier batches) (dd_device_id d) g' = Some v"
      by (auto simp: gateway_applier_def) }
  { assume "ap_apply (gateway_applier batches) d v g = (r, g')" "\<And>oc. r = Inr oc \<Longrightarrow> \<not> ao_applied oc"
    with shape effect(2) show "g' = g" by fastforce }
  { assume "ap_apply (gateway_applier batches) d v g = (r, g')" "x \<noteq> dd_device_id d"
    with shape effect(3) show "ap_applied_version (gateway_applier batches) x g' = ap_applied_version (gateway_applier batches) x g"
      by (auto simp: gateway_applier_def) }
qed

section \<open>Validation\<close>

lemma validate_configuration_valid:
  assumes "vo_valid (validate_configuration env d payload status now)" and "py_validate env payload = Inr def"
  shows "dd_device_id def = d" "polled def \<Longrightarrow> endpoint def \<noteq> None" "status = Some ''ACTIVE''"
  using assms by (auto simp: validate_configuration_def configuration_issues_def definition_issues_def Let_def
      split: if_splits option.splits)

lemma configuration_find_member:
  assumes "configs_ok cs" and "r \<in> set (cs_configs cs)"
  shows "configuration_find (cf_device_id r) (cf_version r) cs = Some r"
  using assms find_row_unique [of config_key "cs_configs cs" r]
  by (simp add: configuration_find_def configs_ok_def rows_ok_def config_key_def)

lemma current_published_member:
  assumes ok: "configs_ok cs" and r: "r \<in> set (cs_configs cs)" "cf_status r = CFG_PUBLISHED"
  shows "current_published (cf_device_id r) cs = Some r"
proof -
  from r obtain x where x: "current_published (cf_device_id r) cs = Some x"
    unfolding current_published_def by (cases "find (\<lambda>x. cf_device_id x = cf_device_id r \<and> cf_status x = CFG_PUBLISHED) (cs_configs cs)")
      (auto simp: find_None_iff)
  then have "x \<in> set (cs_configs cs)" "cf_device_id x = cf_device_id r" "cf_status x = CFG_PUBLISHED"
    unfolding current_published_def by (auto simp: find_Some_iff)
  with ok r have "x = r" unfolding configs_ok_def rows_ok_def by metis
  with x show ?thesis by simp
qed

lemma current_published_Some:
  "current_published d cs = Some r \<Longrightarrow> r \<in> set (cs_configs cs) \<and> cf_device_id r = d \<and> cf_status r = CFG_PUBLISHED"
  unfolding current_published_def by (auto simp: find_Some_iff)

text \<open>A publication that was accepted, in the store it leaves.\<close>

lemma publish_commit_accepted:
  assumes pc: "publish_commit c env d v actor cs = (Inr row, cs')" and ok: "configs_ok cs"
  shows "configs_ok cs'" "row \<in> set (cs_configs cs')" "cf_device_id row = d" "cf_version row = v"
    "cf_status row = CFG_PUBLISHED" "current_published d cs' = Some row" "configuration_find d v cs' = Some row"
    "d \<in> registered (cs_db cs')"
    "py_validate env (cf_configuration row) = Inr def \<Longrightarrow> dd_device_id def = d"
proof -
  show ok': "configs_ok cs'" using publish_commit_advances [OF pc] ok by (simp add: advances_def)
  from pc ok have "row \<in> set (cs_configs cs') \<and> cf_device_id row = d \<and> cf_version row = v \<and> cf_status row = CFG_PUBLISHED \<and>
      (\<forall>def. py_validate env (cf_configuration row) = Inr def \<longrightarrow> dd_device_id def = d)"
  proof (cases rule: publish_commit_cases)
    case (accepted old dev now t archive_now w1 oc n cs2 cs3 m m')
    have row: "row = accepted_row old oc t" using accepted(8) by simp
    have "cf_status old \<noteq> CFG_PUBLISHED" using accepted(2) by (simp add: mutable_iff)
    then have "old \<in> set (cs_configs cs2)"
      using archive_published_except_rows [OF accepted(9)] accepted(3) by (auto intro!: image_eqI [of _ _ old])
    then have "cf_id row \<in> cf_id ` set (cs_configs cs2)" by (auto simp: row accepted_row_def)
    then have "row \<in> set (cs_configs cs3)"
      using save_configuration_cases(2) [OF accepted(10)] by (simp add: row set_update_constant)
    then have "row \<in> set (cs_configs cs')" by (simp add: accepted(11))
    moreover have "cf_device_id old = d" "cf_version old = v"
      using find_row_Some [OF accepted(1) [unfolded configuration_find_def]] by (simp_all add: config_key_def)
    ultimately show ?thesis
      using validate_configuration_valid(1) accepted(6,7) by (auto simp: row accepted_row_def)
  qed auto
  then show "row \<in> set (cs_configs cs')" "cf_device_id row = d" "cf_version row = v" "cf_status row = CFG_PUBLISHED"
    "py_validate env (cf_configuration row) = Inr def \<Longrightarrow> dd_device_id def = d" by blast+
  then show "current_published d cs' = Some row" "configuration_find d v cs' = Some row" "d \<in> registered (cs_db cs')"
    using current_published_member [OF ok', of row] configuration_find_member [OF ok', of row] ok'
    by (auto simp: configs_ok_def rows_ok_def)
qed

context definition_applier
begin

lemma publish_reports:
  assumes pub: "publish c env ap d v actor (cs, a) = (Inr (row, st), cs', a')" and ok: "configs_ok cs"
  shows "cst_desired_version st = Some v \<and> current_published d cs' = Some row \<and>
    (cst_in_sync st \<longleftrightarrow> cst_apply_status st = AP_APPLIED) \<and>
    (cst_in_sync st \<longrightarrow> ap_applied_version ap d a' = Some v) \<and>
    (\<not> cst_in_sync st \<longrightarrow> a' = a) \<and> cst_applied_version st = ap_applied_version ap d a' \<and>
    (\<forall>x. x \<noteq> d \<longrightarrow> ap_applied_version ap x a' = ap_applied_version ap x a)"
proof -
  obtain r cs1 where pc: "publish_commit c env d v actor cs = (r, cs1)" by fastforce
  with pub obtain row0 where r: "r = Inr row0" by (cases r) (auto simp: publish_def)
  note acc = publish_commit_accepted [OF pc [unfolded r] ok]
  obtain q cs2 a2 where app: "apply_published c env ap d v actor (cs1, a) = (q, cs2, a2)" by (metis prod_cases3)
  with pub pc r obtain oc where q: "q = Inr oc" by (cases q) (auto simp: publish_def)
  from q app acc(7) obtain def where valid: "py_validate env (cf_configuration row0) = Inr def"
    by (cases "py_validate env (cf_configuration row0)") (auto simp: apply_published_def)
  note res = apply_published_result [OF app [unfolded q] acc(7) valid acc(9) [OF valid]]
  from pub pc r app q have fin: "row = row0" "cs' = cs2" "a' = a2" and st: "configuration_status ap d (cs2, a2) = Inr st"
    by (auto simp: publish_def bindE_Inr_iff)
  have cur: "current_published d cs2 = Some row0" using acc(6) res(1) by (simp add: current_published_def)
  from st cur acc(4) have fields: "cst_desired_version st = Some v"
    "cst_apply_status st = row_apply_status (runtime_status_find d cs2)"
    "cst_applied_version st = Option.bind (runtime_status_find d cs2) crs_applied_version"
    "cst_in_sync st = in_sync (Some v) (Option.bind (runtime_status_find d cs2) crs_applied_version)
       (row_apply_status (runtime_status_find d cs2))"
    by (auto simp: configuration_status_def bindE_Inr_iff Let_def)
  show ?thesis
  proof (cases "ao_applied oc")
    case True
    with res fields cur fin show ?thesis by (simp add: in_sync_def)
  next
    case False
    with res fields cur fin show ?thesis by (simp add: in_sync_def)
  qed
qed

end

section \<open>Table and history\<close>

text \<open>
  C33 (invariant). From any consistent store, whatever the sessions commit and in whatever order their
  transactions interleave - drafts created while others commit, edits, validations, publications, the
  phases of applications, a start of the gateway, anything else the platform does - the configuration
  table stays consistent: a version names one row, a device has at most one published row, a row has
  a publication date exactly when it is published or archived, and its device is registered.
\<close>

theorem configuration_table_consistent:
  assumes "config_steps env (cs, a) (cs', a')" and "configs_ok cs"
    and "r \<in> set (cs_configs cs')" and "x \<in> set (cs_configs cs')"
  shows "(cf_device_id r = cf_device_id x \<and> cf_version r = cf_version x \<longrightarrow> r = x) \<and>
    (cf_device_id r = cf_device_id x \<and> cf_status r = CFG_PUBLISHED \<and> cf_status x = CFG_PUBLISHED \<longrightarrow> r = x) \<and>
    (cf_published_at r \<noteq> None \<longleftrightarrow> cf_status r \<in> {CFG_PUBLISHED, CFG_ARCHIVED}) \<and> 0 < cf_version r \<and>
    cf_device_id r \<in> dev_device_id ` set (w_devices (cs_db cs'))"
proof -
  have "configs_ok cs'" using config_step_advances(2) [OF assms(1)] assms(2) by (simp add: advances_def)
  then have rows: "rows_ok (registered (cs_db cs')) (cs_configs cs')" by (simp add: configs_ok_def)
  show ?thesis
    using rows_ok_same_key [OF rows assms(3,4)] rows assms(3,4)
    unfolding rows_ok_def row_dates_ok_def registered_def config_key_def by blast
qed


section \<open>Publishing\<close>

text \<open>
  A publication that answers, through the gateway: the response names the published
  version as desired and the stored published row is the returned one; it says in sync exactly when the
  status is APPLIED; then the gateway runs that version, and otherwise the gateway is what it was. The
  applied version of the response is what the gateway answers, and no other device changes its version.
\<close>

theorem publish_reports_runtime:
  assumes "publish c env (gateway_applier batches) d v actor (cs, g) = (Inr (row, st), cs', g')" and "configs_ok cs"
  shows "cst_desired_version st = Some v \<and> current_published d cs' = Some row \<and>
    (cst_in_sync st \<longleftrightarrow> cst_apply_status st = AP_APPLIED) \<and>
    (cst_in_sync st \<longrightarrow> gateway_applied_version d g' = Some v) \<and>
    (\<not> cst_in_sync st \<longrightarrow> g' = g) \<and> cst_applied_version st = gateway_applied_version d g' \<and>
    (\<forall>x. x \<noteq> d \<longrightarrow> gateway_applied_version x g' = gateway_applied_version x g)"
  using gateway.publish_reports [OF assms] by (simp add: gateway_applier_def)

text \<open>
  C35 (functional). What publishing commits before it turns to the runtime, on a consistent store: it is
  refused with the store unchanged, for an unknown device, an unknown version or a version already
  published or archived; or the validation fails, which stores the findings and leaves every status; or
  the version is published, validated at that moment for an active device, and every other published
  version of the device is archived. No constraint of the table is ever violated on the way.
\<close>

theorem publish_commit_outcome:
  assumes pc: "publish_commit c env d v actor cs = (r, cs')" and ok: "configs_ok cs"
  shows "case r of
      Inr row \<Rightarrow> cf_device_id row = d \<and> cf_version row = v \<and> cf_status row = CFG_PUBLISHED \<and> row \<in> set (cs_configs cs') \<and>
        (\<exists>dev. get_device d (cs_db cs) = Inr dev \<and> dev_status dev = ''ACTIVE'') \<and>
        (\<exists>oc. cf_validation_result row = Some oc \<and> vo_errors oc = []) \<and>
        (\<forall>x \<in> set (cs_configs cs). cf_device_id x = d \<and> cf_status x = CFG_PUBLISHED \<longrightarrow>
           (\<exists>t. x\<lparr>cf_status := CFG_ARCHIVED, cf_archived_at := Some t\<rparr> \<in> set (cs_configs cs')))
    | Inl e \<Rightarrow> publish_refused env d v cs e \<and> cs' = cs \<or>
        e = AppError ''CONFIGURATION_VALIDATION_FAILED'' 422 \<and>
          map cf_status (cs_configs cs') = map cf_status (cs_configs cs) \<and>
          (\<exists>row oc. configuration_find d v cs' = Some row \<and> cf_validation_result row = Some oc \<and> vo_errors oc \<noteq> [])"
  using pc ok
proof (cases rule: publish_commit_cases)
  case (refused e)
  then show ?thesis by simp
next
  case (rejected old dev now w1 oc cs2 m x)
  let ?row = "rejected_row old oc"
  have cs2: "cs_configs cs2 = update_rows cf_id (cf_id ?row) (\<lambda>_. ?row) (cs_configs cs)"
    using save_configuration_cases(2) [OF rejected(9)] by simp
  have rows: "rows_ok (registered (cs_db cs)) (cs_configs cs)" using ok by (simp add: configs_ok_def)
  have "cf_status (if cf_id y = cf_id ?row then ?row else y) = cf_status y" if "y \<in> set (cs_configs cs)" for y
    using rows_ok_same_id [OF rows that rejected(3)] by (auto simp: rejected_row_def)
  then have st: "map cf_status (cs_configs cs') = map cf_status (cs_configs cs)"
    by (simp add: rejected(10) cs2 update_rows_def)
  have "configs_ok cs'" using publish_commit_advances [OF pc] ok by (simp add: advances_def)
  moreover have "?row \<in> set (cs_configs cs')"
    using rejected(3) by (auto simp: rejected(10) cs2 set_update_constant rejected_row_def)
  moreover have "cf_device_id ?row = d" "cf_version ?row = v"
    using find_row_Some [OF rejected(1) [unfolded configuration_find_def]] by (simp_all add: rejected_row_def config_key_def)
  ultimately have "configuration_find d v cs' = Some ?row" using configuration_find_member by metis
  moreover have "vo_errors oc \<noteq> []" using rejected(6,7) by (simp add: validate_configuration_def Let_def)
  ultimately show ?thesis using st rejected(8) by (auto simp: rejected_row_def)
next
  case (accepted old dev now t archive_now w1 oc n cs2 cs3 m m')
  note acc = publish_commit_accepted [OF pc [unfolded accepted(8)] ok]
  have errs: "vo_errors oc = []" and active: "dev_status dev = ''ACTIVE''"
    using accepted(6,7) by (auto simp: validate_configuration_def configuration_issues_def Let_def split: if_splits)
  have "x\<lparr>cf_status := CFG_ARCHIVED, cf_archived_at := Some archive_now\<rparr> \<in> set (cs_configs cs')"
    if x: "x \<in> set (cs_configs cs)" "cf_device_id x = d" "cf_status x = CFG_PUBLISHED" for x
  proof -
    have key: "cf_device_id old = d" "cf_version old = v"
      using find_row_Some [OF accepted(1) [unfolded configuration_find_def]] by (simp_all add: config_key_def)
    have rows: "rows_ok (registered (cs_db cs)) (cs_configs cs)" using ok by (simp add: configs_ok_def)
    have "x \<noteq> old" using x(3) accepted(2) by (auto simp: mutable_iff)
    then have "cf_version x \<noteq> v" "cf_id x \<noteq> cf_id old"
      using rows_ok_same_key [OF rows x(1) accepted(3)] rows_ok_same_id [OF rows x(1) accepted(3)] key x(2)
      by (auto simp: config_key_def)
    moreover from this(1) x have "x\<lparr>cf_status := CFG_ARCHIVED, cf_archived_at := Some archive_now\<rparr> \<in> set (cs_configs cs2)"
      using archive_published_except_rows [OF accepted(9)] by (auto intro!: image_eqI [of _ _ x])
    ultimately have "x\<lparr>cf_status := CFG_ARCHIVED, cf_archived_at := Some archive_now\<rparr> \<in> set (cs_configs cs3)"
      using save_configuration_cases(2) [OF accepted(10)] by (simp add: set_update_constant accepted_row_def)
    then show ?thesis by (simp add: accepted(11))
  qed
  then show ?thesis using acc(2-5) accepted(4,8) errs active by (auto simp: accepted_row_def)
qed

section \<open>Version numbers\<close>

lemma next_version_bound: "r \<in> set (cs_configs cs) \<Longrightarrow> cf_device_id r = d \<Longrightarrow> cf_version r < next_version d cs"
proof -
  assume r: "r \<in> set (cs_configs cs)" "cf_device_id r = d"
  then have "cf_version r \<le> Max (insert 0 (set (map cf_version (filter (\<lambda>r. cf_device_id r = d) (cs_configs cs)))))"
    by (intro Max_ge) auto
  then show ?thesis by (simp add: next_version_def)
qed

lemma create_draft_version:
  "create_draft c env d payload actor others cs = Inr (row, cs') \<Longrightarrow> cf_version row = next_version d cs"
  by (erule create_draft_Inr) (simp only: new_draft_def device_configuration.select_convs)

text \<open>
  A new draft's number lies above every version the device has, so it names no published or
  archived one; but the number is that of the newest row plus one, not of a counter: deleting the newest
  draft frees it, and the next draft of the device carries the deleted one's number again.
\<close>

theorem version_reused:
  assumes created: "create_draft c env d payload actor (\<lambda>cs. cs) cs = Inr (row, cs1)"
    and deleted: "delete_draft c' d (cf_version row) cs1 = Inr cs2"
    and again: "create_draft c'' env d payload' actor' (\<lambda>cs. cs) cs2 = Inr (row', cs3)"
  shows "(\<forall>r \<in> set (cs_configs cs). cf_device_id r = d \<longrightarrow> cf_version r < cf_version row) \<and>
    cs_configs cs2 = cs_configs cs \<and> cf_version row' = cf_version row"
proof -
  from created obtain def fresh csa where row: "row = new_draft fresh d (next_version d cs) (dd_protocol def) (py_dump env def) actor"
    and rows1: "cs_configs cs1 = cs_configs cs @ [row]" and ok: "configuration_row_ok row (cs_configs cs) csa"
  proof (rule create_draft_Inr)
    fix dev def fresh w1 cs2
    assume row: "row = new_draft fresh d (next_version d cs) (dd_protocol def) (py_dump env def) actor"
      and ins: "insert_configuration row (cs\<lparr>cs_db := w1\<rparr>) = Inr cs2"
      and rec: "cs1 = config_record c d ''CONFIG_DRAFT_CREATED'' (Some (next_version d cs)) ''SUCCESS''
        (''draft '' @ v_text (next_version d cs) @ '' created for protocol '' @ protocol_value (dd_protocol def)) actor [] cs2"
    show thesis using insert_configuration_cases [OF ins] by (intro that [OF row]) (simp_all add: rec)
  qed
  have v: "cf_version row = next_version d cs" "cf_device_id row = d" by (simp_all add: row new_draft_def)
  have no_key: "config_key x \<noteq> config_key row" and no_id: "cf_id x \<noteq> cf_id row" if "x \<in> set (cs_configs cs)" for x
    using ok imageI [OF that, of cf_id] imageI [OF that, of "\<lambda>x. (cf_device_id x, cf_version x)"]
    unfolding configuration_row_ok_def config_key_def by metis+
  from deleted obtain old where old: "get_configuration d (cf_version row) cs1 = Inr old"
    and rows2: "cs_configs cs2 = filter (\<lambda>x. cf_id x \<noteq> cf_id old) (cs_configs cs1)"
    by (auto simp: delete_draft_def bindE_Inr_iff split: if_splits)
  have "config_key old = config_key row" "old \<in> set (cs_configs cs1)"
    using get_configuration_found [OF old] v(2) by (simp_all add: config_key_def)
  with no_key [of old] have "old = row" by (auto simp only: rows1 set_append set_simps)
  with no_id have rows: "cs_configs cs2 = cs_configs cs" by (simp add: rows2 rows1 filter_id_conv)
  have "cf_version row' = next_version d cs2"
    by (rule create_draft_version [OF again])
  also have "\<dots> = cf_version row" by (simp add: v next_version_def rows)
  finally have "cf_version row' = cf_version row" .
  moreover have "\<forall>r \<in> set (cs_configs cs). cf_device_id r = d \<longrightarrow> cf_version r < cf_version row"
    using next_version_bound by (simp only: v) simp
  ultimately show ?thesis using rows by simp
qed

section \<open>Definitions that can never be published\<close>

lemma simulator_no_endpoint: "definition_ok def \<Longrightarrow> dd_protocol def = PT_SIMULATOR \<Longrightarrow> polled def \<and> endpoint def = None"
  by (auto simp: definition_ok_def require_matching_protocol_block_def Let_def declares_def polled_def endpoint_def
      split: if_splits option.splits)

text \<open>
  A well-formed definition of a simulator device can be stored as a draft and never
  published: it counts as polled and has no endpoint, so every publication of it is refused as invalid,
  with the issue that its protocol requires a connection endpoint.
\<close>

theorem simulator_never_published:
  assumes "configs_ok cs" and "configuration_find d v cs = Some row" and "cf_status row \<in> {CFG_DRAFT, CFG_VALIDATED}"
    and "py_validate env (cf_configuration row) = Inr def" and "definition_ok def" and "dd_protocol def = PT_SIMULATOR"
    and "publish_commit c env d v actor cs = (r, cs')"
  shows "r = Inl (AppError ''CONFIGURATION_VALIDATION_FAILED'' 422) \<and>
    (\<exists>row' oc. configuration_find d v cs' = Some row' \<and> cf_validation_result row' = Some oc \<and>
       (\<exists>e \<in> set (vo_errors oc). ci_field e = ''endpoint'' \<and> ci_code e = ''ENDPOINT_INVALID''))"
  using assms(7,1)
proof (cases rule: publish_commit_cases)
  case (refused e)
  have "row \<in> set (cs_configs cs)" "cf_device_id row = d"
    using find_row_Some [OF assms(2) [unfolded configuration_find_def]] by (simp_all add: config_key_def)
  with assms(1) have "d \<in> registered (cs_db cs)" by (auto simp: configs_ok_def rows_ok_def)
  with refused(3) assms(2,3) show ?thesis by (auto simp: publish_refused_def)
next
  case (rejected old dev now w1 oc cs2 m x)
  let ?row = "rejected_row old oc"
  have [simp]: "old = row" using rejected(1) assms(2) by simp
  have "\<exists>e \<in> set (vo_errors oc). ci_field e = ''endpoint'' \<and> ci_code e = ''ENDPOINT_INVALID''"
    using simulator_no_endpoint [OF assms(5,6)] assms(4)
    by (simp add: rejected(6) validate_configuration_def configuration_issues_def definition_issues_def issue_def Let_def)
  moreover have "?row \<in> set (cs_configs cs')"
    using save_configuration_cases(2) [OF rejected(9)] rejected(3) by (auto simp: rejected(10) set_update_constant rejected_row_def)
  moreover have "configs_ok cs'" using publish_commit_advances [OF assms(7)] assms(1) by (simp add: advances_def)
  moreover have "cf_device_id ?row = d" "cf_version ?row = v"
    using find_row_Some [OF rejected(1) [unfolded configuration_find_def]] by (simp_all add: rejected_row_def config_key_def)
  ultimately show ?thesis using configuration_find_member [of cs' ?row] rejected(8) by (auto simp: rejected_row_def)
next
  case (accepted old dev now t archive_now w1 oc n cs2 cs3 m m')
  have "old = row" using accepted(1) assms(2) by simp
  then have "vo_valid (validate_configuration env d (cf_configuration row) (Some (dev_status dev)) now)"
    using accepted(6,7) by simp
  from validate_configuration_valid(2) [OF this assms(4)] simulator_no_endpoint [OF assms(5,6)] have False by simp
  then show ?thesis ..
qed

section \<open>Effective definitions\<close>

lemma mapE_Inr: "(\<forall>x \<in> set xs. \<exists>y. f x = Inr y) \<Longrightarrow> mapE f xs = Inr (map (\<lambda>x. projr (f x)) xs)"
  by (induction xs) auto

lemma mapE_Inl: "x \<in> set xs \<Longrightarrow> f x = Inl e \<Longrightarrow> \<exists>e'. mapE f xs = Inl e'"
  by (induction xs) (auto simp: bindE_def split: sum.splits)


end
