(* ===== verification/ControlProps.thy ===== *)
theory ControlProps
  imports AssetProps "HOL-Library.Multiset"
begin

text \<open>
  Properties that span the gateway, the asset hierarchy and the endpoints: two applications at once,
  the asset tree, the guarded routes, and a gateway started from a store.
\<close>

section \<open>Two applications at once\<close>

text \<open>An application is its two ends with the wait between them.\<close>

lemma apply_device_definition_phases:
  assumes "gw_enabled g"
    and "wait_until_ready (gw_policy g) (gw_simulated g) (gw_mqtt g) batches (snd (apply_begin d g)) = (True, candidate)"
  shows "snd (apply_device_definition d version batches g) = snd (apply_swap d version (fst (apply_begin d g)) candidate g)"
  using assms by (simp add: apply_device_definition_def apply_begin_def apply_swap_def Let_def)


section \<open>Asset tree\<close>

datatype asset_op =
    CreateAsset ctx string AssetType "uuid option" | DeleteAsset uuid | AttachDevice uuid string
  | DetachDevice string | DetachDeviceFrom uuid string | NewDevice ctx device_create

definition asset_do :: "world \<Rightarrow> asset_op \<Rightarrow> world \<Rightarrow> bool" where
  "asset_do w op w' \<longleftrightarrow>
     (case op of
        CreateAsset c name t parent \<Rightarrow> (\<exists>n. create_asset c name t parent w = Inr (n, w'))
      | DeleteAsset k \<Rightarrow> delete_asset k w = Inr w'
      | AttachDevice k d \<Rightarrow> attach_device k d w = Inr w'
      | DetachDevice d \<Rightarrow> detach_device d w = Inr w'
      | DetachDeviceFrom k d \<Rightarrow> detach_device_from k d w = Inr w'
      | NewDevice c p \<Rightarrow> (\<exists>d. create_device c p w = Inr (d, w')))"

definition asset_init :: "world \<Rightarrow> bool" where
  "asset_init w \<longleftrightarrow> w_assets w = [] \<and> (\<forall>d \<in> set (w_devices w). dev_asset_node_id d = None)"

definition asset_inv :: "world \<Rightarrow> bool" where
  "asset_inv w \<longleftrightarrow>
     distinct (map n_id (w_assets w)) \<and>
     (\<forall>n \<in> set (w_assets w). n_parent_id n = None \<longleftrightarrow> n_asset_type n = ''SITE'') \<and>
     (\<forall>n \<in> set (w_assets w). \<forall>k. n_parent_id n = Some k \<longrightarrow>
        (\<exists>q \<in> set (w_assets w). n_id q = k \<and> n_parent_id q = None)) \<and>
     (\<forall>d \<in> set (w_devices w). \<forall>k. dev_asset_node_id d = Some k \<longrightarrow> k \<in> n_id ` set (w_assets w))"

lemma asset_get_Some: "asset_get k w = Some n \<Longrightarrow> n \<in> set (w_assets w) \<and> n_id n = k"
  unfolding asset_get_def by (rule find_row_Some)

lemma create_asset_inv:
  assumes inv: "asset_inv w" and run: "create_asset c name t parent w = Inr (n, w')"
  shows "asset_inv w'"
proof -
  obtain fresh w1 where u: "uuid4 c w = (fresh, w1)" by fastforce
  from u have w1: "w_assets w1 = w_assets w" "w_devices w1 = w_devices w" by (auto simp: uuid4_def)
  from run u have fresh: "fresh \<notin> n_id ` set (w_assets w)" and n: "n_id n = fresh" "n_asset_type n = asset_type_value t"
    and w': "w' = w1\<lparr>w_assets := w_assets w1 @ [n]\<rparr>"
    by (auto simp: create_asset_def bindE_Inr_iff Let_def split: if_splits)
  have par: "(n_parent_id n = None \<longleftrightarrow> n_asset_type n = ''SITE'') \<and>
      (\<forall>k. n_parent_id n = Some k \<longrightarrow> (\<exists>q \<in> set (w_assets w). n_id q = k \<and> n_parent_id q = None))"
  proof (cases t)
    case SITE
    with run u show ?thesis
      by (auto simp: create_asset_def bindE_Inr_iff Let_def ASSET_PARENT_RULES_def asset_type_value_def split: if_splits option.splits)
  next
    case LINE
    with run u obtain q k where "asset_get k w = Some q" "n_asset_type q = ''SITE''" "n_parent_id n = Some (n_id q)"
      by (auto simp: create_asset_def bindE_Inr_iff Let_def ASSET_PARENT_RULES_def asset_type_value_def split: if_splits option.splits)
    with inv LINE n asset_get_Some [of k w q] show ?thesis
      by (auto simp: asset_inv_def asset_type_value_def)
  qed
  show ?thesis
    using inv fresh n(1) par unfolding asset_inv_def by (auto simp: w' w1)
qed

lemma delete_asset_inv:
  assumes inv: "asset_inv w" and run: "delete_asset k w = Inr w'"
  shows "asset_inv w'"
proof -
  from run obtain n where n: "asset_get k w = Some n" "child_count (n_id n) w = 0" "device_count (n_id n) w = 0"
    and w': "w' = w\<lparr>w_assets := filter (\<lambda>x. n_id x \<noteq> n_id n) (w_assets w)\<rparr>"
    by (auto simp: delete_asset_def bindE_Inr_iff get_asset_def split: if_splits option.splits)
  have "n_parent_id x \<noteq> Some (n_id n)" if "x \<in> set (w_assets w)" for x
    using n(2) that by (auto simp: child_count_def filter_empty_conv)
  moreover have "dev_asset_node_id d \<noteq> Some (n_id n)" if "d \<in> set (w_devices w)" for d
    using n(3) that by (auto simp: device_count_def filter_empty_conv)
  ultimately show ?thesis
    using inv unfolding asset_inv_def w' by (fastforce simp: distinct_map_filter)
qed

lemma assign_asset_inv:
  assumes inv: "asset_inv w" and "\<And>k'. k = Some k' \<Longrightarrow> k' \<in> n_id ` set (w_assets w)"
  shows "asset_inv (assign_asset d k w)"
  using assms unfolding asset_inv_def assign_asset_def
  by (auto elim!: in_update_rowsE)

lemma asset_do_inv: "asset_inv w \<Longrightarrow> asset_do w op w' \<Longrightarrow> asset_inv w'"
proof (cases op)
  case (CreateAsset c name t parent)
  then show "asset_inv w \<Longrightarrow> asset_do w op w' \<Longrightarrow> asset_inv w'" by (auto simp: asset_do_def intro: create_asset_inv)
next
  case (DeleteAsset k)
  then show "asset_inv w \<Longrightarrow> asset_do w op w' \<Longrightarrow> asset_inv w'" by (auto simp: asset_do_def intro: delete_asset_inv)
next
  case (AttachDevice k d)
  then show "asset_inv w \<Longrightarrow> asset_do w op w' \<Longrightarrow> asset_inv w'"
    by (auto simp: asset_do_def attach_device_def get_asset_def bindE_Inr_iff dest!: asset_get_Some intro!: assign_asset_inv
      split: option.splits)
next
  case (DetachDevice d)
  then show "asset_inv w \<Longrightarrow> asset_do w op w' \<Longrightarrow> asset_inv w'"
    by (auto simp: asset_do_def detach_device_def bindE_Inr_iff intro!: assign_asset_inv)
next
  case (DetachDeviceFrom k d)
  then show "asset_inv w \<Longrightarrow> asset_do w op w' \<Longrightarrow> asset_inv w'"
    by (auto simp: asset_do_def detach_device_from_def bindE_Inr_iff intro!: assign_asset_inv split: if_splits)
next
  case (NewDevice c p)
  then show "asset_inv w \<Longrightarrow> asset_do w op w' \<Longrightarrow> asset_inv w'"
    by (auto simp: asset_do_def create_device_def Let_def asset_inv_def audit_add_def uuid4_def utc_now_def split: if_splits)
qed

interpretation assets: event_system asset_init asset_do asset_inv
proof unfold_locales
  show "asset_inv w" if "asset_init w" for w using that by (auto simp: asset_init_def asset_inv_def)
  show "asset_inv t" if "asset_inv s" "asset_do s e t" for s e t by (rule asset_do_inv [OF that])
qed

fun tree_summaries :: "asset_tree \<Rightarrow> device_summary list" where
  "tree_summaries (AssetTree n summaries children) = summaries @ concat (map tree_summaries children)"

fun tree_nodes :: "asset_tree \<Rightarrow> asset_node list" where
  "tree_nodes (AssetTree n summaries children) = n # concat (map tree_nodes children)"

lemma mset_sort_by [simp]: "mset (sort_by le xs) = mset xs"
proof -
  have "mset (insert_by le x ys) = add_mset x (mset ys)" for x ys by (induction ys) auto
  then show ?thesis by (induction xs) auto
qed

text \<open>Grouping rows under distinct keys loses and repeats none.\<close>

lemma mset_groups:
  assumes "distinct (map key ns)"
  shows "mset (concat (map (\<lambda>n. filter (\<lambda>x. f x = Some (key n)) xs) ns)) = mset (filter (\<lambda>x. \<exists>n \<in> set ns. f x = Some (key n)) xs)"
  using assms
proof (induction ns)
  case Nil
  then show ?case by simp
next
  case (Cons n ns)
  have "mset (filter (\<lambda>x. f x = Some (key n) \<or> (\<exists>n \<in> set ns. f x = Some (key n))) xs) =
      mset (filter (\<lambda>x. f x = Some (key n)) xs) + mset (filter (\<lambda>x. \<exists>n \<in> set ns. f x = Some (key n)) xs)"
    using Cons.prems by (induction xs) force+
  with Cons show ?case by simp
qed

lemma build_tree_leaf:
  "filter (\<lambda>x. n_parent_id x = Some (n_id n)) nodes = [] \<Longrightarrow>
    build_tree fuel nodes summaries n = AssetTree n (filter (\<lambda>s. dsm_asset_node_id s = Some (n_id n)) summaries) []"
  by (cases fuel) simp_all

text \<open>The tree of a root in a hierarchy of two levels.\<close>

lemma build_tree_two_levels:
  assumes "\<And>x y. x \<in> set nodes \<Longrightarrow> n_parent_id x = Some (n_id n) \<Longrightarrow> y \<in> set nodes \<Longrightarrow> n_parent_id y \<noteq> Some (n_id x)"
  shows "tree_nodes (build_tree (Suc fuel) nodes summaries n) = n # filter (\<lambda>x. n_parent_id x = Some (n_id n)) nodes"
    and "tree_summaries (build_tree (Suc fuel) nodes summaries n) =
      concat (map (\<lambda>x. filter (\<lambda>s. dsm_asset_node_id s = Some (n_id x)) summaries)
        (n # filter (\<lambda>x. n_parent_id x = Some (n_id n)) nodes))"
proof -
  have leaf: "build_tree fuel nodes summaries x = AssetTree x (filter (\<lambda>s. dsm_asset_node_id s = Some (n_id x)) summaries) []"
    if "x \<in> set (filter (\<lambda>x. n_parent_id x = Some (n_id n)) nodes)" for x
    by (rule build_tree_leaf) (use assms that in \<open>auto simp: filter_empty_conv\<close>)
  have "map (tree_nodes \<circ> build_tree fuel nodes summaries) (filter (\<lambda>x. n_parent_id x = Some (n_id n)) nodes) =
      map (\<lambda>x. [x]) (filter (\<lambda>x. n_parent_id x = Some (n_id n)) nodes)"
    by (rule map_cong [OF refl]) (simp add: leaf)
  then have "concat (map (tree_nodes \<circ> build_tree fuel nodes summaries) (filter (\<lambda>x. n_parent_id x = Some (n_id n)) nodes)) =
      filter (\<lambda>x. n_parent_id x = Some (n_id n)) nodes"
    by (simp only: concat_map_singleton map_ident)
  then show "tree_nodes (build_tree (Suc fuel) nodes summaries n) = n # filter (\<lambda>x. n_parent_id x = Some (n_id n)) nodes"
    by simp
  have "map (tree_summaries \<circ> build_tree fuel nodes summaries) (filter (\<lambda>x. n_parent_id x = Some (n_id n)) nodes) =
      map (\<lambda>x. filter (\<lambda>s. dsm_asset_node_id s = Some (n_id x)) summaries) (filter (\<lambda>x. n_parent_id x = Some (n_id n)) nodes)"
    by (rule map_cong [OF refl]) (simp add: leaf)
  note summaries = arg_cong [OF this, of concat]
  show "tree_summaries (build_tree (Suc fuel) nodes summaries n) =
      concat (map (\<lambda>x. filter (\<lambda>s. dsm_asset_node_id s = Some (n_id x)) summaries)
        (n # filter (\<lambda>x. n_parent_id x = Some (n_id n)) nodes))"
    by (simp add: summaries del: map_eq_conv)
qed

lemma mset_concat_cong: "mset xs = mset ys \<Longrightarrow> mset (concat (map f xs)) = mset (concat (map f ys))"
proof -
  have "mset (concat (map f zs)) = sum_mset (image_mset (mset \<circ> f) (mset zs))" for zs by (induction zs) auto
  then show "mset xs = mset ys \<Longrightarrow> mset (concat (map f xs)) = mset (concat (map f ys))" by simp
qed

lemma concat_concat_map: "concat (map (\<lambda>x. concat (map f (g x))) xs) = concat (map f (concat (map g xs)))"
  by (induction xs) auto

text \<open>
  C37 (equivalence). In every database the asset operations can reach, the asset tree shows every asset
  node exactly once, and its nodes together with the list of unassigned devices show every device
  summary exactly once.
\<close>

theorem asset_tree_exact:
  assumes "reachable asset_init asset_do (cs_db cs)"
    and "asset_tree_read c cs = (roots, unassigned)"
  shows "mset (concat (map tree_nodes roots)) = mset (w_assets (cs_db cs)) \<and>
    mset (concat (map tree_summaries roots) @ unassigned) = mset (device_summaries c cs)"
proof -
  have inv: "asset_inv (cs_db cs)" by (rule assets.inv_reachable [OF assms(1)])
  define nodes where "nodes = list_nodes c (cs_db cs)"
  define ss where "ss = device_summaries c cs"
  define top where "top = filter (\<lambda>n. n_parent_id n = None) nodes"
  have mem: "mset nodes = mset (w_assets (cs_db cs))" "set nodes = set (w_assets (cs_db cs))"
    by (simp_all add: nodes_def list_nodes_def)
  have ids: "distinct (map n_id nodes)"
    using inv mem(1) unfolding asset_inv_def by (metis mset_eq_imp_distinct_iff mset_map)
  have parent: "\<exists>q \<in> set nodes. n_id q = k \<and> n_parent_id q = None" if "n \<in> set nodes" "n_parent_id n = Some k" for n k
    using inv that unfolding asset_inv_def mem(2) by blast
  have flat: "n_parent_id y \<noteq> Some (n_id x)" if "x \<in> set nodes" "n_parent_id x \<noteq> None" "y \<in> set nodes" for x y
  proof
    assume "n_parent_id y = Some (n_id x)"
    with parent [OF that(3)] obtain q where "q \<in> set nodes" "n_id q = n_id x" "n_parent_id q = None" by blast
    with ids that(1,2) show False by (metis distinct_map inj_onD)
  qed
  have roots: "roots = map (build_tree (length nodes) nodes ss) top" and un: "unassigned = filter (\<lambda>s. dsm_asset_node_id s = None) ss"
    using assms(2) by (simp_all add: asset_tree_read_def nodes_def ss_def top_def Let_def)
  have shape: "tree_nodes (build_tree (length nodes) nodes ss n) = n # filter (\<lambda>x. n_parent_id x = Some (n_id n)) nodes \<and>
      tree_summaries (build_tree (length nodes) nodes ss n) =
        concat (map (\<lambda>x. filter (\<lambda>s. dsm_asset_node_id s = Some (n_id x)) ss) (n # filter (\<lambda>x. n_parent_id x = Some (n_id n)) nodes))"
    if "n \<in> set top" for n
  proof -
    from that have "nodes \<noteq> []" by (auto simp: top_def)
    then obtain fuel where "length nodes = Suc fuel" by (cases nodes) auto
    then show ?thesis using build_tree_two_levels [of nodes n fuel ss] flat by force
  qed
  define g where "g n = n # filter (\<lambda>x. n_parent_id x = Some (n_id n)) nodes" for n
  have cong1: "map tree_nodes roots = map g top" and
    cong2: "map tree_summaries roots = map (\<lambda>n. concat (map (\<lambda>x. filter (\<lambda>s. dsm_asset_node_id s = Some (n_id x)) ss) (g n))) top"
    using shape by (simp_all add: roots g_def)
  have "distinct (map n_id top)" using ids by (simp add: top_def distinct_map_filter)
  then have groups: "mset (concat (map (\<lambda>n. filter (\<lambda>x. n_parent_id x = Some (n_id n)) nodes) top)) =
      mset (filter (\<lambda>x. \<exists>n \<in> set top. n_parent_id x = Some (n_id n)) nodes)" by (rule mset_groups)
  have "mset (concat (map g top)) = mset top + mset (concat (map (\<lambda>n. filter (\<lambda>x. n_parent_id x = Some (n_id n)) nodes) top))"
    unfolding g_def by (induction top) auto
  also have "\<dots> = mset top + mset (filter (\<lambda>x. n_parent_id x \<noteq> None) nodes)"
  proof -
    have "filter (\<lambda>x. \<exists>n \<in> set top. n_parent_id x = Some (n_id n)) nodes = filter (\<lambda>x. n_parent_id x \<noteq> None) nodes"
      using parent by (intro filter_cong [OF refl]) (fastforce simp: top_def)
    with groups show ?thesis by simp
  qed
  also have "\<dots> = mset nodes" unfolding top_def by (induction nodes) auto
  finally have all_nodes: "mset (concat (map g top)) = mset nodes" .
  have "mset (concat (map tree_summaries roots)) = mset (concat (map (\<lambda>x. filter (\<lambda>s. dsm_asset_node_id s = Some (n_id x)) ss) nodes))"
    unfolding cong2 concat_concat_map by (rule mset_concat_cong [OF all_nodes])
  also have "\<dots> = mset (filter (\<lambda>s. \<exists>n \<in> set nodes. dsm_asset_node_id s = Some (n_id n)) ss)" by (rule mset_groups [OF ids])
  also have "filter (\<lambda>s. \<exists>n \<in> set nodes. dsm_asset_node_id s = Some (n_id n)) ss = filter (\<lambda>s. dsm_asset_node_id s \<noteq> None) ss"
  proof (intro filter_cong [OF refl])
    fix s assume "s \<in> set ss"
    then obtain d where "d \<in> set (w_devices (cs_db cs))" "dsm_asset_node_id s = dev_asset_node_id d"
      by (auto simp: ss_def device_summaries_def device_summary_of_def Let_def)
    then show "(\<exists>n \<in> set nodes. dsm_asset_node_id s = Some (n_id n)) \<longleftrightarrow> dsm_asset_node_id s \<noteq> None"
      using inv unfolding asset_inv_def mem(2) by (cases "dev_asset_node_id d") (simp, force)
  qed
  also have "mset (filter (\<lambda>s. dsm_asset_node_id s \<noteq> None) ss) + mset unassigned = mset ss"
    unfolding un by (induction ss) auto
  finally show ?thesis using all_nodes by (simp add: cong1 mem(1) ss_def)
qed

section \<open>Guarded routes\<close>

lemma control_route_changes:
  assumes "k' = snd (device_route c se rq permission d handler k)"
    and "ct_configs k' \<noteq> ct_configs k \<or> ct_runtime k' \<noteq> ct_runtime k \<or> ct_applier k' \<noteq> ct_applier k"
  obtains p c' g1 where "require_permission c se rq permission (ct_platform k) = (Inr (p, c'), g1)"
    "allows (resolve_device_access p g1) d" "k' = snd (handler c' p (k\<lparr>ct_platform := g1\<rparr>))"
proof -
  obtain r g1 where req: "require_permission c se rq permission (ct_platform k) = (r, g1)" by fastforce
  with assms obtain p c' where r: "r = Inr (p, c')"
    by (cases r) (auto simp: device_route_def control_route_def)
  have "allows (resolve_device_access p g1) d"
    using assms by (auto simp: device_route_def control_route_def req r in_scope_def ensure_device_in_scope_def split: if_splits)
  with assms(1) req r show ?thesis
    by (intro that) (simp_all add: device_route_def control_route_def in_scope_def ensure_device_in_scope_def)
qed

lemma require_permission_grants: "require_permission c se rq permission g = (Inr (p, c'), g1) \<Longrightarrow> has_permission p permission"
  by (auto simp: require_permission_def split: prod.splits sum.splits if_splits)

lemma write_store_keeps: "(\<And>cs r cs'. f cs = Inr (r, cs') \<Longrightarrow> cs_runtime cs' = cs_runtime cs) \<Longrightarrow>
    ct_applier (snd (write_store f k)) = ct_applier k \<and> ct_runtime (snd (write_store f k)) = ct_runtime k"
  by (cases "f (control_store k)") (auto simp: write_store_def put_store_def control_store_def split: prod.splits)

lemma save_configuration_runtime: "save_configuration r cs = Inr cs' \<Longrightarrow> cs_runtime cs' = cs_runtime cs"
  by (auto simp: save_configuration_def split: if_splits)

lemma draft_operations_runtime:
  "create_draft c env d payload actor (\<lambda>cs. cs) cs = Inr (row, cs') \<Longrightarrow> cs_runtime cs' = cs_runtime cs"
  "clone_version c d v actor (\<lambda>cs. cs) cs = Inr (row, cs') \<Longrightarrow> cs_runtime cs' = cs_runtime cs"
  "update_draft c env d v payload actor cs = Inr (row, cs') \<Longrightarrow> cs_runtime cs' = cs_runtime cs"
  "delete_draft c d v cs = Inr cs' \<Longrightarrow> cs_runtime cs' = cs_runtime cs"
  "validate_version c env d v cs = Inr (oc, cs') \<Longrightarrow> cs_runtime cs' = cs_runtime cs"
proof -
  show "create_draft c env d payload actor (\<lambda>cs. cs) cs = Inr (row, cs') \<Longrightarrow> cs_runtime cs' = cs_runtime cs"
    by (erule create_draft_Inr) (drule insert_configuration_cases(2), simp only: config_record_simps, simp)
  show "clone_version c d v actor (\<lambda>cs. cs) cs = Inr (row, cs') \<Longrightarrow> cs_runtime cs' = cs_runtime cs"
    by (erule clone_version_Inr) (drule insert_configuration_cases(2), simp only: config_record_simps, simp)
  show "update_draft c env d v payload actor cs = Inr (row, cs') \<Longrightarrow> cs_runtime cs' = cs_runtime cs"
    by (erule update_draft_Inr) (drule save_configuration_runtime, simp only: config_record_simps)
  show "delete_draft c d v cs = Inr cs' \<Longrightarrow> cs_runtime cs' = cs_runtime cs"
    by (auto simp: delete_draft_def bindE_Inr_iff split: if_splits)
  show "validate_version c env d v cs = Inr (oc, cs') \<Longrightarrow> cs_runtime cs' = cs_runtime cs"
    by (erule validate_version_Inr) (simp, drule save_configuration_runtime, simp only: config_record_simps, simp)
qed

text \<open>
  C38 (safety). Whatever one of the configuration routes changes in the stored configurations, in the
  record of what runs, or in the runtime itself, was asked for by an authenticated caller who holds the
  route's permission and whose scope contains the device; drafts, edits, deletions, clones and
  validations never touch the runtime or its record, so these change only under the publish permission.
\<close>

theorem control_changes_authorised:
  assumes "k' \<in> {snd (create_configuration_route c se env rq d payload (\<lambda>cs. cs) k),
      snd (update_configuration_route c se env rq d v payload k), snd (delete_configuration_route c se rq d v k),
      snd (validate_configuration_route c se env rq d v k), snd (clone_configuration_route c se rq d v (\<lambda>cs. cs) k),
      snd (publish_configuration_route c se env ap rq d v k), snd (apply_configuration_route c se env ap rq d k)}"
    and "ct_configs k' \<noteq> ct_configs k \<or> ct_runtime k' \<noteq> ct_runtime k \<or> ct_applier k' \<noteq> ct_applier k"
  shows "\<exists>permission p c' g1. permission \<in> {CONFIG_WRITE, CONFIG_PUBLISH} \<and>
    require_permission c se rq permission (ct_platform k) = (Inr (p, c'), g1) \<and> has_permission p permission \<and>
    allows (resolve_device_access p g1) d \<and>
    (ct_runtime k' \<noteq> ct_runtime k \<or> ct_applier k' \<noteq> ct_applier k \<longrightarrow> permission = CONFIG_PUBLISH)"
proof -
  have writing: ?thesis
    if k': "k' = snd (device_route c se rq CONFIG_WRITE d (\<lambda>c' p. write_store (f c' p)) k)"
      and keeps: "\<And>c' p cs r cs'. f c' p cs = Inr (r, cs') \<Longrightarrow> cs_runtime cs' = cs_runtime cs"
    for f :: "ctx \<Rightarrow> principal \<Rightarrow> config_store \<Rightarrow> app_error + 'r \<times> config_store"
    using k' assms(2)
  proof (rule control_route_changes)
    fix p c' g1
    assume req: "require_permission c se rq CONFIG_WRITE (ct_platform k) = (Inr (p, c'), g1)"
      and scope: "allows (resolve_device_access p g1) d" and k'': "k' = snd (write_store (f c' p) (k\<lparr>ct_platform := g1\<rparr>))"
    have "ct_applier k' = ct_applier k \<and> ct_runtime k' = ct_runtime k"
      using write_store_keeps [of "f c' p" "k\<lparr>ct_platform := g1\<rparr>"] keeps by (simp add: k'')
    with req scope require_permission_grants [OF req] show ?thesis by blast
  qed
  have publishing: ?thesis if k': "k' = snd (device_route c se rq CONFIG_PUBLISH d handler k)" for handler :: "('a, 'r) control_handler"
    using k' assms(2)
  proof (rule control_route_changes)
    fix p c' g1
    assume req: "require_permission c se rq CONFIG_PUBLISH (ct_platform k) = (Inr (p, c'), g1)"
      and scope: "allows (resolve_device_access p g1) d"
    with require_permission_grants [OF req] show ?thesis by blast
  qed
  from assms(1) consider
      (create) "k' = snd (create_configuration_route c se env rq d payload (\<lambda>cs. cs) k)"
    | (update) "k' = snd (update_configuration_route c se env rq d v payload k)"
    | (delete) "k' = snd (delete_configuration_route c se rq d v k)"
    | (validate) "k' = snd (validate_configuration_route c se env rq d v k)"
    | (clone) "k' = snd (clone_configuration_route c se rq d v (\<lambda>cs. cs) k)"
    | (publish) "k' = snd (publish_configuration_route c se env ap rq d v k)"
    | (application) "k' = snd (apply_configuration_route c se env ap rq d k)" by blast
  then show ?thesis
  proof cases
    case create
    then show ?thesis unfolding create_configuration_route_def by (rule writing) (rule draft_operations_runtime(1))
  next
    case update
    then show ?thesis unfolding update_configuration_route_def by (rule writing) (rule draft_operations_runtime(3))
  next
    case delete
    then show ?thesis unfolding delete_configuration_route_def
      by (rule writing) (auto simp: bindE_Inr_iff intro: draft_operations_runtime(4))
  next
    case validate
    then show ?thesis unfolding validate_configuration_route_def by (rule writing) (rule draft_operations_runtime(5))
  next
    case clone
    then show ?thesis unfolding clone_configuration_route_def by (rule writing) (rule draft_operations_runtime(2))
  next
    case publish
    then show ?thesis unfolding publish_configuration_route_def by (rule publishing)
  next
    case application
    then show ?thesis unfolding apply_configuration_route_def by (rule publishing)
  qed
qed

section \<open>A start without the stored configurations\<close>

lemma runtime_for_simps [simp]: "gw_applied (runtime_for d g) = gw_applied g" "gw_registry (runtime_for d g) = gw_registry g"
  by (simp_all add: runtime_for_def)

lemma runtime_for_keys: "fst ` set (gw_runtimes (runtime_for d g)) \<subseteq> insert (dd_device_id d) (fst ` set (gw_runtimes g))"
  by (auto simp: runtime_for_def)

lemma with_runtime_simps [simp]: "gw_applied (with_runtime k f g) = gw_applied g" "gw_registry (with_runtime k f g) = gw_registry g"
  by (simp_all add: with_runtime_def split: option.splits)

lemma with_runtime_keys: "fst ` set (gw_runtimes (with_runtime k f g)) = fst ` set (gw_runtimes g)"
proof (cases "map_of (gw_runtimes g) k")
  case (Some r)
  then have "k \<in> fst ` set (gw_runtimes g)" by (metis domI dom_map_of_conv_image_fst)
  with Some show ?thesis by (auto simp: with_runtime_def AList.dom_update)
qed (simp add: with_runtime_def)

text \<open>A gateway built from a registry holds runtimes for its devices only and has applied nothing.\<close>

lemma built_gateway:
  fixes ds :: "device_definition list"
  assumes "fst ` set (gw_runtimes g) \<subseteq> A" and "dd_device_id ` set ds \<subseteq> A"
  shows "fst ` set (gw_runtimes (foldl (\<lambda>g d. runtime_for d g) g ds)) \<subseteq> A"
    and "fst ` set (gw_runtimes (foldl (\<lambda>g d. with_runtime (dd_device_id d) (h g) (runtime_for d g)) g ds)) \<subseteq> A"
proof -
  show "fst ` set (gw_runtimes (foldl (\<lambda>g d. runtime_for d g) g ds)) \<subseteq> A"
    using assms
  proof (induction ds arbitrary: g)
    case (Cons d ds)
    have "fst ` set (gw_runtimes (runtime_for d g)) \<subseteq> A"
      by (rule subset_trans [OF runtime_for_keys]) (use Cons.prems in simp)
    with Cons show ?case by simp
  qed simp
  show "fst ` set (gw_runtimes (foldl (\<lambda>g d. with_runtime (dd_device_id d) (h g) (runtime_for d g)) g ds)) \<subseteq> A"
    using assms
  proof (induction ds arbitrary: g)
    case (Cons d ds)
    have "fst ` set (gw_runtimes (with_runtime (dd_device_id d) (h g) (runtime_for d g))) \<subseteq> A"
      unfolding with_runtime_keys by (rule subset_trans [OF runtime_for_keys]) (use Cons.prems in simp)
    with Cons show ?case by simp
  qed simp
qed

lemma built_applied:
  "gw_applied (foldl (\<lambda>g d. runtime_for d g) g ds) = gw_applied g"
  "gw_applied (foldl (\<lambda>g d. with_runtime (dd_device_id d) (h g) (runtime_for d g)) g ds) = gw_applied g"
  by (induction ds arbitrary: g) simp_all

lemma built_registry: "gw_registry (foldl (\<lambda>g d. runtime_for d g) g ds) = gw_registry g"
  by (induction ds arbitrary: g) simp_all

lemma load_definitions_keys:
  assumes "load_definitions ds [] = Inr reg"
  shows "fst ` set reg \<subseteq> dd_device_id ` set ds \<and> (\<forall>d \<in> set (map snd reg). d \<in> set ds)"
proof -
  have "fst ` set (foldl (\<lambda>reg d. AList.update (dd_device_id d) d reg) reg ds) \<subseteq> fst ` set reg \<union> dd_device_id ` set ds \<and>
      snd ` set (foldl (\<lambda>reg d. AList.update (dd_device_id d) d reg) reg ds) \<subseteq> snd ` set reg \<union> set ds" for reg :: registry
  proof (induction ds arbitrary: reg)
    case (Cons d ds)
    have "snd ` set (AList.update (dd_device_id d) d reg) \<subseteq> insert d (snd ` set reg)"
      by (induction reg) auto
    with Cons [of "AList.update (dd_device_id d) d reg"] show ?case
      unfolding foldl_Cons AList.dom_update list.set image_insert by blast
  qed simp
  from this [of "[]"] show ?thesis using assms by (auto simp: load_definitions_def Let_def split: if_splits)
qed

lemma startup_bootstrap_item:
  assumes "startup_item c batches (cs, g) item = Inr (cs', g')" and "rd_source item = SRC_BOOTSTRAP"
  shows "g' = g" "cs_configs cs' = cs_configs cs" "registered (cs_db cs') = registered (cs_db cs)"
    "d \<noteq> rd_device_id item \<Longrightarrow> runtime_status_find d cs' = runtime_status_find d cs"
proof -
  from assms have row: "startup_row c item None cs = Inr cs'" and g: "g' = g"
    by (auto simp: startup_item_def bindE_Inr_iff)
  obtain now w1 where t: "utc_now c (cs_db cs) = (now, w1)" by fastforce
  from row t obtain r where cs': "cs' = upsert_runtime_status r (cs\<lparr>cs_db := w1\<rparr>)" "crs_device_id r = rd_device_id item"
    by (auto simp: startup_row_def split: if_splits)
  show "g' = g" by (rule g)
  show "cs_configs cs' = cs_configs cs" "registered (cs_db cs') = registered (cs_db cs)"
    using registered_draw(2) [OF t] by (simp_all add: cs'(1))
  show "d \<noteq> rd_device_id item \<Longrightarrow> runtime_status_find d cs' = runtime_status_find d cs"
    using cs'(2) by (simp add: cs'(1) upsert_runtime_status_find) (simp add: runtime_status_find_def)
qed

text \<open>
  When a managed start cannot use the stored configurations - the read fails, or one
  published payload of any device no longer parses - the record of what runs is not reconciled: a device
  that was last recorded as applied, and that the bootstrap file does not name, is still reported in sync
  with its published version, although the started gateway has no runtime for it and applied nothing.
\<close>

theorem unreconciled_start:
  assumes built: "build_managed_gateway c env readable file p simulated mqtt now loaded batches cs = Inr (cs', g)"
    and unusable: "\<not> readable \<or> (\<exists>x \<in> set (cs_configs cs). cf_status x = CFG_PUBLISHED \<and> (\<exists>e. py_validate env (cf_configuration x) = Inl e))"
    and bootstrap: "bootstrap_definitions file = Inr boot" and unnamed: "d \<notin> rd_device_id ` set boot"
    and published: "current_published d cs = Some x" and device: "d \<in> registered (cs_db cs)"
    and row: "runtime_status_find d cs = Some r" "crs_apply_status r = AP_APPLIED" "crs_applied_version r = Some (cf_version x)"
  shows "\<exists>st. configuration_status (gateway_applier b) d (cs', g) = Inr st \<and> cst_in_sync st \<and> cst_runtime_state st = None \<and>
    map_of (gw_runtimes g) d = None \<and> gateway_applied_version d g = None"
proof -
  obtain items problems where res: "resolve_definitions c env readable file True cs = Inr (items, problems)"
    using built by (auto simp: build_managed_gateway_def split: sum.splits)
  have failed: "(if readable then published_definitions c env cs else Inl []) = Inl e \<Longrightarrow> items = boot" for e
    using res bootstrap by (auto simp: resolve_definitions_def Let_def)
  have "\<exists>e. (if readable then published_definitions c env cs else Inl []) = Inl e"
  proof (cases readable)
    case True
    with unusable obtain x e where x: "x \<in> set (list_published c cs)" "py_validate env (cf_configuration x) = Inl e"
      by (auto simp: list_published_def)
    with True show ?thesis unfolding published_definitions_def by (auto intro: mapE_Inl [OF x(1)])
  qed simp
  with failed have items: "items = boot" by blast
  have src: "rd_source i = SRC_BOOTSTRAP" "rd_device_id i = dd_device_id (rd_definition i)" if "i \<in> set items" for i
    using that bootstrap unfolding items
    by (auto simp: bootstrap_definitions_def bindE_def split: option.splits sum.splits)
  obtain reg where reg: "load_definitions (map rd_definition items) [] = Inr reg"
    using built res by (auto simp: build_managed_gateway_def split: sum.splits)
  define g0 where "g0 = gateway_start now (new_gateway reg True p simulated mqtt)"
  from built res reg obtain g1 where run: "foldE (startup_item c batches) (cs, g0) items = Inr (cs', g1)" and g: "g = mark_loaded loaded g1"
    by (auto simp: build_managed_gateway_def bindE_Inr_iff g0_def)
  have keep: "(\<lambda>(cs1, g1). g1 = g0 \<and> cs_configs cs1 = cs_configs cs \<and> registered (cs_db cs1) = registered (cs_db cs) \<and>
      runtime_status_find d cs1 = Some r) (cs', g1)"
  proof (rule foldE_invariant [OF run])
    fix s item s'
    assume s: "case s of (cs1, g1) \<Rightarrow> g1 = g0 \<and> cs_configs cs1 = cs_configs cs \<and> registered (cs_db cs1) = registered (cs_db cs) \<and>
        runtime_status_find d cs1 = Some r" and item: "item \<in> set items" and step: "startup_item c batches s item = Inr s'"
    obtain cs1 g1' where s1: "s = (cs1, g1')" by fastforce
    obtain cs2 g2 where s2: "s' = (cs2, g2)" by fastforce
    have "d \<noteq> rd_device_id item" using unnamed item unfolding items by auto
    with startup_bootstrap_item [OF step [unfolded s1 s2] src(1) [OF item]] s
    show "case s' of (cs1, g1) \<Rightarrow> g1 = g0 \<and> cs_configs cs1 = cs_configs cs \<and> registered (cs_db cs1) = registered (cs_db cs) \<and>
        runtime_status_find d cs1 = Some r" by (simp add: s1 s2)
  qed (simp add: row(1))
  have ids: "dd_device_id ` set (map snd reg) \<subseteq> - {d}" and keys: "fst ` set reg \<subseteq> - {d}"
    using load_definitions_keys [OF reg] src(2) unnamed unfolding items by (force+)
  have "fst ` set (gw_runtimes (new_gateway reg True p simulated mqtt)) \<subseteq> - {d}"
    unfolding new_gateway_def by (rule built_gateway(1) [OF _ ids]) simp
  moreover have "gw_registry (new_gateway reg True p simulated mqtt) = reg" by (simp add: new_gateway_def built_registry)
  moreover have "dd_device_id ` set (enabled_definitions reg) \<subseteq> - {d}" using ids by (auto simp: enabled_definitions_def)
  ultimately have "fst ` set (gw_runtimes (foldl (\<lambda>g d. with_runtime (dd_device_id d) (start_runtime (gw_mqtt g)) (runtime_for d g))
      (new_gateway reg True p simulated mqtt) (enabled_definitions (gw_registry (new_gateway reg True p simulated mqtt))))) \<subseteq> - {d}"
    by (intro built_gateway(2) [where h = "\<lambda>g. start_runtime (gw_mqtt g)"]) simp_all
  then have "fst ` set (gw_runtimes g0) \<subseteq> - {d}"
    by (simp add: g0_def gateway_start_def Let_def mark_loaded_def)
  then have none: "map_of (gw_runtimes g) d = None"
    using keep by (auto simp: g mark_loaded_def map_of_eq_None_iff)
  have "gw_applied g = []"
    using keep by (simp add: g g0_def mark_loaded_def gateway_start_def new_gateway_def built_applied(1) built_applied(2) [where h = "\<lambda>g. start_runtime (gw_mqtt g)"] Let_def)
  then have "gateway_applied_version d g = None" by (simp add: gateway_applied_version_def)
  moreover have "current_published d cs' = Some x" using published keep by (simp add: current_published_def)
  moreover obtain dev where "get_device d (cs_db cs') = Inr dev"
    using device keep by (fastforce simp: get_device_def device_get_def find_row_None registered_def split: option.splits)
  moreover have "runtime_status_find d cs' = Some r" using keep by simp
  ultimately show ?thesis using none row(2,3)
    by (simp add: configuration_status_def in_sync_def row_apply_status_def gateway_applier_def gateway_status_def require_runtime_def)
qed

end
