(* ===== verification/ControlDemo.thy ===== *)
theory ControlDemo
  imports ControlProps BoundaryProps
begin

text \<open>
  A concrete device with a stored configuration, on which the properties of the configuration service
  and of the gateway are applied.
\<close>

section \<open>Data\<close>

definition meter :: device_definition where
  "meter = \<lparr>dd_device_id = ''motor-1'', dd_protocol = PT_MODBUS_TCP, dd_enabled = True, dd_poll_interval_ms = 1000,
     dd_state = pump_state,
     dd_modbus_tcp = Some \<lparr>mbc_host = ''plc'', mbc_port = 502, mbc_unit_id = 1, mbc_timeout_seconds = Fin 1,
       mbc_registers = [(''rpm'', \<lparr>rgc_address = 40001, rgc_scale = Fin 1, rgc_unit = None\<rparr>)]\<rparr>,
     dd_opc_ua = None, dd_simulator = None, dd_mqtt = None\<rparr>"

text \<open>A payload is the polling interval of the meter; \<open>true\<close> stands for the simulated pump.\<close>

definition demo_pyd :: pyd_env where
  "demo_pyd = \<lparr>py_validate = (\<lambda>j. case j of JInt n \<Rightarrow> Inr (meter\<lparr>dd_poll_interval_ms := n\<rparr>) | JBool True \<Rightarrow> Inr pump
       | _ \<Rightarrow> Inl [\<lparr>pyd_loc = [], pyd_msg = ''Input should be a valid dictionary'', pyd_type = ''model_type''\<rparr>]),
     py_dump = (\<lambda>d. JInt (dd_poll_interval_ms d))\<rparr>"

definition demo_draft :: "json \<Rightarrow> device_configuration" where
  "demo_draft payload = new_draft ''r1'' ''motor-1'' 1 PT_MODBUS_TCP payload ''eva''"

definition demo_store :: "device_configuration list \<Rightarrow> config_store" where
  "demo_store cfs = \<lparr>cs_db = demo_world, cs_configs = cfs, cs_runtime = []\<rparr>"

definition demo_published :: "json \<Rightarrow> device_configuration" where
  "demo_published payload = (demo_draft payload)\<lparr>cf_status := CFG_PUBLISHED, cf_published_at := Some 5\<rparr>"

definition demo_second :: device_configuration where
  "demo_second = new_draft ''r2'' ''motor-1'' 2 PT_MODBUS_TCP (JInt 500) ''eva''"

lemmas store_defs = demo_store_def demo_draft_def demo_published_def demo_second_def new_draft_def

lemma demo_stores_ok:
  "configs_ok (demo_store [])" "configs_ok (demo_store [demo_draft p])" "configs_ok (demo_store [demo_published p])"
  "configs_ok (demo_store [demo_published p, demo_second])"
  by (simp_all add: configs_ok_def rows_ok_def row_dates_ok_def store_defs registered_def demo_world_def demo_device_def config_key_def)

definition connect_events :: "runtime_event list list" where
  "connect_events = [[Registration (Inr True) 1, Connection (Inr ()) 2]]"

definition demo_gateway :: gateway where
  "demo_gateway = new_gateway [] True DEFAULT_POLICY False None"

section \<open>Publishing\<close>

definition publish_second :: "(app_error + device_configuration) \<times> config_store" where
  "publish_second = publish_commit demo_ctx demo_pyd ''motor-1'' 2 ''eva'' (demo_store [demo_published (JInt 1000), demo_second])"

lemma publish_second_result:
  "case publish_second of (Inr row, cs) \<Rightarrow> (case cs_configs cs of [a, b] \<Rightarrow> cf_version row = 2 | _ \<Rightarrow> False) | _ \<Rightarrow> False"
  by code_simp

lemma publish_second_step:
  "config_steps demo_pyd (demo_store [demo_published (JInt 1000), demo_second], ()) (snd publish_second, ())"
  unfolding publish_second_def by (rule Step [OF Done], rule Commit, rule prod.collapse [symmetric])

theorem configuration_table_consistent_witness:
  "\<exists>a b. cs_configs (snd publish_second) = [a, b] \<and> 0 < cf_version a"
proof -
  from publish_second_result obtain row cs where run: "publish_second = (Inr row, cs)"
    by (auto split: prod.splits sum.splits)
  have "case cs_configs cs of [a, b] \<Rightarrow> True | _ \<Rightarrow> False"
    using publish_second_result unfolding run by (simp split: list.splits)
  then obtain a b where rs: "cs_configs cs = [a, b]" by (auto split: list.splits)
  have step: "config_steps demo_pyd (demo_store [demo_published (JInt 1000), demo_second], ()) (cs, ())"
    using publish_second_step unfolding run by simp
  have "0 < cf_version a"
    using configuration_table_consistent [OF step demo_stores_ok(4), of a b] by (simp add: rs)
  with rs show ?thesis unfolding run by simp
qed


theorem publish_commit_outcome_witness:
  "\<exists>row. fst publish_second = Inr row \<and> cf_version row = 2 \<and> cf_status row = CFG_PUBLISHED"
proof -
  from publish_second_result obtain row cs where run: "publish_second = (Inr row, cs)"
    by (auto split: prod.splits sum.splits)
  from publish_commit_outcome [OF run [unfolded publish_second_def] demo_stores_ok(4)] show ?thesis by (simp add: run)
qed

definition publish_first :: "(app_error + device_configuration \<times> configuration_status) \<times> config_store \<times> gateway" where
  "publish_first = publish demo_ctx demo_pyd (gateway_applier connect_events) ''motor-1'' 1 ''eva''
     (demo_store [demo_draft (JInt 1000)], demo_gateway)"

lemma publish_first_result: "case publish_first of (Inr (row, st), s) \<Rightarrow> cst_in_sync st | _ \<Rightarrow> False"
  by code_simp

theorem publish_reports_runtime_witness:
  "gateway_applied_version ''motor-1'' (snd (snd publish_first)) = Some 1"
proof -
  from publish_first_result obtain row st cs g where run: "publish_first = (Inr (row, st), cs, g)" "cst_in_sync st"
    by (auto split: prod.splits sum.splits)
  from publish_reports_runtime [OF run(1) [unfolded publish_first_def] demo_stores_ok(2)] run(2) show ?thesis
    unfolding run(1) by simp
qed

section \<open>Versions and definitions\<close>

definition first_draft :: "app_error + device_configuration \<times> config_store" where
  "first_draft = create_draft demo_ctx demo_pyd ''motor-1'' (JInt 1000) ''eva'' (\<lambda>cs. cs) (demo_store [])"

lemma draft_cycle:
  "case first_draft of Inl _ \<Rightarrow> False | Inr (row, cs1) \<Rightarrow>
    (case delete_draft demo_ctx ''motor-1'' (cf_version row) cs1 of Inl _ \<Rightarrow> False | Inr cs2 \<Rightarrow>
      (case create_draft demo_ctx demo_pyd ''motor-1'' (JInt 500) ''bob'' (\<lambda>cs. cs) cs2 of Inl _ \<Rightarrow> False | Inr _ \<Rightarrow> True))"
  by code_simp

theorem version_reused_witness:
  "\<exists>row cs1 cs2 row' cs3. first_draft = Inr (row, cs1) \<and> delete_draft demo_ctx ''motor-1'' (cf_version row) cs1 = Inr cs2 \<and>
    create_draft demo_ctx demo_pyd ''motor-1'' (JInt 500) ''bob'' (\<lambda>cs. cs) cs2 = Inr (row', cs3) \<and> cf_version row' = cf_version row"
proof -
  from draft_cycle obtain row cs1 where run1: "first_draft = Inr (row, cs1)"
    by (auto split: sum.splits)
  from draft_cycle [unfolded run1] obtain cs2 where run2: "delete_draft demo_ctx ''motor-1'' (cf_version row) cs1 = Inr cs2"
    by (auto split: sum.splits)
  from draft_cycle [unfolded run1] run2 obtain row' cs3 where
    "create_draft demo_ctx demo_pyd ''motor-1'' (JInt 500) ''bob'' (\<lambda>cs. cs) cs2 = Inr (row', cs3)"
    by (auto split: sum.splits)
  note run = run1 run2 this
  from version_reused [OF run(1) [unfolded first_draft_def] run(2,3)] run show ?thesis by blast
qed

theorem simulator_never_published_witness:
  "fst (publish_commit demo_ctx demo_pyd ''motor-1'' 1 ''eva'' (demo_store [demo_draft (JBool True)])) =
    Inl (AppError ''CONFIGURATION_VALIDATION_FAILED'' 422)"
proof -
  obtain r cs' where run: "publish_commit demo_ctx demo_pyd ''motor-1'' 1 ''eva'' (demo_store [demo_draft (JBool True)]) = (r, cs')"
    by fastforce
  have "configuration_find ''motor-1'' 1 (demo_store [demo_draft (JBool True)]) = Some (demo_draft (JBool True))"
    by (simp add: configuration_find_def find_row_def store_defs config_key_def)
  moreover have "py_validate demo_pyd (cf_configuration (demo_draft (JBool True))) = Inr pump"
    by (simp add: demo_pyd_def store_defs)
  ultimately show ?thesis
    using simulator_never_published [OF demo_stores_ok(2) _ _ _ pump_valid(1) _ run] run by (simp add: store_defs pump_def)
qed

definition unreadable_start :: "string + resolved_definition list \<times> nat" where
  "unreadable_start = resolve_definitions demo_ctx demo_pyd True (Some (Inr [meter])) True (demo_store [demo_published JNull])"


section \<open>Gateway, tree and routes\<close>

definition first_swap :: "device_runtime option \<times> gateway" where
  "first_swap = apply_swap meter (Some 1) (fst (apply_begin meter demo_gateway)) pump_connected demo_gateway"

definition second_swap :: "device_runtime option \<times> gateway" where
  "second_swap = apply_swap pump (Some 2) (fst (apply_begin pump demo_gateway)) (new_runtime pump) (snd first_swap)"


definition demo_site :: "app_error + asset_node \<times> world" where
  "demo_site = create_asset demo_ctx ''Plant'' SITE None demo_world"

theorem asset_tree_exact_witness:
  "\<exists>n w. demo_site = Inr (n, w) \<and>
    mset (concat (map tree_nodes (fst (asset_tree_read demo_ctx ((demo_store [])\<lparr>cs_db := w\<rparr>))))) = mset (w_assets w)"
proof -
  have "case demo_site of Inl _ \<Rightarrow> False | Inr _ \<Rightarrow> True" by code_simp
  then obtain n w where run: "demo_site = Inr (n, w)" by (auto split: sum.splits)
  have "reachable asset_init asset_do demo_world"
    by (rule reach_init) (simp add: asset_init_def demo_world_def demo_device_def empty_world_def)
  then have "reachable asset_init asset_do w"
    by (rule reach_step [where e = "CreateAsset demo_ctx ''Plant'' SITE None"]) (use run in \<open>simp add: asset_do_def demo_site_def\<close>)
  moreover obtain roots unassigned where "asset_tree_read demo_ctx ((demo_store [])\<lparr>cs_db := w\<rparr>) = (roots, unassigned)" by fastforce
  ultimately have "mset (concat (map tree_nodes (fst (asset_tree_read demo_ctx ((demo_store [])\<lparr>cs_db := w\<rparr>))))) = mset (w_assets w)"
    using asset_tree_exact [of "(demo_store [])\<lparr>cs_db := w\<rparr>" demo_ctx roots unassigned] by simp
  with run show ?thesis by blast
qed

text \<open>Eva as administrator of the plant.\<close>

definition demo_control :: "gateway control" where
  "demo_control =
     \<lparr>ct_platform = gate\<lparr>g_db := demo_world, g_user_roles := [(u_id eva, ''r1'')]\<rparr>,
      ct_configs = [demo_draft (JInt 1000)], ct_runtime = [], ct_applier = demo_gateway\<rparr>"

definition published_control :: "gateway control" where
  "published_control = snd (publish_configuration_route gate_ctx gate_env demo_pyd (gateway_applier connect_events) gate_rq
     ''motor-1'' 1 demo_control)"

theorem control_changes_authorised_witness:
  "\<exists>p c' g1. require_permission gate_ctx gate_env gate_rq CONFIG_PUBLISH (ct_platform demo_control) = (Inr (p, c'), g1) \<and>
    allows (resolve_device_access p g1) ''motor-1''"
proof -
  have "gateway_applied_version ''motor-1'' (ct_applier published_control) = Some 1" by code_simp
  moreover have "gateway_applied_version ''motor-1'' (ct_applier demo_control) = None" by code_simp
  ultimately have changed: "ct_applier published_control \<noteq> ct_applier demo_control" by auto
  with control_changes_authorised [of published_control gate_ctx gate_env demo_pyd gate_rq "''motor-1''" JNull demo_control 1
      "gateway_applier connect_events"]
  show ?thesis by (auto simp: published_control_def)
qed

definition recorded_store :: config_store where
  "recorded_store = (demo_store [demo_published (JInt 1000)])\<lparr>cs_runtime :=
     [\<lparr>crs_device_id = ''motor-1'', crs_desired_version = Some 1, crs_applied_version = Some 1, crs_apply_status = AP_APPLIED,
       crs_source = SRC_DATABASE, crs_last_apply_at = Some 6, crs_last_apply_error = None\<rparr>]\<rparr>"

theorem unreconciled_start_witness:
  "\<exists>cs' g st. build_managed_gateway demo_ctx demo_pyd False None DEFAULT_POLICY False None 7 8 (\<lambda>_. []) recorded_store = Inr (cs', g) \<and>
    configuration_status (gateway_applier []) ''motor-1'' (cs', g) = Inr st \<and> cst_in_sync st \<and>
    gateway_applied_version ''motor-1'' g = None"
proof -
  have "case build_managed_gateway demo_ctx demo_pyd False None DEFAULT_POLICY False None 7 8 (\<lambda>_. []) recorded_store of
      Inl _ \<Rightarrow> False | Inr _ \<Rightarrow> True" by code_simp
  then obtain cs' g where run: "build_managed_gateway demo_ctx demo_pyd False None DEFAULT_POLICY False None 7 8 (\<lambda>_. []) recorded_store = Inr (cs', g)"
    by (auto split: sum.splits)
  have "current_published ''motor-1'' recorded_store = Some (demo_published (JInt 1000))"
    "''motor-1'' \<in> registered (cs_db recorded_store)"
    "runtime_status_find ''motor-1'' recorded_store = Some (hd (cs_runtime recorded_store))"
    by (simp_all add: recorded_store_def current_published_def store_defs registered_def demo_world_def demo_device_def
        runtime_status_find_def find_row_def)
  from unreconciled_start [OF run _ _ _ this, of "[]" "[]"] run show ?thesis
    by (auto simp: bootstrap_definitions_def recorded_store_def store_defs)
qed

end
