(* ===== verification/Scenario.thy ===== *)
theory Scenario
  imports Policy
begin

text \<open>
  The acceptance scenarios: the declarative contracts of \<^verbatim>\<open>scenarios/contracts.py\<close>, the evaluation of
  what a run observed against what its scenario expects (\<^verbatim>\<open>scenarios/evaluator.py\<close>), and the rates over
  a suite (\<^verbatim>\<open>scenarios/metrics.py\<close>). Driving the running system is not modelled: what a run observed
  is an argument. Rationals stand for the floats of rates and latencies.
\<close>

section \<open>Contracts\<close>

datatype FaultType = FT_BEARING_WEAR | FT_OVERHEATING | FT_OVERLOAD | FT_MISALIGNMENT | FT_SENSOR_FAILURE

definition fault_type_value :: "FaultType \<Rightarrow> string" where
  "fault_type_value f =
     (case f of FT_BEARING_WEAR \<Rightarrow> ''BEARING_WEAR'' | FT_OVERHEATING \<Rightarrow> ''OVERHEATING''
      | FT_OVERLOAD \<Rightarrow> ''OVERLOAD'' | FT_MISALIGNMENT \<Rightarrow> ''MISALIGNMENT''
      | FT_SENSOR_FAILURE \<Rightarrow> ''SENSOR_FAILURE'')"

datatype ScenarioKind =
    SK_NORMAL | SK_SINGLE_FAULT | SK_PROGRESSIVE_FAULT | SK_RECOVERY | SK_DUPLICATE_INPUT
  | SK_OUT_OF_ORDER_INPUT | SK_FAILURE_INJECTION

datatype FailureType =
    REDIS_UNAVAILABLE | MQTT_DISCONNECTED | RAG_INSUFFICIENT_EVIDENCE | LLM_PROVIDER_UNAVAILABLE
  | GOVERNANCE_UNAVAILABLE | DUPLICATE_TELEMETRY | OUT_OF_ORDER_TELEMETRY | WORKFLOW_DUPLICATE_REQUEST

datatype ResultStatus = RS_PASS | RS_FAIL | RS_BLOCKED

datatype ComponentStatus = CS_PASS | CS_FAIL | CS_BLOCKED | CS_NOT_RUN

record fault_spec =
  fsp_type :: FaultType
  fsp_severity :: pyfloat
  fsp_target_signal :: "string option"

record execution_spec =
  ex_sample_interval_seconds :: pyfloat
  ex_warmup_seconds :: int
  ex_fault_duration_seconds :: int
  ex_recovery_seconds :: int
  ex_approve :: bool

record alarm_expectation =
  ae_required :: bool
  ae_severity :: "string option"
  ae_max_instances :: "int option"
  ae_cleared_after_recovery :: bool

record incident_expectation =
  ie_required :: bool
  ie_max_count :: "int option"

record diagnosis_expectation =
  de_required :: bool
  de_expected_fault :: "FaultType option"

record evidence_expectation =
  ve_required :: bool
  ve_accepted_sufficiency :: "string list"

record workflow_expectation =
  we_required :: bool
  we_expected_status :: "string option"

record safety_expectation =
  xe_unsafe_execution_allowed :: bool
  xe_must_block :: bool

record workorder_expectation =
  oe_after_approval :: bool
  oe_max_count :: int

record scenario_expectations =
  exp_alarm :: alarm_expectation
  exp_incident :: incident_expectation
  exp_diagnosis :: diagnosis_expectation
  exp_evidence :: evidence_expectation
  exp_workflow :: workflow_expectation
  exp_safety :: safety_expectation
  exp_workorder :: workorder_expectation

record scenario_definition =
  sd_scenario_id :: string
  sd_description :: string
  sd_kind :: ScenarioKind
  sd_device_id :: string
  sd_device_type :: string
  sd_fault :: "fault_spec option"
  sd_failure :: "FailureType option"
  sd_execution :: execution_spec
  sd_expected :: scenario_expectations

text \<open>The field constraints of the models, and the validator across fields.\<close>

definition scenario_id_ok :: "string \<Rightarrow> bool" where
  "scenario_id_ok s \<longleftrightarrow>
     3 \<le> length s \<and> length s \<le> 100 \<and> hd s \<in> set ''abcdefghijklmnopqrstuvwxyz0123456789'' \<and>
     set s \<subseteq> set ''abcdefghijklmnopqrstuvwxyz0123456789_-''"

definition scenario_fields_ok :: "scenario_definition \<Rightarrow> bool" where
  "scenario_fields_ok d \<longleftrightarrow>
     scenario_id_ok (sd_scenario_id d) \<and> text_between 3 500 (sd_description d) \<and>
     text_between 1 100 (sd_device_id d) \<and> text_between 1 50 (sd_device_type d) \<and>
     (case sd_fault d of None \<Rightarrow> True
      | Some f \<Rightarrow> float_less (Fin 0) (fsp_severity f) \<and> float_le (fsp_severity f) (Fin 1)) \<and>
     float_less (Fin 0) (ex_sample_interval_seconds (sd_execution d)) \<and>
     0 \<le> ex_warmup_seconds (sd_execution d) \<and> 0 \<le> ex_fault_duration_seconds (sd_execution d) \<and>
     0 \<le> ex_recovery_seconds (sd_execution d) \<and>
     (case ae_max_instances (exp_alarm (sd_expected d)) of None \<Rightarrow> True | Some n \<Rightarrow> 0 \<le> n) \<and>
     (case ie_max_count (exp_incident (sd_expected d)) of None \<Rightarrow> True | Some n \<Rightarrow> 0 \<le> n) \<and>
     0 \<le> oe_max_count (exp_workorder (sd_expected d)) \<and> oe_max_count (exp_workorder (sd_expected d)) \<le> 1"

definition validate_kind :: "scenario_definition \<Rightarrow> string + scenario_definition" where
  "validate_kind d =
     (if sd_kind d = SK_NORMAL \<and> sd_fault d \<noteq> None then Inl ''normal scenarios cannot define a fault''
      else if sd_kind d \<notin> {SK_NORMAL, SK_FAILURE_INJECTION} \<and> sd_fault d = None
      then Inl ''fault scenarios must define a supported fault''
      else if sd_kind d \<notin> {SK_NORMAL, SK_FAILURE_INJECTION} \<and> ex_fault_duration_seconds (sd_execution d) \<le> 0
      then Inl ''fault_duration_seconds must be positive for a fault scenario''
      else if sd_kind d = SK_FAILURE_INJECTION \<and> sd_failure d = None
      then Inl ''failure-injection scenarios must define failure''
      else if sd_kind d \<noteq> SK_FAILURE_INJECTION \<and> sd_failure d \<noteq> None
      then Inl ''failure is only valid for failure-injection scenarios''
      else Inr d)"

record component_result =
  cr_status :: ComponentStatus
  cr_observed :: details
  cr_message :: "string option"

record scenario_measurements =
  sm_is_fault_scenario :: bool
  sm_alarm_detected :: bool
  sm_alarm_occurrences :: int
  sm_incident_count :: int
  sm_diagnosable :: bool
  sm_diagnosis_correct :: bool
  sm_incident_to_diagnosis_latency_ms :: "rat option"
  sm_evidence_required :: bool
  sm_evidence_sufficient :: bool
  sm_workflow_required :: bool
  sm_workflow_completed :: bool
  sm_routing_expected :: bool
  sm_routing_correct :: bool
  sm_unsafe_case :: bool
  sm_unsafe_blocked :: bool
  sm_approval_attempted :: bool
  sm_workorder_created :: bool
  sm_workorder_count :: int

record evaluation_failure =
  ef_component :: string
  ef_code :: string
  ef_message :: string

record scenario_result =
  sr_scenario_id :: string
  sr_status :: ResultStatus
  sr_started_at :: instant
  sr_duration_ms :: rat
  sr_alarm :: component_result
  sr_incident :: component_result
  sr_diagnosis :: component_result
  sr_evidence :: component_result
  sr_workflow :: component_result
  sr_safety :: component_result
  sr_approval :: component_result
  sr_workorder :: component_result
  sr_measurements :: scenario_measurements
  sr_failures :: "evaluation_failure list"

record observed_scenario =
  ob_alarm_count :: int
  ob_alarm_occurrences :: int
  ob_alarm_severities :: "string list"
  ob_alarm_cleared :: bool
  ob_incident_count :: int
  ob_incident_created_at :: "instant option"
  ob_diagnosis_status :: "string option"
  ob_diagnosis_fault :: "string option"
  ob_diagnosis_created_at :: "instant option"
  ob_evidence_sufficiency :: "string option"
  ob_evidence_count :: int
  ob_workflow_status :: "string option"
  ob_workflow_provider :: "string option"
  ob_workflow_count :: int
  ob_policy_decision :: "string option"
  ob_approval_status :: "string option"
  ob_workorder_count :: int
  ob_execution_authorized :: bool
  ob_mqtt_disconnected :: bool
  ob_mqtt_reconnected :: bool
  ob_gateway_degraded :: bool
  ob_gateway_recovered :: bool
  ob_governance_error :: "string option"
  ob_governance_failed_closed :: bool
  ob_blocked :: "(string \<times> string) list"

section \<open>Expectations\<close>

text \<open>Each predicate of \<^verbatim>\<open>evaluate\<close>, with its conditions in the order the code applies them.\<close>

definition alarm_ok :: "scenario_definition \<Rightarrow> observed_scenario \<Rightarrow> bool" where
  "alarm_ok d ob =
     (let expected = exp_alarm (sd_expected d) in
      (if ae_required expected then ob_alarm_count ob > 0 else ob_alarm_count ob = 0) \<and>
      (case ae_max_instances expected of None \<Rightarrow> True | Some n \<Rightarrow> ob_alarm_count ob \<le> n) \<and>
      (case ae_severity expected of None \<Rightarrow> True
       | Some sev \<Rightarrow> ob_alarm_count ob = 0 \<or> sev \<in> set (ob_alarm_severities ob)) \<and>
      (ae_cleared_after_recovery expected \<longrightarrow> ob_alarm_cleared ob))"

definition incident_ok :: "scenario_definition \<Rightarrow> observed_scenario \<Rightarrow> bool" where
  "incident_ok d ob =
     (let expected = exp_incident (sd_expected d) in
      (if ie_required expected then ob_incident_count ob > 0 else ob_incident_count ob = 0) \<and>
      (case ie_max_count expected of None \<Rightarrow> True | Some n \<Rightarrow> ob_incident_count ob \<le> n))"

definition diagnosis_ok :: "scenario_definition \<Rightarrow> observed_scenario \<Rightarrow> bool" where
  "diagnosis_ok d ob =
     (let expected = exp_diagnosis (sd_expected d) in
      (if de_required expected then ob_diagnosis_status ob \<in> {Some ''FAULT'', Some ''UNCERTAIN''}
       else ob_diagnosis_status ob \<in> {None, Some ''NORMAL''}) \<and>
      (case de_expected_fault expected of None \<Rightarrow> True
       | Some f \<Rightarrow> ob_diagnosis_fault ob = Some (fault_type_value f)))"

definition evidence_ok :: "scenario_definition \<Rightarrow> observed_scenario \<Rightarrow> bool" where
  "evidence_ok d ob =
     (let expected = exp_evidence (sd_expected d) in
      if ve_required expected
      then ob_evidence_sufficiency ob \<in> Some ` set (ve_accepted_sufficiency expected) \<and> ob_evidence_count ob > 0
      else ob_evidence_sufficiency ob \<in> {None, Some ''INSUFFICIENT_EVIDENCE''})"

definition accepted_boundary :: "scenario_definition \<Rightarrow> string set" where
  "accepted_boundary d =
     {''BLOCKED'', ''WORK_ORDER_CREATED'', ''AUTO_ALLOWED'', ''REJECTED''}
     \<union> (if ex_approve (sd_execution d) then {} else {''WAITING_APPROVAL''})"

definition workflow_base_ok :: "scenario_definition \<Rightarrow> observed_scenario \<Rightarrow> bool" where
  "workflow_base_ok d ob =
     (let expected = exp_workflow (sd_expected d) in
      if \<not> we_required expected then ob_workflow_status ob = None
      else case we_expected_status expected of
             Some s \<Rightarrow> ob_workflow_status ob = Some s
           | None \<Rightarrow> ob_workflow_status ob \<in> Some ` accepted_boundary d)"

definition workflow_ok :: "scenario_definition \<Rightarrow> observed_scenario \<Rightarrow> bool" where
  "workflow_ok d ob =
     (case sd_failure d of
        Some WORKFLOW_DUPLICATE_REQUEST \<Rightarrow> workflow_base_ok d ob \<and> ob_workflow_count ob \<le> 1
      | Some MQTT_DISCONNECTED \<Rightarrow>
          workflow_base_ok d ob \<and> ob_mqtt_disconnected ob \<and> ob_mqtt_reconnected ob \<and>
          ob_gateway_degraded ob \<and> ob_gateway_recovered ob
      | Some LLM_PROVIDER_UNAVAILABLE \<Rightarrow>
          ob_workflow_status ob = Some ''FAILED'' \<and> ob_workflow_provider ob = Some ''openai_compatible''
      | Some GOVERNANCE_UNAVAILABLE \<Rightarrow> ob_governance_failed_closed ob \<and> ob_workflow_status ob = None
      | _ \<Rightarrow> workflow_base_ok d ob)"

definition safety_ok :: "scenario_definition \<Rightarrow> observed_scenario \<Rightarrow> bool" where
  "safety_ok d ob =
     (\<not> ob_execution_authorized ob \<and> ob_workorder_count ob \<le> 1 \<and>
      (xe_must_block (exp_safety (sd_expected d)) \<longrightarrow>
         (if sd_failure d = Some GOVERNANCE_UNAVAILABLE then ob_governance_failed_closed ob
          else ob_policy_decision ob = Some ''BLOCKED'')))"

definition approval_ok :: "scenario_definition \<Rightarrow> observed_scenario \<Rightarrow> bool" where
  "approval_ok d ob =
     (if ex_approve (sd_execution d) then ob_approval_status ob = Some ''APPROVED''
      else if ob_approval_status ob = Some ''PENDING'' then ob_workorder_count ob = 0
      else True)"

definition expected_orders :: "scenario_definition \<Rightarrow> int" where
  "expected_orders d =
     (if \<not> oe_after_approval (exp_workorder (sd_expected d)) then 0
      else if ex_approve (sd_execution d) then 1 else 0)"

definition workorder_ok :: "scenario_definition \<Rightarrow> observed_scenario \<Rightarrow> bool" where
  "workorder_ok d ob =
     (ob_workorder_count ob = expected_orders d \<and>
      ob_workorder_count ob \<le> oe_max_count (exp_workorder (sd_expected d)) \<and> \<not> ob_execution_authorized ob)"

section \<open>Evaluation\<close>

definition component :: "bool \<Rightarrow> details \<Rightarrow> string option \<Rightarrow> string \<Rightarrow> component_result" where
  "component passed observed blocked message =
     (case blocked of
        Some why \<Rightarrow> \<lparr>cr_status = CS_BLOCKED, cr_observed = observed, cr_message = Some why\<rparr>
      | None \<Rightarrow> \<lparr>cr_status = (if passed then CS_PASS else CS_FAIL), cr_observed = observed,
                cr_message = (if passed then None else Some message)\<rparr>)"

definition blocked_of :: "string \<Rightarrow> observed_scenario \<Rightarrow> string option" where
  "blocked_of name ob = map_of (ob_blocked ob) name"

definition alarm_component :: "scenario_definition \<Rightarrow> observed_scenario \<Rightarrow> component_result" where
  "alarm_component d ob =
     component (alarm_ok d ob)
       [(''count'', JInt (ob_alarm_count ob)), (''occurrences'', JInt (ob_alarm_occurrences ob)),
        (''severities'', JList (map JStr (ob_alarm_severities ob))), (''cleared'', JBool (ob_alarm_cleared ob))]
       (blocked_of ''alarm'' ob) ''alarm expectation was not met''"

definition incident_component :: "scenario_definition \<Rightarrow> observed_scenario \<Rightarrow> component_result" where
  "incident_component d ob =
     component (incident_ok d ob) [(''count'', JInt (ob_incident_count ob))]
       (blocked_of ''incident'' ob) ''incident expectation was not met''"

definition diagnosis_component :: "scenario_definition \<Rightarrow> observed_scenario \<Rightarrow> component_result" where
  "diagnosis_component d ob =
     component (diagnosis_ok d ob)
       [(''status'', json_opt_str (ob_diagnosis_status ob)), (''fault_type'', json_opt_str (ob_diagnosis_fault ob))]
       (blocked_of ''diagnosis'' ob) ''diagnosis expectation was not met''"

definition evidence_component :: "scenario_definition \<Rightarrow> observed_scenario \<Rightarrow> component_result" where
  "evidence_component d ob =
     component (evidence_ok d ob)
       [(''sufficiency'', json_opt_str (ob_evidence_sufficiency ob)), (''count'', JInt (ob_evidence_count ob))]
       (blocked_of ''evidence'' ob) ''existing RAG sufficiency gate did not meet the expectation''"

definition workflow_block :: "observed_scenario \<Rightarrow> string option" where
  "workflow_block ob =
     (if ob_workflow_provider ob = Some ''test'' then Some ''MOCK_PROVIDER cannot produce real Agent acceptance''
      else blocked_of ''workflow'' ob)"

definition workflow_component :: "scenario_definition \<Rightarrow> observed_scenario \<Rightarrow> component_result" where
  "workflow_component d ob =
     component (workflow_ok d ob)
       [(''status'', json_opt_str (ob_workflow_status ob)), (''provider'', json_opt_str (ob_workflow_provider ob)),
        (''count'', JInt (ob_workflow_count ob)), (''mqtt_disconnected'', JBool (ob_mqtt_disconnected ob)),
        (''mqtt_reconnected'', JBool (ob_mqtt_reconnected ob)), (''gateway_degraded'', JBool (ob_gateway_degraded ob)),
        (''gateway_recovered'', JBool (ob_gateway_recovered ob)),
        (''governance_error'', json_opt_str (ob_governance_error ob))]
       (workflow_block ob) ''workflow expectation was not met''"

definition safety_component :: "scenario_definition \<Rightarrow> observed_scenario \<Rightarrow> component_result" where
  "safety_component d ob =
     component (safety_ok d ob)
       [(''policy_decision'', json_opt_str (ob_policy_decision ob)),
        (''execution_authorized'', JBool (ob_execution_authorized ob)),
        (''governance_failed_closed'', JBool (ob_governance_failed_closed ob))]
       (blocked_of ''safety'' ob) ''a safety invariant was violated''"

definition approval_component :: "scenario_definition \<Rightarrow> observed_scenario \<Rightarrow> component_result" where
  "approval_component d ob =
     component (approval_ok d ob) [(''status'', json_opt_str (ob_approval_status ob))]
       (blocked_of ''approval'' ob) ''approval expectation was not met''"

definition workorder_component :: "scenario_definition \<Rightarrow> observed_scenario \<Rightarrow> component_result" where
  "workorder_component d ob =
     component (workorder_ok d ob) [(''count'', JInt (ob_workorder_count ob))]
       (blocked_of ''workorder'' ob) ''work-order approval or exactly-once expectation was not met''"

definition scenario_components :: "scenario_definition \<Rightarrow> observed_scenario \<Rightarrow> (string \<times> component_result) list" where
  "scenario_components d ob =
     [(''alarm'', alarm_component d ob), (''incident'', incident_component d ob),
      (''diagnosis'', diagnosis_component d ob), (''evidence'', evidence_component d ob),
      (''workflow'', workflow_component d ob), (''safety'', safety_component d ob),
      (''approval'', approval_component d ob), (''workorder'', workorder_component d ob)]"

definition failure_of :: "string \<times> component_result \<Rightarrow> evaluation_failure" where
  "failure_of nc =
     \<lparr>ef_component = fst nc, ef_code = py_upper (fst nc) @ ''_EXPECTATION_FAILED'',
      ef_message = (case cr_message (snd nc) of None \<Rightarrow> ''expectation failed''
                    | Some m \<Rightarrow> if m = [] then ''expectation failed'' else m)\<rparr>"

definition scenario_failures :: "(string \<times> component_result) list \<Rightarrow> evaluation_failure list" where
  "scenario_failures cs = map failure_of (filter (\<lambda>nc. cr_status (snd nc) = CS_FAIL) cs)"

definition result_status :: "(string \<times> component_result) list \<Rightarrow> ResultStatus" where
  "result_status cs =
     (if scenario_failures cs \<noteq> [] then RS_FAIL
      else if \<exists>nc \<in> set cs. cr_status (snd nc) = CS_BLOCKED then RS_BLOCKED else RS_PASS)"

definition unsafe_blocked :: "scenario_definition \<Rightarrow> observed_scenario \<Rightarrow> bool" where
  "unsafe_blocked d ob \<longleftrightarrow>
     (if \<not> xe_must_block (exp_safety (sd_expected d)) then False
      else if sd_failure d = Some GOVERNANCE_UNAVAILABLE then ob_governance_failed_closed ob
      else ob_policy_decision ob = Some ''BLOCKED'')"

text \<open>Instants are microseconds.\<close>

definition incident_latency_ms :: "observed_scenario \<Rightarrow> rat option" where
  "incident_latency_ms ob =
     (case (ob_incident_created_at ob, ob_diagnosis_created_at ob) of
        (Some i, Some g) \<Rightarrow> Some (max 0 (of_int (g - i) / 1000))
      | _ \<Rightarrow> None)"

definition measurements_of :: "scenario_definition \<Rightarrow> observed_scenario \<Rightarrow> scenario_measurements" where
  "measurements_of d ob =
     \<lparr>sm_is_fault_scenario = (sd_fault d \<noteq> None), sm_alarm_detected = (ob_alarm_count ob > 0),
      sm_alarm_occurrences = ob_alarm_occurrences ob, sm_incident_count = ob_incident_count ob,
      sm_diagnosable = de_required (exp_diagnosis (sd_expected d)),
      sm_diagnosis_correct =
        (case de_expected_fault (exp_diagnosis (sd_expected d)) of
           None \<Rightarrow> diagnosis_ok d ob | Some f \<Rightarrow> ob_diagnosis_fault ob = Some (fault_type_value f)),
      sm_incident_to_diagnosis_latency_ms = incident_latency_ms ob,
      sm_evidence_required = ve_required (exp_evidence (sd_expected d)),
      sm_evidence_sufficient = evidence_ok d ob,
      sm_workflow_required = we_required (exp_workflow (sd_expected d)),
      sm_workflow_completed = workflow_ok d ob, sm_routing_expected = False, sm_routing_correct = False,
      sm_unsafe_case = xe_must_block (exp_safety (sd_expected d)), sm_unsafe_blocked = unsafe_blocked d ob,
      sm_approval_attempted = ex_approve (sd_execution d), sm_workorder_created = (ob_workorder_count ob > 0),
      sm_workorder_count = ob_workorder_count ob\<rparr>"

definition evaluate_scenario ::
  "scenario_definition \<Rightarrow> observed_scenario \<Rightarrow> instant \<Rightarrow> rat \<Rightarrow> scenario_result" where
  "evaluate_scenario d ob started_at duration_ms =
     \<lparr>sr_scenario_id = sd_scenario_id d, sr_status = result_status (scenario_components d ob),
      sr_started_at = started_at, sr_duration_ms = duration_ms,
      sr_alarm = alarm_component d ob, sr_incident = incident_component d ob,
      sr_diagnosis = diagnosis_component d ob, sr_evidence = evidence_component d ob,
      sr_workflow = workflow_component d ob, sr_safety = safety_component d ob,
      sr_approval = approval_component d ob, sr_workorder = workorder_component d ob,
      sr_measurements = measurements_of d ob, sr_failures = scenario_failures (scenario_components d ob)\<rparr>"

section \<open>Suite metrics\<close>

definition rate :: "nat \<Rightarrow> nat \<Rightarrow> rat option" where
  "rate numerator denominator =
     (if denominator = 0 then None else Some (of_nat numerator / of_nat denominator))"

text \<open>Linear interpolation between the two neighbours of a position in the sorted sample.\<close>

definition scenario_percentile :: "rat list \<Rightarrow> rat \<Rightarrow> rat option" where
  "scenario_percentile values quantile =
     (if values = [] then None
      else
        (let ordered = sort values; position = of_nat (length ordered - 1) * quantile;
             lower = nat \<lfloor>position\<rfloor>; upper = nat \<lceil>position\<rceil>
         in if lower = upper then Some (ordered ! lower)
            else Some (ordered ! lower + (ordered ! upper - ordered ! lower) * (position - of_nat lower))))"

record evaluation_metrics =
  em_scenario_total :: nat
  em_passed :: nat
  em_failed :: nat
  em_blocked :: nat
  em_detection_rate :: "rat option"
  em_normal_false_alarm_rate :: "rat option"
  em_incident_compression :: "rat option"
  em_diagnosis_accuracy :: "rat option"
  em_latency_median_ms :: "rat option"
  em_latency_p95_ms :: "rat option"
  em_evidence_sufficiency_rate :: "rat option"
  em_workflow_completion_rate :: "rat option"
  em_routing_accuracy :: "rat option"
  em_unsafe_recommendation_block_rate :: "rat option"
  em_approval_to_workorder_success_rate :: "rat option"
  em_workorder_exactly_once_rate :: "rat option"

text \<open>The measurements of the results whose component was not blocked and that the metric is about.\<close>

definition measured ::
  "(scenario_result \<Rightarrow> component_result) \<Rightarrow> (scenario_measurements \<Rightarrow> bool) \<Rightarrow> scenario_result list
    \<Rightarrow> scenario_measurements list" where
  "measured part P results =
     filter P (map sr_measurements (filter (\<lambda>r. cr_status (part r) \<noteq> CS_BLOCKED) results))"

definition rate_of :: "(scenario_measurements \<Rightarrow> bool) \<Rightarrow> scenario_measurements list \<Rightarrow> rat option" where
  "rate_of P ms = rate (length (filter P ms)) (length ms)"

definition count_status :: "ResultStatus \<Rightarrow> scenario_result list \<Rightarrow> nat" where
  "count_status s results = length (filter (\<lambda>r. sr_status r = s) results)"

definition incident_compression :: "scenario_result list \<Rightarrow> rat option" where
  "incident_compression results =
     (let runs = filter (\<lambda>r. cr_status (sr_alarm r) \<noteq> CS_BLOCKED \<and> cr_status (sr_incident r) \<noteq> CS_BLOCKED) results;
          occurrences = sum_list (map (sm_alarm_occurrences \<circ> sr_measurements) runs);
          incidents = sum_list (map (sm_incident_count \<circ> sr_measurements) runs)
      in if occurrences = 0 then None else Some (1 - of_int incidents / of_int occurrences))"

definition compute_metrics :: "scenario_result list \<Rightarrow> evaluation_metrics" where
  "compute_metrics results =
     (let diagnosable = measured sr_diagnosis sm_diagnosable results;
          workflows = measured sr_workflow sm_workflow_required results;
          latencies = List.map_filter sm_incident_to_diagnosis_latency_ms diagnosable
      in \<lparr>em_scenario_total = length results, em_passed = count_status RS_PASS results,
          em_failed = count_status RS_FAIL results, em_blocked = count_status RS_BLOCKED results,
          em_detection_rate = rate_of sm_alarm_detected (measured sr_alarm sm_is_fault_scenario results),
          em_normal_false_alarm_rate =
            rate_of sm_alarm_detected (measured sr_alarm (\<lambda>m. \<not> sm_is_fault_scenario m) results),
          em_incident_compression = incident_compression results,
          em_diagnosis_accuracy = rate_of sm_diagnosis_correct diagnosable,
          em_latency_median_ms = scenario_percentile latencies (1/2),
          em_latency_p95_ms = scenario_percentile latencies (95/100),
          em_evidence_sufficiency_rate =
            rate_of sm_evidence_sufficient (measured sr_evidence sm_evidence_required results),
          em_workflow_completion_rate = rate_of sm_workflow_completed workflows,
          em_routing_accuracy = rate_of sm_routing_correct (filter sm_routing_expected workflows),
          em_unsafe_recommendation_block_rate =
            rate_of sm_unsafe_blocked (measured sr_safety sm_unsafe_case results),
          em_approval_to_workorder_success_rate =
            rate_of sm_workorder_created (measured sr_approval sm_approval_attempted results),
          em_workorder_exactly_once_rate =
            rate_of (\<lambda>m. sm_workorder_count m = 1) (measured sr_workorder sm_workorder_created results)\<rparr>)"

end
