(* ===== verification/ScenarioProps.thy ===== *)
theory ScenarioProps
  imports Scenario
begin

text \<open>
  Properties of the acceptance scenarios: what a verdict means, and that the suite metrics are rates
  that never contradict the verdicts.
\<close>

section \<open>Verdicts\<close>

lemma component_status [simp]:
  "cr_status (component p ob b m) = CS_PASS \<longleftrightarrow> b = None \<and> p"
  "cr_status (component p ob b m) = CS_FAIL \<longleftrightarrow> b = None \<and> \<not> p"
  "cr_status (component p ob b m) = CS_BLOCKED \<longleftrightarrow> b \<noteq> None"
  "cr_status (component p ob b m) \<noteq> CS_NOT_RUN"
  by (auto simp: component_def split: option.splits)

lemmas component_defs =
  alarm_component_def incident_component_def diagnosis_component_def evidence_component_def
  workflow_component_def safety_component_def approval_component_def workorder_component_def

definition scenario_checks :: "scenario_definition \<Rightarrow> observed_scenario \<Rightarrow> (string \<times> string option \<times> bool) list" where
  "scenario_checks d ob =
     [(''alarm'', blocked_of ''alarm'' ob, alarm_ok d ob), (''incident'', blocked_of ''incident'' ob, incident_ok d ob),
      (''diagnosis'', blocked_of ''diagnosis'' ob, diagnosis_ok d ob),
      (''evidence'', blocked_of ''evidence'' ob, evidence_ok d ob),
      (''workflow'', workflow_block ob, workflow_ok d ob), (''safety'', blocked_of ''safety'' ob, safety_ok d ob),
      (''approval'', blocked_of ''approval'' ob, approval_ok d ob),
      (''workorder'', blocked_of ''workorder'' ob, workorder_ok d ob)]"

definition check_fails :: "string \<times> string option \<times> bool \<Rightarrow> bool" where
  "check_fails ch \<longleftrightarrow> fst (snd ch) = None \<and> \<not> snd (snd ch)"

definition check_passes :: "string \<times> string option \<times> bool \<Rightarrow> bool" where
  "check_passes ch \<longleftrightarrow> fst (snd ch) = None \<and> snd (snd ch)"

definition check_agrees :: "string \<times> component_result \<Rightarrow> string \<times> string option \<times> bool \<Rightarrow> bool" where
  "check_agrees nc ch \<longleftrightarrow> fst nc = fst ch \<and>
     cr_status (snd nc) = (if check_fails ch then CS_FAIL else if check_passes ch then CS_PASS else CS_BLOCKED)"

lemma component_agrees [simp]: "check_agrees (n, component p ob b m) (n, b, p)"
  by (simp add: check_agrees_def check_fails_def check_passes_def)

lemma components_agree: "list_all2 check_agrees (scenario_components d ob) (scenario_checks d ob)"
  by (simp add: scenario_components_def scenario_checks_def component_defs)

lemma failures_of_agreeing:
  "list_all2 check_agrees cs chs \<Longrightarrow> map ef_component (scenario_failures cs) = map fst (filter check_fails chs)"
  by (induction rule: list_all2_induct)
    (simp_all add: scenario_failures_def failure_of_def check_agrees_def)

lemma blocked_of_agreeing:
  "list_all2 check_agrees cs chs \<Longrightarrow>
     (\<exists>nc \<in> set cs. cr_status (snd nc) = CS_BLOCKED) \<longleftrightarrow> (\<exists>ch \<in> set chs. \<not> check_fails ch \<and> \<not> check_passes ch)"
  by (induction rule: list_all2_induct) (simp_all add: check_agrees_def)

lemma result_status_of_agreeing:
  assumes "list_all2 check_agrees cs chs"
  shows "result_status cs = RS_PASS \<longleftrightarrow> (\<forall>ch \<in> set chs. check_passes ch)"
    and "result_status cs = RS_FAIL \<longleftrightarrow> (\<exists>ch \<in> set chs. check_fails ch)"
proof -
  have "scenario_failures cs = [] \<longleftrightarrow> map fst (filter check_fails chs) = []"
    using failures_of_agreeing [OF assms] by (metis map_is_Nil_conv)
  then have none: "scenario_failures cs = [] \<longleftrightarrow> (\<forall>ch \<in> set chs. \<not> check_fails ch)"
    by (auto simp: filter_empty_conv)
  have passes: "check_passes ch \<Longrightarrow> \<not> check_fails ch" for ch by (simp add: check_fails_def check_passes_def)
  show "result_status cs = RS_PASS \<longleftrightarrow> (\<forall>ch \<in> set chs. check_passes ch)"
    unfolding result_status_def using none passes blocked_of_agreeing [OF assms] by auto
  show "result_status cs = RS_FAIL \<longleftrightarrow> (\<exists>ch \<in> set chs. check_fails ch)"
    unfolding result_status_def using none by auto
qed

text \<open>
  C39 (functional). The verdict of a run. It passes exactly when nothing is blocked - a run on the mock
  provider always is - and every expectation is met; it fails exactly when some check that is not
  blocked is not met, whatever else is blocked, and the failures it lists are those checks, in order.
  A run that passes authorised no execution and has a work order only when the scenario asked for an
  approval and a person gave it; and where the scenario demands a block, one was measured.
\<close>

theorem scenario_verdict:
  fixes d :: scenario_definition and ob :: observed_scenario and started_at :: instant and duration_ms :: rat
  defines "r \<equiv> evaluate_scenario d ob started_at duration_ms"
  shows "(sr_status r = RS_PASS \<longleftrightarrow> (\<forall>ch \<in> set (scenario_checks d ob). fst (snd ch) = None \<and> snd (snd ch))) \<and>
    (sr_status r = RS_FAIL \<longleftrightarrow> sr_failures r \<noteq> []) \<and>
    map ef_component (sr_failures r) =
      map fst (filter (\<lambda>ch. fst (snd ch) = None \<and> \<not> snd (snd ch)) (scenario_checks d ob)) \<and>
    (sr_status r = RS_PASS \<longrightarrow>
       ob_workflow_provider ob \<noteq> Some ''test'' \<and> \<not> ob_execution_authorized ob \<and>
       (ob_workorder_count ob = 0 \<or>
          ob_workorder_count ob = 1 \<and> ex_approve (sd_execution d) \<and> ob_approval_status ob = Some ''APPROVED'') \<and>
       sm_unsafe_blocked (sr_measurements r) = xe_must_block (exp_safety (sd_expected d)))"
proof -
  have status: "sr_status r = result_status (scenario_components d ob)"
    and failures: "sr_failures r = scenario_failures (scenario_components d ob)"
    and measured: "sr_measurements r = measurements_of d ob"
    by (simp_all add: r_def evaluate_scenario_def)
  have fails: "check_fails = (\<lambda>ch. fst (snd ch) = None \<and> \<not> snd (snd ch))"
    and passes: "check_passes = (\<lambda>ch. fst (snd ch) = None \<and> snd (snd ch))"
    by (auto simp: check_fails_def check_passes_def)
  have pass: "sr_status r = RS_PASS \<longleftrightarrow> (\<forall>ch \<in> set (scenario_checks d ob). fst (snd ch) = None \<and> snd (snd ch))"
    using result_status_of_agreeing(1) [OF components_agree [of d ob]] status passes by metis
  moreover have "sr_status r = RS_FAIL \<longleftrightarrow> sr_failures r \<noteq> []"
    unfolding status failures by (simp add: result_status_def)
  moreover have "map ef_component (sr_failures r) =
      map fst (filter (\<lambda>ch. fst (snd ch) = None \<and> \<not> snd (snd ch)) (scenario_checks d ob))"
    using failures_of_agreeing [OF components_agree [of d ob]] failures fails by metis
  moreover have "ob_workflow_provider ob \<noteq> Some ''test'' \<and> \<not> ob_execution_authorized ob \<and>
       (ob_workorder_count ob = 0 \<or>
          ob_workorder_count ob = 1 \<and> ex_approve (sd_execution d) \<and> ob_approval_status ob = Some ''APPROVED'') \<and>
       sm_unsafe_blocked (sr_measurements r) = xe_must_block (exp_safety (sd_expected d))"
    if "sr_status r = RS_PASS"
  proof -
    from that pass have "workflow_block ob = None" "safety_ok d ob" "approval_ok d ob" "workorder_ok d ob"
      by (simp_all add: scenario_checks_def)
    then show ?thesis unfolding measured
      by (auto simp: workflow_block_def safety_ok_def approval_ok_def workorder_ok_def expected_orders_def
          measurements_of_def unsafe_blocked_def split: if_splits)
  qed
  ultimately show ?thesis by blast
qed

section \<open>Suite metrics\<close>

definition is_rate :: "rat option \<Rightarrow> bool" where
  "is_rate r \<longleftrightarrow> (case r of None \<Rightarrow> True | Some q \<Rightarrow> 0 \<le> q \<and> q \<le> 1)"

lemma is_rate_of [simp]: "is_rate (rate_of P ms)"
proof (cases "rate_of P ms")
  case (Some q)
  then have "q = of_nat (length (filter P ms)) / of_nat (length ms)" "length ms \<noteq> 0"
    by (auto simp: rate_of_def rate_def split: if_splits)
  then have "0 \<le> q \<and> q \<le> 1" by (simp add: divide_le_eq length_filter_le)
  with Some show ?thesis by (simp add: is_rate_def)
qed (simp add: is_rate_def)

lemma rate_of_all: "(\<And>m. m \<in> set ms \<Longrightarrow> P m) \<Longrightarrow> rate_of P ms \<in> {None, Some 1}"
proof -
  assume all: "\<And>m. m \<in> set ms \<Longrightarrow> P m"
  then have "filter P ms = ms" by simp
  then show ?thesis by (auto simp: rate_of_def rate_def)
qed

text \<open>A percentile by interpolation lies between its neighbours and grows with the quantile.\<close>

definition interpolate :: "rat list \<Rightarrow> rat \<Rightarrow> rat" where
  "interpolate xs p =
     xs ! nat \<lfloor>p\<rfloor> + (xs ! nat \<lceil>p\<rceil> - xs ! nat \<lfloor>p\<rfloor>) * (p - of_nat (nat \<lfloor>p\<rfloor>))"

lemma scenario_percentile_interpolate:
  "values \<noteq> [] \<Longrightarrow>
     scenario_percentile values q = Some (interpolate (sort values) (of_nat (length values - 1) * q))"
  by (simp add: scenario_percentile_def interpolate_def Let_def)

lemma interpolate_between:
  assumes "sorted xs" and "0 \<le> p" and "nat \<lceil>p\<rceil> < length xs"
  shows "xs ! nat \<lfloor>p\<rfloor> \<le> interpolate xs p" and "interpolate xs p \<le> xs ! nat \<lceil>p\<rceil>"
proof -
  have "nat \<lfloor>p\<rfloor> \<le> nat \<lceil>p\<rceil>" using floor_le_ceiling [of p] by (rule nat_mono)
  then have d: "0 \<le> xs ! nat \<lceil>p\<rceil> - xs ! nat \<lfloor>p\<rfloor>" using assms(1,3) by (simp add: sorted_nth_mono)
  have f: "0 \<le> p - of_nat (nat \<lfloor>p\<rfloor>)" "p - of_nat (nat \<lfloor>p\<rfloor>) \<le> 1" using assms(2) by linarith+
  from mult_nonneg_nonneg [OF d f(1)] mult_left_mono [OF f(2) d]
  show "xs ! nat \<lfloor>p\<rfloor> \<le> interpolate xs p" "interpolate xs p \<le> xs ! nat \<lceil>p\<rceil>"
    by (simp_all add: interpolate_def)
qed

lemma interpolate_mono:
  assumes xs: "sorted xs" and "0 \<le> p" and "p \<le> p'" and len: "nat \<lceil>p'\<rceil> < length xs"
  shows "interpolate xs p \<le> interpolate xs p'"
proof (cases "\<lfloor>p\<rfloor> = \<lfloor>p'\<rfloor> \<and> \<lceil>p\<rceil> = \<lceil>p'\<rceil>")
  case True
  have "nat \<lfloor>p'\<rfloor> \<le> nat \<lceil>p'\<rceil>" using floor_le_ceiling [of p'] by (rule nat_mono)
  then have "0 \<le> xs ! nat \<lceil>p'\<rceil> - xs ! nat \<lfloor>p'\<rfloor>" using xs len by (simp add: sorted_nth_mono)
  moreover have "p - of_nat (nat \<lfloor>p'\<rfloor>) \<le> p' - of_nat (nat \<lfloor>p'\<rfloor>)" using assms(3) by simp
  ultimately have "(xs ! nat \<lceil>p'\<rceil> - xs ! nat \<lfloor>p'\<rfloor>) * (p - of_nat (nat \<lfloor>p'\<rfloor>)) \<le>
      (xs ! nat \<lceil>p'\<rceil> - xs ! nat \<lfloor>p'\<rfloor>) * (p' - of_nat (nat \<lfloor>p'\<rfloor>))" by (intro mult_left_mono)
  with True show ?thesis by (simp add: interpolate_def)
next
  case False
  then have le: "\<lceil>p\<rceil> \<le> \<lfloor>p'\<rfloor> \<or> p = of_int \<lfloor>p\<rfloor>" using assms(3) by linarith
  have "nat \<lceil>p\<rceil> \<le> nat \<lceil>p'\<rceil>" using ceiling_mono [OF assms(3)] by (rule nat_mono)
  then have up: "interpolate xs p \<le> xs ! nat \<lceil>p\<rceil>" using assms len by (intro interpolate_between) auto
  have low: "xs ! nat \<lfloor>p'\<rfloor> \<le> interpolate xs p'" using assms by (intro interpolate_between) auto
  have "nat \<lceil>p\<rceil> \<le> nat \<lfloor>p'\<rfloor>"
  proof (cases "p = of_int \<lfloor>p\<rfloor>")
    case True
    then have "\<lceil>p\<rceil> = \<lfloor>p\<rfloor>" by (metis ceiling_of_int)
    with floor_mono [OF assms(3)] show ?thesis by simp
  next
    case False
    with le show ?thesis by (auto intro: nat_mono)
  qed
  moreover have "nat \<lfloor>p'\<rfloor> < length xs" using len nat_mono [OF floor_le_ceiling [of p']] by linarith
  ultimately have "xs ! nat \<lceil>p\<rceil> \<le> xs ! nat \<lfloor>p'\<rfloor>" using xs by (simp add: sorted_nth_mono)
  with up low show ?thesis by linarith
qed

lemma scenario_percentile_ordered:
  assumes "scenario_percentile xs (1/2) = Some a" and "scenario_percentile xs (95/100) = Some b"
    and "\<forall>x \<in> set xs. 0 \<le> x"
  shows "0 \<le> a \<and> a \<le> b"
proof -
  let ?n = "of_nat (length xs - 1) :: rat"
  from assms(1) have ne: "xs \<noteq> []" by (auto simp: scenario_percentile_def)
  then have a: "a = interpolate (sort xs) (?n * (1/2))" and b: "b = interpolate (sort xs) (?n * (95/100))"
    using assms by (simp_all add: scenario_percentile_interpolate)
  have below: "nat \<lceil>?n * q\<rceil> < length (sort xs)" if "q \<le> 1" for q
  proof -
    have "?n * q \<le> ?n * 1" using that by (intro mult_left_mono) simp_all
    then have "\<lceil>?n * q\<rceil> \<le> int (length xs - 1)" unfolding ceiling_le_iff by simp
    moreover have "int (length xs - 1) < int (length (sort xs))" "0 < length (sort xs)" using ne by simp_all
    ultimately show ?thesis by linarith
  qed
  have len: "nat \<lceil>?n * (95/100)\<rceil> < length (sort xs)" and len2: "nat \<lceil>?n * (1/2)\<rceil> < length (sort xs)"
    by (rule below, simp)+
  have "nat \<lfloor>?n * (1/2)\<rfloor> < length (sort xs)"
    using len2 nat_mono [OF floor_le_ceiling [of "?n * (1/2)"]] by linarith
  then have "sort xs ! nat \<lfloor>?n * (1/2)\<rfloor> \<in> set xs" by (metis nth_mem set_sort)
  then have "0 \<le> sort xs ! nat \<lfloor>?n * (1/2)\<rfloor>" using assms(3) by blast
  also have "\<dots> \<le> a" unfolding a by (rule interpolate_between(1) [OF sorted_sort _ len2]) simp
  finally have "0 \<le> a" .
  moreover have "a \<le> b" unfolding a b
    by (rule interpolate_mono [OF sorted_sort _ _ len]) (simp, rule mult_left_mono, simp_all)
  ultimately show ?thesis by blast
qed

lemma count_status_total:
  "count_status RS_PASS rs + count_status RS_FAIL rs + count_status RS_BLOCKED rs = length rs"
proof (induction rs)
  case (Cons r rs)
  then show ?case by (cases "sr_status r") (simp_all add: count_status_def)
qed (simp add: count_status_def)

text \<open>A scenario, what its run observed, its start and its duration.\<close>

definition run_result :: "scenario_definition \<times> observed_scenario \<times> instant \<times> rat \<Rightarrow> scenario_result" where
  "run_result run = (case run of (d, ob, t, ms) \<Rightarrow> evaluate_scenario d ob t ms)"

definition unfailed :: "(scenario_result \<Rightarrow> component_result) \<Rightarrow> scenario_result list \<Rightarrow> bool" where
  "unfailed part rs \<longleftrightarrow> (\<forall>r \<in> set rs. cr_status (part r) \<noteq> CS_FAIL)"

lemma no_failures_unfailed:
  assumes "count_status RS_FAIL (map run_result runs) = 0"
    and "part \<in> {sr_diagnosis, sr_evidence, sr_workflow, sr_safety, sr_workorder}"
  shows "unfailed part (map run_result runs)"
proof -
  have "cr_status (part (evaluate_scenario d ob t ms)) \<noteq> CS_FAIL" if "(d, ob, t, ms) \<in> set runs" for d ob t ms
  proof -
    from assms(1) that have "result_status (scenario_components d ob) \<noteq> RS_FAIL"
      by (force simp: count_status_def filter_empty_conv run_result_def evaluate_scenario_def)
    then have "\<forall>nc \<in> set (scenario_components d ob). cr_status (snd nc) \<noteq> CS_FAIL"
      by (auto simp: result_status_def scenario_failures_def filter_empty_conv split: if_splits)
    then show ?thesis using assms(2) by (auto simp: scenario_components_def evaluate_scenario_def)
  qed
  then show ?thesis by (auto simp: unfailed_def run_result_def)
qed

lemma measured_all:
  assumes "unfailed part (map run_result runs)"
    and "\<And>d ob t ms. part (evaluate_scenario d ob t ms) = component (ok d ob) (seen d ob) (why d ob) (msg d ob)"
    and "\<And>d ob. ok d ob \<Longrightarrow> P (measurements_of d ob) \<Longrightarrow> Q (measurements_of d ob)"
  shows "rate_of Q (measured part P (map run_result runs)) \<in> {None, Some 1}"
proof (rule rate_of_all)
  fix m assume "m \<in> set (measured part P (map run_result runs))"
  then obtain d ob t ms where run: "(d, ob, t, ms) \<in> set runs" and m: "m = measurements_of d ob" "P m"
    and free: "cr_status (part (evaluate_scenario d ob t ms)) \<noteq> CS_BLOCKED"
    by (force simp: measured_def run_result_def evaluate_scenario_def)
  from run assms(1) have "cr_status (part (evaluate_scenario d ob t ms)) \<noteq> CS_FAIL"
    by (force simp: unfailed_def run_result_def)
  with free have "ok d ob" unfolding assms(2) by simp
  with m assms(3) show "Q m" by simp
qed

lemma routing_unmeasured: "\<forall>m \<in> set (measured part P (map run_result runs)). \<not> sm_routing_expected m"
  by (auto simp: measured_def run_result_def evaluate_scenario_def measurements_of_def)

lemma latencies_nonneg:
  "\<forall>x \<in> set (List.map_filter sm_incident_to_diagnosis_latency_ms (measured part P (map run_result runs))). 0 \<le> x"
  by (auto simp: map_filter_def measured_def run_result_def evaluate_scenario_def measurements_of_def
      incident_latency_ms_def split: option.splits)

text \<open>
  C40 (bounds). The metrics of a suite, for whatever was observed. The verdicts partition the runs;
  every rate that is reported lies between 0 and 1, latencies are not negative and the median is at
  most the 95th percentile. In a suite without a failed run every quality rate that is reported is 1 -
  in particular the block rate of unsafe recommendations, so that a scenario can not lower it while its
  safety check passes. The routing accuracy is never reported.
\<close>

theorem suite_metrics_sound:
  fixes runs :: "(scenario_definition \<times> observed_scenario \<times> instant \<times> rat) list"
  defines "m \<equiv> compute_metrics (map run_result runs)"
  shows "em_passed m + em_failed m + em_blocked m = length runs \<and>
    (\<forall>r \<in> {em_detection_rate m, em_normal_false_alarm_rate m, em_diagnosis_accuracy m,
        em_evidence_sufficiency_rate m, em_workflow_completion_rate m, em_unsafe_recommendation_block_rate m,
        em_approval_to_workorder_success_rate m, em_workorder_exactly_once_rate m}. is_rate r) \<and>
    (\<forall>a b. em_latency_median_ms m = Some a \<longrightarrow> em_latency_p95_ms m = Some b \<longrightarrow> 0 \<le> a \<and> a \<le> b) \<and>
    (em_failed m = 0 \<longrightarrow>
      (\<forall>r \<in> {em_diagnosis_accuracy m, em_evidence_sufficiency_rate m, em_workflow_completion_rate m,
         em_unsafe_recommendation_block_rate m, em_workorder_exactly_once_rate m}. r \<in> {None, Some 1})) \<and>
    em_routing_accuracy m = None"
proof -
  let ?rs = "map run_result runs"
  note fields = m_def compute_metrics_def Let_def evaluation_metrics.select_convs
  have "em_passed m + em_failed m + em_blocked m = length runs"
    using count_status_total [of ?rs] by (simp add: fields)
  moreover have "\<forall>r \<in> {em_detection_rate m, em_normal_false_alarm_rate m, em_diagnosis_accuracy m,
        em_evidence_sufficiency_rate m, em_workflow_completion_rate m, em_unsafe_recommendation_block_rate m,
        em_approval_to_workorder_success_rate m, em_workorder_exactly_once_rate m}. is_rate r"
    unfolding fields by simp
  moreover have "\<forall>a b. em_latency_median_ms m = Some a \<longrightarrow> em_latency_p95_ms m = Some b \<longrightarrow> 0 \<le> a \<and> a \<le> b"
    unfolding fields using scenario_percentile_ordered latencies_nonneg by blast
  moreover have "em_failed m = 0 \<longrightarrow>
      (\<forall>r \<in> {em_diagnosis_accuracy m, em_evidence_sufficiency_rate m, em_workflow_completion_rate m,
         em_unsafe_recommendation_block_rate m, em_workorder_exactly_once_rate m}. r \<in> {None, Some 1})"
  proof (intro impI ballI)
    fix r assume failed: "em_failed m = 0" and r: "r \<in> {em_diagnosis_accuracy m, em_evidence_sufficiency_rate m,
      em_workflow_completion_rate m, em_unsafe_recommendation_block_rate m, em_workorder_exactly_once_rate m}"
    from failed have "count_status RS_FAIL ?rs = 0" by (simp add: fields)
    note ok = no_failures_unfailed [OF this]
    have "em_diagnosis_accuracy m \<in> {None, Some 1}" unfolding fields
      by (rule measured_all [where ok = diagnosis_ok, OF ok])
        (auto simp: evaluate_scenario_def diagnosis_component_def measurements_of_def diagnosis_ok_def
          split: option.splits)
    moreover have "em_evidence_sufficiency_rate m \<in> {None, Some 1}" unfolding fields
      by (rule measured_all [where ok = evidence_ok, OF ok])
        (simp_all add: evaluate_scenario_def evidence_component_def measurements_of_def)
    moreover have "em_workflow_completion_rate m \<in> {None, Some 1}" unfolding fields
      by (rule measured_all [where ok = workflow_ok, OF ok])
        (simp_all add: evaluate_scenario_def workflow_component_def measurements_of_def)
    moreover have "em_unsafe_recommendation_block_rate m \<in> {None, Some 1}" unfolding fields
      by (rule measured_all [where ok = safety_ok, OF ok])
        (simp_all add: evaluate_scenario_def safety_component_def measurements_of_def safety_ok_def unsafe_blocked_def)
    moreover have "em_workorder_exactly_once_rate m \<in> {None, Some 1}" unfolding fields
      by (rule measured_all [where ok = workorder_ok, OF ok])
        (auto simp: evaluate_scenario_def workorder_component_def measurements_of_def workorder_ok_def
          expected_orders_def split: if_splits)
    ultimately show "r \<in> {None, Some 1}" using r by blast
  qed
  moreover have "em_routing_accuracy m = None"
    unfolding fields using routing_unmeasured [of sr_workflow sm_workflow_required runs]
    by (simp add: rate_of_def rate_def)
  ultimately show ?thesis by (intro conjI)
qed

section \<open>A scenario\<close>

definition bearing_wear :: scenario_definition where
  "bearing_wear =
     \<lparr>sd_scenario_id = ''s01_bearing_wear'', sd_description = ''Bearing wear'', sd_kind = SK_SINGLE_FAULT,
      sd_device_id = ''motor-1'', sd_device_type = ''MOTOR'',
      sd_fault = Some \<lparr>fsp_type = FT_BEARING_WEAR, fsp_severity = Fin 1, fsp_target_signal = None\<rparr>,
      sd_failure = None,
      sd_execution = \<lparr>ex_sample_interval_seconds = Fin 1, ex_warmup_seconds = 30, ex_fault_duration_seconds = 60,
        ex_recovery_seconds = 30, ex_approve = True\<rparr>,
      sd_expected =
        \<lparr>exp_alarm = \<lparr>ae_required = True, ae_severity = Some ''HIGH'', ae_max_instances = Some 5,
           ae_cleared_after_recovery = False\<rparr>,
         exp_incident = \<lparr>ie_required = True, ie_max_count = Some 1\<rparr>,
         exp_diagnosis = \<lparr>de_required = True, de_expected_fault = Some FT_BEARING_WEAR\<rparr>,
         exp_evidence = \<lparr>ve_required = True, ve_accepted_sufficiency = [''SUFFICIENT'']\<rparr>,
         exp_workflow = \<lparr>we_required = True, we_expected_status = Some ''WORK_ORDER_CREATED''\<rparr>,
         exp_safety = \<lparr>xe_unsafe_execution_allowed = False, xe_must_block = False\<rparr>,
         exp_workorder = \<lparr>oe_after_approval = True, oe_max_count = 1\<rparr>\<rparr>\<rparr>"

definition bearing_run :: observed_scenario where
  "bearing_run =
     \<lparr>ob_alarm_count = 2, ob_alarm_occurrences = 40, ob_alarm_severities = [''MEDIUM'', ''HIGH''],
      ob_alarm_cleared = False, ob_incident_count = 1, ob_incident_created_at = Some 1000000,
      ob_diagnosis_status = Some ''FAULT'', ob_diagnosis_fault = Some ''BEARING_WEAR'',
      ob_diagnosis_created_at = Some 1250000, ob_evidence_sufficiency = Some ''SUFFICIENT'',
      ob_evidence_count = 3, ob_workflow_status = Some ''WORK_ORDER_CREATED'',
      ob_workflow_provider = Some ''openai_compatible'', ob_workflow_count = 1,
      ob_policy_decision = Some ''REQUIRES_APPROVAL'', ob_approval_status = Some ''APPROVED'',
      ob_workorder_count = 1, ob_execution_authorized = False, ob_mqtt_disconnected = False,
      ob_mqtt_reconnected = False, ob_gateway_degraded = False, ob_gateway_recovered = False,
      ob_governance_error = None, ob_governance_failed_closed = False, ob_blocked = []\<rparr>"

lemma bearing_wear_valid: "validate_kind bearing_wear = Inr bearing_wear" "scenario_fields_ok bearing_wear"
  by (simp_all add: validate_kind_def scenario_fields_ok_def scenario_id_ok_def text_between_def bearing_wear_def
      float_le_def)

lemma bearing_run_passes: "\<forall>ch \<in> set (scenario_checks bearing_wear bearing_run). fst (snd ch) = None \<and> snd (snd ch)"
  by (simp add: scenario_checks_def blocked_of_def workflow_block_def alarm_ok_def incident_ok_def diagnosis_ok_def
      evidence_ok_def workflow_ok_def workflow_base_ok_def safety_ok_def approval_ok_def workorder_ok_def
      expected_orders_def fault_type_value_def bearing_wear_def bearing_run_def)

theorem scenario_verdict_witness:
  "sr_status (evaluate_scenario bearing_wear bearing_run 0 1) = RS_PASS \<and> ob_workorder_count bearing_run = 1 \<and>
   ob_approval_status bearing_run = Some ''APPROVED'' \<and>
   \<not> sm_unsafe_blocked (sr_measurements (evaluate_scenario bearing_wear bearing_run 0 1))"
proof -
  note verdict = scenario_verdict [of bearing_wear bearing_run 0 1]
  from verdict bearing_run_passes have "sr_status (evaluate_scenario bearing_wear bearing_run 0 1) = RS_PASS" by blast
  moreover have "ob_workorder_count bearing_run = 1" "\<not> xe_must_block (exp_safety (sd_expected bearing_wear))"
    by (simp_all add: bearing_run_def bearing_wear_def)
  ultimately show ?thesis using verdict by auto
qed

theorem suite_metrics_sound_witness:
  "em_failed (compute_metrics (map run_result [(bearing_wear, bearing_run, 0, 1)])) = 0 \<and>
   em_latency_median_ms (compute_metrics (map run_result [(bearing_wear, bearing_run, 0, 1)])) = Some 250 \<and>
   em_diagnosis_accuracy (compute_metrics (map run_result [(bearing_wear, bearing_run, 0, 1)])) \<in> {None, Some 1}"
proof -
  let ?runs = "[(bearing_wear, bearing_run, 0, 1)]"
  have pass: "result_status (scenario_components bearing_wear bearing_run) = RS_PASS"
    using result_status_of_agreeing(1) [OF components_agree] bearing_run_passes check_passes_def by blast
  then have failed: "em_failed (compute_metrics (map run_result ?runs)) = 0"
    by (simp add: compute_metrics_def Let_def count_status_def run_result_def evaluate_scenario_def)
  moreover have "cr_status (diagnosis_component bearing_wear bearing_run) = CS_PASS"
    using bearing_run_passes by (simp add: diagnosis_component_def scenario_checks_def)
  then have "em_latency_median_ms (compute_metrics (map run_result ?runs)) = Some 250"
    by (simp add: compute_metrics_def Let_def run_result_def evaluate_scenario_def measured_def measurements_of_def
        map_filter_def scenario_percentile_def incident_latency_ms_def bearing_wear_def bearing_run_def)
  ultimately show ?thesis using suite_metrics_sound [of ?runs] by blast
qed

end
