(* ===== verification/ProviderProps.thy ===== *)
theory ProviderProps
  imports Provider GraphLemmas WorkflowDemo
begin

text \<open>
  Properties of the model providers: the exchanges of one structured call, and what the agent graph
  decides when the deterministic test provider answers.
\<close>

section \<open>Structured calls\<close>

lemma get_item_exc: "get_item v k = Inl e \<Longrightarrow> e \<in> {KeyError, TypeError}"
  by (auto simp: get_item_def split: json.splits option.splits)

lemma get_first_exc:
  "get_first v = Inl e \<Longrightarrow> e \<in> {KeyError, TypeError} \<or> e = IndexError \<and> v \<in> {JList [], JStr []}"
  by (auto simp: get_first_def split: json.splits list.splits)

lemma next_call_exc: "next_call name items = Inl e \<Longrightarrow> e \<in> {KeyError, TypeError, StopIteration}"
  by (induction items) (auto simp: bindE_Inl_iff split: if_splits dest: get_item_exc)

lemma iterate_exc: "iterate v = Inl e \<Longrightarrow> e = TypeError"
  by (auto simp: iterate_def split: json.splits)

lemma tool_arguments_exc:
  "tool_arguments name body = Inl e \<Longrightarrow>
     e \<in> {KeyError, TypeError, StopIteration} \<or>
     e = IndexError \<and> get_item body ''choices'' \<in> {Inr (JList []), Inr (JStr [])}"
  by (auto simp: tool_arguments_def bindE_Inl_iff dest!: get_item_exc get_first_exc next_call_exc iterate_exc)

lemma decode_uncaught:
  assumes "decode_response validate name body = Uncaught e"
  shows "e = IndexError \<and> get_item body ''choices'' \<in> {Inr (JList []), Inr (JStr [])}"
proof (cases "tool_arguments name body")
  case (Inl x)
  with tool_arguments_exc [OF Inl] assms show ?thesis by (auto simp: decode_response_def)
next
  case (Inr a)
  with assms show ?thesis by (auto simp: decode_response_def split: sum.splits)
qed

definition usage_of :: "exchange \<Rightarrow> (int \<times> int) option" where
  "usage_of x = (case snd x of Inl _ \<Rightarrow> None | Inr body \<Rightarrow> (case body_usage body of Inl _ \<Rightarrow> None | Inr u \<Rightarrow> u))"

definition rejected_with :: "(json \<Rightarrow> schema_issue list + 'a) \<Rightarrow> string \<Rightarrow> exchange \<Rightarrow> schema_issue list \<Rightarrow> bool" where
  "rejected_with validate agent x issues \<longleftrightarrow>
     (\<exists>body. snd x = Inr body \<and> decode_response validate (submit_function agent) body = Invalid issues)"

definition accepted_with :: "(json \<Rightarrow> schema_issue list + 'a) \<Rightarrow> string \<Rightarrow> exchange \<Rightarrow> 'a \<Rightarrow> bool" where
  "accepted_with validate agent x v \<longleftrightarrow>
     (\<exists>body. snd x = Inr body \<and> decode_response validate (submit_function agent) body = Valid v)"

definition malformed :: "python_exc \<Rightarrow> exchange \<Rightarrow> bool" where
  "malformed e x \<longleftrightarrow>
     (\<exists>body. snd x = Inr body \<and>
        (e = AttributeError \<and> body_usage body = Inl AttributeError \<or>
         e = IndexError \<and> get_item body ''choices'' \<in> {Inr (JList []), Inr (JStr [])}))"

lemma body_usage_exc: "body_usage body = Inl e \<Longrightarrow> e = AttributeError"
  by (auto simp: body_usage_def split: json.splits option.splits)

text \<open>What an outcome says of the exchanges, of which the first was number \<open>attempt\<close>.\<close>

definition outcome_ok ::
  "(json \<Rightarrow> schema_issue list + 'a) \<Rightarrow> string \<Rightarrow> nat \<Rightarrow> nat \<Rightarrow> (int \<times> int) option \<Rightarrow> 'a generated \<Rightarrow> exchange list \<Rightarrow> bool"
where
  "outcome_ok validate agent attempt left tokens r xs \<longleftrightarrow>
     (let last_attempt = attempt + length xs - 1; total = foldl add_usage tokens (map usage_of xs) in
      case r of
        Generated v u \<Rightarrow> accepted_with validate agent (last xs) v \<and>
          u = \<lparr>pu_input_tokens = map_option fst total, pu_output_tokens = map_option snd total,
               pu_request_count = last_attempt, pu_schema_retries = last_attempt - 1\<rparr>
      | SchemaError e \<Rightarrow> length xs = left \<and> rejected_with validate agent (last xs) (pse_errors e) \<and>
          pse_request_count e = last_attempt \<and> pse_schema_retries e = last_attempt - 1
      | TransportError e \<Rightarrow> snd (last xs) = Inl e
      | PythonError e \<Rightarrow> malformed e (last xs))"

definition retries_ok ::
  "(json \<Rightarrow> schema_issue list + 'a) \<Rightarrow> string \<Rightarrow> string \<Rightarrow> exchange list \<Rightarrow> bool" where
  "retries_ok validate agent base xs \<longleftrightarrow>
     (\<forall>i. Suc i < length xs \<longrightarrow>
        (\<exists>issues. rejected_with validate agent (xs ! i) issues \<and>
           fst (xs ! Suc i) = base @ validation_feedback issues))"

lemma retries_ok_Cons:
  assumes "rejected_with validate agent x issues" and "fst (hd xs) = base @ validation_feedback issues"
    and "xs \<noteq> []" and "retries_ok validate agent base xs"
  shows "retries_ok validate agent base (x # xs)"
  unfolding retries_ok_def
proof (intro allI impI)
  fix i assume i: "Suc i < length (x # xs)"
  show "\<exists>issues. rejected_with validate agent ((x # xs) ! i) issues \<and>
      fst ((x # xs) ! Suc i) = base @ validation_feedback issues"
  proof (cases i)
    case 0
    with assms show ?thesis by (auto simp: hd_conv_nth)
  next
    case (Suc j)
    with i assms(4) show ?thesis by (auto simp: retries_ok_def)
  qed
qed

lemma schema_attempts_spec:
  assumes "schema_attempts post validate agent base attempt left feedback tokens = (r, xs)"
    and "0 < left" and "0 < attempt"
  shows "xs \<noteq> [] \<and> length xs \<le> left \<and> fst (hd xs) = base @ feedback \<and>
    (\<forall>i < length xs. snd (xs ! i) = post (attempt + i) (fst (xs ! i))) \<and>
    retries_ok validate agent base xs \<and> outcome_ok validate agent attempt left tokens r xs"
  using assms
proof (induction left arbitrary: attempt feedback tokens r xs)
  case 0
  then show ?case by simp
next
  case (Suc left)
  let ?prompt = "base @ feedback" and ?response = "post attempt (base @ feedback)"
  have single: "retries_ok validate agent base [x]" for x by (simp add: retries_ok_def)
  show ?case
  proof (cases ?response)
    case (Inl e)
    with Suc.prems show ?thesis by (auto simp: Let_def single outcome_ok_def)
  next
    case body: (Inr body)
    show ?thesis
    proof (cases "body_usage body")
      case (Inl e)
      with body Suc.prems body_usage_exc [OF Inl] show ?thesis
        by (auto simp: Let_def single outcome_ok_def malformed_def)
    next
      case u: (Inr u)
      show ?thesis
      proof (cases "decode_response validate (submit_function agent) body")
        case (Valid v)
        with u body Suc.prems show ?thesis
          by (auto simp: Let_def single outcome_ok_def accepted_with_def usage_of_def)
      next
        case (Uncaught e)
        with u body Suc.prems decode_uncaught [OF Uncaught] show ?thesis
          by (auto simp: Let_def single outcome_ok_def malformed_def)
      next
        case inv: (Invalid issues)
        show ?thesis
        proof (cases "left = 0")
          case True
          with inv u body Suc.prems show ?thesis
            by (auto simp: Let_def single outcome_ok_def rejected_with_def)
        next
          case False
          obtain r' ys where rest: "schema_attempts post validate agent base (Suc attempt) left
              (validation_feedback issues) (add_usage tokens u) = (r', ys)" by fastforce
          with False inv u body Suc.prems have r: "r = r'" "xs = (?prompt, ?response) # ys"
            by (simp_all add: Let_def)
          from Suc.IH [OF rest] False have ih: "ys \<noteq> []" "length ys \<le> left"
            "fst (hd ys) = base @ validation_feedback issues"
            "\<forall>i < length ys. snd (ys ! i) = post (Suc attempt + i) (fst (ys ! i))"
            "retries_ok validate agent base ys"
            "outcome_ok validate agent (Suc attempt) left (add_usage tokens u) r' ys" by simp_all
          have rej: "rejected_with validate agent (?prompt, ?response) issues"
            using inv body by (simp add: rejected_with_def)
          have "retries_ok validate agent base xs"
            unfolding r by (rule retries_ok_Cons [OF rej ih(3,1,5)])
          moreover have "\<forall>i < length xs. snd (xs ! i) = post (attempt + i) (fst (xs ! i))"
            using ih(4) unfolding r by (auto simp: less_Suc_eq_0_disj)
          moreover have "usage_of (?prompt, ?response) = u" using u body by (simp add: usage_of_def)
          then have "outcome_ok validate agent attempt (Suc left) tokens r xs"
            using ih(1,6) unfolding r outcome_ok_def by (simp add: Let_def split: generated.splits)
          ultimately show ?thesis using ih(2) r by simp
        qed
      qed
    qed
  qed
qed


section \<open>The test provider in the graph\<close>

lemma with_retry_first: "node w = (Inr x, w') \<Longrightarrow> with_retry n node w = (Inr x, w')"
  by (cases n) simp_all

definition audited :: "ctx \<Rightarrow> workflow_state \<Rightarrow> world \<Rightarrow> world" where
  "audited c st w =
     agent_audit c st ''safety_review'' None (agent_audit c st ''planning'' None (agent_audit c st ''triage'' None w))"

text \<open>The policy's answer to the plan the test provider makes for a state.\<close>

definition test_decision :: "workflow_state \<Rightarrow> policy_decision" where
  "test_decision st =
     decide (test_plan (invocation st)) \<lparr>sr_hazards = [], sr_violations = []\<rparr> (valid_evidence_ids st)
       (ds_status (ws_diagnosis st)) (ds_severity (ws_diagnosis st)) (kc_sufficiency (ws_knowledge_context st))"

lemma decide_review: "sr_violations r = sr_violations r' \<Longrightarrow> decide plan r valid s sev suff = decide plan r' valid s sev suff"
  by (simp add: decide_def blocking_reasons_def)

lemma test_plan_cong:
  "inv_diagnosis r = inv_diagnosis r' \<Longrightarrow> inv_knowledge_context r = inv_knowledge_context r' \<Longrightarrow> test_plan r = test_plan r'"
  by (simp add: test_plan_def)

lemma test_plan_ok:
  assumes "length (fault_or ''UNKNOWN'' (inv_diagnosis request)) \<le> 900"
  shows "plan_ok (test_plan request)"
  using assms
  by (simp add: plan_ok_def step_ok_def text_between_def test_plan_def Let_def py_replace_char_def py_lower_def)

text \<open>What the agents and the policy read is not changed by a node.\<close>

definition same_input :: "workflow_state \<Rightarrow> workflow_state \<Rightarrow> bool" where
  "same_input st st' \<longleftrightarrow>
     ws_workflow_run_id st' = ws_workflow_run_id st \<and> ws_trace_id st' = ws_trace_id st \<and>
     ws_diagnosis_id st' = ws_diagnosis_id st \<and> ws_diagnosis st' = ws_diagnosis st \<and>
     ws_knowledge_context st' = ws_knowledge_context st"

lemma same_input_audit: "same_input st st' \<Longrightarrow> agent_audit c st' agent e w = agent_audit c st agent e w"
  by (simp add: agent_audit_def same_input_def)

lemma same_input_trans: "same_input a b \<Longrightarrow> same_input b c \<Longrightarrow> same_input a c"
  by (simp add: same_input_def)

lemma test_triage_node:
  assumes "length (fault_or ''unknown'' (ws_diagnosis st)) \<le> 900"
  obtains st' t where "triage_node c (test_provider env) st w = (Inr st', agent_audit c st ''triage'' None w)"
    and "same_input st st'" and "ws_triage_result st' = Some t"
proof -
  obtain t where "test_triage (invocation st) = Inr t"
    using assms by (simp add: test_triage_def schema_checked_def triage_ok_def text_between_def invocation_def)
  then have "triage_node c (test_provider env) st w =
    (Inr (at_stage WF_TRIAGED (st\<lparr>ws_attempt_count := ws_attempt_count st + 1, ws_triage_result := Some t\<rparr>)),
     agent_audit c st ''triage'' None w)"
    by (simp add: triage_node_def agent_node_def invoke_agent_def test_provider_def)
  then show thesis by (rule that) (simp_all add: same_input_def at_stage_def)
qed

lemma test_planning_node:
  assumes "length (fault_or ''UNKNOWN'' (ws_diagnosis st)) \<le> 900"
  obtains st' where "planning_node c (test_provider env) st w = (Inr st', agent_audit c st ''planning'' None w)"
    and "same_input st st'" and "ws_triage_result st' = ws_triage_result st"
    and "ws_maintenance_plan st' = Some (test_plan (invocation st))"
proof -
  have "test_planning (invocation st) = Inr (test_plan (invocation st))"
    using test_plan_ok [of "invocation st"] assms by (simp add: test_planning_def schema_checked_def invocation_def)
  then have "planning_node c (test_provider env) st w =
    (Inr (at_stage WF_PLAN_READY (st\<lparr>ws_attempt_count := ws_attempt_count st + 1,
        ws_maintenance_plan := Some (test_plan (invocation st))\<rparr>)), agent_audit c st ''planning'' None w)"
    by (simp add: planning_node_def agent_node_def invoke_agent_def test_provider_def)
  then show thesis by (rule that) (simp_all add: same_input_def at_stage_def)
qed

lemma test_safety_node:
  obtains st' review where "safety_node c (test_provider env) st w = (Inr st', agent_audit c st ''safety_review'' None w)"
    and "same_input st st'" and "ws_triage_result st' = ws_triage_result st"
    and "ws_maintenance_plan st' = ws_maintenance_plan st"
    and "ws_safety_review st' = Some review" and "sr_violations review = []"
proof -
  have hazards: "length (if b then [x] else []) \<le> 10" for b and x :: string by simp
  obtain review where r: "test_safety_review (invocation st) = Inr review" "sr_violations review = []"
    using hazards by (simp add: test_safety_review_def Let_def schema_checked_def review_ok_def)
  then have "safety_node c (test_provider env) st w =
    (Inr (at_stage WF_SAFETY_REVIEW (st\<lparr>ws_attempt_count := ws_attempt_count st + 1,
        ws_safety_review := Some review\<rparr>)), agent_audit c st ''safety_review'' None w)"
    by (simp add: safety_node_def agent_node_def invoke_agent_def test_provider_def)
  then show thesis by (rule that [of _ review]) (simp_all add: same_input_def at_stage_def r)
qed

lemma fault_or_length: "length (fault_or ''unknown'' d) = length (fault_or ''UNKNOWN'' d)"
  by (simp add: fault_or_def split: option.splits)

text \<open>The three agents answer at once; the policy decides on the test plan.\<close>

lemma test_provider_reaches_policy:
  assumes "ds_status (ws_diagnosis st) = ''FAULT''"
    and "kc_sufficiency (ws_knowledge_context st) \<noteq> ''INSUFFICIENT_EVIDENCE''"
    and "length (fault_or ''UNKNOWN'' (ws_diagnosis st)) \<le> 900"
  obtains st' where "run_graph c (test_provider env) st w =
      graph_loop c (test_provider env) (route_policy st') st' (audited c st w)"
    and "ws_policy_decision st' = Some (test_decision st)"
proof -
  let ?env = "test_provider env"
  have route: "route_precondition st = N_triage" using assms by (simp add: route_precondition_def)
  obtain st1 t where t: "triage_node c ?env st w = (Inr st1, agent_audit c st ''triage'' None w)"
    and st1: "same_input st st1" "ws_triage_result st1 = Some t"
    using test_triage_node assms(3) fault_or_length by metis
  define w1 where "w1 = agent_audit c st ''triage'' None w"
  from assms(3) st1 have "length (fault_or ''UNKNOWN'' (ws_diagnosis st1)) \<le> 900" by (simp add: same_input_def)
  then obtain st2 where p: "planning_node c ?env st1 w1 = (Inr st2, agent_audit c st1 ''planning'' None w1)"
    and st2: "same_input st1 st2" "ws_triage_result st2 = Some t"
      "ws_maintenance_plan st2 = Some (test_plan (invocation st1))"
    using test_planning_node st1(2) by metis
  define w2 where "w2 = agent_audit c st ''planning'' None w1"
  obtain st3 review where s: "safety_node c ?env st2 w2 = (Inr st3, agent_audit c st2 ''safety_review'' None w2)"
    and st3: "same_input st2 st3" "ws_triage_result st3 = Some t"
      "ws_maintenance_plan st3 = Some (test_plan (invocation st1))" "ws_safety_review st3 = Some review"
      "sr_violations review = []"
    using test_safety_node st2(2,3) by metis
  have st13: "same_input st st2" "same_input st st3" using st1 st2 st3 same_input_trans by blast+
  have plan: "test_plan (invocation st1) = test_plan (invocation st)"
    using st1(1) by (intro test_plan_cong) (simp_all add: invocation_def same_input_def)
  have "decide (test_plan (invocation st)) review (valid_evidence_ids st) (ds_status (ws_diagnosis st))
      (ds_severity (ws_diagnosis st)) (kc_sufficiency (ws_knowledge_context st)) = test_decision st"
    unfolding test_decision_def by (rule decide_review) (simp add: st3)
  with st13(2) st3 plan obtain st4 where pol: "policy_node st3 = Inr st4" "ws_policy_decision st4 = Some (test_decision st)"
    by (simp add: policy_node_def Let_def at_stage_def same_input_def valid_evidence_ids_def)
  have t': "triage_node c ?env st w = (Inr st1, w1)" and p': "planning_node c ?env st1 w1 = (Inr st2, w2)"
    using t p same_input_audit [OF st1(1)] by (simp_all add: w1_def w2_def)
  have s': "safety_node c ?env st2 w2 = (Inr st3, audited c st w)"
    using s same_input_audit [OF st13(1)] by (simp add: audited_def w1_def w2_def)
  have "run_graph c ?env st w = graph_loop c ?env (route_policy st4) st4 (audited c st w)"
    unfolding run_graph_def
    apply (subst graph_loop.simps, simp add: route)
    apply (subst graph_loop.simps, simp add: with_retry_first [of "triage_node c ?env st", OF t'])
    apply (subst graph_loop.simps, simp add: with_retry_first [of "planning_node c ?env st1", OF p'])
    apply (subst graph_loop.simps, simp add: with_retry_first [of "safety_node c ?env st2", OF s'])
    apply (subst graph_loop.simps, simp add: pol(1))
    done
  with pol(2) that show thesis by blast
qed

lemma test_plan_fields:
  "ms_evidence_ids (hd (mp_steps (test_plan r))) =
     (case kc_evidence (inv_knowledge_context r) of [] \<Rightarrow> [''missing-evidence''] | e # _ \<Rightarrow> [ke_evidence_id e])"
  "ms_action_type (hd (mp_steps (test_plan r))) =
     (if fault_or ''UNKNOWN'' (inv_diagnosis r) \<in> ISOLATED_FAULTS then ACT_ISOLATE else ACT_INSPECT)"
  "mp_steps (test_plan r) = [hd (mp_steps (test_plan r))]"
  by (simp_all add: test_plan_def Let_def split: list.splits)

definition severity_reasons :: "string option \<Rightarrow> string list" where
  "severity_reasons severity =
     (if effective_severity severity \<in> {''HIGH'', ''CRITICAL''} then [effective_severity severity @ ''_SEVERITY''] else [])"

lemma test_decision_exact:
  assumes "ds_status (ws_diagnosis st) = ''FAULT''"
    and "kc_sufficiency (ws_knowledge_context st) \<noteq> ''INSUFFICIENT_EVIDENCE''"
  defines "reasons \<equiv> severity_reasons (ds_severity (ws_diagnosis st))
      @ (if fault_or ''UNKNOWN'' (ws_diagnosis st) \<in> ISOLATED_FAULTS then [''ISOLATE''] else [])"
  shows "test_decision st = \<lparr>pd_decision =
      (if kc_evidence (ws_knowledge_context st) = [] then PD_BLOCKED
       else if reasons = [] then PD_AUTO_ALLOWED else PD_REQUIRES_APPROVAL),
    pd_policy_version = POLICY_VERSION,
    pd_reasons = (if kc_evidence (ws_knowledge_context st) = [] then [''UNSUPPORTED_PLAN_STEP:1'']
       else if reasons = [] then [''LOW_RISK_GROUNDED_PLAN''] else reasons)\<rparr>"
proof -
  let ?plan = "test_plan (invocation st)" and ?review = "\<lparr>sr_hazards = [], sr_violations = []\<rparr>"
  have dk: "inv_diagnosis (invocation st) = ws_diagnosis st"
    "inv_knowledge_context (invocation st) = ws_knowledge_context st" by (simp_all add: invocation_def)
  note step = test_plan_fields [of "invocation st", unfolded dk]
  have "nat_digits 1 = ''1''" by code_simp
  then have grounding: "validate_grounding ?plan (valid_evidence_ids st) =
      (if kc_evidence (ws_knowledge_context st) = [] then [''UNSUPPORTED_PLAN_STEP:1''] else [])"
    unfolding validate_grounding_def
    by (subst step(3)) (simp add: step_grounded_def step(1) valid_evidence_ids_def split: list.splits)
  then have blocking: "blocking_reasons ?plan ?review (valid_evidence_ids st) (ds_status (ws_diagnosis st))
      (kc_sufficiency (ws_knowledge_context st)) =
      (if kc_evidence (ws_knowledge_context st) = [] then [''UNSUPPORTED_PLAN_STEP:1''] else [])"
    using assms by (simp add: blocking_reasons_def)
  have approval: "approval_reasons ?plan (ds_severity (ws_diagnosis st)) = reasons"
    unfolding approval_reasons_def reasons_def severity_reasons_def
    by (subst step(3)) (simp add: step(2) APPROVAL_ACTIONS_def Let_def)
  have "distinct reasons" by (auto simp: reasons_def severity_reasons_def)
  then have "dict_fromkeys reasons = reasons" by (simp add: dict_fromkeys_def distinct_remdups_id)
  then show ?thesis
    unfolding test_decision_def decide_def blocking approval by (simp add: dict_fromkeys_def Let_def)
qed

text \<open>
  C8 (functional). The agent graph with the deterministic test provider, for every diagnosed fault with
  usable evidence: exactly one successful call of each agent is logged, in order, and the outcome depends
  on the diagnosis and the evidence alone. Without a retrieved passage the plan is blocked as ungrounded.
  With one, a fault that calls for isolation, or a high or critical severity, waits for a person with
  exactly these reasons, and everything else is allowed automatically.
\<close>

theorem test_provider_outcome:
  assumes "run_graph c (test_provider env) st w = (g, w')"
    and "ds_status (ws_diagnosis st) = ''FAULT''"
    and "kc_sufficiency (ws_knowledge_context st) \<noteq> ''INSUFFICIENT_EVIDENCE''"
    and "length (fault_or ''UNKNOWN'' (ws_diagnosis st)) \<le> 900"
  defines "reasons \<equiv> severity_reasons (ds_severity (ws_diagnosis st))
      @ (if fault_or ''UNKNOWN'' (ws_diagnosis st) \<in> ISOLATED_FAULTS then [''ISOLATE''] else [])"
  shows "w' = agent_audit c st ''safety_review'' None (agent_audit c st ''planning'' None
      (agent_audit c st ''triage'' None w)) \<and>
    (\<exists>st' d. ws_policy_decision st' = Some d \<and>
       (if kc_evidence (ws_knowledge_context st) = []
        then g = Completed st' \<and> ws_status st' = WF_BLOCKED \<and> pd_reasons d = [''UNSUPPORTED_PLAN_STEP:1'']
        else if reasons \<noteq> [] then g = Interrupted st' \<and> pd_decision d = PD_REQUIRES_APPROVAL \<and> pd_reasons d = reasons
        else g = Completed st' \<and> ws_status st' = WF_AUTO_ALLOWED \<and> pd_reasons d = [''LOW_RISK_GROUNDED_PLAN'']))"
proof -
  obtain st' where run: "run_graph c (test_provider env) st w =
      graph_loop c (test_provider env) (route_policy st') st' (audited c st w)"
    and d: "ws_policy_decision st' = Some (test_decision st)"
    using test_provider_reaches_policy [OF assms(2-4)] by metis
  note exact = test_decision_exact [OF assms(2,3), folded reasons_def]
  have final: "graph_loop c env N_END s u = (Completed s, u)" for env s u by (subst graph_loop.simps) simp
  consider "kc_evidence (ws_knowledge_context st) = []"
    | "kc_evidence (ws_knowledge_context st) \<noteq> []" "reasons \<noteq> []"
    | "kc_evidence (ws_knowledge_context st) \<noteq> []" "reasons = []" by blast
  then show ?thesis
  proof cases
    case 1
    then have "route_policy st' = N_blocked" using d exact by (simp add: route_policy_def)
    then have "run_graph c (test_provider env) st w = (Completed (at_stage WF_BLOCKED st'), audited c st w)"
      unfolding run by (subst graph_loop.simps) (simp add: final)
    with 1 assms(1) d exact show ?thesis
      by (intro conjI exI [of _ "at_stage WF_BLOCKED st'"] exI [of _ "test_decision st"])
        (simp_all add: audited_def at_stage_def)
  next
    case 2
    then have "route_policy st' = N_approval" using d exact by (simp add: route_policy_def)
    then have "run_graph c (test_provider env) st w = (Interrupted st', audited c st w)"
      unfolding run by (subst graph_loop.simps) simp
    with 2 assms(1) d exact show ?thesis
      by (intro conjI exI [of _ st'] exI [of _ "test_decision st"]) (simp_all add: audited_def)
  next
    case 3
    then have "route_policy st' = N_auto_allowed" using d exact by (simp add: route_policy_def)
    then have "run_graph c (test_provider env) st w = (Completed (at_stage WF_AUTO_ALLOWED st'), audited c st w)"
      unfolding run by (subst graph_loop.simps) (simp add: final)
    with 3 assms(1) d exact show ?thesis
      by (intro conjI exI [of _ "at_stage WF_AUTO_ALLOWED st'"] exI [of _ "test_decision st"])
        (simp_all add: audited_def at_stage_def)
  qed
qed

section \<open>Concrete runs\<close>

text \<open>A server that answers the first request without a call and the second with one.\<close>

definition demo_body :: "json \<Rightarrow> json" where
  "demo_body calls =
     JObj [(''choices'', JList [JObj [(''message'', JObj [(''tool_calls'', calls)])]]),
           (''usage'', JObj [(''prompt_tokens'', JInt 10), (''completion_tokens'', JInt 5)])]"

definition demo_post :: "nat \<Rightarrow> string \<Rightarrow> provider_exc + json" where
  "demo_post attempt prompt =
     Inr (demo_body (if attempt = 1 then JNull else
       JList [JObj [(''function'', JObj [(''name'', JStr ''submit_triage_output''), (''arguments'', JStr ''hot'')])]]))"

definition demo_validate :: "json \<Rightarrow> schema_issue list + triage_result" where
  "demo_validate a = (case a of JStr s \<Rightarrow> Inr \<lparr>tr_problem_summary = s\<rparr> | _ \<Rightarrow> Inl [])"

definition demo_dumps :: prompt_dumps where
  "demo_dumps = \<lparr>dump_diagnosis = (\<lambda>_. ''{}''), dump_sensors = (\<lambda>_. ''[]''), dump_prior = (\<lambda>_ _. []),
     dump_evidence = (\<lambda>_. ''[]'')\<rparr>"

definition demo_invocation :: agent_invocation where
  "demo_invocation = invocation (fst (demo_begun ACT_INSPECT))"


theorem test_provider_outcome_witness:
  "\<exists>st. fst (run_graph demo_ctx (test_provider (demo_env ACT_INSPECT)) (fst (demo_begun ACT_INSPECT))
       (snd (demo_begun ACT_INSPECT))) = Interrupted st \<and>
     map_option pd_reasons (ws_policy_decision st) = Some [''ISOLATE'']"
proof -
  let ?st = "fst (demo_begun ACT_INSPECT)"
  have facts: "ds_status (ws_diagnosis ?st) = ''FAULT''"
    "kc_sufficiency (ws_knowledge_context ?st) \<noteq> ''INSUFFICIENT_EVIDENCE''"
    "length (fault_or ''UNKNOWN'' (ws_diagnosis ?st)) \<le> 900"
    "kc_evidence (ws_knowledge_context ?st) \<noteq> []"
    "severity_reasons (ds_severity (ws_diagnosis ?st)) = []"
    "fault_or ''UNKNOWN'' (ws_diagnosis ?st) \<in> ISOLATED_FAULTS"
    by code_simp+
  from test_provider_outcome [OF prod.collapse [symmetric] facts(1-3), of demo_ctx "demo_env ACT_INSPECT"
      "snd (demo_begun ACT_INSPECT)"] facts(4-6)
  show ?thesis by auto
qed

end
