(* ===== verification/Tracing.thy ===== *)
theory Tracing
  imports Workflow Boundary "HOL-Library.AList"
begin

text \<open>
  The agent observability layer: \<^verbatim>\<open>observability/models.py\<close>, \<^verbatim>\<open>repository.py\<close>, \<^verbatim>\<open>tracer.py\<close>,
  \<^verbatim>\<open>metrics.py\<close> and \<^verbatim>\<open>api/observability.py\<close>. Its three tables are a state of their own beside the
  database; its identifiers and clock readings are streams of its own. Whether a session of the tracer
  works is an argument. Rationals stand for latencies.
\<close>

section \<open>Rows\<close>

datatype ObservabilityStatus =
    OBS_RUNNING | OBS_SUCCESS | OBS_FAILED | OBS_BLOCKED | OBS_WAITING_APPROVAL | OBS_CANCELLED

definition observability_status_value :: "ObservabilityStatus \<Rightarrow> string" where
  "observability_status_value s =
     (case s of OBS_RUNNING \<Rightarrow> ''RUNNING'' | OBS_SUCCESS \<Rightarrow> ''SUCCESS'' | OBS_FAILED \<Rightarrow> ''FAILED''
      | OBS_BLOCKED \<Rightarrow> ''BLOCKED'' | OBS_WAITING_APPROVAL \<Rightarrow> ''WAITING_APPROVAL'' | OBS_CANCELLED \<Rightarrow> ''CANCELLED'')"

definition TERMINAL_STATUSES :: "ObservabilityStatus set" where
  "TERMINAL_STATUSES = {OBS_SUCCESS, OBS_FAILED, OBS_BLOCKED, OBS_CANCELLED}"

datatype StepStatus = STEP_RUNNING | STEP_SUCCESS | STEP_FAILED

record observability_run =
  or_run_id :: uuid
  or_workflow_run_id :: "uuid option"
  or_workflow_name :: string
  or_device_id :: "string option"
  or_trace_id :: "string option"
  or_provider :: "string option"
  or_model :: "string option"
  or_status :: ObservabilityStatus
  or_start_time :: instant
  or_end_time :: "instant option"
  or_latency_ms :: "rat option"
  or_result :: details
  or_error_message :: "string option"

record agent_step_draft =
  asd_agent_name :: string
  asd_sequence :: nat
  asd_status :: StepStatus
  asd_start_time :: instant
  asd_end_time :: instant
  asd_latency_ms :: "rat option"
  asd_input_summary :: string
  asd_output_summary :: "string option"
  asd_error :: "string option"
  asd_source_agent_run_id :: uuid
  asd_input_tokens :: "int option"
  asd_output_tokens :: "int option"
  asd_total_tokens :: "int option"
  asd_request_count :: "int option"
  asd_schema_retries :: "int option"

record observability_step =
  os_step_id :: uuid
  os_run_id :: uuid
  os_source_agent_run_id :: uuid
  os_sequence :: nat
  os_agent_name :: string
  os_status :: StepStatus
  os_start_time :: instant
  os_end_time :: instant
  os_latency_ms :: "rat option"
  os_input_summary :: string
  os_output_summary :: "string option"
  os_error :: "string option"

record observability_metric =
  om_step_id :: uuid
  om_run_id :: uuid
  om_agent_name :: string
  om_input_tokens :: "int option"
  om_output_tokens :: "int option"
  om_total_tokens :: "int option"
  om_latency_ms :: "rat option"
  om_request_count :: "int option"
  om_schema_retries :: "int option"

record trace_db =
  td_runs :: "observability_run list"
  td_steps :: "observability_step list"
  td_metrics :: "observability_metric list"
  td_uuids :: nat
  td_ticks :: nat

text \<open>
  The columns of an audit row beyond \<open>agent_run\<close>, by the row's key: the latency, the reported tokens and
  the payload with the structured output.
\<close>

datatype agent_output =
  NoOutput | TriageOutput triage_result | PlanOutput maintenance_plan_output | ReviewOutput safety_review

record agent_details =
  ad_latency_ms :: "rat option"
  ad_input_tokens :: "int option"
  ad_output_tokens :: "int option"
  ad_output :: agent_output
  ad_request_count :: "int option"
  ad_schema_retries :: "int option"

record trace_env =
  te_uuid4 :: "nat \<Rightarrow> uuid"
  te_clock :: "nat \<Rightarrow> instant"
  te_details :: "uuid \<Rightarrow> agent_details"
  te_exc_text :: "app_error \<Rightarrow> string"

section \<open>Projection of the audit trail\<close>

definition map_workflow_status :: "WorkflowStatus \<Rightarrow> ObservabilityStatus" where
  "map_workflow_status s =
     (if s \<in> {WF_APPROVED, WF_AUTO_ALLOWED, WF_WORK_ORDER_CREATED, WF_REJECTED} then OBS_SUCCESS
      else if s \<in> {WF_WAITING_APPROVAL, WF_REQUIRES_APPROVAL} then OBS_WAITING_APPROVAL
      else if s = WF_BLOCKED then OBS_BLOCKED
      else if s = WF_CANCELLED then OBS_CANCELLED
      else if s = WF_FAILED then OBS_FAILED
      else OBS_RUNNING)"

definition elapsed_ms :: "instant \<Rightarrow> instant \<Rightarrow> rat" where
  "elapsed_ms t0 t1 = max 0 (of_int (t1 - t0) / 1000)"

definition MAX_SUMMARY_CHARS :: nat where
  "MAX_SUMMARY_CHARS = 400"

definition truncate_summary :: "string \<Rightarrow> string" where
  "truncate_summary s =
     (if length s \<le> MAX_SUMMARY_CHARS then s else take (MAX_SUMMARY_CHARS - 3) s @ ''...'')"

definition summarize_input :: "string \<Rightarrow> string \<Rightarrow> int option \<Rightarrow> string" where
  "summarize_input agent_name input_ref request_count =
     truncate_summary (py_join '' ''
       ([''agent='' @ agent_name]
        @ (if input_ref = [] then [] else [''diagnosis='' @ input_ref])
        @ (case request_count of None \<Rightarrow> [] | Some n \<Rightarrow> [''requests='' @ int_str n])))"

text \<open>\<^verbatim>\<open>output.get(key)\<close> of an output of another agent finds nothing.\<close>

definition summarize_output :: "string \<Rightarrow> agent_output \<Rightarrow> string option" where
  "summarize_output agent_name output =
     (if output = NoOutput then None
      else if agent_name = ''triage''
      then Some (truncate_summary (''problem_summary='' @
             (case output of TriageOutput t \<Rightarrow> tr_problem_summary t | _ \<Rightarrow> [])))
      else if agent_name = ''planning''
      then (let steps = (case output of PlanOutput p \<Rightarrow> mp_steps p | _ \<Rightarrow> []);
                objective = (case output of PlanOutput p \<Rightarrow> mp_objective p | _ \<Rightarrow> [])
            in Some (truncate_summary (''objective='' @ objective @ '' steps='' @ nat_digits (length steps)
                 @ '' action_types='' @ py_join '','' (map (action_value \<circ> ms_action_type) steps))))
      else if agent_name = ''safety_review''
      then (case output of
              ReviewOutput r \<Rightarrow> Some (truncate_summary (''hazards='' @ nat_digits (length (sr_hazards r))
                @ '' violations='' @ nat_digits (length (sr_violations r))))
            | _ \<Rightarrow> Some ''hazards=0 violations=0'')
      else Some (truncate_summary (''keys='' @ py_join '',''
             (case output of TriageOutput _ \<Rightarrow> [''problem_summary''] | PlanOutput _ \<Rightarrow> [''objective'', ''steps'']
              | ReviewOutput _ \<Rightarrow> [''hazards'', ''violations''] | NoOutput \<Rightarrow> []))))"

definition total_tokens :: "int option \<Rightarrow> int option \<Rightarrow> int option" where
  "total_tokens a b =
     (if a = None \<and> b = None then None
      else Some ((case a of None \<Rightarrow> 0 | Some x \<Rightarrow> x) + (case b of None \<Rightarrow> 0 | Some y \<Rightarrow> y)))"

definition build_step_draft :: "trace_env \<Rightarrow> nat \<times> agent_run \<Rightarrow> agent_step_draft" where
  "build_step_draft te = (\<lambda>(n, a). (let d = te_details te (ar_id a) in
     \<lparr>asd_agent_name = ar_agent_name a, asd_sequence = n,
      asd_status = (if ar_status a = ''SUCCESS'' then STEP_SUCCESS else STEP_FAILED),
      asd_start_time =
        (case ad_latency_ms d of None \<Rightarrow> ar_timestamp a
         | Some l \<Rightarrow> if l > 0 then ar_timestamp a - round_half_even (l * 1000) else ar_timestamp a),
      asd_end_time = ar_timestamp a, asd_latency_ms = ad_latency_ms d,
      asd_input_summary = summarize_input (ar_agent_name a) (ar_input_ref a) (ad_request_count d),
      asd_output_summary = summarize_output (ar_agent_name a) (ad_output d),
      asd_error = ar_error a, asd_source_agent_run_id = ar_id a,
      asd_input_tokens = ad_input_tokens d, asd_output_tokens = ad_output_tokens d,
      asd_total_tokens = total_tokens (ad_input_tokens d) (ad_output_tokens d),
      asd_request_count = ad_request_count d, asd_schema_retries = ad_schema_retries d\<rparr>))"

definition AGENT_ORDER :: "string \<Rightarrow> nat" where
  "AGENT_ORDER agent =
     (if agent = ''triage'' then 0 else if agent = ''planning'' then 1
      else if agent = ''safety_review'' then 2 else 3)"

definition by_time_and_agent :: "agent_run \<Rightarrow> agent_run \<Rightarrow> bool" where
  "by_time_and_agent a b \<longleftrightarrow>
     ar_timestamp a < ar_timestamp b \<or>
     ar_timestamp a = ar_timestamp b \<and> AGENT_ORDER (ar_agent_name a) \<le> AGENT_ORDER (ar_agent_name b)"

definition step_drafts :: "trace_env \<Rightarrow> uuid option \<Rightarrow> world \<Rightarrow> agent_step_draft list" where
  "step_drafts te workflow_run_id w =
     (case workflow_run_id of
        None \<Rightarrow> []
      | Some k \<Rightarrow> map (build_step_draft te) (List.enumerate 0
          (sort_by by_time_and_agent (sort_by by_agent_time
            (filter (\<lambda>a. ar_workflow_run_id a = k) (w_agent_runs w))))))"

section \<open>Repository\<close>

definition next_trace_id :: "trace_env \<Rightarrow> trace_db \<Rightarrow> uuid \<times> trace_db" where
  "next_trace_id te td = (te_uuid4 te (td_uuids td), td\<lparr>td_uuids := Suc (td_uuids td)\<rparr>)"

definition trace_now :: "trace_env \<Rightarrow> trace_db \<Rightarrow> instant \<times> trace_db" where
  "trace_now te td = (te_clock te (td_ticks td), td\<lparr>td_ticks := Suc (td_ticks td)\<rparr>)"

definition get_trace_run :: "uuid \<Rightarrow> trace_db \<Rightarrow> observability_run option" where
  "get_trace_run k td = find_row or_run_id k (td_runs td)"

definition by_start_desc :: "observability_run \<Rightarrow> observability_run \<Rightarrow> bool" where
  "by_start_desc a b \<longleftrightarrow> or_start_time b \<le> or_start_time a"

definition find_run_by_workflow_run :: "uuid \<Rightarrow> trace_db \<Rightarrow> observability_run option" where
  "find_run_by_workflow_run k td =
     (case sort_by by_start_desc (filter (\<lambda>r. or_workflow_run_id r = Some k) (td_runs td)) of
        [] \<Rightarrow> None | r # _ \<Rightarrow> Some r)"

text \<open>A duplicate primary key fails the transaction.\<close>

definition create_trace_run :: "observability_run \<Rightarrow> trace_db \<Rightarrow> trace_db option" where
  "create_trace_run r td =
     (if or_run_id r \<in> or_run_id ` set (td_runs td) then None else Some (td\<lparr>td_runs := td_runs td @ [r]\<rparr>))"

definition drop_steps :: "uuid \<Rightarrow> trace_db \<Rightarrow> trace_db" where
  "drop_steps k td =
     td\<lparr>td_steps := filter (\<lambda>x. os_run_id x \<noteq> k) (td_steps td),
        td_metrics := filter (\<lambda>m. om_run_id m \<noteq> k) (td_metrics td)\<rparr>"

text \<open>Deleting a run deletes its steps and metrics (\<^verbatim>\<open>ON DELETE CASCADE\<close>).\<close>

definition delete_trace_run :: "uuid \<Rightarrow> trace_db \<Rightarrow> trace_db" where
  "delete_trace_run k td = (drop_steps k td)\<lparr>td_runs := filter (\<lambda>r. or_run_id r \<noteq> k) (td_runs td)\<rparr>"

definition step_row :: "uuid \<Rightarrow> uuid \<Rightarrow> agent_step_draft \<Rightarrow> observability_step" where
  "step_row step_id run_id d =
     \<lparr>os_step_id = step_id, os_run_id = run_id, os_source_agent_run_id = asd_source_agent_run_id d,
      os_sequence = asd_sequence d, os_agent_name = asd_agent_name d, os_status = asd_status d,
      os_start_time = asd_start_time d, os_end_time = asd_end_time d, os_latency_ms = asd_latency_ms d,
      os_input_summary = asd_input_summary d, os_output_summary = asd_output_summary d, os_error = asd_error d\<rparr>"

definition metric_row :: "uuid \<Rightarrow> uuid \<Rightarrow> agent_step_draft \<Rightarrow> observability_metric" where
  "metric_row step_id run_id d =
     \<lparr>om_step_id = step_id, om_run_id = run_id, om_agent_name = asd_agent_name d,
      om_input_tokens = asd_input_tokens d, om_output_tokens = asd_output_tokens d,
      om_total_tokens = asd_total_tokens d, om_latency_ms = asd_latency_ms d,
      om_request_count = asd_request_count d, om_schema_retries = asd_schema_retries d\<rparr>"

fun insert_steps :: "trace_env \<Rightarrow> uuid \<Rightarrow> agent_step_draft list \<Rightarrow> trace_db \<Rightarrow> trace_db option" where
  "insert_steps te run_id [] td = Some td"
| "insert_steps te run_id (d # ds) td =
     (let (step_id, td1) = next_trace_id te td in
      if step_id \<in> os_step_id ` set (td_steps td1) \<or> step_id \<in> om_step_id ` set (td_metrics td1) then None
      else insert_steps te run_id ds
        (td1\<lparr>td_steps := td_steps td1 @ [step_row step_id run_id d],
             td_metrics := td_metrics td1 @ [metric_row step_id run_id d]\<rparr>))"

definition replace_steps :: "trace_env \<Rightarrow> uuid \<Rightarrow> agent_step_draft list \<Rightarrow> trace_db \<Rightarrow> trace_db option" where
  "replace_steps te run_id ds td = insert_steps te run_id ds (drop_steps run_id td)"

section \<open>Tracer\<close>

text \<open>A session that fails commits nothing; the exception is logged and swallowed.\<close>

definition committed :: "bool \<Rightarrow> trace_db option \<Rightarrow> trace_db \<Rightarrow> trace_db" where
  "committed works result td = (if works then (case result of None \<Rightarrow> td | Some td' \<Rightarrow> td') else td)"

definition new_trace_run :: "uuid \<Rightarrow> string option \<Rightarrow> string option \<Rightarrow> string option \<Rightarrow> string option \<Rightarrow> instant \<Rightarrow> observability_run"
where
  "new_trace_run run_id device_id trace_id provider model start_time =
     \<lparr>or_run_id = run_id, or_workflow_run_id = None, or_workflow_name = WORKFLOW_VERSION,
      or_device_id = device_id, or_trace_id = trace_id, or_provider = provider, or_model = model,
      or_status = OBS_RUNNING, or_start_time = start_time, or_end_time = None, or_latency_ms = None,
      or_result = [], or_error_message = None\<rparr>"

definition begin_trace ::
  "trace_env \<Rightarrow> bool \<Rightarrow> string option \<Rightarrow> string option \<Rightarrow> string option \<Rightarrow> string option \<Rightarrow> trace_db
    \<Rightarrow> uuid option \<times> trace_db" where
  "begin_trace te works device_id trace_id provider model td =
     (let (now, td1) = trace_now te td; (run_id, td2) = next_trace_id te td1 in
      case (if works then create_trace_run (new_trace_run run_id device_id trace_id provider model now) td2 else None) of
        None \<Rightarrow> (None, td)
      | Some td3 \<Rightarrow> (Some run_id, td3))"

definition merge_details :: "details \<Rightarrow> details \<Rightarrow> details" where
  "merge_details d e = foldl (\<lambda>acc (k, v). AList.update k v acc) d e"

definition finalize_run ::
  "ObservabilityStatus \<Rightarrow> instant \<Rightarrow> details \<Rightarrow> string option \<Rightarrow> observability_run \<Rightarrow> observability_run" where
  "finalize_run status end_time result error_message r =
     r\<lparr>or_status := status,
       or_end_time := (if status \<in> TERMINAL_STATUSES then Some end_time else None),
       or_latency_ms := (if status \<in> TERMINAL_STATUSES then Some (elapsed_ms (or_start_time r) end_time) else None),
       or_result := result, or_error_message := error_message\<rparr>"

text \<open>Materialising the steps of a run and closing it, shared by \<^verbatim>\<open>complete\<close> and \<^verbatim>\<open>refresh_for_workflow\<close>.\<close>

definition close_run ::
  "trace_env \<Rightarrow> uuid \<Rightarrow> agent_step_draft list \<Rightarrow> ObservabilityStatus \<Rightarrow> WorkflowStatus option \<Rightarrow> details \<Rightarrow> string option
    \<Rightarrow> trace_db \<Rightarrow> trace_db option" where
  "close_run te run_id drafts status workflow_status result error_message td =
     Option.bind (if drafts = [] then Some td else replace_steps te run_id drafts td) (\<lambda>td1.
       let (now, td2) = trace_now te td1 in
       Some (td2\<lparr>td_runs := update_rows or_run_id run_id (\<lambda>r.
          finalize_run status now
            (merge_details (merge_details (or_result r)
               [(''workflow_name'', JStr WORKFLOW_VERSION),
                (''workflow_status'', json_opt_str (map_option workflow_status_value workflow_status)),
                (''step_count'', JInt (int (length drafts))),
                (''outcome'', JStr (observability_status_value status))]) result)
            error_message r) (td_runs td2)\<rparr>))"

definition link_run :: "workflow_run \<Rightarrow> observability_run \<Rightarrow> observability_run" where
  "link_run flow r =
     r\<lparr>or_workflow_run_id := Some (wr_id flow), or_device_id := Some (wr_device_id flow),
       or_provider := Some (wr_provider flow), or_model := Some (wr_model flow)\<rparr>"

text \<open>The run that stays: the provisional one, or the trace the workflow already has.\<close>

definition complete_result ::
  "trace_env \<Rightarrow> uuid \<Rightarrow> workflow_run option \<Rightarrow> details \<Rightarrow> string option \<Rightarrow> ObservabilityStatus option \<Rightarrow> world \<Rightarrow> trace_db
    \<Rightarrow> trace_db option" where
  "complete_result te run_id workflow result error_message status w td =
     (case get_trace_run run_id td of
        None \<Rightarrow> Some td
      | Some _ \<Rightarrow>
          (case workflow of
             None \<Rightarrow>
               close_run te run_id [] (case status of None \<Rightarrow> OBS_FAILED | Some x \<Rightarrow> x) None result error_message td
           | Some flow \<Rightarrow>
               (let existing = find_run_by_workflow_run (wr_id flow) td;
                    (kept, td1) =
                      (case existing of
                         Some e \<Rightarrow> if or_run_id e \<noteq> run_id then (or_run_id e, delete_trace_run run_id td) else (run_id, td)
                       | None \<Rightarrow> (run_id, td))
                in close_run te kept (step_drafts te (Some (wr_id flow)) w)
                     (case status of None \<Rightarrow> map_workflow_status (wr_status flow) | Some x \<Rightarrow> x)
                     (Some (wr_status flow)) result error_message
                     (td1\<lparr>td_runs := update_rows or_run_id kept (link_run flow) (td_runs td1)\<rparr>))))"

definition complete_trace ::
  "trace_env \<Rightarrow> bool \<Rightarrow> uuid option \<Rightarrow> workflow_run option \<Rightarrow> details \<Rightarrow> string option \<Rightarrow> ObservabilityStatus option
    \<Rightarrow> world \<Rightarrow> trace_db \<Rightarrow> trace_db" where
  "complete_trace te works run_id workflow result error_message status w td =
     (case run_id of
        None \<Rightarrow> td
      | Some k \<Rightarrow> committed works (complete_result te k workflow result error_message status w td) td)"

definition refresh_result :: "trace_env \<Rightarrow> workflow_run \<Rightarrow> details \<Rightarrow> world \<Rightarrow> trace_db \<Rightarrow> trace_db option" where
  "refresh_result te flow result w td =
     (case find_run_by_workflow_run (wr_id flow) td of
        None \<Rightarrow> Some td
      | Some r \<Rightarrow> close_run te (or_run_id r) (step_drafts te (Some (wr_id flow)) w) (map_workflow_status (wr_status flow))
          (Some (wr_status flow)) result None td)"

definition refresh_for_workflow :: "trace_env \<Rightarrow> bool \<Rightarrow> workflow_run \<Rightarrow> details \<Rightarrow> world \<Rightarrow> trace_db \<Rightarrow> trace_db" where
  "refresh_for_workflow te works flow result w td = committed works (refresh_result te flow result w td) td"

section \<open>Observed workflow service\<close>

text \<open>
  The database and the traces. \<open>sessions\<close> says whether the tracer's first and second session work, and
  \<open>trace_others\<close> is what other requests commit to the traces while the workflow runs.
\<close>

record observed =
  o_world :: world
  o_traces :: trace_db

definition observed_start ::
  "ctx \<Rightarrow> wf_env \<Rightarrow> trace_env \<Rightarrow> bool \<times> bool \<Rightarrow> (world \<Rightarrow> world) \<Rightarrow> (trace_db \<Rightarrow> trace_db) \<Rightarrow> pyfloat \<Rightarrow> uuid \<Rightarrow> uuid
    \<Rightarrow> observed \<Rightarrow> (app_error + workflow_run) \<times> observed" where
  "observed_start c env te sessions others trace_others attempt_seconds incident_id diagnosis_id s =
     (let (run_id, td1) = begin_trace te (fst sessions) None (Some (c_trace_id c)) (Some (e_provider env))
            (Some (e_model env)) (o_traces s);
          td2 = trace_others td1 in
      case start c env others incident_id diagnosis_id (o_world s) of
        (Inl e, w) \<Rightarrow>
          (Inl e, \<lparr>o_world = w, o_traces = complete_trace te (snd sessions) run_id None
             [(''incident_id'', JStr incident_id), (''diagnosis_id'', JStr diagnosis_id),
              (''attempt_seconds'', JNum attempt_seconds)]
             (Some (te_exc_text te e)) (Some OBS_FAILED) w td2\<rparr>)
      | (Inr r, w) \<Rightarrow>
          (Inr r, \<lparr>o_world = w, o_traces = complete_trace te (snd sessions) run_id (Some r)
             [(''incident_id'', JStr incident_id), (''diagnosis_id'', JStr diagnosis_id),
              (''work_order_created'', JBool (ws_work_order_id (wr_state r) \<noteq> None))]
             None None w td2\<rparr>))"

definition observed_decide ::
  "ctx \<Rightarrow> wf_env \<Rightarrow> trace_env \<Rightarrow> bool \<Rightarrow> uuid \<Rightarrow> string \<Rightarrow> string \<Rightarrow> string \<Rightarrow> observed
    \<Rightarrow> app_error + workflow_run \<times> observed" where
  "observed_decide c env te works approval_id decision actor reason s =
     bindE (decide_approval c env approval_id decision actor reason (o_world s)) (\<lambda>(r, w).
       Inr (r, \<lparr>o_world = w, o_traces = refresh_for_workflow te works r
         [(''approval_id'', JStr approval_id), (''decision'', JStr decision), (''actor'', JStr actor),
          (''reason'', JStr reason), (''work_order_created'', JBool (ws_work_order_id (wr_state r) \<noteq> None))]
         w (o_traces s)\<rparr>))"

definition observed_cancel ::
  "trace_env \<Rightarrow> bool \<Rightarrow> uuid \<Rightarrow> observed \<Rightarrow> app_error + workflow_run \<times> observed" where
  "observed_cancel te works workflow_id s =
     bindE (cancel workflow_id (o_world s)) (\<lambda>(r, w).
       Inr (r, \<lparr>o_world = w,
         o_traces = refresh_for_workflow te works r [(''cancelled'', JBool True)] w (o_traces s)\<rparr>))"

section \<open>Metrics\<close>

definition sum_opt :: "int option list \<Rightarrow> int option" where
  "sum_opt xs = (case List.map_filter id xs of [] \<Rightarrow> None | ys \<Rightarrow> Some (sum_list ys))"

definition mean :: "rat list \<Rightarrow> rat option" where
  "mean xs = (if xs = [] then None else Some (sum_list xs / of_nat (length xs)))"

definition percentile :: "rat list \<Rightarrow> rat \<Rightarrow> rat option" where
  "percentile values fraction =
     (if values = [] then None
      else Some (sort values ! nat (max 0 (min (int (length values) - 1)
        (round_half_even (fraction * of_nat (length values - 1)))))))"

record agent_breakdown =
  ab_agent_name :: string
  ab_steps_total :: nat
  ab_failures :: nat
  ab_avg_latency_ms :: "rat option"
  ab_p95_latency_ms :: "rat option"
  ab_total_tokens :: "int option"
  ab_schema_retries :: "int option"

record token_usage =
  tk_input_tokens :: "int option"
  tk_output_tokens :: "int option"
  tk_total_tokens :: "int option"
  tk_steps_with_token_data :: nat
  tk_steps_total :: nat

record observability_metrics =
  mx_total_runs :: nat
  mx_runs_running :: nat
  mx_runs_waiting_approval :: nat
  mx_runs_today :: nat
  mx_completed_runs :: nat
  mx_success_count :: nat
  mx_failure_count :: nat
  mx_blocked_count :: nat
  mx_cancelled_count :: nat
  mx_success_rate :: "rat option"
  mx_avg_latency_ms :: "rat option"
  mx_p95_latency_ms :: "rat option"
  mx_avg_step_latency_ms :: "rat option"
  mx_step_status_counts :: "(StepStatus \<times> nat) list"
  mx_token_usage :: token_usage
  mx_by_agent :: "agent_breakdown list"

definition MAX_RUN_SAMPLES :: nat where "MAX_RUN_SAMPLES = 1000"
definition MAX_STEP_SAMPLES :: nat where "MAX_STEP_SAMPLES = 5000"

definition count_runs :: "ObservabilityStatus \<Rightarrow> trace_db \<Rightarrow> nat" where
  "count_runs s td = length (filter (\<lambda>r. or_status r = s) (td_runs td))"

definition finished_latencies :: "observability_run list \<Rightarrow> rat list" where
  "finished_latencies rs = List.map_filter or_latency_ms (filter (\<lambda>r. or_status r \<in> TERMINAL_STATUSES) rs)"

definition latency_samples :: "trace_db \<Rightarrow> rat list" where
  "latency_samples td = take MAX_RUN_SAMPLES (finished_latencies (sort_by by_start_desc (td_runs td)))"

definition by_end_desc :: "observability_step \<Rightarrow> observability_step \<Rightarrow> bool" where
  "by_end_desc a b \<longleftrightarrow> os_end_time b \<le> os_end_time a"

definition agent_latency_samples :: "string \<Rightarrow> trace_db \<Rightarrow> rat list" where
  "agent_latency_samples agent td =
     List.map_filter os_latency_ms (filter (\<lambda>x. os_agent_name x = agent)
       (take MAX_STEP_SAMPLES (sort_by by_end_desc (filter (\<lambda>x. os_latency_ms x \<noteq> None) (td_steps td)))))"

text \<open>\<^verbatim>\<open>JOIN\<close> of the metrics with their steps.\<close>

definition joined :: "trace_db \<Rightarrow> (observability_metric \<times> observability_step) list" where
  "joined td =
     concat (map (\<lambda>m. map (\<lambda>x. (m, x)) (filter (\<lambda>x. os_step_id x = om_step_id m) (td_steps td))) (td_metrics td))"

definition agent_breakdown_of :: "trace_db \<Rightarrow> string \<Rightarrow> agent_breakdown" where
  "agent_breakdown_of td agent =
     (let rows = filter (\<lambda>(m, x). om_agent_name m = agent) (joined td) in
      \<lparr>ab_agent_name = agent, ab_steps_total = length rows,
       ab_failures = length (filter (\<lambda>(m, x). os_status x = STEP_FAILED) rows),
       ab_avg_latency_ms = mean (List.map_filter (\<lambda>(m, x). os_latency_ms x) rows),
       ab_p95_latency_ms = percentile (agent_latency_samples agent td) (95/100),
       ab_total_tokens = sum_opt (map (\<lambda>(m, x). om_total_tokens m) rows),
       ab_schema_retries = sum_opt (map (\<lambda>(m, x). om_schema_retries m) rows)\<rparr>)"

definition traced_agents :: "ctx \<Rightarrow> trace_db \<Rightarrow> string list" where
  "traced_agents c td =
     sort_by (\<lambda>a b. c_collate c a \<le> c_collate c b) (dict_fromkeys (map (\<lambda>(m, x). om_agent_name m) (joined td)))"

definition step_status_counts :: "trace_db \<Rightarrow> (StepStatus \<times> nat) list" where
  "step_status_counts td =
     map (\<lambda>s. (s, length (filter (\<lambda>x. os_status x = s) (td_steps td)))) (dict_fromkeys (map os_status (td_steps td)))"

definition build_metrics :: "ctx \<Rightarrow> instant \<Rightarrow> trace_db \<Rightarrow> observability_metrics" where
  "build_metrics c today_start td =
     (let success = count_runs OBS_SUCCESS td; failure = count_runs OBS_FAILED td;
          blocked = count_runs OBS_BLOCKED td; cancelled = count_runs OBS_CANCELLED td;
          completed = success + failure + blocked + cancelled
      in \<lparr>mx_total_runs = length (td_runs td), mx_runs_running = count_runs OBS_RUNNING td,
          mx_runs_waiting_approval = count_runs OBS_WAITING_APPROVAL td,
          mx_runs_today = length (filter (\<lambda>r. today_start \<le> or_start_time r) (td_runs td)),
          mx_completed_runs = completed, mx_success_count = success, mx_failure_count = failure,
          mx_blocked_count = blocked, mx_cancelled_count = cancelled,
          mx_success_rate = (if completed = 0 then None else Some (of_nat success / of_nat completed)),
          mx_avg_latency_ms = mean (finished_latencies (td_runs td)),
          mx_p95_latency_ms = percentile (latency_samples td) (95/100),
          mx_avg_step_latency_ms = mean (List.map_filter os_latency_ms (td_steps td)),
          mx_step_status_counts = step_status_counts td,
          mx_token_usage =
            \<lparr>tk_input_tokens = sum_opt (map om_input_tokens (td_metrics td)),
             tk_output_tokens = sum_opt (map om_output_tokens (td_metrics td)),
             tk_total_tokens = sum_opt (map om_total_tokens (td_metrics td)),
             tk_steps_with_token_data = length (filter (\<lambda>m. om_total_tokens m \<noteq> None) (td_metrics td)),
             tk_steps_total = length (td_steps td)\<rparr>,
          mx_by_agent = map (agent_breakdown_of td) (traced_agents c td)\<rparr>)"

section \<open>Endpoints\<close>

definition list_trace_runs :: "nat \<Rightarrow> ObservabilityStatus option \<Rightarrow> string option \<Rightarrow> trace_db \<Rightarrow> observability_run list" where
  "list_trace_runs limit status workflow_name td =
     take limit (sort_by by_start_desc (filter (\<lambda>r.
       (case status of None \<Rightarrow> True | Some s \<Rightarrow> or_status r = s) \<and>
       (case workflow_name of None \<Rightarrow> True | Some n \<Rightarrow> n = [] \<or> or_workflow_name r = n)) (td_runs td)))"

definition by_sequence :: "observability_step \<Rightarrow> observability_step \<Rightarrow> bool" where
  "by_sequence a b \<longleftrightarrow> os_sequence a \<le> os_sequence b"

definition list_steps :: "uuid \<Rightarrow> trace_db \<Rightarrow> (observability_step \<times> observability_metric option) list" where
  "list_steps run_id td =
     map (\<lambda>x. (x, find_row om_step_id (os_step_id x) (filter (\<lambda>m. om_run_id m = run_id) (td_metrics td))))
       (sort_by by_sequence (filter (\<lambda>x. os_run_id x = run_id) (td_steps td)))"

definition step_count :: "trace_db \<Rightarrow> uuid \<Rightarrow> nat" where
  "step_count td run_id = length (filter (\<lambda>x. os_run_id x = run_id) (td_steps td))"

definition run_tokens :: "trace_db \<Rightarrow> uuid \<Rightarrow> int option" where
  "run_tokens td run_id = sum_opt (map om_total_tokens (filter (\<lambda>m. om_run_id m = run_id) (td_metrics td)))"

text \<open>A listed run with its number of steps and its tokens; a trace with its steps.\<close>

definition trace_list_route ::
  "ctx \<Rightarrow> sec_env \<Rightarrow> http_request \<Rightarrow> nat \<Rightarrow> ObservabilityStatus option \<Rightarrow> string option \<Rightarrow> trace_db \<Rightarrow> platform
    \<Rightarrow> (app_error + (observability_run \<times> nat \<times> int option) list) \<times> platform" where
  "trace_list_route c se rq limit status workflow_name td =
     governed c se rq OBSERVABILITY_READ (\<lambda>_ _ g.
       (Inr (map (\<lambda>r. (r, step_count td (or_run_id r), run_tokens td (or_run_id r)))
          (list_trace_runs limit status workflow_name td)), g))"

definition trace_metrics_route ::
  "ctx \<Rightarrow> sec_env \<Rightarrow> http_request \<Rightarrow> instant \<Rightarrow> trace_db \<Rightarrow> platform \<Rightarrow> (app_error + observability_metrics) \<times> platform" where
  "trace_metrics_route c se rq now td =
     governed c se rq OBSERVABILITY_READ (\<lambda>_ _ g.
       (Inr (build_metrics c (now - now mod 86400000000) td), g))"

definition trace_run_route ::
  "ctx \<Rightarrow> sec_env \<Rightarrow> http_request \<Rightarrow> uuid \<Rightarrow> trace_db \<Rightarrow> platform
    \<Rightarrow> (app_error + observability_run \<times> int option \<times> (observability_step \<times> observability_metric option) list) \<times> platform"
where
  "trace_run_route c se rq run_id td =
     governed c se rq OBSERVABILITY_READ (\<lambda>_ _ g.
       (case get_trace_run run_id td of
          None \<Rightarrow> Inl (AppError ''AGENT_RUN_NOT_FOUND'' 404)
        | Some r \<Rightarrow>
            (let pairs = list_steps run_id td in
             Inr (r, sum_opt (map (\<lambda>p. Option.bind (snd p) om_total_tokens) pairs), pairs)), g))"

end
