(* ===== verification/TracingProps.thy ===== *)
theory TracingProps
  imports Tracing WorkflowDemo
begin

text \<open>
  Properties of the observability layer: it observes the workflow service without changing it, its
  tables stay consistent under any interleaving of the tracer's transactions, and a trace is the
  projection of the audit trail.
\<close>

section \<open>Observation\<close>

text \<open>A request to the workflow service, with what the tracer and the other sessions do around it.\<close>

datatype observed_request =
    OStart "bool \<times> bool" "world \<Rightarrow> world" "trace_db \<Rightarrow> trace_db" pyfloat uuid uuid
  | ODecide bool uuid string string string
  | OCancel bool uuid

definition keep_state :: "'s \<Rightarrow> (app_error + workflow_run \<times> 's) \<Rightarrow> (app_error + workflow_run) \<times> 's" where
  "keep_state s r = (case r of Inl e \<Rightarrow> (Inl e, s) | Inr (v, s') \<Rightarrow> (Inr v, s'))"

fun serve_observed :: "ctx \<Rightarrow> wf_env \<Rightarrow> trace_env \<Rightarrow> observed_request \<Rightarrow> observed \<Rightarrow> (app_error + workflow_run) \<times> observed" where
  "serve_observed c env te (OStart works others trace_others secs i d) s =
     observed_start c env te works others trace_others secs i d s"
| "serve_observed c env te (ODecide works a decision actor reason) s =
     keep_state s (observed_decide c env te works a decision actor reason s)"
| "serve_observed c env te (OCancel works k) s = keep_state s (observed_cancel te works k s)"

fun serve_plain :: "ctx \<Rightarrow> wf_env \<Rightarrow> observed_request \<Rightarrow> world \<Rightarrow> (app_error + workflow_run) \<times> world" where
  "serve_plain c env (OStart works others trace_others secs i d) w = start c env others i d w"
| "serve_plain c env (ODecide works a decision actor reason) w =
     keep_state w (decide_approval c env a decision actor reason w)"
| "serve_plain c env (OCancel works k) w = keep_state w (cancel k w)"

fun serve_all :: "('q \<Rightarrow> 's \<Rightarrow> 'r \<times> 's) \<Rightarrow> 'q list \<Rightarrow> 's \<Rightarrow> 'r list \<times> 's" where
  "serve_all serve [] s = ([], s)"
| "serve_all serve (q # qs) s =
     (case serve q s of (r, s1) \<Rightarrow> (case serve_all serve qs s1 of (rs, s2) \<Rightarrow> (r # rs, s2)))"

lemma serve_observed_plain:
  "serve_plain c env q (o_world s) = map_prod id o_world (serve_observed c env te q s)"
  by (cases q)
    (auto simp: observed_start_def observed_decide_def observed_cancel_def keep_state_def bindE_def Let_def
      split: sum.splits prod.splits)


section \<open>Consistency of the tables\<close>

lemma insert_steps_spec:
  assumes "insert_steps te k ds td = Some td'"
  obtains ids where "length ids = length ds"
    and "td_steps td' = td_steps td @ map2 (\<lambda>i d. step_row i k d) ids ds"
    and "td_metrics td' = td_metrics td @ map2 (\<lambda>i d. metric_row i k d) ids ds"
    and "td_runs td' = td_runs td"
    and "distinct ids" and "set ids \<inter> os_step_id ` set (td_steps td) = {}"
proof -
  have "\<exists>ids. length ids = length ds \<and> td_steps td' = td_steps td @ map2 (\<lambda>i d. step_row i k d) ids ds \<and>
      td_metrics td' = td_metrics td @ map2 (\<lambda>i d. metric_row i k d) ids ds \<and> td_runs td' = td_runs td \<and>
      distinct ids \<and> set ids \<inter> os_step_id ` set (td_steps td) = {}"
    using assms
  proof (induction ds arbitrary: td)
    case Nil
    then show ?case by simp
  next
    case (Cons d ds)
    obtain i td1 where i: "next_trace_id te td = (i, td1)" by fastforce
    then have td1: "td_steps td1 = td_steps td" "td_metrics td1 = td_metrics td" "td_runs td1 = td_runs td"
      by (auto simp: next_trace_id_def)
    let ?td2 = "td1\<lparr>td_steps := td_steps td1 @ [step_row i k d], td_metrics := td_metrics td1 @ [metric_row i k d]\<rparr>"
    from Cons.prems i have fresh: "i \<notin> os_step_id ` set (td_steps td)" and rest: "insert_steps te k ds ?td2 = Some td'"
      by (auto simp: Let_def td1 split: if_splits)
    from Cons.IH [OF rest] obtain ids where ids: "length ids = length ds"
      "td_steps td' = td_steps td @ [step_row i k d] @ map2 (\<lambda>i d. step_row i k d) ids ds"
      "td_metrics td' = td_metrics td @ [metric_row i k d] @ map2 (\<lambda>i d. metric_row i k d) ids ds"
      "td_runs td' = td_runs td" "distinct ids"
      "set ids \<inter> os_step_id ` set (td_steps td @ [step_row i k d]) = {}"
      by (auto simp: td1)
    show ?case
      by (rule exI [of _ "i # ids"]) (use ids fresh in \<open>auto simp: step_row_def\<close>)
  qed
  with that show thesis by blast
qed

definition step_key :: "observability_step \<Rightarrow> uuid \<times> uuid \<times> string \<times> rat option" where
  "step_key x = (os_step_id x, os_run_id x, os_agent_name x, os_latency_ms x)"

definition metric_key :: "observability_metric \<Rightarrow> uuid \<times> uuid \<times> string \<times> rat option" where
  "metric_key m = (om_step_id m, om_run_id m, om_agent_name m, om_latency_ms m)"

definition run_closed_ok :: "observability_run \<Rightarrow> bool" where
  "run_closed_ok r \<longleftrightarrow>
     (or_end_time r \<noteq> None \<longleftrightarrow> or_status r \<in> TERMINAL_STATUSES) \<and>
     (case or_latency_ms r of None \<Rightarrow> or_status r \<notin> TERMINAL_STATUSES
      | Some l \<Rightarrow> or_status r \<in> TERMINAL_STATUSES \<and> 0 \<le> l)"

definition steps_of :: "uuid \<Rightarrow> trace_db \<Rightarrow> observability_step list" where
  "steps_of k td = filter (\<lambda>x. os_run_id x = k) (td_steps td)"

definition linked_ids :: "observability_run list \<Rightarrow> uuid set" where
  "linked_ids rs = or_run_id ` {r \<in> set rs. or_workflow_run_id r \<noteq> None}"

definition one_per_workflow :: "observability_run list \<Rightarrow> bool" where
  "one_per_workflow rs \<longleftrightarrow>
     (\<forall>r \<in> set rs. \<forall>r' \<in> set rs. \<forall>k. or_workflow_run_id r = Some k \<longrightarrow> or_workflow_run_id r' = Some k \<longrightarrow>
        or_run_id r = or_run_id r')"

lemma one_per_workflowD:
  "one_per_workflow rs \<Longrightarrow> r \<in> set rs \<Longrightarrow> r' \<in> set rs \<Longrightarrow> or_workflow_run_id r = Some k \<Longrightarrow>
     or_workflow_run_id r' = Some k \<Longrightarrow> or_run_id r = or_run_id r'"
  unfolding one_per_workflow_def by blast

lemma one_per_workflowI:
  "(\<And>r r' k. r \<in> set rs \<Longrightarrow> r' \<in> set rs \<Longrightarrow> or_workflow_run_id r = Some k \<Longrightarrow> or_workflow_run_id r' = Some k \<Longrightarrow>
     or_run_id r = or_run_id r') \<Longrightarrow> one_per_workflow rs"
  unfolding one_per_workflow_def by blast

definition runs_ok :: "observability_run list \<Rightarrow> bool" where
  "runs_ok rs \<longleftrightarrow>
     distinct (map or_run_id rs) \<and> (\<forall>r \<in> set rs. run_closed_ok r) \<and> one_per_workflow rs"

definition steps_ok :: "trace_db \<Rightarrow> bool" where
  "steps_ok td \<longleftrightarrow>
     distinct (map os_step_id (td_steps td)) \<and> map metric_key (td_metrics td) = map step_key (td_steps td) \<and>
     (\<forall>k. map os_sequence (steps_of k td) = [0..<length (steps_of k td)])"

definition trace_ok :: "trace_db \<Rightarrow> bool" where
  "trace_ok td \<longleftrightarrow>
     runs_ok (td_runs td) \<and> steps_ok td \<and> os_run_id ` set (td_steps td) \<subseteq> linked_ids (td_runs td)"

lemma filter_keys:
  "map metric_key ms = map step_key xs \<Longrightarrow>
   map metric_key (filter (\<lambda>m. om_run_id m \<noteq> k) ms) = map step_key (filter (\<lambda>x. os_run_id x \<noteq> k) xs)"
  by (induction ms arbitrary: xs) (auto simp: metric_key_def step_key_def Cons_eq_map_conv)

lemma drop_steps_of: "steps_of j (drop_steps k td) = (if j = k then [] else steps_of j td)"
  by (auto simp: steps_of_def drop_steps_def intro: filter_cong)

lemma drop_steps_ok: "steps_ok td \<Longrightarrow> steps_ok (drop_steps k td)"
  using filter_keys [of "td_metrics td" "td_steps td" k]
  by (simp add: steps_ok_def drop_steps_of) (simp add: drop_steps_def distinct_map_filter)

lemma map_snd_of_zip: "length xs = length ys \<Longrightarrow> map (\<lambda>p. f (snd p)) (zip xs ys) = map f ys"
  by (induction xs ys rule: list_induct2) simp_all

lemma insert_steps_ok:
  assumes "insert_steps te k ds td = Some td'" and "steps_ok td" and "steps_of k td = []"
    and "map asd_sequence ds = [0..<length ds]"
  shows "steps_ok td' \<and> td_runs td' = td_runs td \<and> map os_source_agent_run_id (steps_of k td') = map asd_source_agent_run_id ds \<and>
    os_run_id ` set (td_steps td') \<subseteq> insert k (os_run_id ` set (td_steps td)) \<and>
    (\<forall>j. j \<noteq> k \<longrightarrow> steps_of j td' = steps_of j td)"
proof -
  from assms(1) obtain ids where ids: "length ids = length ds"
    "td_steps td' = td_steps td @ map2 (\<lambda>i d. step_row i k d) ids ds"
    "td_metrics td' = td_metrics td @ map2 (\<lambda>i d. metric_row i k d) ids ds"
    "td_runs td' = td_runs td" "distinct ids" "set ids \<inter> os_step_id ` set (td_steps td) = {}"
    by (rule insert_steps_spec)
  let ?new = "map2 (\<lambda>i d. step_row i k d) ids ds"
  have new: "\<forall>x \<in> set ?new. os_run_id x = k" by (auto simp: step_row_def)
  have "map os_step_id ?new = ids" using ids(1)
    by (simp add: step_row_def comp_def case_prod_unfold)
  moreover have "map metric_key (map2 (\<lambda>i d. metric_row i k d) ids ds) = map step_key ?new"
    by (simp add: metric_key_def step_key_def metric_row_def step_row_def case_prod_unfold)
  moreover have seq: "map os_sequence ?new = map asd_sequence ds"
    "map os_source_agent_run_id ?new = map asd_source_agent_run_id ds"
    using ids(1) by (simp_all add: step_row_def comp_def case_prod_unfold map_snd_of_zip)
  moreover have k: "steps_of k td' = ?new"
    using assms(3) new unfolding steps_of_def ids(2) by (simp add: filter_id_conv)
  moreover have other: "steps_of j td' = steps_of j td" if "j \<noteq> k" for j
  proof -
    have "filter (\<lambda>x. os_run_id x = j) ?new = []" using new that by (simp only: filter_empty_conv) blast
    then show ?thesis unfolding steps_of_def ids(2) by (simp del: filter_map)
  qed
  moreover have "map os_sequence (steps_of j td') = [0..<length (steps_of j td')]" for j
    using assms(2,4) seq k other [of j] ids(1) by (cases "j = k") (auto simp: steps_ok_def)
  ultimately show ?thesis using assms(2) ids new unfolding steps_ok_def by auto
qed

lemma step_drafts_sequence: "map asd_sequence (step_drafts te k w) = [0..<length (step_drafts te k w)]"
proof -
  have "map asd_sequence (map (build_step_draft te) (List.enumerate 0 xs)) = [0..<length xs]" for xs
    by (simp add: build_step_draft_def comp_def case_prod_unfold Let_def)
  then show ?thesis by (simp add: step_drafts_def split: option.splits)
qed

lemma runs_ok_update:
  assumes "runs_ok rs"
    and "\<And>r. or_run_id (f r) = or_run_id r \<and> or_workflow_run_id (f r) = or_workflow_run_id r"
    and "\<And>r. run_closed_ok r \<Longrightarrow> run_closed_ok (f r)"
  shows "runs_ok (update_rows or_run_id k f rs)" and "linked_ids (update_rows or_run_id k f rs) = linked_ids rs"
proof -
  have same: "or_run_id (if or_run_id r = k then f r else r) = or_run_id r"
    "or_workflow_run_id (if or_run_id r = k then f r else r) = or_workflow_run_id r" for r using assms(2) by auto
  define g where "g = (\<lambda>r. if or_run_id r = k then f r else r)"
  have g: "update_rows or_run_id k f rs = map g rs" "\<And>r. or_run_id (g r) = or_run_id r"
    "\<And>r. or_workflow_run_id (g r) = or_workflow_run_id r" "\<And>r. run_closed_ok r \<Longrightarrow> run_closed_ok (g r)"
    using same assms(3) by (auto simp: g_def update_rows_def)
  show "runs_ok (update_rows or_run_id k f rs)"
  proof -
    have "map or_run_id (map g rs) = map or_run_id rs" by (simp add: g(2))
    moreover have "\<forall>r \<in> set (map g rs). run_closed_ok r" using assms(1) g(4) by (auto simp: runs_ok_def)
    moreover have "one_per_workflow (map g rs)"
    proof (rule one_per_workflowI)
      fix x y i
      assume xy: "x \<in> set (map g rs)" "y \<in> set (map g rs)" "or_workflow_run_id x = Some i" "or_workflow_run_id y = Some i"
      then obtain u v where uv: "u \<in> set rs" "v \<in> set rs" "x = g u" "y = g v" by auto
      with xy(3,4) have "or_workflow_run_id u = Some i" "or_workflow_run_id v = Some i" by (simp_all add: g(3))
      then have "or_run_id u = or_run_id v" using assms(1) uv(1,2) unfolding runs_ok_def by (blast dest: one_per_workflowD)
      with uv show "or_run_id x = or_run_id y" by (simp add: g(2))
    qed
    ultimately show ?thesis using assms(1) unfolding runs_ok_def g(1) by metis
  qed
  show "linked_ids (update_rows or_run_id k f rs) = linked_ids rs"
  proof -
    have "{r \<in> set (map g rs). or_workflow_run_id r \<noteq> None} = g ` {r \<in> set rs. or_workflow_run_id r \<noteq> None}"
      using g(3) by auto
    then show ?thesis unfolding linked_ids_def g(1) by (simp add: image_image g(2))
  qed
qed

lemma finalize_closed: "run_closed_ok (finalize_run status now result err r)"
  by (simp add: run_closed_ok_def finalize_run_def elapsed_ms_def)

definition closing ::
  "ObservabilityStatus \<Rightarrow> WorkflowStatus option \<Rightarrow> agent_step_draft list \<Rightarrow> details \<Rightarrow> string option \<Rightarrow> instant
    \<Rightarrow> observability_run \<Rightarrow> observability_run" where
  "closing status workflow_status drafts result err now r =
     finalize_run status now
       (merge_details (merge_details (or_result r)
          [(''workflow_name'', JStr WORKFLOW_VERSION),
           (''workflow_status'', json_opt_str (map_option workflow_status_value workflow_status)),
           (''step_count'', JInt (int (length drafts))),
           (''outcome'', JStr (observability_status_value status))]) result) err r"

lemma closing_simps [simp]:
  "or_run_id (closing status ws ds result err now r) = or_run_id r"
  "or_workflow_run_id (closing status ws ds result err now r) = or_workflow_run_id r"
  "or_start_time (closing status ws ds result err now r) = or_start_time r"
  "or_status (closing status ws ds result err now r) = status"
  "or_error_message (closing status ws ds result err now r) = err"
  "or_end_time (closing status ws ds result err now r) = (if status \<in> TERMINAL_STATUSES then Some now else None)"
  "or_latency_ms (closing status ws ds result err now r) =
     (if status \<in> TERMINAL_STATUSES then Some (elapsed_ms (or_start_time r) now) else None)"
  by (simp_all add: closing_def finalize_run_def)

lemma close_run_spec:
  assumes "close_run te k ds status ws result err td = Some td'" and "trace_ok td"
    and "map asd_sequence ds = [0..<length ds]" and "ds \<noteq> [] \<Longrightarrow> k \<in> linked_ids (td_runs td)"
  obtains now where "trace_ok td'"
    and "td_runs td' = update_rows or_run_id k (closing status ws ds result err now) (td_runs td)"
    and "ds \<noteq> [] \<Longrightarrow> map os_source_agent_run_id (steps_of k td') = map asd_source_agent_run_id ds"
    and "ds = [] \<Longrightarrow> td_steps td' = td_steps td"
proof -
  from assms(1) obtain td1 where td1: "(if ds = [] then Some td else replace_steps te k ds td) = Some td1"
    and td': "td' = (snd (trace_now te td1))\<lparr>td_runs := update_rows or_run_id k
        (closing status ws ds result err (fst (trace_now te td1))) (td_runs (snd (trace_now te td1)))\<rparr>"
    by (auto simp: close_run_def bind_eq_Some_conv case_prod_unfold Let_def closing_def [abs_def])
  have frame: "td_runs (snd (trace_now te td1)) = td_runs td1" "td_steps (snd (trace_now te td1)) = td_steps td1"
    "td_metrics (snd (trace_now te td1)) = td_metrics td1" by (simp_all add: trace_now_def)
  have ok: "runs_ok (td_runs td)" "steps_ok td" "os_run_id ` set (td_steps td) \<subseteq> linked_ids (td_runs td)"
    using assms(2) by (simp_all add: trace_ok_def)
  have step: "steps_ok td1 \<and> td_runs td1 = td_runs td \<and> os_run_id ` set (td_steps td1) \<subseteq> linked_ids (td_runs td) \<and>
      (ds \<noteq> [] \<longrightarrow> map os_source_agent_run_id (steps_of k td1) = map asd_source_agent_run_id ds) \<and>
      (ds = [] \<longrightarrow> td_steps td1 = td_steps td)"
  proof (cases "ds = []")
    case True
    with td1 ok show ?thesis by simp
  next
    case False
    with td1 have ins: "insert_steps te k ds (drop_steps k td) = Some td1" by (simp add: replace_steps_def)
    have "steps_of k (drop_steps k td) = []" by (simp add: drop_steps_of)
    note spec = insert_steps_ok [OF ins drop_steps_ok [OF ok(2)] this assms(3)]
    have "os_run_id ` set (td_steps (drop_steps k td)) \<subseteq> linked_ids (td_runs td)"
      using ok(3) by (auto simp: drop_steps_def)
    then have "os_run_id ` set (td_steps td1) \<subseteq> linked_ids (td_runs td)" using spec assms(4) [OF False] by blast
    with spec False show ?thesis by (simp add: drop_steps_def)
  qed
  let ?f = "closing status ws ds result err (fst (trace_now te td1))"
  have runs: "td_runs td' = update_rows or_run_id k ?f (td_runs td)" using td' frame step by simp
  have upd: "runs_ok (update_rows or_run_id k ?f (td_runs td))"
    "linked_ids (update_rows or_run_id k ?f (td_runs td)) = linked_ids (td_runs td)"
    by (rule runs_ok_update [OF ok(1)], simp, simp add: closing_def finalize_closed)+
  have steps: "td_steps td' = td_steps td1" "td_metrics td' = td_metrics td1" using td' frame by simp_all
  then have "steps_of j td' = steps_of j td1" for j by (simp add: steps_of_def)
  with step steps upd runs have "trace_ok td'" by (simp add: trace_ok_def steps_ok_def)
  then show thesis using that runs step steps by (simp add: steps_of_def)
qed

lemma begin_trace_ok:
  assumes "begin_trace te works d t p m td = (k, td')" and "trace_ok td"
  shows "trace_ok td'"
proof (cases k)
  case None
  with assms show ?thesis by (auto simp: begin_trace_def Let_def split: prod.splits option.splits)
next
  case (Some i)
  with assms(1) obtain r where r: "td_runs td' = td_runs td @ [r]" "or_run_id r \<notin> or_run_id ` set (td_runs td)"
    "or_workflow_run_id r = None" "run_closed_ok r" "td_steps td' = td_steps td" "td_metrics td' = td_metrics td"
    by (auto simp: begin_trace_def Let_def create_trace_run_def trace_now_def next_trace_id_def new_trace_run_def
        run_closed_ok_def TERMINAL_STATUSES_def split: if_splits option.splits)
  have "linked_ids (td_runs td') = linked_ids (td_runs td)" using r by (auto simp: linked_ids_def)
  moreover have "one_per_workflow (td_runs td')"
  proof (rule one_per_workflowI)
    fix x y j
    assume "x \<in> set (td_runs td')" "y \<in> set (td_runs td')" "or_workflow_run_id x = Some j" "or_workflow_run_id y = Some j"
    then have "x \<in> set (td_runs td)" "y \<in> set (td_runs td)" using r(1,3) by auto
    then show "or_run_id x = or_run_id y"
      using assms(2) \<open>or_workflow_run_id x = Some j\<close> \<open>or_workflow_run_id y = Some j\<close>
      unfolding trace_ok_def runs_ok_def by (blast dest: one_per_workflowD)
  qed
  then have "runs_ok (td_runs td')" using assms(2) r by (simp add: trace_ok_def runs_ok_def)
  ultimately show ?thesis using assms(2) r by (simp add: trace_ok_def steps_ok_def steps_of_def)
qed

lemma find_run_Some:
  assumes "find_run_by_workflow_run k td = Some e"
  shows "e \<in> set (td_runs td) \<and> or_workflow_run_id e = Some k"
proof -
  from assms obtain rest where "sort_by by_start_desc (filter (\<lambda>r. or_workflow_run_id r = Some k) (td_runs td)) = e # rest"
    by (auto simp: find_run_by_workflow_run_def split: list.splits)
  then have "e \<in> set (sort_by by_start_desc (filter (\<lambda>r. or_workflow_run_id r = Some k) (td_runs td)))" by simp
  then show ?thesis by simp
qed

lemma find_run_None: "find_run_by_workflow_run k td = None \<longleftrightarrow> (\<forall>r \<in> set (td_runs td). or_workflow_run_id r \<noteq> Some k)"
proof -
  have "find_run_by_workflow_run k td = None \<longleftrightarrow>
      sort_by by_start_desc (filter (\<lambda>r. or_workflow_run_id r = Some k) (td_runs td)) = []"
    unfolding find_run_by_workflow_run_def by (simp del: sort_by_Nil_iff split: list.splits)
  then show ?thesis by (simp add: filter_empty_conv)
qed

lemma delete_trace_run_ok:
  assumes "trace_ok td"
  shows "trace_ok (delete_trace_run k td)"
proof -
  have runs: "td_runs (delete_trace_run k td) = filter (\<lambda>r. or_run_id r \<noteq> k) (td_runs td)"
    by (simp add: delete_trace_run_def)
  have steps: "steps_of j (delete_trace_run k td) = steps_of j (drop_steps k td)" for j
    by (simp add: delete_trace_run_def steps_of_def)
  have "steps_ok (delete_trace_run k td)"
    using drop_steps_ok [of td k] assms by (simp add: trace_ok_def steps_ok_def steps) (simp add: delete_trace_run_def)
  moreover have "runs_ok (td_runs (delete_trace_run k td))"
    using assms unfolding runs trace_ok_def runs_ok_def
    by (intro conjI one_per_workflowI) (auto simp: distinct_map_filter dest: one_per_workflowD)
  moreover have "os_run_id ` set (td_steps (delete_trace_run k td)) \<subseteq> linked_ids (td_runs (delete_trace_run k td))"
    using assms by (auto simp: delete_trace_run_def drop_steps_def trace_ok_def linked_ids_def)
  ultimately show ?thesis by (simp add: trace_ok_def)
qed

lemma link_run_ok:
  assumes "trace_ok td" and "\<And>r. r \<in> set (td_runs td) \<Longrightarrow> or_workflow_run_id r = Some (wr_id flow) \<Longrightarrow> or_run_id r = k"
  shows "trace_ok (td\<lparr>td_runs := update_rows or_run_id k (link_run flow) (td_runs td)\<rparr>)"
proof -
  let ?rs = "update_rows or_run_id k (link_run flow) (td_runs td)"
  have id: "or_run_id (link_run flow r) = or_run_id r" for r by (simp add: link_run_def)
  have "map or_run_id ?rs = map or_run_id (td_runs td)" by (simp add: update_rows_def id)
  moreover have "\<forall>r \<in> set ?rs. run_closed_ok r"
  proof -
    have "run_closed_ok (link_run flow r) = run_closed_ok r" for r by (simp add: run_closed_ok_def link_run_def split: option.splits)
    then show ?thesis using assms(1) by (auto simp: update_rows_def trace_ok_def runs_ok_def)
  qed
  moreover have "one_per_workflow ?rs"
  proof (rule one_per_workflowI)
    fix r r' i
    assume r: "r \<in> set ?rs" "r' \<in> set ?rs" "or_workflow_run_id r = Some i" "or_workflow_run_id r' = Some i"
    then obtain s s' where s: "s \<in> set (td_runs td)" "s' \<in> set (td_runs td)"
      "r = (if or_run_id s = k then link_run flow s else s)" "r' = (if or_run_id s' = k then link_run flow s' else s')"
      by (auto simp: update_rows_def)
    have wid: "or_workflow_run_id (link_run flow x) = Some (wr_id flow)" for x by (simp add: link_run_def)
    have uniq: "or_workflow_run_id s = Some i \<Longrightarrow> or_workflow_run_id s' = Some i \<Longrightarrow> or_run_id s = or_run_id s'"
      using assms(1) s(1,2) unfolding trace_ok_def runs_ok_def by (blast dest: one_per_workflowD)
    show "or_run_id r = or_run_id r'"
      using r(3,4) s(3,4) assms(2) [OF s(1)] assms(2) [OF s(2)] uniq by (simp add: id wid split: if_splits)
  qed
  ultimately have "runs_ok ?rs" using assms(1) by (simp add: runs_ok_def trace_ok_def)
  moreover have "linked_ids (td_runs td) \<subseteq> linked_ids ?rs"
  proof
    fix i assume "i \<in> linked_ids (td_runs td)"
    then obtain r where r: "r \<in> set (td_runs td)" "or_workflow_run_id r \<noteq> None" "i = or_run_id r"
      by (auto simp: linked_ids_def)
    then have "(if or_run_id r = k then link_run flow r else r) \<in> set ?rs" by (auto simp: update_rows_def)
    moreover have "or_workflow_run_id (if or_run_id r = k then link_run flow r else r) \<noteq> None"
      using r(2) by (simp add: link_run_def)
    moreover have "i = or_run_id (if or_run_id r = k then link_run flow r else r)" using r(3) id by simp
    ultimately show "i \<in> linked_ids ?rs" unfolding linked_ids_def by blast
  qed
  ultimately show ?thesis using assms(1) by (auto simp: trace_ok_def steps_ok_def steps_of_def)
qed

definition audit_rows :: "uuid \<Rightarrow> world \<Rightarrow> agent_run list" where
  "audit_rows k w = sort_by by_time_and_agent (sort_by by_agent_time (filter (\<lambda>a. ar_workflow_run_id a = k) (w_agent_runs w)))"

lemma step_drafts_rows: "map asd_source_agent_run_id (step_drafts te (Some k) w) = map ar_id (audit_rows k w)"
proof -
  have "map asd_source_agent_run_id (map (build_step_draft te) (List.enumerate n xs)) = map ar_id xs" for n xs
    by (induction xs arbitrary: n) (simp_all add: build_step_draft_def Let_def)
  then show ?thesis by (simp add: step_drafts_def audit_rows_def)
qed

lemma step_drafts_Nil: "step_drafts te (Some k) w = [] \<longleftrightarrow> audit_rows k w = []"
  by (metis step_drafts_rows map_is_Nil_conv)

text \<open>The run a completion keeps, and what is left before it is closed.\<close>

definition kept_run :: "uuid \<Rightarrow> workflow_run \<Rightarrow> trace_db \<Rightarrow> uuid" where
  "kept_run k flow td = (case find_run_by_workflow_run (wr_id flow) td of None \<Rightarrow> k | Some e \<Rightarrow> or_run_id e)"

definition before_close :: "uuid \<Rightarrow> workflow_run \<Rightarrow> trace_db \<Rightarrow> trace_db" where
  "before_close k flow td =
     (let td1 = (if kept_run k flow td = k then td else delete_trace_run k td) in
      td1\<lparr>td_runs := update_rows or_run_id (kept_run k flow td) (link_run flow) (td_runs td1)\<rparr>)"

lemma complete_result_Some:
  "complete_result te k (Some flow) result err status w td =
     (case get_trace_run k td of None \<Rightarrow> Some td
      | Some _ \<Rightarrow> close_run te (kept_run k flow td) (step_drafts te (Some (wr_id flow)) w)
          (case status of None \<Rightarrow> map_workflow_status (wr_status flow) | Some x \<Rightarrow> x) (Some (wr_status flow))
          result err (before_close k flow td))"
  by (auto simp: complete_result_def kept_run_def before_close_def Let_def split: option.splits)

lemma get_trace_run_Some: "get_trace_run k td = Some r \<Longrightarrow> r \<in> set (td_runs td) \<and> or_run_id r = k"
  by (auto simp: get_trace_run_def dest: find_row_Some)

lemma before_close_ok:
  assumes "trace_ok td" and "get_trace_run k td = Some r0"
  shows "trace_ok (before_close k flow td)" and "kept_run k flow td \<in> linked_ids (td_runs (before_close k flow td))"
proof -
  let ?kept = "kept_run k flow td" and ?td1 = "if kept_run k flow td = k then td else delete_trace_run k td"
  have sub: "set (td_runs ?td1) \<subseteq> set (td_runs td)" by (auto simp: delete_trace_run_def)
  have ok1: "trace_ok ?td1" using assms(1) by (simp add: delete_trace_run_ok)
  have only: "or_run_id r = ?kept" if "r \<in> set (td_runs ?td1)" "or_workflow_run_id r = Some (wr_id flow)" for r
  proof -
    from that sub have r: "r \<in> set (td_runs td)" by blast
    show ?thesis
    proof (cases "find_run_by_workflow_run (wr_id flow) td")
      case None
      with r that(2) find_run_None show ?thesis by blast
    next
      case (Some e)
      with r that(2) find_run_Some [OF Some] assms(1) show ?thesis
        unfolding kept_run_def trace_ok_def runs_ok_def by (auto dest: one_per_workflowD)
    qed
  qed
  have eq: "before_close k flow td = ?td1\<lparr>td_runs := update_rows or_run_id ?kept (link_run flow) (td_runs ?td1)\<rparr>"
    by (simp add: before_close_def Let_def)
  show "trace_ok (before_close k flow td)" unfolding eq by (rule link_run_ok [OF ok1 only])
  have "\<exists>r \<in> set (td_runs ?td1). or_run_id r = ?kept"
  proof (cases "find_run_by_workflow_run (wr_id flow) td")
    case None
    with get_trace_run_Some [OF assms(2)] show ?thesis by (auto simp: kept_run_def)
  next
    case (Some e)
    with find_run_Some [OF Some] show ?thesis
      by (intro bexI [of _ e]) (auto simp: kept_run_def delete_trace_run_def)
  qed
  then obtain r where r: "r \<in> set (td_runs ?td1)" "or_run_id r = ?kept" by blast
  then have "link_run flow r \<in> set (td_runs (before_close k flow td))" unfolding eq by (force simp: update_rows_def)
  moreover have "or_run_id (link_run flow r) = ?kept" "or_workflow_run_id (link_run flow r) \<noteq> None"
    using r(2) by (simp_all add: link_run_def)
  ultimately show "?kept \<in> linked_ids (td_runs (before_close k flow td))" unfolding linked_ids_def by (metis (mono_tags, lifting) image_eqI mem_Collect_eq)
qed

lemma complete_result_ok:
  assumes "trace_ok td" and "complete_result te k workflow result err status w td = Some td'"
  shows "trace_ok td'"
proof (cases "get_trace_run k td")
  case None
  with assms show ?thesis by (simp add: complete_result_def)
next
  case (Some r0)
  show ?thesis
  proof (cases workflow)
    case None
    with Some assms(2) have "close_run te k [] (case status of None \<Rightarrow> OBS_FAILED | Some x \<Rightarrow> x) None result err td = Some td'"
      by (simp add: complete_result_def)
    from close_run_spec [OF this assms(1)] show ?thesis by (metis list.size(3) list.map(1) upt_0)
  next
    case flow: (Some flow)
    with assms(2) have "close_run te (kept_run k flow td) (step_drafts te (Some (wr_id flow)) w)
          (case status of None \<Rightarrow> map_workflow_status (wr_status flow) | Some x \<Rightarrow> x) (Some (wr_status flow))
          result err (before_close k flow td) = Some td'"
      by (simp add: complete_result_Some Some)
    from close_run_spec [OF this before_close_ok(1) [OF assms(1) Some] step_drafts_sequence before_close_ok(2) [OF assms(1) Some]]
    show ?thesis by metis
  qed
qed

lemma refresh_result_ok:
  assumes "trace_ok td" and "refresh_result te flow result w td = Some td'"
  shows "trace_ok td'"
proof (cases "find_run_by_workflow_run (wr_id flow) td")
  case None
  with assms show ?thesis by (simp add: refresh_result_def)
next
  case (Some r)
  from find_run_Some [OF Some] have "or_run_id r \<in> linked_ids (td_runs td)" by (auto simp: linked_ids_def)
  moreover from Some assms(2) have "close_run te (or_run_id r) (step_drafts te (Some (wr_id flow)) w)
      (map_workflow_status (wr_status flow)) (Some (wr_status flow)) result None td = Some td'"
    by (simp add: refresh_result_def)
  ultimately show ?thesis using close_run_spec [OF _ assms(1) step_drafts_sequence] by metis
qed

text \<open>The tracer's transactions, in any order, by any requests, on any database, working or not.\<close>

inductive trace_step :: "trace_env \<Rightarrow> trace_db \<Rightarrow> trace_db \<Rightarrow> bool" for te where
  opened: "begin_trace te works device_id trace_id provider model td = (k, td') \<Longrightarrow> trace_step te td td'"
| completed: "trace_step te td (complete_trace te works run_id workflow result err status w td)"
| refreshed: "trace_step te td (refresh_for_workflow te works flow result w td)"

definition empty_traces :: trace_db where
  "empty_traces = \<lparr>td_runs = [], td_steps = [], td_metrics = [], td_uuids = 0, td_ticks = 0\<rparr>"

inductive trace_reachable :: "trace_env \<Rightarrow> trace_db \<Rightarrow> bool" for te where
  initial: "trace_reachable te empty_traces"
| later: "trace_reachable te td \<Longrightarrow> trace_step te td td' \<Longrightarrow> trace_reachable te td'"

lemma trace_step_ok: "trace_step te td td' \<Longrightarrow> trace_ok td \<Longrightarrow> trace_ok td'"
proof (induction rule: trace_step.induct)
  case (opened works device_id trace_id provider model td k td')
  then show ?case by (rule begin_trace_ok)
next
  case (completed td works run_id workflow result err status w)
  then show ?case
    by (auto simp: complete_trace_def committed_def split: option.splits dest: complete_result_ok)
next
  case (refreshed td works flow result w)
  then show ?case by (auto simp: refresh_for_workflow_def committed_def split: option.splits dest: refresh_result_ok)
qed

lemma trace_reachable_ok: "trace_reachable te td \<Longrightarrow> trace_ok td"
proof (induction rule: trace_reachable.induct)
  case initial
  show ?case
    by (simp add: trace_ok_def runs_ok_def steps_ok_def empty_traces_def one_per_workflow_def steps_of_def)
next
  case (later td td')
  then show ?case using trace_step_ok by blast
qed

lemma filter_unique:
  assumes "distinct (map f xs)" and "\<And>x y. x \<in> set xs \<Longrightarrow> y \<in> set xs \<Longrightarrow> P x \<Longrightarrow> P y \<Longrightarrow> f x = f y"
  shows "length (filter P xs) \<le> 1"
  using assms
proof (induction xs)
  case (Cons x xs)
  show ?case
  proof (cases "P x")
    case True
    have "\<not> P y" if "y \<in> set xs" for y
    proof
      assume "P y"
      with True that Cons.prems(2) [of x y] have "f x = f y" by simp
      with that Cons.prems(1) show False by auto
    qed
    then have "filter P xs = []" by (simp add: filter_empty_conv)
    with True show ?thesis by simp
  next
    case False
    with Cons show ?thesis by auto
  qed
qed simp

lemma filter_key:
  assumes "distinct (map f xs)" and "i \<in> f ` set xs"
  shows "length (filter (\<lambda>x. f x = i) xs) = 1"
  using assms by (induction xs) (auto simp: filter_empty_conv image_iff)


section \<open>What a trace shows\<close>

lemma get_trace_run_in:
  "runs_ok (td_runs td) \<Longrightarrow> r \<in> set (td_runs td) \<Longrightarrow> get_trace_run (or_run_id r) td = Some r"
  by (simp add: get_trace_run_def runs_ok_def find_row_unique)

lemma find_run_unique:
  assumes "runs_ok (td_runs td)" and "r \<in> set (td_runs td)" and "or_workflow_run_id r = Some k"
  shows "find_run_by_workflow_run k td = Some r"
proof (cases "find_run_by_workflow_run k td")
  case None
  with assms show ?thesis by (simp add: find_run_None)
next
  case (Some e)
  from find_run_Some [OF Some] have e: "e \<in> set (td_runs td)" "or_workflow_run_id e = Some k" by simp_all
  with assms have "or_run_id e = or_run_id r" unfolding runs_ok_def by (blast dest: one_per_workflowD)
  with assms e get_trace_run_in [OF assms(1)] have "e = r" by (metis option.inject)
  with Some show ?thesis by simp
qed

lemma in_update_rows: "r \<in> set rs \<Longrightarrow> key r = k \<Longrightarrow> f r \<in> set (update_rows key k f rs)"
  by (force simp: update_rows_def)

text \<open>
  C16 (functional). How a completed start is traced. When the workflow service answered with a run, that
  run has exactly one trace: the provisional one, or, on a replay, the trace it already had, whose start
  is kept while the provisional one is gone. Its status is that of the workflow, and its steps are the
  rows of the agent audit trail of that workflow, in their order. A final trace ends now and its latency
  counts from its start, so that replaying an old workflow rewrites both. When the service raised, the
  provisional trace is final with the given status and the message, and has no workflow and no steps,
  whatever the agents did.
\<close>

theorem trace_of_start:
  assumes "trace_reachable te td" and "get_trace_run k td = Some r0" and "or_workflow_run_id r0 = None"
    and "complete_result te k workflow result err status w td = Some td'"
  shows "case workflow of
      Some flow \<Rightarrow>
        (\<exists>r now. find_run_by_workflow_run (wr_id flow) td' = Some r \<and>
          (case find_run_by_workflow_run (wr_id flow) td of
             None \<Rightarrow> or_run_id r = k \<and> or_start_time r = or_start_time r0
           | Some e \<Rightarrow> or_run_id r = or_run_id e \<and> or_start_time r = or_start_time e \<and> get_trace_run k td' = None) \<and>
          or_status r = (case status of None \<Rightarrow> map_workflow_status (wr_status flow) | Some x \<Rightarrow> x) \<and>
          (or_status r \<in> TERMINAL_STATUSES \<longrightarrow>
             or_end_time r = Some now \<and> or_latency_ms r = Some (elapsed_ms (or_start_time r) now)) \<and>
          (audit_rows (wr_id flow) w \<noteq> [] \<longrightarrow>
             map os_source_agent_run_id (filter (\<lambda>x. os_run_id x = or_run_id r) (td_steps td')) =
             map ar_id (audit_rows (wr_id flow) w)))
    | None \<Rightarrow>
        (\<exists>r. get_trace_run k td' = Some r \<and> or_workflow_run_id r = None \<and> or_error_message r = err \<and>
          or_status r = (case status of None \<Rightarrow> OBS_FAILED | Some x \<Rightarrow> x) \<and>
          filter (\<lambda>x. os_run_id x = k) (td_steps td') = [])"
proof -
  have ok: "trace_ok td" using assms(1) by (rule trace_reachable_ok)
  from get_trace_run_Some [OF assms(2)] have r0: "r0 \<in> set (td_runs td)" "or_run_id r0 = k" by simp_all
  have ids: "distinct (map or_run_id (td_runs td))" using ok by (simp add: trace_ok_def runs_ok_def)
  show ?thesis
  proof (cases workflow)
    case None
    let ?status = "case status of None \<Rightarrow> OBS_FAILED | Some x \<Rightarrow> x"
    from None assms(2,4) have "close_run te k [] ?status None result err td = Some td'"
      by (simp add: complete_result_def)
    then obtain now where closed: "trace_ok td'"
      "td_runs td' = update_rows or_run_id k (closing ?status None [] result err now) (td_runs td)"
      "td_steps td' = td_steps td"
      using close_run_spec [OF _ ok, of te k "[]" ?status None result err td'] by (metis list.size(3) list.map(1) upt_0)
    let ?r = "closing ?status None [] result err now r0"
    have "?r \<in> set (td_runs td')" unfolding closed(2) using r0 by (rule in_update_rows)
    then have "get_trace_run k td' = Some ?r"
      using get_trace_run_in [of td' ?r] closed(1) r0(2) by (simp add: trace_ok_def)
    moreover have "k \<notin> linked_ids (td_runs td)"
    proof
      assume "k \<in> linked_ids (td_runs td)"
      then obtain r where "r \<in> set (td_runs td)" "or_run_id r = k" "or_workflow_run_id r \<noteq> None"
        by (auto simp: linked_ids_def)
      with r0 ids assms(3) show False by (metis eq_key_imp_eq_value find_row_unique option.inject)
    qed
    then have "filter (\<lambda>x. os_run_id x = k) (td_steps td') = []"
      using ok closed(3) by (auto simp: trace_ok_def filter_empty_conv)
    moreover have "or_workflow_run_id ?r = None" "or_error_message ?r = err" "or_status ?r = ?status" using assms(3) by simp_all
    ultimately have "\<exists>r. get_trace_run k td' = Some r \<and> or_workflow_run_id r = None \<and> or_error_message r = err \<and>
        or_status r = ?status \<and> filter (\<lambda>x. os_run_id x = k) (td_steps td') = []" by blast
    then show ?thesis unfolding None option.case(1) .
  next
    case flow: (Some flow)
    let ?status = "case status of None \<Rightarrow> map_workflow_status (wr_status flow) | Some x \<Rightarrow> x"
    let ?kept = "kept_run k flow td" and ?ds = "step_drafts te (Some (wr_id flow)) w" and ?b = "before_close k flow td"
    from flow assms(2,4) have cl: "close_run te ?kept ?ds ?status (Some (wr_status flow)) result err ?b = Some td'"
      by (simp add: complete_result_Some)
    from close_run_spec [OF cl before_close_ok(1) [OF ok assms(2)] step_drafts_sequence before_close_ok(2) [OF ok assms(2)]]
    obtain now where closed: "trace_ok td'"
      "td_runs td' = update_rows or_run_id ?kept (closing ?status (Some (wr_status flow)) ?ds result err now) (td_runs ?b)"
      "?ds \<noteq> [] \<Longrightarrow> map os_source_agent_run_id (steps_of ?kept td') = map asd_source_agent_run_id ?ds"
      by metis
    define base where "base = (case find_run_by_workflow_run (wr_id flow) td of None \<Rightarrow> r0 | Some e \<Rightarrow> e)"
    have base: "base \<in> set (td_runs (if ?kept = k then td else delete_trace_run k td))" "or_run_id base = ?kept"
      using r0 find_run_Some by (auto simp: base_def kept_run_def delete_trace_run_def split: option.splits)
    let ?r = "closing ?status (Some (wr_status flow)) ?ds result err now (link_run flow base)"
    have link: "or_run_id (link_run flow x) = or_run_id x" "or_start_time (link_run flow x) = or_start_time x"
      "or_workflow_run_id (link_run flow x) = Some (wr_id flow)" for x by (simp_all add: link_run_def)
    have "link_run flow base \<in> set (td_runs ?b)"
      unfolding before_close_def Let_def using base by (simp add: in_update_rows)
    then have "?r \<in> set (td_runs td')" unfolding closed(2) by (rule in_update_rows) (simp add: link base(2))
    then have found: "find_run_by_workflow_run (wr_id flow) td' = Some ?r"
      using closed(1) by (intro find_run_unique) (simp_all add: trace_ok_def link)
    have gone: "get_trace_run k td' = None" if "find_run_by_workflow_run (wr_id flow) td = Some e" for e
    proof -
      from find_run_Some [OF that] have e: "e \<in> set (td_runs td)" "or_workflow_run_id e \<noteq> None" by simp_all
      with r0 ids assms(3) have "or_run_id e \<noteq> k" by (metis find_row_unique option.inject)
      then have "?kept \<noteq> k" using that by (simp add: kept_run_def)
      then have b: "td_runs ?b = update_rows or_run_id ?kept (link_run flow) (filter (\<lambda>r. or_run_id r \<noteq> k) (td_runs td))"
        by (simp add: before_close_def Let_def delete_trace_run_def)
      have "map or_run_id (td_runs td') = map or_run_id (td_runs ?b)"
        unfolding closed(2) by (rule map_key_update_rows) simp
      also have "\<dots> = map or_run_id (filter (\<lambda>r. or_run_id r \<noteq> k) (td_runs td))"
        unfolding b by (rule map_key_update_rows) (simp add: link)
      finally have "or_run_id ` set (td_runs td') = or_run_id ` {r \<in> set (td_runs td). or_run_id r \<noteq> k}"
        by (metis list.set_map set_filter)
      then have "k \<notin> or_run_id ` set (td_runs td')" by auto
      then show ?thesis by (simp add: get_trace_run_def find_row_None)
    qed
    have "case find_run_by_workflow_run (wr_id flow) td of
             None \<Rightarrow> or_run_id ?r = k \<and> or_start_time ?r = or_start_time r0
           | Some e \<Rightarrow> or_run_id ?r = or_run_id e \<and> or_start_time ?r = or_start_time e \<and> get_trace_run k td' = None"
      using gone r0 by (auto simp: base_def link split: option.splits)
    moreover have "audit_rows (wr_id flow) w \<noteq> [] \<longrightarrow>
             map os_source_agent_run_id (filter (\<lambda>x. os_run_id x = or_run_id ?r) (td_steps td')) =
             map ar_id (audit_rows (wr_id flow) w)"
      using closed(3) step_drafts_rows step_drafts_Nil by (simp add: link base(2) steps_of_def)
    moreover have "or_status ?r = ?status"
      "or_status ?r \<in> TERMINAL_STATUSES \<longrightarrow> or_end_time ?r = Some now \<and> or_latency_ms ?r = Some (elapsed_ms (or_start_time ?r) now)"
      by simp_all
    ultimately show ?thesis using found unfolding flow option.case(2) by blast
  qed
qed

section \<open>Metrics\<close>

lemma sum_indicator:
  "distinct ks \<Longrightarrow> sum_list (map (\<lambda>k. if k = a then 1 else 0) ks) = (if a \<in> set ks then 1 else 0 :: nat)"
  by (induction ks) auto

lemma sum_counts:
  assumes "distinct ks" and "\<And>x. x \<in> set xs \<Longrightarrow> f x \<in> set ks"
  shows "sum_list (map (\<lambda>k. length (filter (\<lambda>x. f x = k) xs)) ks) = length xs"
  using assms(2)
proof (induction xs)
  case (Cons x xs)
  have "sum_list (map (\<lambda>k. length (filter (\<lambda>y. f y = k) (x # xs))) ks) =
      sum_list (map (\<lambda>k. (if k = f x then 1 else 0) + length (filter (\<lambda>y. f y = k) xs)) ks)"
    by (intro arg_cong [of _ _ sum_list] map_cong) auto
  also have "\<dots> = sum_list (map (\<lambda>k. if k = f x then 1 else 0) ks) + length xs"
    using Cons by (simp add: sum_list_addf)
  also have "sum_list (map (\<lambda>k. if k = f x then 1 else 0) ks) = (1 :: nat)"
    using assms(1) Cons.prems [of x] by (simp add: sum_indicator)
  finally show ?case by simp
qed simp

lemma joined_zip:
  assumes "steps_ok td"
  shows "joined td = zip (td_metrics td) (td_steps td)"
proof -
  let ?steps = "td_steps td"
  have "concat (map (\<lambda>m. map (Pair m) (filter (\<lambda>x. os_step_id x = om_step_id m) ?steps)) ms) = zip ms xs"
    if "map metric_key ms = map step_key xs" "set xs \<subseteq> set ?steps" for ms xs
    using that
  proof (induction ms arbitrary: xs)
    case (Cons m ms)
    then obtain x ys where xs: "xs = x # ys" "metric_key m = step_key x" "map metric_key ms = map step_key ys"
      by (auto simp: Cons_eq_map_conv)
    have mem: "x \<in> set (filter (\<lambda>y. os_step_id y = os_step_id x) ?steps)" using Cons.prems(2) xs(1) by simp
    have "length (filter (\<lambda>y. os_step_id y = os_step_id x) ?steps) = 1"
      using assms Cons.prems(2) xs(1) by (intro filter_key) (auto simp: steps_ok_def)
    then obtain y where y: "filter (\<lambda>y. os_step_id y = os_step_id x) ?steps = [y]" by (auto simp: length_Suc_conv)
    from mem have "x = y" unfolding y by simp
    with y have "filter (\<lambda>y. os_step_id y = os_step_id x) ?steps = [x]" by simp
    moreover have "om_step_id m = os_step_id x" using xs(2) by (simp add: metric_key_def step_key_def)
    ultimately show ?case using Cons.IH [OF xs(3)] Cons.prems(2) xs(1) by simp
  qed simp
  moreover have "map metric_key (td_metrics td) = map step_key ?steps" using assms by (simp add: steps_ok_def)
  ultimately show ?thesis by (simp add: joined_def)
qed

lemma count_runs_total:
  "length (filter (\<lambda>r. or_status r = OBS_RUNNING) rs) + length (filter (\<lambda>r. or_status r = OBS_WAITING_APPROVAL) rs) +
   (length (filter (\<lambda>r. or_status r = OBS_SUCCESS) rs) + length (filter (\<lambda>r. or_status r = OBS_FAILED) rs) +
    length (filter (\<lambda>r. or_status r = OBS_BLOCKED) rs) + length (filter (\<lambda>r. or_status r = OBS_CANCELLED) rs)) = length rs"
proof (induction rs)
  case (Cons r rs)
  then show ?case by (cases "or_status r") simp_all
qed simp

lemma percentile_sample: "percentile values q = Some v \<Longrightarrow> v \<in> set values"
proof -
  assume "percentile values q = Some v"
  then have ne: "values \<noteq> []" and v: "v = sort values ! nat (max 0 (min (int (length values) - 1)
        (round_half_even (q * of_nat (length values - 1)))))" by (auto simp: percentile_def split: if_splits)
  have "max 0 (min (int n - 1) r) < int n" if "0 < n" for n r using that by (simp add: max_def min_def)
  moreover have "0 < length values" using ne by simp
  ultimately have "max 0 (min (int (length values) - 1) (round_half_even (q * of_nat (length values - 1)))) < int (length values)"
    by blast
  with ne have "nat (max 0 (min (int (length values) - 1) (round_half_even (q * of_nat (length values - 1))))) < length (sort values)"
    by (simp only: length_sort nat_less_iff)
  then show "v \<in> set values" unfolding v by (metis nth_mem set_sort)
qed

text \<open>
  C17 (functional). The metrics add up in every reachable state of the traces: running, waiting and
  completed runs are all runs; the success rate is a rate; every agent is listed once; the steps of the
  agents add up to the steps that are stored, and their failures to the failed ones; and the 95th
  percentile of the run latency is one of the latencies of a finished run.
\<close>

theorem trace_metrics_add_up:
  fixes c :: ctx and today_start :: instant
  assumes "trace_reachable te td"
  defines "m \<equiv> build_metrics c today_start td"
  shows "mx_runs_running m + mx_runs_waiting_approval m + mx_completed_runs m = mx_total_runs m \<and>
    (\<forall>q. mx_success_rate m = Some q \<longrightarrow> 0 \<le> q \<and> q \<le> 1) \<and>
    distinct (map ab_agent_name (mx_by_agent m)) \<and>
    sum_list (map ab_steps_total (mx_by_agent m)) = tk_steps_total (mx_token_usage m) \<and>
    sum_list (map ab_failures (mx_by_agent m)) = length (filter (\<lambda>x. os_status x = STEP_FAILED) (td_steps td)) \<and>
    (\<forall>v. mx_p95_latency_ms m = Some v \<longrightarrow>
       (\<exists>r \<in> set (td_runs td). or_status r \<in> TERMINAL_STATUSES \<and> or_latency_ms r = Some v))"
proof -
  have steps: "steps_ok td" using trace_reachable_ok [OF assms(1)] by (simp add: trace_ok_def)
  let ?zip = "zip (td_metrics td) (td_steps td)" and ?agents = "traced_agents c td"
  have joined: "joined td = ?zip" by (rule joined_zip [OF steps])
  have len: "length (td_metrics td) = length (td_steps td)"
    using steps by (metis steps_ok_def length_map)
  have agents: "distinct ?agents" "set ?agents = om_agent_name ` fst ` set ?zip"
    by (simp_all add: traced_agents_def joined image_image case_prod_unfold)
  note fields = m_def build_metrics_def Let_def observability_metrics.select_convs
  have "mx_runs_running m + mx_runs_waiting_approval m + mx_completed_runs m = mx_total_runs m"
    using count_runs_total [of "td_runs td"] by (simp add: fields count_runs_def)
  moreover have "\<forall>q. mx_success_rate m = Some q \<longrightarrow> 0 \<le> q \<and> q \<le> 1"
    by (simp add: fields divide_le_eq)
  moreover have "distinct (map ab_agent_name (mx_by_agent m))"
    using agents(1) by (simp add: fields comp_def agent_breakdown_of_def)
  moreover have "sum_list (map ab_steps_total (mx_by_agent m)) = tk_steps_total (mx_token_usage m)"
  proof -
    have "sum_list (map (\<lambda>k. length (filter (\<lambda>p. om_agent_name (fst p) = k) ?zip)) ?agents) = length ?zip"
      by (rule sum_counts [OF agents(1)]) (use agents(2) in blast)
    then show ?thesis using len by (simp add: fields comp_def agent_breakdown_of_def joined case_prod_unfold)
  qed
  moreover have "sum_list (map ab_failures (mx_by_agent m)) = length (filter (\<lambda>x. os_status x = STEP_FAILED) (td_steps td))"
  proof -
    let ?failed = "filter (\<lambda>p. os_status (snd p) = STEP_FAILED) ?zip"
    have "sum_list (map (\<lambda>k. length (filter (\<lambda>p. om_agent_name (fst p) = k) ?failed)) ?agents) = length ?failed"
      by (rule sum_counts [OF agents(1)]) (use agents(2) in auto)
    moreover have "map snd ?zip = td_steps td" using len by simp
    then have "length ?failed = length (filter (\<lambda>x. os_status x = STEP_FAILED) (td_steps td))"
      by (metis (no_types, lifting) filter_map length_map comp_apply filter_cong)
    ultimately show ?thesis
      by (simp add: fields comp_def agent_breakdown_of_def joined case_prod_unfold conj_commute)
  qed
  moreover have "\<exists>r \<in> set (td_runs td). or_status r \<in> TERMINAL_STATUSES \<and> or_latency_ms r = Some v"
    if "mx_p95_latency_ms m = Some v" for v
  proof -
    from that have "v \<in> set (latency_samples td)" by (simp add: fields percentile_sample)
    then have "v \<in> set (finished_latencies (sort_by by_start_desc (td_runs td)))"
      unfolding latency_samples_def by (rule in_set_takeD)
    then show ?thesis by (auto simp: finished_latencies_def map_filter_def)
  qed
  ultimately show ?thesis by blast
qed

section \<open>A traced run\<close>

definition demo_te :: trace_env where
  "demo_te = \<lparr>te_uuid4 = (\<lambda>n. replicate n (CHR ''t'')), te_clock = (\<lambda>n. int n * 1000000),
     te_details = (\<lambda>_. \<lparr>ad_latency_ms = None, ad_input_tokens = Some 7, ad_output_tokens = None, ad_output = NoOutput,
       ad_request_count = Some 1, ad_schema_retries = Some 0\<rparr>), te_exc_text = (\<lambda>_. ''error'')\<rparr>"

definition demo_opened :: "uuid option \<times> trace_db" where
  "demo_opened = begin_trace demo_te True None (Some ''t'') (Some ''local'') (Some ''m'') empty_traces"

definition demo_flow :: workflow_run where
  "demo_flow = hd (w_runs (demo_finished ACT_INSPECT))"

definition demo_traced :: trace_db where
  "demo_traced = the (complete_result demo_te [] (Some demo_flow) [] None None (demo_finished ACT_INSPECT) (snd demo_opened))"

lemma demo_opened_facts:
  "fst demo_opened = Some []"
  "\<not> Option.is_none (get_trace_run [] (snd demo_opened))"
  "Option.is_none (or_workflow_run_id (the (get_trace_run [] (snd demo_opened))))"
  by code_simp+

lemma demo_completes: "\<not> Option.is_none (complete_result demo_te [] (Some demo_flow) [] None None (demo_finished ACT_INSPECT) (snd demo_opened))"
  by code_simp

lemma demo_traced_steps: "length (td_steps demo_traced) = 3"
  by code_simp

lemma demo_audit_rows: "length (audit_rows (wr_id demo_flow) (demo_finished ACT_INSPECT)) = 3"
  by code_simp

lemma demo_flow_status: "map_workflow_status (wr_status demo_flow) = OBS_SUCCESS"
  by code_simp

lemma demo_untraced: "Option.is_none (find_run_by_workflow_run (wr_id demo_flow) (snd demo_opened))"
  by code_simp

lemma demo_complete:
  "complete_result demo_te [] (Some demo_flow) [] None None (demo_finished ACT_INSPECT) (snd demo_opened) = Some demo_traced"
  using demo_completes by (simp add: demo_traced_def Option.is_none_def)

lemma demo_opened_reachable: "trace_reachable demo_te (snd demo_opened)"
proof -
  have "begin_trace demo_te True None (Some ''t'') (Some ''local'') (Some ''m'') empty_traces = (fst demo_opened, snd demo_opened)"
    by (simp add: demo_opened_def)
  from trace_reachable.later [OF trace_reachable.initial trace_step.opened [OF this]] show ?thesis .
qed

lemma demo_traced_reachable: "trace_reachable demo_te demo_traced"
proof -
  have "trace_step demo_te (snd demo_opened)
     (complete_trace demo_te True (Some []) (Some demo_flow) [] None None (demo_finished ACT_INSPECT) (snd demo_opened))"
    by (rule trace_step.completed)
  then show ?thesis using trace_reachable.later [OF demo_opened_reachable]
    by (simp add: complete_trace_def committed_def demo_complete)
qed


theorem trace_of_start_witness:
  "\<exists>r. find_run_by_workflow_run (wr_id demo_flow) demo_traced = Some r \<and> or_run_id r = [] \<and> or_status r = OBS_SUCCESS \<and>
     map os_source_agent_run_id (filter (\<lambda>x. os_run_id x = []) (td_steps demo_traced)) =
     map ar_id (audit_rows (wr_id demo_flow) (demo_finished ACT_INSPECT))"
proof -
  obtain r0 where r0: "get_trace_run [] (snd demo_opened) = Some r0" "or_workflow_run_id r0 = None"
    using demo_opened_facts(2,3) by (auto simp: Option.is_none_def)
  from demo_audit_rows have "audit_rows (wr_id demo_flow) (demo_finished ACT_INSPECT) \<noteq> []" by auto
  with trace_of_start [OF demo_opened_reachable r0 demo_complete] demo_flow_status demo_untraced show ?thesis by (auto simp: Option.is_none_def)
qed

theorem trace_metrics_add_up_witness:
  "mx_total_runs (build_metrics demo_ctx 0 demo_traced) =
     mx_runs_running (build_metrics demo_ctx 0 demo_traced) + mx_runs_waiting_approval (build_metrics demo_ctx 0 demo_traced)
     + mx_completed_runs (build_metrics demo_ctx 0 demo_traced) \<and>
   sum_list (map ab_steps_total (mx_by_agent (build_metrics demo_ctx 0 demo_traced))) = 3"
  using trace_metrics_add_up [OF demo_traced_reachable, of demo_ctx 0] demo_traced_steps
  by (simp add: build_metrics_def Let_def)

end
