(* ===== verification/Spec2Isabelle.thy ===== *)
theory Spec2Isabelle
  imports WorkflowProps TelemetryProps GovernanceProps ControlDemo ScenarioProps ProviderProps TracingProps
begin

text \<open>
  A verification development for the industrial AI control tower: the Python backend under
  \<^verbatim>\<open>src/backend/app\<close>.

  The program. Devices publish telemetry over MQTT. The ingestion service validates a message, stores
  the sample once, evaluates the alarm rules in a savepoint, folds breaches into open alarms, correlates
  alarms into incidents, publishes the newest sample to a Redis cache and to WebSocket clients, and runs
  an online diagnosis on a sliding window. An operator moves incidents through their lifecycle and starts
  a decision workflow on an incident and a diagnosis: three language-model agents triage, plan and review
  in a graph, a deterministic safety policy blocks the plan, lets it through or asks for a person's
  approval, and a work order is drafted. Every step writes the audit trail. Requests pass a security
  boundary - token, role grants, governance policies - and organisation scopes bound which devices and
  which rows of the hierarchy an identity sees. Devices that speak an industrial protocol are polled by
  the gateway: one runtime per device connects, reads, reconnects and hands normalised samples to the
  ingestion service. Their definitions are versioned configurations - drafted, validated, published,
  applied to the running gateway and confirmed - of devices that hang in a hierarchy of sites and lines.
  An observability layer traces every workflow run without taking part in it, and acceptance scenarios
  judge a recorded run against the labelled expectations of the scenario.

  \<^bold>\<open>Theories and sources.\<close>
  \<^item> \<open>Prelude\<close>: results with errors, Python values, text, stable sorting as \<^verbatim>\<open>ORDER BY\<close>, table rows,
    event systems. \<open>States\<close>: \<^verbatim>\<open>incidents/states.py\<close>. \<open>WorkflowContracts\<close>, \<open>Entities\<close>: the typed
    contracts, the rows of \<^verbatim>\<open>models/entities.py\<close> and \<^verbatim>\<open>incidents/models.py\<close>, the errors, the request
    context \<open>ctx\<close> and the database \<open>world\<close>. \<open>AuditTrail\<close>: \<^verbatim>\<open>repositories/audit.py\<close>.
  \<^item> \<open>Rules\<close>, \<open>Alarms\<close>: the rule engine, the rule registry and the alarm lifecycle
    (\<^verbatim>\<open>incidents/rules.py\<close>, \<^verbatim>\<open>service.py\<close>, \<^verbatim>\<open>correlation.py\<close>, the alarm repositories). \<open>AlarmLemmas\<close>,
    \<open>AlarmSystem\<close>, \<open>AlarmProps\<close>: the table invariant, the alarm state machine, the properties.
  \<^item> \<open>Incidents\<close>, \<open>Operations\<close>: \<^verbatim>\<open>incidents/incident_service.py\<close>, \<^verbatim>\<open>operations.py\<close>, the incident
    repositories and endpoints. \<open>IncidentLemmas\<close>, \<open>IncidentProps\<close>.
  \<^item> \<open>Policy\<close>, \<open>Graph\<close>, \<open>Workflow\<close>: \<^verbatim>\<open>workflow/policy.py\<close>, \<^verbatim>\<open>graph.py\<close>, \<^verbatim>\<open>service.py\<close>,
    \<^verbatim>\<open>knowledge/query.py\<close>. \<open>GraphLemmas\<close>, \<open>WorkflowLemmas\<close>, \<open>Tower\<close> (all services as one state machine
    whose states carry the runs that are executing), \<open>WorkflowDemo\<close> (a concrete scenario),
    \<open>WorkflowProps\<close>.
  \<^item> \<open>Telemetry\<close>, \<open>Ingestion\<close>: the message contract, sample storage, history pages, the cache, the
    fan-out, devices, online diagnosis and ingestion. \<open>TelemetryLemmas\<close>, \<open>TelemetryProps\<close>.
  \<^item> \<open>Rbac\<close>, \<open>Identity\<close>, \<open>Boundary\<close>: permissions, identity tables, tokens, passwords, the policy engine,
    the permission check, the login rate limit and the authentication endpoints (\<^verbatim>\<open>security/\<close>,
    \<^verbatim>\<open>api/auth.py\<close>). \<open>Organizations\<close>: \<^verbatim>\<open>security/scope_policy.py\<close>, \<^verbatim>\<open>api/organizations.py\<close>. \<open>Governance\<close>:
    \<^verbatim>\<open>api/governance.py\<close>. \<open>BoundaryLemmas\<close>: what the boundary leaves alone and decides. \<open>BoundaryProps\<close>,
    \<open>ScopeProps\<close>, \<open>GovernanceProps\<close>: refusals, login and registration; reach, visibility and integrity of
    the hierarchy; stored policies and the change ledger.
  \<^item> \<open>Gateway\<close>, \<open>GatewayRuntime\<close>, \<open>GatewayControl\<close>: \<^verbatim>\<open>gateway/models.py\<close>, \<^verbatim>\<open>normalizer.py\<close>,
    \<^verbatim>\<open>ingestion.py\<close>, \<^verbatim>\<open>runtime.py\<close>, \<^verbatim>\<open>registry.py\<close>, \<^verbatim>\<open>gateway.py\<close> and the contracts of \<^verbatim>\<open>adapters/\<close>.
    The polling task of a device is a state machine: its position is the await it is at, an event is what
    that await returns. \<open>GatewayProps\<close>: the invariant of every reachable runtime, the bound on
    reconnecting, isolation of devices, and the ingestion contract of a normalised sample.
  \<^item> \<open>AssetConfig\<close>, \<open>ConfigService\<close>, \<open>ConfigSource\<close>, \<open>ConfigApi\<close>: the services of \<^verbatim>\<open>assetconfig/\<close>, the
    start of the gateway from the stored configurations (\<^verbatim>\<open>_build_managed_gateway\<close> of \<^verbatim>\<open>main.py\<close>) and the
    endpoints of \<^verbatim>\<open>api/configurations.py\<close>, \<^verbatim>\<open>api/assets.py\<close> and \<^verbatim>\<open>api/connectivity.py\<close>. \<open>AssetLemmas\<close>:
    the invariant of the configuration tables and the step relation of all configuration operations under
    any interleaving. \<open>AssetProps\<close>: the contract of whatever applies a definition (the locale
    \<open>definition_applier\<close>, interpreted on the gateway and on the null applier of the code) and the properties
    of publication and of the version history. \<open>ControlProps\<close>: overlapping applications, the asset tree, the
    guarded routes, a gateway started from a store. \<open>ControlDemo\<close>: a concrete device and its witnesses.
  \<^item> \<open>Provider\<close>: \<^verbatim>\<open>workflow/provider.py\<close>, the prompts, the loop that repeats a structured call until the
    answer fits the schema, and the test provider. \<open>ProviderProps\<close>: how many exchanges a call makes and what
    it returns, and the run of the graph under the test provider.
  \<^item> \<open>Tracing\<close>: \<^verbatim>\<open>observability/\<close> and \<^verbatim>\<open>api/observability.py\<close>, the trace tables, the tracer, the observed
    workflow service and the metrics. \<open>TracingProps\<close>: tracing does not change what the workflow service does,
    the invariant of the trace tables, what the trace of a run holds, the sums of the metrics.
  \<^item> \<open>Scenario\<close>: \<^verbatim>\<open>scenarios/contracts.py\<close>, \<^verbatim>\<open>evaluator.py\<close> and \<^verbatim>\<open>metrics.py\<close>. \<open>ScenarioProps\<close>: when a
    scenario passes, and what the metrics of a suite say of its results.

  \<^bold>\<open>State and operations.\<close> A table is the list of its rows in insertion order; a query filters, sorts
  stably and takes. An operation takes the request context and the database and returns \<open>Inl\<close> the
  exception or \<open>Inr\<close> a value with the new database: an exception leaves the transaction uncommitted.
  Operations that commit and then raise return the database beside the result. \<^verbatim>\<open>uuid4()\<close> and the clock
  are streams of the context, read through counters in the database record; the properties that need
  fresh identifiers assume it of the stream. What other sessions commit in the middle of an operation is an
  argument (\<open>others\<close>, \<open>ie_others\<close>), as is what abandoned work leaves in streams and counters
  (\<open>ie_abandoned\<close>) and whether Redis answers.

  \<^bold>\<open>Parameters.\<close> The agents, the knowledge index, the hash functions, the model runtime, PyJWT, bcrypt, the
  collation of the database and the ISO date parser are arguments. LangGraph's answer to a resume of a
  thread that does not wait is an argument too. So are pydantic's validation and dump of a device
  definition (\<open>pyd_env\<close>) and the contents of the bootstrap file. What a device answers and when a timer
  fires are the events of a runtime; what a runtime goes through while the gateway waits for it is an
  argument of the operation that waits. The exchange with a language model, the JSON schema
  validation of its answer and the dump of a prompt are arguments of the provider. The tracer has its own
  streams of identifiers and clock readings and is told whether its session works and what an audit row
  holds under the latency, token and payload keys.

  \<^bold>\<open>Termination.\<close> Every definition is total: recursion is structural, on retries, on messages or on rows;
  the graph loop descends on the node order, waiting for a runtime recurses on the rounds of events it
  goes through. Following history cursors takes at most one page per sample. Only the asset tree takes
  fuel, as many units as there are nodes; a hierarchy has two levels, and \<open>asset_tree_exact\<close> shows that the
  tree holds every node and every attached device exactly once.

  \<^bold>\<open>Left out of the model.\<close> Columns no modelled operation reads (\<^verbatim>\<open>updated_at\<close>, metadata, latencies, prompt
  versions); column widths except that of the telemetry schema version; NUL characters; node timeouts,
  which are agents that raise; characters above code point 255. The cache compares time stamps as doubles,
  which tell microseconds apart until the year 2255. In the gateway: a cancelled task that ignores its
  cancellation; back-off delays, and the latencies and rates of traces and scenarios, are
  rationals; \<^verbatim>\<open>func.now()\<close> is a clock reading; the text of an apply timeout
  names the default wait of ten seconds. Descriptions and metadata of asset nodes.

  \<^bold>\<open>Not modelled.\<close> Feature extraction, training and evaluation (numerical libraries), knowledge retrieval
  (a matrix search), the HTTP client of the language model, the socket clients of the protocol adapters,
  Prometheus registration, the scenario runner that drives a whole system, migrations, scripts, the
  simulator and the front end.
\<close>

end
